(* ===== verification/Jeryu_Prelude.thy ===== *)
theory Jeryu_Prelude
  imports Main "HOL-Library.Word" "HOL-Library.Char_ord" "HOL-Library.List_Lexorder"
    "HOL-Library.Sublist"
begin

text \<open>
  The Rust vocabulary shared by every component: results with early return, machine
  integers with the saturating and checked operations of the standard library, strings and
  the \<open>str\<close> methods the sources call, and decimal and hexadecimal formatting.

  A Rust \<open>String\<close> is modelled by its UTF-8 bytes, so \<open>length\<close> is \<open>str::len\<close> and the
  lexicographic order of \<open>HOL-Library.List_Lexorder\<close> over \<open>HOL-Library.Char_ord\<close> is
  the bytewise order Rust uses for \<open>Ord\<close>. Operations the sources phrase over Unicode
  scalar values (\<open>trim\<close>, \<open>is_control\<close>) look at the encoded sequences.
\<close>

named_theorems rust_defs \<open>unfolding rules for the Rust vocabulary\<close>

section \<open>Results\<close>

type_synonym ('a, 'e) result = "'e + 'a"

abbreviation Ok :: "'a \<Rightarrow> ('a, 'e) result" where "Ok \<equiv> Inr"
abbreviation Err :: "'e \<Rightarrow> ('a, 'e) result" where "Err \<equiv> Inl"

text \<open>The \<open>?\<close> operator: continue with the value or return the error.\<close>

definition and_then :: "('a, 'e) result \<Rightarrow> ('a \<Rightarrow> ('b, 'e) result) \<Rightarrow> ('b, 'e) result" where
  "and_then r f = (case r of Inl e \<Rightarrow> Inl e | Inr x \<Rightarrow> f x)"

definition map_err :: "('e \<Rightarrow> 'f) \<Rightarrow> ('a, 'e) result \<Rightarrow> ('a, 'f) result" where
  "map_err h r = (case r of Inl e \<Rightarrow> Inl (h e) | Inr x \<Rightarrow> Inr x)"

definition ok_or :: "'e \<Rightarrow> 'a option \<Rightarrow> ('a, 'e) result" where
  "ok_or e x = (case x of None \<Rightarrow> Inl e | Some v \<Rightarrow> Inr v)"

definition ensure :: "bool \<Rightarrow> 'e \<Rightarrow> (unit, 'e) result" where
  "ensure b e = (if b then Inr () else Inl e)"

text \<open>A \<open>for\<close> loop over a list whose body ends in \<open>?\<close>.\<close>

fun for_each :: "('a \<Rightarrow> (unit, 'e) result) \<Rightarrow> 'a list \<Rightarrow> (unit, 'e) result" where
  "for_each f [] = Inr ()"
| "for_each f (x # xs) = and_then (f x) (\<lambda>_. for_each f xs)"

text \<open>Collecting an iterator of results into a result of a vector.\<close>

fun collect_results :: "('a, 'e) result list \<Rightarrow> ('a list, 'e) result" where
  "collect_results [] = Inr []"
| "collect_results (r # rs) =
     and_then r (\<lambda>x. and_then (collect_results rs) (\<lambda>xs. Inr (x # xs)))"

lemma and_then_simps [simp]:
  "and_then (Inl e) f = Inl e" "and_then (Inr x) f = f x"
  by (simp_all add: and_then_def)

lemma and_then_Ok_iff [simp]:
  "and_then r f = Inr y \<longleftrightarrow> (\<exists>x. r = Inr x \<and> f x = Inr y)"
  by (cases r) auto

lemma and_then_Err_iff:
  "and_then r f = Inl e \<longleftrightarrow> r = Inl e \<or> (\<exists>x. r = Inr x \<and> f x = Inl e)"
  by (cases r) auto

lemma and_then_assoc: "and_then (and_then r f) g = and_then r (\<lambda>x. and_then (f x) g)"
  by (cases r) auto

lemma map_err_simps [simp]:
  "map_err h (Inl e) = Inl (h e)" "map_err h (Inr x) = Inr x"
  by (simp_all add: map_err_def)

lemma map_err_Ok_iff [simp]: "map_err h r = Inr x \<longleftrightarrow> r = Inr x"
  by (cases r) auto

lemma ok_or_simps [simp]: "ok_or e None = Inl e" "ok_or e (Some v) = Inr v"
  by (simp_all add: ok_or_def)

lemma ok_or_Ok_iff [simp]: "ok_or e x = Inr v \<longleftrightarrow> x = Some v"
  by (cases x) auto

lemma ensure_simps [simp]:
  "ensure True e = Inr ()" "ensure False e = Inl e"
  "ensure b e = Inr u \<longleftrightarrow> b" "ensure b e = Inl e' \<longleftrightarrow> \<not> b \<and> e' = e"
  by (auto simp: ensure_def)

lemma for_each_Ok_iff [simp]: "for_each f xs = Inr u \<longleftrightarrow> (\<forall>x \<in> set xs. f x = Inr ())"
  by (induction xs) auto

lemma for_each_Err: "for_each f xs = Inl e \<Longrightarrow> \<exists>x \<in> set xs. f x = Inl e"
  by (induction xs) (auto simp: and_then_Err_iff)

lemma collect_results_Ok_iff:
  "collect_results rs = Inr xs \<longleftrightarrow> rs = map Inr xs"
  by (induction rs arbitrary: xs) (auto simp: Cons_eq_map_conv)

section \<open>Machine integers\<close>

type_synonym u8 = "8 word"
type_synonym u32 = "32 word"
type_synonym u64 = "64 word"

definition sat_add :: "'a::len word \<Rightarrow> 'a word \<Rightarrow> 'a word" where
  "sat_add a b = (if unat a + unat b < 2 ^ LENGTH('a) then a + b else - 1)"

definition sat_sub :: "'a::len word \<Rightarrow> 'a word \<Rightarrow> 'a word" where
  "sat_sub a b = (if a < b then 0 else a - b)"

definition sat_mul :: "'a::len word \<Rightarrow> 'a word \<Rightarrow> 'a word" where
  "sat_mul a b = (if unat a * unat b < 2 ^ LENGTH('a) then a * b else - 1)"

definition checked_add :: "'a::len word \<Rightarrow> 'a word \<Rightarrow> 'a word option" where
  "checked_add a b = (if unat a + unat b < 2 ^ LENGTH('a) then Some (a + b) else None)"

lemma unat_lt_2p: "unat a < 2 ^ LENGTH('a)" for a :: "'a::len word"
  by (rule unsigned_less)

lemma unat_minus_one_word: "unat (- 1 :: 'a::len word) = 2 ^ LENGTH('a) - 1"
  by (simp add: unsigned_minus_1_eq_mask mask_eq_exp_minus_1)

lemma unat_sat_add:
  "unat (sat_add a b) = min (unat a + unat b) (2 ^ LENGTH('a) - 1)"
  for a b :: "'a::len word"
proof (cases "unat a + unat b < 2 ^ LENGTH('a)")
  case True
  then show ?thesis by (simp add: sat_add_def unat_word_ariths)
next
  case False
  then show ?thesis by (simp add: sat_add_def unat_minus_one_word)
qed

lemma sat_add_ge: "a \<le> sat_add a b"
  unfolding word_le_nat_alt unat_sat_add using unat_lt_2p [of a] by linarith

lemma sat_add_one_gt: "a \<noteq> - 1 \<Longrightarrow> a < sat_add a 1" for a :: "'a::len word"
proof -
  assume "a \<noteq> - 1"
  then have "unat a \<noteq> 2 ^ LENGTH('a) - 1"
    by (metis unat_minus_one_word unsigned_word_eqI)
  with unat_lt_2p [of a] have "unat a + 1 < 2 ^ LENGTH('a)" by linarith
  then show ?thesis by (simp add: word_less_nat_alt unat_sat_add)
qed

lemma sat_add_saturated [simp]: "sat_add (- 1) 1 = - 1"
  by (simp add: sat_add_def unat_minus_one_word)

lemma unat_inc: "a < b \<Longrightarrow> unat (a + 1) = unat a + 1" for a b :: "'a::len word"
proof -
  assume "a < b"
  then have "unat a + 1 < 2 ^ LENGTH('a)"
    using unat_lt_2p [of b] unfolding word_less_nat_alt by linarith
  then show ?thesis by (simp add: unat_word_ariths)
qed

lemma word_inc_le: "a < b \<Longrightarrow> a + 1 \<le> b" for a b :: "'a::len word"
  by (simp add: word_le_nat_alt unat_inc) (simp add: word_less_nat_alt)

lemma word_inc_gt: "a < b \<Longrightarrow> a < a + 1" for a b :: "'a::len word"
  by (simp add: word_less_nat_alt [of a "a + 1"] unat_inc)

lemma word_one_le_iff: "1 \<le> w \<longleftrightarrow> w \<noteq> 0" for w :: "'a::len word"
  using unat_eq_zero [of w] by (auto simp: word_le_nat_alt)

lemma unat_sat_sub: "unat (sat_sub a b) = unat a - unat b"
  by (auto simp: sat_sub_def word_less_nat_alt unat_sub word_le_nat_alt)

lemma sat_sub_le: "sat_sub a b \<le> a"
  by (simp add: word_le_nat_alt unat_sat_sub)

lemma checked_add_Some_iff:
  "checked_add a b = Some c \<longleftrightarrow> unat a + unat b < 2 ^ LENGTH('a) \<and> c = a + b"
  for a b :: "'a::len word"
  by (auto simp: checked_add_def)

text \<open>Overflow shows as a sum below its first argument, which evaluates without natural numbers.\<close>

lemma checked_add_code [code]: "checked_add a b = (if a \<le> a + b then Some (a + b) else None)"
  by (simp add: checked_add_def no_olen_add_nat)

lemma checked_add_sat_add: "checked_add a b = Some c \<Longrightarrow> sat_add a b = c"
  by (simp add: checked_add_Some_iff sat_add_def)

lemma unat_checked_add: "checked_add a b = Some c \<Longrightarrow> unat c = unat a + unat b"
  by (auto simp: checked_add_Some_iff unat_word_ariths)

section \<open>Strings\<close>

definition starts_with :: "string \<Rightarrow> string \<Rightarrow> bool" where
  "starts_with s p \<longleftrightarrow> prefix p s"

definition ends_with :: "string \<Rightarrow> string \<Rightarrow> bool" where
  "ends_with s p \<longleftrightarrow> suffix p s"

definition str_contains :: "string \<Rightarrow> string \<Rightarrow> bool" where
  "str_contains s p \<longleftrightarrow> sublist p s"

definition strip_prefix :: "string \<Rightarrow> string \<Rightarrow> string option" where
  "strip_prefix p s = (if prefix p s then Some (drop (length p) s) else None)"

definition strip_suffix :: "string \<Rightarrow> string \<Rightarrow> string option" where
  "strip_suffix p s = (if suffix p s then Some (take (length s - length p) s) else None)"

text \<open>\<open>str::replace\<close> with a single-character pattern.\<close>

definition replace_char :: "char \<Rightarrow> string \<Rightarrow> string \<Rightarrow> string" where
  "replace_char c r s = concat (map (\<lambda>x. if x = c then r else [x]) s)"

text \<open>\<open>[String]::join\<close>.\<close>

fun join :: "string \<Rightarrow> string list \<Rightarrow> string" where
  "join sep [] = []"
| "join sep [x] = x"
| "join sep (x # y # zs) = x @ sep @ join sep (y # zs)"

text \<open>\<open>str::split\<close> with a single-character pattern: never empty.\<close>

fun split_char :: "char \<Rightarrow> string \<Rightarrow> string list" where
  "split_char c [] = [[]]"
| "split_char c (x # xs) =
     (if x = c then [] # split_char c xs
      else (case split_char c xs of [] \<Rightarrow> [[x]] | w # ws \<Rightarrow> (x # w) # ws))"

text \<open>\<open>str::split_once\<close>.\<close>

fun split_once :: "char \<Rightarrow> string \<Rightarrow> (string \<times> string) option" where
  "split_once c [] = None"
| "split_once c (x # xs) =
     (if x = c then Some ([], xs)
      else map_option (\<lambda>(a, b). (x # a, b)) (split_once c xs))"

lemma append_sep_inject:
  "c \<notin> set xs \<Longrightarrow> c \<notin> set ys \<Longrightarrow> xs @ c # r = ys @ c # r' \<longleftrightarrow> xs = ys \<and> r = r'"
proof (induction xs arbitrary: ys)
  case Nil
  then show ?case by (cases ys) auto
next
  case (Cons x xs)
  then show ?case by (cases ys) auto
qed

lemma in_concat_nth: "x \<in> set (concat xss) \<Longrightarrow> \<exists>k < length xss. x \<in> set (xss ! k)"
  by (induction xss) (auto, force)

lemma in_take_nth:
  assumes "x \<in> \<Union> (set ` set (take k xss))"
  shows "\<exists>i < k. i < length xss \<and> x \<in> set (xss ! i)"
proof -
  obtain i where "i < length (take k xss)" "x \<in> set (take k xss ! i)"
    using assms in_concat_nth [of x "take k xss"] by auto
  then show ?thesis by auto
qed

lemma in_map_filter: "y \<in> set (List.map_filter f xs) \<longleftrightarrow> (\<exists>x \<in> set xs. f x = Some y)"
  by (induction xs) (auto simp: map_filter_simps split: option.split)

lemma in_fst_filter: "j \<in> fst ` set (filter (P \<circ> snd) xs) \<longleftrightarrow> (\<exists>r. (j, r) \<in> set xs \<and> P r)"
  by force

lemma find_list_ex: "list_ex P xs \<Longrightarrow> \<exists>x \<in> set xs. find P xs = Some x \<and> P x"
  by (induction xs) auto

definition is_ascii_digit :: "char \<Rightarrow> bool" where
  "is_ascii_digit c \<longleftrightarrow> CHR ''0'' \<le> c \<and> c \<le> CHR ''9''"

definition is_ascii_lowercase :: "char \<Rightarrow> bool" where
  "is_ascii_lowercase c \<longleftrightarrow> CHR ''a'' \<le> c \<and> c \<le> CHR ''z''"

definition is_ascii_uppercase :: "char \<Rightarrow> bool" where
  "is_ascii_uppercase c \<longleftrightarrow> CHR ''A'' \<le> c \<and> c \<le> CHR ''Z''"

definition is_ascii_alphabetic :: "char \<Rightarrow> bool" where
  "is_ascii_alphabetic c \<longleftrightarrow> is_ascii_lowercase c \<or> is_ascii_uppercase c"

definition is_ascii_alphanumeric :: "char \<Rightarrow> bool" where
  "is_ascii_alphanumeric c \<longleftrightarrow> is_ascii_alphabetic c \<or> is_ascii_digit c"

definition to_ascii_lowercase :: "char \<Rightarrow> char" where
  "to_ascii_lowercase c = (if is_ascii_uppercase c then char_of (of_char c + 32 :: nat) else c)"

definition to_ascii_uppercase :: "char \<Rightarrow> char" where
  "to_ascii_uppercase c = (if is_ascii_lowercase c then char_of (of_char c - 32 :: nat) else c)"

text \<open>
  \<open>str::trim\<close> removes leading and trailing characters with the Unicode \<open>White_Space\<close>
  property. \<open>ws_len\<close> is the number of bytes of the white-space character at the front of a
  byte sequence (0 when there is none); \<open>ws_len_rev\<close> reads the reversed sequence.
\<close>

fun ws3 :: "nat \<Rightarrow> nat \<Rightarrow> nat \<Rightarrow> bool" where
  "ws3 a b c \<longleftrightarrow>
     (a = 225 \<and> b = 154 \<and> c = 128)
   \<or> (a = 226 \<and> b = 128 \<and> (128 \<le> c \<and> c \<le> 138 \<or> c = 168 \<or> c = 169 \<or> c = 175))
   \<or> (a = 226 \<and> b = 129 \<and> c = 159)
   \<or> (a = 227 \<and> b = 128 \<and> c = 128)"

definition ws1 :: "char \<Rightarrow> bool" where
  "ws1 c \<longleftrightarrow> (let n = of_char c :: nat in 9 \<le> n \<and> n \<le> 13 \<or> n = 32)"

definition ws2 :: "nat \<Rightarrow> nat \<Rightarrow> bool" where
  "ws2 a b \<longleftrightarrow> a = 194 \<and> (b = 133 \<or> b = 160)"

fun ws_len :: "string \<Rightarrow> nat" where
  "ws_len (a # b # c # s) =
     (if ws1 a then 1 else if ws2 (of_char a) (of_char b) then 2
      else if ws3 (of_char a) (of_char b) (of_char c) then 3 else 0)"
| "ws_len [a, b] = (if ws1 a then 1 else if ws2 (of_char a) (of_char b) then 2 else 0)"
| "ws_len [a] = (if ws1 a then 1 else 0)"
| "ws_len [] = 0"

fun ws_len_rev :: "string \<Rightarrow> nat" where
  "ws_len_rev (c # b # a # s) =
     (if ws1 c then 1 else if ws2 (of_char b) (of_char c) then 2
      else if ws3 (of_char a) (of_char b) (of_char c) then 3 else 0)"
| "ws_len_rev [b, a] = (if ws1 b then 1 else if ws2 (of_char a) (of_char b) then 2 else 0)"
| "ws_len_rev [a] = (if ws1 a then 1 else 0)"
| "ws_len_rev [] = 0"

lemma ws_len_le: "ws_len s \<le> length s"
  by (cases s rule: ws_len.cases) auto

lemma ws_len_rev_le: "ws_len_rev s \<le> length s"
  by (cases s rule: ws_len_rev.cases) auto

function trim_start :: "string \<Rightarrow> string" where
  "trim_start s = (if ws_len s = 0 then s else trim_start (drop (ws_len s) s))"
  by pat_completeness auto
termination
proof (relation "measure length")
  fix s :: string
  assume "ws_len s \<noteq> 0"
  with ws_len_le [of s] show "(drop (ws_len s) s, s) \<in> measure length" by simp
qed simp

function trim_start_rev :: "string \<Rightarrow> string" where
  "trim_start_rev s = (if ws_len_rev s = 0 then s else trim_start_rev (drop (ws_len_rev s) s))"
  by pat_completeness auto
termination
proof (relation "measure length")
  fix s :: string
  assume "ws_len_rev s \<noteq> 0"
  with ws_len_rev_le [of s] show "(drop (ws_len_rev s) s, s) \<in> measure length" by simp
qed simp

declare trim_start.simps [simp del] trim_start_rev.simps [simp del]

definition trim_end :: "string \<Rightarrow> string" where
  "trim_end s = rev (trim_start_rev (rev s))"

definition trim :: "string \<Rightarrow> string" where
  "trim s = trim_end (trim_start s)"

lemma trim_start_id: "ws_len s = 0 \<Longrightarrow> trim_start s = s"
  by (simp add: trim_start.simps)

lemma trim_start_rev_id: "ws_len_rev s = 0 \<Longrightarrow> trim_start_rev s = s"
  by (simp add: trim_start_rev.simps)

lemma trim_id: "ws_len s = 0 \<Longrightarrow> ws_len_rev (rev s) = 0 \<Longrightarrow> trim s = s"
  by (simp add: trim_def trim_end_def trim_start_id trim_start_rev_id)

lemma trim_Nil [simp]: "trim [] = []"
  by (simp add: trim_id)

lemma trim_start_length: "length (trim_start s) \<le> length s"
proof (induction s rule: trim_start.induct)
  case (1 s)
  then show ?case by (subst trim_start.simps) (auto intro: le_trans)
qed

lemma trim_start_rev_length: "length (trim_start_rev s) \<le> length s"
proof (induction s rule: trim_start_rev.induct)
  case (1 s)
  then show ?case by (subst trim_start_rev.simps) (auto intro: le_trans)
qed

lemma trim_start_id_iff: "trim_start s = s \<longleftrightarrow> ws_len s = 0"
proof
  assume eq: "trim_start s = s"
  show "ws_len s = 0"
  proof (rule ccontr)
    assume "ws_len s \<noteq> 0"
    then have "length (trim_start s) \<le> length s - ws_len s"
      using trim_start_length [of "drop (ws_len s) s"] by (subst trim_start.simps) simp
    with eq \<open>ws_len s \<noteq> 0\<close> ws_len_le [of s] show False by simp
  qed
qed (rule trim_start_id)

lemma trim_start_rev_id_iff: "trim_start_rev s = s \<longleftrightarrow> ws_len_rev s = 0"
proof
  assume eq: "trim_start_rev s = s"
  show "ws_len_rev s = 0"
  proof (rule ccontr)
    assume "ws_len_rev s \<noteq> 0"
    then have "length (trim_start_rev s) \<le> length s - ws_len_rev s"
      using trim_start_rev_length [of "drop (ws_len_rev s) s"] by (subst trim_start_rev.simps) simp
    with eq \<open>ws_len_rev s \<noteq> 0\<close> ws_len_rev_le [of s] show False by simp
  qed
qed (rule trim_start_rev_id)

lemma trim_id_iff: "trim s = s \<longleftrightarrow> ws_len s = 0 \<and> ws_len_rev (rev s) = 0"
proof
  assume eq: "trim s = s"
  have "length (trim s) \<le> length (trim_start s)"
    using trim_start_rev_length [of "rev (trim_start s)"] by (simp add: trim_def trim_end_def)
  with eq have "length (trim_start s) = length s" using trim_start_length [of s] by simp
  then have s: "trim_start s = s"
  proof (cases "ws_len s = 0")
    case False
    then have "length (trim_start s) \<le> length s - ws_len s"
      using trim_start_length [of "drop (ws_len s) s"] by (subst trim_start.simps) simp
    with False ws_len_le [of s] \<open>length (trim_start s) = length s\<close> show ?thesis by simp
  qed (rule trim_start_id)
  have "trim_start_rev (rev s) = rev s"
    using eq by (simp add: trim_def trim_end_def s) (metis rev_rev_ident)
  with s show "ws_len s = 0 \<and> ws_len_rev (rev s) = 0"
    by (simp add: trim_start_id_iff trim_start_rev_id_iff)
qed (simp add: trim_id)

text \<open>An ASCII character that is not white space.\<close>

definition plain :: "char \<Rightarrow> bool" where
  "plain c \<longleftrightarrow> \<not> ws1 c \<and> (of_char c :: nat) < 128"

lemma ws_len_plain: "plain c \<Longrightarrow> ws_len (c # s) = 0"
  by (cases "c # s" rule: ws_len.cases) (auto simp: plain_def ws2_def)

lemma ws_len_rev_plain: "plain c \<Longrightarrow> ws_len_rev (c # s) = 0"
  by (cases "c # s" rule: ws_len_rev.cases) (auto simp: plain_def ws2_def)

lemma ws_len_rev_before_plain:
  "ws_len_rev s = 0 \<Longrightarrow> plain c \<Longrightarrow> ws_len_rev (s @ c # t) = 0"
proof (cases s rule: ws_len_rev.cases)
  case (3 a)
  assume "ws_len_rev s = 0" "plain c"
  then show ?thesis by (cases t) (auto simp: 3 plain_def ws2_def split: if_splits)
qed (auto simp: plain_def ws2_def ws_len_rev_plain split: if_splits)

lemma trim_plain: "s \<noteq> [] \<Longrightarrow> plain (hd s) \<Longrightarrow> plain (last s) \<Longrightarrow> trim s = s"
proof (rule trim_id)
  assume s: "s \<noteq> []" "plain (hd s)" "plain (last s)"
  show "ws_len s = 0" using s by (cases s) (auto simp: ws_len_plain)
  show "ws_len_rev (rev s) = 0" using s by (cases s rule: rev_cases) (auto simp: ws_len_rev_plain)
qed

text \<open>
  \<open>char::is_control\<close>: the general category Cc, that is U+0000 to U+001F, U+007F, and
  U+0080 to U+009F (two bytes in UTF-8). The predicate holds of a sequence with no control
  character outside \<open>allowed\<close>.
\<close>

fun no_control :: "char set \<Rightarrow> string \<Rightarrow> bool" where
  "no_control allowed [] \<longleftrightarrow> True"
| "no_control allowed (c # s) \<longleftrightarrow>
     ((of_char c :: nat) < 32 \<or> (of_char c :: nat) = 127 \<longrightarrow> c \<in> allowed)
   \<and> \<not> ((of_char c :: nat) = 194
        \<and> (case s of [] \<Rightarrow> False | d # _ \<Rightarrow> 128 \<le> (of_char d :: nat) \<and> (of_char d :: nat) \<le> 159))
   \<and> no_control allowed s"

section \<open>Formatting of numbers\<close>

definition digit_char :: "nat \<Rightarrow> char" where
  "digit_char d = char_of (48 + d)"

fun show_nat :: "nat \<Rightarrow> string" where
  "show_nat n = (if n < 10 then [digit_char n] else show_nat (n div 10) @ [digit_char (n mod 10)])"

declare show_nat.simps [simp del]

definition show_word :: "'a::len word \<Rightarrow> string" where
  "show_word w = show_nat (unat w)"

definition show_int :: "int \<Rightarrow> string" where
  "show_int i = (if i < 0 then CHR ''-'' # show_nat (nat (- i)) else show_nat (nat i))"

definition show_bool :: "bool \<Rightarrow> string" where
  "show_bool b = (if b then ''true'' else ''false'')"

text \<open>Lower-case hexadecimal, zero-padded to a fixed width: \<open>{:016x}\<close> of a \<open>u64\<close>.\<close>

definition hex_digit :: "nat \<Rightarrow> char" where
  "hex_digit d = (if d < 10 then char_of (48 + d) else char_of (87 + d))"

fun hex_pad :: "nat \<Rightarrow> nat \<Rightarrow> string" where
  "hex_pad 0 n = []"
| "hex_pad (Suc w) n = hex_pad w (n div 16) @ [hex_digit (n mod 16)]"

definition hex16 :: "u64 \<Rightarrow> string" where
  "hex16 w = hex_pad 16 (unat w)"

text \<open>Reading decimal digits back, used to show that formatting loses nothing.\<close>

definition read_nat :: "string \<Rightarrow> nat" where
  "read_nat s = foldl (\<lambda>a c. 10 * a + (of_char c - 48)) 0 s"

lemma of_char_digit_char [simp]: "d < 10 \<Longrightarrow> (of_char (digit_char d) :: nat) = 48 + d"
  by (simp add: digit_char_def of_char_of)

lemma is_ascii_digit_of_char:
  "is_ascii_digit c \<longleftrightarrow> 48 \<le> (of_char c :: nat) \<and> (of_char c :: nat) \<le> 57"
  by (simp add: is_ascii_digit_def less_eq_char_def)

lemma is_ascii_digit_digit_char [simp]: "d < 10 \<Longrightarrow> is_ascii_digit (digit_char d)"
  by (simp add: is_ascii_digit_of_char)

lemma show_nat_digits: "c \<in> set (show_nat n) \<Longrightarrow> is_ascii_digit c"
proof (induction n rule: show_nat.induct)
  case (1 n)
  then show ?case
    by (cases "n < 10") (auto simp: show_nat.simps [of n])
qed

lemma show_nat_not_Nil [simp]: "show_nat n \<noteq> []"
  by (subst show_nat.simps) simp

lemma read_show_nat [simp]: "read_nat (show_nat n) = n"
proof (induction n rule: show_nat.induct)
  case (1 n)
  then show ?case
    by (cases "n < 10") (simp_all add: show_nat.simps [of n] read_nat_def)
qed

lemma show_nat_inject [simp]: "show_nat m = show_nat n \<longleftrightarrow> m = n"
  by (metis read_show_nat)

lemma show_word_inject [simp]: "show_word v = show_word w \<longleftrightarrow> v = w"
  for v w :: "'a::len word"
  by (auto simp: show_word_def intro: unsigned_word_eqI)

lemma show_word_digits: "c \<in> set (show_word w) \<Longrightarrow> is_ascii_digit c"
  by (auto simp: show_word_def dest: show_nat_digits)

lemma show_nat_minus_notin: "CHR ''-'' \<notin> set (show_nat n)"
  using show_nat_digits [of "CHR ''-''" n] by (auto simp: is_ascii_digit_of_char)

lemma show_int_inject [simp]: "show_int i = show_int j \<longleftrightarrow> i = j"
proof
  assume eq: "show_int i = show_int j"
  have "i < 0 \<longleftrightarrow> j < 0"
    using eq show_nat_minus_notin [of "nat i"] show_nat_minus_notin [of "nat j"]
    by (auto simp: show_int_def split: if_splits) (metis list.set_intros(1))+
  with eq show "i = j"
    by (auto simp: show_int_def split: if_splits)
qed simp

lemma length_hex_pad [simp]: "length (hex_pad w n) = w"
  by (induction w arbitrary: n) auto

lemma hex_digit_inject: "a < 16 \<Longrightarrow> b < 16 \<Longrightarrow> hex_digit a = hex_digit b \<Longrightarrow> a = b"
proof -
  assume ab: "a < 16" "b < 16" and "hex_digit a = hex_digit b"
  then have "(of_char (hex_digit a) :: nat) = of_char (hex_digit b)" by simp
  with ab show "a = b"
    by (auto simp: hex_digit_def of_char_of split: if_splits)
qed

lemma hex_pad_inject: "m < 16 ^ w \<Longrightarrow> n < 16 ^ w \<Longrightarrow> hex_pad w m = hex_pad w n \<Longrightarrow> m = n"
proof (induction w arbitrary: m n)
  case 0
  then show ?case by simp
next
  case (Suc w)
  then have "m div 16 = n div 16" "m mod 16 = n mod 16"
    by (auto intro!: Suc.IH hex_digit_inject simp: less_mult_imp_div_less mult.commute)
  then show ?case by (metis div_mult_mod_eq)
qed

lemma hex16_inject [simp]: "hex16 v = hex16 w \<longleftrightarrow> v = w"
proof
  have bound: "unat x < 16 ^ 16" for x :: u64
    using unat_lt_2p [of x] by simp
  assume "hex16 v = hex16 w"
  then have "unat v = unat w"
    unfolding hex16_def by (rule hex_pad_inject [OF bound bound])
  then show "v = w" by (rule unsigned_word_eqI)
qed simp

lemma length_hex16 [simp]: "length (hex16 w) = 16"
  by (simp add: hex16_def)

section \<open>Evaluation of numbers\<close>

text \<open>
  Code equations that compute on integers: the natural numbers of the definitions above are unary
  when they are evaluated.
\<close>

fun hex_pad_int :: "nat \<Rightarrow> int \<Rightarrow> string" where
  "hex_pad_int 0 n = []"
| "hex_pad_int (Suc w) n = hex_pad_int w (n div 16) @ [hex_digit (nat (n mod 16))]"

lemma hex_pad_int_nat: "hex_pad_int w (int n) = hex_pad w n"
proof (induction w arbitrary: n)
  case (Suc w)
  have "int n div 16 = int (n div 16)" "nat (int n mod 16) = n mod 16"
    by (simp_all add: zdiv_int nat_mod_distrib)
  with Suc show ?case by simp
qed simp

lemma hex16_code [code]: "hex16 w = hex_pad_int 16 (uint w)"
  unfolding hex16_def uint_nat by (rule hex_pad_int_nat [symmetric])

lemma sat_add_code [code]: "sat_add a b = (if a \<le> a + b then a + b else - 1)"
  by (simp add: sat_add_def no_olen_add_nat)

lemma sat_mul_code [code]:
  "sat_mul a b = (if uint a * uint b < 2 ^ LENGTH('a) then a * b else - 1)" for a :: "'a::len word"
proof -
  have "uint a * uint b < 2 ^ LENGTH('a) \<longleftrightarrow> int (unat a * unat b) < int (2 ^ LENGTH('a))"
    by (metis of_nat_mult of_nat_power of_nat_numeral uint_nat)
  then show ?thesis unfolding sat_mul_def of_nat_less_iff by simp
qed

end
