(* ===== verification/Btree.thy ===== *)
theory Btree
  imports Jeryu_Prelude
begin

text \<open>
  The ordered collections of the Rust standard library. A \<open>BTreeMap\<close> is its sequence of
  entries in ascending key order, a \<open>BTreeSet\<close> its sequence of elements: the sources
  iterate over both, so the order is observable. The interface the components rely on is the
  locale \<open>ordered_map\<close>; \<open>bt\<close> interprets it for sorted association lists.
\<close>

lemma map_of_rev: "distinct (map fst xs) \<Longrightarrow> map_of (rev xs) = map_of xs"
  by (rule map_of_inject_set [THEN iffD2]) (auto simp flip: rev_map)

section \<open>The interface of an ordered map\<close>

locale ordered_map =
  fixes new :: "'m"
    and ins :: "'k::linorder \<Rightarrow> 'v \<Rightarrow> 'm \<Rightarrow> 'm"
    and get :: "'m \<Rightarrow> 'k \<Rightarrow> 'v option"
    and entries :: "'m \<Rightarrow> ('k \<times> 'v) list"
    and wf :: "'m \<Rightarrow> bool"
  assumes wf_new: "wf new"
    and get_new: "get new k = None"
    and wf_ins: "wf m \<Longrightarrow> wf (ins k v m)"
    and get_ins: "get (ins k v m) k' = (if k' = k then Some v else get m k')"
    and entries_sorted: "wf m \<Longrightarrow> sorted_wrt (<) (map fst (entries m))"
    and get_entries: "get m k = map_of (entries m) k"
begin

lemma entry_iff:
  assumes "wf m"
  shows "(k, v) \<in> set (entries m) \<longleftrightarrow> get m k = Some v"
proof -
  have "distinct (map fst (entries m))"
    using entries_sorted [OF assms] by (simp add: strict_sorted_iff)
  then show ?thesis by (simp add: get_entries map_of_eq_Some_iff)
qed

lemma keys_iff: "k \<in> fst ` set (entries m) \<longleftrightarrow> get m k \<noteq> None"
  by (simp add: get_entries map_of_eq_None_iff)

text \<open>Collecting an iterator of pairs: every key keeps the last value it was given.\<close>

lemma wf_collect: "wf m \<Longrightarrow> wf (fold (\<lambda>(k, v). ins k v) xs m)"
  by (induction xs arbitrary: m) (auto simp: wf_ins)

lemma get_collect:
  "get (fold (\<lambda>(k, v). ins k v) xs m) k =
     (case map_of (rev xs) k of None \<Rightarrow> get m k | Some v \<Rightarrow> Some v)"
  by (induction xs arbitrary: m) (auto simp: get_ins map_add_def split: option.splits)

lemma get_collect_new:
  "get (fold (\<lambda>(k, v). ins k v) xs new) k = map_of (rev xs) k"
  by (simp add: get_collect get_new split: option.splits)

lemma get_collect_distinct:
  assumes "distinct (map fst xs)"
  shows "get (fold (\<lambda>(k, v). ins k v) xs new) k = map_of xs k"
  using assms by (simp add: get_collect_new map_of_rev)

end

section \<open>Sorted association lists\<close>

type_synonym ('k, 'v) btree_map = "('k \<times> 'v) list"

fun bt_insert :: "'k::linorder \<Rightarrow> 'v \<Rightarrow> ('k, 'v) btree_map \<Rightarrow> ('k, 'v) btree_map" where
  "bt_insert k v [] = [(k, v)]"
| "bt_insert k v ((k', v') # m) =
     (if k < k' then (k, v) # (k', v') # m
      else if k = k' then (k, v) # m
      else (k', v') # bt_insert k v m)"

abbreviation bt_get :: "('k, 'v) btree_map \<Rightarrow> 'k \<Rightarrow> 'v option" where
  "bt_get \<equiv> map_of"

definition bt_wf :: "('k::linorder, 'v) btree_map \<Rightarrow> bool" where
  "bt_wf m \<longleftrightarrow> sorted_wrt (<) (map fst m)"

definition bt_keys :: "('k, 'v) btree_map \<Rightarrow> 'k list" where
  "bt_keys m = map fst m"

definition bt_values :: "('k, 'v) btree_map \<Rightarrow> 'v list" where
  "bt_values m = map snd m"

text \<open>A loop over \<open>values_mut\<close> that rewrites every value.\<close>

definition bt_map_values :: "('v \<Rightarrow> 'w) \<Rightarrow> ('k, 'v) btree_map \<Rightarrow> ('k, 'w) btree_map" where
  "bt_map_values f m = map (map_prod (\<lambda>k. k) f) m"

definition bt_collect :: "('k::linorder \<times> 'v) list \<Rightarrow> ('k, 'v) btree_map" where
  "bt_collect xs = fold (\<lambda>(k, v). bt_insert k v) xs []"

lemma set_keys_bt_insert: "fst ` set (bt_insert k v m) = insert k (fst ` set m)"
  by (induction k v m rule: bt_insert.induct) (auto simp: insert_commute)

lemma bt_wf_Nil [simp]: "bt_wf []"
  by (simp add: bt_wf_def)

lemma bt_wf_insert [intro]: "bt_wf m \<Longrightarrow> bt_wf (bt_insert k v m)"
proof (induction m)
  case (Cons p m)
  obtain k' v' where p: "p = (k', v')" by (cases p)
  have "bt_wf m" "\<forall>x \<in> fst ` set m. k' < x"
    using Cons.prems by (auto simp: bt_wf_def p)
  with Cons.IH show ?case
    using set_keys_bt_insert [of k v m] by (simp add: bt_wf_def p) (auto simp: less_trans)
qed (simp add: bt_wf_def)

lemma bt_get_insert [simp]: "bt_get (bt_insert k v m) k' = (if k' = k then Some v else bt_get m k')"
  by (induction m) auto

interpretation bt: ordered_map "[]" bt_insert bt_get "\<lambda>m. m" bt_wf
  by unfold_locales (auto simp: bt_wf_insert, simp add: bt_wf_def)

lemma bt_wf_distinct: "bt_wf m \<Longrightarrow> distinct (map fst m)"
  by (simp add: bt_wf_def strict_sorted_iff)

lemma bt_wf_collect: "bt_wf (bt_collect xs)"
  unfolding bt_collect_def by (rule bt.wf_collect) simp

lemma bt_get_collect: "bt_get (bt_collect xs) k = map_of (rev xs) k"
  unfolding bt_collect_def by (rule bt.get_collect_new)

lemma bt_wf_eqI:
  assumes "bt_wf m" and "bt_wf m'" and "\<And>k. bt_get m k = bt_get m' k"
  shows "m = m'"
proof -
  have "set m = set m'"
    using assms(3) bt.entry_iff [OF assms(1)] bt.entry_iff [OF assms(2)] by auto
  moreover have "distinct m" "distinct m'" "sorted (map fst m)" "sorted (map fst m')"
    using assms(1,2) by (auto simp: bt_wf_def strict_sorted_iff distinct_map)
  moreover have "inj_on fst (set m \<union> set m')"
    using bt_wf_distinct [OF assms(1)] \<open>set m = set m'\<close> by (simp add: distinct_map)
  ultimately show ?thesis
    using map_sorted_distinct_set_unique [of fst m m'] bt_wf_def assms strict_sorted_iff by metis
qed

lemma bt_collect_id: "bt_wf m \<Longrightarrow> bt_collect m = m"
  by (rule bt_wf_eqI [OF bt_wf_collect])
    (auto simp: bt_get_collect map_of_rev bt_wf_distinct)

lemma bt_insert_same_keys:
  assumes "bt_wf m" and "bt_get m k \<noteq> None"
  shows "map fst (bt_insert k v m) = map fst m"
  using assms
proof (induction m)
  case (Cons p m)
  obtain k' v' where p: "p = (k', v')" by (cases p)
  have wf: "bt_wf m" and gt: "\<forall>x \<in> fst ` set m. k' < x"
    using Cons.prems(1) by (auto simp: bt_wf_def p)
  show ?case
  proof (cases "k = k'")
    case False
    with Cons.prems(2) have "bt_get m k \<noteq> None" by (simp add: p)
    moreover from this gt have "k' < k"
      by (metis bt.keys_iff)
    ultimately show ?thesis using Cons.IH wf by (auto simp: p)
  qed (simp add: p)
qed simp

lemma bt_insert_twice [simp]: "bt_insert k v (bt_insert k w m) = bt_insert k v m"
  by (induction m) auto

lemma bt_insert_middle:
  assumes "bt_wf (xs @ (k, v) # ys)"
  shows "bt_insert k w (xs @ (k, v) # ys) = xs @ (k, w) # ys"
proof (rule bt_wf_eqI)
  have "k \<notin> fst ` set xs" using assms by (auto simp: bt_wf_def sorted_wrt_append)
  then have "bt_get xs k = None" by (simp add: map_of_eq_None_iff)
  then show "bt_get (bt_insert k w (xs @ (k, v) # ys)) j = bt_get (xs @ (k, w) # ys) j" for j
    by (cases "bt_get xs j") (auto simp: map_add_def)
  show "bt_wf (xs @ (k, w) # ys)" using assms by (simp add: bt_wf_def)
qed (use assms in blast)

lemma bt_insert_sum:
  fixes f :: "'v \<Rightarrow> nat"
  assumes "bt_wf m" and "bt_get m k = Some w"
  shows "sum_list (map f (bt_values (bt_insert k v m))) + f w = sum_list (map f (bt_values m)) + f v"
  using assms
proof (induction m)
  case (Cons p m)
  obtain k' v' where p: "p = (k', v')" by (cases p)
  have wf: "bt_wf m" and gt: "\<forall>x \<in> fst ` set m. k' < x"
    using Cons.prems(1) by (auto simp: bt_wf_def p)
  show ?case
  proof (cases "k = k'")
    case False
    with Cons.prems(2) have get: "bt_get m k = Some w" by (simp add: p)
    then have "k' < k" using gt by (metis bt.keys_iff option.distinct(1))
    then have "\<not> k < k'" by simp
    with Cons.IH [OF wf get] False show ?thesis by (simp add: p bt_values_def)
  qed (use Cons.prems in \<open>simp add: p bt_values_def\<close>)
qed simp

lemma bt_map_values_keys [simp]: "map fst (bt_map_values f m) = map fst m"
  by (simp add: bt_map_values_def comp_def)

lemma bt_wf_map_values [simp]: "bt_wf (bt_map_values f m) = bt_wf m"
  unfolding bt_wf_def by (simp only: bt_map_values_keys)

lemma bt_get_map_values [simp]: "bt_get (bt_map_values f m) k = map_option f (bt_get m k)"
  unfolding bt_map_values_def by (induction m) auto

lemma bt_values_map_values [simp]: "bt_values (bt_map_values f m) = map f (bt_values m)"
  by (simp add: bt_values_def bt_map_values_def)

section \<open>Ordered sets\<close>

type_synonym 'a btree_set = "'a list"

definition bs_wf :: "'a::linorder btree_set \<Rightarrow> bool" where
  "bs_wf xs \<longleftrightarrow> sorted_wrt (<) xs"

definition bs_of :: "'a::linorder list \<Rightarrow> 'a btree_set" where
  "bs_of xs = sort (remdups xs)"

definition bs_insert :: "'a::linorder \<Rightarrow> 'a btree_set \<Rightarrow> 'a btree_set" where
  "bs_insert x s = insort_insert x s"

definition bs_extend :: "'a::linorder btree_set \<Rightarrow> 'a list \<Rightarrow> 'a btree_set" where
  "bs_extend s xs = bs_of (s @ xs)"

lemma set_bs_of [simp]: "set (bs_of xs) = set xs"
  by (simp add: bs_of_def)

lemma bs_wf_bs_of [simp]: "bs_wf (bs_of xs)"
  by (simp add: bs_wf_def bs_of_def strict_sorted_iff)

lemma bs_wf_Nil [simp]: "bs_wf []"
  by (simp add: bs_wf_def)

lemma set_bs_insert [simp]: "set (bs_insert x s) = insert x (set s)"
  by (simp add: bs_insert_def set_insort_insert)

lemma bs_wf_bs_insert [intro]: "bs_wf s \<Longrightarrow> bs_wf (bs_insert x s)"
  by (simp add: bs_insert_def bs_wf_def strict_sorted_iff sorted_insort_insert
      distinct_insort_insert)

lemma set_bs_extend [simp]: "set (bs_extend s xs) = set s \<union> set xs"
  by (simp add: bs_extend_def)

lemma bs_wf_bs_extend [simp]: "bs_wf (bs_extend s xs)"
  by (simp add: bs_extend_def)

lemma bs_wf_eqI: "bs_wf s \<Longrightarrow> bs_wf t \<Longrightarrow> set s = set t \<Longrightarrow> s = t"
  by (simp add: bs_wf_def strict_sorted_equal)

lemma bs_of_eq_iff: "bs_of xs = bs_of ys \<longleftrightarrow> set xs = set ys"
  by (metis bs_wf_bs_of bs_wf_eqI set_bs_of)

lemma bs_of_id: "bs_wf s \<Longrightarrow> bs_of s = s"
  by (rule bs_wf_eqI) simp_all

lemma bs_wf_distinct: "bs_wf s \<Longrightarrow> distinct s"
  by (simp add: bs_wf_def strict_sorted_iff)

lemma bs_wf_filter [simp]: "bs_wf s \<Longrightarrow> bs_wf (filter P s)"
  by (simp add: bs_wf_def sorted_wrt_filter)

end
