(* ===== verification/Ci_Hashing.thy ===== *)
theory Ci_Hashing
  imports Btree
begin

text \<open>
  \<open>jeryu-ci-ir/src/hashing.rs\<close>: the FNV-1a content hash, identifier normalisation and the
  canonical \<open>key=value\<close> lines every deterministic identity of the scheduler is built from.
\<close>

unbundle bit_operations_syntax

section \<open>Hashing\<close>

definition fnv_offset :: u64 where "fnv_offset = 0xcbf29ce484222325"
definition fnv_prime :: u64 where "fnv_prime = 0x100000001b3"

definition fnv_step :: "u64 \<Rightarrow> char \<Rightarrow> u64" where
  "fnv_step hash byte = (hash XOR of_char byte) * fnv_prime"

definition fnv1a :: "string \<Rightarrow> u64" where
  "fnv1a input = foldl fnv_step fnv_offset input"

definition deterministic_hash :: "string \<Rightarrow> string" where
  "deterministic_hash input = ''fnv64:'' @ hex16 (fnv1a input)"

text \<open>\<open>str::replace\<close> for a non-empty pattern: non-overlapping, from the left.\<close>

function replace_str :: "string \<Rightarrow> string \<Rightarrow> string \<Rightarrow> string" where
  "replace_str pat r [] = []"
| "replace_str pat r (c # s) =
     (if pat \<noteq> [] \<and> prefix pat (c # s) then r @ replace_str pat r (drop (length pat) (c # s))
      else c # replace_str pat r s)"
  by pat_completeness auto
termination
  by (relation "measure (\<lambda>(pat, r, s). length s)") auto

definition stable_id :: "string \<Rightarrow> string \<Rightarrow> string" where
  "stable_id pre v = (let hash = replace_str ''fnv64:'' [] (deterministic_hash v)
                      in pre @ ''_'' @ hash)"

section \<open>Identifiers\<close>

text \<open>
  The loop of \<open>sanitize_id\<close> runs over Unicode scalar values. Run over UTF-8 bytes it gives
  the same string: every byte of a multi-byte character takes the last branch, and after the
  first of them the output ends in an underscore.
\<close>

definition sanitize_step :: "string \<Rightarrow> char \<Rightarrow> string" where
  "sanitize_step out ch =
     (if is_ascii_alphanumeric ch then out @ [to_ascii_lowercase ch]
      else if ch = CHR ''_'' \<or> ch = CHR ''-'' \<or> ch = CHR ''.'' then out @ [ch]
      else if \<not> ends_with out ''_'' then out @ ''_''
      else out)"

definition trim_matches :: "char \<Rightarrow> string \<Rightarrow> string" where
  "trim_matches c s = rev (dropWhile (\<lambda>x. x = c) (rev (dropWhile (\<lambda>x. x = c) s)))"

definition sanitize_id :: "string \<Rightarrow> string" where
  "sanitize_id v =
     (let out = foldl sanitize_step [] v;
          trimmed = trim_matches (CHR ''_'') out
      in if trimmed = [] then ''unnamed'' else trimmed)"

definition trim_quotes :: "string \<Rightarrow> string" where
  "trim_quotes v =
     (let trimmed = trim v
      in if 2 \<le> length trimmed
          \<and> (hd trimmed = CHR 0x22 \<and> last trimmed = CHR 0x22
             \<or> hd trimmed = CHR 0x27 \<and> last trimmed = CHR 0x27)
         then butlast (tl trimmed) else trimmed)"

definition normalize_token :: "string \<Rightarrow> string" where
  "normalize_token v = map to_ascii_lowercase (filter is_ascii_alphanumeric v)"

section \<open>Canonical lines\<close>

abbreviation NL :: char where "NL \<equiv> CHR 0x0A"
abbreviation BSL :: char where "BSL \<equiv> CHR 0x5C"

definition escape_canonical :: "string \<Rightarrow> string" where
  "escape_canonical v = replace_char NL [BSL, CHR ''n''] (replace_char BSL [BSL, BSL] v)"

definition line :: "string \<Rightarrow> string \<Rightarrow> string \<Rightarrow> string" where
  "line out key v = out @ key @ ''='' @ escape_canonical v @ [NL]"

text \<open>A run of calls of \<open>line\<close> on the same buffer.\<close>

definition put_lines :: "string \<Rightarrow> (string \<times> string) list \<Rightarrow> string" where
  "put_lines out kvs = foldl (\<lambda>o' (k, v). line o' k v) out kvs"

section \<open>Properties\<close>

lemma length_deterministic_hash [simp]: "length (deterministic_hash v) = 22"
  by (simp add: deterministic_hash_def)

lemma deterministic_hash_eq_iff: "deterministic_hash v = deterministic_hash w \<longleftrightarrow> fnv1a v = fnv1a w"
  by (simp add: deterministic_hash_def)

subsection \<open>Stable identifiers\<close>

lemma hex_digit_not_colon: "d < 16 \<Longrightarrow> hex_digit d \<noteq> CHR '':''"
proof
  assume "d < 16" and "hex_digit d = CHR '':''"
  then have "(of_char (hex_digit d) :: nat) = of_char (CHR '':'')" by simp
  with \<open>d < 16\<close> show False by (auto simp: hex_digit_def of_char_of split: if_splits)
qed

lemma colon_notin_hex_pad: "CHR '':'' \<notin> set (hex_pad w n)"
proof (induction w arbitrary: n)
  case (Suc w)
  then show ?case using hex_digit_not_colon [of "n mod 16"] by auto
qed simp

lemma replace_str_absent:
  assumes "c \<in> set pat" and "c \<notin> set s"
  shows "replace_str pat r s = s"
  using assms(2)
proof (induction s)
  case (Cons x s)
  then have "\<not> prefix pat (x # s)"
    using assms(1) by (metis set_mono_prefix subsetD)
  with Cons show ?case by simp
qed simp

lemma stable_id_eq: "stable_id pre v = pre @ ''_'' @ hex16 (fnv1a v)"
proof -
  have "replace_str ''fnv64:'' [] (deterministic_hash v)
      = replace_str ''fnv64:'' [] (hex16 (fnv1a v))"
    by (simp add: deterministic_hash_def)
  also have "\<dots> = hex16 (fnv1a v)"
    by (rule replace_str_absent [of "CHR '':''"]) (simp_all add: hex16_def colon_notin_hex_pad)
  finally show ?thesis by (simp add: stable_id_def)
qed

subsection \<open>Escaping is injective\<close>

lemma replace_char_Nil [simp]: "replace_char c r [] = []"
  by (simp add: replace_char_def)

lemma replace_char_Cons [simp]:
  "replace_char c r (x # s) = (if x = c then r else [x]) @ replace_char c r s"
  by (simp add: replace_char_def)

lemma replace_char_append [simp]:
  "replace_char c r (s @ t) = replace_char c r s @ replace_char c r t"
  by (simp add: replace_char_def)

definition escape_one :: "char \<Rightarrow> string" where
  "escape_one c = (if c = BSL then [BSL, BSL] else if c = NL then [BSL, CHR ''n''] else [c])"

lemma escape_canonical_Nil [simp]: "escape_canonical [] = []"
  by (simp add: escape_canonical_def)

lemma escape_canonical_Cons [simp]: "escape_canonical (c # s) = escape_one c @ escape_canonical s"
  by (simp add: escape_canonical_def escape_one_def)

lemma escape_one_not_Nil [simp]: "escape_one c \<noteq> []"
  by (simp add: escape_one_def)

lemma escape_one_append_inject:
  "escape_one c @ s = escape_one d @ t \<Longrightarrow> c = d \<and> s = t"
  by (auto simp: escape_one_def split: if_splits)

lemma escape_canonical_inject [simp]: "escape_canonical v = escape_canonical w \<longleftrightarrow> v = w"
proof
  show "escape_canonical v = escape_canonical w \<Longrightarrow> v = w"
  proof (induction v arbitrary: w)
    case Nil
    then show ?case by (cases w) auto
  next
    case (Cons c v)
    then obtain d w' where w: "w = d # w'" by (cases w) auto
    with Cons.prems have "c = d" "escape_canonical v = escape_canonical w'"
      using escape_one_append_inject [of c "escape_canonical v" d "escape_canonical w'"] by auto
    with Cons.IH w show ?case by simp
  qed
qed simp

lemma NL_notin_escape_canonical: "NL \<notin> set (escape_canonical v)"
  by (induction v) (auto simp: escape_one_def)

text \<open>
  The three text formats of the control plane that are hashed write one \<open>key=value\<close> line per
  entry; they differ in how a value is escaped. What makes such a text unambiguous is shown once:
  an escaped value contains no line feed.
\<close>

locale line_writer =
  fixes emit :: "string \<Rightarrow> string \<Rightarrow> string \<Rightarrow> string"
    and emit_all :: "string \<Rightarrow> (string \<times> string) list \<Rightarrow> string"
    and esc :: "string \<Rightarrow> string"
    and safe :: "string \<Rightarrow> bool"
  assumes emit_eq: "emit out k v = out @ k @ ''='' @ esc v @ [NL]"
    and emit_all_eq: "emit_all out kvs = foldl (\<lambda>o' (k, v). emit o' k v) out kvs"
    and esc_one_line: "safe v \<Longrightarrow> NL \<notin> set (esc v)"
begin

lemma emit_all_simps [simp]:
  "emit_all out [] = out" "emit_all out ((k, v) # kvs) = emit_all (emit out k v) kvs"
  by (simp_all add: emit_all_eq)

lemma emit_all_append: "emit_all out (kvs @ kvs') = emit_all (emit_all out kvs) kvs'"
  by (simp add: emit_all_eq)

lemma emit_all_out: "emit_all out kvs = out @ emit_all [] kvs"
proof (induction kvs arbitrary: out)
  case (Cons p kvs)
  obtain k v where p: "p = (k, v)" by (cases p)
  have "emit_all out (p # kvs) = emit out k v @ emit_all [] kvs"
    using Cons.IH [of "emit out k v"] by (simp add: p)
  moreover have "emit_all [] (p # kvs) = emit [] k v @ emit_all [] kvs"
    using Cons.IH [of "emit [] k v"] by (simp add: p)
  ultimately show ?case by (simp add: emit_eq)
qed simp

lemma emit_all_prefix: "\<exists>rest. emit_all [] (kvs @ kvs') = emit_all [] kvs @ rest"
  by (subst emit_all_append, subst emit_all_out) blast

lemma emit_inject:
  assumes "safe v" and "safe v'" and "emit [] k v @ r = emit [] k v' @ r'"
  shows "esc v = esc v' \<and> r = r'"
proof -
  have "esc v @ NL # r = esc v' @ NL # r'" using assms(3) by (simp add: emit_eq)
  then show ?thesis
    by (simp only: append_sep_inject [OF esc_one_line [OF assms(1)] esc_one_line [OF assms(2)]])
qed

lemma emit_all_inject:
  assumes "map fst kvs = map fst kvs'" and "list_all (safe \<circ> snd) kvs" and "list_all (safe \<circ> snd) kvs'"
    and "emit_all [] kvs @ r = emit_all [] kvs' @ r'"
  shows "map (esc \<circ> snd) kvs = map (esc \<circ> snd) kvs' \<and> r = r'"
  using assms
proof (induction kvs arbitrary: kvs' r r')
  case (Cons p kvs)
  obtain k v where p: "p = (k, v)" by (cases p)
  obtain v' ks where kvs': "kvs' = (k, v') # ks" "map fst kvs = map fst ks"
    using Cons.prems(1) by (cases kvs') (auto simp: p)
  have "emit [] k v @ emit_all [] kvs @ r = emit [] k v' @ emit_all [] ks @ r'"
    using Cons.prems(4) emit_all_out [of "emit [] k v"] emit_all_out [of "emit [] k v'"]
    by (simp add: p kvs')
  then have "esc v = esc v' \<and> emit_all [] kvs @ r = emit_all [] ks @ r'"
    using Cons.prems(2,3) by (intro emit_inject) (simp_all add: p kvs')
  with Cons.IH [OF kvs'(2), of r r'] Cons.prems(2,3) show ?case by (simp add: p kvs')
qed simp

lemma emit_all_agree:
  assumes "a = emit_all [] kvs @ r" and "b = emit_all [] kvs' @ r'" and "a = b"
    and "map fst kvs = map fst kvs'" and "list_all (safe \<circ> snd) kvs" and "list_all (safe \<circ> snd) kvs'"
  shows "map (esc \<circ> snd) kvs = map (esc \<circ> snd) kvs'"
  using emit_all_inject [OF assms(4,5,6), of r r'] assms(1,2,3) by simp

end

interpretation canonical_lines: line_writer line put_lines escape_canonical "\<lambda>_. True"
  by unfold_locales (simp_all add: line_def put_lines_def NL_notin_escape_canonical)

subsection \<open>Sanitised identifiers\<close>

text \<open>The characters \<open>sanitize_id\<close> leaves alone.\<close>

definition id_char :: "char \<Rightarrow> bool" where
  "id_char c \<longleftrightarrow> is_ascii_lowercase c \<or> is_ascii_digit c \<or> c = CHR ''_'' \<or> c = CHR ''-'' \<or> c = CHR ''.''"

lemma to_ascii_lowercase_id_char: "is_ascii_alphanumeric c \<Longrightarrow> id_char (to_ascii_lowercase c)"
  by (auto simp: is_ascii_alphanumeric_def is_ascii_alphabetic_def id_char_def to_ascii_lowercase_def
      is_ascii_uppercase_def is_ascii_lowercase_def less_eq_char_def of_char_of)

lemma to_ascii_lowercase_id: "id_char c \<Longrightarrow> to_ascii_lowercase c = c"
  by (auto simp: id_char_def to_ascii_lowercase_def is_ascii_uppercase_def is_ascii_lowercase_def
      is_ascii_digit_def less_eq_char_def)

lemma sanitize_step_id: "id_char c \<Longrightarrow> sanitize_step out c = out @ [c]"
  by (auto simp: sanitize_step_def to_ascii_lowercase_id)
    (auto simp: id_char_def is_ascii_alphanumeric_def is_ascii_alphabetic_def)

lemma sanitize_step_chars:
  "\<forall>c \<in> set out. id_char c \<Longrightarrow> \<forall>c \<in> set (sanitize_step out ch). id_char c"
  by (auto simp: sanitize_step_def to_ascii_lowercase_id_char) (simp_all add: id_char_def)

lemma foldl_sanitize_chars:
  "\<forall>c \<in> set out. id_char c \<Longrightarrow> \<forall>c \<in> set (foldl sanitize_step out v). id_char c"
proof (induction v arbitrary: out)
  case (Cons c v)
  then show ?case using sanitize_step_chars [of out c] by simp
qed simp

lemma foldl_sanitize_id: "\<forall>c \<in> set v. id_char c \<Longrightarrow> foldl sanitize_step out v = out @ v"
  by (induction v arbitrary: out) (auto simp: sanitize_step_id)

lemma set_trim_matches: "set (trim_matches c s) \<subseteq> set s"
  by (auto simp: trim_matches_def dest!: set_dropWhileD)

lemma hd_trim_matches: "trim_matches c s \<noteq> [] \<Longrightarrow> hd (trim_matches c s) \<noteq> c"
proof -
  define t where "t = dropWhile (\<lambda>x. x = c) s"
  assume ne: "trim_matches c s \<noteq> []"
  have "trim_matches c s = rev (dropWhile (\<lambda>x. x = c) (rev t))"
    by (simp add: trim_matches_def t_def)
  then have "prefix (trim_matches c s) t"
    by (metis rev_rev_ident suffix_dropWhile suffix_to_prefix)
  with ne have "hd (trim_matches c s) = hd t" "t \<noteq> []"
    by (auto simp: prefix_def)
  then show ?thesis using hd_dropWhile [of "\<lambda>x. x = c" s] by (simp add: t_def)
qed

lemma last_trim_matches: "trim_matches c s \<noteq> [] \<Longrightarrow> last (trim_matches c s) \<noteq> c"
  unfolding trim_matches_def by (metis (mono_tags, lifting) hd_dropWhile last_rev rev_is_Nil_conv)

lemma trim_matches_id: "s = [] \<or> hd s \<noteq> c \<and> last s \<noteq> c \<Longrightarrow> trim_matches c s = s"
proof -
  assume s: "s = [] \<or> hd s \<noteq> c \<and> last s \<noteq> c"
  then have "dropWhile (\<lambda>x. x = c) s = s" by (cases s) auto
  moreover from s have "dropWhile (\<lambda>x. x = c) (rev s) = rev s"
    by (cases s rule: rev_cases) auto
  ultimately show ?thesis by (simp add: trim_matches_def)
qed

text \<open>What a sanitised identifier looks like.\<close>

lemma sanitize_id_shape:
  "sanitize_id v \<noteq> [] \<and> (\<forall>c \<in> set (sanitize_id v). id_char c)
   \<and> hd (sanitize_id v) \<noteq> CHR ''_'' \<and> last (sanitize_id v) \<noteq> CHR ''_''"
proof -
  define t where "t = trim_matches (CHR ''_'') (foldl sanitize_step [] v)"
  have "\<forall>c \<in> set t. id_char c"
    using foldl_sanitize_chars [of "[]" v] set_trim_matches unfolding t_def by fastforce
  moreover have "t \<noteq> [] \<Longrightarrow> hd t \<noteq> CHR ''_'' \<and> last t \<noteq> CHR ''_''"
    unfolding t_def by (simp add: hd_trim_matches last_trim_matches)
  moreover have "\<forall>c \<in> set ''unnamed''. id_char c"
    by (simp add: id_char_def is_ascii_lowercase_def less_eq_char_def)
  ultimately show ?thesis
    by (simp add: sanitize_id_def Let_def flip: t_def)
qed

text \<open>
  \<open>sanitize_id\<close> is idempotent: a sanitised identifier is a fixed point, so the job ids
  the compiler derives do not drift when they are sanitised again.
\<close>

theorem sanitize_id_idempotent: "sanitize_id (sanitize_id v) = sanitize_id v"
proof -
  let ?s = "sanitize_id v"
  have "foldl sanitize_step [] ?s = ?s"
    using foldl_sanitize_id sanitize_id_shape by (metis append_Nil)
  moreover have "trim_matches (CHR ''_'') ?s = ?s"
    using sanitize_id_shape by (blast intro: trim_matches_id)
  ultimately show ?thesis
    using sanitize_id_shape [of v] by (simp add: sanitize_id_def [of ?s])
qed

end
