(* ===== verification/Ci_Ir.thy ===== *)
theory Ci_Ir
  imports Ci_Hashing "HOL-Library.Multiset" "HOL-Library.Product_Lexorder"
begin

text \<open>
  \<open>jeryu-ci-ir\<close>: the pipeline intermediate representation. Enumerations with their string
  forms (\<open>enums.rs\<close>), jobs and steps (\<open>job.rs\<close>), pipeline policies (\<open>policy.rs\<close>), and the
  pipeline with its canonical serialisation, content hash and structural validation
  (\<open>pipeline.rs\<close>). A \<open>BTreeMap\<close> is a sorted association list of \<^theory_text>\<open>Btree\<close>.
\<close>

section \<open>Enumerations\<close>

text \<open>The contract between \<open>as_str\<close> and \<open>from_str\<close> of an enumeration.\<close>

locale string_enum =
  fixes as_str :: "'a \<Rightarrow> string"
    and from_str :: "string \<Rightarrow> ('a, 'e) result"
    and canon :: "'a \<Rightarrow> bool"
  assumes from_as: "canon x \<Longrightarrow> from_str (as_str x) = Ok x"
begin

lemma as_str_inject: "canon x \<Longrightarrow> canon y \<Longrightarrow> as_str x = as_str y \<longleftrightarrow> x = y"
  by (metis from_as sum.inject(2))

end

datatype PipelineSource = GitHubActions | NativeToml | Api | Agent | MergeQueue | Hotfix
  | ReleaseSource | Scheduled | UnknownSource string

fun source_as_str :: "PipelineSource \<Rightarrow> string" where
  "source_as_str GitHubActions = ''github-actions''"
| "source_as_str NativeToml = ''jit-native''"
| "source_as_str Api = ''api''"
| "source_as_str Agent = ''agent''"
| "source_as_str MergeQueue = ''merge-queue''"
| "source_as_str Hotfix = ''hotfix''"
| "source_as_str ReleaseSource = ''release''"
| "source_as_str Scheduled = ''scheduled''"
| "source_as_str (UnknownSource v) = v"

datatype TrustTier = ReleaseHermetic | ProtectedInternal | InternalBranch | AgentAuthored
  | ForkPr | PublicUntrusted

fun tier_as_str :: "TrustTier \<Rightarrow> string" where
  "tier_as_str ReleaseHermetic = ''T0-release-hermetic''"
| "tier_as_str ProtectedInternal = ''T1-protected-internal''"
| "tier_as_str InternalBranch = ''T2-internal-branch''"
| "tier_as_str AgentAuthored = ''T3-agent-authored''"
| "tier_as_str ForkPr = ''T4-fork-pr''"
| "tier_as_str PublicUntrusted = ''T5-public-untrusted''"

definition tier_from_str :: "string \<Rightarrow> (TrustTier, string) result" where
  "tier_from_str v =
     (let t = normalize_token v in
      if t \<in> {''t0releasehermetic'', ''releasehermetic'', ''release''} then Ok ReleaseHermetic
      else if t \<in> {''t1protectedinternal'', ''protectedinternal'', ''protected''}
        then Ok ProtectedInternal
      else if t \<in> {''t2internalbranch'', ''internalbranch'', ''internal''} then Ok InternalBranch
      else if t \<in> {''t3agentauthored'', ''agentauthored'', ''agent''} then Ok AgentAuthored
      else if t \<in> {''t4forkpr'', ''forkpr'', ''fork''} then Ok ForkPr
      else if t \<in> {''t5publicuntrusted'', ''publicuntrusted'', ''public'', ''untrusted''}
        then Ok PublicUntrusted
      else Err (''unknown trust tier: '' @ t))"

datatype RunnerClass = NativeRustHot | NativeRustClean | CrategraphDelta | NextestCapsule
  | AgentGuard | MergeSpec | ClassReleaseHermetic | MicrovmRust | OciDocker | K8sOci
  | CustomClass string

fun class_as_str :: "RunnerClass \<Rightarrow> string" where
  "class_as_str NativeRustHot = ''native-rust-hot''"
| "class_as_str NativeRustClean = ''native-rust-clean''"
| "class_as_str CrategraphDelta = ''crategraph-delta''"
| "class_as_str NextestCapsule = ''nextest-capsule''"
| "class_as_str AgentGuard = ''agent-guard''"
| "class_as_str MergeSpec = ''merge-spec''"
| "class_as_str ClassReleaseHermetic = ''release-hermetic''"
| "class_as_str MicrovmRust = ''microvm-rust''"
| "class_as_str OciDocker = ''oci-docker''"
| "class_as_str K8sOci = ''k8s-oci''"
| "class_as_str (CustomClass v) = v"

definition class_from_str :: "string \<Rightarrow> (RunnerClass, string) result" where
  "class_from_str v =
     (let trimmed = trim (trim_quotes v); t = normalize_token trimmed in
      if t = ''nativerusthot'' then Ok NativeRustHot
      else if t \<in> {''nativerustclean'', ''ubuntulatest'', ''linux''} then Ok NativeRustClean
      else if t = ''crategraphdelta'' then Ok CrategraphDelta
      else if t = ''nextestcapsule'' then Ok NextestCapsule
      else if t = ''agentguard'' then Ok AgentGuard
      else if t = ''mergespec'' then Ok MergeSpec
      else if t = ''releasehermetic'' then Ok ClassReleaseHermetic
      else if t \<in> {''microvmrust'', ''microvm''} then Ok MicrovmRust
      else if t \<in> {''ocidocker'', ''docker''} then Ok OciDocker
      else if t \<in> {''k8soci'', ''kubernetes'', ''k8s''} then Ok K8sOci
      else if trimmed \<noteq> [] then Ok (CustomClass trimmed)
      else Err ''runner class cannot be empty'')"

datatype NetworkPolicy = NetDeny | NetAllowlist "string list" | NetOpen

datatype TokenScope = TokNone | TokReadRepo | TokWriteChecks | TokWritePullRequest
  | TokCustom "string list"

datatype CacheMode = ReadOnly | ReadWriteQuarantine | ReadWriteTrusted

fun cache_mode_as_str :: "CacheMode \<Rightarrow> string" where
  "cache_mode_as_str ReadOnly = ''read-only''"
| "cache_mode_as_str ReadWriteQuarantine = ''read-write-quarantine''"
| "cache_mode_as_str ReadWriteTrusted = ''read-write-trusted''"

datatype ArtifactWhen = Always | OnSuccess | OnFailure

fun artifact_when_as_str :: "ArtifactWhen \<Rightarrow> string" where
  "artifact_when_as_str Always = ''always''"
| "artifact_when_as_str OnSuccess = ''on-success''"
| "artifact_when_as_str OnFailure = ''on-failure''"

fun network_to_string :: "NetworkPolicy \<Rightarrow> string" where
  "network_to_string NetDeny = ''deny''"
| "network_to_string (NetAllowlist hosts) = ''allowlist:'' @ join '','' hosts"
| "network_to_string NetOpen = ''open''"

fun token_to_string :: "TokenScope \<Rightarrow> string" where
  "token_to_string TokNone = ''none''"
| "token_to_string TokReadRepo = ''read-repo''"
| "token_to_string TokWriteChecks = ''write-checks''"
| "token_to_string TokWritePullRequest = ''write-pull-request''"
| "token_to_string (TokCustom vs) = ''custom:'' @ join '','' vs"

section \<open>Jobs\<close>

type_synonym env_map = "(string, string) btree_map"

record RetryPolicy =
  max_attempts :: u32
  backoff_seconds :: u64

definition RetryPolicy_default :: RetryPolicy where
  "RetryPolicy_default = \<lparr>max_attempts = 1, backoff_seconds = 0\<rparr>"

record CacheMount =
  cm_name :: string
  cm_path :: string
  cm_mode :: CacheMode
  cm_fingerprint :: string

record ArtifactPath =
  ap_name :: string
  ap_paths :: "string list"
  ap_when :: ArtifactWhen
  ap_retention_days :: u32

record Step =
  st_id :: string
  st_name :: string
  st_command :: "string option"
  st_uses :: "string option"
  st_env :: env_map
  st_working_directory :: "string option"

definition Step_run :: "string \<Rightarrow> string \<Rightarrow> string \<Rightarrow> Step" where
  "Step_run i n command =
     \<lparr>st_id = i, st_name = n, st_command = Some command, st_uses = None, st_env = [],
      st_working_directory = None\<rparr>"

definition Step_uses :: "string \<Rightarrow> string \<Rightarrow> string \<Rightarrow> Step" where
  "Step_uses i n action =
     \<lparr>st_id = i, st_name = n, st_command = None, st_uses = Some action, st_env = [],
      st_working_directory = None\<rparr>"

record Dependency =
  dep_from :: string
  dep_to :: string

record Job =
  job_id :: string
  job_name :: string
  job_runner_class :: RunnerClass
  job_steps :: "Step list"
  job_inputs :: env_map
  job_outputs :: env_map
  job_cache_mounts :: "CacheMount list"
  job_artifact_paths :: "ArtifactPath list"
  job_network_policy :: NetworkPolicy
  job_token_scope :: TokenScope
  job_timeout_seconds :: u64
  job_retry_policy :: RetryPolicy

definition Job_new :: "string \<Rightarrow> string \<Rightarrow> RunnerClass \<Rightarrow> Job" where
  "Job_new i n c =
     \<lparr>job_id = i, job_name = n, job_runner_class = c, job_steps = [], job_inputs = [],
      job_outputs = [], job_cache_mounts = [], job_artifact_paths = [],
      job_network_policy = NetDeny, job_token_scope = TokReadRepo, job_timeout_seconds = 3600,
      job_retry_policy = RetryPolicy_default\<rparr>"

definition opt_line :: "string \<Rightarrow> string option \<Rightarrow> (string \<times> string) list" where
  "opt_line k v = (case v of None \<Rightarrow> [] | Some s \<Rightarrow> [(k, s)])"

definition step_lines :: "Step \<Rightarrow> (string \<times> string) list" where
  "step_lines s =
     [(''job.step.id'', st_id s), (''job.step.name'', st_name s)]
     @ opt_line ''job.step.run'' (st_command s)
     @ opt_line ''job.step.uses'' (st_uses s)
     @ opt_line ''job.step.cwd'' (st_working_directory s)
     @ map (\<lambda>(k, v). (''job.step.env.'' @ k, v)) (st_env s)"

definition mount_line :: "CacheMount \<Rightarrow> string \<times> string" where
  "mount_line m =
     (''job.cache'', cm_name m @ ''|'' @ cm_path m @ ''|'' @ cache_mode_as_str (cm_mode m)
        @ ''|'' @ cm_fingerprint m)"

definition artifact_line :: "ArtifactPath \<Rightarrow> string \<times> string" where
  "artifact_line a =
     (''job.artifact'', ap_name a @ ''|'' @ artifact_when_as_str (ap_when a) @ ''|''
        @ show_word (ap_retention_days a) @ ''|'' @ join '','' (ap_paths a))"

definition job_canonical_into :: "Job \<Rightarrow> string \<Rightarrow> string" where
  "job_canonical_into j out = put_lines out
     ([(''job.id'', job_id j),
       (''job.name'', job_name j),
       (''job.runner'', class_as_str (job_runner_class j)),
       (''job.timeout_seconds'', show_word (job_timeout_seconds j)),
       (''job.retry.max_attempts'', show_word (max_attempts (job_retry_policy j))),
       (''job.retry.backoff_seconds'', show_word (backoff_seconds (job_retry_policy j))),
       (''job.network'', network_to_string (job_network_policy j)),
       (''job.token'', token_to_string (job_token_scope j))]
      @ map (\<lambda>(k, v). (''job.input.'' @ k, v)) (job_inputs j)
      @ map (\<lambda>(k, v). (''job.output.'' @ k, v)) (job_outputs j)
      @ map mount_line (sort_key (\<lambda>m. (cm_name m, cm_path m)) (job_cache_mounts j))
      @ map artifact_line (sort_key ap_name (job_artifact_paths j))
      @ concat (map step_lines (job_steps j)))"

section \<open>Policies\<close>

record CachePolicy =
  project_scoped :: bool
  allow_cross_project_compiled :: bool
  promote_after_green :: bool
  quarantine_untrusted_writes :: bool

definition CachePolicy_default :: CachePolicy where
  "CachePolicy_default =
     \<lparr>project_scoped = True, allow_cross_project_compiled = False, promote_after_green = True,
      quarantine_untrusted_writes = True\<rparr>"

record ArtifactPolicy =
  allow_absolute_paths :: bool
  require_metadata :: bool
  default_retention_days :: u32

definition ArtifactPolicy_default :: ArtifactPolicy where
  "ArtifactPolicy_default =
     \<lparr>allow_absolute_paths = False, require_metadata = True, default_retention_days = 14\<rparr>"

record PermissionPolicy =
  default_token_scope :: TokenScope
  fail_closed :: bool

definition PermissionPolicy_default :: PermissionPolicy where
  "PermissionPolicy_default = \<lparr>default_token_scope = TokReadRepo, fail_closed = True\<rparr>"

record SecretPolicy =
  secrets_available :: bool
  deny_on_fork :: bool

definition SecretPolicy_default :: SecretPolicy where
  "SecretPolicy_default = \<lparr>secrets_available = False, deny_on_fork = True\<rparr>"

record ProofPolicy =
  proof_required :: bool
  proof_lane :: string

definition ProofPolicy_default :: ProofPolicy where
  "ProofPolicy_default = \<lparr>proof_required = True, proof_lane = ''phase3-fast''\<rparr>"

record SigningPolicy =
  provenance_required :: bool
  release_only :: bool

definition SigningPolicy_default :: SigningPolicy where
  "SigningPolicy_default = \<lparr>provenance_required = False, release_only = True\<rparr>"

section \<open>Pipelines\<close>

record Pipeline =
  pl_id :: string
  pl_source :: PipelineSource
  pl_repo :: string
  pl_commit :: string
  pl_trust_tier :: TrustTier
  pl_jobs :: "Job list"
  pl_edges :: "Dependency list"
  pl_cache_policy :: CachePolicy
  pl_artifact_policy :: ArtifactPolicy
  pl_permission_policy :: PermissionPolicy
  pl_secret_policy :: SecretPolicy
  pl_proof_policy :: ProofPolicy
  pl_signing_policy :: SigningPolicy

definition Pipeline_new :: "PipelineSource \<Rightarrow> string \<Rightarrow> string \<Rightarrow> TrustTier \<Rightarrow> Pipeline" where
  "Pipeline_new source repo commit tier =
     \<lparr>pl_id = deterministic_hash (''pipeline|'' @ source_as_str source @ ''|'' @ repo @ ''|'' @ commit),
      pl_source = source, pl_repo = repo, pl_commit = commit, pl_trust_tier = tier,
      pl_jobs = [], pl_edges = [],
      pl_cache_policy = CachePolicy_default,
      pl_artifact_policy = ArtifactPolicy_default,
      pl_permission_policy = PermissionPolicy_default,
      pl_secret_policy = SecretPolicy_default,
      pl_proof_policy = ProofPolicy_default,
      pl_signing_policy = SigningPolicy_default\<rparr>"

definition header_lines :: "Pipeline \<Rightarrow> (string \<times> string) list" where
  "header_lines p =
     [(''pipeline.id'', pl_id p),
      (''pipeline.source'', source_as_str (pl_source p)),
      (''pipeline.repo'', pl_repo p),
      (''pipeline.commit'', pl_commit p),
      (''pipeline.trust_tier'', tier_as_str (pl_trust_tier p)),
      (''cache.project_scoped'', show_bool (project_scoped (pl_cache_policy p))),
      (''cache.allow_cross_project_compiled'',
         show_bool (allow_cross_project_compiled (pl_cache_policy p))),
      (''cache.promote_after_green'', show_bool (promote_after_green (pl_cache_policy p))),
      (''cache.quarantine_untrusted_writes'',
         show_bool (quarantine_untrusted_writes (pl_cache_policy p))),
      (''artifact.allow_absolute_paths'', show_bool (allow_absolute_paths (pl_artifact_policy p))),
      (''artifact.require_metadata'', show_bool (require_metadata (pl_artifact_policy p))),
      (''artifact.default_retention_days'',
         show_word (default_retention_days (pl_artifact_policy p))),
      (''permission.fail_closed'', show_bool (fail_closed (pl_permission_policy p))),
      (''secret.secrets_available'', show_bool (secrets_available (pl_secret_policy p))),
      (''secret.deny_on_fork'', show_bool (deny_on_fork (pl_secret_policy p))),
      (''proof.required'', show_bool (proof_required (pl_proof_policy p))),
      (''proof.lane'', proof_lane (pl_proof_policy p)),
      (''signing.provenance_required'', show_bool (provenance_required (pl_signing_policy p))),
      (''signing.release_only'', show_bool (release_only (pl_signing_policy p)))]"

definition edge_line :: "Dependency \<Rightarrow> string \<times> string" where
  "edge_line e = (''edge'', dep_from e @ ''->'' @ dep_to e)"

definition pipeline_canonical :: "Pipeline \<Rightarrow> string" where
  "pipeline_canonical p =
     (let out = put_lines [] (header_lines p);
          out = fold job_canonical_into (sort_key job_id (pl_jobs p)) out
      in put_lines out (map edge_line (sort_key (\<lambda>e. (dep_from e, dep_to e)) (pl_edges p))))"

definition ir_hash :: "Pipeline \<Rightarrow> string" where
  "ir_hash p = deterministic_hash (pipeline_canonical p)"

datatype ValidationError = EmptyRepo | EmptyCommit | EmptyJobId | DuplicateJob string
  | JobHasNoSteps string | UnknownEdgeEndpoint string | SelfDependency string

fun validation_message :: "ValidationError \<Rightarrow> string" where
  "validation_message EmptyRepo = ''pipeline repo cannot be empty''"
| "validation_message EmptyCommit = ''pipeline commit cannot be empty''"
| "validation_message EmptyJobId = ''job id cannot be empty''"
| "validation_message (DuplicateJob j) = ''duplicate job id: '' @ j"
| "validation_message (JobHasNoSteps j) = ''job has no steps: '' @ j"
| "validation_message (UnknownEdgeEndpoint j) = ''edge references unknown job: '' @ j"
| "validation_message (SelfDependency j) = ''job cannot depend on itself: '' @ j"

text \<open>The two loops of \<open>Pipeline::validate\<close>; \<open>seen\<close> is the set of job ids met so far.\<close>

fun validate_jobs :: "string btree_set \<Rightarrow> Job list \<Rightarrow> (string btree_set, ValidationError) result" where
  "validate_jobs seen [] = Ok seen"
| "validate_jobs seen (j # js) =
     (if trim (job_id j) = [] then Err EmptyJobId
      else if job_id j \<in> set seen then Err (DuplicateJob (job_id j))
      else if job_steps j = [] then Err (JobHasNoSteps (job_id j))
      else validate_jobs (bs_insert (job_id j) seen) js)"

definition validate_edge :: "string btree_set \<Rightarrow> Dependency \<Rightarrow> (unit, ValidationError) result" where
  "validate_edge seen e =
     (if dep_from e \<notin> set seen then Err (UnknownEdgeEndpoint (dep_from e))
      else if dep_to e \<notin> set seen then Err (UnknownEdgeEndpoint (dep_to e))
      else if dep_from e = dep_to e then Err (SelfDependency (dep_from e))
      else Ok ())"

definition pipeline_validate :: "Pipeline \<Rightarrow> (unit, ValidationError) result" where
  "pipeline_validate p =
     (if trim (pl_repo p) = [] then Err EmptyRepo
      else if trim (pl_commit p) = [] then Err EmptyCommit
      else and_then (validate_jobs [] (pl_jobs p)) (\<lambda>seen.
           for_each (validate_edge seen) (pl_edges p)))"

section \<open>Properties\<close>

subsection \<open>String forms\<close>

lemma tier_from_as: "tier_from_str (tier_as_str t) = Ok t"
  by (cases t; hypsubst; code_simp)

text \<open>A class is canonical when it is not a custom name that \<open>from_str\<close> would read otherwise.\<close>

definition class_canon :: "RunnerClass \<Rightarrow> bool" where
  "class_canon c \<longleftrightarrow> class_from_str (class_as_str c) = Ok c"

lemma class_canon_builtin:
  assumes "\<nexists>v. c = CustomClass v"
  shows "class_canon c"
proof -
  from assms have "c \<in> {NativeRustHot, NativeRustClean, CrategraphDelta, NextestCapsule, AgentGuard,
      MergeSpec, ClassReleaseHermetic, MicrovmRust, OciDocker, K8sOci}"
    by (cases c) auto
  then show ?thesis
    by (elim insertE emptyE; simp only: class_canon_def) code_simp+
qed

interpretation tier_enum: string_enum tier_as_str tier_from_str "\<lambda>_. True"
  by unfold_locales (simp add: tier_from_as)

interpretation class_enum: string_enum class_as_str class_from_str class_canon
  by unfold_locales (simp add: class_canon_def)

subsection \<open>Canonical form\<close>

lemma sort_key_mset_eq:
  assumes "mset xs = mset ys" and "inj_on f (set xs)"
  shows "sort_key f xs = sort_key f ys"
proof -
  have set_eq: "set xs = set ys" using assms(1) by (rule mset_eq_setD)
  have one: "filter (\<lambda>x. f k = f x) zs = replicate (count (mset zs) k) k"
    if "k \<in> set xs" "set zs = set xs" for k zs
  proof -
    have "filter (\<lambda>x. f k = f x) zs = filter (\<lambda>x. k = x) zs"
      using that assms(2) by (auto intro!: filter_cong dest: inj_onD)
    also have "\<dots> = replicate (count (mset zs) k) k" by (induction zs) auto
    finally show ?thesis .
  qed
  show ?thesis
  proof (rule properties_for_sort_key)
    fix k assume "k \<in> set (sort_key f ys)"
    then have "k \<in> set xs" by (simp add: set_eq)
    then show "filter (\<lambda>x. f k = f x) (sort_key f ys) = filter (\<lambda>x. f k = f x) xs"
      using one [of k xs] one [of k "sort_key f ys"] assms(1) set_eq by simp
  qed (use assms in simp_all)
qed

lemma job_canonical_into_out: "job_canonical_into j out = out @ job_canonical_into j []"
  unfolding job_canonical_into_def by (rule canonical_lines.emit_all_out)

lemma fold_job_canonical_out:
  "fold job_canonical_into js out = out @ fold job_canonical_into js []"
proof (induction js arbitrary: out)
  case (Cons j js)
  then show ?case
    by (metis append.assoc fold_simps(2) job_canonical_into_out)
qed simp

lemma canonical_starts_with_header:
  "\<exists>rest. pipeline_canonical p = put_lines [] (header_lines p) @ rest"
  unfolding pipeline_canonical_def Let_def
  by (subst canonical_lines.emit_all_out, subst fold_job_canonical_out) simp

lemma show_bool_inject [simp]: "show_bool a = show_bool b \<longleftrightarrow> a = b"
  by (auto simp: show_bool_def)

lemma header_lines_keys: "map fst (header_lines p) = map fst (header_lines q)"
  by (simp add: header_lines_def)

text \<open>Only the collections of jobs and edges matter, not their order.\<close>

lemma canonical_order_independent:
  assumes "mset js = mset (pl_jobs p)" and "mset es = mset (pl_edges p)"
    and "distinct (map job_id (pl_jobs p))"
  shows "pipeline_canonical (p\<lparr>pl_jobs := js, pl_edges := es\<rparr>) = pipeline_canonical p"
proof -
  have "sort_key job_id js = sort_key job_id (pl_jobs p)"
    using assms(1,3) by (metis distinct_map mset_eq_setD sort_key_mset_eq)
  moreover have "inj_on (\<lambda>e. (dep_from e, dep_to e)) A" for A :: "Dependency set"
    by (rule inj_onI) simp
  then have "sort_key (\<lambda>e. (dep_from e, dep_to e)) es
           = sort_key (\<lambda>e. (dep_from e, dep_to e)) (pl_edges p)"
    using assms(2) sort_key_mset_eq by blast
  ultimately show ?thesis
    by (simp add: pipeline_canonical_def header_lines_def)
qed

text \<open>
  The canonical form determines everything in the pipeline's header: two pipelines with
  the same canonical form agree on id, source, repository, commit, trust tier and on every
  policy that is serialised. No value, however it is spelled, can imitate another line.
\<close>

theorem canonical_header_injective:
  assumes "pipeline_canonical p = pipeline_canonical q"
  shows "pl_id p = pl_id q \<and> source_as_str (pl_source p) = source_as_str (pl_source q)
       \<and> pl_repo p = pl_repo q \<and> pl_commit p = pl_commit q \<and> pl_trust_tier p = pl_trust_tier q
       \<and> pl_cache_policy p = pl_cache_policy q \<and> pl_artifact_policy p = pl_artifact_policy q
       \<and> fail_closed (pl_permission_policy p) = fail_closed (pl_permission_policy q)
       \<and> pl_secret_policy p = pl_secret_policy q \<and> pl_proof_policy p = pl_proof_policy q
       \<and> pl_signing_policy p = pl_signing_policy q"
proof -
  obtain r r' where "pipeline_canonical p = put_lines [] (header_lines p) @ r"
    and "pipeline_canonical q = put_lines [] (header_lines q) @ r'"
    using canonical_starts_with_header by blast
  from canonical_lines.emit_all_agree [OF this assms header_lines_keys]
  have "map (escape_canonical \<circ> snd) (header_lines p) = map (escape_canonical \<circ> snd) (header_lines q)"
    by (simp add: list_all_iff)
  then show ?thesis
    using tier_enum.as_str_inject by (simp add: header_lines_def)
qed

text \<open>Two pipelines with the same canonical form, listed differently.\<close>

definition two_jobs :: "string list \<Rightarrow> Pipeline" where
  "two_jobs ns = (Pipeline_new Api ''acme/repo'' ''abc'' ForkPr)
     \<lparr>pl_jobs := map (\<lambda>n. Job_new n n AgentGuard) ns, pl_edges := []\<rparr>"

theorem canonical_header_injective_witness:
  "pl_jobs (two_jobs [''a'', ''b'']) \<noteq> pl_jobs (two_jobs [''b'', ''a''])
   \<and> pl_trust_tier (two_jobs [''a'', ''b'']) = pl_trust_tier (two_jobs [''b'', ''a''])"
proof -
  have "pipeline_canonical ((two_jobs [''b'', ''a''])\<lparr>pl_jobs := pl_jobs (two_jobs [''a'', ''b'']), pl_edges := []\<rparr>)
      = pipeline_canonical (two_jobs [''b'', ''a''])"
    by (rule canonical_order_independent) (simp_all add: two_jobs_def Job_new_def)
  moreover have "(two_jobs [''b'', ''a''])\<lparr>pl_jobs := pl_jobs (two_jobs [''a'', ''b'']), pl_edges := []\<rparr>
      = two_jobs [''a'', ''b'']" by (simp add: two_jobs_def)
  ultimately show ?thesis
    using canonical_header_injective [of "two_jobs [''a'', ''b'']" "two_jobs [''b'', ''a'']"]
    by (simp add: two_jobs_def Job_new_def)
qed

subsection \<open>Validation\<close>

lemma validate_jobs_Ok:
  "validate_jobs seen js = Ok s \<longleftrightarrow>
     (\<forall>j \<in> set js. trim (job_id j) \<noteq> [] \<and> job_steps j \<noteq> [] \<and> job_id j \<notin> set seen)
   \<and> distinct (map job_id js) \<and> s = fold bs_insert (map job_id js) seen"
proof (induction js arbitrary: seen)
  case (Cons j js)
  let ?ok = "\<lambda>s i. trim (job_id i) \<noteq> [] \<and> job_steps i \<noteq> [] \<and> job_id i \<notin> set s"
  have new: "(\<forall>i \<in> set js. ?ok (bs_insert (job_id j) seen) i) \<longleftrightarrow>
      (\<forall>i \<in> set js. ?ok seen i) \<and> job_id j \<notin> job_id ` set js"
    by (simp add: image_iff) metis
  show ?case
    using new Cons.IH [of "bs_insert (job_id j) seen"] by simp
qed auto

lemma set_fold_bs_insert [simp]: "set (fold bs_insert xs s) = set s \<union> set xs"
  by (induction xs arbitrary: s) auto

lemma validate_edge_Ok [simp]:
  "validate_edge seen e = Ok () \<longleftrightarrow>
     dep_from e \<in> set seen \<and> dep_to e \<in> set seen \<and> dep_from e \<noteq> dep_to e"
  by (simp add: validate_edge_def)

text \<open>
  \<open>Pipeline::validate\<close> accepts exactly the structurally sound pipelines: repository and
  commit are not blank, job ids are not blank and pairwise distinct, every job has a step, and
  every edge joins two different declared jobs.
\<close>

theorem pipeline_validate_iff:
  "pipeline_validate p = Ok () \<longleftrightarrow>
     trim (pl_repo p) \<noteq> [] \<and> trim (pl_commit p) \<noteq> []
   \<and> distinct (map job_id (pl_jobs p))
   \<and> list_all (\<lambda>j. trim (job_id j) \<noteq> [] \<and> job_steps j \<noteq> []) (pl_jobs p)
   \<and> list_all (\<lambda>e. dep_from e \<in> set (map job_id (pl_jobs p))
        \<and> dep_to e \<in> set (map job_id (pl_jobs p)) \<and> dep_from e \<noteq> dep_to e) (pl_edges p)"
  by (auto simp: pipeline_validate_def validate_jobs_Ok list_all_iff)

lemma pipeline_validate_distinct:
  "pipeline_validate p = Ok () \<Longrightarrow> distinct (map job_id (pl_jobs p))"
  by (auto simp: pipeline_validate_def validate_jobs_Ok split: if_splits)

lemma pipeline_validate_edges:
  "pipeline_validate p = Ok () \<Longrightarrow> e \<in> set (pl_edges p) \<Longrightarrow>
     dep_from e \<in> set (map job_id (pl_jobs p)) \<and> dep_to e \<in> set (map job_id (pl_jobs p))
   \<and> dep_from e \<noteq> dep_to e"
  by (auto simp: pipeline_validate_def validate_jobs_Ok split: if_splits)

end
