(* ===== verification/Rust_Text.thy ===== *)
theory Rust_Text
  imports Btree
begin

text \<open>
  More of the Rust standard library, used by the forge core: \<open>str::lines\<close>,
  \<open>str::split_whitespace\<close>, \<open>str::trim_start_matches\<close> and \<open>trim_end_matches\<close> with a
  character, \<open>str::eq_ignore_ascii_case\<close>, and the iterator adaptors \<open>max_by_key\<close> and
  \<open>min_by_key\<close> with their tie-breaking.
\<close>

section \<open>Lines and words\<close>

text \<open>
  \<open>str::lines\<close>: the pieces between line feeds, each without a carriage return before its line
  feed; a line feed at the very end starts no further line.
\<close>

definition strip_cr :: "string \<Rightarrow> string" where
  "strip_cr l = (if l \<noteq> [] \<and> last l = CHR 0x0D then butlast l else l)"

definition str_lines :: "string \<Rightarrow> string list" where
  "str_lines s =
     (let parts = split_char (CHR 0x0A) s in
      map strip_cr (butlast parts) @ (if last parts = [] then [] else [last parts]))"

text \<open>
  \<open>str::split_whitespace\<close>: the maximal runs of characters that are not white space. The bytes
  that start a white-space character never occur inside another character, so the scan may go
  byte by byte.
\<close>

definition flush_word :: "string \<Rightarrow> string list" where
  "flush_word w = (if w = [] then [] else [w])"

function split_ws :: "string \<Rightarrow> string \<Rightarrow> string list" where
  "split_ws w [] = flush_word w"
| "split_ws w (c # s) =
     (if ws_len (c # s) = 0 then split_ws (w @ [c]) s
      else flush_word w @ split_ws [] (drop (ws_len (c # s)) (c # s)))"
  by pat_completeness auto
termination
proof (relation "measure (\<lambda>(w, s). length s)")
  fix w :: string and c s
  assume "ws_len (c # s) \<noteq> 0"
  then show "(([], drop (ws_len (c # s)) (c # s)), w, c # s) \<in> measure (\<lambda>(w, s). length s)"
    by simp
qed simp_all

declare split_ws.simps [simp del]

definition split_whitespace :: "string \<Rightarrow> string list" where
  "split_whitespace s = split_ws [] s"

lemma flush_word_nonempty: "[] \<notin> set (flush_word w)"
  by (simp add: flush_word_def)

lemma split_whitespace_nonempty: "[] \<notin> set (split_whitespace s)"
proof -
  have "[] \<notin> set (split_ws w s)" for w
    by (induction w s rule: split_ws.induct) (auto simp: split_ws.simps flush_word_nonempty)
  then show ?thesis by (simp add: split_whitespace_def)
qed

section \<open>Matching\<close>

definition trim_start_matches :: "char \<Rightarrow> string \<Rightarrow> string" where
  "trim_start_matches c s = dropWhile (\<lambda>x. x = c) s"

definition trim_end_matches :: "char \<Rightarrow> string \<Rightarrow> string" where
  "trim_end_matches c s = rev (dropWhile (\<lambda>x. x = c) (rev s))"

definition eq_ignore_ascii_case :: "string \<Rightarrow> string \<Rightarrow> bool" where
  "eq_ignore_ascii_case a b \<longleftrightarrow> map to_ascii_lowercase a = map to_ascii_lowercase b"

lemma eq_ignore_ascii_case_refl [simp]: "eq_ignore_ascii_case a a"
  by (simp add: eq_ignore_ascii_case_def)

lemma eq_ignore_ascii_case_sym: "eq_ignore_ascii_case a b \<longleftrightarrow> eq_ignore_ascii_case b a"
  by (auto simp: eq_ignore_ascii_case_def)

text \<open>\<open>str::trim_start_matches\<close> with a string: every repetition of the pattern at the front goes.\<close>

function trim_start_str :: "string \<Rightarrow> string \<Rightarrow> string" where
  "trim_start_str pat s =
     (if pat \<noteq> [] \<and> prefix pat s then trim_start_str pat (drop (length pat) s) else s)"
  by pat_completeness auto
termination
proof (relation "measure (\<lambda>(pat, s). length s)")
  fix pat s :: string
  assume "pat \<noteq> [] \<and> prefix pat s"
  then show "((pat, drop (length pat) s), pat, s) \<in> measure (\<lambda>(pat, s). length s)"
    by (cases s) (auto simp: prefix_def)
qed simp

declare trim_start_str.simps [simp del]

text \<open>
  \<open>str::parse\<close> of an unsigned integer: an optional plus sign and at least one digit, the value
  within the width.
\<close>

fun digits_below :: "int \<Rightarrow> int \<Rightarrow> string \<Rightarrow> int option" where
  "digits_below limit acc [] = Some acc"
| "digits_below limit acc (c # s) =
     (if is_ascii_digit c \<and> 10 * acc + (of_char c - 48) < limit
      then digits_below limit (10 * acc + (of_char c - 48)) s else None)"

definition parse_word :: "string \<Rightarrow> 'a::len word option" where
  "parse_word s =
     (let digits = (if s \<noteq> [] \<and> hd s = CHR ''+'' then tl s else s) in
      if digits = [] then None
      else map_option of_int (digits_below (2 ^ LENGTH('a)) 0 digits))"

section \<open>Iterator adaptors\<close>

text \<open>\<open>Iterator::position\<close>, and a slice with what follows it, cut where a predicate first fails.\<close>

fun position :: "('a \<Rightarrow> bool) \<Rightarrow> 'a list \<Rightarrow> nat option" where
  "position P [] = None"
| "position P (x # xs) = (if P x then Some 0 else map_option Suc (position P xs))"

definition span_while :: "('a \<Rightarrow> bool) \<Rightarrow> 'a list \<Rightarrow> 'a list \<times> 'a list" where
  "span_while P xs = (takeWhile P xs, dropWhile P xs)"

text \<open>\<open>Iterator::max_by_key\<close> returns the last of several maxima.\<close>

fun max_by_key :: "('a \<Rightarrow> 'k::linorder) \<Rightarrow> 'a list \<Rightarrow> 'a option" where
  "max_by_key f [] = None"
| "max_by_key f (x # xs) =
     Some (fold (\<lambda>y best. if f best \<le> f y then y else best) xs x)"

text \<open>\<open>Iterator::min_by_key\<close> returns the first of several minima.\<close>

fun min_by_key :: "('a \<Rightarrow> 'k::linorder) \<Rightarrow> 'a list \<Rightarrow> 'a option" where
  "min_by_key f [] = None"
| "min_by_key f (x # xs) =
     Some (fold (\<lambda>y best. if f y < f best then y else best) xs x)"

lemma fold_max_key:
  fixes f :: "'a \<Rightarrow> 'k::linorder"
  shows "fold (\<lambda>y best. if f best \<le> f y then y else best) xs x \<in> insert x (set xs)
   \<and> (\<forall>z \<in> insert x (set xs). f z \<le> f (fold (\<lambda>y best. if f best \<le> f y then y else best) xs x))"
proof (induction xs arbitrary: x)
  case (Cons a xs)
  show ?case
  proof (cases "f x \<le> f a")
    case True
    then show ?thesis using Cons.IH [of a] by (auto intro: order_trans [OF True])
  next
    case False
    then show ?thesis using Cons.IH [of x] by (auto intro: order_trans [of "f a" "f x"])
  qed
qed simp

lemma max_by_key_None [simp]: "max_by_key f xs = None \<longleftrightarrow> xs = []"
  by (cases xs) auto

lemma max_by_key_Some:
  "max_by_key f xs = Some m \<Longrightarrow> m \<in> set xs \<and> (\<forall>z \<in> set xs. f z \<le> f m)"
  using fold_max_key [of f "tl xs" "hd xs"] by (cases xs) auto

lemma fold_min_key:
  fixes f :: "'a \<Rightarrow> 'k::linorder"
  shows "fold (\<lambda>y best. if f y < f best then y else best) xs x \<in> insert x (set xs)
   \<and> (\<forall>z \<in> insert x (set xs). f (fold (\<lambda>y best. if f y < f best then y else best) xs x) \<le> f z)"
proof (induction xs arbitrary: x)
  case (Cons a xs)
  show ?case
  proof (cases "f a < f x")
    case True
    then show ?thesis using Cons.IH [of a] by (auto intro: order_trans [of _ "f a" "f x"])
  next
    case False
    then show ?thesis using Cons.IH [of x] by (auto intro: order_trans [of _ "f x" "f a"])
  qed
qed simp

lemma min_by_key_None [simp]: "min_by_key f xs = None \<longleftrightarrow> xs = []"
  by (cases xs) auto

lemma min_by_key_Some:
  "min_by_key f xs = Some m \<Longrightarrow> m \<in> set xs \<and> (\<forall>z \<in> set xs. f m \<le> f z)"
  using fold_min_key [of f "tl xs" "hd xs"] by (cases xs) auto

section \<open>Removal from ordered maps\<close>

text \<open>\<open>remove\<close> and \<open>retain\<close> of a map.\<close>

definition bt_remove :: "'k \<Rightarrow> ('k, 'v) btree_map \<Rightarrow> ('k, 'v) btree_map" where
  "bt_remove k m = filter (\<lambda>e. fst e \<noteq> k) m"

definition bt_retain :: "('k \<Rightarrow> 'v \<Rightarrow> bool) \<Rightarrow> ('k, 'v) btree_map \<Rightarrow> ('k, 'v) btree_map" where
  "bt_retain P m = filter (\<lambda>(k, v). P k v) m"

lemma bt_wf_filter [simp]: "bt_wf m \<Longrightarrow> bt_wf (filter P m)"
  by (auto simp: bt_wf_def sorted_wrt_map intro: sorted_wrt_filter)

lemma bt_wf_remove [simp]: "bt_wf m \<Longrightarrow> bt_wf (bt_remove k m)"
  by (simp add: bt_remove_def)

lemma bt_wf_retain [simp]: "bt_wf m \<Longrightarrow> bt_wf (bt_retain P m)"
  by (simp add: bt_retain_def)

lemma bt_get_remove [simp]: "bt_get (bt_remove k m) k' = (if k' = k then None else bt_get m k')"
  by (induction m) (auto simp: bt_remove_def)

lemma bt_get_retain:
  "bt_wf m \<Longrightarrow> bt_get (bt_retain P m) k =
     (case bt_get m k of None \<Rightarrow> None | Some v \<Rightarrow> if P k v then Some v else None)"
proof (induction m)
  case (Cons e m)
  have wf: "bt_wf m" and hd: "\<And>k'. k' \<in> fst ` set m \<Longrightarrow> fst e < k'"
    using Cons.prems by (auto simp: bt_wf_def)
  have "bt_get m (fst e) = None"
    using hd [of "fst e"] by (auto simp: map_of_eq_None_iff)
  then show ?case
    using Cons.IH [OF wf] by (cases e) (auto simp: bt_retain_def)
qed (simp add: bt_retain_def)

lemma bt_entry_iff: "bt_wf m \<Longrightarrow> (k, v) \<in> set m \<longleftrightarrow> bt_get m k = Some v"
  by (rule bt.entry_iff)

lemma bt_values_iff: "bt_wf m \<Longrightarrow> v \<in> set (bt_values m) \<longleftrightarrow> (\<exists>k. bt_get m k = Some v)"
  by (force simp: bt_values_def bt_entry_iff [symmetric])

text \<open>\<open>entry(k).or_default()\<close> followed by an update of the slot.\<close>

definition bt_update_or :: "'v \<Rightarrow> 'k::linorder \<Rightarrow> ('v \<Rightarrow> 'v) \<Rightarrow> ('k, 'v) btree_map \<Rightarrow> ('k, 'v) btree_map" where
  "bt_update_or d k f m = bt_insert k (f (case bt_get m k of None \<Rightarrow> d | Some v \<Rightarrow> v)) m"

lemma bt_wf_update_or [simp]: "bt_wf m \<Longrightarrow> bt_wf (bt_update_or d k f m)"
  by (auto simp: bt_update_or_def)

lemma bt_get_update_or [simp]:
  "bt_get (bt_update_or d k f m) k' =
     (if k' = k then Some (f (case bt_get m k of None \<Rightarrow> d | Some v \<Rightarrow> v)) else bt_get m k')"
  by (simp add: bt_update_or_def)

end
