(* ===== verification/Ci_Compiler.thy ===== *)
theory Ci_Compiler
  imports Ci_Ir Rust_Text
begin

text \<open>
  \<open>jeryu-ci-compiler\<close>: the front end that turns a GitHub Actions workflow or a native TOML file
  into the pipeline of \<^theory_text>\<open>Ci_Ir\<close>. Indentation-aware lexing (\<open>lexer.rs\<close>), steps
  (\<open>steps.rs\<close>), the build matrix (\<open>matrix.rs\<close>), job attributes (\<open>attributes.rs\<close>), the two
  parsers (\<open>github.rs\<close>, \<open>native.rs\<close>) and the assembly of the pipeline (\<open>pipeline.rs\<close>).

  The sources walk over a vector of lines with an index; here the index is the list of the lines
  that are left.
\<close>

section \<open>Entry points and errors\<close>

datatype CiKind = KindGitHubActions | KindNativeToml

record CompileContext =
  cx_repo :: string
  cx_commit :: string
  cx_trust_tier :: TrustTier
  cx_default_runner :: RunnerClass

definition CompileContext_new :: "string \<Rightarrow> string \<Rightarrow> CompileContext" where
  "CompileContext_new repo commit =
     \<lparr>cx_repo = repo, cx_commit = commit, cx_trust_tier = InternalBranch, cx_default_runner = NativeRustClean\<rparr>"

datatype CompileError = EmptyInput | MissingJobs | MissingSteps string | InvalidLine string
  | InvalidRunner string | InvalidDependency string | CompileValidation string

fun compile_message :: "CompileError \<Rightarrow> string" where
  "compile_message EmptyInput = ''CI input is empty''"
| "compile_message MissingJobs = ''CI input did not define any jobs''"
| "compile_message (MissingSteps job) = ''CI job did not define executable steps: '' @ job"
| "compile_message (InvalidLine l) = ''invalid CI line: '' @ l"
| "compile_message (InvalidRunner runner) = ''invalid runner class: '' @ runner"
| "compile_message (InvalidDependency dep) = ''invalid dependency: '' @ dep"
| "compile_message (CompileValidation e) = ''IR validation failed: '' @ e"

type_synonym 'a compiled = "('a, CompileError) result"

section \<open>Lexing\<close>

record SourceLine =
  sl_indent :: nat
  sl_text :: string

definition strip_comment :: "string \<Rightarrow> string" where
  "strip_comment raw = (if starts_with (trim_start raw) ''#'' then [] else raw)"

definition lex_line :: "string \<Rightarrow> SourceLine option" where
  "lex_line raw =
     (let without_comment = strip_comment raw in
      if trim without_comment = [] then None
      else Some \<lparr>sl_indent = length (takeWhile (\<lambda>ch. ch = CHR '' '') without_comment),
                 sl_text = trim without_comment\<rparr>)"

definition collect_lines :: "string \<Rightarrow> SourceLine list" where
  "collect_lines input = List.map_filter lex_line (str_lines input)"

definition find_line :: "SourceLine list \<Rightarrow> nat \<Rightarrow> string \<Rightarrow> nat option" where
  "find_line ls indent text = position (\<lambda>l. sl_indent l = indent \<and> sl_text l = text) ls"

definition is_yaml_map_header :: "string \<Rightarrow> bool" where
  "is_yaml_map_header text \<longleftrightarrow> ends_with text '':'' \<and> \<not> starts_with text ''-'' \<and> \<not> str_contains text ''::''"

definition header_name :: "string \<Rightarrow> string" where
  "header_name text = sanitize_id (trim (trim_end_matches (CHR '':'') text))"

definition scalar_after :: "string \<Rightarrow> string \<Rightarrow> string option" where
  "scalar_after text pre =
     (case strip_prefix pre text of
        Some value \<Rightarrow> if trim value = [] then None else Some (trim value)
      | None \<Rightarrow> None)"

text \<open>The lines nested below a parent, and the lines after them.\<close>

definition nested_slice :: "SourceLine list \<Rightarrow> nat \<Rightarrow> SourceLine list \<times> SourceLine list" where
  "nested_slice ls parent_indent = span_while (\<lambda>l. sl_indent l > parent_indent) ls"

definition parse_array_or_scalar :: "string \<Rightarrow> string list" where
  "parse_array_or_scalar value =
     (let trimmed = trim value in
      if trimmed = [] \<or> trimmed = ''[]'' then []
      else if starts_with trimmed ''['' \<and> ends_with trimmed '']''
      then filter (\<lambda>item. item \<noteq> [])
             (map (\<lambda>item. trim_quotes (trim item)) (split_char (CHR '','') (butlast (tl trimmed))))
      else [trim_quotes trimmed])"

definition parse_yaml_list :: "SourceLine list \<Rightarrow> string list" where
  "parse_yaml_list ls =
     filter (\<lambda>item. item \<noteq> [])
       (map (\<lambda>item. trim_quotes (trim item)) (List.map_filter (\<lambda>l. strip_prefix ''- '' (sl_text l)) ls))"

definition is_block_scalar :: "string \<Rightarrow> bool" where
  "is_block_scalar value \<longleftrightarrow> trim value \<in> {''|'', ''|-'', ''|+'', ''>'', ''>-'', ''>+''}"

definition collect_block_scalar ::
  "SourceLine list \<Rightarrow> nat \<Rightarrow> string \<Rightarrow> string \<times> SourceLine list" where
  "collect_block_scalar ls parent_indent marker =
     (case span_while (\<lambda>l. sl_indent l > parent_indent) ls of
        (body, next_lines) \<Rightarrow>
          (join (if starts_with (trim marker) ''>'' then '' '' else [NL]) (map sl_text body), next_lines))"

section \<open>Steps\<close>

record StepBuilder =
  sb_name :: "string option"
  sb_run :: "string option"
  sb_uses :: "string option"
  sb_env :: env_map
  sb_working_directory :: "string option"

definition StepBuilder_default :: StepBuilder where
  "StepBuilder_default =
     \<lparr>sb_name = None, sb_run = None, sb_uses = None, sb_env = [], sb_working_directory = None\<rparr>"

definition apply_step_attr :: "string \<Rightarrow> string \<Rightarrow> StepBuilder \<Rightarrow> StepBuilder" where
  "apply_step_attr key value b =
     (if key = ''name'' then b\<lparr>sb_name := Some (trim_quotes value)\<rparr>
      else if key = ''run'' then b\<lparr>sb_run := Some (trim_quotes value)\<rparr>
      else if key = ''uses'' then b\<lparr>sb_uses := Some (trim_quotes value)\<rparr>
      else if key = ''working-directory'' then b\<lparr>sb_working_directory := Some (trim_quotes value)\<rparr>
      else b)"

text \<open>The locals of the loop of \<open>parse_steps\<close>.\<close>

record StepScan =
  sc_builders :: "StepBuilder list"
  sc_current :: "StepBuilder option"
  sc_in_env :: bool
  sc_env_indent :: nat

definition StepScan_init :: StepScan where
  "StepScan_init = \<lparr>sc_builders = [], sc_current = None, sc_in_env = False, sc_env_indent = 0\<rparr>"

definition take_current :: "StepScan \<Rightarrow> StepBuilder list" where
  "take_current s = sc_builders s @ (case sc_current s of Some b \<Rightarrow> [b] | None \<Rightarrow> [])"

definition open_step :: "StepScan \<Rightarrow> StepScan" where
  "open_step s = s\<lparr>sc_builders := take_current s, sc_current := Some StepBuilder_default, sc_in_env := False\<rparr>"

text \<open>
  A \<open>key: value\<close> of a step: a \<open>run\<close> with a block scalar takes the lines nested below, everything
  else is one attribute. Returns the builder and the lines that are left.
\<close>

definition step_attr ::
  "SourceLine list \<Rightarrow> nat \<Rightarrow> string \<Rightarrow> StepBuilder \<Rightarrow> StepBuilder \<times> SourceLine list" where
  "step_attr ls indent text b =
     (case split_once (CHR '':'') text of
        None \<Rightarrow> (b, ls)
      | Some (key, value) \<Rightarrow>
          (let value = trim value in
           if trim key = ''run'' \<and> is_block_scalar value
           then (case collect_block_scalar ls indent value of (body, next_lines) \<Rightarrow> (b\<lparr>sb_run := Some body\<rparr>, next_lines))
           else (apply_step_attr (trim key) value b, ls)))"

lemma step_attr_length: "length (snd (step_attr ls i t b)) \<le> length ls"
  by (auto simp: step_attr_def collect_block_scalar_def Let_def span_while_def length_dropWhile_le split: option.splits)

text \<open>One turn of the loop on a line and the lines after it.\<close>

definition step_line :: "SourceLine \<Rightarrow> SourceLine list \<Rightarrow> StepScan \<Rightarrow> StepScan \<times> SourceLine list" where
  "step_line l ls s =
     (if starts_with (sl_text l) ''- '' then
        (let r = step_attr ls (sl_indent l) (trim (trim_start_str ''- '' (sl_text l))) StepBuilder_default in
         ((open_step s)\<lparr>sc_current := Some (fst r)\<rparr>, snd r))
      else case sc_current s of
        None \<Rightarrow> (s, ls)
      | Some b \<Rightarrow>
          let attr = (let r = step_attr ls (sl_indent l) (sl_text l) b in
                      (s\<lparr>sc_in_env := False, sc_current := Some (fst r)\<rparr>, snd r));
              other = (if sl_text l = ''env:'' then (s\<lparr>sc_in_env := True, sc_env_indent := sl_indent l\<rparr>, ls)
                       else attr) in
          if sc_in_env s \<and> sl_indent l > sc_env_indent s then
            (case split_once (CHR '':'') (sl_text l) of
               Some (key, value) \<Rightarrow>
                 (s\<lparr>sc_current := Some (b\<lparr>sb_env := bt_insert (trim key) (trim_quotes (trim value)) (sb_env b)\<rparr>)\<rparr>, ls)
             | None \<Rightarrow> other)
          else other)"

lemma step_line_length: "length (snd (step_line l ls s)) \<le> length ls"
  by (auto simp: step_line_def Let_def step_attr_length split: option.splits)

function scan_steps :: "SourceLine list \<Rightarrow> StepScan \<Rightarrow> StepScan" where
  "scan_steps [] s = s"
| "scan_steps (l # ls) s = scan_steps (snd (step_line l ls s)) (fst (step_line l ls s))"
  by pat_completeness auto
termination
  by (relation "measure (\<lambda>(ls, s). length ls)") (auto simp: le_imp_less_Suc step_line_length)

definition show_nat2 :: "nat \<Rightarrow> string" where
  "show_nat2 n = (if n < 10 then ''0'' else []) @ show_nat n"

definition is_blank :: "string option \<Rightarrow> bool" where
  "is_blank v = (case v of None \<Rightarrow> True | Some s \<Rightarrow> trim s = [])"

definition step_from_builder :: "string \<Rightarrow> nat \<times> StepBuilder \<Rightarrow> Step compiled" where
  "step_from_builder origin = (\<lambda>(idx, b).
     if is_blank (sb_run b) \<and> is_blank (sb_uses b) then Err (MissingSteps origin)
     else Ok \<lparr>st_id = ''step_'' @ show_nat2 idx,
              st_name = (case sb_name b of Some n \<Rightarrow> n
                 | None \<Rightarrow> (case sb_run b of Some r \<Rightarrow> r
                     | None \<Rightarrow> (case sb_uses b of Some u \<Rightarrow> u | None \<Rightarrow> ''step''))),
              st_command = sb_run b, st_uses = sb_uses b, st_env = sb_env b,
              st_working_directory = sb_working_directory b\<rparr>)"

definition parse_steps :: "string \<Rightarrow> SourceLine list \<Rightarrow> Step list compiled" where
  "parse_steps origin ls =
     collect_results (map (step_from_builder origin) (enumerate 0 (take_current (scan_steps ls StepScan_init))))"

definition matrix_needle :: "string \<Rightarrow> string" where
  "matrix_needle key = ''${{ matrix.'' @ key @ '' }}''"

definition expand_step :: "string \<times> string \<Rightarrow> Step \<Rightarrow> Step" where
  "expand_step = (\<lambda>(key, value) s.
     let r = replace_str (matrix_needle key) value in
     s\<lparr>st_command := map_option r (st_command s), st_uses := map_option r (st_uses s), st_name := r (st_name s)\<rparr>)"

definition steps_with_matrix :: "Step list \<Rightarrow> env_map \<Rightarrow> string \<Rightarrow> Step list" where
  "steps_with_matrix steps combo job =
     map (\<lambda>(idx, s). fold expand_step combo (s\<lparr>st_id := job @ ''_step_'' @ show_nat2 idx\<rparr>)) (enumerate 0 steps)"

section \<open>The build matrix\<close>

type_synonym matrix = "(string, string list) btree_map"

record MatrixScan =
  ms_matrix :: matrix
  ms_inside :: bool
  ms_indent :: nat

definition matrix_line :: "SourceLine \<Rightarrow> MatrixScan \<Rightarrow> MatrixScan" where
  "matrix_line l s =
     (if sl_text l = ''matrix:'' then s\<lparr>ms_inside := True, ms_indent := sl_indent l\<rparr>
      else if ms_inside s \<and> sl_indent l > ms_indent s then
        (case split_once (CHR '':'') (sl_text l) of
           Some (key, value) \<Rightarrow>
             s\<lparr>ms_matrix := bt_insert (trim key) (parse_array_or_scalar (trim value)) (ms_matrix s)\<rparr>
         | None \<Rightarrow> s)
      else s)"

definition parse_matrix :: "SourceLine list \<Rightarrow> matrix" where
  "parse_matrix ls = ms_matrix (fold matrix_line ls \<lparr>ms_matrix = [], ms_inside = False, ms_indent = 0\<rparr>)"

definition expand_key :: "string \<times> string list \<Rightarrow> env_map list \<Rightarrow> env_map list" where
  "expand_key = (\<lambda>(key, values) combos.
     concat (map (\<lambda>combo. map (\<lambda>value. bt_insert key value combo) values) combos))"

definition matrix_combinations :: "matrix \<Rightarrow> env_map list" where
  "matrix_combinations m = (if m = [] then [[]] else fold expand_key m [[]])"

definition expanded_id :: "string \<Rightarrow> env_map \<Rightarrow> string" where
  "expanded_id origin combo =
     (if combo = [] then sanitize_id origin
      else sanitize_id (origin @ ''__'' @ join ''__'' (map (\<lambda>(k, v). k @ ''_'' @ v) combo)))"

definition expanded_name :: "string \<Rightarrow> env_map \<Rightarrow> string" where
  "expanded_name origin combo =
     (if combo = [] then origin
      else origin @ '' ('' @ join '', '' (map (\<lambda>(k, v). k @ ''='' @ v) combo) @ '')'')"

section \<open>Job attributes\<close>

record PathScan =
  ps_paths :: "string list"
  ps_inside :: bool
  ps_indent :: nat

text \<open>The \<open>paths\<close> of a cache or artifact block, inline or as a list below; shared by both loops.\<close>

definition is_paths_line :: "SourceLine \<Rightarrow> bool" where
  "is_paths_line l \<longleftrightarrow> scalar_after (sl_text l) ''paths:'' \<noteq> None \<or> sl_text l = ''paths:''"

definition path_line :: "SourceLine \<Rightarrow> PathScan \<Rightarrow> PathScan" where
  "path_line l s =
     (case scalar_after (sl_text l) ''paths:'' of
        Some value \<Rightarrow> s\<lparr>ps_paths := ps_paths s @ parse_array_or_scalar value, ps_inside := True, ps_indent := sl_indent l\<rparr>
      | None \<Rightarrow>
          if sl_text l = ''paths:'' then s\<lparr>ps_inside := True, ps_indent := sl_indent l\<rparr>
          else if ps_inside s \<and> sl_indent l > ps_indent s then
            (case strip_prefix ''- '' (sl_text l) of
               Some value \<Rightarrow> s\<lparr>ps_paths := ps_paths s @ [trim_quotes (trim value)]\<rparr>
             | None \<Rightarrow> s)
          else s)"

definition parse_paths :: "SourceLine list \<Rightarrow> string list" where
  "parse_paths ls = ps_paths (fold path_line ls \<lparr>ps_paths = [], ps_inside = False, ps_indent = 0\<rparr>)"

definition parse_cache_mounts :: "SourceLine list \<Rightarrow> string \<Rightarrow> CacheMount list" where
  "parse_cache_mounts ls origin =
     map (\<lambda>path. \<lparr>cm_name = sanitize_id origin @ ''-'' @ sanitize_id path, cm_path = path, cm_mode = ReadOnly,
                  cm_fingerprint = deterministic_hash (''cache|'' @ origin @ ''|'' @ path)\<rparr>) (parse_paths ls)"

definition default_cache_mounts :: "string \<Rightarrow> CacheMount list" where
  "default_cache_mounts job =
     [\<lparr>cm_name = job @ ''-cargo-target'', cm_path = ''target/'', cm_mode = ReadOnly,
       cm_fingerprint = deterministic_hash (''default-cache|'' @ job @ ''|target'')\<rparr>]"

definition parse_retention_days :: "string \<Rightarrow> u32" where
  "parse_retention_days value =
     (let lower = map to_ascii_lowercase (trim_quotes value);
          n = (case parse_word (takeWhile is_ascii_digit lower) of Some n \<Rightarrow> n | None \<Rightarrow> 14)
      in if str_contains lower ''week'' then sat_mul n 7
         else if str_contains lower ''month'' then sat_mul n 30
         else n)"

definition artifact_when :: "string \<Rightarrow> ArtifactWhen" where
  "artifact_when value =
     (let v = trim_quotes value in
      if v = ''on_failure'' \<or> v = ''on-failure'' then OnFailure
      else if v = ''on_success'' \<or> v = ''on-success'' then OnSuccess
      else Always)"

definition retention_line :: "SourceLine \<Rightarrow> u32 \<Rightarrow> u32" where
  "retention_line l days =
     (if is_paths_line l then days
      else case scalar_after (sl_text l) ''expire_in:'' of Some v \<Rightarrow> parse_retention_days v | None \<Rightarrow> days)"

definition when_line :: "SourceLine \<Rightarrow> ArtifactWhen \<Rightarrow> ArtifactWhen" where
  "when_line l w =
     (if is_paths_line l then w
      else case scalar_after (sl_text l) ''when:'' of Some v \<Rightarrow> artifact_when v | None \<Rightarrow> w)"

definition parse_artifacts :: "SourceLine list \<Rightarrow> string \<Rightarrow> ArtifactPath list" where
  "parse_artifacts ls origin =
     (let paths = parse_paths ls in
      if paths = [] then []
      else [\<lparr>ap_name = sanitize_id origin @ ''-artifacts'', ap_paths = paths,
             ap_when = fold when_line ls Always, ap_retention_days = fold retention_line ls 14\<rparr>])"

definition parse_token_scope :: "string \<Rightarrow> TokenScope" where
  "parse_token_scope value =
     (let v = trim_quotes value in
      if v = ''{}'' \<or> v = ''none'' then TokNone
      else if v = ''read'' \<or> v = ''read-all'' then TokReadRepo
      else if v = ''write'' \<or> v = ''write-all'' then TokWriteChecks
      else TokCustom (parse_array_or_scalar v))"

section \<open>Jobs before they are assembled\<close>

record PendingJob =
  pj_origin :: string
  pj_job :: Job
  pj_needs :: "string list"

section \<open>GitHub Actions\<close>

text \<open>The locals of the loop of \<open>parse_github_job\<close>.\<close>

record GithubJob =
  gj_runner :: RunnerClass
  gj_needs :: "string list"
  gj_timeout_seconds :: u64
  gj_steps :: "Step list"
  gj_matrix :: matrix
  gj_token_scope :: TokenScope
  gj_cache_mounts :: "CacheMount list"
  gj_artifact_paths :: "ArtifactPath list"

definition GithubJob_init :: "CompileContext \<Rightarrow> GithubJob" where
  "GithubJob_init cx =
     \<lparr>gj_runner = cx_default_runner cx, gj_needs = [], gj_timeout_seconds = 3600, gj_steps = [], gj_matrix = [],
      gj_token_scope = TokReadRepo, gj_cache_mounts = [], gj_artifact_paths = []\<rparr>"

definition timeout_minutes :: "string \<Rightarrow> u64" where
  "timeout_minutes value =
     sat_mul (case parse_word (trim value) of Some n \<Rightarrow> n | None \<Rightarrow> 60) 60"

text \<open>An attribute written on one line.\<close>

definition inline_attr :: "string \<Rightarrow> GithubJob \<Rightarrow> GithubJob compiled" where
  "inline_attr text g =
     (case scalar_after text ''runs-on:'' of
        Some value \<Rightarrow>
          (case class_from_str value of
             Ok runner \<Rightarrow> Ok (g\<lparr>gj_runner := runner\<rparr>)
           | Err _ \<Rightarrow> Err (InvalidRunner value))
      | None \<Rightarrow> case scalar_after text ''needs:'' of
        Some value \<Rightarrow> Ok (g\<lparr>gj_needs := parse_array_or_scalar value\<rparr>)
      | None \<Rightarrow> case scalar_after text ''timeout-minutes:'' of
        Some value \<Rightarrow> Ok (g\<lparr>gj_timeout_seconds := timeout_minutes value\<rparr>)
      | None \<Rightarrow> case scalar_after text ''permissions:'' of
        Some value \<Rightarrow> Ok (g\<lparr>gj_token_scope := parse_token_scope value\<rparr>)
      | None \<Rightarrow> Ok g)"

text \<open>An attribute whose value is the block of lines nested below it.\<close>

definition is_block_header :: "string \<Rightarrow> bool" where
  "is_block_header text \<longleftrightarrow> text \<in> {''needs:'', ''steps:'', ''strategy:'', ''cache:'', ''artifacts:''}"

definition block_attr :: "string \<Rightarrow> string \<Rightarrow> SourceLine list \<Rightarrow> GithubJob \<Rightarrow> GithubJob compiled" where
  "block_attr origin text nested g =
     (if text = ''needs:'' then Ok (g\<lparr>gj_needs := parse_yaml_list nested\<rparr>)
      else if text = ''steps:'' then and_then (parse_steps origin nested) (\<lambda>steps. Ok (g\<lparr>gj_steps := steps\<rparr>))
      else if text = ''strategy:'' then Ok (g\<lparr>gj_matrix := parse_matrix nested\<rparr>)
      else if text = ''cache:'' then Ok (g\<lparr>gj_cache_mounts := gj_cache_mounts g @ parse_cache_mounts nested origin\<rparr>)
      else Ok (g\<lparr>gj_artifact_paths := gj_artifact_paths g @ parse_artifacts nested origin\<rparr>))"

function scan_job :: "string \<Rightarrow> SourceLine list \<Rightarrow> GithubJob \<Rightarrow> GithubJob compiled" where
  "scan_job origin [] g = Ok g"
| "scan_job origin (l # ls) g =
     (if sl_indent l \<noteq> 4 then scan_job origin ls g
      else if is_block_header (sl_text l) then
        and_then (block_attr origin (sl_text l) (fst (nested_slice ls (sl_indent l))) g)
          (scan_job origin (snd (nested_slice ls (sl_indent l))))
      else and_then (inline_attr (sl_text l) g) (scan_job origin ls))"
  by pat_completeness auto
termination
  by (relation "measure (\<lambda>(origin, ls, g). length ls)")
    (auto simp: nested_slice_def span_while_def length_dropWhile_le le_imp_less_Suc)

definition matrix_job :: "string \<Rightarrow> GithubJob \<Rightarrow> env_map \<Rightarrow> PendingJob" where
  "matrix_job origin g combo =
     (let i = expanded_id origin combo in
      \<lparr>pj_origin = origin,
       pj_job = (Job_new i (expanded_name origin combo) (gj_runner g))
         \<lparr>job_steps := steps_with_matrix (gj_steps g) combo i,
          job_inputs := bt_collect (map (\<lambda>(k, v). (''matrix.'' @ k, v)) combo),
          job_timeout_seconds := gj_timeout_seconds g,
          job_token_scope := gj_token_scope g,
          job_cache_mounts := (if gj_cache_mounts g = [] then default_cache_mounts i else gj_cache_mounts g),
          job_artifact_paths := gj_artifact_paths g\<rparr>,
       pj_needs = gj_needs g\<rparr>)"

definition parse_github_job :: "string \<Rightarrow> SourceLine list \<Rightarrow> CompileContext \<Rightarrow> PendingJob list compiled" where
  "parse_github_job origin block cx =
     and_then (scan_job origin block (GithubJob_init cx)) (\<lambda>g.
       if gj_steps g = [] then Err (MissingSteps origin)
       else Ok (map (matrix_job origin g) (matrix_combinations (gj_matrix g))))"

definition is_job_header :: "SourceLine \<Rightarrow> bool" where
  "is_job_header l \<longleftrightarrow> sl_indent l = 2 \<and> is_yaml_map_header (sl_text l)"

function github_jobs :: "CompileContext \<Rightarrow> SourceLine list \<Rightarrow> PendingJob list compiled" where
  "github_jobs cx [] = Ok []"
| "github_jobs cx (l # ls) =
     (if is_job_header l then
        and_then (parse_github_job (header_name (sl_text l)) (takeWhile (\<lambda>k. \<not> is_job_header k) ls) cx) (\<lambda>jobs.
        and_then (github_jobs cx (dropWhile (\<lambda>k. \<not> is_job_header k) ls)) (\<lambda>rest.
          Ok (jobs @ rest)))
      else github_jobs cx ls)"
  by pat_completeness auto
termination
  by (relation "measure (\<lambda>(cx, ls). length ls)") (auto simp: length_dropWhile_le le_imp_less_Suc)

section \<open>Assembly\<close>

type_synonym origin_map = "(string, string list) btree_map"

definition origin_to_jobs :: "PendingJob list \<Rightarrow> origin_map" where
  "origin_to_jobs pending =
     fold (\<lambda>item. bt_update_or [] (pj_origin item) (\<lambda>js. js @ [job_id (pj_job item)])) pending []"

text \<open>The set of edges met so far decides whether the next one is appended.\<close>

definition add_edge :: "string \<Rightarrow> string \<Rightarrow> (string \<times> string) btree_set \<times> Dependency list
    \<Rightarrow> (string \<times> string) btree_set \<times> Dependency list" where
  "add_edge to_job from_job = (\<lambda>(edge_set, edges).
     if (from_job, to_job) \<in> set edge_set then (edge_set, edges)
     else (bs_insert (from_job, to_job) edge_set, edges @ [\<lparr>dep_from = from_job, dep_to = to_job\<rparr>]))"

fun need_edges :: "origin_map \<Rightarrow> string \<Rightarrow> string \<Rightarrow> string list
    \<Rightarrow> (string \<times> string) btree_set \<times> Dependency list
    \<Rightarrow> ((string \<times> string) btree_set \<times> Dependency list) compiled" where
  "need_edges origins origin job [] acc = Ok acc"
| "need_edges origins origin job (need # needs) acc =
     (case bt_get origins need of
        None \<Rightarrow> Err (InvalidDependency (origin @ '' needs unknown job '' @ need))
      | Some from_jobs \<Rightarrow> need_edges origins origin job needs (fold (add_edge job) from_jobs acc))"

fun pending_edges :: "origin_map \<Rightarrow> PendingJob list \<Rightarrow> (string \<times> string) btree_set \<times> Dependency list
    \<Rightarrow> ((string \<times> string) btree_set \<times> Dependency list) compiled" where
  "pending_edges origins [] acc = Ok acc"
| "pending_edges origins (item # items) acc =
     and_then (need_edges origins (pj_origin item) (job_id (pj_job item)) (pj_needs item) acc)
       (pending_edges origins items)"

definition finish_pipeline :: "PipelineSource \<Rightarrow> PendingJob list \<Rightarrow> CompileContext \<Rightarrow> Pipeline compiled" where
  "finish_pipeline source pending cx =
     (if pending = [] then Err MissingJobs
      else and_then (pending_edges (origin_to_jobs pending) pending ([], [])) (\<lambda>acc.
        Ok ((Pipeline_new source (cx_repo cx) (cx_commit cx) (cx_trust_tier cx))
              \<lparr>pl_jobs := sort_key job_id (map pj_job pending),
               pl_edges := sort_key (\<lambda>e. (dep_from e, dep_to e)) (snd acc)\<rparr>)))"

definition compile_github :: "string \<Rightarrow> CompileContext \<Rightarrow> Pipeline compiled" where
  "compile_github input cx =
     (let ls = collect_lines input in
      case find_line ls 0 ''jobs:'' of
        None \<Rightarrow> Err MissingJobs
      | Some jobs_index \<Rightarrow>
          and_then (github_jobs cx (drop (jobs_index + 1) ls)) (\<lambda>pending.
            finish_pipeline GitHubActions pending cx))"

section \<open>Native TOML\<close>

definition native_run :: "env_map \<Rightarrow> matrix \<Rightarrow> string list option" where
  "native_run values arrays =
     (case bt_get arrays ''run'' of
        Some run \<Rightarrow> Some run
      | None \<Rightarrow> map_option (\<lambda>value. [value]) (bt_get values ''run''))"

definition native_runner :: "env_map \<Rightarrow> CompileContext \<Rightarrow> string" where
  "native_runner values cx =
     (case bt_get values ''runner_class'' of
        Some r \<Rightarrow> r
      | None \<Rightarrow> (case bt_get values ''runner'' of Some r \<Rightarrow> r | None \<Rightarrow> class_as_str (cx_default_runner cx)))"

definition native_mount :: "string \<Rightarrow> CacheMount" where
  "native_mount path =
     \<lparr>cm_name = sanitize_id path, cm_path = path, cm_mode = ReadOnly, cm_fingerprint = deterministic_hash path\<rparr>"

definition native_job :: "string \<Rightarrow> string \<Rightarrow> RunnerClass \<Rightarrow> string list \<Rightarrow> env_map \<Rightarrow> matrix \<Rightarrow> Job" where
  "native_job i name runner run values arrays =
     (Job_new i name runner)
       \<lparr>job_steps := map (\<lambda>(idx, command).
            Step_run (i @ ''_run_'' @ show_nat idx) (''run '' @ show_nat idx) command) (enumerate 0 run),
        job_artifact_paths := (case bt_get arrays ''artifact_paths'' of
            Some paths \<Rightarrow> [\<lparr>ap_name = i @ ''-artifacts'', ap_paths = paths, ap_when = Always, ap_retention_days = 14\<rparr>]
          | None \<Rightarrow> []),
        job_cache_mounts := (case bt_get arrays ''cache_mounts'' of
            Some paths \<Rightarrow> map native_mount paths
          | None \<Rightarrow> default_cache_mounts i),
        job_timeout_seconds := (case bt_get values ''timeout_seconds'' of
            Some timeout \<Rightarrow> (case parse_word timeout of Some n \<Rightarrow> n | None \<Rightarrow> 3600)
          | None \<Rightarrow> 3600)\<rparr>"

definition native_job_from_maps :: "env_map \<Rightarrow> matrix \<Rightarrow> CompileContext \<Rightarrow> PendingJob compiled" where
  "native_job_from_maps values arrays cx =
     (let i = (case bt_get values ''id'' of Some v \<Rightarrow> v | None \<Rightarrow> ''job'');
          name = (case bt_get values ''name'' of Some v \<Rightarrow> v | None \<Rightarrow> i);
          runner_text = native_runner values cx in
      case class_from_str runner_text of
        Err _ \<Rightarrow> Err (InvalidRunner runner_text)
      | Ok runner \<Rightarrow>
      case native_run values arrays of
        None \<Rightarrow> Err (MissingSteps i)
      | Some run \<Rightarrow>
          if list_all (\<lambda>command. trim command = []) run then Err (MissingSteps i)
          else Ok \<lparr>pj_origin = i, pj_job = native_job i name runner run values arrays,
                   pj_needs = (case bt_get arrays ''needs'' of Some needs \<Rightarrow> needs | None \<Rightarrow> [])\<rparr>)"

text \<open>The locals of the loop of \<open>compile_native\<close>.\<close>

record NativeScan =
  ns_pending :: "PendingJob list"
  ns_current :: env_map
  ns_arrays :: matrix
  ns_in_job :: bool

definition NativeScan_init :: NativeScan where
  "NativeScan_init = \<lparr>ns_pending = [], ns_current = [], ns_arrays = [], ns_in_job = False\<rparr>"

text \<open>The job whose table is open, if there is one, joins the pending jobs.\<close>

definition close_job :: "CompileContext \<Rightarrow> NativeScan \<Rightarrow> NativeScan compiled" where
  "close_job cx s =
     (if ns_in_job s
      then and_then (native_job_from_maps (ns_current s) (ns_arrays s) cx) (\<lambda>job.
             Ok (s\<lparr>ns_pending := ns_pending s @ [job], ns_current := [], ns_arrays := []\<rparr>))
      else Ok s)"

definition is_job_table :: "string \<Rightarrow> bool" where
  "is_job_table l \<longleftrightarrow> l = ''[[job]]'' \<or> l = ''[[jobs]]''"

definition native_pair :: "string \<Rightarrow> string \<Rightarrow> NativeScan \<Rightarrow> NativeScan" where
  "native_pair key value s =
     (if starts_with value ''[''
      then s\<lparr>ns_arrays := bt_insert key (parse_array_or_scalar value) (ns_arrays s)\<rparr>
      else s\<lparr>ns_current := bt_insert key (trim_quotes value) (ns_current s)\<rparr>)"

definition native_line :: "CompileContext \<Rightarrow> string \<Rightarrow> NativeScan \<Rightarrow> NativeScan compiled" where
  "native_line cx raw s =
     (let line = trim (strip_comment raw) in
      if line = [] then Ok s
      else if is_job_table line
      then and_then (close_job cx s) (\<lambda>s. Ok (s\<lparr>ns_in_job := True\<rparr>))
      else if \<not> ns_in_job s then Ok s
      else case split_once (CHR ''='') line of
        None \<Rightarrow> Err (InvalidLine line)
      | Some (key, value) \<Rightarrow> Ok (native_pair (trim key) (trim value) s))"

fun native_lines :: "CompileContext \<Rightarrow> string list \<Rightarrow> NativeScan \<Rightarrow> NativeScan compiled" where
  "native_lines cx [] s = Ok s"
| "native_lines cx (raw # rest) s = and_then (native_line cx raw s) (native_lines cx rest)"

definition compile_native :: "string \<Rightarrow> CompileContext \<Rightarrow> Pipeline compiled" where
  "compile_native input cx =
     and_then (native_lines cx (str_lines input) NativeScan_init) (\<lambda>s.
     and_then (close_job cx s) (\<lambda>s. finish_pipeline NativeToml (ns_pending s) cx))"

section \<open>The compiler\<close>

definition pipeline_identity :: "Pipeline \<Rightarrow> string" where
  "pipeline_identity p =
     deterministic_hash (''pipeline|'' @ source_as_str (pl_source p) @ ''|'' @ pl_repo p @ ''|'' @ pl_commit p
       @ ''|'' @ ir_hash p)"

definition compile_ci :: "string \<Rightarrow> CiKind \<Rightarrow> CompileContext \<Rightarrow> Pipeline compiled" where
  "compile_ci input kind cx =
     (if trim input = [] then Err EmptyInput
      else and_then (case kind of
          KindGitHubActions \<Rightarrow> compile_github input cx
        | KindNativeToml \<Rightarrow> compile_native input cx) (\<lambda>p.
        let p = p\<lparr>pl_id := pipeline_identity p\<rparr> in
        case pipeline_validate p of
          Ok _ \<Rightarrow> Ok p
        | Err e \<Rightarrow> Err (CompileValidation (validation_message e))))"

section \<open>The matrix is a product\<close>

lemma bt_insert_last: "\<forall>x \<in> fst ` set m. x < k \<Longrightarrow> bt_insert k v m = m @ [(k, v)]"
  by (induction m) (auto simp: less_not_sym)

lemma bt_collect_sorted:
  assumes "bt_wf (m @ xs)"
  shows "fold (\<lambda>(k, v). bt_insert k v) xs m = m @ xs"
  using assms
proof (induction xs arbitrary: m)
  case (Cons x xs)
  obtain k v where x: "x = (k, v)" by (cases x)
  have "\<forall>y \<in> fst ` set m. y < k"
    using Cons.prems by (auto simp: bt_wf_def x sorted_wrt_append)
  then show ?case using Cons.IH [of "m @ [(k, v)]"] Cons.prems by (simp add: x bt_insert_last)
qed simp

lemma expand_key_sorted:
  assumes "\<forall>combo \<in> set combos. \<forall>x \<in> fst ` set combo. x < k"
  shows "expand_key (k, vs) combos = concat (map (\<lambda>combo. map (\<lambda>v. combo @ [(k, v)]) vs) combos)"
proof -
  have "map (\<lambda>combo. map (\<lambda>v. bt_insert k v combo) vs) combos = map (\<lambda>combo. map (\<lambda>v. combo @ [(k, v)]) vs) combos"
    using assms by (auto intro!: bt_insert_last)
  then show ?thesis by (simp only: expand_key_def prod.case)
qed

lemma concat_concat_map: "concat (concat (map f xs)) = concat (map (\<lambda>x. concat (f x)) xs)"
  by (induction xs) simp_all

lemma fold_expand_key:
  assumes "bt_wf m"
    and "\<And>combo x k. combo \<in> set combos \<Longrightarrow> x \<in> fst ` set combo \<Longrightarrow> k \<in> fst ` set m \<Longrightarrow> x < k"
  shows "fold expand_key m combos =
           concat (map (\<lambda>combo. map (\<lambda>vs. combo @ zip (map fst m) vs) (product_lists (map snd m))) combos)"
  using assms
proof (induction m arbitrary: combos)
  case (Cons e m)
  obtain k vs where e: "e = (k, vs)" by (cases e)
  let ?next = "concat (map (\<lambda>combo. map (\<lambda>v. combo @ [(k, v)]) vs) combos)"
  have wf: "bt_wf m" and above: "\<And>k'. k' \<in> fst ` set m \<Longrightarrow> k < k'"
    using Cons.prems(1) by (auto simp: bt_wf_def e)
  have step: "expand_key (k, vs) combos = ?next"
    using Cons.prems(2) [where k = k] by (intro expand_key_sorted) (auto simp: e)
  have below: "x < k'" if "combo \<in> set ?next" "x \<in> fst ` set combo" "k' \<in> fst ` set m" for combo x k'
    using that above Cons.prems(2) [of _ x k'] by (force simp: e)
  have rest: "fold expand_key m ?next =
      concat (map (\<lambda>combo. map (\<lambda>vs. combo @ zip (map fst m) vs) (product_lists (map snd m))) ?next)"
    by (rule Cons.IH [OF wf below])
  then show ?case
    by (simp add: e step map_concat comp_def concat_concat_map)
qed simp

lemma bt_wf_matrix_line: "bt_wf (ms_matrix s) \<Longrightarrow> bt_wf (ms_matrix (matrix_line l s))"
  by (auto simp: matrix_line_def split: option.splits)

lemma bt_wf_parse_matrix: "bt_wf (parse_matrix ls)"
proof -
  have "bt_wf (ms_matrix s) \<Longrightarrow> bt_wf (ms_matrix (fold matrix_line ls s))" for s
    by (induction ls arbitrary: s) (auto simp: bt_wf_matrix_line)
  then show ?thesis by (simp add: parse_matrix_def)
qed

lemma matrix_combinations_eq:
  "bt_wf m \<Longrightarrow> matrix_combinations m = map (zip (map fst m)) (product_lists (map snd m))"
  using fold_expand_key [of m "[[]]"] by (auto simp: matrix_combinations_def)

section \<open>Edges\<close>

abbreviation edge_pair :: "Dependency \<Rightarrow> string \<times> string" where
  "edge_pair \<equiv> \<lambda>e. (dep_from e, dep_to e)"

lemma inj_edge_pair: "inj edge_pair"
  by (rule injI) simp

definition edges_agree :: "(string \<times> string) btree_set \<times> Dependency list \<Rightarrow> bool" where
  "edges_agree acc \<longleftrightarrow> set (fst acc) = edge_pair ` set (snd acc) \<and> distinct (snd acc)"

lemma add_edge_agree:
  assumes "edges_agree acc"
  shows "edges_agree (add_edge to_job from_job acc)
       \<and> edge_pair ` set (snd (add_edge to_job from_job acc)) = insert (from_job, to_job) (edge_pair ` set (snd acc))"
proof -
  have "\<lparr>dep_from = from_job, dep_to = to_job\<rparr> \<in> set (snd acc) \<longleftrightarrow> (from_job, to_job) \<in> edge_pair ` set (snd acc)"
    using inj_image_mem_iff [OF inj_edge_pair, of "\<lparr>dep_from = from_job, dep_to = to_job\<rparr>"] by simp
  then show ?thesis
    using assms by (auto simp: edges_agree_def add_edge_def  split: prod.splits)
qed

lemma fold_add_edge_agree:
  "edges_agree acc \<Longrightarrow> edges_agree (fold (add_edge to_job) from_jobs acc)
   \<and> edge_pair ` set (snd (fold (add_edge to_job) from_jobs acc)) =
       (\<lambda>f. (f, to_job)) ` set from_jobs \<union> edge_pair ` set (snd acc)"
  by (induction from_jobs arbitrary: acc) (auto simp: add_edge_agree)

lemma need_edges_cases:
  assumes "edges_agree acc"
  shows "case need_edges origins origin job needs acc of
      Ok acc' \<Rightarrow> edges_agree acc' \<and> set needs \<subseteq> dom (bt_get origins)
        \<and> edge_pair ` set (snd acc') = (\<Union>n \<in> set needs. (\<lambda>f. (f, job)) ` set (the (bt_get origins n))) \<union> edge_pair ` set (snd acc)
    | Err e \<Rightarrow> (\<exists>n \<in> set needs. bt_get origins n = None \<and> e = InvalidDependency (origin @ '' needs unknown job '' @ n))"
  using assms
proof (induction needs arbitrary: acc)
  case (Cons n needs)
  show ?case
  proof (cases "bt_get origins n")
    case (Some fs)
    then show ?thesis
      using Cons.IH [of "fold (add_edge job) fs acc"] fold_add_edge_agree [OF Cons.prems, of job fs]
      by (clarsimp simp: domI Un_ac split: sum.splits)
  qed simp
qed simp

lemma pending_edges_cases:
  assumes "edges_agree acc"
  shows "case pending_edges origins items acc of
      Ok acc' \<Rightarrow> edges_agree acc' \<and> (\<forall>i \<in> set items. set (pj_needs i) \<subseteq> dom (bt_get origins))
        \<and> edge_pair ` set (snd acc') =
            (\<Union>i \<in> set items. \<Union>n \<in> set (pj_needs i). (\<lambda>f. (f, job_id (pj_job i))) ` set (the (bt_get origins n)))
            \<union> edge_pair ` set (snd acc)
    | Err e \<Rightarrow> (\<exists>i \<in> set items. \<exists>n \<in> set (pj_needs i). bt_get origins n = None
        \<and> e = InvalidDependency (pj_origin i @ '' needs unknown job '' @ n))"
  using assms
proof (induction items arbitrary: acc)
  case (Cons i items)
  show ?case
  proof (cases "need_edges origins (pj_origin i) (job_id (pj_job i)) (pj_needs i) acc")
    case (Inl e)
    then show ?thesis using need_edges_cases [OF Cons.prems, where origins = origins and origin = "pj_origin i" and job = "job_id (pj_job i)" and needs = "pj_needs i"] by auto
  next
    case (Inr acc')
    then show ?thesis
      using Cons.IH [of acc'] need_edges_cases [OF Cons.prems, where origins = origins and origin = "pj_origin i" and job = "job_id (pj_job i)" and needs = "pj_needs i"]
      by (clarsimp simp: Un_ac split: sum.splits)
  qed
qed simp

lemma origin_to_jobs_get:
  "bt_get (origin_to_jobs pending) origin =
     (let js = map (\<lambda>i. job_id (pj_job i)) (filter (\<lambda>i. pj_origin i = origin) pending) in
      if js = [] then None else Some js)"
  by (induction pending rule: rev_induct) (auto simp: origin_to_jobs_def Let_def)

lemma dom_origin_to_jobs: "dom (bt_get (origin_to_jobs pending)) = pj_origin ` set pending"
  by (auto simp: dom_def origin_to_jobs_get Let_def filter_empty_conv)

text \<open>The relation the pending jobs declare: which job has to run before which.\<close>

definition declared_needs :: "PendingJob list \<Rightarrow> (string \<times> string) set" where
  "declared_needs pending =
     {(job_id (pj_job a), job_id (pj_job b)) | a b. a \<in> set pending \<and> b \<in> set pending \<and> pj_origin a \<in> set (pj_needs b)}"

lemma origin_edges:
  assumes "\<forall>i \<in> set pending. set (pj_needs i) \<subseteq> pj_origin ` set pending"
  shows "(\<Union>i \<in> set pending. \<Union>n \<in> set (pj_needs i).
      (\<lambda>f. (f, job_id (pj_job i))) ` set (the (bt_get (origin_to_jobs pending) n))) = declared_needs pending"
proof -
  have "set (the (bt_get (origin_to_jobs pending) n)) = (\<lambda>i. job_id (pj_job i)) ` {i \<in> set pending. pj_origin i = n}"
    if "n \<in> pj_origin ` set pending" for n
    using that by (auto simp: origin_to_jobs_get Let_def filter_empty_conv)
  with assms show ?thesis by (fastforce simp: declared_needs_def subset_iff)
qed

lemma finish_pipeline_Ok:
  assumes "finish_pipeline source pending cx = Ok p"
  shows "pending \<noteq> [] \<and> (\<forall>i \<in> set pending. set (pj_needs i) \<subseteq> pj_origin ` set pending)
    \<and> p = (Pipeline_new source (cx_repo cx) (cx_commit cx) (cx_trust_tier cx))
            \<lparr>pl_jobs := sort_key job_id (map pj_job pending), pl_edges := pl_edges p\<rparr>
    \<and> distinct (pl_edges p) \<and> sorted (map edge_pair (pl_edges p))
    \<and> edge_pair ` set (pl_edges p) = declared_needs pending"
proof -
  obtain acc where acc: "pending_edges (origin_to_jobs pending) pending ([], []) = Ok acc" and "pending \<noteq> []"
    and p: "p = (Pipeline_new source (cx_repo cx) (cx_commit cx) (cx_trust_tier cx))
       \<lparr>pl_jobs := sort_key job_id (map pj_job pending), pl_edges := sort_key edge_pair (snd acc)\<rparr>"
    using assms by (auto simp: finish_pipeline_def  split: if_splits)
  have "edges_agree ([], [])" by (simp add: edges_agree_def)
  from pending_edges_cases [OF this, where origins = "origin_to_jobs pending" and items = pending] acc
  have "edges_agree acc" and needs: "\<forall>i \<in> set pending. set (pj_needs i) \<subseteq> pj_origin ` set pending"
    and "edge_pair ` set (snd acc) = declared_needs pending"
    by (auto simp: dom_origin_to_jobs origin_edges)
  then show ?thesis using \<open>pending \<noteq> []\<close> by (simp add: p edges_agree_def)
qed

lemma finish_pipeline_total:
  assumes "pending \<noteq> []" and "\<forall>i \<in> set pending. set (pj_needs i) \<subseteq> pj_origin ` set pending"
  shows "\<exists>p. finish_pipeline source pending cx = Ok p"
proof -
  have "edges_agree ([], [])" by (simp add: edges_agree_def)
  from pending_edges_cases [OF this, where origins = "origin_to_jobs pending" and items = pending] assms(2)
  have "\<exists>acc. pending_edges (origin_to_jobs pending) pending ([], []) = Ok acc"
    by (cases "pending_edges (origin_to_jobs pending) pending ([], [])")
      (auto simp: dom_origin_to_jobs [symmetric])
  with assms(1) show ?thesis by (auto simp: finish_pipeline_def)
qed

section \<open>What the parsers produce\<close>

text \<open>The jobs the two parsers read, before they are assembled.\<close>

fun parsed_jobs :: "string \<Rightarrow> CiKind \<Rightarrow> CompileContext \<Rightarrow> PendingJob list compiled" where
  "parsed_jobs input KindGitHubActions cx =
     (case find_line (collect_lines input) 0 ''jobs:'' of
        None \<Rightarrow> Err MissingJobs
      | Some jobs_index \<Rightarrow> github_jobs cx (drop (jobs_index + 1) (collect_lines input)))"
| "parsed_jobs input KindNativeToml cx =
     and_then (native_lines cx (str_lines input) NativeScan_init) (\<lambda>s.
     and_then (close_job cx s) (\<lambda>s. Ok (ns_pending s)))"

fun kind_source :: "CiKind \<Rightarrow> PipelineSource" where
  "kind_source KindGitHubActions = GitHubActions"
| "kind_source KindNativeToml = NativeToml"

lemma compile_stages:
  "(case kind of KindGitHubActions \<Rightarrow> compile_github input cx | KindNativeToml \<Rightarrow> compile_native input cx) =
     and_then (parsed_jobs input kind cx) (\<lambda>pending. finish_pipeline (kind_source kind) pending cx)"
  by (cases kind) (simp_all add: compile_github_def compile_native_def Let_def and_then_assoc split: option.split)

text \<open>
  The attributes no input can change: a job has steps, no network, no retries, no outputs and
  mounts its caches read-only.
\<close>

definition confined_job :: "Job \<Rightarrow> bool" where
  "confined_job j \<longleftrightarrow> job_steps j \<noteq> [] \<and> job_network_policy j = NetDeny \<and> job_retry_policy j = RetryPolicy_default
     \<and> job_outputs j = [] \<and> list_all (\<lambda>m. cm_mode m = ReadOnly) (job_cache_mounts j)"

lemma read_only_mounts [simp]:
  "list_all (\<lambda>m. cm_mode m = ReadOnly) (parse_cache_mounts ls origin)"
  "list_all (\<lambda>m. cm_mode m = ReadOnly) (default_cache_mounts job)"
  "list_all (\<lambda>m. cm_mode m = ReadOnly) (map native_mount paths)"
  by (simp_all add: parse_cache_mounts_def default_cache_mounts_def native_mount_def list_all_iff)

lemma inline_attr_mounts: "inline_attr text g = Ok g' \<Longrightarrow> gj_cache_mounts g' = gj_cache_mounts g"
  by (auto simp: inline_attr_def split: option.splits sum.splits)

lemma block_attr_mounts:
  "block_attr origin text nested g = Ok g' \<Longrightarrow> list_all (\<lambda>m. cm_mode m = ReadOnly) (gj_cache_mounts g) \<Longrightarrow>
     list_all (\<lambda>m. cm_mode m = ReadOnly) (gj_cache_mounts g')"
  by (auto simp: block_attr_def split: if_splits)

lemma scan_job_mounts:
  "scan_job origin ls g = Ok g' \<Longrightarrow> list_all (\<lambda>m. cm_mode m = ReadOnly) (gj_cache_mounts g) \<Longrightarrow>
     list_all (\<lambda>m. cm_mode m = ReadOnly) (gj_cache_mounts g')"
proof (induction origin ls g rule: scan_job.induct)
  case (2 origin l ls g)
  then show ?case
    by (auto split: if_splits dest: inline_attr_mounts block_attr_mounts)
qed simp

lemma matrix_job_confined:
  "gj_steps g \<noteq> [] \<Longrightarrow> list_all (\<lambda>m. cm_mode m = ReadOnly) (gj_cache_mounts g) \<Longrightarrow>
     confined_job (pj_job (matrix_job origin g combo))"
  by (simp add: matrix_job_def confined_job_def Let_def Job_new_def steps_with_matrix_def enumerate_eq_zip)

lemma parse_github_job_confined:
  "parse_github_job origin block cx = Ok jobs \<Longrightarrow> i \<in> set jobs \<Longrightarrow> confined_job (pj_job i)"
  by (auto simp: parse_github_job_def GithubJob_init_def split: if_splits
      intro!: matrix_job_confined dest: scan_job_mounts)

lemma github_jobs_confined:
  "github_jobs cx ls = Ok pending \<Longrightarrow> i \<in> set pending \<Longrightarrow> confined_job (pj_job i)"
proof (induction cx ls arbitrary: pending rule: github_jobs.induct)
  case (2 cx l ls)
  then show ?case by (auto split: if_splits dest: parse_github_job_confined)
qed simp

lemma native_job_steps: "run \<noteq> [] \<Longrightarrow> confined_job (native_job i name runner run values arrays)"
  by (simp add: native_job_def confined_job_def Job_new_def enumerate_eq_zip split: option.split)

lemma native_job_confined: "native_job_from_maps values arrays cx = Ok i \<Longrightarrow> confined_job (pj_job i)"
  unfolding native_job_from_maps_def Let_def
  by (cases "native_run values arrays"; cases "class_from_str (native_runner values cx)")
    (auto split: if_splits intro!: native_job_steps)

lemma native_pair_pending [simp]: "ns_pending (native_pair key value s) = ns_pending s"
  by (simp add: native_pair_def)

lemma close_job_confined:
  "close_job cx s = Ok s' \<Longrightarrow> \<forall>i \<in> set (ns_pending s). confined_job (pj_job i) \<Longrightarrow>
     \<forall>i \<in> set (ns_pending s'). confined_job (pj_job i)"
  by (auto simp: close_job_def native_job_confined split: if_splits)

lemma native_line_confined:
  assumes "native_line cx raw s = Ok s'" and "\<forall>i \<in> set (ns_pending s). confined_job (pj_job i)"
  shows "\<forall>i \<in> set (ns_pending s'). confined_job (pj_job i)"
proof -
  have "ns_pending s' = ns_pending s \<or> (\<exists>t. close_job cx s = Ok t \<and> ns_pending s' = ns_pending t)"
    using assms(1) unfolding native_line_def Let_def by (simp split: if_splits option.splits prod.splits) auto
  then show ?thesis
    using close_job_confined [OF _ assms(2)] assms(2) by metis
qed

lemma native_lines_confined:
  "native_lines cx ls s = Ok s' \<Longrightarrow> \<forall>i \<in> set (ns_pending s). confined_job (pj_job i) \<Longrightarrow>
     \<forall>i \<in> set (ns_pending s'). confined_job (pj_job i)"
  by (induction ls arbitrary: s) (auto dest: native_line_confined)

lemma parsed_jobs_confined:
  assumes "parsed_jobs input kind cx = Ok pending" and "i \<in> set pending"
  shows "confined_job (pj_job i)"
proof (cases kind)
  case KindGitHubActions
  with assms show ?thesis by (auto split: option.splits intro: github_jobs_confined)
next
  case KindNativeToml
  with assms obtain s t where lines: "native_lines cx (str_lines input) NativeScan_init = Ok s"
    and closed: "close_job cx s = Ok t" and i: "i \<in> set (ns_pending t)" by auto
  have "\<forall>i \<in> set (ns_pending s). confined_job (pj_job i)"
    by (rule native_lines_confined [OF lines]) (simp add: NativeScan_init_def)
  from close_job_confined [OF closed this] i show ?thesis by blast
qed

section \<open>The compiler\<close>

lemma compile_ci_Ok:
  assumes "compile_ci input kind cx = Ok p"
  obtains pending q where "trim input \<noteq> []" "parsed_jobs input kind cx = Ok pending"
    "finish_pipeline (kind_source kind) pending cx = Ok q" "p = q\<lparr>pl_id := pipeline_identity q\<rparr>" "pipeline_validate p = Ok ()"
  using assms unfolding compile_ci_def compile_stages
  by (auto simp: Let_def split: if_splits sum.splits) (metis (full_types) old.unit.exhaust sum.exhaust)+

lemma finish_pipeline_fields:
  assumes "finish_pipeline source pending cx = Ok q"
  shows "pl_jobs q = sort_key job_id (map pj_job pending)" and "pl_repo q = cx_repo cx"
    and "pl_commit q = cx_commit cx" and "pl_trust_tier q = cx_trust_tier cx" and "pl_source q = source"
    and "pl_cache_policy q = CachePolicy_default" and "pl_artifact_policy q = ArtifactPolicy_default"
    and "pl_permission_policy q = PermissionPolicy_default" and "pl_secret_policy q = SecretPolicy_default"
    and "pl_proof_policy q = ProofPolicy_default" and "pl_signing_policy q = SigningPolicy_default"
proof -
  obtain es where "q = (Pipeline_new source (cx_repo cx) (cx_commit cx) (cx_trust_tier cx))
      \<lparr>pl_jobs := sort_key job_id (map pj_job pending), pl_edges := es\<rparr>"
    using finish_pipeline_Ok [OF assms] by blast
  then show "pl_jobs q = sort_key job_id (map pj_job pending)" "pl_repo q = cx_repo cx"
    "pl_commit q = cx_commit cx" "pl_trust_tier q = cx_trust_tier cx" "pl_source q = source"
    "pl_cache_policy q = CachePolicy_default" "pl_artifact_policy q = ArtifactPolicy_default"
    "pl_permission_policy q = PermissionPolicy_default" "pl_secret_policy q = SecretPolicy_default"
    "pl_proof_policy q = ProofPolicy_default" "pl_signing_policy q = SigningPolicy_default"
    by (simp_all add: Pipeline_new_def)
qed

lemma compiled_edges:
  assumes "compile_ci input kind cx = Ok p" and "parsed_jobs input kind cx = Ok pending"
  shows "edge_pair ` set (pl_edges p) = declared_needs pending" and "pipeline_validate p = Ok ()"
    and "mset (pl_jobs p) = mset (map pj_job pending)" and "sorted (map job_id (pl_jobs p))"
    and "distinct (pl_edges p)" and "sorted (map edge_pair (pl_edges p))"
proof -
  obtain q where q: "finish_pipeline (kind_source kind) pending cx = Ok q" and p: "p = q\<lparr>pl_id := pipeline_identity q\<rparr>"
    and valid: "pipeline_validate p = Ok ()"
    by (rule compile_ci_Ok [OF assms(1)]) (use assms(2) in auto)
  have "pl_jobs p = sort_key job_id (map pj_job pending)" "pl_edges p = pl_edges q"
    by (simp_all add: p finish_pipeline_fields [OF q])
  then show "edge_pair ` set (pl_edges p) = declared_needs pending" "pipeline_validate p = Ok ()"
    "mset (pl_jobs p) = mset (map pj_job pending)" "sorted (map job_id (pl_jobs p))"
    "distinct (pl_edges p)" "sorted (map edge_pair (pl_edges p))"
    using finish_pipeline_Ok [OF q] valid by simp_all
qed

text \<open>
  The compiler is exact: the jobs of the pipeline are the parsed jobs, in the order of their
  distinct ids, and its edges are, once each and in order, the pairs of jobs of which one names
  the origin of the other in its \<open>needs\<close>.
\<close>

theorem compile_exact:
  assumes "compile_ci input kind cx = Ok p"
  shows "\<exists>pending. parsed_jobs input kind cx = Ok pending
       \<and> mset (pl_jobs p) = mset (map pj_job pending)
       \<and> sorted (map job_id (pl_jobs p)) \<and> distinct (map job_id (pl_jobs p))
       \<and> edge_pair ` set (pl_edges p) = declared_needs pending
       \<and> distinct (pl_edges p) \<and> sorted (map edge_pair (pl_edges p))"
proof -
  obtain pending where parsed: "parsed_jobs input kind cx = Ok pending"
    using assms by (rule compile_ci_Ok)
  with compiled_edges [OF assms parsed] pipeline_validate_distinct show ?thesis by simp
qed

lemma declared_needs_list:
  "declared_needs pending = set (concat (map (\<lambda>b. map (\<lambda>a. (job_id (pj_job a), job_id (pj_job b)))
     (filter (\<lambda>a. pj_origin a \<in> set (pj_needs b)) pending)) pending))"
  by (auto simp: declared_needs_def)

lemma declared_needs_irrefl:
  assumes "distinct (map (\<lambda>i. job_id (pj_job i)) pending)"
  shows "(\<forall>x. (x, x) \<notin> declared_needs pending) \<longleftrightarrow> (\<forall>i \<in> set pending. pj_origin i \<notin> set (pj_needs i))"
proof -
  have inj: "a = b" if "a \<in> set pending" "b \<in> set pending" "job_id (pj_job a) = job_id (pj_job b)" for a b
    using assms that by (simp add: distinct_map inj_on_def)
  have "(x, x) \<in> declared_needs pending \<longleftrightarrow> (\<exists>i \<in> set pending. job_id (pj_job i) = x \<and> pj_origin i \<in> set (pj_needs i))" for x
    unfolding declared_needs_def mem_Collect_eq prod.inject using inj by metis
  then show ?thesis by blast
qed

lemma edges_valid_iff:
  "list_all (\<lambda>e. dep_from e \<in> A \<and> dep_to e \<in> A \<and> dep_from e \<noteq> dep_to e) es
   \<longleftrightarrow> (\<forall>(x, y) \<in> edge_pair ` set es. x \<in> A \<and> y \<in> A \<and> x \<noteq> y)"
  by (auto simp: list_all_iff)

lemma declared_needs_ids:
  "(x, y) \<in> declared_needs pending \<Longrightarrow> x \<in> (\<lambda>i. job_id (pj_job i)) ` set pending \<and> y \<in> (\<lambda>i. job_id (pj_job i)) ` set pending"
  by (auto simp: declared_needs_def)

lemma finished_valid_iff:
  assumes "finish_pipeline source pending cx = Ok q" and "\<forall>i \<in> set pending. job_steps (pj_job i) \<noteq> []"
  shows "pipeline_validate (q\<lparr>pl_id := n\<rparr>) = Ok () \<longleftrightarrow>
     trim (cx_repo cx) \<noteq> [] \<and> trim (cx_commit cx) \<noteq> [] \<and> distinct (map (\<lambda>i. job_id (pj_job i)) pending)
   \<and> (\<forall>i \<in> set pending. trim (job_id (pj_job i)) \<noteq> [] \<and> pj_origin i \<notin> set (pj_needs i))"
proof -
  let ?ids = "map (\<lambda>i. job_id (pj_job i)) pending"
  have "mset (map job_id (pl_jobs q)) = mset ?ids"
    by (simp add: finish_pipeline_fields [OF assms(1)] multiset.map_comp comp_def)
  then have ids: "distinct (map job_id (pl_jobs q)) = distinct ?ids" "set (map job_id (pl_jobs q)) = set ?ids"
    by (metis mset_eq_imp_distinct_iff, metis mset_eq_setD)
  have "edge_pair ` set (pl_edges q) = declared_needs pending"
    using finish_pipeline_Ok [OF assms(1)] by blast
  then have "list_all (\<lambda>e. dep_from e \<in> set ?ids \<and> dep_to e \<in> set ?ids \<and> dep_from e \<noteq> dep_to e) (pl_edges q)
      \<longleftrightarrow> (\<forall>x. (x, x) \<notin> declared_needs pending)"
    unfolding edges_valid_iff using declared_needs_ids [of _ _ pending] by (auto simp only: set_map case_prod_conv)
  moreover have "list_all (\<lambda>j. trim (job_id j) \<noteq> [] \<and> job_steps j \<noteq> []) (pl_jobs q)
      \<longleftrightarrow> (\<forall>i \<in> set pending. trim (job_id (pj_job i)) \<noteq> [])"
    using assms(2) by (auto simp: list_all_iff finish_pipeline_fields [OF assms(1)])
  ultimately show ?thesis
    using declared_needs_irrefl [of pending] ids
    by (auto simp: pipeline_validate_iff finish_pipeline_fields [OF assms(1)])
qed

lemma compile_accepts:
  "(\<exists>p. compile_ci input kind cx = Ok p) \<longleftrightarrow>
     trim input \<noteq> [] \<and> trim (cx_repo cx) \<noteq> [] \<and> trim (cx_commit cx) \<noteq> []
   \<and> (\<exists>pending. parsed_jobs input kind cx = Ok pending \<and> pending \<noteq> []
        \<and> distinct (map (\<lambda>i. job_id (pj_job i)) pending)
        \<and> (\<forall>i \<in> set pending. trim (job_id (pj_job i)) \<noteq> []
              \<and> pj_origin i \<notin> set (pj_needs i) \<and> set (pj_needs i) \<subseteq> pj_origin ` set pending))"
  (is "?L \<longleftrightarrow> ?R")
proof
  assume ?L
  then obtain p where "compile_ci input kind cx = Ok p" ..
  then obtain pending q where "trim input \<noteq> []" and parsed: "parsed_jobs input kind cx = Ok pending"
    and q: "finish_pipeline (kind_source kind) pending cx = Ok q" and "p = q\<lparr>pl_id := pipeline_identity q\<rparr>"
    and "pipeline_validate p = Ok ()"
    by (rule compile_ci_Ok)
  moreover have "\<forall>i \<in> set pending. job_steps (pj_job i) \<noteq> []"
    using parsed_jobs_confined [OF parsed] by (simp add: confined_job_def)
  note valid = finished_valid_iff [OF q this, of "pipeline_identity q"]
  moreover have "\<forall>i \<in> set pending. set (pj_needs i) \<subseteq> pj_origin ` set pending" "pending \<noteq> []"
    using finish_pipeline_Ok [OF q] by blast+
  ultimately show ?R by simp
next
  assume R: ?R
  then obtain pending where parsed: "parsed_jobs input kind cx = Ok pending" and "pending \<noteq> []"
    and sound: "distinct (map (\<lambda>i. job_id (pj_job i)) pending)"
      "\<forall>i \<in> set pending. trim (job_id (pj_job i)) \<noteq> [] \<and> pj_origin i \<notin> set (pj_needs i)"
    and "\<forall>i \<in> set pending. set (pj_needs i) \<subseteq> pj_origin ` set pending" by blast
  then obtain q where q: "finish_pipeline (kind_source kind) pending cx = Ok q"
    using finish_pipeline_total by blast
  have "\<forall>i \<in> set pending. job_steps (pj_job i) \<noteq> []"
    using parsed_jobs_confined [OF parsed] by (simp add: confined_job_def)
  from finished_valid_iff [OF q this] R sound
  have "pipeline_validate (q\<lparr>pl_id := pipeline_identity q\<rparr>) = Ok ()" by blast
  then have "compile_ci input kind cx = Ok (q\<lparr>pl_id := pipeline_identity q\<rparr>)"
    using R unfolding compile_ci_def compile_stages parsed by (simp add: q)
  then show ?L ..
qed


section \<open>Matrix jobs and steps\<close>

lemma scan_job_matrix:
  "scan_job origin ls g = Ok g' \<Longrightarrow> bt_wf (gj_matrix g) \<Longrightarrow> bt_wf (gj_matrix g')"
proof (induction origin ls g rule: scan_job.induct)
  case (2 origin l ls g)
  have "inline_attr t g = Ok h \<Longrightarrow> bt_wf (gj_matrix h)" for t h
    using "2.prems"(2) by (auto simp: inline_attr_def split: option.splits sum.splits)
  moreover have "block_attr origin t n g = Ok h \<Longrightarrow> bt_wf (gj_matrix h)" for t n h
    using "2.prems"(2) by (auto simp: block_attr_def bt_wf_parse_matrix split: if_splits)
  ultimately show ?case using 2 by (auto split: if_splits)
qed simp

lemma length_product_lists_eq: "length (product_lists xss) = prod_list (map length xss)"
  by (induction xss) (simp_all add: length_concat comp_def sum_list_triv)

text \<open>
  A job with a build matrix becomes one job per element of the product of its axes, in the order
  of the axes and of the values within an axis; without a matrix it becomes one job. An axis
  without values leaves no job at all.
\<close>

theorem github_matrix_exact:
  assumes "parse_github_job origin block cx = Ok jobs"
  shows "\<exists>g. scan_job origin block (GithubJob_init cx) = Ok g \<and> gj_steps g \<noteq> []
       \<and> jobs = map (\<lambda>vs. matrix_job origin g (zip (map fst (gj_matrix g)) vs)) (product_lists (map snd (gj_matrix g)))
       \<and> length jobs = prod_list (map (\<lambda>axis. length (snd axis)) (gj_matrix g))"
proof -
  obtain g where g: "scan_job origin block (GithubJob_init cx) = Ok g" "gj_steps g \<noteq> []"
    "jobs = map (matrix_job origin g) (matrix_combinations (gj_matrix g))"
    using assms by (auto simp: parse_github_job_def split: if_splits)
  have "bt_wf (gj_matrix g)"
    using scan_job_matrix [OF g(1)] by (simp add: GithubJob_init_def)
  with g show ?thesis
    by (simp add: matrix_combinations_eq length_product_lists_eq comp_def)
qed

text \<open>
  Steps fail closed: the steps of a job are read exactly when each has a command or an action
  that is not blank; otherwise the job is refused under its name.
\<close>

lemma step_from_builder_Ok:
  "(\<exists>st. step_from_builder origin b = Ok st) \<longleftrightarrow> \<not> (is_blank (sb_run (snd b)) \<and> is_blank (sb_uses (snd b)))"
  by (cases b) (simp add: step_from_builder_def)

lemma step_from_builder_executable:
  "step_from_builder origin b = Ok st \<Longrightarrow> \<not> is_blank (st_command st) \<or> \<not> is_blank (st_uses st)"
  by (cases b) (auto simp: step_from_builder_def split: if_splits)

lemma parse_steps_executable:
  "parse_steps origin ls = Ok steps \<Longrightarrow> st \<in> set steps \<Longrightarrow> \<not> is_blank (st_command st) \<or> \<not> is_blank (st_uses st)"
proof -
  assume "parse_steps origin ls = Ok steps" and st: "st \<in> set steps"
  then have "map (step_from_builder origin) (enumerate 0 (take_current (scan_steps ls StepScan_init))) = map Ok steps"
    by (simp add: parse_steps_def collect_results_Ok_iff)
  with st obtain b where "step_from_builder origin b = Ok st"
    by (metis (no_types, lifting) image_iff list.set_map)
  then show ?thesis by (rule step_from_builder_executable)
qed

section \<open>A sample\<close>

declare parsed_jobs.simps [simp del]

definition sample_toml :: string where
  "sample_toml = join [NL]
     [''[[job]]'', ''id = fmt'', ''run = cargo fmt'', ''cache_mounts = []'',
      ''[[job]]'', ''id = test'', ''needs = [fmt]'', ''run = cargo test'', ''cache_mounts = []'']"

definition sample_cx :: CompileContext where
  "sample_cx = CompileContext_new ''acme/demo'' ''abc''"

lemma sample_toml_parsed:
  obtains pending where "parsed_jobs sample_toml KindNativeToml sample_cx = Ok pending"
    "map (\<lambda>i. (pj_origin i, job_id (pj_job i), pj_needs i)) pending
       = [(''fmt'', ''fmt'', []), (''test'', ''test'', [''fmt''])]"
proof -
  have "map_sum (\<lambda>e. e) (map (\<lambda>i. (pj_origin i, job_id (pj_job i), pj_needs i)))
      (parsed_jobs sample_toml KindNativeToml sample_cx)
    = Ok [(''fmt'', ''fmt'', []), (''test'', ''test'', [''fmt''])]"
    by code_simp
  then show thesis
    using that by (cases "parsed_jobs sample_toml KindNativeToml sample_cx") simp_all
qed

lemma sample_toml_accepted:
  "trim sample_toml \<noteq> []" "trim (cx_repo sample_cx) \<noteq> []" "trim (cx_commit sample_cx) \<noteq> []"
  by code_simp+

lemma sample_toml_pending:
  assumes "parsed_jobs sample_toml KindNativeToml sample_cx = Ok pending"
  obtains a b where "pending = [a, b]" "pj_origin a = ''fmt''" "job_id (pj_job a) = ''fmt''" "pj_needs a = []"
    "pj_origin b = ''test''" "job_id (pj_job b) = ''test''" "pj_needs b = [''fmt'']"
proof (rule sample_toml_parsed)
  fix ps
  assume "parsed_jobs sample_toml KindNativeToml sample_cx = Ok ps"
    "map (\<lambda>i. (pj_origin i, job_id (pj_job i), pj_needs i)) ps
       = [(''fmt'', ''fmt'', []), (''test'', ''test'', [''fmt''])]"
  with assms that show thesis by auto
qed

lemma sample_toml_compiles: "\<exists>p. compile_ci sample_toml KindNativeToml sample_cx = Ok p"
proof -
  obtain pending where parsed: "parsed_jobs sample_toml KindNativeToml sample_cx = Ok pending"
    by (rule sample_toml_parsed)
  from sample_toml_pending [OF this] obtain a b where "pending = [a, b]" "pj_origin a = ''fmt''"
    "job_id (pj_job a) = ''fmt''" "pj_needs a = []" "pj_origin b = ''test''" "job_id (pj_job b) = ''test''"
    "pj_needs b = [''fmt'']" .
  moreover have "trim ''fmt'' \<noteq> []" "trim ''test'' \<noteq> []" by code_simp+
  ultimately show ?thesis
    using compile_accepts [of sample_toml KindNativeToml sample_cx] parsed sample_toml_accepted by simp
qed

lemma sample_toml_needs:
  assumes "parsed_jobs sample_toml KindNativeToml sample_cx = Ok pending"
  shows "declared_needs pending = {(''fmt'', ''test'')}"
  by (rule sample_toml_pending [OF assms]) (simp add: declared_needs_list)

text \<open>
  C38. The compiler accepts exactly: an input that is not blank and parses to some jobs, under a
  repository and commit that are not blank, in which all job ids are distinct and not blank, every
  \<open>needs\<close> names the origin of a job and no job needs its own origin. Everything else is an error
  value.
\<close>

theorem compile_accepts_iff:
  "(\<exists>p. compile_ci input kind cx = Ok p) \<longleftrightarrow>
     trim input \<noteq> [] \<and> trim (cx_repo cx) \<noteq> [] \<and> trim (cx_commit cx) \<noteq> []
   \<and> (\<exists>pending. parsed_jobs input kind cx = Ok pending \<and> pending \<noteq> []
        \<and> distinct (map (\<lambda>i. job_id (pj_job i)) pending)
        \<and> (\<forall>i \<in> set pending. trim (job_id (pj_job i)) \<noteq> []
              \<and> pj_origin i \<notin> set (pj_needs i) \<and> set (pj_needs i) \<subseteq> pj_origin ` set pending))"
  by (rule compile_accepts)

theorem compile_accepts_iff_witness:
  "\<exists>pending. parsed_jobs sample_toml KindNativeToml sample_cx = Ok pending
     \<and> distinct (map (\<lambda>i. job_id (pj_job i)) pending)"
  using compile_accepts_iff [of sample_toml KindNativeToml sample_cx] sample_toml_compiles by metis

theorem compile_exact_witness:
  "\<exists>p. compile_ci sample_toml KindNativeToml sample_cx = Ok p \<and> edge_pair ` set (pl_edges p) = {(''fmt'', ''test'')}"
proof -
  obtain p where p: "compile_ci sample_toml KindNativeToml sample_cx = Ok p" using sample_toml_compiles ..
  then obtain pending where "parsed_jobs sample_toml KindNativeToml sample_cx = Ok pending"
    "edge_pair ` set (pl_edges p) = declared_needs pending" using compile_exact [OF p] by blast
  then show ?thesis using p sample_toml_needs by (intro exI [of _ p]) simp
qed


definition sample_matrix_lines :: "SourceLine list" where
  "sample_matrix_lines = collect_lines (join [NL]
     [''    strategy:'', ''      matrix:'', ''        os: [linux, mac]'', ''        rust: [beta]'',
      ''    steps:'', ''      - run: cargo test''])"

theorem github_matrix_exact_witness:
  "\<exists>jobs. parse_github_job ''test'' sample_matrix_lines sample_cx = Ok jobs \<and> length jobs = 2"
proof -
  have scan: "map_sum (\<lambda>e. e) (\<lambda>g. (gj_steps g = [], gj_matrix g)) (scan_job ''test'' sample_matrix_lines (GithubJob_init sample_cx))
      = Ok (False, [(''os'', [''linux'', ''mac'']), (''rust'', [''beta''])])"
    by code_simp
  then obtain g where g: "scan_job ''test'' sample_matrix_lines (GithubJob_init sample_cx) = Ok g" "gj_steps g \<noteq> []"
    "gj_matrix g = [(''os'', [''linux'', ''mac'']), (''rust'', [''beta''])]"
    by (cases "scan_job ''test'' sample_matrix_lines (GithubJob_init sample_cx)") simp_all
  then obtain jobs where jobs: "parse_github_job ''test'' sample_matrix_lines sample_cx = Ok jobs"
    by (simp add: parse_github_job_def)
  with github_matrix_exact [OF jobs] g show ?thesis by auto
qed

end
