(* ===== verification/Ci_Schedule.thy ===== *)
theory Ci_Schedule
  imports Ci_Ir
begin

text \<open>
  \<open>jeryu-ci-scheduler/src/schedule.rs\<close>: the deterministic layered schedule of a pipeline.
  The \<open>while\<close> loop is the total function \<open>schedule_loop\<close>: every round that does not
  return removes a job from \<open>remaining\<close>.
\<close>

section \<open>Definitions\<close>

record ScheduleRound =
  sr_index :: nat
  sr_jobs :: "string list"

record Schedule =
  schedule_hash :: string
  rounds :: "ScheduleRound list"

datatype ScheduleError = ScheduleDuplicateJob string | ScheduleUnknownJob string | Cycle

fun schedule_message :: "ScheduleError \<Rightarrow> string" where
  "schedule_message (ScheduleDuplicateJob j) = ''duplicate job id: '' @ j"
| "schedule_message (ScheduleUnknownJob j) = ''edge references unknown job: '' @ j"
| "schedule_message Cycle = ''pipeline dependency graph contains a cycle''"

type_synonym deps_map = "(string, string btree_set) btree_map"

fun collect_jobs :: "string btree_set \<Rightarrow> Job list \<Rightarrow> (string btree_set, ScheduleError) result" where
  "collect_jobs remaining [] = Ok remaining"
| "collect_jobs remaining (j # js) =
     (if job_id j \<in> set remaining then Err (ScheduleDuplicateJob (job_id j))
      else collect_jobs (bs_insert (job_id j) remaining) js)"

definition add_dependency :: "Dependency \<Rightarrow> deps_map \<Rightarrow> deps_map" where
  "add_dependency e deps =
     (let old = (case bt_get deps (dep_to e) of None \<Rightarrow> [] | Some s \<Rightarrow> s)
      in bt_insert (dep_to e) (bs_insert (dep_from e) old) deps)"

fun collect_deps :: "string btree_set \<Rightarrow> deps_map \<Rightarrow> Dependency list \<Rightarrow> (deps_map, ScheduleError) result" where
  "collect_deps remaining deps [] = Ok deps"
| "collect_deps remaining deps (e # es) =
     (if dep_from e \<notin> set remaining then Err (ScheduleUnknownJob (dep_from e))
      else if dep_to e \<notin> set remaining then Err (ScheduleUnknownJob (dep_to e))
      else collect_deps remaining (add_dependency e deps) es)"

definition is_ready :: "deps_map \<Rightarrow> string btree_set \<Rightarrow> string \<Rightarrow> bool" where
  "is_ready deps completed j =
     (case bt_get deps j of None \<Rightarrow> True | Some ds \<Rightarrow> set ds \<subseteq> set completed)"

lemma length_remaining_less:
  assumes "filter P xs \<noteq> []"
  shows "length (filter (\<lambda>j. j \<notin> set (filter P xs)) xs) < length xs"
proof -
  obtain x where "x \<in> set xs" "P x" using assms by (auto simp: filter_empty_conv)
  then show ?thesis by (auto intro: length_filter_less)
qed

function schedule_loop ::
  "deps_map \<Rightarrow> string btree_set \<Rightarrow> string btree_set \<Rightarrow> ScheduleRound list
   \<Rightarrow> (ScheduleRound list, ScheduleError) result" where
  "schedule_loop deps remaining completed rs =
     (if remaining = [] then Ok rs
      else let ready = filter (is_ready deps completed) remaining in
        if ready = [] then Err Cycle
        else schedule_loop deps
               (filter (\<lambda>j. j \<notin> set ready) remaining)
               (fold bs_insert ready completed)
               (rs @ [\<lparr>sr_index = length rs, sr_jobs = ready\<rparr>]))"
  by pat_completeness auto

termination
  by (relation "measure (\<lambda>(deps, remaining, completed, rs). length remaining)")
    (auto simp del: set_filter intro!: length_remaining_less)

declare schedule_loop.simps [simp del]

definition round_line :: "ScheduleRound \<Rightarrow> string" where
  "round_line r = show_nat (sr_index r) @ ''='' @ join '','' (sr_jobs r) @ [NL]"

definition deterministic_schedule :: "Pipeline \<Rightarrow> (Schedule, ScheduleError) result" where
  "deterministic_schedule p =
     and_then (collect_jobs [] (pl_jobs p)) (\<lambda>remaining.
     and_then (collect_deps remaining [] (pl_edges p)) (\<lambda>deps.
     and_then (schedule_loop deps remaining [] []) (\<lambda>rs.
       let canonical = ir_hash p @ [NL] @ concat (map round_line rs)
       in Ok \<lparr>schedule_hash = deterministic_hash canonical, rounds = rs\<rparr>)))"

section \<open>The dependency relation\<close>

definition dep_set :: "deps_map \<Rightarrow> string \<Rightarrow> string set" where
  "dep_set deps j = (case bt_get deps j of None \<Rightarrow> {} | Some ds \<Rightarrow> set ds)"

definition edge_rel :: "Dependency list \<Rightarrow> (string \<times> string) set" where
  "edge_rel es = (\<lambda>e. (dep_from e, dep_to e)) ` set es"

lemma is_ready_iff: "is_ready deps completed j \<longleftrightarrow> dep_set deps j \<subseteq> set completed"
  by (auto simp: is_ready_def dep_set_def split: option.splits)

lemma collect_jobs_Ok:
  "collect_jobs s js = Ok r \<longleftrightarrow>
     distinct (map job_id js) \<and> set s \<inter> job_id ` set js = {} \<and> r = fold bs_insert (map job_id js) s"
proof (induction js arbitrary: s)
  case (Cons j js)
  then show ?case by (cases "job_id j \<in> set s") auto
qed auto

lemma bs_wf_fold_insert: "bs_wf s \<Longrightarrow> bs_wf (fold bs_insert xs s)"
  by (induction xs arbitrary: s) auto

lemma dep_set_add:
  "dep_set (add_dependency e deps) j =
     (if j = dep_to e then insert (dep_from e) (dep_set deps j) else dep_set deps j)"
  by (auto simp: dep_set_def add_dependency_def Let_def split: option.splits)

lemma collect_deps_dep_set:
  "collect_deps remaining deps es = Ok d \<Longrightarrow>
     dep_set d j = dep_set deps j \<union> {i. (i, j) \<in> edge_rel es}"
  by (induction remaining deps es rule: collect_deps.induct)
    (auto simp: dep_set_add edge_rel_def split: if_splits)

lemma collect_deps_Ok_iff:
  "(\<exists>d. collect_deps remaining deps es = Ok d) \<longleftrightarrow>
     (\<forall>e \<in> set es. dep_from e \<in> set remaining \<and> dep_to e \<in> set remaining)"
  by (induction remaining deps es rule: collect_deps.induct) auto

lemma collect_deps_Err:
  "collect_deps remaining deps es = Err x \<Longrightarrow> \<exists>j. x = ScheduleUnknownJob j \<and> j \<notin> set remaining"
  by (induction remaining deps es rule: collect_deps.induct) (auto split: if_splits)

section \<open>Layerings\<close>

text \<open>
  The specification of a round list: each round is exactly the set of outstanding jobs whose
  dependencies all completed in earlier rounds (the earliest-round layering).
\<close>

fun layered :: "(string \<Rightarrow> string set) \<Rightarrow> string set \<Rightarrow> string list list \<Rightarrow> bool" where
  "layered d c [] \<longleftrightarrow> True"
| "layered d c (r # rs) \<longleftrightarrow>
     r \<noteq> [] \<and> bs_wf r \<and> (\<forall>j \<in> set r. d j \<subseteq> c) \<and> (\<forall>j \<in> \<Union> (set (map set rs)). \<not> d j \<subseteq> c)
   \<and> layered d (c \<union> set r) rs"

lemma schedule_loop_Ok:
  assumes "schedule_loop deps remaining completed rs = Ok rs'" and "bs_wf remaining"
  shows "\<exists>new. rs' = rs @ new \<and> layered (dep_set deps) (set completed) (map sr_jobs new)
       \<and> mset (concat (map sr_jobs new)) = mset remaining
       \<and> map sr_index new = [length rs ..< length rs + length new]"
  using assms
proof (induction deps remaining completed rs rule: schedule_loop.induct)
  case (1 deps remaining completed rs)
  let ?ready = "filter (is_ready deps completed) remaining"
  let ?rest = "filter (\<lambda>j. j \<notin> set ?ready) remaining"
  let ?round = "\<lparr>sr_index = length rs, sr_jobs = ?ready\<rparr>"
  show ?case
  proof (cases "remaining = []")
    case True
    with "1.prems"(1) show ?thesis by (simp add: schedule_loop.simps)
  next
    case False
    with "1.prems"(1) have ne: "?ready \<noteq> []"
      by (auto simp: schedule_loop.simps [of deps remaining] Let_def split: if_splits)
    have "schedule_loop deps ?rest (fold bs_insert ?ready completed) (rs @ [?round]) = Ok rs'"
      using "1.prems"(1) False ne
      by (subst (asm) schedule_loop.simps) (simp only: Let_def if_False)
    from "1.IH" [OF False refl ne this] "1.prems"(2)
    obtain new where new: "rs' = rs @ ?round # new"
      "layered (dep_set deps) (set completed \<union> set ?ready) (map sr_jobs new)"
      "mset (concat (map sr_jobs new)) = mset ?rest"
      "map sr_index new = [Suc (length rs) ..< Suc (length rs) + length new]"
      by (auto simp del: set_filter simp: Un_commute)
    have "\<Union> (set (map set (map sr_jobs new))) = set ?rest"
      using mset_eq_setD [OF new(3)] by simp
    then have "layered (dep_set deps) (set completed) (map sr_jobs (?round # new))"
      using new(2) ne "1.prems"(2) by (auto simp: is_ready_iff)
    moreover have "mset (concat (map sr_jobs (?round # new))) = mset remaining"
      using new(3) by (simp add: multiset_eq_iff flip: mset_filter) (auto simp: not_in_iff)
    moreover have "map sr_index (?round # new) = [length rs ..< length rs + length (?round # new)]"
      using new(4) by (simp add: upt_conv_Cons del: upt_Suc)
    ultimately show ?thesis using new(1) by blast
  qed
qed

lemma schedule_loop_Err:
  assumes "schedule_loop deps remaining completed rs = Err x"
  shows "x = Cycle \<and> (\<exists>R. R \<noteq> {} \<and> R \<subseteq> set remaining
       \<and> (\<forall>j \<in> R. \<not> dep_set deps j \<subseteq> set completed \<union> (set remaining - R)))"
  using assms
proof (induction deps remaining completed rs rule: schedule_loop.induct)
  case (1 deps remaining completed rs)
  let ?ready = "filter (is_ready deps completed) remaining"
  let ?rest = "filter (\<lambda>j. j \<notin> set ?ready) remaining"
  have ne: "remaining \<noteq> []"
    using "1.prems" by (auto simp: schedule_loop.simps)
  show ?case
  proof (cases "?ready = []")
    case True
    with "1.prems" ne have "x = Cycle" by (simp add: schedule_loop.simps)
    moreover from True have "\<forall>j \<in> set remaining. \<not> dep_set deps j \<subseteq> set completed"
      by (simp add: filter_empty_conv is_ready_iff)
    ultimately show ?thesis
      using ne by (intro conjI exI [of _ "set remaining"]) auto
  next
    case False
    have "schedule_loop deps ?rest (fold bs_insert ?ready completed)
        (rs @ [\<lparr>sr_index = length rs, sr_jobs = ?ready\<rparr>]) = Err x"
      using "1.prems" ne False
      by (subst (asm) schedule_loop.simps) (simp only: Let_def if_False)
    from "1.IH" [OF ne refl False this] obtain R where R: "x = Cycle" "R \<noteq> {}" "R \<subseteq> set ?rest"
      "\<forall>j \<in> R. \<not> dep_set deps j \<subseteq> set (fold bs_insert ?ready completed) \<union> (set ?rest - R)"
      by blast
    have "set (fold bs_insert ?ready completed) \<union> (set ?rest - R)
        = set completed \<union> (set remaining - R)"
      using R(3) by auto
    with R show ?thesis by (intro conjI exI [of _ R]) auto
  qed
qed

lemma layered_deps:
  "layered d c rs \<Longrightarrow> i < length rs \<Longrightarrow> j \<in> set (rs ! i) \<Longrightarrow> d j \<subseteq> c \<union> \<Union> (set ` set (take i rs))"
proof (induction rs arbitrary: c i)
  case (Cons r rs)
  then show ?case by (cases i) (fastforce+)
qed simp

lemma layered_late:
  "layered d c rs \<Longrightarrow> Suc i < length rs \<Longrightarrow> j \<in> set (rs ! Suc i) \<Longrightarrow>
     \<not> d j \<subseteq> c \<union> \<Union> (set ` set (take i rs))"
proof (induction rs arbitrary: c i)
  case (Cons r rs)
  show ?case
  proof (cases i)
    case 0
    with Cons.prems show ?thesis by auto
  next
    case (Suc k)
    with Cons.prems have "\<not> d j \<subseteq> (c \<union> set r) \<union> \<Union> (set ` set (take k rs))"
      by (intro Cons.IH) auto
    with Suc show ?thesis by (simp add: Un_assoc)
  qed
qed simp

lemma layered_rounds: "layered d c rs \<Longrightarrow> r \<in> set rs \<Longrightarrow> r \<noteq> [] \<and> bs_wf r"
  by (induction rs arbitrary: c) auto

lemma schedule_facts:
  assumes "deterministic_schedule p = Ok s"
  shows schedule_layered: "layered (\<lambda>j. {i. (i, j) \<in> edge_rel (pl_edges p)}) {} (map sr_jobs (rounds s))"
    and schedule_mset: "mset (concat (map sr_jobs (rounds s))) = mset (map job_id (pl_jobs p))"
    and schedule_index: "map sr_index (rounds s) = [0 ..< length (rounds s)]"
    and schedule_distinct: "distinct (map job_id (pl_jobs p))"
    and schedule_edges: "e \<in> set (pl_edges p) \<Longrightarrow>
        dep_from e \<in> job_id ` set (pl_jobs p) \<and> dep_to e \<in> job_id ` set (pl_jobs p)"
    and schedule_hash_eq: "schedule_hash s =
        deterministic_hash (ir_hash p @ [NL] @ concat (map round_line (rounds s)))"
proof -
  let ?ids = "map job_id (pl_jobs p)"
  let ?rem = "fold bs_insert ?ids []"
  obtain deps where dist: "distinct ?ids"
    and deps: "collect_deps ?rem [] (pl_edges p) = Ok deps"
    and loop: "schedule_loop deps ?rem [] [] = Ok (rounds s)"
    and hash: "schedule_hash s = deterministic_hash (ir_hash p @ [NL] @ concat (map round_line (rounds s)))"
    using assms by (auto simp: deterministic_schedule_def collect_jobs_Ok)
  have wf: "bs_wf ?rem" by (simp add: bs_wf_fold_insert)
  have "dep_set deps = (\<lambda>j. {i. (i, j) \<in> edge_rel (pl_edges p)})"
    using collect_deps_dep_set [OF deps] by (auto simp: dep_set_def)
  with schedule_loop_Ok [OF loop wf]
  show "layered (\<lambda>j. {i. (i, j) \<in> edge_rel (pl_edges p)}) {} (map sr_jobs (rounds s))"
    and "map sr_index (rounds s) = [0 ..< length (rounds s)]" by auto
  have "mset ?rem = mset ?ids"
    using dist bs_wf_distinct [OF wf] by (subst set_eq_iff_mset_eq_distinct [symmetric]) auto
  with schedule_loop_Ok [OF loop wf]
  show "mset (concat (map sr_jobs (rounds s))) = mset ?ids" by auto
  show "e \<in> set (pl_edges p) \<Longrightarrow>
      dep_from e \<in> job_id ` set (pl_jobs p) \<and> dep_to e \<in> job_id ` set (pl_jobs p)"
    using deps collect_deps_Ok_iff [of ?rem "[]" "pl_edges p"] by auto
  show "distinct ?ids" by (rule dist)
  show "schedule_hash s = deterministic_hash (ir_hash p @ [NL] @ concat (map round_line (rounds s)))"
    by (rule hash)
qed

section \<open>Correctness of the schedule\<close>

lemma schedule_order:
  assumes "deterministic_schedule p = Ok s" and e: "(x, y) \<in> edge_rel (pl_edges p)"
  shows "\<exists>i k. i < k \<and> k < length (rounds s) \<and> x \<in> set (sr_jobs (rounds s ! i)) \<and> y \<in> set (sr_jobs (rounds s ! k))"
proof -
  have "y \<in> set (concat (map sr_jobs (rounds s)))"
    using schedule_edges [OF assms(1)] e mset_eq_setD [OF schedule_mset [OF assms(1)]] by (auto simp: edge_rel_def)
  then obtain k where k: "k < length (rounds s)" "y \<in> set (sr_jobs (rounds s ! k))"
    using in_concat_nth [of y "map sr_jobs (rounds s)"] by auto
  have "x \<in> \<Union> (set ` set (take k (map sr_jobs (rounds s))))"
    using layered_deps [OF schedule_layered [OF assms(1)], of k y] k e by auto
  then obtain i where "i < k" "x \<in> set (sr_jobs (rounds s ! i))"
    using in_take_nth [of x k "map sr_jobs (rounds s)"] by auto
  with k show ?thesis by blast
qed

text \<open>
  C3. A schedule runs every job of the pipeline exactly once, in numbered, non-empty, sorted
  rounds, and every dependency is strictly earlier than its dependent: the job an edge leaves
  is in a round before the round of the job it enters.
\<close>

theorem schedule_correct:
  assumes "deterministic_schedule p = Ok s"
  shows "mset (concat (map sr_jobs (rounds s))) = mset (map job_id (pl_jobs p))
       \<and> map sr_index (rounds s) = [0 ..< length (rounds s)]
       \<and> (\<forall>r \<in> set (rounds s). sr_jobs r \<noteq> [] \<and> sorted (sr_jobs r))
       \<and> (\<forall>e \<in> set (pl_edges p). \<exists>i k. i < k \<and> k < length (rounds s)
            \<and> dep_from e \<in> set (sr_jobs (rounds s ! i)) \<and> dep_to e \<in> set (sr_jobs (rounds s ! k)))"
proof (intro conjI ballI)
  fix r assume "r \<in> set (rounds s)"
  then show "sr_jobs r \<noteq> []" and "sorted (sr_jobs r)"
    using layered_rounds [OF schedule_layered [OF assms]] by (auto simp: bs_wf_def strict_sorted_iff)
next
  fix e assume "e \<in> set (pl_edges p)"
  then show "\<exists>i k. i < k \<and> k < length (rounds s)
      \<and> dep_from e \<in> set (sr_jobs (rounds s ! i)) \<and> dep_to e \<in> set (sr_jobs (rounds s ! k))"
    by (intro schedule_order [OF assms]) (simp add: edge_rel_def)
qed (use assms schedule_mset schedule_index in auto)

text \<open>
  The schedule is optimal: in any assignment of numbers to jobs that respects the edges,
  a job of round \<open>k\<close> has a number of at least \<open>k\<close>. No job could start in an earlier round
  and no valid schedule has fewer rounds.
\<close>

theorem schedule_optimal:
  assumes "deterministic_schedule p = Ok s"
    and "\<forall>e \<in> set (pl_edges p). f (dep_from e) < (f (dep_to e) :: nat)"
    and "k < length (rounds s)" and "j \<in> set (sr_jobs (rounds s ! k))"
  shows "k \<le> f j"
  using assms(3,4)
proof (induction k arbitrary: j)
  case (Suc k)
  let ?rs = "map sr_jobs (rounds s)"
  have sub: "{i. (i, j) \<in> edge_rel (pl_edges p)} \<subseteq> \<Union> (set ` set (take (Suc k) ?rs))"
    using layered_deps [OF schedule_layered [OF assms(1)], of "Suc k" j] Suc.prems by simp
  have "\<not> {i. (i, j) \<in> edge_rel (pl_edges p)} \<subseteq> \<Union> (set ` set (take k ?rs))"
    using layered_late [OF schedule_layered [OF assms(1)], of k j] Suc.prems by simp
  then obtain i where edge: "(i, j) \<in> edge_rel (pl_edges p)"
    and late: "i \<notin> \<Union> (set ` set (take k ?rs))" by blast
  have "i \<in> set (sr_jobs (rounds s ! k))"
    using sub edge late Suc.prems(1) by (force simp: take_Suc_conv_app_nth)
  then have "k \<le> f i" using Suc.IH Suc.prems(1) by simp
  moreover have "f i < f j" using edge assms(2) by (auto simp: edge_rel_def)
  ultimately show ?case by simp
qed simp

lemma schedule_Ok_acyclic:
  assumes "deterministic_schedule p = Ok s"
  shows "acyclic (edge_rel (pl_edges p))"
proof -
  let ?rs = "map sr_jobs (rounds s)"
  let ?lvl = "\<lambda>j. LEAST k. k < length ?rs \<and> j \<in> set (?rs ! k)"
  have "?lvl a < ?lvl b" if ab: "(a, b) \<in> edge_rel (pl_edges p)" for a b
  proof -
    obtain e where e: "e \<in> set (pl_edges p)" "a = dep_from e" "b = dep_to e"
      using ab by (auto simp: edge_rel_def)
    then have "b \<in> set (concat ?rs)"
      using schedule_edges [OF assms] mset_eq_setD [OF schedule_mset [OF assms]] by auto
    then obtain k where "k < length ?rs \<and> b \<in> set (?rs ! k)"
      using in_concat_nth [of b ?rs] by blast
    then have lvl: "?lvl b < length ?rs \<and> b \<in> set (?rs ! ?lvl b)" by (rule LeastI)
    then have "a \<in> \<Union> (set ` set (take (?lvl b) ?rs))"
      using layered_deps [OF schedule_layered [OF assms]] ab by blast
    then obtain i where "i < ?lvl b" "i < length ?rs" "a \<in> set (?rs ! i)"
      using in_take_nth [of a "?lvl b" ?rs] by blast
    then show ?thesis by (metis (no_types, lifting) Least_le le_less_trans)
  qed
  then have "edge_rel (pl_edges p) \<subseteq> measure ?lvl" by auto
  then show ?thesis by (meson acyclic_subset wf_acyclic wf_measure)
qed

lemma schedule_loop_Cycle_cyclic:
  assumes "schedule_loop deps remaining [] rs = Err x"
    and closed: "\<And>i j. i \<in> dep_set deps j \<Longrightarrow> i \<in> set remaining"
  shows "\<not> acyclic {(i, j). i \<in> dep_set deps j \<and> j \<in> set remaining}"
proof
  let ?E = "{(i, j). i \<in> dep_set deps j \<and> j \<in> set remaining}"
  obtain R where R: "R \<noteq> {}" "R \<subseteq> set remaining"
    "\<forall>j \<in> R. \<not> dep_set deps j \<subseteq> set remaining - R"
    using schedule_loop_Err [OF assms(1)] by auto
  have "finite ?E"
    by (rule finite_subset [of _ "set remaining \<times> set remaining"]) (auto dest: closed)
  moreover assume "acyclic ?E"
  ultimately have "wf ?E" by (rule finite_acyclic_wf)
  from wfE_min' [OF this R(1)]
  obtain m where m: "m \<in> R" "\<And>i. (i, m) \<in> ?E \<Longrightarrow> i \<notin> R" by blast
  from R(3) m(1) obtain i where i: "i \<in> dep_set deps m" "i \<notin> set remaining - R" by blast
  then have "i \<in> R" using closed by blast
  moreover have "(i, m) \<in> ?E" using i(1) m(1) R(2) by blast
  ultimately show False using m(2) by blast
qed

lemma schedule_exists:
  assumes "pipeline_validate p = Ok ()"
  shows "((\<exists>s. deterministic_schedule p = Ok s) \<longleftrightarrow> acyclic (edge_rel (pl_edges p)))
       \<and> (\<forall>x. deterministic_schedule p = Err x \<longrightarrow> x = Cycle)"
proof -
  let ?ids = "map job_id (pl_jobs p)"
  let ?rem = "fold bs_insert ?ids []"
  have jobs: "collect_jobs [] (pl_jobs p) = Ok ?rem"
    using pipeline_validate_distinct [OF assms] by (simp add: collect_jobs_Ok)
  obtain deps where deps: "collect_deps ?rem [] (pl_edges p) = Ok deps"
    using collect_deps_Ok_iff [of ?rem "[]" "pl_edges p"] pipeline_validate_edges [OF assms] by auto
  have ds: "dep_set deps j = {i. (i, j) \<in> edge_rel (pl_edges p)}" for j
    using collect_deps_dep_set [OF deps] by (simp add: dep_set_def)
  have rel: "{(i, j). i \<in> dep_set deps j \<and> j \<in> set ?rem} = edge_rel (pl_edges p)"
    using pipeline_validate_edges [OF assms] by (auto simp: ds edge_rel_def)
  have closed: "i \<in> dep_set deps j \<Longrightarrow> i \<in> set ?rem" for i j
    using pipeline_validate_edges [OF assms] by (auto simp: ds edge_rel_def)
  have sched: "deterministic_schedule p = Err x \<longleftrightarrow> schedule_loop deps ?rem [] [] = Err x" for x
    using jobs deps by (auto simp: deterministic_schedule_def Let_def and_then_Err_iff)
  show ?thesis
  proof (cases "schedule_loop deps ?rem [] []")
    case (Inl x)
    then have "x = Cycle" using schedule_loop_Err by blast
    moreover have "\<not> acyclic (edge_rel (pl_edges p))"
      using schedule_loop_Cycle_cyclic [OF Inl closed] rel by simp
    ultimately show ?thesis using Inl sched by (metis Inl_Inr_False sum.inject(1))
  next
    case (Inr rs)
    then obtain s where "deterministic_schedule p = Ok s"
      using jobs deps by (auto simp: deterministic_schedule_def Let_def)
    then show ?thesis using schedule_Ok_acyclic by auto
  qed
qed

text \<open>
  C13. A pipeline that passed validation is scheduled exactly when its dependency graph has no
  cycle, and the only error the scheduler then reports is the cycle.
\<close>

theorem schedule_complete:
  assumes "pipeline_validate p = Ok ()"
  shows "((\<exists>s. deterministic_schedule p = Ok s) \<longleftrightarrow> acyclic (edge_rel (pl_edges p)))
       \<and> (\<forall>x. deterministic_schedule p = Err x \<longrightarrow> x = Cycle)"
  by (rule schedule_exists [OF assms])

text \<open>The loop depends on the dependency map only through the sets it denotes.\<close>

lemma schedule_loop_cong:
  assumes "\<And>j. dep_set deps j = dep_set deps' j"
  shows "schedule_loop deps remaining completed rs = schedule_loop deps' remaining completed rs"
proof (induction "length remaining" arbitrary: remaining completed rs rule: less_induct)
  case less
  have ready: "is_ready deps c = is_ready deps' c" for c
    by (rule ext) (simp add: is_ready_iff assms)
  show ?case
  proof (cases "filter (is_ready deps' completed) remaining = []")
    case True
    then show ?thesis
      by (simp add: schedule_loop.simps [of _ remaining] ready)
  next
    case False
    from less [OF length_remaining_less [OF this]] show ?thesis
      by (simp add: schedule_loop.simps [of _ remaining] ready Let_def del: set_filter)
  qed
qed

lemma fold_bs_insert_cong: "set xs = set ys \<Longrightarrow> fold bs_insert xs [] = fold bs_insert ys []"
  by (rule bs_wf_eqI) (auto simp: bs_wf_fold_insert)

text \<open>
  The schedule of a validated pipeline does not depend on the order in which jobs and
  edges are listed: reordering either changes neither the content hash, nor the rounds, nor
  the schedule hash, nor the error.
\<close>

theorem schedule_order_independent:
  assumes "pipeline_validate p = Ok ()"
    and "mset js = mset (pl_jobs p)" and "mset es = mset (pl_edges p)"
  shows "ir_hash (p\<lparr>pl_jobs := js, pl_edges := es\<rparr>) = ir_hash p
       \<and> deterministic_schedule (p\<lparr>pl_jobs := js, pl_edges := es\<rparr>) = deterministic_schedule p"
proof -
  let ?q = "p\<lparr>pl_jobs := js, pl_edges := es\<rparr>"
  let ?rem = "fold bs_insert (map job_id (pl_jobs p)) []"
  have sets: "set js = set (pl_jobs p)" "set es = set (pl_edges p)"
    using assms(2,3) by (auto dest: mset_eq_setD)
  have dist: "distinct (map job_id (pl_jobs p))" "distinct (map job_id js)"
    using pipeline_validate_distinct [OF assms(1)] assms(2)
    by (auto dest: mset_eq_imp_distinct_iff simp flip: mset_map)
      (metis mset_eq_imp_distinct_iff mset_map)
  have hash: "ir_hash ?q = ir_hash p"
    using canonical_order_independent [OF assms(2,3) dist(1)] by (simp add: ir_hash_def)
  have jobs: "collect_jobs [] (pl_jobs p) = Ok ?rem" "collect_jobs [] js = Ok ?rem"
    using dist sets fold_bs_insert_cong [of "map job_id js" "map job_id (pl_jobs p)"]
    by (auto simp: collect_jobs_Ok)
  obtain d where d: "collect_deps ?rem [] (pl_edges p) = Ok d"
    using collect_deps_Ok_iff [of ?rem "[]" "pl_edges p"] pipeline_validate_edges [OF assms(1)]
    by auto
  obtain d' where d': "collect_deps ?rem [] es = Ok d'"
    using collect_deps_Ok_iff [of ?rem "[]" es] pipeline_validate_edges [OF assms(1)] sets by auto
  have "dep_set d' j = dep_set d j" for j
    using collect_deps_dep_set [OF d] collect_deps_dep_set [OF d'] sets by (simp add: edge_rel_def)
  then have "schedule_loop d' ?rem [] [] = schedule_loop d ?rem [] []"
    by (rule schedule_loop_cong)
  with hash jobs d d' show ?thesis by (simp add: deterministic_schedule_def)
qed

section \<open>A diamond\<close>

text \<open>Three jobs: \<open>build\<close> and \<open>fmt\<close> before \<open>test\<close>.\<close>

definition sample_job :: "string \<Rightarrow> Job" where
  "sample_job n = (Job_new n n NativeRustClean)\<lparr>job_steps := [Step_run (n @ ''_0'') n ''cargo'']\<rparr>"

definition sample_pipeline :: Pipeline where
  "sample_pipeline = (Pipeline_new NativeToml ''acme/repo'' ''abc'' InternalBranch)
     \<lparr>pl_jobs := map sample_job [''test'', ''build'', ''fmt''],
      pl_edges := [\<lparr>dep_from = ''build'', dep_to = ''test''\<rparr>, \<lparr>dep_from = ''fmt'', dep_to = ''test''\<rparr>]\<rparr>"

lemma sample_pipeline_simps [simp]:
  "pl_jobs sample_pipeline = map sample_job [''test'', ''build'', ''fmt'']"
  "pl_edges sample_pipeline =
     [\<lparr>dep_from = ''build'', dep_to = ''test''\<rparr>, \<lparr>dep_from = ''fmt'', dep_to = ''test''\<rparr>]"
  "job_id (sample_job n) = n" "job_steps (sample_job n) = [Step_run (n @ ''_0'') n ''cargo'']"
  by (simp_all add: sample_pipeline_def sample_job_def Job_new_def)

definition sample_rounds :: "ScheduleRound list" where
  "sample_rounds =
     [\<lparr>sr_index = 0, sr_jobs = [''build'', ''fmt'']\<rparr>, \<lparr>sr_index = 1, sr_jobs = [''test'']\<rparr>]"

definition sample_rank :: "string \<Rightarrow> nat" where
  "sample_rank j = (if j = ''test'' then 1 else 0)"

definition sample_schedule :: Schedule where
  "sample_schedule =
     \<lparr>schedule_hash =
        deterministic_hash (ir_hash sample_pipeline @ [NL] @ concat (map round_line sample_rounds)),
      rounds = sample_rounds\<rparr>"

lemma sample_validate: "pipeline_validate sample_pipeline = Ok ()"
proof -
  have "trim ''acme/repo'' \<noteq> []" "trim ''abc'' \<noteq> []" "trim ''test'' \<noteq> []" "trim ''build'' \<noteq> []"
    "trim ''fmt'' \<noteq> []"
    by code_simp+
  then show ?thesis
    by (simp add: pipeline_validate_def validate_jobs_Ok sample_pipeline_def Pipeline_new_def)
qed

lemma sample_schedule_Ok: "deterministic_schedule sample_pipeline = Ok sample_schedule"
proof -
  have "fold bs_insert [''test'', ''build'', ''fmt''] [] = [''build'', ''fmt'', ''test'']"
    by code_simp
  then have "collect_jobs [] (pl_jobs sample_pipeline) = Ok [''build'', ''fmt'', ''test'']"
    by (simp add: collect_jobs_Ok)
  moreover have "collect_deps [''build'', ''fmt'', ''test''] []
      [\<lparr>dep_from = ''build'', dep_to = ''test''\<rparr>, \<lparr>dep_from = ''fmt'', dep_to = ''test''\<rparr>]
       = Ok [(''test'', [''build'', ''fmt''])]"
    by code_simp
  moreover have "schedule_loop [(''test'', [''build'', ''fmt''])] [''build'', ''fmt'', ''test''] [] []
       = Ok sample_rounds"
    by code_simp
  ultimately show ?thesis
    by (simp add: deterministic_schedule_def sample_schedule_def)
qed

theorem schedule_correct_witness:
  "\<exists>i k. i < k \<and> k < length (rounds sample_schedule)
     \<and> ''fmt'' \<in> set (sr_jobs (rounds sample_schedule ! i))
     \<and> ''test'' \<in> set (sr_jobs (rounds sample_schedule ! k))"
  using schedule_correct [OF sample_schedule_Ok] by simp

theorem schedule_optimal_witness:
  "''test'' \<in> set (sr_jobs (rounds sample_schedule ! 1)) \<and> 1 \<le> sample_rank ''test''"
  using schedule_optimal [OF sample_schedule_Ok, where f = sample_rank and k = 1 and j = "''test''"]
  by (simp add: sample_schedule_def sample_rounds_def sample_rank_def)

theorem schedule_complete_witness:
  "acyclic (edge_rel (pl_edges sample_pipeline)) \<and> deterministic_schedule sample_pipeline \<noteq> Err Cycle"
  using schedule_complete [OF sample_validate] sample_schedule_Ok by auto

theorem schedule_order_independent_witness:
  "deterministic_schedule (sample_pipeline\<lparr>pl_jobs := map sample_job [''fmt'', ''test'', ''build''],
      pl_edges := pl_edges sample_pipeline\<rparr>) = Ok sample_schedule"
  using schedule_order_independent [OF sample_validate,
      of "map sample_job [''fmt'', ''test'', ''build'']" "pl_edges sample_pipeline"]
  by (simp add: sample_schedule_Ok add_mset_commute)

end
