(* ===== verification/Runner_Protocol.thy ===== *)
theory Runner_Protocol
  imports Ci_Ir
begin

text \<open>
  \<open>jeryu-runner-protocol/src/lib.rs\<close>: the messages the scheduler exchanges with runners, their
  canonical bodies and content hashes, and the hello handshake.
\<close>

section \<open>Handshake\<close>

definition PROTOCOL_VERSION :: string where "PROTOCOL_VERSION = ''jeryu.runner.v1''"

record RunnerHello =
  rh_runner_id :: string
  rh_protocol_version :: string
  rh_supported_classes :: "RunnerClass list"
  rh_labels :: "string list"
  rh_capacity :: u32

definition RunnerHello_new :: "string \<Rightarrow> RunnerClass list \<Rightarrow> RunnerHello" where
  "RunnerHello_new i cs =
     \<lparr>rh_runner_id = i, rh_protocol_version = PROTOCOL_VERSION, rh_supported_classes = cs,
      rh_labels = [], rh_capacity = 1\<rparr>"

definition hello_supports :: "RunnerHello \<Rightarrow> RunnerClass \<Rightarrow> bool" where
  "hello_supports h c \<longleftrightarrow> list_ex (\<lambda>candidate. candidate = c) (rh_supported_classes h)"

datatype ProtocolError = VersionMismatch string string | UnsupportedRunnerClass string
  | MissingField string

fun protocol_message :: "ProtocolError \<Rightarrow> string" where
  "protocol_message (VersionMismatch expected actual) =
     ''protocol mismatch: expected '' @ expected @ '', got '' @ actual"
| "protocol_message (UnsupportedRunnerClass c) = ''unsupported runner class: '' @ c"
| "protocol_message (MissingField f) = ''missing protocol field: '' @ f"

definition validate_hello :: "RunnerHello \<Rightarrow> RunnerClass \<Rightarrow> (unit, ProtocolError) result" where
  "validate_hello h c =
     (if rh_protocol_version h \<noteq> PROTOCOL_VERSION
        then Err (VersionMismatch PROTOCOL_VERSION (rh_protocol_version h))
      else if \<not> hello_supports h c then Err (UnsupportedRunnerClass (class_as_str c))
      else Ok ())"

section \<open>Canonical fields\<close>

text \<open>
  \<open>field\<close> (and the identical \<open>push_field\<close> of the lease receipts) replaces line feeds but,
  unlike \<open>escape_canonical\<close> of the pipeline IR, leaves backslashes alone.
\<close>

definition flat :: "string \<Rightarrow> string" where
  "flat v = replace_char NL [BSL, CHR ''n''] v"

definition field :: "string \<Rightarrow> string \<Rightarrow> string \<Rightarrow> string" where
  "field out key v = out @ key @ ''='' @ flat v @ [NL]"

definition put_fields :: "string \<Rightarrow> (string \<times> string) list \<Rightarrow> string" where
  "put_fields out kvs = foldl (\<lambda>o' (k, v). field o' k v) out kvs"

section \<open>Job requests\<close>

record JobRequest =
  rq_request_id :: string
  rq_pipeline_id :: string
  rq_run_id :: string
  rq_lease_id :: string
  rq_job_id :: string
  rq_runner_id :: string
  rq_runner_epoch :: u64
  rq_runner_class :: RunnerClass
  rq_steps :: "Step list"
  rq_cache_mounts :: "CacheMount list"
  rq_artifact_paths :: "ArtifactPath list"
  rq_env :: env_map
  rq_timeout_seconds :: u64

definition JobRequest_new :: "string \<Rightarrow> string \<Rightarrow> string \<Rightarrow> string \<Rightarrow> RunnerClass \<Rightarrow> JobRequest" where
  "JobRequest_new pipeline run lease job c =
     \<lparr>rq_request_id = deterministic_hash
        (''job-request|'' @ pipeline @ ''|'' @ run @ ''|'' @ lease @ ''|'' @ job),
      rq_pipeline_id = pipeline, rq_run_id = run, rq_lease_id = lease, rq_job_id = job,
      rq_runner_id = [], rq_runner_epoch = 0, rq_runner_class = c, rq_steps = [],
      rq_cache_mounts = [], rq_artifact_paths = [], rq_env = [], rq_timeout_seconds = 3600\<rparr>"

definition assign_runner :: "string \<Rightarrow> u64 \<Rightarrow> JobRequest \<Rightarrow> JobRequest" where
  "assign_runner runner epoch r = r\<lparr>rq_runner_id := runner, rq_runner_epoch := epoch\<rparr>"

definition request_step_fields :: "Step \<Rightarrow> (string \<times> string) list" where
  "request_step_fields s =
     [(''step.id'', st_id s), (''step.name'', st_name s)]
     @ opt_line ''step.run'' (st_command s) @ opt_line ''step.uses'' (st_uses s)"

definition request_head :: "JobRequest \<Rightarrow> (string \<times> string) list" where
  "request_head r =
     [(''protocol'', PROTOCOL_VERSION),
      (''request_id'', rq_request_id r),
      (''pipeline_id'', rq_pipeline_id r),
      (''run_id'', rq_run_id r),
      (''lease_id'', rq_lease_id r),
      (''job_id'', rq_job_id r),
      (''runner_id'', rq_runner_id r),
      (''runner_epoch'', show_word (rq_runner_epoch r)),
      (''runner_class'', class_as_str (rq_runner_class r)),
      (''timeout_seconds'', show_word (rq_timeout_seconds r))]"

definition request_canonical :: "JobRequest \<Rightarrow> string" where
  "request_canonical r = put_fields []
     (request_head r
      @ map (\<lambda>(k, v). (''env.'' @ k, v)) (rq_env r)
      @ concat (map request_step_fields (rq_steps r))
      @ map (\<lambda>m. (''cache'', cm_name m @ ''|'' @ cm_path m @ ''|'' @ cm_fingerprint m))
          (rq_cache_mounts r)
      @ map (\<lambda>a. (''artifact'', ap_name a @ ''|'' @ join '','' (ap_paths a))) (rq_artifact_paths r))"

definition wire_hash :: "JobRequest \<Rightarrow> string" where
  "wire_hash r = deterministic_hash (request_canonical r)"

section \<open>Heartbeats and results\<close>

record Heartbeat =
  hb_runner_id :: string
  hb_runner_epoch :: u64
  hb_run_id :: string
  hb_lease_id :: string
  hb_job_id :: string
  hb_monotonic_millis :: u64
  hb_message :: string

datatype JobOutcome = Success | Failed | Cancelled | TimedOut | InfrastructureFailure

fun outcome_as_str :: "JobOutcome \<Rightarrow> string" where
  "outcome_as_str Success = ''success''"
| "outcome_as_str Failed = ''failed''"
| "outcome_as_str Cancelled = ''cancelled''"
| "outcome_as_str TimedOut = ''timed-out''"
| "outcome_as_str InfrastructureFailure = ''infrastructure-failure''"

type_synonym i32 = "32 word"

record JobResult =
  rs_runner_id :: string
  rs_runner_epoch :: u64
  rs_run_id :: string
  rs_lease_id :: string
  rs_job_id :: string
  rs_outcome :: JobOutcome
  rs_exit_code :: "i32 option"
  rs_started_at_millis :: u64
  rs_finished_at_millis :: u64
  rs_artifact_digests :: "string list"
  rs_cache_receipts :: "string list"
  rs_log_digest :: string

definition duration_millis :: "JobResult \<Rightarrow> u64" where
  "duration_millis r = sat_sub (rs_finished_at_millis r) (rs_started_at_millis r)"

text \<open>The \<open>Debug\<close> form of an \<open>Option<i32>\<close>.\<close>

definition debug_exit_code :: "i32 option \<Rightarrow> string" where
  "debug_exit_code c =
     (case c of None \<Rightarrow> ''None'' | Some w \<Rightarrow> ''Some('' @ show_int (sint w) @ '')'')"

definition receipt_hash :: "JobResult \<Rightarrow> string" where
  "receipt_hash r = deterministic_hash (join ''|''
     [''result'', rs_runner_id r, show_word (rs_runner_epoch r), rs_run_id r, rs_lease_id r,
      rs_job_id r, outcome_as_str (rs_outcome r), debug_exit_code (rs_exit_code r),
      show_word (rs_started_at_millis r), show_word (rs_finished_at_millis r),
      join '','' (rs_artifact_digests r), join '','' (rs_cache_receipts r), rs_log_digest r])"

section \<open>Properties\<close>

lemma NL_notin_flat: "NL \<notin> set (flat v)"
  by (induction v) (auto simp: flat_def)

lemma flat_id: "NL \<notin> set v \<Longrightarrow> flat v = v"
  by (induction v) (auto simp: flat_def)

lemma flat_show_word [simp]: "flat (show_word w) = show_word w"
  by (rule flat_id) (auto simp: is_ascii_digit_of_char dest: show_word_digits)

interpretation wire_fields: line_writer field put_fields flat "\<lambda>_. True"
  by unfold_locales (simp_all add: field_def put_fields_def NL_notin_flat)

lemma request_canonical_head:
  "\<exists>rest. request_canonical r = put_fields [] (request_head r) @ rest"
  unfolding request_canonical_def by (rule wire_fields.emit_all_prefix)

text \<open>
  The canonical request binds the assignment: two requests with the same canonical body
  have the same runner epoch and timeout, and the same request, pipeline, run, lease, job and
  runner ids and class name up to the spelling of line feeds.
\<close>

theorem request_canonical_binds:
  assumes "request_canonical a = request_canonical b"
  shows "rq_runner_epoch a = rq_runner_epoch b \<and> rq_timeout_seconds a = rq_timeout_seconds b
       \<and> flat (rq_request_id a) = flat (rq_request_id b)
       \<and> flat (rq_pipeline_id a) = flat (rq_pipeline_id b) \<and> flat (rq_run_id a) = flat (rq_run_id b)
       \<and> flat (rq_lease_id a) = flat (rq_lease_id b) \<and> flat (rq_job_id a) = flat (rq_job_id b)
       \<and> flat (rq_runner_id a) = flat (rq_runner_id b)
       \<and> flat (class_as_str (rq_runner_class a)) = flat (class_as_str (rq_runner_class b))"
proof -
  obtain r r' where "request_canonical a = put_fields [] (request_head a) @ r"
    and "request_canonical b = put_fields [] (request_head b) @ r'"
    using request_canonical_head by blast
  from wire_fields.emit_all_agree [OF this assms]
  have "map (flat \<circ> snd) (request_head a) = map (flat \<circ> snd) (request_head b)"
    by (simp add: request_head_def)
  then show ?thesis by (simp add: request_head_def)
qed

text \<open>
  The spelling of line feeds is really lost: a step command with a line feed and one with a
  backslash followed by \<open>n\<close> give the same canonical body and the same wire hash.
\<close>

definition newline_request :: "string \<Rightarrow> JobRequest" where
  "newline_request c =
     (JobRequest_new ''p'' ''r'' ''l'' ''j'' NativeRustClean)\<lparr>rq_steps := [Step_run ''s'' ''s'' c]\<rparr>"

lemma request_canonical_newline:
  "request_canonical (newline_request [NL]) = request_canonical (newline_request [BSL, CHR ''n''])"
proof -
  have "field out k [NL] = field out k [BSL, CHR ''n'']" for out k
    by (simp add: field_def flat_def)
  then show ?thesis
    by (simp add: request_canonical_def newline_request_def Step_run_def
        JobRequest_new_def request_step_fields_def opt_line_def wire_fields.emit_all_append request_head_def)
qed

lemma newline_requests_differ: "newline_request [NL] \<noteq> newline_request [BSL, CHR ''n'']"
  by (simp add: newline_request_def Step_run_def JobRequest_new_def)

lemma wire_hash_newline_collision:
  "newline_request [NL] \<noteq> newline_request [BSL, CHR ''n'']
   \<and> wire_hash (newline_request [NL]) = wire_hash (newline_request [BSL, CHR ''n''])"
  using newline_requests_differ by (simp add: wire_hash_def request_canonical_newline)

theorem request_canonical_binds_witness:
  "newline_request [NL] \<noteq> newline_request [BSL, CHR ''n'']
   \<and> rq_timeout_seconds (newline_request [NL]) = rq_timeout_seconds (newline_request [BSL, CHR ''n''])"
  using newline_requests_differ request_canonical_binds [OF request_canonical_newline] by simp

end
