(* ===== verification/Lease_Book.thy ===== *)
theory Lease_Book
  imports Ci_Schedule Runner_Protocol Reachability
begin

text \<open>
  \<open>jeryu-ci-scheduler/src/leases\<close>: the lease ledger of one scheduled pipeline run. Value types
  and receipts (\<open>types.rs\<close>), errors (\<open>error.rs\<close>) and the stateful book (\<open>book.rs\<close>). An
  operation that takes \<open>&mut self\<close> returns its result together with the book it leaves behind,
  so that what an error leaves changed is visible.
\<close>

section \<open>Value types\<close>

record JobLease =
  jl_id :: string
  jl_job_id :: string
  jl_worker_id :: string
  jl_node_epoch :: u64
  jl_attempt :: u32
  jl_acquired_at_epoch :: u64
  jl_expires_at_epoch :: u64

datatype JobLeaseState = Pending | Leased JobLease | Succeeded | StFailed u32 string
  | StCancelled u32 string

datatype LeaseEventKind = EvAcquired | EvCompleted | EvRequeued | EvFailed | EvCancelled

fun event_as_str :: "LeaseEventKind \<Rightarrow> string" where
  "event_as_str EvAcquired = ''acquired''"
| "event_as_str EvCompleted = ''completed''"
| "event_as_str EvRequeued = ''requeued''"
| "event_as_str EvFailed = ''failed''"
| "event_as_str EvCancelled = ''cancelled''"

record LeaseReceipt =
  lrc_receipt_id :: string
  lrc_kind :: LeaseEventKind
  lrc_run_id :: string
  lrc_schedule_hash :: string
  lrc_job_id :: string
  lrc_lease_id :: string
  lrc_attempt :: u32
  lrc_worker_id :: string
  lrc_node_epoch :: u64
  lrc_at_epoch :: u64
  lrc_reason :: string
  lrc_request_hash :: "string option"
  lrc_result_hash :: "string option"

definition receipt_fields :: "LeaseReceipt \<Rightarrow> (string \<times> string) list" where
  "receipt_fields r =
     [(''kind'', event_as_str (lrc_kind r)),
      (''run_id'', lrc_run_id r),
      (''schedule_hash'', lrc_schedule_hash r),
      (''job_id'', lrc_job_id r),
      (''lease_id'', lrc_lease_id r),
      (''attempt'', show_word (lrc_attempt r)),
      (''worker_id'', lrc_worker_id r),
      (''node_epoch'', show_word (lrc_node_epoch r)),
      (''at_epoch'', show_word (lrc_at_epoch r)),
      (''reason'', lrc_reason r),
      (''request_hash'', (case lrc_request_hash r of None \<Rightarrow> [] | Some h \<Rightarrow> h)),
      (''result_hash'', (case lrc_result_hash r of None \<Rightarrow> [] | Some h \<Rightarrow> h))]"

definition receipt_canonical :: "LeaseReceipt \<Rightarrow> string" where
  "receipt_canonical r = put_fields [] (receipt_fields r)"

definition receipt_digest :: "LeaseReceipt \<Rightarrow> string" where
  "receipt_digest r = deterministic_hash (receipt_canonical r)"

record LeasedJobRequest =
  ljr_lease :: JobLease
  ljr_request :: JobRequest
  ljr_receipt :: LeaseReceipt

datatype LeaseError = UnknownJob string | AlreadySucceeded string | PermanentlyFailed string
  | AlreadyCancelled string | InvalidLeaseTime string | LeaseExpired string
  | ActiveLease string string u64 | LeaseMismatch string | ResultMismatch string
  | FencedOut string string u64 u64

fun lease_message :: "LeaseError \<Rightarrow> string" where
  "lease_message (UnknownJob j) = ''unknown job: '' @ j"
| "lease_message (AlreadySucceeded j) = ''job already succeeded: '' @ j"
| "lease_message (PermanentlyFailed j) = ''job permanently failed: '' @ j"
| "lease_message (AlreadyCancelled j) = ''job already cancelled: '' @ j"
| "lease_message (InvalidLeaseTime j) = ''invalid lease time for job: '' @ j"
| "lease_message (LeaseExpired j) = ''lease expired for job: '' @ j"
| "lease_message (ActiveLease j w e) =
     ''job '' @ j @ '' is leased by '' @ w @ '' until '' @ show_word e"
| "lease_message (LeaseMismatch j) = ''lease does not match job: '' @ j"
| "lease_message (ResultMismatch j) = ''runner result does not match job: '' @ j"
| "lease_message (FencedOut j w e a) =
     ''runner '' @ w @ '' is fenced out for job '' @ j @ '': epoch '' @ show_word e
     @ '' != active epoch '' @ show_word a"

section \<open>The book\<close>

record JobLeaseRecord =
  lr_attempt :: u32
  lr_max_attempts :: u32
  lr_state :: JobLeaseState

record LeaseBook =
  lb_run_id :: string
  lb_schedule_hash :: string
  lb_jobs :: "(string, JobLeaseRecord) btree_map"

definition new_record :: "Job \<Rightarrow> JobLeaseRecord" where
  "new_record j =
     \<lparr>lr_attempt = 0, lr_max_attempts = max (max_attempts (job_retry_policy j)) 1,
      lr_state = Pending\<rparr>"

definition LeaseBook_new :: "string \<Rightarrow> Pipeline \<Rightarrow> Schedule \<Rightarrow> (LeaseBook, LeaseError) result" where
  "LeaseBook_new run p s =
     (let jobs = bt_collect (map (\<lambda>j. (job_id j, new_record j)) (pl_jobs p)) in
      and_then (for_each (\<lambda>r. for_each (\<lambda>j. ensure (bt_get jobs j \<noteq> None) (UnknownJob j)) (sr_jobs r))
                  (rounds s)) (\<lambda>_.
      Ok \<lparr>lb_run_id = run, lb_schedule_hash = schedule_hash s, lb_jobs = jobs\<rparr>))"

text \<open>Writing back the record that \<open>get_mut\<close> gave access to.\<close>

definition put_record :: "string \<Rightarrow> JobLeaseRecord \<Rightarrow> LeaseBook \<Rightarrow> LeaseBook" where
  "put_record j r b = b\<lparr>lb_jobs := bt_insert j r (lb_jobs b)\<rparr>"

definition book_state :: "LeaseBook \<Rightarrow> string \<Rightarrow> JobLeaseState option" where
  "book_state b j = map_option lr_state (bt_get (lb_jobs b) j)"

definition book_attempt :: "LeaseBook \<Rightarrow> string \<Rightarrow> u32 option" where
  "book_attempt b j = map_option (\<lambda>r. max (lr_attempt r) 1) (bt_get (lb_jobs b) j)"

definition retry_or_fail :: "JobLeaseRecord \<Rightarrow> string \<Rightarrow> LeaseEventKind \<times> JobLeaseRecord" where
  "retry_or_fail r reason =
     (if lr_attempt r < lr_max_attempts r
      then (EvRequeued, r\<lparr>lr_attempt := lr_attempt r + 1, lr_state := Pending\<rparr>)
      else (EvFailed, r\<lparr>lr_state := StFailed (lr_attempt r) reason\<rparr>))"

definition build_lease ::
  "string \<Rightarrow> string \<Rightarrow> string \<Rightarrow> string \<Rightarrow> u64 \<Rightarrow> u32 \<Rightarrow> u64 \<Rightarrow> u64 \<Rightarrow> JobLease" where
  "build_lease run hash j worker epoch attempt now ttl =
     \<lparr>jl_id = deterministic_hash (join ''|''
        [''lease'', run, hash, j, show_word attempt, worker, show_word epoch, show_word now]),
      jl_job_id = j, jl_worker_id = worker, jl_node_epoch = epoch, jl_attempt = attempt,
      jl_acquired_at_epoch = now, jl_expires_at_epoch = sat_add now ttl\<rparr>"

text \<open>The common tail of \<open>acquire_with_epoch\<close>: start the attempt and record the lease.\<close>

definition grant_lease ::
  "string \<Rightarrow> string \<Rightarrow> u64 \<Rightarrow> u64 \<Rightarrow> u64 \<Rightarrow> JobLeaseRecord \<Rightarrow> LeaseBook
   \<Rightarrow> (JobLease, LeaseError) result \<times> LeaseBook" where
  "grant_lease j worker epoch now ttl record b =
     (let record = (if lr_attempt record = 0 then record\<lparr>lr_attempt := 1\<rparr> else record);
          lease = build_lease (lb_run_id b) (lb_schedule_hash b) j worker epoch (lr_attempt record)
                    now ttl
      in (Ok lease, put_record j (record\<lparr>lr_state := Leased lease\<rparr>) b))"

definition acquire_with_epoch ::
  "string \<Rightarrow> string \<Rightarrow> u64 \<Rightarrow> u64 \<Rightarrow> u64 \<Rightarrow> LeaseBook
   \<Rightarrow> (JobLease, LeaseError) result \<times> LeaseBook" where
  "acquire_with_epoch j worker epoch now ttl b =
     (if ttl = 0 \<or> checked_add now ttl = None then (Err (InvalidLeaseTime j), b)
      else case bt_get (lb_jobs b) j of
        None \<Rightarrow> (Err (UnknownJob j), b)
      | Some record \<Rightarrow>
         (case lr_state record of
            Pending \<Rightarrow> grant_lease j worker epoch now ttl record b
          | Leased lease \<Rightarrow>
              if now < jl_acquired_at_epoch lease then (Err (InvalidLeaseTime j), b)
              else if now < jl_expires_at_epoch lease then
                (if jl_worker_id lease = worker then
                   (if jl_node_epoch lease \<noteq> epoch
                    then (Err (FencedOut j worker epoch (jl_node_epoch lease)), b)
                    else (Ok lease, b))
                 else (Err (ActiveLease j (jl_worker_id lease) (jl_expires_at_epoch lease)), b))
              else
                (let record = snd (retry_or_fail record ''lease expired'')
                 in case lr_state record of
                      StFailed _ _ \<Rightarrow> (Err (PermanentlyFailed j), put_record j record b)
                    | _ \<Rightarrow> grant_lease j worker epoch now ttl record b)
          | Succeeded \<Rightarrow> (Err (AlreadySucceeded j), b)
          | StFailed _ _ \<Rightarrow> (Err (PermanentlyFailed j), b)
          | StCancelled _ _ \<Rightarrow> (Err (AlreadyCancelled j), b)))"

definition acquire ::
  "string \<Rightarrow> string \<Rightarrow> u64 \<Rightarrow> u64 \<Rightarrow> LeaseBook \<Rightarrow> (JobLease, LeaseError) result \<times> LeaseBook" where
  "acquire j worker now ttl b = acquire_with_epoch j worker 0 now ttl b"

text \<open>
  \<open>active_record\<close> gives mutable access to a record; here it returns the record and the callers
  write it back.
\<close>

definition active_record :: "JobLease \<Rightarrow> u64 \<Rightarrow> LeaseBook \<Rightarrow> (JobLeaseRecord, LeaseError) result" where
  "active_record lease at b =
     (case bt_get (lb_jobs b) (jl_job_id lease) of
        None \<Rightarrow> Err (UnknownJob (jl_job_id lease))
      | Some record \<Rightarrow>
          if lr_state record \<noteq> Leased lease then Err (LeaseMismatch (jl_job_id lease))
          else if at < jl_acquired_at_epoch lease then Err (InvalidLeaseTime (jl_job_id lease))
          else if jl_expires_at_epoch lease \<le> at then Err (LeaseExpired (jl_job_id lease))
          else Ok record)"

text \<open>An operation that rewrites the active record, or reports why there is none.\<close>

definition with_active ::
  "(JobLeaseRecord \<Rightarrow> JobLeaseRecord) \<Rightarrow> JobLease \<Rightarrow> u64 \<Rightarrow> LeaseBook
   \<Rightarrow> (unit, LeaseError) result \<times> LeaseBook" where
  "with_active f lease at b =
     (case active_record lease at b of
        Inl e \<Rightarrow> (Err e, b)
      | Inr record \<Rightarrow> (Ok (), put_record (jl_job_id lease) (f record) b))"

definition complete :: "JobLease \<Rightarrow> u64 \<Rightarrow> LeaseBook \<Rightarrow> (unit, LeaseError) result \<times> LeaseBook" where
  "complete lease at b = with_active (\<lambda>r. r\<lparr>lr_state := Succeeded\<rparr>) lease at b"

definition fail :: "JobLease \<Rightarrow> string \<Rightarrow> u64 \<Rightarrow> LeaseBook \<Rightarrow> (unit, LeaseError) result \<times> LeaseBook" where
  "fail lease reason at b = with_active (\<lambda>r. snd (retry_or_fail r reason)) lease at b"

definition cancel :: "JobLease \<Rightarrow> string \<Rightarrow> u64 \<Rightarrow> LeaseBook \<Rightarrow> (unit, LeaseError) result \<times> LeaseBook" where
  "cancel lease reason at b =
     with_active (\<lambda>r. r\<lparr>lr_state := StCancelled (lr_attempt r) reason\<rparr>) lease at b"

definition lease_receipt ::
  "LeaseBook \<Rightarrow> LeaseEventKind \<Rightarrow> JobLease \<Rightarrow> u64 \<Rightarrow> string \<Rightarrow> string option \<Rightarrow> string option
   \<Rightarrow> LeaseReceipt" where
  "lease_receipt b kind lease at reason request_hash result_hash =
     \<lparr>lrc_receipt_id = deterministic_hash (join ''|''
        [''lease-receipt'', lb_run_id b, lb_schedule_hash b, jl_job_id lease, jl_id lease,
         show_word (jl_attempt lease), show_word (jl_node_epoch lease), event_as_str kind,
         show_word at]),
      lrc_kind = kind, lrc_run_id = lb_run_id b, lrc_schedule_hash = lb_schedule_hash b,
      lrc_job_id = jl_job_id lease, lrc_lease_id = jl_id lease, lrc_attempt = jl_attempt lease,
      lrc_worker_id = jl_worker_id lease, lrc_node_epoch = jl_node_epoch lease,
      lrc_at_epoch = at, lrc_reason = reason, lrc_request_hash = request_hash,
      lrc_result_hash = result_hash\<rparr>"

text \<open>
  The sweep: the leases that expired are collected first, then each is retried or failed.
  \<open>None\<close> is the panic of \<open>expect("known expired job")\<close>.
\<close>

definition expired_leases :: "u64 \<Rightarrow> LeaseBook \<Rightarrow> JobLease list" where
  "expired_leases at b = List.map_filter
     (\<lambda>r. case lr_state r of
        Leased lease \<Rightarrow> if jl_expires_at_epoch lease \<le> at then Some lease else None
      | _ \<Rightarrow> None) (bt_values (lb_jobs b))"

fun expire_all :: "u64 \<Rightarrow> JobLease list \<Rightarrow> LeaseBook \<Rightarrow> (LeaseReceipt list \<times> LeaseBook) option" where
  "expire_all at [] b = Some ([], b)"
| "expire_all at (lease # ls) b =
     (case bt_get (lb_jobs b) (jl_job_id lease) of
        None \<Rightarrow> None
      | Some record \<Rightarrow>
          (let (kind, record) = retry_or_fail record ''lease expired'';
               b' = put_record (jl_job_id lease) record b;
               receipt = lease_receipt b' kind lease at ''lease expired'' None None
           in map_option (\<lambda>(rs, b''). (receipt # rs, b'')) (expire_all at ls b')))"

definition expire :: "u64 \<Rightarrow> LeaseBook \<Rightarrow> (LeaseReceipt list \<times> LeaseBook) option" where
  "expire at b = expire_all at (expired_leases at b) b"

definition runner_request_from_job :: "string \<Rightarrow> string \<Rightarrow> JobLease \<Rightarrow> Job \<Rightarrow> JobRequest" where
  "runner_request_from_job pipeline_id run lease job =
     (let request = JobRequest_new pipeline_id run (jl_id lease) (job_id job) (job_runner_class job);
          request = assign_runner (jl_worker_id lease) (jl_node_epoch lease) request
      in request\<lparr>rq_steps := job_steps job, rq_cache_mounts := job_cache_mounts job,
           rq_artifact_paths := job_artifact_paths job,
           rq_timeout_seconds := job_timeout_seconds job\<rparr>)"

definition runner_request :: "LeaseBook \<Rightarrow> Pipeline \<Rightarrow> JobLease \<Rightarrow> (JobRequest, LeaseError) result" where
  "runner_request b p lease =
     and_then (ok_or (UnknownJob (jl_job_id lease))
                (find (\<lambda>j. job_id j = jl_job_id lease) (pl_jobs p))) (\<lambda>job.
     case book_state b (jl_job_id lease) of
       Some (Leased active) \<Rightarrow>
         if jl_id active = jl_id lease
         then Ok (runner_request_from_job (pl_id p) (lb_run_id b) lease job)
         else Err (LeaseMismatch (jl_job_id lease))
     | Some _ \<Rightarrow> Err (LeaseMismatch (jl_job_id lease))
     | None \<Rightarrow> Err (UnknownJob (jl_job_id lease)))"

definition acquire_request_with_epoch ::
  "Pipeline \<Rightarrow> string \<Rightarrow> string \<Rightarrow> u64 \<Rightarrow> u64 \<Rightarrow> u64 \<Rightarrow> LeaseBook
   \<Rightarrow> (LeasedJobRequest, LeaseError) result \<times> LeaseBook" where
  "acquire_request_with_epoch p j worker epoch now ttl b =
     (if \<not> list_ex (\<lambda>job. job_id job = j) (pl_jobs p) then (Err (UnknownJob j), b)
      else case acquire_with_epoch j worker epoch now ttl b of
        (Inl e, b') \<Rightarrow> (Err e, b')
      | (Inr lease, b') \<Rightarrow>
         (case runner_request b' p lease of
            Inl e \<Rightarrow> (Err e, b')
          | Inr request \<Rightarrow>
              (Ok \<lparr>ljr_lease = lease, ljr_request = request,
                   ljr_receipt = lease_receipt b' EvAcquired lease now ''runner request leased''
                     (Some (wire_hash request)) None\<rparr>, b')))"

definition acquire_request ::
  "Pipeline \<Rightarrow> string \<Rightarrow> string \<Rightarrow> u64 \<Rightarrow> u64 \<Rightarrow> LeaseBook
   \<Rightarrow> (LeasedJobRequest, LeaseError) result \<times> LeaseBook" where
  "acquire_request p j worker now ttl b = acquire_request_with_epoch p j worker 0 now ttl b"

text \<open>The lease a runner result refers to, or the reason it is refused.\<close>

definition result_lease :: "JobResult \<Rightarrow> LeaseBook \<Rightarrow> (JobLease, LeaseError) result" where
  "result_lease r b =
     (case book_state b (rs_job_id r) of
        Some (Leased active) \<Rightarrow>
          if jl_id active = rs_lease_id r \<and> jl_job_id active = rs_job_id r then
            (if jl_worker_id active \<noteq> rs_runner_id r \<or> jl_node_epoch active \<noteq> rs_runner_epoch r
             then Err (FencedOut (rs_job_id r) (rs_runner_id r) (rs_runner_epoch r)
                         (jl_node_epoch active))
             else Ok active)
          else Err (ResultMismatch (rs_job_id r))
      | Some _ \<Rightarrow> Err (ResultMismatch (rs_job_id r))
      | None \<Rightarrow> Err (UnknownJob (rs_job_id r)))"

definition apply_result ::
  "JobResult \<Rightarrow> u64 \<Rightarrow> LeaseBook \<Rightarrow> (LeaseReceipt, LeaseError) result \<times> LeaseBook" where
  "apply_result r at b =
     (if rs_run_id r \<noteq> lb_run_id b then (Err (ResultMismatch (rs_job_id r)), b)
      else case result_lease r b of
        Inl e \<Rightarrow> (Err e, b)
      | Inr lease \<Rightarrow>
         (let result_hash = Some (receipt_hash r) in
          case rs_outcome r of
            Success \<Rightarrow>
              (case complete lease at b of
                 (Inl e, b') \<Rightarrow> (Err e, b')
               | (Inr _, b') \<Rightarrow> (Ok (lease_receipt b' EvCompleted lease at ''runner reported success''
                                     None result_hash), b'))
          | Cancelled \<Rightarrow>
              (case cancel lease ''runner reported cancelled'' at b of
                 (Inl e, b') \<Rightarrow> (Err e, b')
               | (Inr _, b') \<Rightarrow> (Ok (lease_receipt b' EvCancelled lease at
                                     ''runner reported cancelled'' None result_hash), b'))
          | outcome \<Rightarrow>
              (let reason = ''runner reported '' @ outcome_as_str outcome in
               case fail lease reason at b of
                 (Inl e, b') \<Rightarrow> (Err e, b')
               | (Inr _, b') \<Rightarrow>
                  (case book_state b' (rs_job_id r) of
                     Some Pending \<Rightarrow>
                       (Ok (lease_receipt b' EvRequeued lease at reason None result_hash), b')
                   | Some (StFailed _ _) \<Rightarrow>
                       (Ok (lease_receipt b' EvFailed lease at reason None result_hash), b')
                   | _ \<Rightarrow> (Err (ResultMismatch (rs_job_id r)), b')))))"

section \<open>The lifecycle of a job\<close>

text \<open>
  The abstract specification: what may happen to the record of one job. A pending job is
  leased for its current attempt; a leased job succeeds, is cancelled, or is retried or failed.
\<close>

inductive advance :: "string \<Rightarrow> JobLeaseRecord \<Rightarrow> JobLeaseRecord \<Rightarrow> bool" where
  adv_grant:
    "lr_state r = Pending \<Longrightarrow> jl_job_id l = j \<Longrightarrow>
     jl_attempt l = (if lr_attempt r = 0 then 1 else lr_attempt r) \<Longrightarrow>
     jl_acquired_at_epoch l < jl_expires_at_epoch l \<Longrightarrow>
     advance j r (r\<lparr>lr_attempt := jl_attempt l, lr_state := Leased l\<rparr>)"
| adv_retry:
    "lr_state r = Leased l \<Longrightarrow> advance j r (snd (retry_or_fail r reason))"
| adv_succeed:
    "lr_state r = Leased l \<Longrightarrow> advance j r (r\<lparr>lr_state := Succeeded\<rparr>)"
| adv_cancel:
    "lr_state r = Leased l \<Longrightarrow> advance j r (r\<lparr>lr_state := StCancelled (lr_attempt r) reason\<rparr>)"

inductive book_step :: "LeaseBook \<Rightarrow> LeaseBook \<Rightarrow> bool" where
  "bt_get (lb_jobs b) j = Some r \<Longrightarrow> advance j r r' \<Longrightarrow> book_step b (put_record j r' b)"

text \<open>The operations a scheduler can call on a book.\<close>

inductive lease_op :: "LeaseBook \<Rightarrow> LeaseBook \<Rightarrow> bool" where
  op_acquire: "lease_op b (snd (acquire_with_epoch j w e now ttl b))"
| op_request: "lease_op b (snd (acquire_request_with_epoch p j w e now ttl b))"
| op_complete: "lease_op b (snd (complete l at b))"
| op_fail: "lease_op b (snd (fail l reason at b))"
| op_cancel: "lease_op b (snd (cancel l reason at b))"
| op_result: "lease_op b (snd (apply_result res at b))"
| op_expire: "expire at b = Some (rs, b') \<Longrightarrow> lease_op b b'"

inductive_cases book_stepE: "book_step b b'"
inductive_cases lease_opE: "lease_op b b'"

fun terminal :: "JobLeaseState \<Rightarrow> bool" where
  "terminal Pending = False"
| "terminal (Leased l) = False"
| "terminal Succeeded = True"
| "terminal (StFailed a r) = True"
| "terminal (StCancelled a r) = True"

definition record_wf :: "string \<Rightarrow> JobLeaseRecord \<Rightarrow> bool" where
  "record_wf j r \<longleftrightarrow> 1 \<le> lr_max_attempts r \<and> lr_attempt r \<le> lr_max_attempts r
   \<and> (case lr_state r of
        Pending \<Rightarrow> True
      | Leased l \<Rightarrow> jl_job_id l = j \<and> jl_attempt l = lr_attempt r \<and> 1 \<le> lr_attempt r
                   \<and> jl_acquired_at_epoch l < jl_expires_at_epoch l
      | Succeeded \<Rightarrow> 1 \<le> lr_attempt r
      | StFailed a reason \<Rightarrow> a = lr_max_attempts r
      | StCancelled a reason \<Rightarrow> a = lr_attempt r \<and> 1 \<le> a)"

definition book_wf :: "LeaseBook \<Rightarrow> bool" where
  "book_wf b \<longleftrightarrow> bt_wf (lb_jobs b) \<and> (\<forall>(j, r) \<in> set (lb_jobs b). record_wf j r)"

text \<open>How a record may evolve: attempts grow, terminal states stay, an attempt has one lease.\<close>

definition record_le :: "JobLeaseRecord \<Rightarrow> JobLeaseRecord \<Rightarrow> bool" where
  "record_le r r' \<longleftrightarrow> lr_max_attempts r' = lr_max_attempts r \<and> lr_attempt r \<le> lr_attempt r'
   \<and> (terminal (lr_state r) \<longrightarrow> r' = r)
   \<and> (\<forall>l. lr_state r = Leased l \<and> lr_attempt r' = lr_attempt r \<longrightarrow>
        lr_state r' = Leased l \<or> terminal (lr_state r'))"

definition book_le :: "LeaseBook \<Rightarrow> LeaseBook \<Rightarrow> bool" where
  "book_le b b' \<longleftrightarrow> lb_run_id b' = lb_run_id b \<and> lb_schedule_hash b' = lb_schedule_hash b
   \<and> map fst (lb_jobs b') = map fst (lb_jobs b)
   \<and> (\<forall>j r. bt_get (lb_jobs b) j = Some r \<longrightarrow>
        (\<exists>r'. bt_get (lb_jobs b') j = Some r' \<and> record_le r r'))"

definition book_init :: "LeaseBook \<Rightarrow> bool" where
  "book_init b \<longleftrightarrow> (\<exists>run p s. LeaseBook_new run p s = Ok b)"

definition potential :: "JobLeaseRecord \<Rightarrow> nat" where
  "potential r = 3 * (unat (lr_max_attempts r) - unat (lr_attempt r))
     + (case lr_state r of Pending \<Rightarrow> 2 | Leased _ \<Rightarrow> 1 | _ \<Rightarrow> 0)"

definition budget :: "LeaseBook \<Rightarrow> nat" where
  "budget b = sum_list (map potential (bt_values (lb_jobs b)))"

section \<open>Invariant of the lifecycle\<close>

lemma put_record_simps [simp]:
  "lb_run_id (put_record j r b) = lb_run_id b"
  "lb_schedule_hash (put_record j r b) = lb_schedule_hash b"
  "bt_get (lb_jobs (put_record j r b)) k = (if k = j then Some r else bt_get (lb_jobs b) k)"
  "put_record j r (put_record j r' b) = put_record j r b"
  by (simp_all add: put_record_def)

lemma book_wf_get: "book_wf b \<longleftrightarrow> bt_wf (lb_jobs b) \<and> (\<forall>j r. bt_get (lb_jobs b) j = Some r \<longrightarrow> record_wf j r)"
  unfolding book_wf_def by (auto simp: bt.entry_iff)

lemma advance_wf: "advance j r r' \<Longrightarrow> record_wf j r \<Longrightarrow> record_wf j r'"
  by (induction rule: advance.induct)
    (auto simp: record_wf_def retry_or_fail_def word_one_le_iff word_inc_le)

lemma advance_le: "advance j r r' \<Longrightarrow> record_wf j r \<Longrightarrow> record_le r r'"
  by (induction rule: advance.induct)
    (auto simp: record_wf_def record_le_def retry_or_fail_def word_one_le_iff
      intro: less_imp_le [OF word_inc_gt] dest: word_inc_gt)

lemma advance_potential: "advance j r r' \<Longrightarrow> record_wf j r \<Longrightarrow> potential r' < potential r"
proof (induction rule: advance.induct)
  case (adv_grant r l j)
  then show ?case by (auto simp: potential_def)
next
  case (adv_retry r l j reason)
  then show ?case
    by (auto simp: potential_def retry_or_fail_def unat_inc) (simp add: word_less_nat_alt)
qed (simp_all add: potential_def)

lemma book_step_wf: "book_wf b \<Longrightarrow> book_step b b' \<Longrightarrow> book_wf b'"
  by (erule book_stepE) (auto simp: book_wf_get advance_wf, auto simp: put_record_def)

lemma record_le_refl: "record_le r r"
  by (simp add: record_le_def)

lemma record_le_trans: "record_le r s \<Longrightarrow> record_le s t \<Longrightarrow> record_le r t"
  unfolding record_le_def by (metis order_antisym order_trans)

lemma book_step_le: "book_wf b \<Longrightarrow> book_step b b' \<Longrightarrow> book_le b b'"
  by (erule book_stepE)
    (auto simp: book_le_def book_wf_get bt_insert_same_keys record_le_refl advance_le put_record_def)

lemma book_step_budget: "book_wf b \<Longrightarrow> book_step b b' \<Longrightarrow> budget b' < budget b"
proof (erule book_stepE)
  fix j r r'
  assume "book_wf b" and b': "b' = put_record j r' b" and get: "bt_get (lb_jobs b) j = Some r"
    and adv: "advance j r r'"
  then have "bt_wf (lb_jobs b)" "record_wf j r" by (auto simp: book_wf_get)
  with bt_insert_sum [OF _ get, of potential r'] advance_potential [OF adv]
  show "budget b' < budget b" by (simp add: b' budget_def put_record_def)
qed

lemma LeaseBook_new_Ok:
  "LeaseBook_new run p s = Ok b \<longleftrightarrow>
     (\<forall>r \<in> set (rounds s). set (sr_jobs r) \<subseteq> job_id ` set (pl_jobs p))
   \<and> b = \<lparr>lb_run_id = run, lb_schedule_hash = schedule_hash s,
          lb_jobs = bt_collect (map (\<lambda>j. (job_id j, new_record j)) (pl_jobs p))\<rparr>"
proof -
  have "bt_get (bt_collect (map (\<lambda>j. (job_id j, new_record j)) (pl_jobs p))) k \<noteq> None \<longleftrightarrow>
      k \<in> job_id ` set (pl_jobs p)" for k
    by (simp add: bt_get_collect map_of_eq_None_iff image_image flip: rev_map)
  then show ?thesis by (auto simp: LeaseBook_new_def Let_def subset_iff simp del: not_None_eq)
qed

lemma book_init_wf: "book_init b \<Longrightarrow> book_wf b"
proof -
  assume "book_init b"
  then obtain run p s where "LeaseBook_new run p s = Ok b" by (auto simp: book_init_def)
  then have jobs: "lb_jobs b = bt_collect (map (\<lambda>j. (job_id j, new_record j)) (pl_jobs p))"
    by (simp add: LeaseBook_new_Ok)
  have "record_wf j r" if "bt_get (lb_jobs b) j = Some r" for j r
  proof -
    have "(j, r) \<in> set (map (\<lambda>j. (job_id j, new_record j)) (pl_jobs p))"
      using that by (auto simp: jobs bt_get_collect dest!: map_of_SomeD)
    then show ?thesis by (auto simp: record_wf_def new_record_def)
  qed
  then show ?thesis by (simp add: book_wf_get jobs bt_wf_collect)
qed

interpretation lifecycle: monotone_system book_init book_step book_wf book_le
proof unfold_locales
  show "book_le b b" for b by (auto simp: book_le_def record_le_refl)
  show "book_le a b \<Longrightarrow> book_le b c \<Longrightarrow> book_le a c" for a b c
    unfolding book_le_def by (metis record_le_trans)
qed (auto intro: book_init_wf book_step_wf book_step_le)

section \<open>The operations implement the lifecycle\<close>

lemma lease_time_ok: "ttl \<noteq> 0 \<Longrightarrow> checked_add now ttl = Some t \<Longrightarrow> now < sat_add now ttl"
  for now ttl :: u64
  using unat_checked_add [of now ttl t] checked_add_sat_add [of now ttl t] unat_gt_0 [of ttl]
  by (auto simp: word_less_nat_alt)

lemma grant_step:
  assumes "bt_get (lb_jobs b) j = Some r" and "lr_state r = Pending"
    and "ttl \<noteq> 0" and "checked_add now ttl = Some t"
  shows "book_step b (snd (grant_lease j w e now ttl r b))"
proof -
  let ?a = "if lr_attempt r = 0 then 1 else lr_attempt r"
  let ?l = "build_lease (lb_run_id b) (lb_schedule_hash b) j w e ?a now ttl"
  have "advance j r (r\<lparr>lr_attempt := jl_attempt ?l, lr_state := Leased ?l\<rparr>)"
    by (rule adv_grant) (use assms in \<open>simp_all add: build_lease_def lease_time_ok\<close>)
  moreover have "snd (grant_lease j w e now ttl r b)
      = put_record j (r\<lparr>lr_attempt := jl_attempt ?l, lr_state := Leased ?l\<rparr>) b"
    by (simp add: grant_lease_def Let_def build_lease_def)
  ultimately show ?thesis using assms(1) book_step.intros by metis
qed

lemma grant_put_record [simp]:
  "grant_lease j w e now ttl r (put_record j r' b) = grant_lease j w e now ttl r b"
  by (simp add: grant_lease_def Let_def)

lemma acquire_steps: "book_step\<^sup>*\<^sup>* b (snd (acquire_with_epoch j w e now ttl b))"
proof (cases "\<exists>r t l. bt_get (lb_jobs b) j = Some r \<and> checked_add now ttl = Some t \<and> ttl \<noteq> 0
    \<and> lr_state r = Leased l \<and> jl_acquired_at_epoch l \<le> now \<and> jl_expires_at_epoch l \<le> now")
  case True
  then obtain r t l where r: "bt_get (lb_jobs b) j = Some r" "checked_add now ttl = Some t"
    "ttl \<noteq> 0" "lr_state r = Leased l" "jl_acquired_at_epoch l \<le> now" "jl_expires_at_epoch l \<le> now"
    by blast
  let ?r = "snd (retry_or_fail r ''lease expired'')"
  let ?b = "put_record j ?r b"
  have first: "book_step b ?b"
    using r(1) adv_retry [OF r(4)] by (rule book_step.intros)
  show ?thesis
  proof (cases "lr_state ?r = Pending")
    case True
    have "book_step ?b (snd (grant_lease j w e now ttl ?r ?b))"
      using True r(2,3) by (intro grant_step) simp_all
    with first show ?thesis using r True
      by (simp add: acquire_with_epoch_def) (meson converse_rtranclp_into_rtranclp r_into_rtranclp)
  next
    case False
    with first r show ?thesis
      by (auto simp: acquire_with_epoch_def retry_or_fail_def split: if_splits)
  qed
next
  case False
  then show ?thesis
    by (auto simp: acquire_with_epoch_def Let_def not_le dest: grant_step
        split: option.splits JobLeaseState.splits)
qed

lemma with_active_steps:
  assumes "\<And>r l. lr_state r = Leased l \<Longrightarrow> advance (jl_job_id lease) r (f r)"
  shows "book_step\<^sup>*\<^sup>* b (snd (with_active f lease at b))"
  using assms
  by (auto simp: with_active_def active_record_def split: option.splits sum.splits if_splits
      intro!: r_into_rtranclp book_step.intros)

lemma complete_steps: "book_step\<^sup>*\<^sup>* b (snd (complete lease at b))"
  unfolding complete_def by (rule with_active_steps) (rule adv_succeed)

lemma fail_steps: "book_step\<^sup>*\<^sup>* b (snd (fail lease reason at b))"
  unfolding fail_def by (rule with_active_steps) (rule adv_retry)

lemma cancel_steps: "book_step\<^sup>*\<^sup>* b (snd (cancel lease reason at b))"
  unfolding cancel_def by (rule with_active_steps) (rule adv_cancel)

text \<open>The book that the rest of an operation sees after \<open>?\<close> on another operation.\<close>

lemma snd_try:
  assumes "\<And>v b'. snd (g v b') = b'"
  shows "snd (case x of (Inl e, b') \<Rightarrow> (Inl e, b') | (Inr v, b') \<Rightarrow> g v b') = snd x"
  using assms by (cases x; cases "fst x") auto

lemma acquire_request_book:
  "snd (acquire_request_with_epoch p j w e now ttl b) =
     (if list_ex (\<lambda>job. job_id job = j) (pl_jobs p) then snd (acquire_with_epoch j w e now ttl b) else b)"
proof -
  have "snd (case runner_request b' p lease of Inl e \<Rightarrow> (Err e, b') | Inr request \<Rightarrow> (f request, b')) = b'"
    for b' lease and f :: "JobRequest \<Rightarrow> (LeasedJobRequest, LeaseError) result"
    by (cases "runner_request b' p lease") auto
  then show ?thesis
    unfolding acquire_request_with_epoch_def by (simp add: snd_try)
qed

lemma apply_result_book:
  "snd (apply_result res at b) =
     (if rs_run_id res \<noteq> lb_run_id b then b
      else case result_lease res b of
        Inl e \<Rightarrow> b
      | Inr l \<Rightarrow>
         (case rs_outcome res of
            Success \<Rightarrow> snd (complete l at b)
          | Cancelled \<Rightarrow> snd (cancel l ''runner reported cancelled'' at b)
          | outcome \<Rightarrow> snd (fail l (''runner reported '' @ outcome_as_str outcome) at b)))"
proof -
  have inner: "snd (case st of Some Pending \<Rightarrow> (f, b') | Some (Leased l) \<Rightarrow> (g, b') | Some Succeeded \<Rightarrow> (g, b')
      | Some (StFailed a r) \<Rightarrow> (h, b') | Some (StCancelled a r) \<Rightarrow> (g, b') | None \<Rightarrow> (g, b')) = b'"
    for st and f g h :: "(LeaseReceipt, LeaseError) result" and b' :: LeaseBook
    by (auto split: option.split JobLeaseState.split)
  show ?thesis
    by (cases "rs_outcome res"; cases "result_lease res b")
      (simp_all add: apply_result_def Let_def snd_try inner)
qed

lemma apply_result_steps: "book_step\<^sup>*\<^sup>* b (snd (apply_result res at b))"
  by (auto simp: apply_result_book complete_steps fail_steps cancel_steps
      split: sum.split JobOutcome.split)

lemma lease_receipt_put [simp]: "lease_receipt (put_record j r b) = lease_receipt b"
  by (intro ext) (simp add: lease_receipt_def)

lemma lease_receipt_simps [simp]:
  "lrc_result_hash (lease_receipt b k l at reason qh rh) = rh"
  "lrc_request_hash (lease_receipt b k l at reason qh rh) = qh"
  "lrc_lease_id (lease_receipt b k l at reason qh rh) = jl_id l"
  "lrc_job_id (lease_receipt b k l at reason qh rh) = jl_job_id l"
  by (simp_all add: lease_receipt_def)

lemma expire_all_spec:
  assumes "\<forall>l \<in> set ls. \<exists>r. bt_get (lb_jobs b) (jl_job_id l) = Some r \<and> lr_state r = Leased l"
    and "distinct (map jl_job_id ls)" and "bt_wf (lb_jobs b)"
  shows "\<exists>b'. expire_all at ls b
      = Some (map (\<lambda>l. lease_receipt b
          (fst (retry_or_fail (the (bt_get (lb_jobs b) (jl_job_id l))) ''lease expired''))
          l at ''lease expired'' None None) ls, b')
    \<and> book_step\<^sup>*\<^sup>* b b' \<and> bt_wf (lb_jobs b')
    \<and> (\<forall>k. bt_get (lb_jobs b') k = (if k \<in> jl_job_id ` set ls
          then map_option (\<lambda>r. snd (retry_or_fail r ''lease expired'')) (bt_get (lb_jobs b) k)
          else bt_get (lb_jobs b) k))"
  using assms
proof (induction ls arbitrary: b)
  case (Cons l ls)
  obtain r where r: "bt_get (lb_jobs b) (jl_job_id l) = Some r" "lr_state r = Leased l"
    using Cons.prems(1) by auto
  let ?b = "put_record (jl_job_id l) (snd (retry_or_fail r ''lease expired'')) b"
  have step: "book_step b ?b"
    using r(1) adv_retry [OF r(2)] by (rule book_step.intros)
  have "bt_wf (lb_jobs ?b)" using Cons.prems(3) by (auto simp: put_record_def)
  moreover have "jl_job_id k \<noteq> jl_job_id l" if "k \<in> set ls" for k
    using Cons.prems(2) that by (metis distinct.simps(2) image_eqI list.set_map list.simps(9))
  ultimately show ?case
    using Cons.IH [of ?b] Cons.prems r step
    by (auto simp: Let_def case_prod_unfold intro!: converse_rtranclp_into_rtranclp [of _ b])
qed auto

definition is_expired :: "u64 \<Rightarrow> JobLeaseRecord \<Rightarrow> bool" where
  "is_expired at r \<longleftrightarrow> (case lr_state r of Leased l \<Rightarrow> jl_expires_at_epoch l \<le> at | _ \<Rightarrow> False)"

text \<open>The sweep as one pass over the records.\<close>

definition expire_record :: "u64 \<Rightarrow> JobLeaseRecord \<Rightarrow> JobLeaseRecord" where
  "expire_record at r = (if is_expired at r then snd (retry_or_fail r ''lease expired'') else r)"

lemma expired_leases_jobs:
  assumes "book_wf b"
  shows "map jl_job_id (expired_leases at b) = map fst (filter (is_expired at \<circ> snd) (lb_jobs b))"
proof -
  have "\<forall>(j, r) \<in> set xs. record_wf j r \<Longrightarrow>
    map jl_job_id (List.map_filter
      (\<lambda>r. case lr_state r of Leased l \<Rightarrow> if jl_expires_at_epoch l \<le> at then Some l else None
        | _ \<Rightarrow> None) (map snd xs)) = map fst (filter (is_expired at \<circ> snd) xs)" for xs
    by (induction xs)
      (auto simp: map_filter_simps record_wf_def is_expired_def split: JobLeaseState.splits)
  with assms show ?thesis by (simp add: book_wf_def expired_leases_def bt_values_def)
qed

lemma expired_lease_active:
  assumes "book_wf b" and "l \<in> set (expired_leases at b)"
  shows "\<exists>r. bt_get (lb_jobs b) (jl_job_id l) = Some r \<and> lr_state r = Leased l
           \<and> jl_expires_at_epoch l \<le> at"
proof -
  obtain j r where "(j, r) \<in> set (lb_jobs b)" "lr_state r = Leased l" "jl_expires_at_epoch l \<le> at"
    using assms(2) unfolding expired_leases_def in_map_filter bt_values_def
    by (auto split: JobLeaseState.split_asm if_split_asm) (metis JobLeaseState.exhaust)
  moreover from this assms(1) have "jl_job_id l = j" by (auto simp: book_wf_def record_wf_def)
  ultimately show ?thesis using assms(1) by (auto simp: book_wf_def bt.entry_iff)
qed

lemma expired_leases_distinct: "book_wf b \<Longrightarrow> distinct (map jl_job_id (expired_leases at b))"
  by (simp add: expired_leases_jobs book_wf_def bt_wf_distinct distinct_map_filter)

lemma expired_leases_job_iff:
  assumes "book_wf b"
  shows "j \<in> jl_job_id ` set (expired_leases at b) \<longleftrightarrow>
     (\<exists>r. bt_get (lb_jobs b) j = Some r \<and> is_expired at r)"
proof -
  have "jl_job_id ` set (expired_leases at b) = fst ` set (filter (is_expired at \<circ> snd) (lb_jobs b))"
    using expired_leases_jobs [OF assms] by (metis list.set_map)
  with assms show ?thesis by (simp only: in_fst_filter) (simp add: book_wf_def bt.entry_iff)
qed

lemma expire_facts:
  assumes "book_wf b"
  obtains rs b' where "expire at b = Some (rs, b')" "book_step\<^sup>*\<^sup>* b b'"
    "lb_jobs b' = bt_map_values (expire_record at) (lb_jobs b)"
    "map lrc_job_id rs = map fst (filter (is_expired at \<circ> snd) (lb_jobs b))"
proof -
  let ?ls = "expired_leases at b"
  have wf: "bt_wf (lb_jobs b)" using assms by (simp add: book_wf_def)
  have "\<forall>l \<in> set ?ls. \<exists>r. bt_get (lb_jobs b) (jl_job_id l) = Some r \<and> lr_state r = Leased l"
    using expired_lease_active [OF assms] by blast
  from expire_all_spec [OF this expired_leases_distinct [OF assms] wf, of at]
  obtain b' where b': "expire at b
      = Some (map (\<lambda>l. lease_receipt b
          (fst (retry_or_fail (the (bt_get (lb_jobs b) (jl_job_id l))) ''lease expired''))
          l at ''lease expired'' None None) ?ls, b')" "book_step\<^sup>*\<^sup>* b b'" "bt_wf (lb_jobs b')"
    "\<forall>k. bt_get (lb_jobs b') k = (if k \<in> jl_job_id ` set ?ls
          then map_option (\<lambda>r. snd (retry_or_fail r ''lease expired'')) (bt_get (lb_jobs b) k)
          else bt_get (lb_jobs b) k)"
    unfolding expire_def by blast
  have "lb_jobs b' = bt_map_values (expire_record at) (lb_jobs b)"
  proof (rule bt_wf_eqI)
    fix k
    show "bt_get (lb_jobs b') k = bt_get (bt_map_values (expire_record at) (lb_jobs b)) k"
      using b'(4) expired_leases_job_iff [OF assms, of k at]
      by (cases "bt_get (lb_jobs b) k") (auto simp: expire_record_def)
  qed (use b'(3) wf in simp_all)
  moreover have "map lrc_job_id (map (\<lambda>l. lease_receipt b
          (fst (retry_or_fail (the (bt_get (lb_jobs b) (jl_job_id l))) ''lease expired''))
          l at ''lease expired'' None None) ?ls) = map fst (filter (is_expired at \<circ> snd) (lb_jobs b))"
    by (simp add: lease_receipt_def expired_leases_jobs [OF assms, symmetric])
  ultimately show thesis using that b'(1,2) by blast
qed

lemma lease_op_steps: "lease_op b b' \<Longrightarrow> book_wf b \<Longrightarrow> book_step\<^sup>*\<^sup>* b b'"
proof (erule lease_opE)
  fix at rs
  assume "book_wf b" and "expire at b = Some (rs, b')"
  then show "book_step\<^sup>*\<^sup>* b b'" by (metis expire_facts option.inject prod.inject)
qed (auto simp: acquire_request_book acquire_steps complete_steps fail_steps cancel_steps
    apply_result_steps)

lemma steps_budget: "book_step\<^sup>*\<^sup>* b b' \<Longrightarrow> book_wf b \<Longrightarrow> b' = b \<or> budget b' < budget b"
proof (induction rule: rtranclp_induct)
  case (step b' b'')
  then have "book_wf b'" using lifecycle.steps_inv by blast
  from book_step_budget [OF this step.hyps(2)] step show ?case by auto
qed simp

interpretation lease_ops: monotone_system book_init lease_op book_wf book_le
proof unfold_locales
  fix b b'
  assume b: "book_wf b" and op: "lease_op b b'"
  show "book_wf b'" "book_le b b'"
    using lease_op_steps [OF op b] b lifecycle.steps_inv lifecycle.steps_rel by blast+
qed (auto intro: lifecycle.init_inv lifecycle.rel_refl lifecycle.rel_trans)

section \<open>Properties\<close>

text \<open>
  C1. Every state a lease book can be driven into by any sequence of scheduler calls is well
  formed: an active lease carries the id of the job it is filed under and the job's current
  attempt, ends after it starts, and no job is ever attempted more often than its budget.
\<close>

theorem lease_book_invariant:
  assumes "reach book_init lease_op b" and "bt_get (lb_jobs b) j = Some r"
  shows "1 \<le> lr_max_attempts r \<and> lr_attempt r \<le> lr_max_attempts r
       \<and> (\<forall>l. lr_state r = Leased l \<longrightarrow> jl_job_id l = j \<and> jl_attempt l = lr_attempt r
            \<and> 1 \<le> jl_attempt l \<and> jl_acquired_at_epoch l < jl_expires_at_epoch l)
       \<and> (\<forall>a reason. lr_state r = StFailed a reason \<longrightarrow> a = lr_max_attempts r)"
proof -
  have "record_wf j r" using lease_ops.reach_inv [OF assms(1)] assms(2) by (simp add: book_wf_get)
  then show ?thesis by (auto simp: record_wf_def)
qed

text \<open>
  C14. Over any sequence of scheduler calls a job that succeeded, failed or was cancelled keeps
  its record for ever, attempt numbers never decrease, and a lease is only ever replaced by
  a lease of a later attempt: an attempt is never handed out twice.
\<close>

theorem lease_history:
  assumes "reach book_init lease_op b" and "lease_op\<^sup>*\<^sup>* b b'" and "bt_get (lb_jobs b) j = Some r"
  shows "\<exists>r'. bt_get (lb_jobs b') j = Some r' \<and> lr_attempt r \<le> lr_attempt r'
       \<and> (terminal (lr_state r) \<longrightarrow> r' = r)
       \<and> (\<forall>l l'. lr_state r = Leased l \<and> lr_state r' = Leased l' \<and> l' \<noteq> l
            \<longrightarrow> lr_attempt r < lr_attempt r')"
proof -
  have "book_le b b'"
    using lease_ops.steps_rel [OF assms(2)] lease_ops.reach_inv [OF assms(1)] by blast
  then obtain r' where "bt_get (lb_jobs b') j = Some r'" "record_le r r'"
    using assms(3) by (auto simp: book_le_def)
  then show ?thesis
    unfolding record_le_def
    by (metis JobLeaseState.inject(1) antisym_conv1 terminal.simps(2))
qed

text \<open>
  A lease book cannot be kept busy for ever: every call that changes it strictly lowers
  its budget, which starts at three times the attempts of the jobs plus two per job.
\<close>

theorem lease_budget:
  assumes "reach book_init lease_op b" and "lease_op b b'"
  shows "b' = b \<or> budget b' < budget b"
  using assms lease_op_steps steps_budget lease_ops.reach_inv by blast

text \<open>
  The sweep never hits its \<open>expect\<close>: on a reachable book \<open>expire\<close> returns, it equals a
  single pass that retries or fails exactly the records whose lease is over, it issues one
  receipt per such job in key order, and it leaves no expired lease behind.
\<close>

theorem expire_correct:
  assumes "reach book_init lease_op b"
  shows "\<exists>rs b'. expire at b = Some (rs, b')
       \<and> lb_jobs b' = bt_map_values (expire_record at) (lb_jobs b)
       \<and> map lrc_job_id rs = map fst (filter (is_expired at \<circ> snd) (lb_jobs b))
       \<and> (\<forall>j r. bt_get (lb_jobs b') j = Some r \<longrightarrow> \<not> is_expired at r)"
proof -
  obtain rs b' where b': "expire at b = Some (rs, b')"
    "lb_jobs b' = bt_map_values (expire_record at) (lb_jobs b)"
    "map lrc_job_id rs = map fst (filter (is_expired at \<circ> snd) (lb_jobs b))"
    using expire_facts lease_ops.reach_inv [OF assms] by metis
  have "\<not> is_expired at (expire_record at r)" for r
    by (simp add: expire_record_def retry_or_fail_def is_expired_def)
  with b' show ?thesis by auto
qed

text \<open>
  A live lease excludes everybody else and re-acquiring it is idempotent: while the lease
  runs, its holder gets the very same lease back, the holder under another epoch is fenced out,
  any other worker is told who holds the job, and in every case the book does not change.
\<close>

theorem acquire_exclusive:
  assumes "bt_get (lb_jobs b) j = Some r" and "lr_state r = Leased l"
    and "jl_acquired_at_epoch l \<le> now" and "now < jl_expires_at_epoch l"
    and "ttl \<noteq> 0" and "checked_add now ttl \<noteq> None"
  shows "acquire_with_epoch j w e now ttl b =
     ((if w \<noteq> jl_worker_id l then Err (ActiveLease j (jl_worker_id l) (jl_expires_at_epoch l))
       else if e \<noteq> jl_node_epoch l then Err (FencedOut j w e (jl_node_epoch l))
       else Ok l), b)"
  using assms by (auto simp: acquire_with_epoch_def)

lemma book_wf_leased:
  assumes "book_wf b" and "bt_get (lb_jobs b) j = Some r" and "lr_state r = Leased l"
  shows "jl_job_id l = j \<and> jl_attempt l = lr_attempt r"
proof -
  have "record_wf j r" using assms by (simp add: book_wf_get)
  with assms(3) show ?thesis by (simp add: record_wf_def)
qed

lemma acquire_Ok:
  assumes "acquire_with_epoch j w e now ttl b = (Ok l, b')" and "book_wf b"
  shows "jl_job_id l = j \<and> jl_worker_id l = w \<and> jl_node_epoch l = e
       \<and> jl_acquired_at_epoch l \<le> now \<and> now < jl_expires_at_epoch l
       \<and> book_state b' j = Some (Leased l) \<and> lb_run_id b' = lb_run_id b"
proof -
  obtain t r where t: "ttl \<noteq> 0" "checked_add now ttl = Some t" "bt_get (lb_jobs b) j = Some r"
    using assms(1) by (auto simp: acquire_with_epoch_def split: if_splits option.splits)
  have grant: "jl_job_id l = j \<and> jl_worker_id l = w \<and> jl_node_epoch l = e \<and> jl_acquired_at_epoch l = now
      \<and> jl_expires_at_epoch l = sat_add now ttl \<and> book_state b' j = Some (Leased l)
      \<and> lb_run_id b' = lb_run_id b"
    if "grant_lease j w e now ttl r' b = (Ok l, b')" for r'
    using that by (auto simp: grant_lease_def Let_def build_lease_def book_state_def)
  consider r' where "grant_lease j w e now ttl r' b = (Ok l, b')"
    | "lr_state r = Leased l" "b' = b" "jl_acquired_at_epoch l \<le> now" "now < jl_expires_at_epoch l"
      "jl_worker_id l = w" "jl_node_epoch l = e"
    using assms(1) t
    by (auto simp: acquire_with_epoch_def Let_def not_less
        split: if_split_asm JobLeaseState.split_asm)
  then show ?thesis
  proof cases
    case 1
    from grant [OF this] lease_time_ok [OF t(1,2)] show ?thesis by simp
  next
    case 2
    with book_wf_leased [OF assms(2) t(3)] t(3) show ?thesis by (simp add: book_state_def)
  qed
qed

lemma acquire_Err:
  assumes "acquire_with_epoch j w e now ttl b = (Err x, b')"
  shows "b' = b \<or> (\<exists>a reason. book_state b' j = Some (StFailed a reason))"
  using assms
  by (auto simp: acquire_with_epoch_def Let_def grant_lease_def book_state_def retry_or_fail_def
      split: if_splits option.splits JobLeaseState.splits)

text \<open>
  Acquiring a job together with its runner request is all or nothing. On success the
  request carries exactly the lease (job, lease id, run, worker, epoch) and the job is leased;
  on failure no lease was handed out: the book is unchanged, or the job had used up its last
  attempt and is now failed.
\<close>

theorem acquire_request_atomic:
  assumes "reach book_init lease_op b"
  shows "case acquire_request_with_epoch p j w e now ttl b of
       (Inr q, b') \<Rightarrow> book_state b' j = Some (Leased (ljr_lease q))
         \<and> rq_job_id (ljr_request q) = j \<and> rq_lease_id (ljr_request q) = jl_id (ljr_lease q)
         \<and> rq_run_id (ljr_request q) = lb_run_id b \<and> rq_runner_id (ljr_request q) = w
         \<and> rq_runner_epoch (ljr_request q) = e
         \<and> lrc_request_hash (ljr_receipt q) = Some (wire_hash (ljr_request q))
         \<and> now < jl_expires_at_epoch (ljr_lease q)
     | (Inl x, b') \<Rightarrow> b' = b \<or> (\<exists>a reason. book_state b' j = Some (StFailed a reason))"
proof (cases "list_ex (\<lambda>job. job_id job = j) (pl_jobs p)")
  case False
  then show ?thesis by (simp add: acquire_request_with_epoch_def)
next
  case True
  obtain job where job: "find (\<lambda>job. job_id job = j) (pl_jobs p) = Some job" "job_id job = j"
    using find_list_ex [OF True] by blast
  obtain res b' where acq: "acquire_with_epoch j w e now ttl b = (res, b')" by fastforce
  show ?thesis
  proof (cases res)
    case (Inl x)
    with acq True acquire_Err show ?thesis by (fastforce simp: acquire_request_with_epoch_def)
  next
    case (Inr l)
    with acq have l: "jl_job_id l = j" "jl_worker_id l = w" "jl_node_epoch l = e"
      "now < jl_expires_at_epoch l" "book_state b' j = Some (Leased l)" "lb_run_id b' = lb_run_id b"
      using acquire_Ok lease_ops.reach_inv [OF assms] by blast+
    have "runner_request b' p l = Ok (runner_request_from_job (pl_id p) (lb_run_id b') l job)"
      using l job by (simp add: runner_request_def)
    with acq Inr True l job show ?thesis
      by (simp add: acquire_request_with_epoch_def runner_request_from_job_def JobRequest_new_def
          assign_runner_def lease_receipt_def)
  qed
qed

text \<open>What the active record becomes when a runner reports an outcome.\<close>

fun outcome_record :: "JobOutcome \<Rightarrow> JobLeaseRecord \<Rightarrow> JobLeaseRecord" where
  "outcome_record Success r = r\<lparr>lr_state := Succeeded\<rparr>"
| "outcome_record Cancelled r =
     r\<lparr>lr_state := StCancelled (lr_attempt r) ''runner reported cancelled''\<rparr>"
| "outcome_record out r = snd (retry_or_fail r (''runner reported '' @ outcome_as_str out))"

lemma active_record_Ok:
  "active_record l at b = Ok r \<longleftrightarrow>
     bt_get (lb_jobs b) (jl_job_id l) = Some r \<and> lr_state r = Leased l
   \<and> jl_acquired_at_epoch l \<le> at \<and> at < jl_expires_at_epoch l"
  by (auto simp: active_record_def not_le not_less split: option.splits)

lemma result_lease_Ok:
  "result_lease res b = Ok l \<longleftrightarrow>
     book_state b (rs_job_id res) = Some (Leased l) \<and> jl_id l = rs_lease_id res
   \<and> jl_job_id l = rs_job_id res \<and> jl_worker_id l = rs_runner_id res
   \<and> jl_node_epoch l = rs_runner_epoch res"
  by (auto simp: result_lease_def split: option.splits JobLeaseState.splits)

lemma apply_result_active:
  assumes "rs_run_id res = lb_run_id b" and "result_lease res b = Ok l"
  shows "case active_record l at b of
      Inl x \<Rightarrow> apply_result res at b = (Err x, b)
    | Inr r \<Rightarrow> \<exists>rc. apply_result res at b
        = (Ok rc, put_record (rs_job_id res) (outcome_record (rs_outcome res) r) b)
        \<and> lrc_result_hash rc = Some (receipt_hash res) \<and> lrc_lease_id rc = rs_lease_id res"
proof -
  have l: "jl_job_id l = rs_job_id res" "jl_id l = rs_lease_id res"
    using assms(2) by (auto simp: result_lease_Ok)
  show ?thesis
  proof (cases "active_record l at b")
    case (Inl x)
    with assms show ?thesis
      by (cases "rs_outcome res")
        (simp_all add: apply_result_def complete_def cancel_def fail_def with_active_def)
  next
    case (Inr r)
    with assms l show ?thesis
      by (cases "rs_outcome res")
        (auto simp: apply_result_def complete_def cancel_def fail_def with_active_def Let_def
          book_state_def retry_or_fail_def)
  qed
qed

text \<open>
  C2. A runner result is applied exactly when it comes from the holder of the live lease: the
  run id, the lease id, the worker and its epoch are those of the job's lease, and the
  scheduler clock is within the lease. Then only that job's record changes, according to the
  outcome; in every other case the book is left as it was.
\<close>

theorem apply_result_fenced:
  "case apply_result res at b of
     (Inr rc, b') \<Rightarrow> (\<exists>r l. rs_run_id res = lb_run_id b
        \<and> bt_get (lb_jobs b) (rs_job_id res) = Some r \<and> lr_state r = Leased l
        \<and> jl_id l = rs_lease_id res \<and> jl_worker_id l = rs_runner_id res
        \<and> jl_node_epoch l = rs_runner_epoch res
        \<and> jl_acquired_at_epoch l \<le> at \<and> at < jl_expires_at_epoch l
        \<and> b' = put_record (rs_job_id res) (outcome_record (rs_outcome res) r) b
        \<and> lrc_result_hash rc = Some (receipt_hash res))
   | (Inl x, b') \<Rightarrow> b' = b"
proof (cases "rs_run_id res = lb_run_id b")
  case False
  then show ?thesis by (simp add: apply_result_def)
next
  case True
  show ?thesis
  proof (cases "result_lease res b")
    case (Inl x)
    with True show ?thesis by (simp add: apply_result_def)
  next
    case (Inr l)
    show ?thesis
    proof (cases "active_record l at b")
      case (Inl x)
      with apply_result_active [OF True Inr, of at] show ?thesis by simp
    next
      case r: (Inr r)
      from apply_result_active [OF True Inr, of at] r obtain rc where
        "apply_result res at b
           = (Ok rc, put_record (rs_job_id res) (outcome_record (rs_outcome res) r) b)"
        "lrc_result_hash rc = Some (receipt_hash res)" by auto
      with True Inr r show ?thesis by (auto simp: active_record_Ok result_lease_Ok)
    qed
  qed
qed

text \<open>
  A lease book can always be opened for the schedule of a pipeline: it holds every
  scheduled job, pending, with its first attempt ahead.
\<close>

theorem lease_book_for_schedule:
  assumes "deterministic_schedule p = Ok s"
  shows "\<exists>b. LeaseBook_new run p s = Ok b \<and> lb_schedule_hash b = schedule_hash s
       \<and> (\<forall>j \<in> set (concat (map sr_jobs (rounds s))).
            book_state b j = Some Pending \<and> book_attempt b j = Some 1)"
proof -
  let ?m = "map (\<lambda>j. (job_id j, new_record j)) (pl_jobs p)"
  have jobs: "set (concat (map sr_jobs (rounds s))) = job_id ` set (pl_jobs p)"
    using mset_eq_setD [OF schedule_mset [OF assms]] by simp
  then obtain b where b: "LeaseBook_new run p s = Ok b"
    by (auto simp: LeaseBook_new_Ok)
  have "book_state b j = Some Pending \<and> book_attempt b j = Some 1" if "j \<in> job_id ` set (pl_jobs p)" for j
  proof -
    have "j \<in> fst ` set (rev ?m)" using that by force
    then obtain r where r: "bt_get (lb_jobs b) j = Some r"
      using b by (metis (no_types, lifting) LeaseBook.select_convs(3) LeaseBook_new_Ok bt_get_collect
          map_of_eq_None_iff not_None_eq)
    then have "(j, r) \<in> set ?m"
      using b by (auto simp: LeaseBook_new_Ok bt_get_collect dest!: map_of_SomeD)
    then show ?thesis using r by (auto simp: book_state_def book_attempt_def new_record_def)
  qed
  with b jobs show ?thesis by (auto simp: LeaseBook_new_Ok)
qed

section \<open>A run of the sample pipeline\<close>

definition sample_record :: JobLeaseRecord where
  "sample_record = \<lparr>lr_attempt = 0, lr_max_attempts = 1, lr_state = Pending\<rparr>"

definition sample_book :: LeaseBook where
  "sample_book = \<lparr>lb_run_id = ''run-1'', lb_schedule_hash = schedule_hash sample_schedule,
     lb_jobs = [(''build'', sample_record), (''fmt'', sample_record), (''test'', sample_record)]\<rparr>"

definition sample_lease :: JobLease where
  "sample_lease = build_lease ''run-1'' (schedule_hash sample_schedule) ''build'' ''w1'' 7 1 100 60"

definition sample_leased :: LeaseBook where
  "sample_leased =
     put_record ''build'' \<lparr>lr_attempt = 1, lr_max_attempts = 1, lr_state = Leased sample_lease\<rparr> sample_book"

lemma sample_book_new: "LeaseBook_new ''run-1'' sample_pipeline sample_schedule = Ok sample_book"
proof -
  have "new_record (sample_job n) = sample_record" for n
    by (simp add: new_record_def sample_job_def Job_new_def RetryPolicy_default_def sample_record_def)
  moreover have "bt_collect [(''test'', r), (''build'', r), (''fmt'', r)]
      = [(''build'', r), (''fmt'', r), (''test'', r)]" for r :: JobLeaseRecord
    by (simp add: bt_collect_def less_char_def)
  ultimately show ?thesis
    by (simp add: LeaseBook_new_Ok sample_book_def sample_schedule_def sample_rounds_def)
qed

lemma sample_acquire:
  "acquire_with_epoch ''build'' ''w1'' 7 100 60 sample_book = (Ok sample_lease, sample_leased)"
  by (simp add: acquire_with_epoch_def checked_add_def sample_book_def grant_lease_def sample_record_def
      sample_leased_def sample_lease_def build_lease_def Let_def)

lemma sample_reach: "reach book_init lease_op sample_book" "reach book_init lease_op sample_leased"
proof -
  show book: "reach book_init lease_op sample_book"
    by (rule reach_init) (use sample_book_new in \<open>auto simp: book_init_def\<close>)
  have "lease_op sample_book sample_leased"
    using op_acquire [of sample_book "''build''" "''w1''" 7 100 60] by (simp add: sample_acquire)
  with book show "reach book_init lease_op sample_leased" by (rule reach_step)
qed

lemma sample_leased_get:
  "bt_get (lb_jobs sample_leased) ''build''
     = Some \<lparr>lr_attempt = 1, lr_max_attempts = 1, lr_state = Leased sample_lease\<rparr>"
  "bt_get (lb_jobs sample_book) ''build'' = Some sample_record"
  by (simp_all add: sample_leased_def sample_book_def)

theorem lease_book_invariant_witness:
  "jl_attempt sample_lease = 1 \<and> jl_acquired_at_epoch sample_lease < jl_expires_at_epoch sample_lease"
  using lease_book_invariant [OF sample_reach(2) sample_leased_get(1)] by simp

theorem lease_history_witness:
  "\<exists>r'. bt_get (lb_jobs sample_leased) ''build'' = Some r' \<and> lr_attempt sample_record \<le> lr_attempt r'"
proof -
  have "lease_op\<^sup>*\<^sup>* sample_book sample_leased"
    using op_acquire [of sample_book "''build''" "''w1''" 7 100 60] by (simp add: sample_acquire)
  from lease_history [OF sample_reach(1) this sample_leased_get(2)] show ?thesis by blast
qed

theorem lease_budget_witness: "budget sample_leased < budget sample_book"
proof -
  have "lease_op sample_book sample_leased"
    using op_acquire [of sample_book "''build''" "''w1''" 7 100 60] by (simp add: sample_acquire)
  moreover have "sample_leased \<noteq> sample_book"
    using sample_leased_get by (auto simp: sample_record_def)
  ultimately show ?thesis using lease_budget [OF sample_reach(1)] by blast
qed

theorem expire_correct_witness:
  "\<exists>rs b'. expire 200 sample_leased = Some (rs, b') \<and> map lrc_job_id rs = [''build'']"
  using expire_correct [OF sample_reach(2), of 200]
  by (auto simp: sample_leased_def sample_book_def put_record_def is_expired_def sample_record_def
      sample_lease_def build_lease_def sat_add_def)

theorem acquire_exclusive_witness:
  "acquire_with_epoch ''build'' ''w2'' 3 120 60 sample_leased
     = (Err (ActiveLease ''build'' ''w1'' 160), sample_leased)"
proof -
  have l: "jl_acquired_at_epoch sample_lease \<le> 120" "120 < jl_expires_at_epoch sample_lease"
    "jl_worker_id sample_lease = ''w1''" "jl_expires_at_epoch sample_lease = 160"
    by (simp_all add: sample_lease_def build_lease_def sat_add_def)
  from acquire_exclusive [OF sample_leased_get(1) _ l(1,2), of 60 "''w2''" 3] l
  show ?thesis by (simp add: checked_add_def)
qed

theorem acquire_request_atomic_witness:
  "\<exists>q. fst (acquire_request_with_epoch sample_pipeline ''build'' ''w1'' 7 100 60 sample_book) = Ok q
     \<and> rq_runner_id (ljr_request q) = ''w1'' \<and> rq_runner_epoch (ljr_request q) = 7"
proof -
  let ?res = "acquire_request_with_epoch sample_pipeline ''build'' ''w1'' 7 100 60 sample_book"
  have "\<exists>q. fst ?res = Ok q"
    by (auto simp: acquire_request_with_epoch_def sample_acquire runner_request_def book_state_def
        sample_leased_get(1) sample_lease_def build_lease_def)
  then show ?thesis
    using acquire_request_atomic [OF sample_reach(1), where p = sample_pipeline and j = "''build''"
      and w = "''w1''" and e = 7 and now = 100 and ttl = 60]
    by (cases ?res) auto
qed

theorem lease_book_for_schedule_witness:
  "\<exists>b. LeaseBook_new ''run-1'' sample_pipeline sample_schedule = Ok b \<and> book_state b ''test'' = Some Pending"
  using lease_book_for_schedule [OF sample_schedule_Ok, of "''run-1''"]
  by (auto simp: sample_schedule_def sample_rounds_def)

end
