(* ===== verification/Node_Registry.thy ===== *)
theory Node_Registry
  imports Runner_Protocol Reachability
begin

text \<open>
  \<open>jeryu-runner-registry\<close>: the registry of runner nodes with fencing epochs. The registry is an
  explicit state; operations on \<open>&mut self\<close> return what they answer and the registry they leave.
  The JSON reader and writer of the snapshots are parameters.
\<close>

section \<open>Nodes\<close>

datatype NodeState = Registering | Active | Draining | Dead

fun node_state_as_str :: "NodeState \<Rightarrow> string" where
  "node_state_as_str Registering = ''registering''"
| "node_state_as_str Active = ''active''"
| "node_state_as_str Draining = ''draining''"
| "node_state_as_str Dead = ''dead''"

record NodeRecord =
  nr_node_id :: string
  nr_state :: NodeState
  nr_epoch :: u64
  nr_capacity :: u32
  nr_in_flight :: u32
  nr_supported_classes :: "RunnerClass list"
  nr_tags :: "string list"
  nr_last_heartbeat_epoch :: u64

definition has_capacity :: "NodeRecord \<Rightarrow> bool" where
  "has_capacity n \<longleftrightarrow> nr_in_flight n < nr_capacity n"

definition is_assignable :: "NodeRecord \<Rightarrow> bool" where
  "is_assignable n \<longleftrightarrow> nr_state n = Active \<and> has_capacity n"

definition supports_class :: "NodeRecord \<Rightarrow> RunnerClass \<Rightarrow> bool" where
  "supports_class n c \<longleftrightarrow> list_ex (\<lambda>x. x = c) (nr_supported_classes n)"

definition matches_tags :: "NodeRecord \<Rightarrow> string list \<Rightarrow> bool" where
  "matches_tags n required \<longleftrightarrow> list_all (\<lambda>need. list_ex (\<lambda>have. have = need) (nr_tags n)) required"

record RegistrationAck =
  ra_node_id :: string
  ra_epoch :: u64
  ra_lease_ttl :: u64

record HeartbeatAck =
  ha_still_owner :: bool
  ha_drain :: bool

record ReapedNode =
  rn_node_id :: string
  rn_fenced_epoch :: u64
  rn_orphaned_in_flight :: u32

record AssignSpec =
  as_lease_id :: string
  as_runner_class :: RunnerClass
  as_required_tags :: "string list"

definition AssignSpec_new :: "string \<Rightarrow> RunnerClass \<Rightarrow> AssignSpec" where
  "AssignSpec_new lease c = \<lparr>as_lease_id = lease, as_runner_class = c, as_required_tags = []\<rparr>"

definition with_tags :: "AssignSpec \<Rightarrow> string list \<Rightarrow> AssignSpec" where
  "with_tags spec tags = spec\<lparr>as_required_tags := tags\<rparr>"

record Assignment =
  an_node_id :: string
  an_epoch :: u64

section \<open>The registry\<close>

record NodeRegistry =
  reg_nodes :: "(string, NodeRecord) btree_map"
  heartbeat_ttl :: u64

definition NodeRegistry_new :: "u64 \<Rightarrow> NodeRegistry" where
  "NodeRegistry_new ttl = \<lparr>reg_nodes = [], heartbeat_ttl = ttl\<rparr>"

definition put_node :: "string \<Rightarrow> NodeRecord \<Rightarrow> NodeRegistry \<Rightarrow> NodeRegistry" where
  "put_node i n reg = reg\<lparr>reg_nodes := bt_insert i n (reg_nodes reg)\<rparr>"

definition register :: "RunnerHello \<Rightarrow> u64 \<Rightarrow> NodeRegistry \<Rightarrow> RegistrationAck \<times> NodeRegistry" where
  "register hello now reg =
     (let node_id = rh_runner_id hello;
          next_epoch = (case bt_get (reg_nodes reg) node_id of
                          None \<Rightarrow> 1
                        | Some existing \<Rightarrow> sat_add (nr_epoch existing) 1);
          record = \<lparr>nr_node_id = node_id, nr_state = Active, nr_epoch = next_epoch,
                    nr_capacity = rh_capacity hello, nr_in_flight = 0,
                    nr_supported_classes = rh_supported_classes hello, nr_tags = rh_labels hello,
                    nr_last_heartbeat_epoch = now\<rparr>
      in (\<lparr>ra_node_id = node_id, ra_epoch = next_epoch, ra_lease_ttl = heartbeat_ttl reg\<rparr>,
          put_node node_id record reg))"

definition heartbeat :: "Heartbeat \<Rightarrow> u64 \<Rightarrow> NodeRegistry \<Rightarrow> HeartbeatAck \<times> NodeRegistry" where
  "heartbeat beat now reg =
     (case bt_get (reg_nodes reg) (hb_runner_id beat) of
        None \<Rightarrow> (\<lparr>ha_still_owner = False, ha_drain = False\<rparr>, reg)
      | Some node \<Rightarrow>
          if nr_state node = Dead \<or> hb_runner_epoch beat \<noteq> nr_epoch node
          then (\<lparr>ha_still_owner = False, ha_drain = (nr_state node = Draining)\<rparr>, reg)
          else (\<lparr>ha_still_owner = True, ha_drain = (nr_state node = Draining)\<rparr>,
                put_node (hb_runner_id beat) (node\<lparr>nr_last_heartbeat_epoch := now\<rparr>) reg))"

definition is_current_owner :: "NodeRegistry \<Rightarrow> string \<Rightarrow> u64 \<Rightarrow> bool" where
  "is_current_owner reg i claimed =
     (case bt_get (reg_nodes reg) i of
        None \<Rightarrow> False
      | Some node \<Rightarrow> nr_state node \<noteq> Dead \<and> nr_epoch node = claimed)"

text \<open>The body of the loop of \<open>reap\<close>: the report, if the node is reaped, and the node.\<close>

definition reap_node :: "u64 \<Rightarrow> u64 \<Rightarrow> NodeRecord \<Rightarrow> ReapedNode option \<times> NodeRecord" where
  "reap_node ttl now node =
     (if nr_state node = Dead then (None, node)
      else if sat_add (nr_last_heartbeat_epoch node) ttl < now then
        (let node = node\<lparr>nr_state := Dead, nr_epoch := sat_add (nr_epoch node) 1\<rparr>
         in (Some \<lparr>rn_node_id = nr_node_id node, rn_fenced_epoch = nr_epoch node,
                   rn_orphaned_in_flight = nr_in_flight node\<rparr>, node))
      else (None, node))"

definition reap :: "u64 \<Rightarrow> NodeRegistry \<Rightarrow> ReapedNode list \<times> NodeRegistry" where
  "reap now reg =
     (List.map_filter (\<lambda>n. fst (reap_node (heartbeat_ttl reg) now n)) (bt_values (reg_nodes reg)),
      reg\<lparr>reg_nodes := bt_map_values (\<lambda>n. snd (reap_node (heartbeat_ttl reg) now n)) (reg_nodes reg)\<rparr>)"

definition drain :: "string \<Rightarrow> NodeRegistry \<Rightarrow> bool \<times> NodeRegistry" where
  "drain i reg =
     (case bt_get (reg_nodes reg) i of
        Some node \<Rightarrow>
          if nr_state node = Active then (True, put_node i (node\<lparr>nr_state := Draining\<rparr>) reg)
          else (False, reg)
      | None \<Rightarrow> (False, reg))"

definition eligible :: "AssignSpec \<Rightarrow> NodeRecord \<Rightarrow> bool" where
  "eligible spec n \<longleftrightarrow> is_assignable n \<and> supports_class n (as_runner_class spec)
     \<and> matches_tags n (as_required_tags spec)"

text \<open>\<open>values_mut().find(p)\<close> followed by an update of the node found.\<close>

fun update_first :: "('v \<Rightarrow> bool) \<Rightarrow> ('v \<Rightarrow> 'v) \<Rightarrow> ('k, 'v) btree_map \<Rightarrow> ('v \<times> ('k, 'v) btree_map) option" where
  "update_first p f [] = None"
| "update_first p f ((k, v) # m) =
     (if p v then Some (v, (k, f v) # m)
      else map_option (\<lambda>(w, m'). (w, (k, v) # m')) (update_first p f m))"

definition assign :: "AssignSpec \<Rightarrow> NodeRegistry \<Rightarrow> Assignment option \<times> NodeRegistry" where
  "assign spec reg =
     (case update_first (eligible spec) (\<lambda>n. n\<lparr>nr_in_flight := sat_add (nr_in_flight n) 1\<rparr>)
             (reg_nodes reg) of
        None \<Rightarrow> (None, reg)
      | Some (chosen, nodes) \<Rightarrow>
          (Some \<lparr>an_node_id = nr_node_id chosen, an_epoch = nr_epoch chosen\<rparr>,
           reg\<lparr>reg_nodes := nodes\<rparr>))"

definition release :: "string \<Rightarrow> NodeRegistry \<Rightarrow> NodeRegistry" where
  "release i reg =
     (case bt_get (reg_nodes reg) i of
        None \<Rightarrow> reg
      | Some node \<Rightarrow> put_node i (node\<lparr>nr_in_flight := sat_sub (nr_in_flight node) 1\<rparr>) reg)"

section \<open>Snapshots\<close>

record NodeRecordWire =
  nw_node_id :: string
  nw_state :: NodeState
  nw_epoch :: u64
  nw_capacity :: u32
  nw_in_flight :: u32
  nw_supported_classes :: "string list"
  nw_tags :: "string list"
  nw_last_heartbeat_epoch :: u64

record RegistrySnapshot =
  sn_heartbeat_ttl :: u64
  sn_nodes :: "NodeRecordWire list"

definition node_to_wire :: "NodeRecord \<Rightarrow> NodeRecordWire" where
  "node_to_wire n =
     \<lparr>nw_node_id = nr_node_id n, nw_state = nr_state n, nw_epoch = nr_epoch n,
      nw_capacity = nr_capacity n, nw_in_flight = nr_in_flight n,
      nw_supported_classes = map class_as_str (nr_supported_classes n), nw_tags = nr_tags n,
      nw_last_heartbeat_epoch = nr_last_heartbeat_epoch n\<rparr>"

definition snapshot_of_registry :: "NodeRegistry \<Rightarrow> RegistrySnapshot" where
  "snapshot_of_registry reg =
     \<lparr>sn_heartbeat_ttl = heartbeat_ttl reg,
      sn_nodes = map node_to_wire (bt_values (reg_nodes reg))\<rparr>"

definition parse_runner_class :: "string \<Rightarrow> RunnerClass" where
  "parse_runner_class s = (case class_from_str s of Inr c \<Rightarrow> c | Inl _ \<Rightarrow> NativeRustClean)"

definition node_of_wire :: "NodeRecordWire \<Rightarrow> NodeRecord" where
  "node_of_wire w =
     \<lparr>nr_node_id = nw_node_id w, nr_state = nw_state w, nr_epoch = nw_epoch w,
      nr_capacity = nw_capacity w, nr_in_flight = nw_in_flight w,
      nr_supported_classes = map parse_runner_class (nw_supported_classes w), nr_tags = nw_tags w,
      nr_last_heartbeat_epoch = nw_last_heartbeat_epoch w\<rparr>"

definition registry_of_snapshot :: "RegistrySnapshot \<Rightarrow> NodeRegistry" where
  "registry_of_snapshot w =
     \<lparr>reg_nodes = bt_collect (map (\<lambda>n. (nw_node_id n, node_of_wire n)) (sn_nodes w)),
      heartbeat_ttl = sn_heartbeat_ttl w\<rparr>"

definition to_snapshot ::
  "(RegistrySnapshot \<Rightarrow> (string, 'e) result) \<Rightarrow> NodeRegistry \<Rightarrow> (string, 'e) result" where
  "to_snapshot json_to_string reg = json_to_string (snapshot_of_registry reg)"

definition from_snapshot ::
  "(string \<Rightarrow> (RegistrySnapshot, 'e) result) \<Rightarrow> string \<Rightarrow> (NodeRegistry, 'e) result" where
  "from_snapshot json_from_str json =
     and_then (json_from_str json) (\<lambda>wire. Ok (registry_of_snapshot wire))"

section \<open>Invariant\<close>

definition node_wf :: "string \<Rightarrow> NodeRecord \<Rightarrow> bool" where
  "node_wf i n \<longleftrightarrow> nr_node_id n = i \<and> nr_in_flight n \<le> nr_capacity n"

definition reg_wf :: "NodeRegistry \<Rightarrow> bool" where
  "reg_wf reg \<longleftrightarrow> bt_wf (reg_nodes reg) \<and> (\<forall>(i, n) \<in> set (reg_nodes reg). node_wf i n)"

inductive registry_op :: "NodeRegistry \<Rightarrow> NodeRegistry \<Rightarrow> bool" where
  op_register: "registry_op reg (snd (register hello now reg))"
| op_heartbeat: "registry_op reg (snd (heartbeat beat now reg))"
| op_reap: "registry_op reg (snd (reap now reg))"
| op_drain: "registry_op reg (snd (drain i reg))"
| op_assign: "registry_op reg (snd (assign spec reg))"
| op_release: "registry_op reg (release i reg)"

inductive_cases registry_opE: "registry_op reg reg'"

text \<open>
  What one operation may do to the entry of one node: the node appears, or keeps its epoch
  without coming back to life, or moves to a later epoch.
\<close>

definition node_evolves :: "NodeRecord \<Rightarrow> NodeRecord \<Rightarrow> bool" where
  "node_evolves n n' \<longleftrightarrow>
     nr_epoch n' = nr_epoch n \<and> (nr_state n = Dead \<longleftrightarrow> nr_state n' = Dead)
   \<or> nr_epoch n' = sat_add (nr_epoch n) 1"

lemma put_node_simps [simp]:
  "heartbeat_ttl (put_node i n reg) = heartbeat_ttl reg"
  "bt_get (reg_nodes (put_node i n reg)) k = (if k = i then Some n else bt_get (reg_nodes reg) k)"
  by (simp_all add: put_node_def)

lemma bt_wf_put_node [simp]: "bt_wf (reg_nodes reg) \<Longrightarrow> bt_wf (reg_nodes (put_node i n reg))"
  by (auto simp: put_node_def)

lemma reg_wf_get:
  "reg_wf reg \<longleftrightarrow> bt_wf (reg_nodes reg) \<and> (\<forall>i n. bt_get (reg_nodes reg) i = Some n \<longrightarrow> node_wf i n)"
  unfolding reg_wf_def by (auto simp: bt.entry_iff)

lemma reg_wf_put: "reg_wf reg \<Longrightarrow> node_wf i n \<Longrightarrow> reg_wf (put_node i n reg)"
  by (auto simp: reg_wf_get)

lemma update_first_keys: "update_first p f m = Some (v, m') \<Longrightarrow> map fst m' = map fst m"
  by (induction m arbitrary: m') (auto split: if_splits)

lemma update_first_None: "update_first p f m = None \<longleftrightarrow> (\<forall>v \<in> set (bt_values m). \<not> p v)"
  by (induction m) (auto simp: bt_values_def split: if_splits)

lemma update_first_Some:
  assumes "update_first p f m = Some (v, m')"
  shows "\<exists>pre k post. m = pre @ (k, v) # post \<and> m' = pre @ (k, f v) # post \<and> p v
           \<and> (\<forall>w \<in> set (bt_values pre). \<not> p w)"
  using assms
proof (induction m arbitrary: m')
  case (Cons x m)
  obtain k w where x: "x = (k, w)" by (cases x)
  show ?case
  proof (cases "p w")
    case True
    with Cons.prems show ?thesis
      by (intro exI [of _ "[]"] exI [of _ k] exI [of _ m]) (auto simp: x bt_values_def)
  next
    case False
    with Cons.prems obtain m'' where m'': "update_first p f m = Some (v, m'')" "m' = (k, w) # m''"
      by (auto simp: x)
    from Cons.IH [OF this(1)] obtain pre j post where "m = pre @ (j, v) # post"
      "m'' = pre @ (j, f v) # post" "p v" "\<forall>w \<in> set (bt_values pre). \<not> p w" by blast
    with m'' False show ?thesis
      by (intro exI [of _ "(k, w) # pre"] exI [of _ j] exI [of _ post]) (auto simp: x bt_values_def)
  qed
qed simp

text \<open>The first eligible node in id order, and the effect of \<open>assign\<close> on it.\<close>

lemma assign_cases:
  assumes "reg_wf reg"
  obtains (none) "\<forall>n \<in> set (bt_values (reg_nodes reg)). \<not> eligible spec n" "assign spec reg = (None, reg)"
  | (some) i n where "bt_get (reg_nodes reg) i = Some n" "eligible spec n" "nr_node_id n = i"
      "\<forall>j m. bt_get (reg_nodes reg) j = Some m \<and> eligible spec m \<longrightarrow> i \<le> j"
      "assign spec reg = (Some \<lparr>an_node_id = i, an_epoch = nr_epoch n\<rparr>,
         put_node i (n\<lparr>nr_in_flight := nr_in_flight n + 1\<rparr>) reg)"
proof (cases "update_first (eligible spec) (\<lambda>n. n\<lparr>nr_in_flight := sat_add (nr_in_flight n) 1\<rparr>) (reg_nodes reg)")
  case None
  then have "assign spec reg = (None, reg)" by (simp add: assign_def)
  moreover from None have "\<forall>n \<in> set (bt_values (reg_nodes reg)). \<not> eligible spec n"
    by (simp only: update_first_None)
  ultimately show thesis using none by blast
next
  case (Some r)
  obtain n m' where r: "r = (n, m')" by (cases r)
  from update_first_Some [OF Some [unfolded r]] obtain pre i post where
    m: "reg_nodes reg = pre @ (i, n) # post"
      "m' = pre @ (i, n\<lparr>nr_in_flight := sat_add (nr_in_flight n) 1\<rparr>) # post"
    and elig: "eligible spec n" and pre: "\<forall>w \<in> set (bt_values pre). \<not> eligible spec w" by blast
  have wf: "bt_wf (reg_nodes reg)" using assms by (simp add: reg_wf_def)
  have "nr_in_flight n < nr_capacity n"
    using elig by (simp add: eligible_def is_assignable_def has_capacity_def)
  from unat_inc [OF this] have inc: "sat_add (nr_in_flight n) 1 = nr_in_flight n + 1"
    using unat_lt_2p [of "nr_in_flight n + 1"] by (simp add: sat_add_def)
  have get: "bt_get (reg_nodes reg) i = Some n"
    by (subst bt.entry_iff [OF wf, symmetric]) (simp add: m(1))
  moreover from this assms have "nr_node_id n = i" by (simp add: reg_wf_get node_wf_def)
  moreover have "i \<le> j" if "bt_get (reg_nodes reg) j = Some k" "eligible spec k" for j k
  proof -
    have "(j, k) \<in> set (reg_nodes reg)" using that(1) bt.entry_iff [OF wf] by simp
    then show ?thesis
      using that(2) pre wf by (force simp: m(1) bt_values_def bt_wf_def sorted_wrt_append)
  qed
  moreover have "assign spec reg = (Some \<lparr>an_node_id = nr_node_id n, an_epoch = nr_epoch n\<rparr>,
      put_node i (n\<lparr>nr_in_flight := nr_in_flight n + 1\<rparr>) reg)"
    using Some wf m by (simp add: assign_def r put_node_def bt_insert_middle inc)
  ultimately show thesis using some elig by metis
qed

lemma reap_nodes: "bt_get (reg_nodes (snd (reap now reg))) i
    = map_option (\<lambda>n. snd (reap_node (heartbeat_ttl reg) now n)) (bt_get (reg_nodes reg) i)"
  by (simp add: reap_def)

lemma registry_op_wf: "reg_wf reg \<Longrightarrow> registry_op reg reg' \<Longrightarrow> reg_wf reg'"
proof (erule registry_opE)
  fix spec
  assume wf: "reg_wf reg" and reg': "reg' = snd (assign spec reg)"
  from wf show "reg_wf reg'"
  proof (cases rule: assign_cases [of reg spec])
    case (some i n)
    then have "nr_in_flight n < nr_capacity n"
      by (simp add: eligible_def is_assignable_def has_capacity_def)
    then have "node_wf i (n\<lparr>nr_in_flight := nr_in_flight n + 1\<rparr>)"
      using some(3) by (simp add: node_wf_def word_inc_le)
    with some wf reg' show ?thesis by (simp add: reg_wf_put)
  qed (use wf reg' in simp)
next
  fix now
  assume wf: "reg_wf reg" and reg': "reg' = snd (reap now reg)"
  have "node_wf i (snd (reap_node ttl now n)) = node_wf i n" for i ttl n
    by (simp add: reap_node_def node_wf_def Let_def)
  with wf show "reg_wf reg'"
    unfolding reg' by (auto simp: reg_wf_get reap_nodes) (simp add: reap_def)
next
  fix i
  assume wf: "reg_wf reg" and reg': "reg' = release i reg"
  have "node_wf j (n\<lparr>nr_in_flight := sat_sub (nr_in_flight n) 1\<rparr>)" if "node_wf j n" for j n
    using that sat_sub_le order_trans by (auto simp: node_wf_def) blast
  with wf show "reg_wf reg'"
    unfolding reg' release_def by (auto split: option.split intro!: reg_wf_put simp: reg_wf_get)
qed (auto simp: register_def heartbeat_def drain_def Let_def split: option.split if_split
    intro!: reg_wf_put, auto simp: reg_wf_get node_wf_def)

lemma registry_op_evolves:
  assumes "reg_wf reg" and "registry_op reg reg'" and "bt_get (reg_nodes reg) i = Some n"
  shows "\<exists>n'. bt_get (reg_nodes reg') i = Some n' \<and> node_evolves n n'"
  using assms(2)
proof (rule registry_opE)
  fix spec
  assume reg': "reg' = snd (assign spec reg)"
  from assms(1) show ?thesis
    by (cases rule: assign_cases [of reg spec]) (use assms(3) reg' in \<open>auto simp: node_evolves_def\<close>)
qed (use assms(3) in \<open>auto simp: register_def heartbeat_def drain_def release_def reap_nodes
    reap_node_def node_evolves_def Let_def split: option.split\<close>)

lemma node_evolves_epoch: "node_evolves n n' \<Longrightarrow> nr_epoch n \<le> nr_epoch n'"
  by (auto simp: node_evolves_def sat_add_ge)

definition reg_init :: "NodeRegistry \<Rightarrow> bool" where
  "reg_init reg \<longleftrightarrow> (\<exists>ttl. reg = NodeRegistry_new ttl)"

text \<open>Nodes are never forgotten and their epochs never go back.\<close>

definition reg_le :: "NodeRegistry \<Rightarrow> NodeRegistry \<Rightarrow> bool" where
  "reg_le reg reg' \<longleftrightarrow> (\<forall>i n. bt_get (reg_nodes reg) i = Some n \<longrightarrow>
     (\<exists>n'. bt_get (reg_nodes reg') i = Some n' \<and> nr_epoch n \<le> nr_epoch n'))"

interpretation registry: monotone_system reg_init registry_op reg_wf reg_le
proof unfold_locales
  show "reg_init reg \<Longrightarrow> reg_wf reg" for reg
    by (auto simp: reg_init_def NodeRegistry_new_def reg_wf_def)
  show "reg_le a b \<Longrightarrow> reg_le b c \<Longrightarrow> reg_le a c" for a b c
    unfolding reg_le_def by (meson order_trans)
  show "reg_wf reg \<Longrightarrow> registry_op reg reg' \<Longrightarrow> reg_le reg reg'" for reg reg'
    unfolding reg_le_def using registry_op_evolves node_evolves_epoch by blast
qed (auto simp: registry_op_wf reg_le_def)

text \<open>A claim on a node is fenced when the node has moved past it or died under it.\<close>

definition fenced :: "NodeRegistry \<Rightarrow> string \<Rightarrow> u64 \<Rightarrow> bool" where
  "fenced reg i e \<longleftrightarrow> (\<exists>n. bt_get (reg_nodes reg) i = Some n
     \<and> (e < nr_epoch n \<or> nr_epoch n = e \<and> nr_state n = Dead))"

lemma fenced_not_owner: "fenced reg i e \<Longrightarrow> \<not> is_current_owner reg i e"
  by (auto simp: fenced_def is_current_owner_def)

lemma fenced_step:
  assumes "reg_wf reg" and "registry_op reg reg'" and "e \<noteq> - 1" and "fenced reg i e"
  shows "fenced reg' i e"
proof -
  obtain n where n: "bt_get (reg_nodes reg) i = Some n"
    "e < nr_epoch n \<or> nr_epoch n = e \<and> nr_state n = Dead"
    using assms(4) by (auto simp: fenced_def)
  obtain n' where n': "bt_get (reg_nodes reg') i = Some n'" "node_evolves n n'"
    using registry_op_evolves [OF assms(1,2) n(1)] by blast
  have "e < sat_add e 1" using assms(3) by (rule sat_add_one_gt)
  then have "e < nr_epoch n' \<or> nr_epoch n' = e \<and> nr_state n' = Dead"
    using n(2) n'(2) node_evolves_epoch [OF n'(2)] by (auto simp: node_evolves_def)
  with n'(1) show ?thesis by (auto simp: fenced_def)
qed

lemma owner_step:
  assumes "reg_wf reg" and "registry_op reg reg'" and "e \<noteq> - 1" and "is_current_owner reg i e"
  shows "is_current_owner reg' i e \<or> fenced reg' i e"
proof -
  obtain n where n: "bt_get (reg_nodes reg) i = Some n" "nr_epoch n = e" "nr_state n \<noteq> Dead"
    using assms(4) by (auto simp: is_current_owner_def split: option.splits)
  obtain n' where n': "bt_get (reg_nodes reg') i = Some n'" "node_evolves n n'"
    using registry_op_evolves [OF assms(1,2) n(1)] by blast
  have "e < sat_add e 1" using assms(3) by (rule sat_add_one_gt)
  with n n' show ?thesis by (auto simp: node_evolves_def is_current_owner_def fenced_def)
qed

lemma fenced_steps:
  assumes "registry_op\<^sup>*\<^sup>* reg reg'" and "reg_wf reg" and "e \<noteq> - 1" and "fenced reg i e"
  shows "fenced reg' i e"
  using assms(1)
proof (induction rule: rtranclp_induct)
  case (step b c)
  then show ?case
    using fenced_step registry.steps_inv [OF step.hyps(1) assms(2)] assms(3) by blast
qed (use assms in blast)

lemma owner_steps:
  assumes "registry_op\<^sup>*\<^sup>* reg reg'" and "reg_wf reg" and "e \<noteq> - 1" and "is_current_owner reg i e"
  shows "is_current_owner reg' i e \<or> fenced reg' i e"
  using assms(1)
proof (induction rule: rtranclp_induct)
  case (step b c)
  have "reg_wf b" using registry.steps_inv [OF step.hyps(1) assms(2)] .
  with step show ?case using owner_step fenced_step assms(3) by blast
qed (use assms in blast)

section \<open>Properties\<close>

text \<open>
  No node is ever overcommitted: in every reachable registry each node is filed under its
  own id and holds at most as many leases as its capacity.
\<close>

theorem registry_capacity:
  assumes "reach reg_init registry_op reg" and "bt_get (reg_nodes reg) i = Some n"
  shows "nr_node_id n = i \<and> nr_in_flight n \<le> nr_capacity n"
  using registry.reach_inv [OF assms(1)] assms(2) by (simp add: reg_wf_get node_wf_def)

text \<open>
  Fencing is final: once a node epoch that was the current owner is no longer accepted (the
  node was reaped or registered again), no later sequence of operations makes it the owner
  again. The one exception is the saturated epoch, which cannot be raised any further.
\<close>

theorem lost_ownership_final:
  assumes "reach reg_init registry_op r0" and "is_current_owner r0 i e" and "e \<noteq> - 1"
    and "registry_op\<^sup>*\<^sup>* r0 r1" and "\<not> is_current_owner r1 i e" and "registry_op\<^sup>*\<^sup>* r1 r2"
  shows "\<not> is_current_owner r2 i e"
proof -
  have wf: "reg_wf r0" "reg_wf r1"
    using registry.reach_inv [OF assms(1)] registry.steps_inv [OF assms(4)] by blast+
  have "fenced r1 i e" using owner_steps [OF assms(4) wf(1) assms(3,2)] assms(5) by blast
  then show ?thesis using fenced_steps [OF assms(6) wf(2) assms(3)] fenced_not_owner by blast
qed

text \<open>
  Registration makes exactly the acknowledged epoch the owner of the node, and that epoch is
  higher than the node's previous one, unless the previous one was the largest there is.
\<close>

theorem register_fences:
  assumes "register hello now reg = (ack, reg')"
  shows "(is_current_owner reg' (rh_runner_id hello) e \<longleftrightarrow> e = ra_epoch ack)
       \<and> (\<forall>n. bt_get (reg_nodes reg) (rh_runner_id hello) = Some n \<and> nr_epoch n \<noteq> - 1
            \<longrightarrow> nr_epoch n < ra_epoch ack)"
  using assms by (auto simp: register_def Let_def is_current_owner_def sat_add_one_gt)

text \<open>
  A heartbeat is acknowledged exactly for the current owner; it then refreshes the node's
  clock, and a stale one changes nothing.
\<close>

theorem heartbeat_owner:
  assumes "heartbeat beat now reg = (ack, reg')"
  shows "ha_still_owner ack = is_current_owner reg (hb_runner_id beat) (hb_runner_epoch beat)
       \<and> (if ha_still_owner ack
          then map_option nr_last_heartbeat_epoch (bt_get (reg_nodes reg') (hb_runner_id beat)) = Some now
          else reg' = reg)"
  using assms by (auto simp: heartbeat_def is_current_owner_def split: option.splits if_splits)

definition overdue :: "u64 \<Rightarrow> u64 \<Rightarrow> NodeRecord \<Rightarrow> bool" where
  "overdue ttl now n \<longleftrightarrow> nr_state n \<noteq> Dead \<and> sat_add (nr_last_heartbeat_epoch n) ttl < now"

lemma reap_node_Some: "fst (reap_node ttl now n) = Some r \<Longrightarrow> rn_node_id r = nr_node_id n \<and> overdue ttl now n"
  by (auto simp: reap_node_def overdue_def Let_def split: if_splits)

lemma not_overdue_reap_node: "\<not> overdue ttl now (snd (reap_node ttl now n))"
  by (simp add: reap_node_def overdue_def Let_def)

lemma reap_node_None: "fst (reap_node ttl now n) = None \<longleftrightarrow> \<not> overdue ttl now n"
  by (auto simp: reap_node_def overdue_def Let_def)

text \<open>
  A sweep reports exactly the live nodes whose heartbeat is overdue, in id order; afterwards
  none is overdue, no overdue node owns its old epoch (below the largest), and every other node
  is untouched.
\<close>

theorem reap_correct:
  assumes "reap now reg = (reaped, reg')"
  shows "map rn_node_id reaped = map nr_node_id (filter (overdue (heartbeat_ttl reg) now) (bt_values (reg_nodes reg)))
       \<and> (\<forall>i n. bt_get (reg_nodes reg) i = Some n \<longrightarrow>
            (if overdue (heartbeat_ttl reg) now n
             then nr_epoch n \<noteq> - 1 \<longrightarrow> \<not> is_current_owner reg' i (nr_epoch n)
             else bt_get (reg_nodes reg') i = Some n))
       \<and> (\<forall>i n. bt_get (reg_nodes reg') i = Some n \<longrightarrow> \<not> overdue (heartbeat_ttl reg') now n)"
proof (intro conjI allI impI)
  let ?ttl = "heartbeat_ttl reg"
  have r: "reaped = List.map_filter (\<lambda>n. fst (reap_node ?ttl now n)) (bt_values (reg_nodes reg))"
    and reg': "reg' = snd (reap now reg)" and ttl: "heartbeat_ttl reg' = ?ttl"
    using assms by (auto simp: reap_def)
  have "map rn_node_id (List.map_filter (\<lambda>n. fst (reap_node ?ttl now n)) ns)
      = map nr_node_id (filter (overdue ?ttl now) ns)" for ns
    by (induction ns) (auto simp: map_filter_simps reap_node_None dest: reap_node_Some split: option.split)
  then show "map rn_node_id reaped = map nr_node_id (filter (overdue ?ttl now) (bt_values (reg_nodes reg)))"
    by (simp add: r)
  fix i n
  show "if overdue ?ttl now n then nr_epoch n \<noteq> - 1 \<longrightarrow> \<not> is_current_owner reg' i (nr_epoch n)
        else bt_get (reg_nodes reg') i = Some n" if "bt_get (reg_nodes reg) i = Some n"
    using that by (auto simp: reg' reap_nodes is_current_owner_def reap_node_def overdue_def Let_def)
  show "\<not> overdue (heartbeat_ttl reg') now n" if "bt_get (reg_nodes reg') i = Some n"
    using that unfolding ttl by (auto simp: reg' reap_nodes not_overdue_reap_node)
qed

text \<open>
  Assignment picks the eligible node with the least id (active, with spare capacity, of the
  right class, with all tags), takes one of its slots and returns its current epoch; it answers
  nothing, and changes nothing, exactly when no node is eligible.
\<close>

theorem assign_correct:
  assumes "reach reg_init registry_op reg"
  shows "case assign spec reg of
       (Some a, reg') \<Rightarrow> (\<exists>n. bt_get (reg_nodes reg) (an_node_id a) = Some n \<and> eligible spec n
          \<and> an_epoch a = nr_epoch n \<and> is_current_owner reg' (an_node_id a) (an_epoch a)
          \<and> (\<forall>j m. bt_get (reg_nodes reg) j = Some m \<and> eligible spec m \<longrightarrow> an_node_id a \<le> j)
          \<and> reg' = put_node (an_node_id a) (n\<lparr>nr_in_flight := nr_in_flight n + 1\<rparr>) reg)
     | (None, reg') \<Rightarrow> reg' = reg \<and> (\<forall>i n. bt_get (reg_nodes reg) i = Some n \<longrightarrow> \<not> eligible spec n)"
  using registry.reach_inv [OF assms]
proof (cases rule: assign_cases [of reg spec])
  case none
  have "\<not> eligible spec n" if "bt_get (reg_nodes reg) i = Some n" for i n
    using none(1) map_of_SomeD [OF that] by (force simp: bt_values_def)
  with none(2) show ?thesis by auto
next
  case (some i n)
  then have "nr_state n \<noteq> Dead" by (auto simp: eligible_def is_assignable_def)
  with some show ?thesis by (auto simp: is_current_owner_def)
qed

text \<open>
  A registry survives its snapshot: reading back what was written gives the same registry,
  provided the JSON reader inverts the writer and every runner class is one its string form
  denotes (all built-in classes are).
\<close>

theorem snapshot_round_trip:
  assumes "reach reg_init registry_op reg"
    and "\<forall>w s. json_to_string w = Ok s \<longrightarrow> json_from_str s = Ok w"
    and "to_snapshot json_to_string reg = Ok s"
    and "\<forall>n \<in> set (bt_values (reg_nodes reg)). \<forall>c \<in> set (nr_supported_classes n). class_canon c"
  shows "from_snapshot json_from_str s = Ok reg"
proof -
  have wf: "reg_wf reg" using registry.reach_inv [OF assms(1)] .
  have same: "node_of_wire (node_to_wire n) = n" if n: "n \<in> set (bt_values (reg_nodes reg))" for n
  proof -
    have "parse_runner_class (class_as_str c) = c" if "c \<in> set (nr_supported_classes n)" for c
      using assms(4) n that class_enum.from_as by (simp add: parse_runner_class_def)
    then show ?thesis
      by (simp add: node_of_wire_def node_to_wire_def map_idI)
  qed
  have "map (\<lambda>n. (nw_node_id n, node_of_wire n)) (map node_to_wire (bt_values (reg_nodes reg)))
      = reg_nodes reg"
  proof -
    have "(nw_node_id (node_to_wire n), node_of_wire (node_to_wire n)) = (i, n)"
      if "(i, n) \<in> set (reg_nodes reg)" for i n
    proof -
      have "n \<in> set (bt_values (reg_nodes reg))" using that by (force simp: bt_values_def)
      moreover have "node_wf i n" using wf that by (auto simp: reg_wf_def)
      ultimately show ?thesis using same by (simp add: node_wf_def) (simp add: node_to_wire_def)
    qed
    then show ?thesis by (auto simp: bt_values_def intro!: map_idI)
  qed
  then have "registry_of_snapshot (snapshot_of_registry reg) = reg"
    using wf by (simp add: registry_of_snapshot_def snapshot_of_registry_def reg_wf_def bt_collect_id)
  moreover have "json_from_str s = Ok (snapshot_of_registry reg)"
    using assms(2,3) by (simp add: to_snapshot_def)
  ultimately show ?thesis by (simp add: from_snapshot_def)
qed

text \<open>
  The provision is needed: a custom class named like an alias of a built-in one comes back as
  the built-in class.
\<close>

lemma snapshot_alias_changes_class:
  "parse_runner_class (class_as_str (CustomClass ''docker'')) = OciDocker"
  by code_simp

section \<open>A two-node fleet\<close>

definition sample_hello :: "string \<Rightarrow> RunnerHello" where
  "sample_hello i = (RunnerHello_new i [NativeRustClean])\<lparr>rh_capacity := 2\<rparr>"

definition sample_registry :: NodeRegistry where
  "sample_registry = snd (register (sample_hello ''n1'') 0 (NodeRegistry_new 10))"

lemma sample_registry_reach: "reach reg_init registry_op sample_registry"
proof (rule reach_step)
  show "reach reg_init registry_op (NodeRegistry_new 10)"
    by (rule reach_init) (auto simp: reg_init_def)
  show "registry_op (NodeRegistry_new 10) sample_registry"
    unfolding sample_registry_def by (rule op_register)
qed

definition sample_node :: NodeRecord where
  "sample_node = \<lparr>nr_node_id = ''n1'', nr_state = Active, nr_epoch = 1, nr_capacity = 2, nr_in_flight = 0,
     nr_supported_classes = [NativeRustClean], nr_tags = [], nr_last_heartbeat_epoch = 0\<rparr>"

lemma sample_registry_eq: "sample_registry = \<lparr>reg_nodes = [(''n1'', sample_node)], heartbeat_ttl = 10\<rparr>"
  by (simp add: sample_registry_def register_def Let_def NodeRegistry_new_def sample_hello_def
      RunnerHello_new_def put_node_def sample_node_def)

definition sample_reaped :: NodeRegistry where
  "sample_reaped = snd (reap 11 sample_registry)"

theorem registry_capacity_witness: "nr_in_flight sample_node \<le> nr_capacity sample_node"
  using registry_capacity [OF sample_registry_reach, of "''n1''" sample_node]
  by (simp add: sample_registry_eq)

theorem lost_ownership_final_witness:
  "\<not> is_current_owner (snd (register (sample_hello ''n1'') 12 sample_reaped)) ''n1'' 1"
proof (rule lost_ownership_final [OF sample_registry_reach])
  show "is_current_owner sample_registry ''n1'' 1"
    by (simp add: sample_registry_eq is_current_owner_def sample_node_def)
  show "registry_op\<^sup>*\<^sup>* sample_registry sample_reaped"
    unfolding sample_reaped_def by (rule r_into_rtranclp) (rule op_reap)
  show "\<not> is_current_owner sample_reaped ''n1'' 1"
    by (simp add: sample_reaped_def sample_registry_eq is_current_owner_def reap_nodes reap_node_def
        sample_node_def sat_add_def Let_def)
  show "registry_op\<^sup>*\<^sup>* sample_reaped (snd (register (sample_hello ''n1'') 12 sample_reaped))"
    by (rule r_into_rtranclp) (rule op_register)
qed simp

theorem register_fences_witness:
  "is_current_owner (snd (register (sample_hello ''n1'') 5 sample_registry)) ''n1'' 2
   \<and> \<not> is_current_owner (snd (register (sample_hello ''n1'') 5 sample_registry)) ''n1'' 1"
proof -
  have hello: "rh_runner_id (sample_hello ''n1'') = ''n1''"
    by (simp add: sample_hello_def RunnerHello_new_def)
  have "ra_epoch (fst (register (sample_hello ''n1'') 5 sample_registry)) = 2"
    by (simp add: register_def Let_def hello sample_registry_eq sample_node_def sat_add_def)
  then show ?thesis
    using register_fences [of "sample_hello ''n1''" 5 sample_registry _ _ 2, OF prod.collapse [symmetric]]
      register_fences [of "sample_hello ''n1''" 5 sample_registry _ _ 1, OF prod.collapse [symmetric]]
    by (simp add: hello)
qed

definition sample_beat :: "u64 \<Rightarrow> Heartbeat" where
  "sample_beat e = \<lparr>hb_runner_id = ''n1'', hb_runner_epoch = e, hb_run_id = ''r'', hb_lease_id = ''l'',
     hb_job_id = ''j'', hb_monotonic_millis = 0, hb_message = []\<rparr>"

theorem heartbeat_owner_witness: "snd (heartbeat (sample_beat 3) 4 sample_registry) = sample_registry"
proof -
  have "\<not> is_current_owner sample_registry ''n1'' 3"
    by (simp add: is_current_owner_def sample_registry_eq sample_node_def)
  then show ?thesis
    using heartbeat_owner [of "sample_beat 3" 4 sample_registry, OF prod.collapse [symmetric]]
    by (metis Heartbeat.select_convs(1,2) sample_beat_def)
qed

theorem reap_correct_witness: "map rn_node_id (fst (reap 11 sample_registry)) = [''n1'']"
  using reap_correct [of 11 sample_registry, OF prod.collapse [symmetric]]
  by (simp add: sample_registry_eq bt_values_def overdue_def sample_node_def sat_add_def)

theorem assign_correct_witness:
  "map_option an_node_id (fst (assign (AssignSpec_new ''L'' NativeRustClean) sample_registry)) = Some ''n1''"
proof -
  let ?a = "assign (AssignSpec_new ''L'' NativeRustClean) sample_registry"
  have "fst ?a \<noteq> None"
    by (simp add: assign_def sample_registry_eq eligible_def is_assignable_def has_capacity_def
        supports_class_def matches_tags_def AssignSpec_new_def sample_node_def)
  then show ?thesis
    using assign_correct [OF sample_registry_reach, of "AssignSpec_new ''L'' NativeRustClean"]
    by (cases ?a; cases "fst ?a") (auto simp: sample_registry_eq split: if_splits)
qed

definition sample_writer :: "RegistrySnapshot \<Rightarrow> (string, unit) result" where
  "sample_writer w = (if w = snapshot_of_registry sample_registry then Ok ''snapshot'' else Err ())"

definition sample_reader :: "string \<Rightarrow> (RegistrySnapshot, unit) result" where
  "sample_reader s = Ok (snapshot_of_registry sample_registry)"

theorem snapshot_round_trip_witness: "from_snapshot sample_reader ''snapshot'' = Ok sample_registry"
proof (rule snapshot_round_trip [OF sample_registry_reach, of sample_writer])
  show "\<forall>w s. sample_writer w = Ok s \<longrightarrow> sample_reader s = Ok w"
    by (simp add: sample_writer_def sample_reader_def)
  show "to_snapshot sample_writer sample_registry = Ok ''snapshot''"
    by (simp add: to_snapshot_def sample_writer_def)
  have "class_canon NativeRustClean" by (rule class_canon_builtin) simp
  then show "\<forall>n \<in> set (bt_values (reg_nodes sample_registry)). \<forall>c \<in> set (nr_supported_classes n). class_canon c"
    by (simp add: sample_registry_eq bt_values_def sample_node_def)
qed

end
