(* ===== verification/Proof_Engine.thy ===== *)
theory Proof_Engine
  imports Btree
begin

text \<open>
  \<open>jeryu-core\<close> (\<open>ids.rs\<close>, \<open>receipt.rs\<close>, \<open>error.rs\<close>, \<open>phase7.rs\<close>) and \<open>jeryu-proof\<close>
  (\<open>matcher.rs\<close>, \<open>policy.rs\<close>, \<open>engine.rs\<close>): change sets are planned against owner, test and
  generated-zone rules, lane evidence is verified, and a proof witness is minted.

  The process-wide id counter \<open>NEXT_ID\<close> is passed explicitly. Every receipt takes one number
  from it, so the clock is a function \<open>clk\<close> of the number taken, with \<open>None\<close> for a clock set
  before the epoch: any sequence of clock readings is such a function.
\<close>

section \<open>Identifiers, receipts and errors\<close>

type_synonym id_counter = u64
type_synonym clock = "u64 \<Rightarrow> nat option"

definition fresh_id :: "string \<Rightarrow> id_counter \<Rightarrow> string \<times> id_counter" where
  "fresh_id pre n = (pre @ ''_'' @ hex16 n, n + 1)"

datatype ReceiptKind = KProofPlan | KProofWitness | KAgentDryRunPatch | KAgentProposedFix | KAgentHotfix
  | KMergeQueue | KRepair

record Receipt =
  rc_id :: string
  rc_kind :: ReceiptKind
  rc_repo :: string
  rc_agent :: "string option"
  rc_subject :: string
  rc_sha :: string
  rc_summary :: string
  rc_commands :: "string list"
  rc_residual_risk :: string
  rc_created_at_ms :: nat

definition Receipt_new ::
  "clock \<Rightarrow> ReceiptKind \<Rightarrow> string \<Rightarrow> string option \<Rightarrow> string \<Rightarrow> string \<Rightarrow> string \<Rightarrow> string list \<Rightarrow> string
   \<Rightarrow> id_counter \<Rightarrow> Receipt \<times> id_counter" where
  "Receipt_new clk kind repo agent subject sha summary commands risk n =
     (let created = (case clk n of Some ms \<Rightarrow> ms | None \<Rightarrow> 0);
          (i, n') = fresh_id ''receipt'' n
      in (\<lparr>rc_id = i, rc_kind = kind, rc_repo = repo, rc_agent = agent, rc_subject = subject,
           rc_sha = sha, rc_summary = summary, rc_commands = commands, rc_residual_risk = risk,
           rc_created_at_ms = created\<rparr>, n'))"

datatype JeryuError = NotFound string | Invalid string | PolicyDenied string | Conflict string
  | MissingReceipt string | MissingProofWitness string

fun jeryu_message :: "JeryuError \<Rightarrow> string" where
  "jeryu_message (NotFound m) = ''not found: '' @ m"
| "jeryu_message (Invalid m) = ''invalid: '' @ m"
| "jeryu_message (PolicyDenied m) = ''policy denied: '' @ m"
| "jeryu_message (Conflict m) = ''conflict: '' @ m"
| "jeryu_message (MissingReceipt m) = ''missing receipt: '' @ m"
| "jeryu_message (MissingProofWitness m) = ''missing proof witness: '' @ m"

record AgentRepairHint =
  hint_purpose :: string
  hint_reason :: string
  hint_common_fixes :: "string list"
  hint_docs_url :: string
  hint_repair_hint :: string

fun agent_repair_hint :: "JeryuError \<Rightarrow> AgentRepairHint" where
  "agent_repair_hint (NotFound m) =
     \<lparr>hint_purpose = ''load requested domain entity'', hint_reason = ''not_found'',
      hint_common_fixes = [''verify the repository, pull request, receipt, or queue id'',
        ''rerun the read model refresh before retrying mutation''],
      hint_docs_url = ''docs/errors.md#not-found'',
      hint_repair_hint = ''rerun the narrow read-model or domain test for the owning path''\<rparr>"
| "agent_repair_hint (Invalid m) =
     \<lparr>hint_purpose = ''validate request boundary'', hint_reason = ''invalid_input'',
      hint_common_fixes = [''check typed ids and request fields before entering domain code'',
        ''add a boundary test for the rejected input shape''],
      hint_docs_url = ''docs/errors.md#invalid-input'',
      hint_repair_hint = ''rerun the crate boundary tests and the mapped proof lane''\<rparr>"
| "agent_repair_hint (PolicyDenied m) =
     \<lparr>hint_purpose = ''enforce repository or CI policy'', hint_reason = ''policy_denied'',
      hint_common_fixes = [''inspect the policy reason list instead of bypassing the guard'',
        ''add required proof, approval, or trust receipt''],
      hint_docs_url = ''docs/errors.md#policy-denied'',
      hint_repair_hint = ''rerun owner/test-map checks and the policy crate tests''\<rparr>"
| "agent_repair_hint (Conflict m) =
     \<lparr>hint_purpose = ''preserve merge and state consistency'', hint_reason = ''conflict'',
      hint_common_fixes = [''refresh the base state and recompute the merge witness'',
        ''retry through the queue instead of mutating state directly''],
      hint_docs_url = ''docs/errors.md#conflict'',
      hint_repair_hint = ''rerun scheduler and merge-queue tests''\<rparr>"
| "agent_repair_hint (MissingReceipt m) =
     \<lparr>hint_purpose = ''bind mutation to durable evidence'', hint_reason = ''missing_receipt'',
      hint_common_fixes = [''produce the required signed receipt before retrying'',
        ''verify the receipt id, digest, and operation kind''],
      hint_docs_url = ''docs/errors.md#missing-receipt'',
      hint_repair_hint = ''rerun the release, cache, or scheduler receipt test for the path''\<rparr>"
| "agent_repair_hint (MissingProofWitness m) =
     \<lparr>hint_purpose = ''prove change eligibility before merge'', hint_reason = ''missing_proof_witness'',
      hint_common_fixes = [''run the mapped proof lane for every changed owned path'',
        ''regenerate the witness at the exact head commit''],
      hint_docs_url = ''docs/errors.md#missing-proof-witness'',
      hint_repair_hint = ''rerun proof-lane checks and merge-queue witness tests''\<rparr>"

section \<open>Changes and pull requests\<close>

record ChangedPath =
  cp_path :: string
  cp_sensitive :: bool

definition ChangedPath_new :: "string \<Rightarrow> ChangedPath" where
  "ChangedPath_new p = \<lparr>cp_path = p, cp_sensitive = False\<rparr>"

definition mark_sensitive :: "ChangedPath \<Rightarrow> ChangedPath" where
  "mark_sensitive p = p\<lparr>cp_sensitive := True\<rparr>"

record PullRequest =
  pr_repo :: string
  pr_id :: string
  pr_source_branch :: string
  pr_target_branch :: string
  pr_base_sha :: string
  pr_head_sha :: string
  pr_changed_paths :: "ChangedPath list"

definition PullRequest_new ::
  "string \<Rightarrow> string \<Rightarrow> string \<Rightarrow> string \<Rightarrow> string \<Rightarrow> string \<Rightarrow> ChangedPath list \<Rightarrow> PullRequest" where
  "PullRequest_new repo i source target base head paths =
     \<lparr>pr_repo = repo, pr_id = i, pr_source_branch = source, pr_target_branch = target,
      pr_base_sha = base, pr_head_sha = head, pr_changed_paths = paths\<rparr>"

definition changed_path_set :: "PullRequest \<Rightarrow> string btree_set" where
  "changed_path_set p = bs_of (map cp_path (pr_changed_paths p))"

record ProofWitness =
  pw_id :: string
  pw_repo :: string
  pw_pr :: string
  pw_head_sha :: string
  pw_changed_paths :: "string list"
  pw_lanes :: "string list"
  pw_owners :: "string list"
  pw_receipt :: Receipt

record AgentScope =
  sc_agent :: string
  sc_repo :: string
  sc_allowed_paths :: "string list"
  sc_max_paths :: nat

definition permits_all :: "AgentScope \<Rightarrow> string list \<Rightarrow> bool" where
  "permits_all s paths \<longleftrightarrow> paths \<noteq> [] \<and> length paths \<le> sc_max_paths s
     \<and> list_all (\<lambda>path. list_ex (\<lambda>pre. path = pre \<or> starts_with path pre) (sc_allowed_paths s)) paths"

section \<open>Path patterns\<close>

type_synonym PathPattern = string

definition pattern_matches :: "PathPattern \<Rightarrow> string \<Rightarrow> bool" where
  "pattern_matches pat path =
     (if pat = ''**'' \<or> pat = ''*'' then True
      else case strip_suffix ''/**'' pat of
        Some pre \<Rightarrow> path = pre \<or> starts_with path (pre @ ''/'')
      | None \<Rightarrow> (case strip_suffix ''*'' pat of
            Some pre \<Rightarrow> starts_with path pre
          | None \<Rightarrow> pat = path))"

section \<open>Policy maps\<close>

record OwnerRule =
  or_pattern :: PathPattern
  or_owners :: "string list"

record TestRule =
  tr_pattern :: PathPattern
  tr_lanes :: "string list"

record GeneratedZone =
  gz_pattern :: PathPattern
  gz_allow_agent_edits :: bool
  gz_reason :: string

record ProofLane =
  ln_name :: string
  ln_commands :: "string list"
  ln_required :: bool

record ChangeSet =
  cs_repo :: string
  cs_pr :: string
  cs_head_sha :: string
  cs_paths :: "ChangedPath list"
  cs_agent_authored :: bool

record ProofPlan =
  pp_repo :: string
  pp_pr :: string
  pp_head_sha :: string
  pp_paths :: "string list"
  pp_owners :: "string list"
  pp_lanes :: "ProofLane list"

record ProofEvidence =
  ev_lane :: string
  ev_commands :: "string list"
  ev_success :: bool
  ev_log_digest :: string

datatype ProofBlocker = OwnerlessPath string | UnmappedProofLane string
  | GeneratedZoneEditDenied string string | MissingEvidence string | FailedLane string

fun blocker_message :: "ProofBlocker \<Rightarrow> string" where
  "blocker_message (OwnerlessPath p) = ''ownerless path blocks merge: '' @ p"
| "blocker_message (UnmappedProofLane p) = ''unmapped proof lane blocks merge: '' @ p"
| "blocker_message (GeneratedZoneEditDenied p r) =
     ''generated zone edit denied for '' @ p @ '': '' @ r"
| "blocker_message (MissingEvidence l) = ''missing proof evidence for lane: '' @ l"
| "blocker_message (FailedLane l) = ''proof lane failed: '' @ l"

section \<open>The engine\<close>

record ProofEngine =
  pe_owner_rules :: "OwnerRule list"
  pe_test_rules :: "TestRule list"
  pe_generated_zones :: "GeneratedZone list"
  pe_lanes :: "(string, ProofLane) btree_map"

definition ProofEngine_new ::
  "OwnerRule list \<Rightarrow> TestRule list \<Rightarrow> GeneratedZone list \<Rightarrow> ProofLane list \<Rightarrow> ProofEngine" where
  "ProofEngine_new os ts gs ls =
     \<lparr>pe_owner_rules = os, pe_test_rules = ts, pe_generated_zones = gs,
      pe_lanes = bt_collect (map (\<lambda>l. (ln_name l, l)) ls)\<rparr>"

definition path_owners :: "ProofEngine \<Rightarrow> string \<Rightarrow> string list" where
  "path_owners e path =
     concat (map or_owners (filter (\<lambda>r. pattern_matches (or_pattern r) path) (pe_owner_rules e)))"

definition path_lanes :: "ProofEngine \<Rightarrow> string \<Rightarrow> string list" where
  "path_lanes e path =
     concat (map tr_lanes (filter (\<lambda>r. pattern_matches (tr_pattern r) path) (pe_test_rules e)))"

definition denied_zone :: "ProofEngine \<Rightarrow> bool \<Rightarrow> string \<Rightarrow> GeneratedZone option" where
  "denied_zone e agent path =
     (case find (\<lambda>z. pattern_matches (gz_pattern z) path) (pe_generated_zones e) of
        Some z \<Rightarrow> if agent \<and> \<not> gz_allow_agent_edits z then Some z else None
      | None \<Rightarrow> None)"

text \<open>The loop over the changed paths; the state is (owners, lane names, paths).\<close>

fun plan_paths ::
  "ProofEngine \<Rightarrow> bool \<Rightarrow> ChangedPath list \<Rightarrow> string btree_set \<times> string btree_set \<times> string list
   \<Rightarrow> (string btree_set \<times> string btree_set \<times> string list, ProofBlocker) result" where
  "plan_paths e agent [] st = Ok st"
| "plan_paths e agent (c # cs) (owners, lanes, paths) =
     (case denied_zone e agent (cp_path c) of
        Some z \<Rightarrow> Err (GeneratedZoneEditDenied (cp_path c) (gz_reason z))
      | None \<Rightarrow>
          if path_owners e (cp_path c) = [] then Err (OwnerlessPath (cp_path c))
          else if path_lanes e (cp_path c) = [] then Err (UnmappedProofLane (cp_path c))
          else plan_paths e agent cs
             (bs_extend owners (path_owners e (cp_path c)),
              (let lanes = bs_extend lanes (path_lanes e (cp_path c))
               in if cp_sensitive c then bs_insert ''policy'' lanes else lanes),
              paths @ [cp_path c]))"

fun resolve_lanes :: "ProofEngine \<Rightarrow> string list \<Rightarrow> (ProofLane list, ProofBlocker) result" where
  "resolve_lanes e [] = Ok []"
| "resolve_lanes e (n # ns) =
     (case bt_get (pe_lanes e) n of
        None \<Rightarrow> Err (UnmappedProofLane n)
      | Some l \<Rightarrow> and_then (resolve_lanes e ns) (\<lambda>ls. Ok (l # ls)))"

definition plan :: "ProofEngine \<Rightarrow> ChangeSet \<Rightarrow> (ProofPlan, ProofBlocker) result" where
  "plan e c =
     and_then (plan_paths e (cs_agent_authored c) (cs_paths c) ([], [], [])) (\<lambda>(owners, lane_names, paths).
     and_then (resolve_lanes e lane_names) (\<lambda>lanes.
       Ok \<lparr>pp_repo = cs_repo c, pp_pr = cs_pr c, pp_head_sha = cs_head_sha c, pp_paths = paths,
           pp_owners = owners, pp_lanes = lanes\<rparr>))"

definition check_lane ::
  "(string, ProofEvidence) btree_map \<Rightarrow> ProofLane \<Rightarrow> (unit, ProofBlocker) result" where
  "check_lane evidence l =
     (if \<not> ln_required l then Ok ()
      else case bt_get evidence (ln_name l) of
        None \<Rightarrow> Err (MissingEvidence (ln_name l))
      | Some entry \<Rightarrow> if ev_success entry then Ok () else Err (FailedLane (ln_name l)))"

definition verify ::
  "clock \<Rightarrow> ProofPlan \<Rightarrow> ProofEvidence list \<Rightarrow> id_counter
   \<Rightarrow> (ProofWitness, ProofBlocker) result \<times> id_counter" where
  "verify clk p evidence n =
     (let evidence_by_lane = bt_collect (map (\<lambda>e. (ev_lane e, e)) evidence) in
      case for_each (check_lane evidence_by_lane) (pp_lanes p) of
        Inl b \<Rightarrow> (Err b, n)
      | Inr _ \<Rightarrow>
         (let lane_names = map ln_name (pp_lanes p);
              (receipt, n') = Receipt_new clk KProofWitness (pp_repo p) None (pp_pr p) (pp_head_sha p)
                (''proof witness covers '' @ show_nat (length (pp_paths p)) @ '' path(s) and ''
                 @ show_nat (length lane_names) @ '' lane(s)'')
                (map (\<lambda>l. ''proof-lane:'' @ l) lane_names)
                ''none: all required lanes passed'' n
          in (Ok \<lparr>pw_id = rc_id receipt, pw_repo = pp_repo p, pw_pr = pp_pr p,
                  pw_head_sha = pp_head_sha p, pw_changed_paths = pp_paths p, pw_lanes = lane_names,
                  pw_owners = pp_owners p, pw_receipt = receipt\<rparr>, n')))"

definition owner :: "string \<Rightarrow> string list \<Rightarrow> OwnerRule" where
  "owner pat os = \<lparr>or_pattern = pat, or_owners = os\<rparr>"

definition test :: "string \<Rightarrow> string list \<Rightarrow> TestRule" where
  "test pat ls = \<lparr>tr_pattern = pat, tr_lanes = ls\<rparr>"

definition lane :: "string \<Rightarrow> string list \<Rightarrow> bool \<Rightarrow> ProofLane" where
  "lane n cs r = \<lparr>ln_name = n, ln_commands = cs, ln_required = r\<rparr>"

definition phase7_owner_rules :: "OwnerRule list" where
  "phase7_owner_rules =
     [owner ''crates/jeryu_core/**'' [''@jeryu_core''],
      owner ''crates/jeryu_proof/**'' [''@jeryu_proof''],
      owner ''crates/jeryu_ci_scheduler/**'' [''@scheduler''],
      owner ''crates/jeryu_agentbridge/**'' [''@jeryu_agentbridge''],
      owner ''crates/jeryu_phase7_cli/**'' [''@phase7''],
      owner ''agent/**'' [''@jankurai''],
      owner ''ops/ci/**'' [''@ops''],
      owner ''scripts/**'' [''@ops''],
      owner ''docs/**'' [''@docs'', ''@phase7''],
      owner ''Cargo.toml'' [''@phase7''],
      owner ''rust-toolchain.toml'' [''@phase7''],
      owner ''Justfile'' [''@ops'', ''@phase7''],
      owner ''AGENTS.md'' [''@jankurai'']]"

definition phase7_test_rules :: "TestRule list" where
  "phase7_test_rules =
     [test ''crates/jeryu_core/**'' [''unit'', ''policy''],
      test ''crates/jeryu_proof/**'' [''unit'', ''jankurai-proof''],
      test ''crates/jeryu_ci_scheduler/**'' [''unit'', ''merge-queue-sim''],
      test ''crates/jeryu_agentbridge/**'' [''unit'', ''agent-safety''],
      test ''agent/**'' [''jankurai-proof'', ''policy''],
      test ''ops/ci/**'' [''local-ci-parity''],
      test ''scripts/**'' [''local-ci-parity''],
      test ''docs/**'' [''docs''],
      test ''Cargo.toml'' [''unit'', ''local-ci-parity''],
      test ''rust-toolchain.toml'' [''unit'', ''local-ci-parity''],
      test ''Justfile'' [''local-ci-parity''],
      test ''AGENTS.md'' [''jankurai-proof'']]"

definition phase7_generated_zones :: "GeneratedZone list" where
  "phase7_generated_zones =
     [\<lparr>gz_pattern = ''target/**'', gz_allow_agent_edits = False,
       gz_reason = ''Build outputs are generated.''\<rparr>]"

definition phase7_lanes :: "ProofLane list" where
  "phase7_lanes =
     [lane ''unit'' [''cargo test --workspace''] True,
      lane ''jankurai-proof'' [''cargo test -p jeryu_proof''] True,
      lane ''merge-queue-sim'' [''cargo test -p jeryu_ci_scheduler concurrent''] True,
      lane ''agent-safety'' [''cargo test -p jeryu_agentbridge''] True,
      lane ''local-ci-parity'' [''./scripts/ci-local.sh''] True,
      lane ''policy'' [''cargo test --workspace policy''] True,
      lane ''docs'' [''cargo test --workspace docs''] False]"

definition default_phase7_engine :: ProofEngine where
  "default_phase7_engine =
     ProofEngine_new phase7_owner_rules phase7_test_rules phase7_generated_zones phase7_lanes"

section \<open>Properties\<close>

lemma strip_suffix_append [simp]: "strip_suffix p (s @ p) = Some s"
  by (simp add: strip_suffix_def suffix_def)

text \<open>
  A tree pattern covers the directory it names and everything below it, and nothing else: a
  sibling directory that merely shares the prefix is not covered.
\<close>

theorem tree_pattern_matches:
  "pattern_matches (pre @ ''/**'') path \<longleftrightarrow> path = pre \<or> (\<exists>rest. path = pre @ ''/'' @ rest)"
  by (auto simp: pattern_matches_def starts_with_def prefix_def)

lemma plan_paths_Ok:
  assumes "plan_paths e agent cs (os, ls, ps) = Ok (os', ls', ps')"
  shows "set os' = set os \<union> (\<Union>c \<in> set cs. set (path_owners e (cp_path c)))
       \<and> set ls' = set ls \<union> (\<Union>c \<in> set cs. set (path_lanes e (cp_path c))
            \<union> (if cp_sensitive c then {''policy''} else {}))
       \<and> ps' = ps @ map cp_path cs
       \<and> (\<forall>c \<in> set cs. denied_zone e agent (cp_path c) = None \<and> path_owners e (cp_path c) \<noteq> []
            \<and> path_lanes e (cp_path c) \<noteq> [])"
  using assms
proof (induction cs arbitrary: os ls ps)
  case (Cons c cs)
  let ?ls = "bs_extend ls (path_lanes e (cp_path c))"
  from Cons.prems have ok: "denied_zone e agent (cp_path c) = None" "path_owners e (cp_path c) \<noteq> []"
    "path_lanes e (cp_path c) \<noteq> []"
    and rec: "plan_paths e agent cs (bs_extend os (path_owners e (cp_path c)),
      if cp_sensitive c then bs_insert ''policy'' ?ls else ?ls, ps @ [cp_path c]) = Ok (os', ls', ps')"
    by (auto simp: Let_def split: option.splits if_split_asm)
  from Cons.IH [OF rec] ok show ?case by auto
qed simp

lemma resolve_lanes_Ok:
  "resolve_lanes e ns = Ok ls \<longleftrightarrow> map (bt_get (pe_lanes e)) ns = map Some ls"
  by (induction ns arbitrary: ls) (auto split: option.splits simp: Cons_eq_map_conv)

lemma engine_lane_name:
  "bt_get (pe_lanes (ProofEngine_new os ts gs lns)) n = Some l \<Longrightarrow> ln_name l = n"
  by (auto simp: ProofEngine_new_def bt_get_collect dest!: map_of_SomeD)

lemma plan_covers_paths:
  "plan e c = Ok p \<Longrightarrow> pp_repo p = cs_repo c \<and> pp_pr p = cs_pr c \<and> pp_head_sha p = cs_head_sha c
     \<and> pp_paths p = map cp_path (cs_paths c)"
  by (auto simp: plan_def dest!: plan_paths_Ok split: prod.splits)

text \<open>
  A proof plan covers the whole change: every changed path is listed, has an owner and a lane,
  and all its owners and lanes are in the plan; a sensitive path adds the policy lane; and an
  agent touches no generated zone that forbids it.
\<close>

theorem plan_covers_change:
  assumes "plan (ProofEngine_new os ts gs lns) c = Ok p" and "ch \<in> set (cs_paths c)"
  shows "pp_repo p = cs_repo c \<and> pp_pr p = cs_pr c \<and> pp_head_sha p = cs_head_sha c
       \<and> pp_paths p = map cp_path (cs_paths c)
       \<and> (\<exists>r \<in> set os. pattern_matches (or_pattern r) (cp_path ch) \<and> or_owners r \<noteq> [])
       \<and> (\<forall>r \<in> set os. pattern_matches (or_pattern r) (cp_path ch) \<longrightarrow> set (or_owners r) \<subseteq> set (pp_owners p))
       \<and> (\<exists>r \<in> set ts. pattern_matches (tr_pattern r) (cp_path ch) \<and> tr_lanes r \<noteq> [])
       \<and> (\<forall>r \<in> set ts. pattern_matches (tr_pattern r) (cp_path ch)
            \<longrightarrow> set (tr_lanes r) \<subseteq> ln_name ` set (pp_lanes p))
       \<and> (cp_sensitive ch \<longrightarrow> ''policy'' \<in> ln_name ` set (pp_lanes p))
       \<and> (cs_agent_authored c \<longrightarrow>
            (\<forall>z. find (\<lambda>z. pattern_matches (gz_pattern z) (cp_path ch)) gs = Some z \<longrightarrow> gz_allow_agent_edits z))"
proof -
  let ?e = "ProofEngine_new os ts gs lns"
  have rules: "pe_owner_rules ?e = os" "pe_test_rules ?e = ts" "pe_generated_zones ?e = gs"
    by (simp_all add: ProofEngine_new_def)
  obtain ow names ps lanes where pp: "plan_paths ?e (cs_agent_authored c) (cs_paths c) ([], [], []) = Ok (ow, names, ps)"
    and res: "resolve_lanes ?e names = Ok lanes"
    and p: "p = \<lparr>pp_repo = cs_repo c, pp_pr = cs_pr c, pp_head_sha = cs_head_sha c, pp_paths = ps,
           pp_owners = ow, pp_lanes = lanes\<rparr>"
    using assms(1) by (auto simp: plan_def split: prod.splits)
  note facts = plan_paths_Ok [OF pp]
  have lanes: "map ln_name lanes = names"
  proof -
    have get: "map (bt_get (pe_lanes ?e)) names = map Some lanes"
      using res by (simp add: resolve_lanes_Ok)
    then have "length names = length lanes" by (metis length_map)
    moreover have "ln_name (lanes ! i) = names ! i" if "i < length lanes" for i
      using engine_lane_name get that calculation by (metis nth_map)
    ultimately show ?thesis by (simp add: list_eq_iff_nth_eq)
  qed
  have names: "ln_name ` set lanes = set names" by (simp flip: lanes)
  have "denied_zone ?e (cs_agent_authored c) (cp_path ch) = None" "path_owners ?e (cp_path ch) \<noteq> []"
    "path_lanes ?e (cp_path ch) \<noteq> []" "set (path_owners ?e (cp_path ch)) \<subseteq> set ow"
    "set (path_lanes ?e (cp_path ch)) \<subseteq> set names" "cp_sensitive ch \<longrightarrow> ''policy'' \<in> set names"
    using facts assms(2) by (auto split: if_splits)
  then show ?thesis
    using facts unfolding p
    by (auto simp: names path_owners_def path_lanes_def denied_zone_def rules split: if_splits)
qed

lemma verify_Ok_iff:
  "(\<exists>w. fst (verify clk p evidence n) = Ok w) \<longleftrightarrow>
     (\<forall>l \<in> set (pp_lanes p). ln_required l \<longrightarrow>
        (\<exists>x. map_of (rev (map (\<lambda>e. (ev_lane e, e)) evidence)) (ln_name l) = Some x \<and> ev_success x))"
proof -
  let ?m = "bt_collect (map (\<lambda>e. (ev_lane e, e)) evidence)"
  have "check_lane ?m l = Ok () \<longleftrightarrow> (ln_required l \<longrightarrow> (\<exists>x. bt_get ?m (ln_name l) = Some x \<and> ev_success x))"
    for l by (auto simp: check_lane_def split: option.split)
  then have "for_each (check_lane ?m) (pp_lanes p) = Ok () \<longleftrightarrow>
     (\<forall>l \<in> set (pp_lanes p). ln_required l \<longrightarrow> (\<exists>x. bt_get ?m (ln_name l) = Some x \<and> ev_success x))"
    by simp
  moreover have "(\<exists>w. fst (verify clk p evidence n) = Ok w) \<longleftrightarrow> for_each (check_lane ?m) (pp_lanes p) = Ok ()"
    by (auto simp: verify_def Let_def simp del: for_each_Ok_iff split: sum.splits prod.splits)
  ultimately show ?thesis by (simp add: bt_get_collect)
qed

lemma verify_witness:
  assumes "fst (verify clk p evidence n) = Ok w"
  shows "pw_repo w = pp_repo p \<and> pw_pr w = pp_pr p \<and> pw_head_sha w = pp_head_sha p
       \<and> pw_changed_paths w = pp_paths p \<and> pw_lanes w = map ln_name (pp_lanes p)
       \<and> pw_owners w = pp_owners p \<and> pw_id w = rc_id (pw_receipt w)
       \<and> rc_sha (pw_receipt w) = pp_head_sha p"
  using assms by (auto simp: verify_def Let_def Receipt_new_def fresh_id_def split: sum.splits)

text \<open>
  A witness is minted exactly when the last evidence given for each required lane of the plan
  exists and is a success; the witness then covers the plan's repository, pull request, head,
  paths, lanes and owners.
\<close>

theorem verify_correct:
  "((\<exists>w. fst (verify clk p evidence n) = Ok w) \<longleftrightarrow>
     list_all (\<lambda>l. \<not> ln_required l \<or>
        (\<exists>x. map_of (rev (map (\<lambda>e. (ev_lane e, e)) evidence)) (ln_name l) = Some x \<and> ev_success x))
       (pp_lanes p))
   \<and> (\<forall>w. fst (verify clk p evidence n) = Ok w \<longrightarrow>
       pw_repo w = pp_repo p \<and> pw_pr w = pp_pr p \<and> pw_head_sha w = pp_head_sha p
     \<and> pw_changed_paths w = pp_paths p \<and> pw_lanes w = map ln_name (pp_lanes p)
     \<and> pw_owners w = pp_owners p)"
  using verify_Ok_iff [of clk p evidence n] verify_witness [of clk p evidence n]
  by (auto simp: list_all_iff)

section \<open>Concrete changes\<close>

definition sample_change :: ChangeSet where
  "sample_change = \<lparr>cs_repo = ''repo_phase7'', cs_pr = ''pr_1'', cs_head_sha = ''head001'',
     cs_paths = [mark_sensitive (ChangedPath_new ''docs/ops.md'')], cs_agent_authored = True\<rparr>"

definition sample_plan :: ProofPlan where
  "sample_plan = \<lparr>pp_repo = ''repo_phase7'', pp_pr = ''pr_1'', pp_head_sha = ''head001'',
     pp_paths = [''docs/ops.md''], pp_owners = [''@docs'', ''@phase7''],
     pp_lanes = [lane ''docs'' [''cargo test --workspace docs''] False,
       lane ''policy'' [''cargo test --workspace policy''] True]\<rparr>"

lemma sample_plan_Ok: "plan default_phase7_engine sample_change = Ok sample_plan"
  by code_simp

theorem plan_covers_change_witness: "''policy'' \<in> ln_name ` set (pp_lanes sample_plan)"
  using plan_covers_change [of phase7_owner_rules phase7_test_rules phase7_generated_zones phase7_lanes
      sample_change sample_plan "mark_sensitive (ChangedPath_new ''docs/ops.md'')"]
    sample_plan_Ok
  by (simp add: default_phase7_engine_def sample_change_def mark_sensitive_def ChangedPath_new_def)

theorem verify_correct_witness:
  "\<exists>w. fst (verify (\<lambda>_. None) sample_plan
      [\<lparr>ev_lane = ''policy'', ev_commands = [], ev_success = True, ev_log_digest = ''d''\<rparr>] 1) = Ok w
     \<and> pw_lanes w = [''docs'', ''policy'']"
  using verify_correct [of "\<lambda>_. None" sample_plan
      "[\<lparr>ev_lane = ''policy'', ev_commands = [], ev_success = True, ev_log_digest = ''d''\<rparr>]" 1]
  by (auto simp: sample_plan_def lane_def)

end
