(* ===== verification/Merge_Queue.thy ===== *)
theory Merge_Queue
  imports Proof_Engine Reachability "HOL-Library.Multiset"
begin

text \<open>
  \<open>jeryu-ci-scheduler/src/merge_queue.rs\<close> and \<open>simulation.rs\<close>: the first-in first-out merge
  queue. A pull request is admitted only with a proof witness that covers it; processing
  validates queued entries in order against the paths accepted ahead of them. The validator is
  the interface \<open>speculative_validator\<close>.
\<close>

section \<open>Entries\<close>

datatype QueueEntryState = Queued | SpeculativeMergeTesting | Mergeable | DequeuedConflict
  | DequeuedFailedValidation

record QueueEntry =
  qe_id :: string
  qe_pr :: PullRequest
  qe_proof_witness :: ProofWitness
  qe_speculative_sha :: "string option"
  qe_state :: QueueEntryState
  qe_receipts :: "Receipt list"

record SpeculativeValidation =
  sv_entry_id :: string
  sv_pr :: PullRequest
  sv_speculative_sha :: string
  sv_accepted_paths_ahead :: "string btree_set"

datatype ValidationOutcome = Passed | VFailed string

text \<open>\<open>DeterministicValidator::validate\<close>: the first changed path already accepted is a conflict.\<close>

definition deterministic_validate :: "SpeculativeValidation \<Rightarrow> ValidationOutcome" where
  "deterministic_validate v =
     (case filter (\<lambda>p. p \<in> set (sv_accepted_paths_ahead v)) (changed_path_set (sv_pr v)) of
        conflict_path # _ \<Rightarrow> VFailed (''path conflict: '' @ conflict_path)
      | [] \<Rightarrow> Passed)"

record QueueSummary =
  qs_mergeable :: nat
  qs_conflicts :: nat
  qs_failed_validation :: nat
  qs_processed :: nat

definition QueueSummary_default :: QueueSummary where
  "QueueSummary_default =
     \<lparr>qs_mergeable = 0, qs_conflicts = 0, qs_failed_validation = 0, qs_processed = 0\<rparr>"

record MergeQueue =
  mq_entries :: "QueueEntry list"
  mq_accepted_paths :: "string btree_set"

definition MergeQueue_new :: MergeQueue where
  "MergeQueue_new = \<lparr>mq_entries = [], mq_accepted_paths = []\<rparr>"

section \<open>Admission\<close>

definition enqueue ::
  "clock \<Rightarrow> PullRequest \<Rightarrow> ProofWitness option \<Rightarrow> id_counter \<Rightarrow> MergeQueue
   \<Rightarrow> (string, JeryuError) result \<times> id_counter \<times> MergeQueue" where
  "enqueue clk pr witness n q =
     (case witness of
        None \<Rightarrow> (Err (MissingProofWitness
                   (''PR '' @ pr_id pr @ '' cannot enter merge queue without proof witness'')), n, q)
      | Some w \<Rightarrow>
          if pw_repo w \<noteq> pr_repo pr \<or> pw_pr w \<noteq> pr_id pr \<or> pw_head_sha w \<noteq> pr_head_sha pr then
            (Err (MissingProofWitness
               (''proof witness '' @ pw_id w @ '' does not cover PR '' @ pr_id pr @ '' at head ''
                @ pr_head_sha pr)), n, q)
          else if changed_path_set pr \<noteq> bs_of (pw_changed_paths w) then
            (Err (MissingProofWitness
               (''proof witness '' @ pw_id w @ '' path set does not match PR '' @ pr_id pr)), n, q)
          else
            (let (entry_id, n) = fresh_id ''queue'' n;
                 (receipt, n) = Receipt_new clk KMergeQueue (pr_repo pr) None entry_id (pr_head_sha pr)
                    (''PR '' @ pr_id pr @ '' admitted to merge queue'') [''merge_queue.enqueue'']
                    ''none: proof witness accepted'' n;
                 entry = \<lparr>qe_id = entry_id, qe_pr = pr, qe_proof_witness = w,
                          qe_speculative_sha = None, qe_state = Queued, qe_receipts = [receipt]\<rparr>
             in (Ok entry_id, n, q\<lparr>mq_entries := mq_entries q @ [entry]\<rparr>)))"

section \<open>Processing\<close>

definition synthetic_sha :: "PullRequest \<Rightarrow> string" where
  "synthetic_sha pr =
     ''synthetic-'' @ replace_char (CHR ''/'') ''_'' (pr_target_branch pr) @ ''-'' @ pr_base_sha pr
     @ ''-'' @ pr_head_sha pr"

text \<open>Paths of the entries that are already mergeable, added to the accepted ones.\<close>

definition initial_accepted :: "MergeQueue \<Rightarrow> string btree_set" where
  "initial_accepted q =
     fold (\<lambda>e acc. if qe_state e = Mergeable then bs_extend acc (changed_path_set (qe_pr e)) else acc)
       (mq_entries q) (mq_accepted_paths q)"

text \<open>The effect of a validation outcome on its entry: new state, summary and receipt.\<close>

definition settle ::
  "clock \<Rightarrow> ValidationOutcome \<Rightarrow> QueueEntry \<Rightarrow> QueueSummary \<Rightarrow> id_counter
   \<Rightarrow> QueueEntry \<times> QueueSummary \<times> id_counter" where
  "settle clk out e summary n =
     (let sha = synthetic_sha (qe_pr e);
          push = (\<lambda>st sha text commands risk.
            let (receipt, n') = Receipt_new clk KMergeQueue (pr_repo (qe_pr e)) None (qe_id e) sha text
                                  commands risk n
            in (e\<lparr>qe_state := st, qe_receipts := qe_receipts e @ [receipt]\<rparr>, n'))
      in case out of
           Passed \<Rightarrow>
             (let (e', n') = push Mergeable sha ''speculative merge validation passed''
                               [''merge_queue.speculative_validate''] ''none''
              in (e', summary\<lparr>qs_mergeable := qs_mergeable summary + 1\<rparr>, n'))
         | VFailed reason \<Rightarrow>
             if starts_with reason ''path conflict:'' then
               (let (e', n') = push DequeuedConflict (pr_head_sha (qe_pr e))
                                 (''dequeued due to conflict: '' @ reason)
                                 [''merge_queue.conflict_dequeue''] ''requires rebase or manual resolution''
                in (e', summary\<lparr>qs_conflicts := qs_conflicts summary + 1\<rparr>, n'))
             else
               (let (e', n') = push DequeuedFailedValidation (pr_head_sha (qe_pr e))
                                 (''dequeued due to failed validation: '' @ reason)
                                 [''merge_queue.validation_dequeue''] ''validation failure must be repaired''
                in (e', summary\<lparr>qs_failed_validation := qs_failed_validation summary + 1\<rparr>, n')))"

fun process_entries ::
  "clock \<Rightarrow> (SpeculativeValidation \<Rightarrow> ValidationOutcome) \<Rightarrow> QueueEntry list \<Rightarrow> string btree_set
   \<Rightarrow> QueueSummary \<Rightarrow> id_counter \<Rightarrow> QueueEntry list \<times> string btree_set \<times> QueueSummary \<times> id_counter" where
  "process_entries clk validate [] accepted summary n = ([], accepted, summary, n)"
| "process_entries clk validate (e # es) accepted summary n =
     (if qe_state e \<noteq> Queued then
        (let (es', accepted', summary', n') = process_entries clk validate es accepted summary n
         in (e # es', accepted', summary', n'))
      else
        (let summary = summary\<lparr>qs_processed := qs_processed summary + 1\<rparr>;
             sha = synthetic_sha (qe_pr e);
             e = e\<lparr>qe_state := SpeculativeMergeTesting, qe_speculative_sha := Some sha\<rparr>;
             out = validate \<lparr>sv_entry_id = qe_id e, sv_pr = qe_pr e, sv_speculative_sha = sha,
                             sv_accepted_paths_ahead = accepted\<rparr>;
             (e, summary, n) = settle clk out e summary n;
             accepted = (if out = Passed then bs_extend accepted (changed_path_set (qe_pr e)) else accepted);
             (es', accepted', summary', n') = process_entries clk validate es accepted summary n
         in (e # es', accepted', summary', n')))"

definition process_all ::
  "clock \<Rightarrow> (SpeculativeValidation \<Rightarrow> ValidationOutcome) \<Rightarrow> id_counter \<Rightarrow> MergeQueue
   \<Rightarrow> QueueSummary \<times> id_counter \<times> MergeQueue" where
  "process_all clk validate n q =
     (let (es, accepted, summary, n') =
        process_entries clk validate (mq_entries q) (initial_accepted q) QueueSummary_default n
      in (summary, n', q\<lparr>mq_entries := es, mq_accepted_paths := accepted\<rparr>))"

section \<open>The validator interface\<close>

abbreviation pr_paths :: "PullRequest \<Rightarrow> string set" where
  "pr_paths pr \<equiv> cp_path ` set (pr_changed_paths pr)"

abbreviation entry_paths :: "QueueEntry \<Rightarrow> string set" where
  "entry_paths e \<equiv> pr_paths (qe_pr e)"

definition mergeable_entries :: "QueueEntry list \<Rightarrow> QueueEntry list" where
  "mergeable_entries es = filter (\<lambda>e. qe_state e = Mergeable) es"

text \<open>The paths of mergeable entries are pairwise disjoint.\<close>

definition conflict_free :: "QueueEntry list \<Rightarrow> bool" where
  "conflict_free es \<longleftrightarrow> sorted_wrt (\<lambda>a b. entry_paths a \<inter> entry_paths b = {}) (mergeable_entries es)"

definition paths_of :: "QueueEntry list \<Rightarrow> string set" where
  "paths_of es = (\<Union>e \<in> set (mergeable_entries es). entry_paths e)"

lemma set_changed_path_set [simp]: "set (changed_path_set pr) = pr_paths pr"
  by (simp add: changed_path_set_def)

lemma initial_accepted_paths: "set (initial_accepted q) = set (mq_accepted_paths q) \<union> paths_of (mq_entries q)"
proof -
  have "set (fold (\<lambda>e acc. if qe_state e = Mergeable then bs_extend acc (changed_path_set (qe_pr e)) else acc) es acc)
      = set acc \<union> paths_of es" for es acc
    by (induction es arbitrary: acc) (auto simp: paths_of_def mergeable_entries_def)
  then show ?thesis by (simp add: initial_accepted_def)
qed

lemma settle_facts:
  "settle clk out e summary n = (e', summary', n') \<Longrightarrow>
     qe_id e' = qe_id e \<and> qe_pr e' = qe_pr e \<and> qe_proof_witness e' = qe_proof_witness e
   \<and> (qe_state e' = Mergeable \<longleftrightarrow> out = Passed)
   \<and> qe_state e' \<in> {Mergeable, DequeuedConflict, DequeuedFailedValidation}
   \<and> qs_processed summary' = qs_processed summary
   \<and> qs_mergeable summary' + qs_conflicts summary' + qs_failed_validation summary'
       = qs_mergeable summary + qs_conflicts summary + qs_failed_validation summary + 1
   \<and> qs_mergeable summary' = qs_mergeable summary + (if out = Passed then 1 else 0)"
  by (auto simp: settle_def Let_def case_prod_unfold split: ValidationOutcome.splits if_splits)

lemma paths_of_simps [simp]:
  "paths_of [] = {}"
  "paths_of (e # es) = (if qe_state e = Mergeable then entry_paths e else {}) \<union> paths_of es"
  by (auto simp: paths_of_def mergeable_entries_def)

lemma mergeable_entries_simps [simp]:
  "mergeable_entries [] = []"
  "mergeable_entries (e # es) = (if qe_state e = Mergeable then e # mergeable_entries es else mergeable_entries es)"
  by (simp_all add: mergeable_entries_def)

lemma conflict_free_simps [simp]:
  "conflict_free []"
  "conflict_free (e # es) \<longleftrightarrow> conflict_free es
     \<and> (qe_state e = Mergeable \<longrightarrow> (\<forall>x \<in> set (mergeable_entries es). entry_paths e \<inter> entry_paths x = {}))"
  by (auto simp: conflict_free_def)

text \<open>The two branches of the loop body, with the recursive call exposed.\<close>

lemma process_entries_cases:
  assumes "process_entries clk validate (e # es) acc s n = (res, acc', s', n')"
  obtains (kept) es' where "qe_state e \<noteq> Queued" "res = e # es'"
      "process_entries clk validate es acc s n = (es', acc', s', n')"
  | (tested) out e' s1 n1 es' where "qe_state e = Queued" "res = e' # es'"
      "out = validate \<lparr>sv_entry_id = qe_id e, sv_pr = qe_pr e, sv_speculative_sha = synthetic_sha (qe_pr e),
                       sv_accepted_paths_ahead = acc\<rparr>"
      "settle clk out (e\<lparr>qe_state := SpeculativeMergeTesting, qe_speculative_sha := Some (synthetic_sha (qe_pr e))\<rparr>)
         (s\<lparr>qs_processed := qs_processed s + 1\<rparr>) n = (e', s1, n1)"
      "qe_pr e' = qe_pr e"
      "process_entries clk validate es
         (if out = Passed then bs_extend acc (changed_path_set (qe_pr e)) else acc) s1 n1 = (es', acc', s', n')"
proof (cases "qe_state e = Queued")
  case False
  with assms show thesis using kept by (auto split: prod.splits)
next
  case True
  let ?v = "\<lparr>sv_entry_id = qe_id e, sv_pr = qe_pr e, sv_speculative_sha = synthetic_sha (qe_pr e),
             sv_accepted_paths_ahead = acc\<rparr>"
  let ?e = "e\<lparr>qe_state := SpeculativeMergeTesting, qe_speculative_sha := Some (synthetic_sha (qe_pr e))\<rparr>"
  obtain e' s1 n1 where st: "settle clk (validate ?v) ?e (s\<lparr>qs_processed := qs_processed s + 1\<rparr>) n = (e', s1, n1)"
    by (metis prod_cases3)
  have pr: "qe_pr e' = qe_pr e" using settle_facts [OF st] by simp
  obtain es' a' s'' n'' where rec: "process_entries clk validate es
      (if validate ?v = Passed then bs_extend acc (changed_path_set (qe_pr e')) else acc) s1 n1 = (es', a', s'', n'')"
    by (metis prod_cases4)
  have "(res, acc', s', n') = (e' # es', a', s'', n'')"
    using assms True st rec by (simp add: Let_def)
  with tested [OF True _ refl st pr] rec [unfolded pr] show thesis by simp
qed

lemma process_entries_facts:
  assumes "process_entries clk validate es acc s n = (es', acc', s', n')"
  shows "map (\<lambda>e. (qe_id e, qe_pr e, qe_proof_witness e)) es'
           = map (\<lambda>e. (qe_id e, qe_pr e, qe_proof_witness e)) es
       \<and> list_all2 (\<lambda>e e'. qe_state e \<noteq> Queued \<longrightarrow> e' = e) es es'
       \<and> (\<forall>e \<in> set es'. qe_state e \<noteq> Queued)
       \<and> qs_processed s' = qs_processed s + length (filter (\<lambda>e. qe_state e = Queued) es)
       \<and> qs_mergeable s' + qs_conflicts s' + qs_failed_validation s' = qs_mergeable s + qs_conflicts s
           + qs_failed_validation s + length (filter (\<lambda>e. qe_state e = Queued) es)
       \<and> qs_mergeable s' + length (mergeable_entries es) = qs_mergeable s + length (mergeable_entries es')
       \<and> set acc \<subseteq> set acc' \<and> set acc' \<union> paths_of es = set acc \<union> paths_of es'"
  using assms
proof (induction es arbitrary: acc s n es')
  case (Cons e es)
  from Cons.prems show ?case
  proof (cases rule: process_entries_cases)
    case (kept res)
    from Cons.IH [OF kept(3)] kept(1,2) show ?thesis by (auto simp: mergeable_entries_def)
  next
    case (tested out e' s1 n1 res)
    from Cons.IH [OF tested(6)] settle_facts [OF tested(4)] tested(1,2) show ?thesis
      by (auto simp: mergeable_entries_def)
  qed
qed (simp add: mergeable_entries_def)

locale speculative_validator =
  fixes validate :: "SpeculativeValidation \<Rightarrow> ValidationOutcome"
  assumes passed_disjoint:
    "validate v = Passed \<Longrightarrow> pr_paths (sv_pr v) \<inter> set (sv_accepted_paths_ahead v) = {}"
begin

lemma process_entries_conflict_free:
  assumes "process_entries clk validate es acc s n = (es', acc', s', n')"
    and "conflict_free es" and "paths_of es \<subseteq> set acc"
  shows "conflict_free es' \<and> (\<forall>x \<in> set (mergeable_entries es').
           x \<in> set (mergeable_entries es) \<or> entry_paths x \<inter> set acc = {})"
  using assms
proof (induction es arbitrary: acc s n es')
  case (Cons e es)
  have tail: "conflict_free es" "paths_of es \<subseteq> set acc"
    using Cons.prems(2,3) by auto
  from Cons.prems(1) show ?case
  proof (cases rule: process_entries_cases)
    case (kept res)
    note ih = Cons.IH [OF kept(3) tail]
    have "entry_paths e \<inter> entry_paths x = {}"
      if "qe_state e = Mergeable" "x \<in> set (mergeable_entries res)" for x
    proof -
      have "entry_paths e \<subseteq> set acc" using Cons.prems(3) that(1) by auto
      moreover have "x \<in> set (mergeable_entries es) \<or> entry_paths x \<inter> set acc = {}"
        using ih that(2) by blast
      ultimately show ?thesis using Cons.prems(2) that(1) by auto
    qed
    with ih show ?thesis by (auto simp: kept(2))
  next
    case (tested out e' s1 n1 res)
    show ?thesis
    proof (cases "out = Passed")
      case True
      let ?acc = "bs_extend acc (changed_path_set (qe_pr e))"
      have new: "entry_paths e' \<inter> set acc = {}"
        using passed_disjoint [of "\<lparr>sv_entry_id = qe_id e, sv_pr = qe_pr e,
            sv_speculative_sha = synthetic_sha (qe_pr e), sv_accepted_paths_ahead = acc\<rparr>"]
          tested(3,5) True by simp
      have acc2: "set ?acc = set acc \<union> entry_paths e'" by (simp add: tested(5))
      have "process_entries clk validate es ?acc s1 n1 = (res, acc', s', n')"
        using tested(6) True by simp
      from Cons.IH [OF this tail(1)] tail(2) have ih: "conflict_free res"
        "\<forall>x \<in> set (mergeable_entries res). x \<in> set (mergeable_entries es) \<or> entry_paths x \<inter> set ?acc = {}"
        unfolding acc2 by blast+
      have sub: "entry_paths x \<subseteq> set acc" if "x \<in> set (mergeable_entries es)" for x
        using that tail(2) by (auto simp: paths_of_def)
      have "entry_paths e' \<inter> entry_paths x = {}" if "x \<in> set (mergeable_entries res)" for x
        using ih(2) that sub new unfolding acc2 by blast
      moreover have "x \<in> set (mergeable_entries es) \<or> entry_paths x \<inter> set acc = {}"
        if "x \<in> set (mergeable_entries res)" for x
        using ih(2) that unfolding acc2 by blast
      ultimately show ?thesis
        using ih(1) new tested(1) by (auto simp: tested(2))
    next
      case False
      then have "qe_state e' \<noteq> Mergeable" using settle_facts [OF tested(4)] by simp
      with Cons.IH [of acc s1 n1 res] tested(6) False tail tested(1) show ?thesis
        by (simp add: tested(2))
    qed
  qed
qed simp

end

text \<open>A validator that decides disjointness exactly and reports overlaps as conflicts.\<close>

locale exact_validator = speculative_validator +
  assumes disjoint_passes:
    "pr_paths (sv_pr v) \<inter> set (sv_accepted_paths_ahead v) = {} \<Longrightarrow> validate v = Passed"
    and overlap_conflicts:
    "pr_paths (sv_pr v) \<inter> set (sv_accepted_paths_ahead v) \<noteq> {} \<Longrightarrow>
       \<exists>p. validate v = VFailed (''path conflict:'' @ p)"
begin

lemma process_entries_exact:
  assumes "process_entries clk validate es acc s n = (es', acc', s', n')"
    and "paths_of es \<subseteq> set acc" and "i < length es" and "qe_state (es ! i) = Queued"
  shows "qe_state (es' ! i) =
     (if entry_paths (es ! i) \<inter> (set acc \<union> paths_of (take i es')) = {} then Mergeable else DequeuedConflict)"
  using assms
proof (induction es arbitrary: acc s n es' i)
  case (Cons e es)
  from Cons.prems(1) show ?case
  proof (cases rule: process_entries_cases)
    case (kept res)
    with Cons.prems(4) obtain k where k: "i = Suc k" by (cases i) auto
    have "paths_of es \<subseteq> set acc" using Cons.prems(2) by auto
    from Cons.IH [OF kept(3) this, of k] Cons.prems k
    show ?thesis by (auto simp: kept(2) k split: if_splits)
  next
    case (tested out e' s1 n1 res)
    let ?v = "\<lparr>sv_entry_id = qe_id e, sv_pr = qe_pr e, sv_speculative_sha = synthetic_sha (qe_pr e),
               sv_accepted_paths_ahead = acc\<rparr>"
    let ?acc = "if out = Passed then bs_extend acc (changed_path_set (qe_pr e)) else acc"
    have acc2: "set ?acc = set acc \<union> (if out = Passed then entry_paths e' else {})"
      by (simp add: tested(5))
    have merged: "qe_state e' = Mergeable \<longleftrightarrow> out = Passed"
      using settle_facts [OF tested(4)] by simp
    show ?thesis
    proof (cases i)
      case 0
      show ?thesis
      proof (cases "entry_paths e \<inter> set acc = {}")
        case True
        then have "out = Passed" using disjoint_passes [of ?v] tested(3) by simp
        with True 0 merged show ?thesis by (simp add: tested(2))
      next
        case False
        then obtain p where "out = VFailed (''path conflict:'' @ p)"
          using overlap_conflicts [of ?v] tested(3) by auto
        then have "qe_state e' = DequeuedConflict"
          using tested(4) by (auto simp: settle_def Let_def case_prod_unfold starts_with_def)
        with False 0 show ?thesis by (simp add: tested(2))
      qed
    next
      case (Suc k)
      have "paths_of es \<subseteq> set ?acc" using Cons.prems(2) acc2 by auto
      from Cons.IH [OF tested(6) this, of k] Cons.prems Suc
      have "qe_state (res ! k) = (if entry_paths (es ! k) \<inter> (set ?acc \<union> paths_of (take k res)) = {}
          then Mergeable else DequeuedConflict)" by simp
      with merged show ?thesis unfolding acc2
        by (simp add: Suc tested(2) Un_assoc)
    qed
  qed
qed simp

end

context exact_validator
begin

text \<open>Candidates that overlap neither with the accepted paths nor with each other all merge.\<close>

lemma process_entries_disjoint:
  assumes run: "process_entries clk validate es acc s n = (es', acc', s', n')"
    and queued: "\<forall>e \<in> set es. qe_state e = Queued"
    and free: "\<forall>e \<in> set es. entry_paths e \<inter> set acc = {}"
    and disj: "\<And>i j. i < j \<Longrightarrow> j < length es \<Longrightarrow> entry_paths (es ! i) \<inter> entry_paths (es ! j) = {}"
  shows "\<forall>e \<in> set es'. qe_state e = Mergeable"
proof -
  let ?f = "\<lambda>e. (qe_id e, qe_pr e, qe_proof_witness e)"
  have same: "map ?f es' = map ?f es" using process_entries_facts [OF run] by blast
  from arg_cong [OF this, of length] have len: "length es' = length es" by simp
  have pr: "qe_pr (es' ! j) = qe_pr (es ! j)" if "j < length es" for j
    using arg_cong [OF same, of "\<lambda>xs. xs ! j"] that len by simp
  have "qe_state (es' ! i) = Mergeable" if i: "i < length es" for i
  proof -
    have "entry_paths (es ! i) \<inter> paths_of (take i es') = {}"
    proof (rule ccontr)
      assume "entry_paths (es ! i) \<inter> paths_of (take i es') \<noteq> {}"
      then obtain e p where e: "e \<in> set (take i es')" and p: "p \<in> entry_paths e" "p \<in> entry_paths (es ! i)"
        by (auto simp: paths_of_def mergeable_entries_def)
      from e obtain j where "j < i" "e = es' ! j"
        using i len by (auto simp: in_set_conv_nth)
      with disj [of j i] pr [of j] i p show False by auto
    qed
    moreover have "entry_paths (es ! i) \<inter> set acc = {}" "qe_state (es ! i) = Queued"
      using free queued i by auto
    moreover have "paths_of es = {}"
      using queued by (auto simp: paths_of_def mergeable_entries_def)
    ultimately show ?thesis
      using process_entries_exact [OF run _ i] by (simp add: Int_Un_distrib)
  qed
  with len show ?thesis by (auto simp: in_set_conv_nth)
qed

end

lemma deterministic_Passed:
  "deterministic_validate v = Passed \<longleftrightarrow> pr_paths (sv_pr v) \<inter> set (sv_accepted_paths_ahead v) = {}"
proof -
  have "deterministic_validate v = Passed \<longleftrightarrow>
      filter (\<lambda>p. p \<in> set (sv_accepted_paths_ahead v)) (changed_path_set (sv_pr v)) = []"
    by (simp add: deterministic_validate_def split: list.split)
  then show ?thesis by (auto simp: filter_empty_conv)
qed

interpretation deterministic: exact_validator deterministic_validate
proof unfold_locales
  fix v
  show "\<exists>p. deterministic_validate v = VFailed (''path conflict:'' @ p)"
    if "pr_paths (sv_pr v) \<inter> set (sv_accepted_paths_ahead v) \<noteq> {}"
    using that deterministic_Passed [of v]
    by (auto simp: deterministic_validate_def split: list.splits)
qed (simp_all add: deterministic_Passed)

section \<open>The queue invariant\<close>

inductive queue_op :: "(SpeculativeValidation \<Rightarrow> ValidationOutcome) \<Rightarrow> MergeQueue \<Rightarrow> MergeQueue \<Rightarrow> bool"
  for validate where
  op_enqueue: "queue_op validate q (snd (snd (enqueue clk pr w n q)))"
| op_process: "queue_op validate q (snd (snd (process_all clk validate n q)))"

definition witness_covers :: "ProofWitness \<Rightarrow> PullRequest \<Rightarrow> bool" where
  "witness_covers w pr \<longleftrightarrow> pw_repo w = pr_repo pr \<and> pw_pr w = pr_id pr \<and> pw_head_sha w = pr_head_sha pr
     \<and> set (pw_changed_paths w) = pr_paths pr"

definition queue_wf :: "MergeQueue \<Rightarrow> bool" where
  "queue_wf q \<longleftrightarrow> conflict_free (mq_entries q) \<and> set (mq_accepted_paths q) = paths_of (mq_entries q)
     \<and> (\<forall>e \<in> set (mq_entries q). witness_covers (qe_proof_witness e) (qe_pr e))"

lemma witness_covers_iff:
  "witness_covers w pr \<longleftrightarrow> \<not> (pw_repo w \<noteq> pr_repo pr \<or> pw_pr w \<noteq> pr_id pr \<or> pw_head_sha w \<noteq> pr_head_sha pr)
     \<and> changed_path_set pr = bs_of (pw_changed_paths w)"
  unfolding witness_covers_def changed_path_set_def by (auto simp: bs_of_eq_iff)

lemma enqueue_refused:
  "\<nexists>v. w = Some v \<and> witness_covers v pr \<Longrightarrow> \<exists>x. enqueue clk pr w n q = (Err (MissingProofWitness x), n, q)"
  unfolding enqueue_def by (cases w) (auto simp: witness_covers_iff)

lemma enqueue_admitted:
  assumes "witness_covers v pr"
  shows "\<exists>e n'. enqueue clk pr (Some v) n q = (Ok (qe_id e), n', q\<lparr>mq_entries := mq_entries q @ [e]\<rparr>)
      \<and> qe_pr e = pr \<and> qe_proof_witness e = v \<and> qe_state e = Queued"
proof -
  let ?i = "fst (fresh_id ''queue'' n)"
  let ?r = "Receipt_new clk KMergeQueue (pr_repo pr) None ?i (pr_head_sha pr)
    (''PR '' @ pr_id pr @ '' admitted to merge queue'') [''merge_queue.enqueue'']
    ''none: proof witness accepted'' (snd (fresh_id ''queue'' n))"
  let ?e = "\<lparr>qe_id = ?i, qe_pr = pr, qe_proof_witness = v, qe_speculative_sha = None, qe_state = Queued,
     qe_receipts = [fst ?r]\<rparr>"
  have "enqueue clk pr (Some v) n q = (Ok (qe_id ?e), snd ?r, q\<lparr>mq_entries := mq_entries q @ [?e]\<rparr>)"
    using assms by (simp add: enqueue_def witness_covers_iff Let_def case_prod_unfold)
  then show ?thesis by (intro exI [of _ ?e] exI [of _ "snd ?r"]) simp
qed

lemma paths_of_append [simp]: "paths_of (es @ fs) = paths_of es \<union> paths_of fs"
  by (induction es) auto

lemma conflict_free_append_Queued:
  "qe_state e = Queued \<Longrightarrow> conflict_free (es @ [e]) = conflict_free es"
  by (simp add: conflict_free_def mergeable_entries_def)

lemma queue_wf_enqueue: "queue_wf q \<Longrightarrow> queue_wf (snd (snd (enqueue clk pr w n q)))"
proof (cases "\<exists>v. w = Some v \<and> witness_covers v pr")
  case True
  then obtain v where v: "w = Some v" "witness_covers v pr" by blast
  moreover assume "queue_wf q"
  ultimately show ?thesis
    using enqueue_admitted [OF v(2), of clk n q] by (auto simp: queue_wf_def conflict_free_append_Queued)
next
  case False
  moreover assume "queue_wf q"
  ultimately show ?thesis using enqueue_refused [OF False, of clk n q] by auto
qed

lemma process_entries_mono:
  assumes "process_entries clk validate es acc s n = (es', acc', s', n')"
  shows "paths_of es \<subseteq> paths_of es'"
proof
  fix p assume "p \<in> paths_of es"
  then obtain i where i: "i < length es" "qe_state (es ! i) = Mergeable" "p \<in> entry_paths (es ! i)"
    by (auto simp: paths_of_def mergeable_entries_def in_set_conv_nth)
  moreover from process_entries_facts [OF assms] this have "es' ! i = es ! i" "i < length es'"
    by (auto simp: list_all2_conv_all_nth)
  then have "es ! i \<in> set es'" using nth_mem [of i es'] by simp
  ultimately show "p \<in> paths_of es'"
    unfolding paths_of_def mergeable_entries_def by auto
qed

lemma process_entries_covered:
  assumes "process_entries clk validate es acc s n = (es', acc', s', n')"
    and "\<forall>e \<in> set es. witness_covers (qe_proof_witness e) (qe_pr e)"
  shows "\<forall>e \<in> set es'. witness_covers (qe_proof_witness e) (qe_pr e)"
proof -
  let ?f = "\<lambda>e. (qe_id e, qe_pr e, qe_proof_witness e)"
  have "map ?f es' = map ?f es" using process_entries_facts [OF assms(1)] by blast
  from arg_cong [OF this, of set] have "?f ` set es' = ?f ` set es" by simp
  then have "\<forall>x \<in> ?f ` set es'. case x of (i, pr, w) \<Rightarrow> witness_covers w pr"
    using assms(2) by simp
  then show ?thesis by simp
qed

context speculative_validator
begin

lemma queue_wf_process:
  assumes "queue_wf q"
  shows "queue_wf (snd (snd (process_all clk validate n q)))"
proof -
  obtain es acc s n' where run:
    "process_entries clk validate (mq_entries q) (initial_accepted q) QueueSummary_default n = (es, acc, s, n')"
    by (metis prod_cases4)
  have acc0: "set (initial_accepted q) = paths_of (mq_entries q)"
    using assms by (auto simp: initial_accepted_paths queue_wf_def)
  have "conflict_free es"
    using process_entries_conflict_free [OF run] assms acc0 by (auto simp: queue_wf_def)
  moreover have "set acc = paths_of es"
    using process_entries_facts [OF run] process_entries_mono [OF run] acc0 by auto
  moreover have "\<forall>e \<in> set es. witness_covers (qe_proof_witness e) (qe_pr e)"
    using process_entries_covered [OF run] assms by (auto simp: queue_wf_def)
  ultimately show ?thesis by (simp add: process_all_def run queue_wf_def)
qed

end

sublocale speculative_validator \<subseteq> queue: inv_system "\<lambda>q. q = MergeQueue_new" "queue_op validate" queue_wf
proof unfold_locales
  show "q = MergeQueue_new \<Longrightarrow> queue_wf q" for q by (simp add: MergeQueue_new_def queue_wf_def)
  show "queue_wf q \<Longrightarrow> queue_op validate q q' \<Longrightarrow> queue_wf q'" for q q'
    by (erule queue_op.cases) (auto intro: queue_wf_enqueue queue_wf_process)
qed

context speculative_validator
begin

lemma reach_queue_wf: "reach (\<lambda>q. q = MergeQueue_new) (queue_op validate) q \<Longrightarrow> queue_wf q"
  by (rule queue.reach_inv)

end

lemma conflict_free_nth:
  "conflict_free es \<Longrightarrow> i < j \<Longrightarrow> j < length es \<Longrightarrow> qe_state (es ! i) = Mergeable \<Longrightarrow>
     qe_state (es ! j) = Mergeable \<Longrightarrow> entry_paths (es ! i) \<inter> entry_paths (es ! j) = {}"
proof (induction es arbitrary: i j)
  case (Cons e es)
  obtain k where j: "j = Suc k" using Cons.prems(2) by (cases j) auto
  show ?case
  proof (cases i)
    case 0
    have "es ! k \<in> set (mergeable_entries es)"
      using Cons.prems j by (simp add: mergeable_entries_def)
    with Cons.prems 0 j show ?thesis by auto
  next
    case (Suc l)
    with Cons.IH [of l k] Cons.prems j show ?thesis by simp
  qed
qed simp

section \<open>Properties\<close>

text \<open>
  C28. In every state the merge queue can reach with a validator that passes no overlapping
  candidate, two mergeable entries never touch the same path, the accepted paths are exactly
  those of the mergeable entries, and every entry carries a proof witness for its repository,
  pull request, head and changed paths.
\<close>

theorem merge_queue_safe:
  assumes "speculative_validator validate"
    and "reach (\<lambda>q. q = MergeQueue_new) (queue_op validate) q"
  shows "(\<forall>i j. i < j \<and> j < length (mq_entries q) \<and> qe_state (mq_entries q ! i) = Mergeable
            \<and> qe_state (mq_entries q ! j) = Mergeable
            \<longrightarrow> entry_paths (mq_entries q ! i) \<inter> entry_paths (mq_entries q ! j) = {})
       \<and> set (mq_accepted_paths q)
           = (\<Union>e \<in> {e \<in> set (mq_entries q). qe_state e = Mergeable}. entry_paths e)
       \<and> (\<forall>e \<in> set (mq_entries q). witness_covers (qe_proof_witness e) (qe_pr e))"
proof -
  have "queue_wf q" using assms by (rule speculative_validator.reach_queue_wf)
  then show ?thesis
    using conflict_free_nth by (auto simp: queue_wf_def paths_of_def mergeable_entries_def)
qed

text \<open>
  Admission is guarded by the proof witness: a pull request is appended to the queue exactly
  when it comes with a witness that covers it; otherwise the answer is a missing-witness error
  and neither the queue nor the id counter changes.
\<close>

theorem enqueue_guarded:
  "case enqueue clk pr w n q of
     (Inr i, n', q') \<Rightarrow> (\<exists>v e. w = Some v \<and> witness_covers v pr \<and> qe_id e = i \<and> qe_pr e = pr
        \<and> qe_proof_witness e = v \<and> qe_state e = Queued \<and> q' = q\<lparr>mq_entries := mq_entries q @ [e]\<rparr>)
   | (Inl x, n', q') \<Rightarrow> (\<nexists>v. w = Some v \<and> witness_covers v pr) \<and> n' = n \<and> q' = q
        \<and> (\<exists>m. x = MissingProofWitness m)"
proof (cases "\<exists>v. w = Some v \<and> witness_covers v pr")
  case True
  then obtain v where v: "w = Some v" "witness_covers v pr" by blast
  with enqueue_admitted [OF v(2), of clk n q] show ?thesis by auto blast
next
  case False
  with enqueue_refused [OF False, of clk n q] show ?thesis by auto
qed

text \<open>
  Processing settles every queued entry exactly once: the summary counts each of them once
  (mergeable, conflict or failed), nothing stays queued, entries keep their order, pull request
  and witness, and entries that were already settled are not touched.
\<close>

theorem process_all_accounting:
  assumes "process_all clk validate n q = (s, n', q')"
  shows "qs_processed s = length (filter (\<lambda>e. qe_state e = Queued) (mq_entries q))
       \<and> qs_mergeable s + qs_conflicts s + qs_failed_validation s = qs_processed s
       \<and> length (filter (\<lambda>e. qe_state e = Mergeable) (mq_entries q')) = qs_mergeable s
            + length (filter (\<lambda>e. qe_state e = Mergeable) (mq_entries q))
       \<and> filter (\<lambda>e. qe_state e = Queued) (mq_entries q') = []
       \<and> map (\<lambda>e. (qe_id e, qe_pr e, qe_proof_witness e)) (mq_entries q')
           = map (\<lambda>e. (qe_id e, qe_pr e, qe_proof_witness e)) (mq_entries q)
       \<and> list_all2 (\<lambda>e e'. qe_state e \<noteq> Queued \<longrightarrow> e' = e) (mq_entries q) (mq_entries q')"
proof -
  obtain acc where run: "process_entries clk validate (mq_entries q) (initial_accepted q) QueueSummary_default n
      = (mq_entries q', acc, s, n')"
    using assms by (auto simp: process_all_def split: prod.splits)
  show ?thesis
    using process_entries_facts [OF run]
    by (auto simp: QueueSummary_default_def mergeable_entries_def filter_empty_conv)
qed

text \<open>
  With the deterministic validator, first come is first served and nothing is refused without
  need: a queued entry becomes mergeable exactly when its paths are disjoint from those accepted
  before the run and from those of the mergeable entries ahead of it; otherwise it is dequeued as
  a conflict.
\<close>

theorem process_all_exact:
  assumes "reach (\<lambda>q. q = MergeQueue_new) (queue_op deterministic_validate) q"
    and "process_all clk deterministic_validate n q = (s, n', q')"
    and "i < length (mq_entries q)" and "qe_state (mq_entries q ! i) = Queued"
  shows "qe_state (mq_entries q' ! i) =
     (if entry_paths (mq_entries q ! i) \<inter> (set (mq_accepted_paths q)
           \<union> (\<Union>e \<in> {e \<in> set (take i (mq_entries q')). qe_state e = Mergeable}. entry_paths e)) = {}
      then Mergeable else DequeuedConflict)"
proof -
  obtain acc where run: "process_entries clk deterministic_validate (mq_entries q) (initial_accepted q)
      QueueSummary_default n = (mq_entries q', acc, s, n')"
    using assms(2) by (auto simp: process_all_def split: prod.splits)
  have "queue_wf q" using assms(1) by (rule deterministic.reach_queue_wf)
  then have acc: "set (initial_accepted q) = set (mq_accepted_paths q)" "paths_of (mq_entries q) \<subseteq> set (initial_accepted q)"
    by (auto simp: initial_accepted_paths queue_wf_def)
  have "paths_of es = (\<Union>e \<in> {e \<in> set es. qe_state e = Mergeable}. entry_paths e)" for es
    by (auto simp: paths_of_def mergeable_entries_def)
  then show ?thesis
    using deterministic.process_entries_exact [OF run acc(2) assms(3,4)] unfolding acc(1) by simp
qed

text \<open>
  The proof pipeline fits together: whenever the engine plans a change set and mints a witness
  for it, the pull request with the same identity and changes is admitted to the queue.
\<close>

theorem proved_pr_is_admitted:
  assumes "plan (ProofEngine_new os ts gs lns) \<lparr>cs_repo = pr_repo pr, cs_pr = pr_id pr,
      cs_head_sha = pr_head_sha pr, cs_paths = pr_changed_paths pr, cs_agent_authored = agent\<rparr> = Ok p"
    and "verify clk p evidence n = (Ok w, n')"
  shows "\<exists>i m q'. enqueue clk pr (Some w) n' q = (Ok i, m, q')"
proof -
  have "pp_repo p = pr_repo pr \<and> pp_pr p = pr_id pr \<and> pp_head_sha p = pr_head_sha pr
      \<and> pp_paths p = map cp_path (pr_changed_paths pr)"
    using plan_covers_paths [OF assms(1)] by simp
  moreover have "fst (verify clk p evidence n) = Ok w" by (simp add: assms(2))
  ultimately have "witness_covers w pr"
    using verify_witness [of clk p evidence n w] by (simp add: witness_covers_def)
  with enqueue_admitted show ?thesis by blast
qed

section \<open>The concurrent simulation\<close>

text \<open>
  \<open>run_concurrent_pr_simulation\<close>: each thread plans, verifies and then enqueues under the mutex.
  The schedule lists the threads in the order in which they enter the critical section, with the
  values of the id counter they see when they mint the witness and when they enqueue; the
  theorem holds for every order and all counter values, so for every interleaving. \<open>None\<close> is the
  panic of an \<open>expect\<close>.
\<close>

definition show_nat3 :: "nat \<Rightarrow> string" where
  "show_nat3 i = (let s = show_nat i in replicate (3 - length s) (CHR ''0'') @ s)"

definition sim_path :: "nat \<Rightarrow> string" where
  "sim_path i = ''crates/jeryu_ci_scheduler/src/generated_unique_'' @ show_nat i @ ''.rs''"

definition sim_pr :: "nat \<Rightarrow> PullRequest" where
  "sim_pr i = PullRequest_new ''repo_phase7'' (''pr_'' @ show_nat i) (''agent/pr-'' @ show_nat i) ''main''
     ''base001'' (''head'' @ show_nat3 i) [ChangedPath_new (sim_path i)]"

definition sim_evidence :: "nat \<Rightarrow> ProofPlan \<Rightarrow> ProofEvidence list" where
  "sim_evidence i p = map (\<lambda>l. \<lparr>ev_lane = ln_name l, ev_commands = ln_commands l, ev_success = True,
     ev_log_digest = ''digest:'' @ ln_name l @ '':'' @ show_nat i\<rparr>) (pp_lanes p)"

definition sim_thread :: "clock \<Rightarrow> nat \<times> id_counter \<times> id_counter \<Rightarrow> MergeQueue \<Rightarrow> MergeQueue option" where
  "sim_thread clk t q =
     (let (i, n_verify, n_enqueue) = t; pr = sim_pr i in
      case plan default_phase7_engine \<lparr>cs_repo = pr_repo pr, cs_pr = pr_id pr,
             cs_head_sha = pr_head_sha pr, cs_paths = pr_changed_paths pr, cs_agent_authored = False\<rparr> of
        Inl _ \<Rightarrow> None
      | Inr p \<Rightarrow>
         (case fst (verify clk p (sim_evidence i p) n_verify) of
            Inl _ \<Rightarrow> None
          | Inr w \<Rightarrow>
             (case enqueue clk pr (Some w) n_enqueue q of
                (Inl _, _) \<Rightarrow> None
              | (Inr _, _, q') \<Rightarrow> Some q')))"

fun sim_threads :: "clock \<Rightarrow> (nat \<times> id_counter \<times> id_counter) list \<Rightarrow> MergeQueue \<Rightarrow> MergeQueue option" where
  "sim_threads clk [] q = Some q"
| "sim_threads clk (t # ts) q =
     (case sim_thread clk t q of None \<Rightarrow> None | Some q' \<Rightarrow> sim_threads clk ts q')"

record SimulationReceipt =
  sim_requested_prs :: nat
  sim_summary :: QueueSummary

definition run_concurrent_pr_simulation ::
  "clock \<Rightarrow> nat \<Rightarrow> (nat \<times> id_counter \<times> id_counter) list \<Rightarrow> id_counter \<Rightarrow> SimulationReceipt option" where
  "run_concurrent_pr_simulation clk prs sched n =
     map_option (\<lambda>q. \<lparr>sim_requested_prs = prs, sim_summary = fst (process_all clk deterministic_validate n q)\<rparr>)
       (sim_threads clk sched MergeQueue_new)"

lemma sim_patterns:
  "pattern_matches ''crates/jeryu_ci_scheduler/**'' (sim_path i)"
  "\<not> pattern_matches ''crates/jeryu_core/**'' (sim_path i)"
  "\<not> pattern_matches ''crates/jeryu_proof/**'' (sim_path i)"
  "\<not> pattern_matches ''crates/jeryu_agentbridge/**'' (sim_path i)"
  "\<not> pattern_matches ''crates/jeryu_phase7_cli/**'' (sim_path i)"
  "\<not> pattern_matches ''agent/**'' (sim_path i)"
  "\<not> pattern_matches ''ops/ci/**'' (sim_path i)"
  "\<not> pattern_matches ''scripts/**'' (sim_path i)"
  "\<not> pattern_matches ''docs/**'' (sim_path i)"
  "\<not> pattern_matches ''Cargo.toml'' (sim_path i)"
  "\<not> pattern_matches ''rust-toolchain.toml'' (sim_path i)"
  "\<not> pattern_matches ''Justfile'' (sim_path i)"
  "\<not> pattern_matches ''AGENTS.md'' (sim_path i)"
  "\<not> pattern_matches ''target/**'' (sim_path i)"
  by (simp_all add: pattern_matches_def strip_suffix_def suffix_Cons starts_with_def sim_path_def)

lemma sim_plan:
  "\<exists>p. plan default_phase7_engine \<lparr>cs_repo = r, cs_pr = i', cs_head_sha = h,
     cs_paths = [ChangedPath_new (sim_path i)], cs_agent_authored = False\<rparr> = Ok p
     \<and> pp_lanes p = [lane ''merge-queue-sim'' [''cargo test -p jeryu_ci_scheduler concurrent''] True,
         lane ''unit'' [''cargo test --workspace''] True]"
proof -
  have owners: "path_owners default_phase7_engine (sim_path i) = [''@scheduler'']"
    by (simp add: path_owners_def default_phase7_engine_def ProofEngine_new_def phase7_owner_rules_def
        owner_def sim_patterns)
  have lanes: "path_lanes default_phase7_engine (sim_path i) = [''unit'', ''merge-queue-sim'']"
    by (simp add: path_lanes_def default_phase7_engine_def ProofEngine_new_def phase7_test_rules_def
        test_def sim_patterns)
  have names: "bs_extend [] [''unit'', ''merge-queue-sim''] = [''merge-queue-sim'', ''unit'']"
    by code_simp
  have "resolve_lanes default_phase7_engine [''merge-queue-sim'', ''unit'']
      = Ok [lane ''merge-queue-sim'' [''cargo test -p jeryu_ci_scheduler concurrent''] True,
         lane ''unit'' [''cargo test --workspace''] True]"
    by code_simp
  moreover have "denied_zone default_phase7_engine False (sim_path i) = None"
    by (simp add: denied_zone_def split: option.split)
  then have "plan_paths default_phase7_engine False [ChangedPath_new (sim_path i)] ([], [], [])
      = Ok (bs_extend [] [''@scheduler''], [''merge-queue-sim'', ''unit''], [sim_path i])"
    by (simp add: ChangedPath_new_def owners lanes names)
  ultimately show ?thesis by (simp add: plan_def)
qed

lemma sim_thread_Some:
  "\<exists>e. sim_thread clk (i, nv, ne) q = Some (q\<lparr>mq_entries := mq_entries q @ [e]\<rparr>)
     \<and> qe_pr e = sim_pr i \<and> qe_state e = Queued"
proof -
  let ?pr = "sim_pr i"
  let ?c = "\<lparr>cs_repo = pr_repo ?pr, cs_pr = pr_id ?pr, cs_head_sha = pr_head_sha ?pr,
     cs_paths = pr_changed_paths ?pr, cs_agent_authored = False\<rparr>"
  have "pr_changed_paths ?pr = [ChangedPath_new (sim_path i)]"
    by (simp add: sim_pr_def PullRequest_new_def)
  then obtain p where p: "plan default_phase7_engine ?c = Ok p"
    "pp_lanes p = [lane ''merge-queue-sim'' [''cargo test -p jeryu_ci_scheduler concurrent''] True,
       lane ''unit'' [''cargo test --workspace''] True]"
    using sim_plan [of "pr_repo ?pr" "pr_id ?pr" "pr_head_sha ?pr" i] by auto
  have "\<exists>w. fst (verify clk p (sim_evidence i p) nv) = Ok w"
    unfolding verify_Ok_iff by (simp add: p(2) sim_evidence_def lane_def)
  then obtain w where w: "fst (verify clk p (sim_evidence i p) nv) = Ok w" by blast
  have "witness_covers w ?pr"
    using verify_witness [OF w] plan_covers_paths [OF p(1)] by (simp add: witness_covers_def)
  from enqueue_admitted [OF this, of clk ne q] obtain e n' where
    "enqueue clk ?pr (Some w) ne q = (Ok (qe_id e), n', q\<lparr>mq_entries := mq_entries q @ [e]\<rparr>)"
    "qe_pr e = ?pr" "qe_state e = Queued" by blast
  with p(1) w show ?thesis by (intro exI [of _ e]) (simp add: sim_thread_def Let_def)
qed

lemma sim_threads_Some:
  "\<exists>es. sim_threads clk ts q = Some (q\<lparr>mq_entries := mq_entries q @ es\<rparr>)
     \<and> map qe_pr es = map (sim_pr \<circ> fst) ts \<and> (\<forall>e \<in> set es. qe_state e = Queued)"
proof (induction ts arbitrary: q)
  case (Cons t ts)
  obtain i nv ne where t: "t = (i, nv, ne)" by (cases t)
  obtain e where e: "sim_thread clk t q = Some (q\<lparr>mq_entries := mq_entries q @ [e]\<rparr>)"
    "qe_pr e = sim_pr i" "qe_state e = Queued"
    using sim_thread_Some [of clk i nv ne q] t by auto
  obtain es where "sim_threads clk ts (q\<lparr>mq_entries := mq_entries q @ [e]\<rparr>)
      = Some (q\<lparr>mq_entries := mq_entries q @ e # es\<rparr>)" "map qe_pr es = map (sim_pr \<circ> fst) ts"
    "\<forall>e \<in> set es. qe_state e = Queued"
    using Cons.IH [of "q\<lparr>mq_entries := mq_entries q @ [e]\<rparr>"] by auto
  with e t show ?case by (intro exI [of _ "e # es"]) simp
qed (simp add: exI [of _ "[]"])

lemma sim_path_inject [simp]: "sim_path i = sim_path j \<longleftrightarrow> i = j"
  by (simp add: sim_path_def)

text \<open>
  The simulation of any number of concurrent pull requests never panics and ends with every
  one of them mergeable, no conflict and no failure, whatever the order in which the threads
  reach the queue and whatever ids they draw.
\<close>

theorem concurrent_simulation_all_mergeable:
  assumes "mset (map fst sched) = mset [0 ..< prs]"
  shows "run_concurrent_pr_simulation clk prs sched n = Some
     \<lparr>sim_requested_prs = prs, sim_summary =
        \<lparr>qs_mergeable = prs, qs_conflicts = 0, qs_failed_validation = 0, qs_processed = prs\<rparr>\<rparr>"
proof -
  obtain es where es: "sim_threads clk sched MergeQueue_new = Some (MergeQueue_new\<lparr>mq_entries := es\<rparr>)"
    "map qe_pr es = map (sim_pr \<circ> fst) sched" "\<forall>e \<in> set es. qe_state e = Queued"
    using sim_threads_Some [of clk sched MergeQueue_new] by (auto simp: MergeQueue_new_def)
  have "size (mset (map fst sched)) = size (mset [0 ..< prs])" by (simp only: assms)
  then have len: "length sched = prs" by simp
  have len': "length es = prs" using arg_cong [OF es(2), of length] len by simp
  have dist: "distinct (map fst sched)" using assms by (metis distinct_upt mset_eq_imp_distinct_iff)
  have path: "entry_paths (es ! i) = {sim_path (fst (sched ! i))}" if "i < prs" for i
    using arg_cong [OF es(2), of "\<lambda>xs. xs ! i"] that len len'
    by (simp add: sim_pr_def PullRequest_new_def ChangedPath_new_def)
  let ?q = "MergeQueue_new\<lparr>mq_entries := es\<rparr>"
  have none: "paths_of es = {}" "mergeable_entries es = []" "filter (\<lambda>e. qe_state e = Queued) es = es"
    using es(3) by (auto simp: paths_of_def mergeable_entries_def filter_empty_conv)
  have acc: "set (initial_accepted ?q) = {}"
    by (simp add: initial_accepted_paths none MergeQueue_new_def)
  obtain es' acc' s n' where run: "process_entries clk deterministic_validate es (initial_accepted ?q)
      QueueSummary_default n = (es', acc', s, n')"
    by (metis prod_cases4)
  have "entry_paths (es ! i) \<inter> entry_paths (es ! j) = {}" if "i < j" "j < length es" for i j
    using that path [of i] path [of j] len len' dist by (auto simp: distinct_conv_nth)
  from deterministic.process_entries_disjoint [OF run es(3) _ this] acc
  have "mergeable_entries es' = es'" by (simp add: mergeable_entries_def)
  with process_entries_facts [OF run] none len'
  have "s = \<lparr>qs_mergeable = prs, qs_conflicts = 0, qs_failed_validation = 0, qs_processed = prs\<rparr>"
    by (auto simp: QueueSummary_default_def dest: list_all2_lengthD)
  with run es(1) show ?thesis
    by (simp add: run_concurrent_pr_simulation_def process_all_def)
qed

section \<open>Two conflicting pull requests\<close>

definition sample_pr :: "string \<Rightarrow> PullRequest" where
  "sample_pr i = PullRequest_new ''repo'' i (''branch/'' @ i) ''main'' ''base001'' (''head-'' @ i)
     [ChangedPath_new ''docs/a.md'']"

definition sample_witness :: "string \<Rightarrow> ProofWitness" where
  "sample_witness i = \<lparr>pw_id = ''w'', pw_repo = ''repo'', pw_pr = i, pw_head_sha = ''head-'' @ i,
     pw_changed_paths = [''docs/a.md''], pw_lanes = [], pw_owners = [],
     pw_receipt = fst (Receipt_new (\<lambda>_. None) KProofWitness ''repo'' None i [] [] [] [] 0)\<rparr>"

definition sample_enqueue :: "string \<Rightarrow> MergeQueue \<Rightarrow> MergeQueue" where
  "sample_enqueue i q = snd (snd (enqueue (\<lambda>_. None) (sample_pr i) (Some (sample_witness i)) 1 q))"

definition sample_queue :: MergeQueue where
  "sample_queue = sample_enqueue ''pr_2'' (sample_enqueue ''pr_1'' MergeQueue_new)"

lemma sample_covers: "witness_covers (sample_witness i) (sample_pr i)"
  by (simp add: witness_covers_def sample_witness_def sample_pr_def PullRequest_new_def ChangedPath_new_def)

lemma sample_enqueue_eq:
  "\<exists>e. sample_enqueue i q = q\<lparr>mq_entries := mq_entries q @ [e]\<rparr> \<and> qe_pr e = sample_pr i \<and> qe_state e = Queued"
  using enqueue_admitted [OF sample_covers [of i], of "\<lambda>_. None" 1 q] by (auto simp: sample_enqueue_def)

lemma sample_queue_entries:
  "\<exists>a b. sample_queue = \<lparr>mq_entries = [a, b], mq_accepted_paths = []\<rparr> \<and> qe_state a = Queued
     \<and> qe_state b = Queued \<and> entry_paths a = {''docs/a.md''} \<and> entry_paths b = {''docs/a.md''}"
proof -
  obtain a where a: "sample_enqueue ''pr_1'' MergeQueue_new = MergeQueue_new\<lparr>mq_entries := [a]\<rparr>"
    "qe_pr a = sample_pr ''pr_1''" "qe_state a = Queued"
    using sample_enqueue_eq [of "''pr_1''" MergeQueue_new] by (auto simp: MergeQueue_new_def)
  obtain b where "sample_queue = MergeQueue_new\<lparr>mq_entries := [a, b]\<rparr>"
    "qe_pr b = sample_pr ''pr_2''" "qe_state b = Queued"
    using sample_enqueue_eq [of "''pr_2''" "MergeQueue_new\<lparr>mq_entries := [a]\<rparr>"] a(1)
    by (auto simp: sample_queue_def)
  with a(2,3) show ?thesis
    by (intro exI [of _ a] exI [of _ b])
      (simp add: MergeQueue_new_def sample_pr_def PullRequest_new_def ChangedPath_new_def)
qed

lemma sample_enqueue_op: "queue_op validate q (sample_enqueue i q)"
  unfolding sample_enqueue_def by (rule op_enqueue)

lemma sample_queue_reach: "reach (\<lambda>q. q = MergeQueue_new) (queue_op validate) sample_queue"
proof -
  have "reach (\<lambda>q. q = MergeQueue_new) (queue_op validate) MergeQueue_new" by (rule reach_init) simp
  then have "reach (\<lambda>q. q = MergeQueue_new) (queue_op validate) (sample_enqueue ''pr_1'' MergeQueue_new)"
    using sample_enqueue_op by (rule reach_step)
  then show ?thesis unfolding sample_queue_def using sample_enqueue_op by (rule reach_step)
qed

definition sample_run :: "QueueSummary \<times> id_counter \<times> MergeQueue" where
  "sample_run = process_all (\<lambda>_. None) deterministic_validate 9 sample_queue"

theorem process_all_accounting_witness:
  "qs_processed (fst sample_run) = 2 \<and> filter (\<lambda>e. qe_state e = Queued) (mq_entries (snd (snd sample_run))) = []"
proof -
  obtain s n' q' where run: "sample_run = (s, n', q')" by (metis prod_cases3)
  have "qs_processed s = length (filter (\<lambda>e. qe_state e = Queued) (mq_entries sample_queue))"
    "filter (\<lambda>e. qe_state e = Queued) (mq_entries q') = []"
    using process_all_accounting [OF run [unfolded sample_run_def]] by blast+
  moreover obtain a b where "mq_entries sample_queue = [a, b]" "qe_state a = Queued" "qe_state b = Queued"
    using sample_queue_entries by (metis MergeQueue.select_convs(1))
  ultimately show ?thesis by (simp add: run)
qed

theorem process_all_exact_witness:
  "qe_state (mq_entries (snd (snd sample_run)) ! 0) = Mergeable"
proof -
  obtain s n' q' where run: "sample_run = (s, n', q')" by (metis prod_cases3)
  from sample_queue_entries obtain a b where q:
    "sample_queue = \<lparr>mq_entries = [a, b], mq_accepted_paths = []\<rparr>" "qe_state a = Queued"
    by (elim exE conjE)
  have "qe_state (mq_entries q' ! 0) = (if entry_paths (mq_entries sample_queue ! 0) \<inter>
      (set (mq_accepted_paths sample_queue)
        \<union> (\<Union>e \<in> {e \<in> set (take 0 (mq_entries q')). qe_state e = Mergeable}. entry_paths e)) = {}
      then Mergeable else DequeuedConflict)"
    by (rule process_all_exact [OF sample_queue_reach run [unfolded sample_run_def]]) (simp_all add: q)
  then show ?thesis by (simp add: q(1) run)
qed

theorem merge_queue_safe_witness:
  "set (mq_accepted_paths (snd (snd sample_run)))
     = (\<Union>e \<in> {e \<in> set (mq_entries (snd (snd sample_run))). qe_state e = Mergeable}. entry_paths e)"
proof -
  have "speculative_validator deterministic_validate" by (rule deterministic.speculative_validator_axioms)
  moreover have "reach (\<lambda>q. q = MergeQueue_new) (queue_op deterministic_validate) (snd (snd sample_run))"
    unfolding sample_run_def by (rule reach_step [OF sample_queue_reach]) (rule op_process)
  ultimately show ?thesis using merge_queue_safe by blast
qed

theorem proved_pr_is_admitted_witness:
  "\<exists>i m q'. enqueue (\<lambda>_. None)
     (PullRequest_new ''repo_phase7'' ''pr_1'' ''b'' ''main'' ''base'' ''head001''
        [mark_sensitive (ChangedPath_new ''docs/ops.md'')])
     (Some (projr (fst (verify (\<lambda>_. None) sample_plan
        [\<lparr>ev_lane = ''policy'', ev_commands = [], ev_success = True, ev_log_digest = ''d''\<rparr>] 1))))
     2 MergeQueue_new = (Ok i, m, q')"
proof -
  let ?ev = "[\<lparr>ev_lane = ''policy'', ev_commands = [], ev_success = True, ev_log_digest = ''d''\<rparr>]"
  let ?pr = "PullRequest_new ''repo_phase7'' ''pr_1'' ''b'' ''main'' ''base'' ''head001''
        [mark_sensitive (ChangedPath_new ''docs/ops.md'')]"
  have "\<exists>w. verify (\<lambda>_. None) sample_plan ?ev 1 = (Ok w, 2)"
    by (simp add: verify_def sample_plan_def lane_def check_lane_def bt_collect_def Let_def Receipt_new_def
        fresh_id_def)
  then obtain w where w: "verify (\<lambda>_. None) sample_plan ?ev 1 = (Ok w, 2)" by blast
  have "plan (ProofEngine_new phase7_owner_rules phase7_test_rules phase7_generated_zones phase7_lanes)
      \<lparr>cs_repo = pr_repo ?pr, cs_pr = pr_id ?pr, cs_head_sha = pr_head_sha ?pr,
       cs_paths = pr_changed_paths ?pr, cs_agent_authored = True\<rparr> = Ok sample_plan"
    using sample_plan_Ok by (simp add: default_phase7_engine_def sample_change_def PullRequest_new_def)
  from proved_pr_is_admitted [OF this w, of MergeQueue_new] w show ?thesis by simp
qed

theorem concurrent_simulation_witness:
  "run_concurrent_pr_simulation (\<lambda>_. None) 3 [(2, 1, 5), (0, 2, 7), (1, 3, 9)] 20 = Some
     \<lparr>sim_requested_prs = 3, sim_summary =
        \<lparr>qs_mergeable = 3, qs_conflicts = 0, qs_failed_validation = 0, qs_processed = 3\<rparr>\<rparr>"
  by (rule concurrent_simulation_all_mergeable) (simp add: upt_rec numeral_3_eq_3 add_mset_commute)

end
