(* ===== verification/Cache_Policy.thy ===== *)
theory Cache_Policy
  imports Ci_Ir
begin

text \<open>
  \<open>jeryu-cache-policy\<close>: which caches a job may read, write and promote at its trust tier
  (\<open>types.rs\<close>, \<open>plan.rs\<close>), and the fingerprint that keys a compiled cache entry
  (\<open>fingerprint.rs\<close>).
\<close>

section \<open>Types\<close>

datatype CacheScope = JobTmpfs | RunnerLocalProject | RunnerLocalRegistry | RepoCompiledCas
  | TenantSourceCas | ExplicitSharedCompiledCas string | ReleaseHermeticVendorSnapshot

record CacheDecision =
  cd_scope :: CacheScope
  cd_read_allowed :: bool
  cd_write_allowed :: bool
  cd_promote_after_green :: bool
  cd_quarantine :: bool
  cd_mutable_compiled_cache_allowed :: bool
  cd_reason :: string

record CachePlan =
  cp_job_id :: string
  cp_decisions :: "CacheDecision list"
  cp_fingerprint :: string

datatype CachePolicyError = CrossProjectCompiledDenied | ReleaseMutableCacheDenied
  | MissingFingerprintInput string

fun cache_error_message :: "CachePolicyError \<Rightarrow> string" where
  "cache_error_message CrossProjectCompiledDenied = ''cross-project compiled cache is denied by default''"
| "cache_error_message ReleaseMutableCacheDenied = ''release lane cannot consume mutable compiled cache''"
| "cache_error_message (MissingFingerprintInput i) = ''missing cache fingerprint input: '' @ i"

section \<open>Fingerprints\<close>

record FingerprintInputs =
  fi_cache_schema_version :: string
  fi_tenant_id :: string
  fi_repo_id_or_scope :: string
  fi_rustc_version :: string
  fi_cargo_version :: string
  fi_toolchain_channel :: string
  fi_host_triple :: string
  fi_target_triple :: string
  fi_profile :: string
  fi_feature_set :: string
  fi_rustflags :: string
  fi_linker_identity :: string
  fi_sysroot_digest :: string
  fi_cargo_lock_subgraph_digest :: string
  fi_workspace_metadata_digest :: string
  fi_crate_source_digest :: string
  fi_build_rs_digest :: string
  fi_proc_macro_digest :: string
  fi_native_deps_digest :: string
  fi_env_allowlist_digest :: string
  fi_runner_rootfs_digest :: string
  fi_sandbox_policy_digest :: string
  fi_extra :: env_map

definition default_for_dev :: FingerprintInputs where
  "default_for_dev =
     \<lparr>fi_cache_schema_version = ''phase3.v1'',
      fi_tenant_id = ''dev'',
      fi_repo_id_or_scope = ''repo'',
      fi_rustc_version = ''unknown-rustc'',
      fi_cargo_version = ''unknown-cargo'',
      fi_toolchain_channel = ''locked'',
      fi_host_triple = ''unknown-host'',
      fi_target_triple = ''unknown-target'',
      fi_profile = ''dev'',
      fi_feature_set = ''default'',
      fi_rustflags = '''',
      fi_linker_identity = ''default'',
      fi_sysroot_digest = ''unknown-sysroot'',
      fi_cargo_lock_subgraph_digest = ''unknown-lock'',
      fi_workspace_metadata_digest = ''unknown-workspace'',
      fi_crate_source_digest = ''unknown-source'',
      fi_build_rs_digest = ''none'',
      fi_proc_macro_digest = ''none'',
      fi_native_deps_digest = ''none'',
      fi_env_allowlist_digest = ''empty'',
      fi_runner_rootfs_digest = ''native'',
      fi_sandbox_policy_digest = ''phase3-sandbox'',
      fi_extra = []\<rparr>"

definition fingerprint_required :: "FingerprintInputs \<Rightarrow> (string \<times> string) list" where
  "fingerprint_required i =
     [(''cache_schema_version'', fi_cache_schema_version i),
      (''tenant_id'', fi_tenant_id i),
      (''repo_id_or_scope'', fi_repo_id_or_scope i),
      (''rustc_version'', fi_rustc_version i),
      (''cargo_version'', fi_cargo_version i),
      (''host_triple'', fi_host_triple i),
      (''target_triple'', fi_target_triple i),
      (''cargo_lock_subgraph_digest'', fi_cargo_lock_subgraph_digest i),
      (''workspace_metadata_digest'', fi_workspace_metadata_digest i),
      (''crate_source_digest'', fi_crate_source_digest i),
      (''build_rs_digest'', fi_build_rs_digest i),
      (''proc_macro_digest'', fi_proc_macro_digest i),
      (''native_deps_digest'', fi_native_deps_digest i),
      (''env_allowlist_digest'', fi_env_allowlist_digest i),
      (''runner_rootfs_digest'', fi_runner_rootfs_digest i),
      (''sandbox_policy_digest'', fi_sandbox_policy_digest i)]"

definition fingerprint_validate :: "FingerprintInputs \<Rightarrow> (unit, CachePolicyError) result" where
  "fingerprint_validate i =
     for_each (\<lambda>(n, v). if trim v = [] then Err (MissingFingerprintInput n) else Ok ())
       (fingerprint_required i)"

text \<open>\<open>push\<close> appends \<open>key=value\<close> and a line feed; unlike \<open>line\<close> of \<open>jeryu-ci-ir\<close> it escapes nothing.\<close>

definition push_pair :: "string \<Rightarrow> string \<Rightarrow> string \<Rightarrow> string" where
  "push_pair out k v = out @ k @ ''='' @ v @ [NL]"

definition push_pairs :: "string \<Rightarrow> (string \<times> string) list \<Rightarrow> string" where
  "push_pairs out kvs = foldl (\<lambda>o' (k, v). push_pair o' k v) out kvs"

definition fingerprint_head :: "Job \<Rightarrow> TrustTier \<Rightarrow> FingerprintInputs \<Rightarrow> (string \<times> string) list" where
  "fingerprint_head job tier i =
     [(''cache_schema_version'', fi_cache_schema_version i),
      (''tenant_id'', fi_tenant_id i),
      (''repo_id_or_scope'', fi_repo_id_or_scope i),
      (''trust_tier'', tier_as_str tier),
      (''job_id'', job_id job),
      (''runner_class'', class_as_str (job_runner_class job)),
      (''rustc_version'', fi_rustc_version i),
      (''cargo_version'', fi_cargo_version i),
      (''toolchain_channel'', fi_toolchain_channel i),
      (''host_triple'', fi_host_triple i),
      (''target_triple'', fi_target_triple i),
      (''profile'', fi_profile i),
      (''feature_set'', fi_feature_set i),
      (''rustflags'', fi_rustflags i),
      (''linker_identity'', fi_linker_identity i),
      (''sysroot_digest'', fi_sysroot_digest i),
      (''cargo_lock_subgraph_digest'', fi_cargo_lock_subgraph_digest i),
      (''workspace_metadata_digest'', fi_workspace_metadata_digest i),
      (''crate_source_digest'', fi_crate_source_digest i),
      (''build_rs_digest'', fi_build_rs_digest i),
      (''proc_macro_digest'', fi_proc_macro_digest i),
      (''native_deps_digest'', fi_native_deps_digest i),
      (''env_allowlist_digest'', fi_env_allowlist_digest i),
      (''runner_rootfs_digest'', fi_runner_rootfs_digest i),
      (''sandbox_policy_digest'', fi_sandbox_policy_digest i)]"

definition fingerprint_canonical :: "Job \<Rightarrow> TrustTier \<Rightarrow> FingerprintInputs \<Rightarrow> string" where
  "fingerprint_canonical job tier i = push_pairs []
     (fingerprint_head job tier i
      @ map (\<lambda>m. (''mount'', cm_name m @ ''|'' @ cm_path m @ ''|'' @ cm_fingerprint m))
          (job_cache_mounts job)
      @ fi_extra i)"

definition fingerprint_job :: "Job \<Rightarrow> TrustTier \<Rightarrow> FingerprintInputs \<Rightarrow> string" where
  "fingerprint_job job tier i = deterministic_hash (fingerprint_canonical job tier i)"

section \<open>Plans\<close>

definition tmpfs_decision :: CacheDecision where
  "tmpfs_decision =
     \<lparr>cd_scope = JobTmpfs, cd_read_allowed = True, cd_write_allowed = True,
      cd_promote_after_green = False, cd_quarantine = False,
      cd_mutable_compiled_cache_allowed = True,
      cd_reason = ''job-local tmpfs is ephemeral''\<rparr>"

definition registry_decision :: "TrustTier \<Rightarrow> CacheDecision" where
  "registry_decision tier =
     \<lparr>cd_scope = RunnerLocalRegistry, cd_read_allowed = True,
      cd_write_allowed = (tier = ProtectedInternal \<or> tier = InternalBranch),
      cd_promote_after_green = False, cd_quarantine = (tier = AgentAuthored),
      cd_mutable_compiled_cache_allowed = False,
      cd_reason = ''registry/source cache may be shared, compiled outputs are not implied''\<rparr>"

definition trusted_compiled :: CacheDecision where
  "trusted_compiled =
     \<lparr>cd_scope = RepoCompiledCas, cd_read_allowed = True, cd_write_allowed = True,
      cd_promote_after_green = True, cd_quarantine = False,
      cd_mutable_compiled_cache_allowed = True,
      cd_reason = ''same repo and trusted tier may read/write project compiled cache after green''\<rparr>"

definition untrusted_source :: CacheDecision where
  "untrusted_source =
     \<lparr>cd_scope = TenantSourceCas, cd_read_allowed = True, cd_write_allowed = False,
      cd_promote_after_green = False, cd_quarantine = False,
      cd_mutable_compiled_cache_allowed = False,
      cd_reason = ''untrusted jobs may read source cache but cannot write trusted compiled cache''\<rparr>"

fun tier_decision :: "TrustTier \<Rightarrow> CacheDecision" where
  "tier_decision ReleaseHermetic =
     \<lparr>cd_scope = ReleaseHermeticVendorSnapshot, cd_read_allowed = True, cd_write_allowed = False,
      cd_promote_after_green = False, cd_quarantine = False,
      cd_mutable_compiled_cache_allowed = False,
      cd_reason = ''release lanes use locked hermetic inputs only''\<rparr>"
| "tier_decision ProtectedInternal = trusted_compiled"
| "tier_decision InternalBranch = trusted_compiled"
| "tier_decision AgentAuthored =
     \<lparr>cd_scope = RepoCompiledCas, cd_read_allowed = True, cd_write_allowed = True,
      cd_promote_after_green = False, cd_quarantine = True,
      cd_mutable_compiled_cache_allowed = True,
      cd_reason = ''agent writes go to quarantine until proof receipts pass''\<rparr>"
| "tier_decision ForkPr = untrusted_source"
| "tier_decision PublicUntrusted = untrusted_source"

definition plan_cache_for_job :: "Job \<Rightarrow> TrustTier \<Rightarrow> CachePlan" where
  "plan_cache_for_job job tier =
     \<lparr>cp_job_id = job_id job,
      cp_decisions = [tmpfs_decision, registry_decision tier, tier_decision tier],
      cp_fingerprint = fingerprint_job job tier default_for_dev\<rparr>"

definition assert_cross_project_compiled_allowed :: "bool \<Rightarrow> (unit, CachePolicyError) result" where
  "assert_cross_project_compiled_allowed allow =
     (if allow then Ok () else Err CrossProjectCompiledDenied)"

fun is_compiled_scope :: "CacheScope \<Rightarrow> bool" where
  "is_compiled_scope RepoCompiledCas = True"
| "is_compiled_scope (ExplicitSharedCompiledCas _) = True"
| "is_compiled_scope _ = False"

definition assert_release_cache_safe :: "CachePlan \<Rightarrow> (unit, CachePolicyError) result" where
  "assert_release_cache_safe plan =
     for_each (\<lambda>d.
       if is_compiled_scope (cd_scope d) \<and> cd_mutable_compiled_cache_allowed d \<and> cd_read_allowed d
       then Err ReleaseMutableCacheDenied else Ok ()) (cp_decisions plan)"

section \<open>Properties\<close>

subsection \<open>Plans\<close>

lemmas decision_defs = tmpfs_decision_def registry_decision_def trusted_compiled_def
  untrusted_source_def

text \<open>
  The cache plan of a tier keeps the trust boundary. Only protected and internal-branch jobs
  may write a cache other than their own tmpfs without quarantine, and only they have a cache
  promoted; an agent job writes nothing outside its tmpfs except into quarantine; a release,
  fork or public job writes nothing outside its tmpfs, and it is exactly for these three that the
  plan passes the release check, since they read no mutable compiled cache.
\<close>

theorem cache_plan_safe:
  "(list_ex (\<lambda>d. cd_write_allowed d \<and> cd_scope d \<noteq> JobTmpfs \<and> \<not> cd_quarantine d)
        (cp_decisions (plan_cache_for_job job tier))
        \<longleftrightarrow> tier = ProtectedInternal \<or> tier = InternalBranch)
   \<and> (list_ex cd_promote_after_green (cp_decisions (plan_cache_for_job job tier))
        \<longleftrightarrow> tier = ProtectedInternal \<or> tier = InternalBranch)
   \<and> (list_ex (\<lambda>d. cd_write_allowed d \<and> cd_scope d \<noteq> JobTmpfs)
        (cp_decisions (plan_cache_for_job job tier))
        \<longleftrightarrow> tier = ProtectedInternal \<or> tier = InternalBranch \<or> tier = AgentAuthored)
   \<and> (assert_release_cache_safe (plan_cache_for_job job tier) = Ok ()
        \<longleftrightarrow> tier = ReleaseHermetic \<or> tier = ForkPr \<or> tier = PublicUntrusted)"
  by (cases tier)
    (simp_all add: plan_cache_for_job_def assert_release_cache_safe_def decision_defs)

subsection \<open>Fingerprint inputs\<close>

lemma required_fields_ok: "fingerprint_validate i = Ok () \<longleftrightarrow> list_all (\<lambda>(n, v). trim v \<noteq> []) (fingerprint_required i)"
  by (auto simp: fingerprint_validate_def list_all_iff split: if_splits)

lemma default_for_dev_valid: "fingerprint_validate default_for_dev = Ok ()"
  by code_simp

text \<open>Values without a line feed are read back unambiguously.\<close>

interpretation cache_pairs: line_writer push_pair push_pairs "\<lambda>v. v" "\<lambda>v. NL \<notin> set v"
  by unfold_locales (simp_all add: push_pair_def push_pairs_def)

definition one_line :: "(string \<times> string) list \<Rightarrow> bool" where
  "one_line kvs \<longleftrightarrow> list_all ((\<lambda>v. NL \<notin> set v) \<circ> snd) kvs"

lemma fingerprint_head_keys:
  "map fst (fingerprint_head j t i) = map fst (fingerprint_head j' t' i')"
  by (simp add: fingerprint_head_def)

lemma fingerprint_canonical_head:
  "\<exists>rest. fingerprint_canonical j t i = push_pairs [] (fingerprint_head j t i) @ rest"
  unfolding fingerprint_canonical_def by (rule cache_pairs.emit_all_prefix)

text \<open>
  When no value contains a line feed, the text that is hashed into a cache fingerprint
  determines the tenant, repository, trust tier, job, runner class and every toolchain and
  digest input: cache entries of different tenants, tiers or toolchains have different texts.
\<close>

theorem fingerprint_binds:
  assumes "one_line (fingerprint_head j t i)" and "one_line (fingerprint_head j' t' i')"
    and "fingerprint_canonical j t i = fingerprint_canonical j' t' i'"
  shows "t = t' \<and> job_id j = job_id j'
       \<and> class_as_str (job_runner_class j) = class_as_str (job_runner_class j')
       \<and> i\<lparr>fi_extra := []\<rparr> = i'\<lparr>fi_extra := []\<rparr>"
proof -
  obtain r r' where "fingerprint_canonical j t i = push_pairs [] (fingerprint_head j t i) @ r"
    and "fingerprint_canonical j' t' i' = push_pairs [] (fingerprint_head j' t' i') @ r'"
    using fingerprint_canonical_head by blast
  from cache_pairs.emit_all_agree [OF this assms(3) fingerprint_head_keys
      assms(1,2) [unfolded one_line_def]]
  have "map ((\<lambda>v. v) \<circ> snd) (fingerprint_head j t i) = map ((\<lambda>v. v) \<circ> snd) (fingerprint_head j' t' i')" .
  then show ?thesis
    using tier_enum.as_str_inject by (simp add: fingerprint_head_def)
qed

text \<open>Two spellings of one job that differ only in what the fingerprint ignores.\<close>

theorem fingerprint_binds_witness:
  "let j = Job_new ''build'' ''Build'' NativeRustClean; k = Job_new ''build'' ''Build again'' NativeRustClean
   in j \<noteq> k \<and> fingerprint_canonical j ForkPr default_for_dev = fingerprint_canonical k ForkPr default_for_dev
    \<and> job_id j = job_id k"
proof -
  let ?j = "Job_new ''build'' ''Build'' NativeRustClean"
  let ?k = "Job_new ''build'' ''Build again'' NativeRustClean"
  have "fingerprint_canonical ?j ForkPr default_for_dev = fingerprint_canonical ?k ForkPr default_for_dev"
    by (simp add: fingerprint_canonical_def fingerprint_head_def Job_new_def)
  moreover have "one_line (fingerprint_head ?j ForkPr default_for_dev)"
    "one_line (fingerprint_head ?k ForkPr default_for_dev)" by code_simp+
  ultimately show ?thesis
    using fingerprint_binds [of ?j ForkPr default_for_dev ?k ForkPr default_for_dev]
    by (simp add: Job_new_def)
qed

text \<open>
  Without the restriction to one line the claim fails: \<open>push\<close> does not escape, so a tenant whose
  name contains a line feed shares every fingerprint with another tenant's repository.
\<close>

definition tenant_inputs :: "string \<Rightarrow> string \<Rightarrow> FingerprintInputs" where
  "tenant_inputs tenant repo =
     default_for_dev\<lparr>fi_tenant_id := tenant, fi_repo_id_or_scope := repo\<rparr>"

lemma fingerprint_tenant_collision:
  "fingerprint_job j t (tenant_inputs (''a'' @ [NL] @ ''repo_id_or_scope=b'') ''c'')
   = fingerprint_job j t (tenant_inputs ''a'' (''b'' @ [NL] @ ''repo_id_or_scope=c''))"
  by (simp add: fingerprint_job_def fingerprint_canonical_def fingerprint_head_def tenant_inputs_def
      default_for_dev_def push_pair_def cache_pairs.emit_all_append)

end
