(* ===== verification/Runner_Job.thy ===== *)
theory Runner_Job
  imports Ci_Ir Rust_Text
begin

text \<open>
  \<open>jeryu-runner-core\<close>, part one: errors (\<open>error.rs\<close>), trust tiers and runner classes
  (\<open>trust.rs\<close>), the guards on host paths and environment variables (\<open>fscheck.rs\<close>) and job
  requests with their key-value parser (\<open>job/\<close>). The crate has its own tiers, classes and
  policies beside those of \<open>jeryu-ci-ir\<close>; their names carry the prefix \<open>Core\<close> here.
\<close>

section \<open>Errors\<close>

record RunnerError =
  err_code :: string
  err_message :: string

definition RunnerError_new :: "string \<Rightarrow> string \<Rightarrow> RunnerError" where
  "RunnerError_new c m = \<lparr>err_code = c, err_message = m\<rparr>"

definition runner_error_display :: "RunnerError \<Rightarrow> string" where
  "runner_error_display e = err_code e @ '': '' @ err_message e"

type_synonym 'a runner_result = "('a, RunnerError) result"

section \<open>Trust tiers and runner classes\<close>

datatype CoreTier = T0ReleaseHermetic | T1ProtectedInternal | T2InternalBranch | T3AgentAuthored
  | T4ForkPr | T5PublicUntrusted

fun core_tier_as_str :: "CoreTier \<Rightarrow> string" where
  "core_tier_as_str T0ReleaseHermetic = ''T0_RELEASE_HERMETIC''"
| "core_tier_as_str T1ProtectedInternal = ''T1_PROTECTED_INTERNAL''"
| "core_tier_as_str T2InternalBranch = ''T2_INTERNAL_BRANCH''"
| "core_tier_as_str T3AgentAuthored = ''T3_AGENT_AUTHORED''"
| "core_tier_as_str T4ForkPr = ''T4_FORK_PR''"
| "core_tier_as_str T5PublicUntrusted = ''T5_PUBLIC_UNTRUSTED''"

fun permits_native :: "CoreTier \<Rightarrow> bool" where
  "permits_native T0ReleaseHermetic = True"
| "permits_native T1ProtectedInternal = True"
| "permits_native T2InternalBranch = True"
| "permits_native T3AgentAuthored = True"
| "permits_native _ = False"

fun permits_default_secrets :: "CoreTier \<Rightarrow> bool" where
  "permits_default_secrets T0ReleaseHermetic = True"
| "permits_default_secrets T1ProtectedInternal = True"
| "permits_default_secrets T2InternalBranch = True"
| "permits_default_secrets _ = False"

fun permits_trusted_cache_write :: "CoreTier \<Rightarrow> bool" where
  "permits_trusted_cache_write T1ProtectedInternal = True"
| "permits_trusted_cache_write _ = False"

definition core_tier_from_str :: "string \<Rightarrow> CoreTier runner_result" where
  "core_tier_from_str v =
     (let t = replace_char (CHR ''-'') ''_'' (map to_ascii_lowercase (trim v)) in
      if t \<in> {''t0'', ''t0_release_hermetic'', ''release_hermetic''} then Ok T0ReleaseHermetic
      else if t \<in> {''t1'', ''t1_protected_internal'', ''protected_internal''}
        then Ok T1ProtectedInternal
      else if t \<in> {''t2'', ''t2_internal_branch'', ''internal_branch''} then Ok T2InternalBranch
      else if t \<in> {''t3'', ''t3_agent_authored'', ''agent_authored''} then Ok T3AgentAuthored
      else if t \<in> {''t4'', ''t4_fork_pr'', ''fork_pr''} then Ok T4ForkPr
      else if t \<in> {''t5'', ''t5_public_untrusted'', ''public_untrusted''} then Ok T5PublicUntrusted
      else Err (RunnerError_new ''invalid_trust_tier''
                  (''unknown trust tier '' @ [CHR 0x27] @ v @ [CHR 0x27])))"

datatype CoreClass = CoreNativeRustHot | CoreNativeRustClean | CoreAgentGuard | CoreReleaseHermetic
  | CoreMicroVmRust | CoreOciDocker

fun core_class_as_str :: "CoreClass \<Rightarrow> string" where
  "core_class_as_str CoreNativeRustHot = ''native-rust-hot''"
| "core_class_as_str CoreNativeRustClean = ''native-rust-clean''"
| "core_class_as_str CoreAgentGuard = ''agent-guard''"
| "core_class_as_str CoreReleaseHermetic = ''release-hermetic''"
| "core_class_as_str CoreMicroVmRust = ''microvm-rust''"
| "core_class_as_str CoreOciDocker = ''oci-docker''"

fun class_is_native :: "CoreClass \<Rightarrow> bool" where
  "class_is_native CoreNativeRustHot = True"
| "class_is_native CoreNativeRustClean = True"
| "class_is_native CoreAgentGuard = True"
| "class_is_native CoreReleaseHermetic = True"
| "class_is_native _ = False"

definition core_class_from_str :: "string \<Rightarrow> CoreClass runner_result" where
  "core_class_from_str v =
     (let t = replace_char (CHR ''_'') ''-'' (map to_ascii_lowercase (trim v)) in
      if t = ''native-rust-hot'' then Ok CoreNativeRustHot
      else if t = ''native-rust-clean'' then Ok CoreNativeRustClean
      else if t = ''agent-guard'' then Ok CoreAgentGuard
      else if t = ''release-hermetic'' then Ok CoreReleaseHermetic
      else if t = ''microvm-rust'' then Ok CoreMicroVmRust
      else if t \<in> {''oci-docker'', ''oci'', ''docker'', ''podman''} then Ok CoreOciDocker
      else Err (RunnerError_new ''invalid_runner_class''
                  (''unknown runner class '' @ [CHR 0x27] @ v @ [CHR 0x27])))"

section \<open>Policies a job asks for\<close>

datatype CoreNetwork = CoreDeny | LoopbackOnly | EgressOnly

fun core_network_as_str :: "CoreNetwork \<Rightarrow> string" where
  "core_network_as_str CoreDeny = ''deny''"
| "core_network_as_str LoopbackOnly = ''loopback-only''"
| "core_network_as_str EgressOnly = ''egress-only''"

definition core_network_from_str :: "string \<Rightarrow> CoreNetwork runner_result" where
  "core_network_from_str v =
     (let t = replace_char (CHR ''_'') ''-'' (map to_ascii_lowercase (trim v)) in
      if t \<in> {''deny'', ''none'', ''off''} then Ok CoreDeny
      else if t \<in> {''loopback'', ''loopback-only''} then Ok LoopbackOnly
      else if t \<in> {''egress'', ''egress-only''} then Ok EgressOnly
      else Err (RunnerError_new ''invalid_network_policy''
                  (''unknown network policy '' @ [CHR 0x27] @ v @ [CHR 0x27])))"

datatype CoreSecret = SecretNone | SecretDefault | SecretRequested

fun core_secret_as_str :: "CoreSecret \<Rightarrow> string" where
  "core_secret_as_str SecretNone = ''none''"
| "core_secret_as_str SecretDefault = ''default''"
| "core_secret_as_str SecretRequested = ''requested''"

definition core_secret_from_str :: "string \<Rightarrow> CoreSecret runner_result" where
  "core_secret_from_str v =
     (let t = map to_ascii_lowercase (trim v) in
      if t \<in> {''none'', ''deny'', ''false''} then Ok SecretNone
      else if t \<in> {''default'', ''auto''} then Ok SecretDefault
      else if t \<in> {''requested'', ''request'', ''true''} then Ok SecretRequested
      else Err (RunnerError_new ''invalid_secret_policy''
                  (''unknown secret policy '' @ [CHR 0x27] @ v @ [CHR 0x27])))"

datatype CoreToken = TokenNone | TokenReadOnly | TokenScopedWrite

fun core_token_as_str :: "CoreToken \<Rightarrow> string" where
  "core_token_as_str TokenNone = ''none''"
| "core_token_as_str TokenReadOnly = ''read-only''"
| "core_token_as_str TokenScopedWrite = ''scoped-write''"

definition core_token_from_str :: "string \<Rightarrow> CoreToken runner_result" where
  "core_token_from_str v =
     (let t = replace_char (CHR ''_'') ''-'' (map to_ascii_lowercase (trim v)) in
      if t \<in> {''none'', ''deny''} then Ok TokenNone
      else if t \<in> {''read'', ''read-only'', ''readonly''} then Ok TokenReadOnly
      else if t \<in> {''write'', ''scoped-write''} then Ok TokenScopedWrite
      else Err (RunnerError_new ''invalid_token_policy''
                  (''unknown token policy '' @ [CHR 0x27] @ v @ [CHR 0x27])))"

section \<open>Host guards\<close>

definition DENIED_HOST_PATHS :: "string list" where
  "DENIED_HOST_PATHS =
     [''/var/run/docker.sock'', ''/run/docker.sock'', ''/var/run/podman/podman.sock'',
      ''/run/podman/podman.sock'', ''/root/.ssh'', ''/home/.ssh'']"

definition DENIED_ENV_VARS :: "string list" where
  "DENIED_ENV_VARS =
     [''SSH_AUTH_SOCK'', ''DOCKER_HOST'', ''AWS_ACCESS_KEY_ID'', ''AWS_SECRET_ACCESS_KEY'',
      ''AWS_SESSION_TOKEN'', ''GOOGLE_APPLICATION_CREDENTIALS'', ''AZURE_CLIENT_SECRET'']"

definition deny_dangerous_host_path :: "string \<Rightarrow> unit runner_result" where
  "deny_dangerous_host_path path =
     (if list_ex (\<lambda>denied. path = denied \<or> starts_with path (denied @ ''/'')) DENIED_HOST_PATHS
      then Err (RunnerError_new ''host_path_denied''
        (''path '' @ [CHR 0x27] @ path @ [CHR 0x27] @ '' is not allowed in runner sandbox''))
      else Ok ())"

definition validate_mount_sources :: "string list \<Rightarrow> unit runner_result" where
  "validate_mount_sources paths = for_each deny_dangerous_host_path paths"

definition sanitize_env :: "env_map \<Rightarrow> env_map" where
  "sanitize_env env = bt_collect (filter (\<lambda>(k, v). k \<notin> set DENIED_ENV_VARS) env)"

section \<open>Job requests\<close>

record CoreJob =
  cj_job_id :: string
  cj_repo_id :: string
  cj_commit_sha :: string
  cj_workspace :: string
  cj_command :: string
  cj_args :: "string list"
  cj_env :: env_map
  cj_trust_tier :: CoreTier
  cj_requested_runner :: "CoreClass option"
  cj_network_policy :: CoreNetwork
  cj_secret_policy :: CoreSecret
  cj_token_policy :: CoreToken
  cj_timeout_ms :: u64
  cj_fork :: bool

definition required :: "env_map \<Rightarrow> string \<Rightarrow> string runner_result" where
  "required values' key =
     ok_or (RunnerError_new ''missing_job_field'' (''missing '' @ key))
       (case bt_get values' key of None \<Rightarrow> None | Some v \<Rightarrow> if trim v = [] then None else Some v)"

definition split_csv :: "string \<Rightarrow> string list" where
  "split_csv v = filter (\<lambda>part. part \<noteq> []) (map trim (split_char (CHR '','') v))"

text \<open>
  \<open>u64::from_str\<close>: an optional plus sign and at least one digit. The loop reports a bad digit
  before an overflow at the same position, and an overflow as soon as it happens.
\<close>

fun digits_u64 :: "nat \<Rightarrow> string \<Rightarrow> (u64, string) result" where
  "digits_u64 acc [] = Ok (of_nat acc)"
| "digits_u64 acc (c # cs) =
     (if \<not> is_ascii_digit c then Err ''invalid digit found in string''
      else let acc' = 10 * acc + (of_char c - 48) in
           if acc' < 2 ^ 64 then digits_u64 acc' cs
           else Err ''number too large to fit in target type'')"

definition u64_from_str :: "string \<Rightarrow> (u64, string) result" where
  "u64_from_str s =
     (if s = [] then Err ''cannot parse integer from empty string''
      else if s = ''+'' \<or> s = ''-'' then Err ''invalid digit found in string''
      else digits_u64 0 (if hd s = CHR ''+'' then tl s else s))"

definition parse_u64 :: "string \<Rightarrow> string \<Rightarrow> u64 runner_result" where
  "parse_u64 fld v =
     map_err (\<lambda>err. RunnerError_new ''invalid_integer''
         (fld @ '' must be an unsigned integer: '' @ err)) (u64_from_str (trim v))"

definition parse_bool :: "string \<Rightarrow> string \<Rightarrow> bool runner_result" where
  "parse_bool fld v =
     (let t = map to_ascii_lowercase (trim v) in
      if t \<in> {''true'', ''yes'', ''1''} then Ok True
      else if t \<in> {''false'', ''no'', ''0''} then Ok False
      else Err (RunnerError_new ''invalid_bool'' (fld @ '' must be true/false'')))"

definition valid_env_name :: "string \<Rightarrow> bool" where
  "valid_env_name n \<longleftrightarrow>
     n \<noteq> [] \<and> list_all (\<lambda>ch. is_ascii_uppercase ch \<or> is_ascii_digit ch \<or> ch = CHR ''_'') n
   \<and> \<not> is_ascii_digit (hd n)"

definition validate_env_name :: "string \<Rightarrow> unit runner_result" where
  "validate_env_name n =
     (if valid_env_name n then Ok ()
      else Err (RunnerError_new ''invalid_env_name''
        (''invalid environment variable '' @ [CHR 0x27] @ n @ [CHR 0x27])))"

text \<open>On Unix a path is absolute when it starts with a slash, and its components lie between slashes.\<close>

definition validate_workspace_path :: "string \<Rightarrow> unit runner_result" where
  "validate_workspace_path path =
     (if \<not> starts_with path ''/'' then
        Err (RunnerError_new ''invalid_workspace''
          (''workspace '' @ [CHR 0x27] @ path @ [CHR 0x27] @ '' must be absolute''))
      else if list_ex (\<lambda>part. part = ''..'') (split_char (CHR ''/'') path) then
        Err (RunnerError_new ''invalid_workspace''
          (''workspace '' @ [CHR 0x27] @ path @ [CHR 0x27] @ '' must not contain '' @ [CHR 0x27]
             @ ''..'' @ [CHR 0x27]))
      else deny_dangerous_host_path path)"

definition job_validate :: "CoreJob \<Rightarrow> unit runner_result" where
  "job_validate j =
     (if trim (cj_job_id j) = [] then Err (RunnerError_new ''invalid_job'' ''job_id cannot be empty'')
      else if trim (cj_repo_id j) = []
        then Err (RunnerError_new ''invalid_job'' ''repo_id cannot be empty'')
      else if trim (cj_commit_sha j) = []
        then Err (RunnerError_new ''invalid_job'' ''commit_sha cannot be empty'')
      else if trim (cj_command j) = []
        then Err (RunnerError_new ''invalid_job'' ''command cannot be empty'')
      else and_then (validate_workspace_path (cj_workspace j)) (\<lambda>_.
        if cj_timeout_ms j = 0
        then Err (RunnerError_new ''invalid_job'' ''timeout_ms must be positive'')
        else Ok ()))"

text \<open>
  The loop over the lines. Its state is the values and the environment read so far; \<open>read_line\<close> is
  its body, with \<open>continue\<close> the unchanged state.
\<close>

definition read_line :: "nat \<Rightarrow> string \<Rightarrow> env_map \<times> env_map \<Rightarrow> (env_map \<times> env_map) runner_result" where
  "read_line n raw st =
     (let l = trim raw in
      if l = [] \<or> starts_with l ''#'' then Ok st
      else case split_once (CHR ''='') l of
        None \<Rightarrow> Err (RunnerError_new ''invalid_job_file''
                   (''line '' @ show_nat (n + 1) @ '' is not key=value''))
      | Some (k, v) \<Rightarrow>
          let key = trim k; v' = trim v in
          (case strip_prefix ''env.'' key of
             Some nm \<Rightarrow> and_then (validate_env_name nm) (\<lambda>_. Ok (fst st, bt_insert nm v' (snd st)))
           | None \<Rightarrow> Ok (bt_insert key v' (fst st), snd st)))"

fun read_lines :: "nat \<Rightarrow> env_map \<times> env_map \<Rightarrow> string list \<Rightarrow> (env_map \<times> env_map) runner_result" where
  "read_lines n st [] = Ok st"
| "read_lines n st (raw # rest) = and_then (read_line n raw st) (\<lambda>st'. read_lines (Suc n) st' rest)"

text \<open>\<open>values.get(key).map(parse).transpose()?\<close>: an absent key is \<open>None\<close>, a bad value an error.\<close>

definition optional :: "env_map \<Rightarrow> string \<Rightarrow> (string \<Rightarrow> 'a runner_result) \<Rightarrow> 'a option runner_result" where
  "optional values' key parse =
     (case bt_get values' key of None \<Rightarrow> Ok None
      | Some raw \<Rightarrow> and_then (parse raw) (\<lambda>x. Ok (Some x)))"

definition unwrap_or :: "'a option \<Rightarrow> 'a \<Rightarrow> 'a" where
  "unwrap_or x d = (case x of None \<Rightarrow> d | Some v \<Rightarrow> v)"

definition job_of_values :: "env_map \<Rightarrow> env_map \<Rightarrow> CoreJob runner_result" where
  "job_of_values values' env =
     and_then (required values' ''job_id'') (\<lambda>job_id'.
     and_then (required values' ''repo_id'') (\<lambda>repo_id.
     and_then (required values' ''commit_sha'') (\<lambda>commit_sha.
     and_then (required values' ''workspace'') (\<lambda>workspace.
     and_then (required values' ''command'') (\<lambda>command.
     (let args = (case bt_get values' ''args'' of None \<Rightarrow> [] | Some raw \<Rightarrow> split_csv raw) in
     and_then (optional values' ''trust_tier'' core_tier_from_str) (\<lambda>tier.
     (let trust_tier = unwrap_or tier T5PublicUntrusted in
     and_then (optional values' ''requested_runner'' core_class_from_str) (\<lambda>requested_runner.
     and_then (optional values' ''network_policy'' core_network_from_str) (\<lambda>net.
     and_then (optional values' ''secret_policy'' core_secret_from_str) (\<lambda>sec.
     and_then (optional values' ''token_policy'' core_token_from_str) (\<lambda>tok.
     and_then (optional values' ''timeout_ms'' (parse_u64 ''timeout_ms'')) (\<lambda>timeout.
     and_then (optional values' ''fork'' (parse_bool ''fork'')) (\<lambda>fork.
     Ok \<lparr>cj_job_id = job_id', cj_repo_id = repo_id, cj_commit_sha = commit_sha,
         cj_workspace = workspace, cj_command = command, cj_args = args, cj_env = env,
         cj_trust_tier = trust_tier, cj_requested_runner = requested_runner,
         cj_network_policy = unwrap_or net CoreDeny,
         cj_secret_policy = unwrap_or sec SecretDefault,
         cj_token_policy = unwrap_or tok TokenReadOnly,
         cj_timeout_ms = unwrap_or timeout 600000,
         cj_fork = unwrap_or fork (trust_tier = T4ForkPr)\<rparr>))))))))))))))"

definition from_key_value :: "string \<Rightarrow> CoreJob runner_result" where
  "from_key_value input =
     and_then (read_lines 0 ([], []) (str_lines input)) (\<lambda>(values', env).
     and_then (job_of_values values' env) (\<lambda>request.
     and_then (job_validate request) (\<lambda>_. Ok request)))"

section \<open>Properties\<close>

subsection \<open>Labels\<close>

interpretation core_tier_enum: string_enum core_tier_as_str core_tier_from_str "\<lambda>_. True"
  by unfold_locales (rename_tac x, case_tac x; hypsubst; code_simp)

interpretation core_class_enum: string_enum core_class_as_str core_class_from_str "\<lambda>_. True"
  by unfold_locales (rename_tac x, case_tac x; hypsubst; code_simp)

interpretation core_network_enum: string_enum core_network_as_str core_network_from_str "\<lambda>_. True"
  by unfold_locales (rename_tac x, case_tac x; hypsubst; code_simp)

interpretation core_secret_enum: string_enum core_secret_as_str core_secret_from_str "\<lambda>_. True"
  by unfold_locales (rename_tac x, case_tac x; hypsubst; code_simp)

interpretation core_token_enum: string_enum core_token_as_str core_token_from_str "\<lambda>_. True"
  by unfold_locales (rename_tac x, case_tac x; hypsubst; code_simp)

subsection \<open>Numbers\<close>

lemma unat_of_nat_u64: "n < 2 ^ 64 \<Longrightarrow> unat (of_nat n :: u64) = n"
  by (simp add: unat_of_nat)

lemma digits_u64_append_digit:
  assumes "digits_u64 acc s = Ok w" and "10 * unat w + d < 2 ^ 64" and "d < 10"
    and "acc < 2 ^ 64"
  shows "digits_u64 acc (s @ [digit_char d]) = Ok (of_nat (10 * unat w + d))"
  using assms
proof (induction acc s rule: digits_u64.induct)
  case (1 acc)
  then have "unat w = acc" by (auto simp: unat_of_nat_u64)
  with 1 show ?case by simp
next
  case (2 acc c cs)
  then show ?case by (auto simp: Let_def split: if_splits)
qed

lemma digits_u64_show: "n < 2 ^ 64 \<Longrightarrow> digits_u64 0 (show_nat n) = Ok (of_nat n)"
proof (induction n rule: show_nat.induct)
  case (1 n)
  show ?case
  proof (cases "n < 10")
    case True
    then show ?thesis by (simp add: show_nat.simps [of n])
  next
    case False
    have small: "n div 10 < 2 ^ 64" using 1(2) by simp
    have "digits_u64 0 (show_nat (n div 10)) = Ok (of_nat (n div 10))"
      using 1(1) False small by simp
    from digits_u64_append_digit [OF this, of "n mod 10"]
    have "digits_u64 0 (show_nat (n div 10) @ [digit_char (n mod 10)]) = Ok (of_nat n)"
      using 1(2) by (simp only: unat_of_nat_u64 [OF small] mult_div_mod_eq)
    then show ?thesis using False by (simp add: show_nat.simps [of n])
  qed
qed

lemma u64_from_str_show: "u64_from_str (show_word w) = Ok w"
proof -
  have d: "is_ascii_digit c" if "c \<in> set (show_word w)" for c using show_word_digits that .
  have ne: "show_word w \<noteq> []" by (simp add: show_word_def)
  then have "is_ascii_digit (hd (show_word w))" using d by simp
  then have "hd (show_word w) \<noteq> CHR ''+''" "hd (show_word w) \<noteq> CHR ''-''"
    by (auto simp: is_ascii_digit_of_char)
  moreover from this have "show_word w \<noteq> ''+''" "show_word w \<noteq> ''-''" by auto
  ultimately show ?thesis
    using ne digits_u64_show [of "unat w"] unsigned_less [of w] by (simp add: u64_from_str_def show_word_def)
qed

lemma parse_u64_show: "parse_u64 f (show_word w) = Ok w"
proof -
  have "plain c" if "c \<in> set (show_word w)" for c
    using show_word_digits [OF that] by (simp add: plain_def is_ascii_digit_of_char ws1_def)
  moreover have "show_word w \<noteq> []" by (simp add: show_word_def)
  ultimately have "trim (show_word w) = show_word w" by (simp add: trim_plain)
  then show ?thesis by (simp add: parse_u64_def u64_from_str_show)
qed

subsection \<open>Host guards\<close>

lemma sanitize_env_get:
  assumes "bt_wf env"
  shows "bt_get (sanitize_env env) k = (if k \<in> set DENIED_ENV_VARS then None else bt_get env k)"
proof -
  have "distinct (map fst env)" using assms by (rule bt_wf_distinct)
  then have d: "distinct (map fst (filter (\<lambda>(k, v). k \<notin> set DENIED_ENV_VARS) env))"
    by (simp add: distinct_map_filter)
  have "map_of (filter (\<lambda>(k, v). k \<notin> D) env) k = (if k \<in> D then None else map_of env k)" for D
    by (induction env) auto
  with d show ?thesis by (simp add: sanitize_env_def bt_get_collect map_of_rev)
qed

lemma workspace_ok:
  assumes "validate_workspace_path p = Ok ()"
  shows "starts_with p ''/'' \<and> ''..'' \<notin> set (split_char (CHR ''/'') p)
       \<and> list_all (\<lambda>d. p \<noteq> d \<and> \<not> starts_with p (d @ ''/'')) DENIED_HOST_PATHS"
  using assms
  by (auto simp: validate_workspace_path_def deny_dangerous_host_path_def list_ex_iff list_all_iff
      split: if_splits)

text \<open>
  The guard compares spellings: a doubled slash names the same directory and is let through.
\<close>

lemma doubled_slash_not_denied:
  "validate_workspace_path ''/root/.ssh'' \<noteq> Ok () \<and> validate_workspace_path ''/root//.ssh'' = Ok ()"
  by code_simp

subsection \<open>Reading job files\<close>

lemma validate_env_name_Ok [simp]: "validate_env_name n = Ok () \<longleftrightarrow> valid_env_name n"
  by (simp add: validate_env_name_def)

definition env_ok :: "env_map \<Rightarrow> bool" where
  "env_ok env \<longleftrightarrow> bt_wf env \<and> list_all (valid_env_name \<circ> fst) env"

lemma env_ok_insert: "env_ok env \<Longrightarrow> valid_env_name n \<Longrightarrow> env_ok (bt_insert n v env)"
  using set_keys_bt_insert [of n v env] by (force simp: env_ok_def list_all_iff bt_wf_insert)

lemma read_line_env: "read_line n raw st = Ok st' \<Longrightarrow> env_ok (snd st) \<Longrightarrow> env_ok (snd st')"
  by (auto simp: read_line_def Let_def env_ok_insert split: if_splits option.split_asm prod.split_asm)

lemma read_lines_env: "read_lines n st ls = Ok st' \<Longrightarrow> env_ok (snd st) \<Longrightarrow> env_ok (snd st')"
  by (induction n st ls rule: read_lines.induct) (auto dest: read_line_env)

lemma job_of_values_Ok:
  assumes "job_of_values vs env = Ok j"
  shows "cj_env j = env"
    and "\<exists>tier. optional vs ''trust_tier'' core_tier_from_str = Ok tier
           \<and> cj_trust_tier j = unwrap_or tier T5PublicUntrusted"
  using assms unfolding job_of_values_def Let_def and_then_Ok_iff sum.inject
  by (elim exE conjE, hypsubst, simp only: CoreJob.simps, fast?)+

text \<open>
  A job file that is accepted yields a valid request: ids and command are not blank, the
  workspace is absolute, without \<open>..\<close> and under no denied host path, the timeout is positive,
  and every environment variable has a well-formed name. A file that names no tier is read at the
  least trusted one.
\<close>

theorem from_key_value_sound:
  assumes "from_key_value s = Ok j"
  shows "job_validate j = Ok () \<and> bt_wf (cj_env j) \<and> list_all (valid_env_name \<circ> fst) (cj_env j)
       \<and> cj_timeout_ms j \<noteq> 0 \<and> starts_with (cj_workspace j) ''/''
       \<and> ''..'' \<notin> set (split_char (CHR ''/'') (cj_workspace j))
       \<and> list_all (\<lambda>d. cj_workspace j \<noteq> d \<and> \<not> starts_with (cj_workspace j) (d @ ''/''))
           DENIED_HOST_PATHS
       \<and> (\<exists>vs env tier. read_lines 0 ([], []) (str_lines s) = Ok (vs, env)
            \<and> optional vs ''trust_tier'' core_tier_from_str = Ok tier
            \<and> cj_trust_tier j = unwrap_or tier T5PublicUntrusted)"
proof -
  from assms obtain vs env where r: "read_lines 0 ([], []) (str_lines s) = Ok (vs, env)"
    and b: "job_of_values vs env = Ok j" and v: "job_validate j = Ok ()"
    by (auto simp: from_key_value_def)
  have "validate_workspace_path (cj_workspace j) = Ok () \<and> cj_timeout_ms j \<noteq> 0"
    using v by (auto simp: job_validate_def split: if_splits)
  moreover have "env_ok env" using read_lines_env [OF r] by (simp add: env_ok_def)
  ultimately show ?thesis
    using r v job_of_values_Ok [OF b] workspace_ok [of "cj_workspace j"] by (auto simp: env_ok_def)
qed

subsection \<open>Round trip\<close>

text \<open>A job file in the documented syntax, one entry per line.\<close>

definition job_values :: "CoreJob \<Rightarrow> (string \<times> string) list" where
  "job_values j =
     [(''job_id'', cj_job_id j), (''repo_id'', cj_repo_id j), (''commit_sha'', cj_commit_sha j),
      (''workspace'', cj_workspace j), (''command'', cj_command j),
      (''args'', join '','' (cj_args j)),
      (''trust_tier'', core_tier_as_str (cj_trust_tier j)),
      (''network_policy'', core_network_as_str (cj_network_policy j)),
      (''secret_policy'', core_secret_as_str (cj_secret_policy j)),
      (''token_policy'', core_token_as_str (cj_token_policy j)),
      (''timeout_ms'', show_word (cj_timeout_ms j)), (''fork'', show_bool (cj_fork j))]
     @ (case cj_requested_runner j of None \<Rightarrow> []
        | Some c \<Rightarrow> [(''requested_runner'', core_class_as_str c)])"

definition entry_line :: "string \<times> string \<Rightarrow> string" where
  "entry_line e = fst e @ ''='' @ snd e"

definition env_entries :: "env_map \<Rightarrow> (string \<times> string) list" where
  "env_entries env = map (\<lambda>(k, v). (''env.'' @ k, v)) env"

definition job_file :: "CoreJob \<Rightarrow> string" where
  "job_file j =
     concat (map (\<lambda>e. entry_line e @ [NL])
       (job_values j @ env_entries (cj_env j)))"

text \<open>A value survives a line when it has no line feed and no white space at its ends.\<close>

definition value_ok :: "string \<Rightarrow> bool" where
  "value_ok v \<longleftrightarrow> trim v = v \<and> NL \<notin> set v"

definition arg_ok :: "string \<Rightarrow> bool" where
  "arg_ok a \<longleftrightarrow> a \<noteq> [] \<and> value_ok a \<and> CHR '','' \<notin> set a"

definition job_writable :: "CoreJob \<Rightarrow> bool" where
  "job_writable j \<longleftrightarrow>
     value_ok (cj_job_id j) \<and> value_ok (cj_repo_id j) \<and> value_ok (cj_commit_sha j)
   \<and> value_ok (cj_workspace j) \<and> value_ok (cj_command j) \<and> list_all arg_ok (cj_args j)
   \<and> env_ok (cj_env j) \<and> list_all (value_ok \<circ> snd) (cj_env j)"

lemma split_char_append: "c \<notin> set xs \<Longrightarrow> split_char c (xs @ c # ys) = xs # split_char c ys"
  by (induction xs) auto

lemma split_char_absent: "c \<notin> set xs \<Longrightarrow> split_char c xs = [xs]"
  by (induction xs) auto

lemma split_once_append: "c \<notin> set xs \<Longrightarrow> split_once c (xs @ c # ys) = Some (xs, ys)"
  by (induction xs) auto

lemma split_char_lines:
  "list_all (\<lambda>l. NL \<notin> set l) ls \<Longrightarrow> split_char NL (concat (map (\<lambda>l. l @ [NL]) ls)) = ls @ [[]]"
  by (induction ls) (auto simp: split_char_append)

lemma split_char_join:
  "xs \<noteq> [] \<Longrightarrow> list_all (\<lambda>x. c \<notin> set x) xs \<Longrightarrow> split_char c (join [c] xs) = xs"
  by (induction "[c]" xs rule: join.induct) (auto simp: split_char_append split_char_absent)

lemma ws_len_before_plain: "ws_len s = 0 \<Longrightarrow> s \<noteq> [] \<Longrightarrow> plain c \<Longrightarrow> ws_len (s @ c # t) = 0"
proof (cases s rule: ws_len.cases)
  case (3 a)
  assume "ws_len s = 0" "plain c"
  then show ?thesis by (cases t) (auto simp: 3 plain_def ws2_def split: if_splits)
qed (auto simp: plain_def ws2_def split: if_splits)

text \<open>A trimmed, nonempty value is never a carriage return at its end.\<close>

lemma value_last: "trim v = v \<Longrightarrow> v \<noteq> [] \<Longrightarrow> last v \<noteq> CHR 0x0D"
proof
  assume v: "trim v = v" "v \<noteq> []" "last v = CHR 0x0D"
  then obtain r where "rev v = CHR 0x0D # r" by (cases v rule: rev_cases) auto
  moreover have "ws_len_rev (rev v) = 0" using v(1) by (simp add: trim_id_iff)
  moreover have "ws1 (CHR 0x0D)" by code_simp
  ultimately show False
    by (cases "rev v" rule: ws_len_rev.cases) (auto split: if_splits)
qed

lemma value_ok_join: "list_all arg_ok as \<Longrightarrow> value_ok (join '','' as)"
proof (induction "'',''" as rule: join.induct)
  case (3 x y zs)
  have comma: "plain (CHR '','')" by code_simp
  from 3 have IH: "value_ok (join '','' (y # zs))" and x: "value_ok x" "x \<noteq> []" by (auto simp: arg_ok_def)
  have "ws_len (x @ '','' @ join '','' (y # zs)) = 0"
    using x by (simp add: value_ok_def trim_id_iff ws_len_before_plain comma)
  moreover have "ws_len_rev (rev (x @ '','' @ join '','' (y # zs))) = 0"
    using IH by (simp add: value_ok_def trim_id_iff ws_len_rev_before_plain comma)
  ultimately show ?case using IH x by (simp add: value_ok_def trim_id_iff)
qed (auto simp: value_ok_def arg_ok_def)

lemma split_csv_join: "list_all arg_ok as \<Longrightarrow> split_csv (join '','' as) = as"
proof (cases "as = []")
  case True
  then show ?thesis by (simp add: split_csv_def)
next
  case False
  assume as: "list_all arg_ok as"
  then have "split_char (CHR '','') (join '','' as) = as"
    using False by (intro split_char_join) (auto simp: list_all_iff arg_ok_def)
  moreover have "map trim as = as" "filter (\<lambda>p. p \<noteq> []) as = as"
    using as by (auto simp: list_all_iff arg_ok_def value_ok_def intro: map_idI)
  ultimately show ?thesis by (simp add: split_csv_def)
qed

text \<open>An entry: a key of plain characters without \<open>=\<close> and not a comment, and a value as above.\<close>

definition entry_ok :: "string \<times> string \<Rightarrow> bool" where
  "entry_ok e \<longleftrightarrow> fst e \<noteq> [] \<and> list_all (\<lambda>c. plain c \<and> c \<noteq> CHR ''='' \<and> c \<noteq> CHR ''#'') (fst e)
     \<and> value_ok (snd e)"

lemma entry_key: "entry_ok e \<Longrightarrow> trim (fst e) = fst e \<and> CHR ''='' \<notin> set (fst e)"
proof
  assume "entry_ok e"
  then have ne: "fst e \<noteq> []" and pl: "\<And>c. c \<in> set (fst e) \<Longrightarrow> plain c \<and> c \<noteq> CHR ''=''"
    by (auto simp: entry_ok_def list_all_iff)
  show "trim (fst e) = fst e"
    using ne pl [OF hd_in_set [OF ne]] pl [OF last_in_set [OF ne]] by (simp add: trim_plain)
  show "CHR ''='' \<notin> set (fst e)" using pl by blast
qed

lemma entry_line_trim: "entry_ok e \<Longrightarrow> trim (entry_line e) = entry_line e"
proof (rule trim_id)
  assume e: "entry_ok e"
  have "plain (CHR ''='')" by code_simp
  with e show "ws_len_rev (rev (entry_line e)) = 0"
    by (simp add: entry_line_def entry_ok_def value_ok_def trim_id_iff ws_len_rev_before_plain)
  show "ws_len (entry_line e) = 0"
    using e by (cases "fst e") (auto simp: entry_line_def entry_ok_def ws_len_plain)
qed

lemma read_line_entry:
  assumes "entry_ok e"
  shows "read_line n (entry_line e) st =
     (case strip_prefix ''env.'' (fst e) of
        Some nm \<Rightarrow> and_then (validate_env_name nm) (\<lambda>_. Ok (fst st, bt_insert nm (snd e) (snd st)))
      | None \<Rightarrow> Ok (bt_insert (fst e) (snd e) (fst st), snd st))"
proof -
  have "entry_line e \<noteq> []" "\<not> starts_with (entry_line e) ''#''"
    using assms by (cases "fst e"; auto simp: entry_line_def entry_ok_def starts_with_def)+
  moreover have "split_once (CHR ''='') (entry_line e) = Some (fst e, snd e)"
    using entry_key [OF assms] by (simp add: entry_line_def split_once_append)
  moreover have "trim (snd e) = snd e" using assms by (simp add: entry_ok_def value_ok_def)
  ultimately show ?thesis
    using entry_line_trim [OF assms] entry_key [OF assms]
    by (simp add: read_line_def split_beta Let_def split: option.split)
qed

lemma read_lines_values:
  assumes "list_all entry_ok es" and "list_all (\<lambda>e. \<not> prefix ''env.'' (fst e)) es"
  shows "read_lines n st (map entry_line es @ ls) =
     read_lines (n + length es) (fold (\<lambda>(k, v). bt_insert k v) es (fst st), snd st) ls"
  using assms
proof (induction es arbitrary: n st)
  case (Cons e es)
  then show ?case
    by (simp add: read_line_entry strip_prefix_def split_beta)
qed simp

lemma env_entries_ok:
  assumes "env_ok es" and "list_all (value_ok \<circ> snd) es"
  shows "list_all entry_ok (env_entries es)"
proof -
  have "entry_ok (''env.'' @ k, v)" if "(k, v) \<in> set es" for k v
  proof -
    have "plain c \<and> c \<noteq> CHR ''='' \<and> c \<noteq> CHR ''#''" if "c \<in> set k" for c
      using assms(1) that \<open>(k, v) \<in> set es\<close>
      by (force simp: env_ok_def valid_env_name_def list_all_iff plain_def is_ascii_digit_of_char
          ws1_def is_ascii_uppercase_def less_eq_char_def)
    moreover have "value_ok v" using assms(2) that by (auto simp: list_all_iff)
    ultimately show ?thesis by (auto simp: entry_ok_def list_all_iff plain_def ws1_def)
  qed
  then show ?thesis by (auto simp: list_all_iff env_entries_def)
qed

lemma read_lines_env_entries:
  assumes "list_all entry_ok (env_entries es)" and "list_all (valid_env_name \<circ> fst) es"
  shows "read_lines n st (map entry_line (env_entries es)) =
     Ok (fst st, fold (\<lambda>(k, v). bt_insert k v) es (snd st))"
  using assms
  by (induction es arbitrary: n st) (auto simp: env_entries_def read_line_entry strip_prefix_def)

lemma str_lines_entries:
  assumes "list_all entry_ok es"
  shows "str_lines (concat (map (\<lambda>e. entry_line e @ [NL]) es)) = map entry_line es"
proof -
  have nl: "NL \<notin> set (entry_line e)" and cr: "strip_cr (entry_line e) = entry_line e"
    if "e \<in> set es" for e
  proof -
    have e: "entry_ok e" using assms that by (simp add: list_all_iff)
    have "\<not> plain NL" by code_simp
    then show "NL \<notin> set (entry_line e)"
      using e by (auto simp: entry_ok_def entry_line_def value_ok_def list_all_iff)
    show "strip_cr (entry_line e) = entry_line e"
      using e value_last [of "snd e"]
      by (cases "snd e = []") (auto simp: strip_cr_def entry_line_def entry_ok_def value_ok_def)
  qed
  have "concat (map (\<lambda>e. entry_line e @ [NL]) es) = concat (map (\<lambda>l. l @ [NL]) (map entry_line es))"
    by (simp add: comp_def)
  moreover have "list_all (\<lambda>l. NL \<notin> set l) (map entry_line es)"
    using nl by (auto simp: list_all_iff)
  ultimately have "split_char NL (concat (map (\<lambda>e. entry_line e @ [NL]) es)) = map entry_line es @ [[]]"
    by (simp only: split_char_lines)
  then show ?thesis using cr by (simp add: str_lines_def map_idI)
qed

lemma label_values:
  "value_ok (core_tier_as_str t)" "value_ok (core_network_as_str w)" "value_ok (core_secret_as_str s)"
  "value_ok (core_token_as_str k)" "value_ok (core_class_as_str c)" "value_ok (show_bool b)"
proof -
  show "value_ok (core_tier_as_str t)" by (cases t; hypsubst; code_simp)
  show "value_ok (core_network_as_str w)" by (cases w; hypsubst; code_simp)
  show "value_ok (core_secret_as_str s)" by (cases s; hypsubst; code_simp)
  show "value_ok (core_token_as_str k)" by (cases k; hypsubst; code_simp)
  show "value_ok (core_class_as_str c)" by (cases c; hypsubst; code_simp)
  show "value_ok (show_bool b)" by (cases b) (simp_all add: show_bool_def, code_simp+)
qed

lemma value_ok_show_word: "value_ok (show_word w)"
proof -
  have d: "plain c \<and> c \<noteq> NL" if "c \<in> set (show_word w)" for c
    using show_word_digits [OF that] by (auto simp: plain_def is_ascii_digit_of_char ws1_def)
  have ne: "show_word w \<noteq> []" by (simp add: show_word_def)
  from ne d have "trim (show_word w) = show_word w"
    by (intro trim_plain) simp_all
  with d show ?thesis by (auto simp: value_ok_def)
qed

lemma job_values_ok:
  assumes "job_writable j"
  shows "list_all entry_ok (job_values j) \<and> list_all (\<lambda>e. \<not> prefix ''env.'' (fst e)) (job_values j)
       \<and> distinct (map fst (job_values j))"
proof -
  have keys: "list_all (\<lambda>k. k \<noteq> [] \<and> list_all (\<lambda>c. plain c \<and> c \<noteq> CHR ''='' \<and> c \<noteq> CHR ''#'') k)
      [''job_id'', ''repo_id'', ''commit_sha'', ''workspace'', ''command'', ''args'', ''trust_tier'',
       ''network_policy'', ''secret_policy'', ''token_policy'', ''timeout_ms'', ''fork'', ''requested_runner'']"
    by code_simp
  have "list_all entry_ok (job_values j)"
    using assms keys
    by (simp add: job_values_def job_writable_def entry_ok_def label_values value_ok_show_word
        value_ok_join split: option.split)
  moreover have "list_all (\<lambda>e. \<not> prefix ''env.'' (fst e)) (job_values j) \<and> distinct (map fst (job_values j))"
    by (simp add: job_values_def split: option.split)
  ultimately show ?thesis by simp
qed

lemma required_get: "bt_get vs k = Some v \<Longrightarrow> trim v \<noteq> [] \<Longrightarrow> required vs k = Ok v"
  by (simp add: required_def)

lemma parse_bool_show: "parse_bool f (show_bool b) = Ok b"
  by (cases b) (simp_all add: parse_bool_def show_bool_def, code_simp+)

lemma job_of_values_written:
  assumes "\<And>k. bt_get vs k = map_of (job_values j) k" and "job_validate j = Ok ()" and "job_writable j"
  shows "job_of_values vs (cj_env j) = Ok j"
proof -
  have nonblank: "trim (cj_job_id j) \<noteq> []" "trim (cj_repo_id j) \<noteq> []" "trim (cj_commit_sha j) \<noteq> []"
    "trim (cj_command j) \<noteq> []" "trim (cj_workspace j) \<noteq> []"
    using assms(2,3) workspace_ok [of "cj_workspace j"]
    by (auto simp: job_validate_def job_writable_def value_ok_def starts_with_def split: if_splits)
  have args: "split_csv (join '','' (cj_args j)) = cj_args j"
    using assms(3) by (simp add: job_writable_def split_csv_join)
  show ?thesis
    by (simp add: job_of_values_def optional_def required_def assms(1) job_values_def nonblank args
        core_tier_enum.from_as core_class_enum.from_as core_network_enum.from_as
        core_secret_enum.from_as core_token_enum.from_as parse_u64_show parse_bool_show unwrap_or_def
        split: option.split)
qed


text \<open>The request of the crate's documentation, with an environment variable.\<close>

definition sample_core_job :: CoreJob where
  "sample_core_job =
     \<lparr>cj_job_id = ''job_1'', cj_repo_id = ''org/repo'', cj_commit_sha = ''abc123'',
      cj_workspace = ''/tmp/work'', cj_command = ''/bin/echo'', cj_args = [''hello'', ''world''],
      cj_env = [(''RUST_LOG'', ''info'')], cj_trust_tier = T1ProtectedInternal,
      cj_requested_runner = Some CoreNativeRustHot, cj_network_policy = CoreDeny,
      cj_secret_policy = SecretDefault, cj_token_policy = TokenReadOnly, cj_timeout_ms = 600000,
      cj_fork = False\<rparr>"

lemma sample_core_job_ok: "job_validate sample_core_job = Ok () \<and> job_writable sample_core_job"
  by code_simp


definition minimal_file :: string where
  "minimal_file = concat (map (\<lambda>l. l @ [NL])
     [''# a public build'', ''job_id = j'', ''repo_id=r'', ''commit_sha=c'', [],
      ''workspace=/tmp/work'', ''command=make'', ''env.CI=1''])"

theorem from_key_value_sound_witness:
  "\<exists>j. from_key_value minimal_file = Ok j \<and> job_validate j = Ok ()
     \<and> list_all (valid_env_name \<circ> fst) (cj_env j) \<and> cj_trust_tier j = T5PublicUntrusted"
proof -
  have "from_key_value minimal_file =
      Ok \<lparr>cj_job_id = ''j'', cj_repo_id = ''r'', cj_commit_sha = ''c'', cj_workspace = ''/tmp/work'',
        cj_command = ''make'', cj_args = [], cj_env = [(''CI'', ''1'')],
        cj_trust_tier = T5PublicUntrusted, cj_requested_runner = None, cj_network_policy = CoreDeny,
        cj_secret_policy = SecretDefault, cj_token_policy = TokenReadOnly, cj_timeout_ms = 600000,
        cj_fork = False\<rparr>"
    by code_simp
  from from_key_value_sound [OF this] this show ?thesis by auto
qed

end
