(* ===== verification/Runner_Policy.thy ===== *)
theory Runner_Policy
  imports Runner_Job
begin

text \<open>
  \<open>jeryu-runner-core\<close>, part two: the runner and the effective policies chosen for a job
  (\<open>policy.rs\<close>) and the sandbox plan built from that decision (\<open>sandbox.rs\<close>). The \<open>reasons\<close>
  that the code pushes onto a shared vector are threaded as a list.
\<close>

section \<open>Decisions\<close>

datatype CacheWritePolicy = CacheDeny | CacheQuarantine | TrustedAfterGreen

fun cache_write_as_str :: "CacheWritePolicy \<Rightarrow> string" where
  "cache_write_as_str CacheDeny = ''deny''"
| "cache_write_as_str CacheQuarantine = ''quarantine''"
| "cache_write_as_str TrustedAfterGreen = ''trusted-after-green''"

record PolicyDecision =
  pd_runner_class :: CoreClass
  pd_network_policy :: CoreNetwork
  pd_allow_secrets :: bool
  pd_token_policy :: CoreToken
  pd_cache_write_policy :: CacheWritePolicy
  pd_reasons :: "string list"

definition decision_is_native :: "PolicyDecision \<Rightarrow> bool" where
  "decision_is_native d = class_is_native (pd_runner_class d)"

definition validate_requested :: "CoreTier \<Rightarrow> CoreClass \<Rightarrow> unit runner_result" where
  "validate_requested tier runner =
     (if tier \<in> {T4ForkPr, T5PublicUntrusted}
         \<and> runner \<in> {CoreNativeRustHot, CoreNativeRustClean, CoreAgentGuard, CoreReleaseHermetic}
      then Err (RunnerError_new ''runner_policy_denied''
             (core_tier_as_str tier @ '' cannot run on '' @ core_class_as_str runner))
      else if tier = T5PublicUntrusted \<and> runner = CoreOciDocker
      then Err (RunnerError_new ''runner_policy_denied'' ''T5_PUBLIC_UNTRUSTED must use microvm-rust'')
      else if tier = T3AgentAuthored \<and> runner = CoreNativeRustHot
      then Err (RunnerError_new ''runner_policy_denied''
             ''T3_AGENT_AUTHORED must use agent-guard or stronger isolation'')
      else Ok ())"

fun default_runner :: "CoreTier \<Rightarrow> CoreClass" where
  "default_runner T0ReleaseHermetic = CoreReleaseHermetic"
| "default_runner T1ProtectedInternal = CoreNativeRustHot"
| "default_runner T2InternalBranch = CoreNativeRustClean"
| "default_runner T3AgentAuthored = CoreAgentGuard"
| "default_runner T4ForkPr = CoreMicroVmRust"
| "default_runner T5PublicUntrusted = CoreMicroVmRust"

definition choose_runner ::
  "CoreJob \<Rightarrow> CoreClass option \<Rightarrow> string list \<Rightarrow> (CoreClass \<times> string list) runner_result" where
  "choose_runner job requested reasons =
     (case requested of
        Some r \<Rightarrow> and_then (validate_requested (cj_trust_tier job) r) (\<lambda>_.
          Ok (r, reasons @ [''requested_runner='' @ core_class_as_str r]))
      | None \<Rightarrow> (let d = default_runner (cj_trust_tier job) in
          Ok (d, reasons @ [''default_runner='' @ core_class_as_str d])))"

definition assert_native_invariants :: "CoreTier \<Rightarrow> CoreClass \<Rightarrow> unit runner_result" where
  "assert_native_invariants tier runner =
     (if class_is_native runner \<and> \<not> permits_native tier
      then Err (RunnerError_new ''runner_policy_denied''
             (core_tier_as_str tier @ '' does not permit native runner class ''
                @ core_class_as_str runner))
      else if runner = CoreNativeRustHot \<and> tier \<noteq> T1ProtectedInternal
      then Err (RunnerError_new ''runner_policy_denied''
             (''native-rust-hot is reserved for T1_PROTECTED_INTERNAL, got '' @ core_tier_as_str tier))
      else Ok ())"

definition effective_network ::
  "CoreJob \<Rightarrow> CoreClass \<Rightarrow> string list \<Rightarrow> (CoreNetwork \<times> string list) runner_result" where
  "effective_network job runner reasons =
     (if cj_trust_tier job \<in> {T4ForkPr, T5PublicUntrusted} then
        (if cj_network_policy job \<noteq> CoreDeny
         then Err (RunnerError_new ''network_policy_denied''
                ''fork/public jobs are network-deny by default in Phase 4'')
         else Ok (CoreDeny, reasons @ [''network=deny-untrusted'']))
      else if cj_trust_tier job = T0ReleaseHermetic then
        (if cj_network_policy job \<noteq> CoreDeny
         then Err (RunnerError_new ''network_policy_denied''
                ''release-hermetic jobs require network deny'')
         else Ok (CoreDeny, reasons @ [''network=deny-release-hermetic'']))
      else if cj_trust_tier job = T3AgentAuthored then
        (if cj_network_policy job = EgressOnly
         then Err (RunnerError_new ''network_policy_denied''
                ''agent jobs may not request egress in Phase 4'')
         else Ok (cj_network_policy job,
                reasons @ [''network='' @ core_network_as_str (cj_network_policy job)]))
      else Ok (cj_network_policy job,
             reasons @ [if runner = CoreNativeRustHot \<and> cj_network_policy job = EgressOnly
                        then ''network=egress-native-hot-explicit''
                        else ''network='' @ core_network_as_str (cj_network_policy job)]))"

definition effective_secrets :: "CoreJob \<Rightarrow> string list \<Rightarrow> bool \<times> string list" where
  "effective_secrets job reasons =
     (let allowed = (case cj_secret_policy job of
            SecretNone \<Rightarrow> False
          | SecretDefault \<Rightarrow> permits_default_secrets (cj_trust_tier job)
          | SecretRequested \<Rightarrow> permits_default_secrets (cj_trust_tier job))
      in (allowed, reasons @ [''secrets_allowed='' @ show_bool allowed]))"

definition effective_token :: "CoreJob \<Rightarrow> string list \<Rightarrow> CoreToken \<times> string list" where
  "effective_token job reasons =
     (let policy = (if cj_trust_tier job \<in> {T4ForkPr, T5PublicUntrusted} then TokenReadOnly
          else if cj_trust_tier job = T3AgentAuthored
          then (if cj_token_policy job = TokenScopedWrite then TokenScopedWrite else TokenReadOnly)
          else cj_token_policy job)
      in (policy, reasons @ [''token_policy='' @ core_token_as_str policy]))"

fun tier_cache_policy :: "CoreTier \<Rightarrow> CacheWritePolicy" where
  "tier_cache_policy T0ReleaseHermetic = CacheDeny"
| "tier_cache_policy T1ProtectedInternal = TrustedAfterGreen"
| "tier_cache_policy T2InternalBranch = CacheQuarantine"
| "tier_cache_policy T3AgentAuthored = CacheQuarantine"
| "tier_cache_policy T4ForkPr = CacheDeny"
| "tier_cache_policy T5PublicUntrusted = CacheDeny"

definition effective_jeryu_cache_policy :: "CoreTier \<Rightarrow> string list \<Rightarrow> CacheWritePolicy \<times> string list" where
  "effective_jeryu_cache_policy tier reasons =
     (let policy = tier_cache_policy tier
      in (policy, reasons @ [''cache_write='' @ cache_write_as_str policy]))"

definition select_runner :: "CoreJob \<Rightarrow> PolicyDecision runner_result" where
  "select_runner job =
     (let reasons = [''trust_tier='' @ core_tier_as_str (cj_trust_tier job)]
            @ (if cj_fork job then [''fork=true''] else []) in
      and_then (choose_runner job (cj_requested_runner job) reasons) (\<lambda>(runner, reasons).
      and_then (assert_native_invariants (cj_trust_tier job) runner) (\<lambda>_.
      and_then (effective_network job runner reasons) (\<lambda>(network, reasons).
      (let (secrets, reasons) = effective_secrets job reasons;
           (token, reasons) = effective_token job reasons;
           (cache, reasons) = effective_jeryu_cache_policy (cj_trust_tier job) reasons
       in Ok \<lparr>pd_runner_class = runner, pd_network_policy = network, pd_allow_secrets = secrets,
              pd_token_policy = token, pd_cache_write_policy = cache, pd_reasons = reasons\<rparr>)))))"

section \<open>Sandbox plans\<close>

type_synonym u16 = "16 word"

record CgroupLimits =
  cg_memory_max_bytes :: u64
  cg_cpu_weight :: u16
  cg_pids_max :: u32
  cg_io_weight :: u16

fun cgroup_default_for :: "CoreClass \<Rightarrow> CgroupLimits" where
  "cgroup_default_for CoreNativeRustHot =
     \<lparr>cg_memory_max_bytes = 8 * 1024 * 1024 * 1024, cg_cpu_weight = 200, cg_pids_max = 2048,
      cg_io_weight = 200\<rparr>"
| "cgroup_default_for CoreNativeRustClean =
     \<lparr>cg_memory_max_bytes = 6 * 1024 * 1024 * 1024, cg_cpu_weight = 150, cg_pids_max = 1536,
      cg_io_weight = 150\<rparr>"
| "cgroup_default_for CoreAgentGuard =
     \<lparr>cg_memory_max_bytes = 6 * 1024 * 1024 * 1024, cg_cpu_weight = 150, cg_pids_max = 1536,
      cg_io_weight = 150\<rparr>"
| "cgroup_default_for CoreReleaseHermetic =
     \<lparr>cg_memory_max_bytes = 8 * 1024 * 1024 * 1024, cg_cpu_weight = 100, cg_pids_max = 1024,
      cg_io_weight = 100\<rparr>"
| "cgroup_default_for CoreMicroVmRust =
     \<lparr>cg_memory_max_bytes = 4 * 1024 * 1024 * 1024, cg_cpu_weight = 100, cg_pids_max = 1024,
      cg_io_weight = 100\<rparr>"
| "cgroup_default_for CoreOciDocker =
     \<lparr>cg_memory_max_bytes = 4 * 1024 * 1024 * 1024, cg_cpu_weight = 100, cg_pids_max = 1024,
      cg_io_weight = 100\<rparr>"

record SeccompProfile =
  sc_name :: string
  sc_default_action :: string
  sc_allow_groups :: "string list"

definition seccomp_default_for :: "CoreClass \<Rightarrow> SeccompProfile" where
  "seccomp_default_for c =
     \<lparr>sc_name = core_class_as_str c @ ''-phase4-seccomp'',
      sc_default_action = ''kill-process'',
      sc_allow_groups =
        [''process-basic'', ''file-readwrite-workspace'', ''futex'', ''time'']
        @ (if c = CoreNativeRustHot \<or> c = CoreNativeRustClean then [''rust-build-tooling''] else [])\<rparr>"

record LandlockRule =
  ll_path :: string
  ll_read :: bool
  ll_write :: bool
  ll_execute :: bool

record MountSpec =
  mt_source :: string
  mt_target :: string
  mt_read_only :: bool

record SandboxPlan =
  sp_runner_class :: CoreClass
  sp_user_namespace :: bool
  sp_mount_namespace :: bool
  sp_pid_namespace :: bool
  sp_network_policy :: CoreNetwork
  sp_cgroup_limits :: CgroupLimits
  sp_seccomp :: SeccompProfile
  sp_landlock_rules :: "LandlockRule list"
  sp_mounts :: "MountSpec list"
  sp_allow_secrets :: bool
  sp_cache_write_policy :: CacheWritePolicy
  sp_require_cgroup :: bool

definition local_toolchain_rules :: "LandlockRule list" where
  "local_toolchain_rules =
     map (\<lambda>(path, execute). \<lparr>ll_path = path, ll_read = True, ll_write = False, ll_execute = execute\<rparr>)
       [(''/home/ubuntu/.cargo/bin'', True),
        (''/home/ubuntu/.cargo/config.toml'', False),
        (''/home/ubuntu/.cargo/git/db'', False),
        (''/home/ubuntu/.cargo/git/checkouts'', False),
        (''/home/ubuntu/.cargo/registry'', False),
        (''/home/ubuntu/.rustup'', True),
        (''/home/ubuntu/.local/bin'', True)]"

definition from_decision :: "string \<Rightarrow> PolicyDecision \<Rightarrow> SandboxPlan" where
  "from_decision workspace d =
     \<lparr>sp_runner_class = pd_runner_class d,
      sp_user_namespace = True, sp_mount_namespace = True, sp_pid_namespace = True,
      sp_network_policy = pd_network_policy d,
      sp_cgroup_limits = cgroup_default_for (pd_runner_class d),
      sp_seccomp = seccomp_default_for (pd_runner_class d),
      sp_landlock_rules =
        [\<lparr>ll_path = workspace, ll_read = True, ll_write = True, ll_execute = True\<rparr>,
         \<lparr>ll_path = ''/nix/store'', ll_read = True, ll_write = False, ll_execute = True\<rparr>,
         \<lparr>ll_path = ''/usr'', ll_read = True, ll_write = False, ll_execute = True\<rparr>,
         \<lparr>ll_path = ''/dev/null'', ll_read = True, ll_write = True, ll_execute = False\<rparr>]
        @ local_toolchain_rules,
      sp_mounts =
        [\<lparr>mt_source = workspace, mt_target = ''/workspace'', mt_read_only = False\<rparr>,
         \<lparr>mt_source = ''/usr'', mt_target = ''/usr'', mt_read_only = True\<rparr>]
        @ map (\<lambda>rule. \<lparr>mt_source = ll_path rule, mt_target = ll_path rule, mt_read_only = True\<rparr>)
            local_toolchain_rules,
      sp_allow_secrets = pd_allow_secrets d,
      sp_cache_write_policy = pd_cache_write_policy d,
      sp_require_cgroup = False\<rparr>"

definition with_require_cgroup :: "bool \<Rightarrow> SandboxPlan \<Rightarrow> SandboxPlan" where
  "with_require_cgroup require plan = plan\<lparr>sp_require_cgroup := require\<rparr>"

definition sandbox_explain :: "SandboxPlan \<Rightarrow> string" where
  "sandbox_explain p =
     ''runner='' @ core_class_as_str (sp_runner_class p)
     @ '' net='' @ core_network_as_str (sp_network_policy p)
     @ '' secrets='' @ show_bool (sp_allow_secrets p)
     @ '' cache='' @ cache_write_as_str (sp_cache_write_policy p)
     @ '' seccomp='' @ sc_name (sp_seccomp p)"

section \<open>Properties\<close>

text \<open>Which requests the policy admits: the exact conditions of the three checks.\<close>

definition runner_admissible :: "CoreTier \<Rightarrow> CoreClass \<Rightarrow> bool" where
  "runner_admissible tier c \<longleftrightarrow>
     (case tier of
        T4ForkPr \<Rightarrow> c = CoreMicroVmRust \<or> c = CoreOciDocker
      | T5PublicUntrusted \<Rightarrow> c = CoreMicroVmRust
      | _ \<Rightarrow> c = CoreNativeRustHot \<longrightarrow> tier = T1ProtectedInternal)"

definition network_admissible :: "CoreTier \<Rightarrow> CoreNetwork \<Rightarrow> bool" where
  "network_admissible tier n \<longleftrightarrow>
     (case tier of
        T4ForkPr \<Rightarrow> n = CoreDeny | T5PublicUntrusted \<Rightarrow> n = CoreDeny
      | T0ReleaseHermetic \<Rightarrow> n = CoreDeny | T3AgentAuthored \<Rightarrow> n \<noteq> EgressOnly | _ \<Rightarrow> True)"

lemma requested_admissible:
  "validate_requested tier c = Ok () \<and> assert_native_invariants tier c = Ok () \<longleftrightarrow> runner_admissible tier c"
  by (cases tier; cases c)
    (simp_all add: validate_requested_def assert_native_invariants_def runner_admissible_def)

lemma default_admissible:
  "runner_admissible tier (default_runner tier) \<and> assert_native_invariants tier (default_runner tier) = Ok ()"
  by (cases tier) (simp_all add: assert_native_invariants_def runner_admissible_def)

lemma effective_network_Ok:
  "(\<exists>rs'. effective_network job c rs = Ok (n, rs'))
     \<longleftrightarrow> network_admissible (cj_trust_tier job) (cj_network_policy job) \<and> n = cj_network_policy job"
  by (cases "cj_trust_tier job") (auto simp: effective_network_def network_admissible_def)

text \<open>The class that a job gets when it is admitted.\<close>

definition chosen_class :: "CoreJob \<Rightarrow> CoreClass" where
  "chosen_class job =
     (case cj_requested_runner job of None \<Rightarrow> default_runner (cj_trust_tier job) | Some c \<Rightarrow> c)"

lemma choose_runner_admitted:
  "(\<exists>rs'. choose_runner job (cj_requested_runner job) rs = Ok (c, rs'))
     \<and> assert_native_invariants (cj_trust_tier job) c = Ok ()
   \<longleftrightarrow> c = chosen_class job \<and> runner_admissible (cj_trust_tier job) c"
  using requested_admissible [of "cj_trust_tier job" c] default_admissible [of "cj_trust_tier job"]
  by (auto simp: choose_runner_def chosen_class_def Let_def split: option.splits)

definition select_admissible :: "CoreJob \<Rightarrow> bool" where
  "select_admissible job \<longleftrightarrow>
     runner_admissible (cj_trust_tier job) (chosen_class job)
   \<and> network_admissible (cj_trust_tier job) (cj_network_policy job)"

lemma select_runner_steps:
  "select_runner job = Ok d \<longleftrightarrow>
     (\<exists>rs0 c rs1 n rs2. rs0 = [''trust_tier='' @ core_tier_as_str (cj_trust_tier job)]
            @ (if cj_fork job then [''fork=true''] else [])
       \<and> choose_runner job (cj_requested_runner job) rs0 = Ok (c, rs1)
       \<and> assert_native_invariants (cj_trust_tier job) c = Ok ()
       \<and> effective_network job c rs1 = Ok (n, rs2)
       \<and> d = \<lparr>pd_runner_class = c, pd_network_policy = n,
              pd_allow_secrets = fst (effective_secrets job rs2),
              pd_token_policy = fst (effective_token job rs2),
              pd_cache_write_policy = tier_cache_policy (cj_trust_tier job),
              pd_reasons = snd (effective_jeryu_cache_policy (cj_trust_tier job)
                 (snd (effective_token job (snd (effective_secrets job rs2)))))\<rparr>)"
  by (auto simp: select_runner_def Let_def split_beta effective_token_def effective_secrets_def
      effective_jeryu_cache_policy_def)

lemma select_runner_admitted: "(\<exists>d. select_runner job = Ok d) \<longleftrightarrow> select_admissible job"
proof
  assume "\<exists>d. select_runner job = Ok d"
  then obtain c rs0 rs1 n rs2 where "choose_runner job (cj_requested_runner job) rs0 = Ok (c, rs1)"
    and "assert_native_invariants (cj_trust_tier job) c = Ok ()"
    and "effective_network job c rs1 = Ok (n, rs2)"
    unfolding select_runner_steps by blast
  then show "select_admissible job"
    using choose_runner_admitted [of job rs0 c] effective_network_Ok [of job c rs1 n]
    by (auto simp: select_admissible_def)
next
  assume adm: "select_admissible job"
  let ?rs = "[''trust_tier='' @ core_tier_as_str (cj_trust_tier job)]
            @ (if cj_fork job then [''fork=true''] else [])"
  obtain rs1 where "choose_runner job (cj_requested_runner job) ?rs = Ok (chosen_class job, rs1)"
    and "assert_native_invariants (cj_trust_tier job) (chosen_class job) = Ok ()"
    using adm choose_runner_admitted [of job ?rs "chosen_class job"] by (auto simp: select_admissible_def)
  moreover obtain rs2 where
    "effective_network job (chosen_class job) rs1 = Ok (cj_network_policy job, rs2)"
    using adm effective_network_Ok [of job "chosen_class job" rs1] by (auto simp: select_admissible_def)
  ultimately show "\<exists>d. select_runner job = Ok d"
    unfolding select_runner_steps by blast
qed

lemma select_runner_fields:
  assumes "select_runner job = Ok d"
  shows "pd_runner_class d = chosen_class job" and "pd_network_policy d = cj_network_policy job"
    and "pd_allow_secrets d \<longleftrightarrow> cj_secret_policy job \<noteq> SecretNone \<and> permits_default_secrets (cj_trust_tier job)"
    and "pd_token_policy d = (case cj_trust_tier job of T4ForkPr \<Rightarrow> TokenReadOnly | T5PublicUntrusted \<Rightarrow> TokenReadOnly
           | T3AgentAuthored \<Rightarrow> (if cj_token_policy job = TokenScopedWrite then TokenScopedWrite else TokenReadOnly)
           | _ \<Rightarrow> cj_token_policy job)"
    and "pd_cache_write_policy d = tier_cache_policy (cj_trust_tier job)"
proof -
  obtain c rs0 rs1 n rs2 where ch: "choose_runner job (cj_requested_runner job) rs0 = Ok (c, rs1)"
    "assert_native_invariants (cj_trust_tier job) c = Ok ()"
    and n: "effective_network job c rs1 = Ok (n, rs2)"
    and d: "pd_runner_class d = c" "pd_network_policy d = n"
      "pd_allow_secrets d = fst (effective_secrets job rs2)"
      "pd_token_policy d = fst (effective_token job rs2)"
      "pd_cache_write_policy d = tier_cache_policy (cj_trust_tier job)"
    using assms unfolding select_runner_steps by (elim exE conjE) simp
  show "pd_runner_class d = chosen_class job"
    using d ch choose_runner_admitted [of job rs0 c] by blast
  show "pd_network_policy d = cj_network_policy job"
    using d n effective_network_Ok [of job c rs1 n] by blast
  show "pd_allow_secrets d \<longleftrightarrow> cj_secret_policy job \<noteq> SecretNone \<and> permits_default_secrets (cj_trust_tier job)"
    by (simp add: d effective_secrets_def Let_def split: CoreSecret.split)
  show "pd_token_policy d = (case cj_trust_tier job of T4ForkPr \<Rightarrow> TokenReadOnly | T5PublicUntrusted \<Rightarrow> TokenReadOnly
           | T3AgentAuthored \<Rightarrow> (if cj_token_policy job = TokenScopedWrite then TokenScopedWrite else TokenReadOnly)
           | _ \<Rightarrow> cj_token_policy job)"
    by (simp add: d effective_token_def Let_def split: CoreTier.split)
  show "pd_cache_write_policy d = tier_cache_policy (cj_trust_tier job)" by (rule d(5))
qed

text \<open>
  A runner is selected exactly for the admissible jobs: the requested class, or the tier's
  default, is one the tier may use, and the requested network is one the tier may have. The
  decision then grants that class and that network, secrets only at the tiers that permit them
  and only if asked for, a token never above the tier's, and the cache policy of the tier; trusted
  cache writes are granted at the protected tier alone.
\<close>

theorem select_runner_exact:
  "case select_runner job of
     Inl e \<Rightarrow> \<not> (runner_admissible (cj_trust_tier job) (chosen_class job)
                \<and> network_admissible (cj_trust_tier job) (cj_network_policy job))
   | Inr d \<Rightarrow> runner_admissible (cj_trust_tier job) (chosen_class job)
       \<and> network_admissible (cj_trust_tier job) (cj_network_policy job)
       \<and> pd_runner_class d = chosen_class job \<and> pd_network_policy d = cj_network_policy job
       \<and> (pd_allow_secrets d \<longleftrightarrow>
            cj_secret_policy job \<noteq> SecretNone \<and> permits_default_secrets (cj_trust_tier job))
       \<and> pd_token_policy d = (case cj_trust_tier job of T4ForkPr \<Rightarrow> TokenReadOnly
           | T5PublicUntrusted \<Rightarrow> TokenReadOnly
           | T3AgentAuthored \<Rightarrow> (if cj_token_policy job = TokenScopedWrite then TokenScopedWrite
               else TokenReadOnly)
           | _ \<Rightarrow> cj_token_policy job)
       \<and> (pd_cache_write_policy d = TrustedAfterGreen \<longleftrightarrow> permits_trusted_cache_write (cj_trust_tier job))"
proof (cases "select_runner job")
  case (Inl e)
  then show ?thesis
    using select_runner_admitted [of job] by (simp add: select_admissible_def)
next
  case (Inr d)
  have trusted: "tier_cache_policy t = TrustedAfterGreen \<longleftrightarrow> permits_trusted_cache_write t" for t
    by (cases t) simp_all
  have "select_admissible job" using select_runner_admitted Inr by blast
  then show ?thesis
    using Inr select_runner_fields [OF Inr] trusted by (simp add: select_admissible_def)
qed

subsection \<open>Confinement\<close>

lemma sandbox_writes:
  "map ll_path (filter ll_write (sp_landlock_rules (from_decision w d))) = [w, ''/dev/null'']"
  "map mt_source (filter (\<lambda>m. \<not> mt_read_only m) (sp_mounts (from_decision w d))) = [w]"
  by (simp_all add: from_decision_def local_toolchain_rules_def)

text \<open>
  A job read from a file and admitted at an untrusted tier is confined: it never runs on a
  native class, gets no network, no secrets, a read-only token and no compiled-cache writes; its
  sandbox has its own namespaces and kills on a disallowed system call, the only writable mount
  is its workspace, only that and the null device are writable under Landlock, and the workspace
  is none of the denied host paths.
\<close>

theorem untrusted_job_confined:
  assumes "from_key_value input = Ok job" and "select_runner job = Ok d"
    and "cj_trust_tier job = T4ForkPr \<or> cj_trust_tier job = T5PublicUntrusted"
  shows "\<not> class_is_native (pd_runner_class d) \<and> pd_token_policy d = TokenReadOnly
       \<and> (let plan = from_decision (cj_workspace job) d in
            sp_network_policy plan = CoreDeny \<and> \<not> sp_allow_secrets plan
          \<and> sp_cache_write_policy plan = CacheDeny
          \<and> sp_user_namespace plan \<and> sp_mount_namespace plan \<and> sp_pid_namespace plan
          \<and> sc_default_action (sp_seccomp plan) = ''kill-process''
          \<and> map mt_source (filter (\<lambda>m. \<not> mt_read_only m) (sp_mounts plan)) = [cj_workspace job]
          \<and> map ll_path (filter ll_write (sp_landlock_rules plan)) = [cj_workspace job, ''/dev/null''])
       \<and> cj_workspace job \<notin> set DENIED_HOST_PATHS"
proof -
  have adm: "select_admissible job" using select_runner_admitted assms(2) by blast
  have "job_validate job = Ok ()"
    using assms(1) by (auto simp: from_key_value_def)
  then have "validate_workspace_path (cj_workspace job) = Ok ()"
    by (auto simp: job_validate_def split: if_splits)
  then have "cj_workspace job \<notin> set DENIED_HOST_PATHS"
    using workspace_ok [of "cj_workspace job"] by (auto simp: list_all_iff)
  moreover have "\<not> class_is_native (chosen_class job)" "cj_network_policy job = CoreDeny"
    using adm assms(3)
    by (auto simp: select_admissible_def runner_admissible_def network_admissible_def)
  ultimately show ?thesis
    using assms(3) select_runner_fields [OF assms(2)] sandbox_writes [of "cj_workspace job" d]
    by (auto simp: from_decision_def seccomp_default_for_def Let_def)
qed

theorem untrusted_job_confined_witness:
  "\<exists>job d. from_key_value minimal_file = Ok job \<and> select_runner job = Ok d
     \<and> pd_runner_class d = CoreMicroVmRust \<and> \<not> class_is_native (pd_runner_class d)
     \<and> sp_network_policy (from_decision (cj_workspace job) d) = CoreDeny"
proof -
  let ?job = "\<lparr>cj_job_id = ''j'', cj_repo_id = ''r'', cj_commit_sha = ''c'', cj_workspace = ''/tmp/work'',
        cj_command = ''make'', cj_args = [], cj_env = [(''CI'', ''1'')],
        cj_trust_tier = T5PublicUntrusted, cj_requested_runner = None, cj_network_policy = CoreDeny,
        cj_secret_policy = SecretDefault, cj_token_policy = TokenReadOnly, cj_timeout_ms = 600000,
        cj_fork = False\<rparr>"
  have read: "from_key_value minimal_file = Ok ?job" by code_simp
  have "select_admissible ?job" by code_simp
  then obtain d where sel: "select_runner ?job = Ok d" using select_runner_admitted by blast
  have "pd_runner_class d = CoreMicroVmRust"
    using select_runner_fields(1) [OF sel] by (simp add: chosen_class_def)
  with untrusted_job_confined [OF read sel] read sel show ?thesis by (auto simp: Let_def)
qed

end
