(* ===== verification/Runner_Receipt.thy ===== *)
theory Runner_Receipt
  imports Runner_Policy
begin

text \<open>
  \<open>jeryu-runner-core\<close>, part three: dispatch receipts and their JSON form (\<open>receipt.rs\<close>). The
  clock \<open>now_ms\<close> is an argument of the one operation that reads it.
\<close>

type_synonym u128 = "128 word"

datatype ReceiptStatus = RcPlanned | RcPassed | RcFailed | RcTimedOut | RcDenied

fun receipt_status_as_str :: "ReceiptStatus \<Rightarrow> string" where
  "receipt_status_as_str RcPlanned = ''planned''"
| "receipt_status_as_str RcPassed = ''passed''"
| "receipt_status_as_str RcFailed = ''failed''"
| "receipt_status_as_str RcTimedOut = ''timed_out''"
| "receipt_status_as_str RcDenied = ''denied''"

record DispatchReceipt =
  dr_receipt_id :: string
  dr_job_id :: string
  dr_repo_id :: string
  dr_commit_sha :: string
  dr_runner_class :: string
  dr_trust_tier :: string
  dr_status :: ReceiptStatus
  dr_exit_code :: "32 word option"
  dr_started_ms :: u128
  dr_finished_ms :: u128
  dr_reasons :: "string list"
  dr_sandbox :: string
  dr_message :: string

definition dispatch_receipt_new ::
  "CoreJob \<Rightarrow> PolicyDecision \<Rightarrow> SandboxPlan \<Rightarrow> ReceiptStatus \<Rightarrow> 32 word option \<Rightarrow> u128 \<Rightarrow> u128 \<Rightarrow> string
     \<Rightarrow> DispatchReceipt" where
  "dispatch_receipt_new job d plan status exit started finished message =
     \<lparr>dr_receipt_id = ''rcpt_'' @ cj_job_id job @ ''_''
        @ replace_char (CHR ''-'') ''_'' (core_class_as_str (pd_runner_class d)) @ ''_''
        @ show_word finished,
      dr_job_id = cj_job_id job, dr_repo_id = cj_repo_id job, dr_commit_sha = cj_commit_sha job,
      dr_runner_class = core_class_as_str (pd_runner_class d),
      dr_trust_tier = core_tier_as_str (cj_trust_tier job),
      dr_status = status, dr_exit_code = exit, dr_started_ms = started, dr_finished_ms = finished,
      dr_reasons = pd_reasons d, dr_sandbox = sandbox_explain plan, dr_message = message\<rparr>"

definition dispatch_receipt_denied :: "u128 \<Rightarrow> CoreJob \<Rightarrow> string \<Rightarrow> DispatchReceipt" where
  "dispatch_receipt_denied now job message =
     \<lparr>dr_receipt_id = ''rcpt_'' @ cj_job_id job @ ''_denied_'' @ show_word now,
      dr_job_id = cj_job_id job, dr_repo_id = cj_repo_id job, dr_commit_sha = cj_commit_sha job,
      dr_runner_class = ''denied'', dr_trust_tier = core_tier_as_str (cj_trust_tier job),
      dr_status = RcDenied, dr_exit_code = None, dr_started_ms = now, dr_finished_ms = now,
      dr_reasons = [''policy_denied''], dr_sandbox = ''none'', dr_message = message\<rparr>"

section \<open>JSON\<close>

abbreviation DQ :: char where "DQ \<equiv> CHR 0x22"

text \<open>
  One character of \<open>escape_json\<close>: the text it becomes, and how many bytes it takes beyond its
  first. The control characters U+0080 to U+009F are two bytes in UTF-8.
\<close>

definition json_unicode :: "nat \<Rightarrow> string" where
  "json_unicode n = [BSL, CHR ''u''] @ hex_pad 4 n"

definition json_char :: "char \<Rightarrow> string \<Rightarrow> string \<times> nat" where
  "json_char c s =
     (if c = BSL then ([BSL, BSL], 0)
      else if c = DQ then ([BSL, DQ], 0)
      else if c = NL then ([BSL, CHR ''n''], 0)
      else if c = CHR 0x0D then ([BSL, CHR ''r''], 0)
      else if c = CHR 0x09 then ([BSL, CHR ''t''], 0)
      else if (of_char c :: nat) < 32 \<or> (of_char c :: nat) = 127 then (json_unicode (of_char c), 0)
      else if (of_char c :: nat) = 194 \<and> s \<noteq> [] \<and> 128 \<le> (of_char (hd s) :: nat)
                \<and> (of_char (hd s) :: nat) \<le> 159
        then (json_unicode (of_char (hd s)), 1)
      else ([c], 0))"

function escape_json :: "string \<Rightarrow> string" where
  "escape_json [] = []"
| "escape_json (c # s) = fst (json_char c s) @ escape_json (drop (snd (json_char c s)) s)"
  by pat_completeness auto
termination by (relation "measure length") auto

definition json_key :: "string \<Rightarrow> string" where
  "json_key k = [DQ] @ k @ [DQ] @ '':''"

definition json_text :: "string \<Rightarrow> string" where
  "json_text v = [DQ] @ escape_json v @ [DQ]"

definition json_exit_code :: "32 word option \<Rightarrow> string" where
  "json_exit_code c = (case c of None \<Rightarrow> ''null'' | Some n \<Rightarrow> show_int (sint n))"

definition receipt_to_json :: "DispatchReceipt \<Rightarrow> string" where
  "receipt_to_json r =
     ''{''
     @ json_key ''receipt_id'' @ json_text (dr_receipt_id r) @ '',''
     @ json_key ''job_id'' @ json_text (dr_job_id r) @ '',''
     @ json_key ''repo_id'' @ json_text (dr_repo_id r) @ '',''
     @ json_key ''commit_sha'' @ json_text (dr_commit_sha r) @ '',''
     @ json_key ''runner_class'' @ json_text (dr_runner_class r) @ '',''
     @ json_key ''trust_tier'' @ json_text (dr_trust_tier r) @ '',''
     @ json_key ''status'' @ [DQ] @ receipt_status_as_str (dr_status r) @ [DQ] @ '',''
     @ json_key ''exit_code'' @ json_exit_code (dr_exit_code r) @ '',''
     @ json_key ''started_ms'' @ show_word (dr_started_ms r) @ '',''
     @ json_key ''finished_ms'' @ show_word (dr_finished_ms r) @ '',''
     @ json_key ''reasons'' @ ''['' @ join '','' (map json_text (dr_reasons r)) @ '']'' @ '',''
     @ json_key ''sandbox'' @ json_text (dr_sandbox r) @ '',''
     @ json_key ''message'' @ json_text (dr_message r)
     @ ''}''"

section \<open>Properties\<close>

lemma json_unicode_inject:
  "m < 256 \<Longrightarrow> n < 256 \<Longrightarrow> json_unicode m @ x = json_unicode n @ y \<longleftrightarrow> m = n \<and> x = y"
  using hex_pad_inject [of m 4 n] by (auto simp: json_unicode_def)

lemma json_char_head: "\<exists>h t. fst (json_char c s) = h # t \<and> h \<noteq> DQ"
  by (auto simp: json_char_def json_unicode_def)

lemma of_char_256: "(of_char c :: nat) < 256"
  by (simp add: of_char_def unsigned_less)

text \<open>The three shapes of an escaped character.\<close>

definition json_short :: "char \<Rightarrow> char" where
  "json_short c = (if c = NL then CHR ''n'' else if c = CHR 0x0D then CHR ''r''
     else if c = CHR 0x09 then CHR ''t'' else c)"

lemma json_char_shape:
  obtains (short) "c \<in> {BSL, DQ, NL, CHR 0x0D, CHR 0x09}" "json_char c s = ([BSL, json_short c], 0)"
  | (ascii) "(of_char c :: nat) < 128" "json_char c s = (json_unicode (of_char c), 0)"
  | (latin) u v where "c = char_of (194 :: nat)" "s = u # v" "128 \<le> (of_char u :: nat)"
      "json_char c s = (json_unicode (of_char u), 1)"
  | (raw) "c \<noteq> BSL" "c \<noteq> DQ" "json_char c s = ([c], 0)"
proof -
  consider "c \<in> {BSL, DQ, NL, CHR 0x0D, CHR 0x09}" | "c \<notin> {BSL, DQ, NL, CHR 0x0D, CHR 0x09}" by blast
  then show thesis
  proof cases
    case 1
    then show thesis by (intro short) (auto simp: json_char_def json_short_def)
  next
    case 2
    show thesis
    proof (cases "(of_char c :: nat) < 32 \<or> (of_char c :: nat) = 127")
      case True
      with 2 show thesis by (intro ascii) (auto simp: json_char_def)
    next
      case False
      show thesis
      proof (cases "json_char c s = ([c], 0)")
        case True
        with 2 show thesis by (intro raw) auto
      next
        case False': False
        then have c: "(of_char c :: nat) = 194" "s \<noteq> []" "128 \<le> (of_char (hd s) :: nat)"
          "json_char c s = (json_unicode (of_char (hd s)), 1)"
          using 2 False by (auto simp: json_char_def split: if_splits)
        have "c = char_of (194 :: nat)" using c(1) by (metis char_of_char)
        with c show thesis by (intro latin [of "hd s" "tl s"]) simp_all
      qed
    qed
  qed
qed

lemma json_short_inject:
  "c \<in> {BSL, DQ, NL, CHR 0x0D, CHR 0x09} \<Longrightarrow> d \<in> {BSL, DQ, NL, CHR 0x0D, CHR 0x09} \<Longrightarrow>
     json_short c = json_short d \<Longrightarrow> c = d"
  by (auto simp: json_short_def)

lemma json_short_not_u: "c \<in> {BSL, DQ, NL, CHR 0x0D, CHR 0x09} \<Longrightarrow> json_short c \<noteq> CHR ''u''"
  by (auto simp: json_short_def)

lemma json_unicode_Cons: "json_unicode n @ x = BSL # CHR ''u'' # hex_pad 4 n @ x"
  by (simp add: json_unicode_def)

lemma json_char_inject:
  assumes "fst (json_char c s) @ x = fst (json_char d t) @ y"
  shows "c = d \<and> x = y \<and> snd (json_char c s) = snd (json_char d t)
       \<and> take (snd (json_char c s)) s = take (snd (json_char d t)) t"
proof (cases rule: json_char_shape [where c = c and s = s])
  case short
  then show ?thesis
  proof (cases rule: json_char_shape [where c = d and s = t])
    case short': short
    with short assms show ?thesis using json_short_inject [of c d] by simp
  qed (use assms json_short_not_u [of c] in \<open>auto simp: json_unicode_Cons\<close>)
next
  case ascii
  then show ?thesis
  proof (cases rule: json_char_shape [where c = d and s = t])
    case short
    with ascii assms show ?thesis using json_short_not_u [of d] by (auto simp: json_unicode_Cons)
  next
    case raw
    with ascii assms show ?thesis by (auto simp: json_unicode_Cons)
  qed (use assms in \<open>auto simp: json_unicode_inject of_char_256\<close>)
next
  case (latin u v)
  then show ?thesis
  proof (cases rule: json_char_shape [where c = d and s = t])
    case short
    with latin assms show ?thesis using json_short_not_u [of d] by (auto simp: json_unicode_Cons)
  next
    case raw
    with latin assms show ?thesis by (auto simp: json_unicode_Cons)
  qed (use assms latin in \<open>auto simp: json_unicode_inject of_char_256\<close>)
next
  case raw
  then show ?thesis
    by (cases rule: json_char_shape [where c = d and s = t]) (use assms in \<open>auto simp: json_unicode_Cons\<close>)
qed

lemma escape_json_inject:
  "escape_json v @ DQ # r = escape_json w @ DQ # r' \<longleftrightarrow> v = w \<and> r = r'"
proof
  show "escape_json v @ DQ # r = escape_json w @ DQ # r' \<Longrightarrow> v = w \<and> r = r'"
  proof (induction v arbitrary: w rule: escape_json.induct)
    case 1
    then show ?case
    proof (cases w)
      case (Cons d t)
      then show ?thesis using 1 json_char_head [of d t] by auto
    qed simp
  next
    case (2 c s)
    show ?case
    proof (cases w)
      case Nil
      then show ?thesis using 2(2) json_char_head [of c s] by auto
    next
      case (Cons d t)
      let ?n = "snd (json_char c s)" and ?m = "snd (json_char d t)"
      have eq: "fst (json_char c s) @ escape_json (drop ?n s) @ DQ # r
          = fst (json_char d t) @ escape_json (drop ?m t) @ DQ # r'"
        using 2(2) by (simp add: Cons)
      note j = json_char_inject [OF eq]
      then have "drop ?n s = drop ?m t \<and> r = r'" by (elim conjE) (rule 2(1))
      with j have "take ?n s @ drop ?n s = take ?m t @ drop ?m t"
        by (elim conjE) (simp only:)
      then have "s = t" by (simp only: append_take_drop_id)
      with j \<open>drop ?n s = drop ?m t \<and> r = r'\<close> show ?thesis by (simp add: Cons)
    qed
  qed
qed simp

lemma json_text_inject [simp]: "json_text v @ r = json_text w @ r' \<longleftrightarrow> v = w \<and> r = r'"
  using escape_json_inject by (simp add: json_text_def)

lemma json_text_Cons: "\<exists>t. json_text v = DQ # t"
  by (simp add: json_text_def)

text \<open>A list of texts, closed by a bracket, is read back unambiguously.\<close>

lemma json_texts_inject:
  "join '','' (map json_text vs) @ CHR '']'' # r = join '','' (map json_text ws) @ CHR '']'' # r'
     \<Longrightarrow> vs = ws \<and> r = r'"
proof (induction vs arbitrary: ws)
  case Nil
  then show ?case
  proof (cases ws)
    case (Cons w ws')
    then show ?thesis using Nil json_text_Cons [of w] by (cases ws') auto
  qed simp
next
  case (Cons v vs)
  show ?case
  proof (cases ws)
    case Nil
    then show ?thesis using Cons.prems json_text_Cons [of v] by (cases vs) auto
  next
    case ws: (Cons w ws')
    show ?thesis
    proof (cases "vs = [] \<or> ws' = []")
      case True
      then show ?thesis using Cons.prems by (cases vs; cases ws') (auto simp: ws)
    next
      case False
      then obtain a as b bs where l: "vs = a # as" "ws' = b # bs" by (meson neq_Nil_conv)
      have "v = w \<and> join '','' (map json_text vs) @ CHR '']'' # r
          = join '','' (map json_text ws') @ CHR '']'' # r'"
        using Cons.prems by (simp add: ws l)
      with Cons.IH [of ws'] show ?thesis by (simp add: ws)
    qed
  qed
qed

lemma status_label: "DQ \<notin> set (receipt_status_as_str s)"
  by (cases s) auto

lemma status_inject: "receipt_status_as_str s = receipt_status_as_str t \<Longrightarrow> s = t"
  by (cases s; cases t) auto

lemma digits_no_comma: "CHR '','' \<notin> set (show_word w)"
  using show_word_digits [of "CHR '',''" w] by (auto simp: is_ascii_digit_of_char)

lemma show_int_chars: "c \<in> set (show_int i) \<Longrightarrow> is_ascii_digit c \<or> c = CHR ''-''"
  by (auto simp: show_int_def dest: show_nat_digits split: if_splits)

lemma exit_code_no_comma: "CHR '','' \<notin> set (json_exit_code e)"
  using show_int_chars [of "CHR '',''"] by (auto simp: json_exit_code_def is_ascii_digit_of_char split: option.split)

lemma exit_code_inject: "json_exit_code a = json_exit_code b \<Longrightarrow> a = b"
proof -
  have n: "show_int i \<noteq> ''null''" for i
    using show_int_chars [of "CHR ''n''" i] by (auto simp: is_ascii_digit_of_char)
  assume "json_exit_code a = json_exit_code b"
  then show ?thesis
    using n n [symmetric] by (auto simp: json_exit_code_def signed_word_eqI split: option.split_asm)
qed

lemmas comma_sep = append_sep_inject [OF digits_no_comma digits_no_comma]
lemmas exit_sep = append_sep_inject [OF exit_code_no_comma exit_code_no_comma]
lemmas status_sep = append_sep_inject [OF status_label status_label]

text \<open>
  Receipts can be told apart by their text: two receipts have the same JSON text exactly
  when they are equal. No job id, reason or message, whatever quotes, backslashes or control
  characters it contains, can imitate another field.
\<close>

theorem receipt_json_injective: "receipt_to_json a = receipt_to_json b \<longleftrightarrow> a = b"
proof
  assume eq: "receipt_to_json a = receipt_to_json b"
  let ?tail = "\<lambda>r. '','' @ json_key ''sandbox'' @ json_text (dr_sandbox r) @ '',''
    @ json_key ''message'' @ json_text (dr_message r) @ ''}''"
  have head: "dr_receipt_id a = dr_receipt_id b \<and> dr_job_id a = dr_job_id b \<and> dr_repo_id a = dr_repo_id b
      \<and> dr_commit_sha a = dr_commit_sha b \<and> dr_runner_class a = dr_runner_class b
      \<and> dr_trust_tier a = dr_trust_tier b \<and> dr_status a = dr_status b \<and> dr_exit_code a = dr_exit_code b
      \<and> dr_started_ms a = dr_started_ms b \<and> dr_finished_ms a = dr_finished_ms b
      \<and> join '','' (map json_text (dr_reasons a)) @ CHR '']'' # ?tail a
        = join '','' (map json_text (dr_reasons b)) @ CHR '']'' # ?tail b"
    using eq status_inject exit_code_inject
    by (simp only: receipt_to_json_def append_Cons append_Nil list.inject same_append_eq simp_thms
        json_text_inject status_sep exit_sep comma_sep show_word_inject)
  then have "dr_reasons a = dr_reasons b \<and> ?tail a = ?tail b"
    by (elim conjE) (rule json_texts_inject)
  then have "dr_reasons a = dr_reasons b \<and> dr_sandbox a = dr_sandbox b \<and> dr_message a = dr_message b"
    by (simp only: append_Cons append_Nil list.inject same_append_eq simp_thms json_text_inject)
  with head show "a = b" by (elim conjE) (rule DispatchReceipt.equality, (assumption | simp)+)
qed simp

end
