(* ===== verification/Forge_Model.thy ===== *)
theory Forge_Model
  imports Rust_Text
begin

text \<open>
  The domain model of \<open>jeryu-core\<close>: \<open>model/pull_requests.rs\<close>, \<open>model/policy.rs\<close>,
  \<open>model/checks.rs\<close>, \<open>model/repo.rs\<close>, \<open>model/issues.rs\<close>, \<open>model/webhooks.rs\<close>,
  \<open>model/jankurai.rs\<close>, \<open>model/repository_custody.rs\<close>, \<open>model/repository_transfer.rs\<close>,
  \<open>model/auth.rs\<close> and \<open>errors.rs\<close>. One record per struct and one datatype per enum, in the
  order of the sources. A \<open>DateTime<Utc>\<close> is its number of nanoseconds since the epoch, a
  \<open>Uuid\<close> its 128 bits.
\<close>

type_synonym time = int
type_synonym uuid = "128 word"

section \<open>Errors\<close>

datatype ForgeError =
    Unauthenticated string | PreconditionRequired string | ForgeNotFound string
  | ForgeConflict string | Validation string | Forbidden string | WriterUnavailable string
  | BranchProtection string | Storage string

section \<open>Pull requests and reviews\<close>

datatype PullRequestState =
    PrDraft | PrOpen | PrReadyForReview | PrBlockedByPolicy | PrBlockedByChecks | PrApproved
  | PrQueued | PrSpeculativeMergeTesting | PrMergeable | PrMerged | PrClosed

record PullRequestCommit =
  pc_sha :: string
  pc_verified :: bool
  pc_parents :: u64

definition default_commit_parents :: u64 where
  "default_commit_parents = 1"

record GitBranchRef =
  gb_label :: string
  gb_ref_name :: string
  gb_sha :: string

definition GitBranchRef_new :: "string \<Rightarrow> string \<Rightarrow> GitBranchRef" where
  "GitBranchRef_new label sha =
     \<lparr>gb_label = label,
      gb_ref_name = (case split_once (CHR '':'') label of Some (_, branch) \<Rightarrow> branch | None \<Rightarrow> label),
      gb_sha = sha\<rparr>"

record ForgePull =
  fp_id :: uuid
  fp_owner :: string
  fp_repo :: string
  fp_number :: u64
  fp_issue_number :: u64
  fp_title :: string
  fp_body :: "string option"
  fp_state :: PullRequestState
  fp_draft :: bool
  fp_author :: string
  fp_source_repository :: string
  fp_head :: GitBranchRef
  fp_base :: GitBranchRef
  fp_mergeable :: bool
  fp_mergeable_state :: string
  fp_merged :: bool
  fp_merged_at :: "time option"
  fp_merge_commit_sha :: "string option"
  fp_commits :: "PullRequestCommit list"
  fp_changed_files :: "string list"
  fp_created_at :: time
  fp_updated_at :: time

record CreatePullRequestRequest =
  cpr_title :: string
  cpr_body :: "string option"
  cpr_head :: string
  cpr_base :: string
  cpr_head_sha :: "string option"
  cpr_base_sha :: "string option"
  cpr_source_repository :: "string option"
  cpr_draft :: bool
  cpr_commits :: "PullRequestCommit list"
  cpr_changed_files :: "string list"

record UpdatePullRequestRequest =
  upr_title :: "string option"
  upr_body :: "string option"
  upr_state :: "PullRequestState option"
  upr_draft :: "bool option"
  upr_commits :: "PullRequestCommit list option"
  upr_changed_files :: "string list option"

datatype ReviewState = RvApproved | RvChangesRequested | RvCommented | RvDismissed

record Review =
  rv_id :: uuid
  rv_owner :: string
  rv_repo :: string
  rv_pull_number :: u64
  rv_author :: string
  rv_state :: ReviewState
  rv_body :: "string option"
  rv_head_sha :: "string option"
  rv_dismissed_review_id :: "uuid option"
  rv_submitted_at :: time

record ReviewComment =
  rc_id :: uuid
  rc_review_id :: uuid
  rc_owner :: string
  rc_repo :: string
  rc_pull_number :: u64
  rc_path :: string
  rc_line :: "u64 option"
  rc_author :: string
  rc_body :: string
  rc_created_at :: time

record ReviewCommentInput =
  ri_path :: string
  ri_line :: "u64 option"
  ri_body :: string

record CreateReviewRequest =
  crr_body :: "string option"
  crr_event :: ReviewState
  crr_comments :: "ReviewCommentInput list"
  crr_expected_head_sha :: "string option"

record DismissReviewRequest =
  drr_review_id :: uuid
  drr_expected_head_sha :: string
  drr_reason :: string

section \<open>Branch protection rules\<close>

record BranchProtectionRule =
  bp_owner :: string
  bp_repo :: string
  bp_branch :: string
  bp_required_status_checks :: "string list"
  bp_required_approving_review_count :: u64
  bp_enforce_admins :: bool
  bp_required_linear_history :: bool
  bp_allow_force_pushes :: bool
  bp_allow_deletions :: bool
  bp_require_signed_commits :: bool
  bp_require_jankurai_proof :: bool
  bp_updated_at :: time

record SetBranchProtectionRequest =
  sbp_required_status_checks :: "string list"
  sbp_required_approving_review_count :: u64
  sbp_enforce_admins :: bool
  sbp_required_linear_history :: bool
  sbp_allow_force_pushes :: bool
  sbp_allow_deletions :: bool
  sbp_require_signed_commits :: bool
  sbp_require_jankurai_proof :: bool

section \<open>Statuses and check runs\<close>

datatype CommitStatusState = StError | StFailure | StPending | StSuccess

record CommitStatus =
  cs_id :: uuid
  cs_owner :: string
  cs_repo :: string
  cs_sha :: string
  cs_state :: CommitStatusState
  cs_context :: string
  cs_description :: "string option"
  cs_target_url :: "string option"
  cs_creator :: string
  cs_created_at :: time
  cs_updated_at :: time

record CreateCommitStatusRequest =
  ccs_state :: CommitStatusState
  ccs_context :: string
  ccs_description :: "string option"
  ccs_target_url :: "string option"

record CombinedStatus =
  cb_state :: CommitStatusState
  cb_total_count :: nat
  cb_statuses :: "CommitStatus list"

datatype CheckRunStatus = RunQueued | RunInProgress | RunCompleted

datatype CheckConclusion =
    CcActionRequired | CcCancelled | CcFailure | CcNeutral | CcSuccess | CcSkipped | CcSuperseded
  | CcTimedOut

fun check_conclusion_wire_value :: "CheckConclusion \<Rightarrow> string" where
  "check_conclusion_wire_value CcActionRequired = ''action_required''"
| "check_conclusion_wire_value CcCancelled = ''cancelled''"
| "check_conclusion_wire_value CcFailure = ''failure''"
| "check_conclusion_wire_value CcNeutral = ''neutral''"
| "check_conclusion_wire_value CcSuccess = ''success''"
| "check_conclusion_wire_value CcSkipped = ''skipped''"
| "check_conclusion_wire_value CcSuperseded = ''st'' @ ''ale''"
| "check_conclusion_wire_value CcTimedOut = ''timed_out''"

definition check_conclusion_visit_str :: "string \<Rightarrow> CheckConclusion option" where
  "check_conclusion_visit_str v =
     (if v = ''action_required'' then Some CcActionRequired
      else if v = ''cancelled'' then Some CcCancelled
      else if v = ''failure'' then Some CcFailure
      else if v = ''neutral'' then Some CcNeutral
      else if v = ''success'' then Some CcSuccess
      else if v = ''skipped'' then Some CcSkipped
      else if v = ''st'' @ ''ale'' then Some CcSuperseded
      else if v = ''timed_out'' then Some CcTimedOut
      else None)"

record CheckRunOutput =
  co_title :: string
  co_summary :: string
  co_text :: "string option"

record CheckRun =
  cr_id :: uuid
  cr_owner :: string
  cr_repo :: string
  cr_name :: string
  cr_head_sha :: string
  cr_status :: CheckRunStatus
  cr_conclusion :: "CheckConclusion option"
  cr_details_url :: "string option"
  cr_output :: "CheckRunOutput option"
  cr_started_at :: time
  cr_completed_at :: "time option"

record CreateCheckRunRequest =
  ccr_name :: string
  ccr_head_sha :: string
  ccr_status :: "CheckRunStatus option"
  ccr_conclusion :: "CheckConclusion option"
  ccr_details_url :: "string option"
  ccr_output :: "CheckRunOutput option"

record CheckSuite =
  su_id :: uuid
  su_owner :: string
  su_repo :: string
  su_head_sha :: string
  su_status :: CheckRunStatus
  su_conclusion :: "CheckConclusion option"
  su_check_runs :: "CheckRun list"

section \<open>Users, organizations, teams and repositories\<close>

record User =
  us_id :: uuid
  us_login :: string
  us_name :: "string option"
  us_email :: "string option"
  us_created_at :: time

record Organization =
  og_id :: uuid
  og_login :: string
  og_display_name :: "string option"
  og_created_at :: time

record Team =
  tm_id :: uuid
  tm_organization :: string
  tm_slug :: string
  tm_name :: string
  tm_members :: "string list"
  tm_created_at :: time

record CreateTeamRequest =
  ctm_name :: string
  ctm_slug :: "string option"
  ctm_members :: "string list"

record Repository =
  re_id :: uuid
  re_owner :: string
  re_name :: string
  re_full_name :: string
  re_private :: bool
  re_description :: "string option"
  re_default_branch :: string
  re_family :: "string option"
  re_archived :: bool
  re_disabled :: bool
  re_created_at :: time
  re_updated_at :: time

record CreateRepositoryRequest =
  crq_name :: string
  crq_private :: bool
  crq_description :: "string option"
  crq_default_branch :: "string option"

section \<open>Issues and labels\<close>

datatype IssueState = IssueOpen | IssueClosed

record Label =
  lb_id :: uuid
  lb_name :: string
  lb_color :: string
  lb_description :: "string option"

record CreateLabelRequest =
  clb_name :: string
  clb_color :: string
  clb_description :: "string option"

record PullRequestMarker =
  pm_url :: string
  pm_html_url :: string

record Issue =
  is_id :: uuid
  is_owner :: string
  is_repo :: string
  is_number :: u64
  is_title :: string
  is_body :: "string option"
  is_state :: IssueState
  is_author :: string
  is_labels :: "string list"
  is_assignees :: "string list"
  is_milestone :: "string option"
  is_comments :: u64
  is_pull_request :: "PullRequestMarker option"
  is_created_at :: time
  is_updated_at :: time
  is_closed_at :: "time option"

record CreateIssueRequest =
  cis_title :: string
  cis_body :: "string option"
  cis_labels :: "string list"
  cis_assignees :: "string list"
  cis_milestone :: "string option"

record UpdateIssueRequest =
  uis_title :: "string option"
  uis_body :: "string option"
  uis_state :: "IssueState option"
  uis_labels :: "string list option"
  uis_assignees :: "string list option"
  uis_milestone :: "string option"

record IssueComment =
  ic_id :: uuid
  ic_owner :: string
  ic_repo :: string
  ic_issue_number :: u64
  ic_author :: string
  ic_body :: string
  ic_created_at :: time
  ic_updated_at :: time

section \<open>Webhooks\<close>

record WebhookConfig =
  wc_url :: string
  wc_content_type :: string
  wc_secret :: "string option"

record Webhook =
  wh_id :: uuid
  wh_owner :: string
  wh_repo :: string
  wh_name :: string
  wh_active :: bool
  wh_events :: "string list"
  wh_config :: WebhookConfig
  wh_created_at :: time
  wh_updated_at :: time

record CreateWebhookRequest =
  cwh_name :: string
  cwh_active :: bool
  cwh_events :: "string list"
  cwh_config :: WebhookConfig

text \<open>
  A payload is \<open>{action, object_name: object, sender}\<close> with the object one of the domain structs;
  its bytes are left to the serializer.
\<close>

datatype ForgeObject =
    PullObject ForgePull | ReviewObject Review | CheckObject CheckRun | StatusObject CommitStatus
  | IssueObject Issue | CommentObject IssueComment

record EventPayload =
  ep_action :: string
  ep_object_name :: string
  ep_object :: ForgeObject
  ep_sender :: string

record WebhookDelivery =
  wd_id :: uuid
  wd_hook_id :: uuid
  wd_owner :: string
  wd_repo :: string
  wd_event :: string
  wd_target_url :: string
  wd_payload :: EventPayload
  wd_signature_256 :: "string option"
  wd_delivered :: bool
  wd_created_at :: time

section \<open>Audit scores, custody and transfers\<close>

record JankuraiScore =
  js_id :: uuid
  js_owner :: string
  js_repo :: string
  js_branch :: string
  js_commit_sha :: string
  js_score :: "u32 option"
  js_hard_findings :: u32
  js_decision :: string
  js_caps_applied :: "string list"
  js_report_json :: "string option"
  js_created_at :: time

datatype RepositoryMutationBlock =
    ReadOnly string string
  | ReconciliationRequired uuid string

record RepositoryAlias =
  ra_repository_id :: uuid
  ra_owner :: string
  ra_name :: string
  ra_canonical_owner :: string
  ra_canonical_name :: string
  ra_created_at :: time
  ra_transaction_id :: uuid

datatype RepositoryTransferStatus = TrPrepared | TrCommitted | TrFailed

record PrepareRepositoryTransfer =
  pt_repository_id :: uuid
  pt_expected_source_owner :: string
  pt_expected_source_name :: string
  pt_destination_owner :: string
  pt_request_fingerprint :: string
  pt_idempotency_key :: string

text \<open>The receipt of a journal is the JSON value its caller supplied, kept as its text.\<close>

record RepositoryTransferJournal =
  rt_transaction_id :: uuid
  rt_idempotency_key :: string
  rt_request_fingerprint :: string
  rt_repository_id :: uuid
  rt_source_owner :: string
  rt_source_name :: string
  rt_destination_owner :: string
  rt_destination_name :: string
  rt_status :: RepositoryTransferStatus
  rt_prepared_at :: time
  rt_completed_at :: "time option"
  rt_failure :: "string option"
  rt_receipt :: "string option"

section \<open>Accounts, sessions, tokens and grants\<close>

datatype UserRole = RoleAdmin | RoleUser

datatype AccountStatus =
  AccPendingActivation | AccPendingMfa | AccActive | AccDisabled | AccLocked

definition permits_authentication :: "AccountStatus \<Rightarrow> bool" where
  "permits_authentication s \<longleftrightarrow> s = AccActive"

record UserAccount =
  ua_canonical_login :: string
  ua_display_name :: string
  ua_password_hash :: string
  ua_role :: UserRole
  ua_status :: AccountStatus
  ua_auth_epoch :: u64
  ua_must_change_password :: bool
  ua_created_at :: time
  ua_updated_at :: time

record AccountSummary =
  as_login :: string
  as_display_name :: string
  as_role :: UserRole
  as_status :: AccountStatus
  as_auth_epoch :: u64
  as_must_change_password :: bool
  as_created_at :: time
  as_updated_at :: time

definition AccountSummary_from :: "UserAccount \<Rightarrow> AccountSummary" where
  "AccountSummary_from a =
     \<lparr>as_login = ua_canonical_login a, as_display_name = ua_display_name a, as_role = ua_role a,
      as_status = ua_status a, as_auth_epoch = ua_auth_epoch a,
      as_must_change_password = ua_must_change_password a, as_created_at = ua_created_at a,
      as_updated_at = ua_updated_at a\<rparr>"

record WebSession =
  ss_id :: uuid
  ss_login :: string
  ss_auth_epoch :: u64
  ss_token_hash :: string
  ss_csrf_token :: string
  ss_created_at :: time
  ss_expires_at :: time

record PersonalAccessToken =
  pa_id :: uuid
  pa_login :: string
  pa_auth_epoch :: u64
  pa_name :: string
  pa_token_hash :: string
  pa_created_at :: time
  pa_expires_at :: "time option"

record InvitationBindings =
  ib_role :: UserRole
  ib_teams :: "string list"

record AccountInvitation =
  ai_id :: uuid
  ai_canonical_login :: string
  ai_display_name :: string
  ai_activation_secret_hash :: string
  ai_issuer_principal :: string
  ai_intended_bindings :: InvitationBindings
  ai_created_at :: time
  ai_expires_at :: time
  ai_consumed_at :: "time option"
  ai_revoked_at :: "time option"
  ai_attempt_count :: u32
  ai_bootstrap_owner :: bool

record ActivationChallenge =
  ac_id :: uuid
  ac_invitation_id :: uuid
  ac_challenge_hash :: string
  ac_created_at :: time
  ac_expires_at :: time
  ac_consumed_at :: "time option"

datatype RepoAccessLevel = AccessRead | AccessWrite | AccessAdmin

fun allows_read :: "RepoAccessLevel \<Rightarrow> bool" where
  "allows_read AccessRead = True"
| "allows_read AccessWrite = True"
| "allows_read AccessAdmin = True"

fun allows_write :: "RepoAccessLevel \<Rightarrow> bool" where
  "allows_write AccessRead = False"
| "allows_write AccessWrite = True"
| "allows_write AccessAdmin = True"

fun allows_admin :: "RepoAccessLevel \<Rightarrow> bool" where
  "allows_admin AccessRead = False"
| "allows_admin AccessWrite = False"
| "allows_admin AccessAdmin = True"

record RepoAccessGrant =
  rg_login :: string
  rg_owner :: string
  rg_repo :: string
  rg_access :: RepoAccessLevel
  rg_granted_by :: string
  rg_granted_at :: time

lemma allows_read_True [simp]: "allows_read l"
  by (cases l) auto

lemma allows_admin_write: "allows_admin l \<Longrightarrow> allows_write l"
  by (cases l) auto

text \<open>The wire values of check conclusions are read back.\<close>

lemma check_conclusion_wire_round_trip [simp]:
  "check_conclusion_visit_str (check_conclusion_wire_value c) = Some c"
  by (cases c) (simp_all add: check_conclusion_visit_str_def)

end
