(* ===== verification/Branch_Protection.thy ===== *)
theory Branch_Protection
  imports Forge_Model
begin

text \<open>
  \<open>jeryu-core/src/branch_protection/\<close>: the merge gate. Code owners (\<open>codeowners.rs\<close>), the
  reduction of a review history to one verdict per reviewer (\<open>reviews.rs\<close>) and the evaluation of
  a pull request and of a ref operation against a protection rule (\<open>evaluate.rs\<close>).
\<close>

section \<open>Types\<close>

datatype MergeBlocker =
    DraftPullRequest
  | MissingReview u64 u64
  | ChangesRequested "string list"
  | MissingStatusCheck string
  | FailedStatusCheck string
  | JankuraiProofRequired
  | ShaMismatch string string
  | NonLinearHistory string
  | UnsignedCommits "string list"
  | MissingCodeOwnerReview "string list" "string list"

datatype RefOperation = ForcePush | DeleteRef

datatype RefOperationBlocker = ForcePushNotAllowed | DeletionNotAllowed

record RefOperationEvaluation =
  ro_allowed :: bool
  ro_blockers :: "RefOperationBlocker list"

record EvaluationContext =
  ec_codeowners :: "string option"
  ec_actor_is_admin :: bool
  ec_jankurai_proof_mandatory :: bool

definition EvaluationContext_default :: EvaluationContext where
  "EvaluationContext_default =
     \<lparr>ec_codeowners = None, ec_actor_is_admin = False, ec_jankurai_proof_mandatory = False\<rparr>"

record BranchProtectionEvaluation =
  be_mergeable :: bool
  be_state :: string
  be_blockers :: "MergeBlocker list"

definition BranchProtectionEvaluation_pass :: BranchProtectionEvaluation where
  "BranchProtectionEvaluation_pass =
     \<lparr>be_mergeable = True, be_state = ''clean'', be_blockers = []\<rparr>"

definition from_blockers :: "MergeBlocker list \<Rightarrow> BranchProtectionEvaluation" where
  "from_blockers blockers =
     \<lparr>be_mergeable = (blockers = []),
      be_state = (if blockers = [] then ''clean'' else ''blocked''),
      be_blockers = blockers\<rparr>"

section \<open>Code owners\<close>

type_synonym CodeOwners = "(string \<times> string list) list"

definition codeowners_line :: "string \<Rightarrow> (string \<times> string list) option" where
  "codeowners_line raw =
     (let line = trim raw in
      if line = [] \<or> starts_with line ''#'' then None
      else case split_whitespace line of
        [] \<Rightarrow> None
      | pattern # parts \<Rightarrow>
          Some (pattern, filter (\<lambda>owner. owner \<noteq> []) (map (trim_start_matches (CHR ''@'')) parts)))"

definition codeowners_parse :: "string \<Rightarrow> CodeOwners" where
  "codeowners_parse contents = List.map_filter codeowners_line (str_lines contents)"

definition glob_match :: "string \<Rightarrow> string \<Rightarrow> bool" where
  "glob_match pattern path0 =
     (let path = trim_start_matches (CHR ''/'') path0 in
      if pattern = ''*'' then True
      else case strip_prefix ''*'' pattern of
        Some suf \<Rightarrow> ends_with path suf
      | None \<Rightarrow>
          let pat = trim_start_matches (CHR ''/'') pattern in
          (case strip_suffix ''/**'' pat of
             Some pre \<Rightarrow>
               let pre = trim_end_matches (CHR ''/'') pre in
               path = pre \<or> starts_with path (pre @ ''/'')
           | None \<Rightarrow>
               (case strip_suffix ''/'' pat of
                  Some pre \<Rightarrow> starts_with path (pre @ ''/'') \<or> path = pre
                | None \<Rightarrow> path = pat \<or> starts_with path (pat @ ''/''))))"

definition owners_for :: "CodeOwners \<Rightarrow> string \<Rightarrow> string list" where
  "owners_for rules path =
     (case find (\<lambda>(pattern, _). glob_match pattern path) (rev rules) of
        Some (_, owners) \<Rightarrow> owners
      | None \<Rightarrow> [])"

section \<open>Effective reviews\<close>

definition clears :: "Review \<Rightarrow> Review \<Rightarrow> bool" where
  "clears review current =
     (case rv_dismissed_review_id review of
        Some target \<Rightarrow> target = rv_id current
      | None \<Rightarrow> rv_state current = RvApproved)"

text \<open>The body of the loop over the reviews of the head.\<close>

definition self_approval :: "string option \<Rightarrow> Review \<Rightarrow> bool" where
  "self_approval pr_author review \<longleftrightarrow>
     rv_state review = RvApproved
     \<and> (case pr_author of Some author \<Rightarrow> eq_ignore_ascii_case (rv_author review) author | None \<Rightarrow> False)"

definition review_step ::
  "string option \<Rightarrow> Review \<Rightarrow> (string, Review) btree_map \<Rightarrow> (string, Review) btree_map" where
  "review_step pr_author review latest =
     (if self_approval pr_author review then latest
      else case rv_state review of
        RvApproved \<Rightarrow> bt_insert (rv_author review) review latest
      | RvChangesRequested \<Rightarrow> bt_insert (rv_author review) review latest
      | RvCommented \<Rightarrow> latest
      | RvDismissed \<Rightarrow>
          (case bt_get latest (rv_author review) of
             Some current \<Rightarrow>
               if clears review current then bt_remove (rv_author review) latest else latest
           | None \<Rightarrow> latest))"

definition reduce_reviews :: "Review list \<Rightarrow> string \<Rightarrow> string option \<Rightarrow> Review list" where
  "reduce_reviews reviews head_sha pr_author =
     bt_values (fold (review_step pr_author)
                 (filter (\<lambda>review. rv_head_sha review = Some head_sha) reviews) [])"

definition effective_reviews_for_head :: "Review list \<Rightarrow> string \<Rightarrow> Review list" where
  "effective_reviews_for_head reviews head_sha = reduce_reviews reviews head_sha None"

definition effective_reviews_for_pull_request :: "Review list \<Rightarrow> ForgePull \<Rightarrow> Review list" where
  "effective_reviews_for_pull_request reviews pr =
     reduce_reviews reviews (gb_sha (fp_head pr)) (Some (fp_author pr))"

section \<open>Required contexts\<close>

datatype RequiredContextState = CtxSatisfied | CtxMissing | CtxFailed

definition required_context_state ::
  "string \<Rightarrow> CommitStatus list \<Rightarrow> CheckRun list \<Rightarrow> RequiredContextState" where
  "required_context_state ctx statuses check_runs =
     (case max_by_key cs_updated_at (filter (\<lambda>status. cs_context status = ctx) statuses) of
        Some status \<Rightarrow> if cs_state status = StSuccess then CtxSatisfied else CtxFailed
      | None \<Rightarrow>
          (case max_by_key (\<lambda>check. case cr_completed_at check of Some t \<Rightarrow> t | None \<Rightarrow> cr_started_at check)
                  (filter (\<lambda>check. cr_name check = ctx) check_runs) of
             Some check \<Rightarrow>
               if cr_status check = RunCompleted \<and> cr_conclusion check = Some CcSuccess
               then CtxSatisfied else CtxFailed
           | None \<Rightarrow> CtxMissing))"

section \<open>Evaluation of a pull request\<close>

definition sha_blockers :: "ForgePull \<Rightarrow> string option \<Rightarrow> MergeBlocker list" where
  "sha_blockers pr requested_sha =
     (case requested_sha of
        Some sha \<Rightarrow> if sha \<noteq> gb_sha (fp_head pr) then [ShaMismatch (gb_sha (fp_head pr)) sha] else []
      | None \<Rightarrow> [])"

definition draft_blockers :: "ForgePull \<Rightarrow> MergeBlocker list" where
  "draft_blockers pr = (if fp_draft pr then [DraftPullRequest] else [])"

definition changes_blockers :: "Review list \<Rightarrow> MergeBlocker list" where
  "changes_blockers effective =
     (let reviewers = map rv_author (filter (\<lambda>r. rv_state r = RvChangesRequested) effective) in
      if reviewers = [] then [] else [ChangesRequested reviewers])"

definition proof_blockers :: "bool \<Rightarrow> CommitStatus list \<Rightarrow> CheckRun list \<Rightarrow> MergeBlocker list" where
  "proof_blockers demanded statuses check_runs =
     (if demanded then
        (case required_context_state ''jankurai/proof'' statuses check_runs of
           CtxSatisfied \<Rightarrow> [] | CtxMissing \<Rightarrow> [JankuraiProofRequired] | CtxFailed \<Rightarrow> [JankuraiProofRequired])
      else [])"

definition approvals :: "Review list \<Rightarrow> Review list" where
  "approvals effective = filter (\<lambda>r. rv_state r = RvApproved) effective"

definition review_blockers :: "BranchProtectionRule \<Rightarrow> Review list \<Rightarrow> MergeBlocker list" where
  "review_blockers rule effective =
     (if bp_required_approving_review_count rule > 0 then
        let approved = word_of_nat (length (approvals effective)) in
        if approved < bp_required_approving_review_count rule
        then [MissingReview (bp_required_approving_review_count rule) approved] else []
      else [])"

definition context_blockers ::
  "CommitStatus list \<Rightarrow> CheckRun list \<Rightarrow> string \<Rightarrow> MergeBlocker list" where
  "context_blockers statuses check_runs ctx =
     (case required_context_state ctx statuses check_runs of
        CtxSatisfied \<Rightarrow> []
      | CtxMissing \<Rightarrow> [MissingStatusCheck ctx]
      | CtxFailed \<Rightarrow> [FailedStatusCheck ctx])"

definition linear_blockers :: "BranchProtectionRule \<Rightarrow> ForgePull \<Rightarrow> MergeBlocker list" where
  "linear_blockers rule pr =
     (if bp_required_linear_history rule then
        (case find (\<lambda>c. pc_parents c > 1) (fp_commits pr) of
           Some c \<Rightarrow> [NonLinearHistory (pc_sha c)]
         | None \<Rightarrow> [])
      else [])"

definition signature_blockers :: "BranchProtectionRule \<Rightarrow> ForgePull \<Rightarrow> MergeBlocker list" where
  "signature_blockers rule pr =
     (if bp_require_signed_commits rule then
        let unsigned' = map pc_sha (filter (\<lambda>c. \<not> pc_verified c) (fp_commits pr)) in
        if unsigned' = [] then [] else [UnsignedCommits unsigned']
      else [])"

text \<open>The loop over the changed paths: the unsatisfied paths and the owners they would need.\<close>

definition owner_step ::
  "CodeOwners \<Rightarrow> string btree_set \<Rightarrow> string \<Rightarrow> string list \<times> string btree_set
   \<Rightarrow> string list \<times> string btree_set" where
  "owner_step owners approvers path acc =
     (let path_owners = owners_for owners path in
      if path_owners = [] then acc
      else if list_ex (\<lambda>owner. owner \<in> set approvers) path_owners then acc
      else (fst acc @ [path], bs_extend (snd acc) path_owners))"

definition codeowner_blockers :: "string option \<Rightarrow> ForgePull \<Rightarrow> Review list \<Rightarrow> MergeBlocker list" where
  "codeowner_blockers codeowners pr effective =
     (case codeowners of
        None \<Rightarrow> []
      | Some contents \<Rightarrow>
          let owners = codeowners_parse contents;
              approvers = bs_of (map rv_author (approvals effective));
              (unsatisfied, required) =
                fold (owner_step owners approvers) (fp_changed_files pr) ([], [])
          in if unsatisfied = [] then []
             else [MissingCodeOwnerReview (bs_of unsatisfied) required])"

definition evaluate_branch_protection_with ::
  "ForgePull \<Rightarrow> BranchProtectionRule option \<Rightarrow> Review list \<Rightarrow> CommitStatus list \<Rightarrow> CheckRun list
   \<Rightarrow> string option \<Rightarrow> EvaluationContext \<Rightarrow> BranchProtectionEvaluation" where
  "evaluate_branch_protection_with pr protection reviews statuses check_runs requested_sha ctx =
     (let effective = effective_reviews_for_pull_request reviews pr;
          intrinsic =
            sha_blockers pr requested_sha @ draft_blockers pr @ changes_blockers effective
            @ proof_blockers (ec_jankurai_proof_mandatory ctx) statuses check_runs
      in case protection of
        None \<Rightarrow> from_blockers intrinsic
      | Some rule \<Rightarrow>
          if ec_actor_is_admin ctx \<and> \<not> bp_enforce_admins rule then from_blockers intrinsic
          else from_blockers
            (intrinsic @ review_blockers rule effective
             @ concat (map (context_blockers statuses check_runs) (bp_required_status_checks rule))
             @ proof_blockers (bp_require_jankurai_proof rule \<and> \<not> ec_jankurai_proof_mandatory ctx)
                 statuses check_runs
             @ linear_blockers rule pr @ signature_blockers rule pr
             @ codeowner_blockers (ec_codeowners ctx) pr effective))"

section \<open>Evaluation of a ref operation\<close>

definition ref_blockers :: "RefOperation \<Rightarrow> BranchProtectionRule \<Rightarrow> RefOperationBlocker list" where
  "ref_blockers operation rule =
     (case operation of
        ForcePush \<Rightarrow> if bp_allow_force_pushes rule then [] else [ForcePushNotAllowed]
      | DeleteRef \<Rightarrow> if bp_allow_deletions rule then [] else [DeletionNotAllowed])"

definition evaluate_ref_operation ::
  "RefOperation \<Rightarrow> BranchProtectionRule option \<Rightarrow> EvaluationContext \<Rightarrow> RefOperationEvaluation" where
  "evaluate_ref_operation operation protection ctx =
     (let blockers =
        (case protection of
           None \<Rightarrow> []
         | Some rule \<Rightarrow>
             if ec_actor_is_admin ctx \<and> \<not> bp_enforce_admins rule then []
             else ref_blockers operation rule)
      in \<lparr>ro_allowed = (blockers = []), ro_blockers = blockers\<rparr>)"

section \<open>One verdict per reviewer\<close>

text \<open>
  The reference semantics of a review history: the verdict of one reviewer after a sequence of
  their own reviews, as a three-way state machine over \<open>None\<close>, an approval and a rejection.
\<close>

definition verdict_step :: "string option \<Rightarrow> Review \<Rightarrow> Review option \<Rightarrow> Review option" where
  "verdict_step pr_author review v =
     (if self_approval pr_author review then v
      else case rv_state review of
        RvApproved \<Rightarrow> Some review
      | RvChangesRequested \<Rightarrow> Some review
      | RvCommented \<Rightarrow> v
      | RvDismissed \<Rightarrow>
          (case v of Some current \<Rightarrow> if clears review current then None else v | None \<Rightarrow> None))"

definition on_head :: "string \<Rightarrow> Review list \<Rightarrow> Review list" where
  "on_head head_sha reviews = filter (\<lambda>r. rv_head_sha r = Some head_sha) reviews"

definition verdict_of :: "Review list \<Rightarrow> string \<Rightarrow> string option \<Rightarrow> string \<Rightarrow> Review option" where
  "verdict_of reviews head_sha pr_author a =
     fold (verdict_step pr_author) (filter (\<lambda>r. rv_author r = a) (on_head head_sha reviews)) None"

lemma bt_get_review_step:
  "bt_get (review_step pa r m) a =
     (if rv_author r = a then verdict_step pa r (bt_get m a) else bt_get m a)"
  by (auto simp: review_step_def verdict_step_def split: ReviewState.split option.split)

lemma bt_wf_review_step: "bt_wf m \<Longrightarrow> bt_wf (review_step pa r m)"
  by (auto simp: review_step_def split: ReviewState.split option.split)

lemma bt_get_review_fold:
  "bt_get (fold (review_step pa) rs m) a =
     fold (verdict_step pa) (filter (\<lambda>r. rv_author r = a) rs) (bt_get m a)"
  by (induction rs arbitrary: m) (auto simp: bt_get_review_step)

lemma bt_wf_review_fold: "bt_wf m \<Longrightarrow> bt_wf (fold (review_step pa) rs m)"
  by (induction rs arbitrary: m) (auto simp: bt_wf_review_step)

text \<open>Every entry is filed under its author, so the values determine the keys.\<close>

lemma verdict_author:
  assumes "fold (verdict_step pa) rs v = Some r" "\<And>x. x \<in> set rs \<Longrightarrow> rv_author x = a"
    "\<And>x. v = Some x \<Longrightarrow> rv_author x = a"
  shows "rv_author r = a"
  using assms
proof (induction rs arbitrary: v)
  case (Cons x rs)
  have step: "\<And>y. verdict_step pa x v = Some y \<Longrightarrow> rv_author y = a"
    using Cons.prems by (auto simp: verdict_step_def split: if_splits ReviewState.splits option.splits)
  show ?case
    using Cons.IH [of "verdict_step pa x v"] Cons.prems step by simp
qed simp

lemma verdict_of_author: "verdict_of reviews h pa a = Some r \<Longrightarrow> rv_author r = a"
  unfolding verdict_of_def by (rule verdict_author) auto

lemma in_reduce_reviews:
  "r \<in> set (reduce_reviews reviews h pa) \<longleftrightarrow> verdict_of reviews h pa (rv_author r) = Some r"
proof -
  let ?m = "fold (review_step pa) (on_head h reviews) []"
  have get: "bt_get ?m a = verdict_of reviews h pa a" for a
    by (simp add: bt_get_review_fold verdict_of_def)
  have "bt_wf ?m" by (rule bt_wf_review_fold) simp
  then have "r \<in> set (bt_values ?m) \<longleftrightarrow> (\<exists>a. verdict_of reviews h pa a = Some r)"
    by (simp add: bt_values_iff get)
  also have "\<dots> \<longleftrightarrow> verdict_of reviews h pa (rv_author r) = Some r"
    using verdict_of_author by metis
  finally show ?thesis by (simp add: reduce_reviews_def on_head_def)
qed

lemma reduce_reviews_authors_sorted: "sorted_wrt (<) (map rv_author (reduce_reviews reviews h pa))"
proof -
  let ?m = "fold (review_step pa) (on_head h reviews) []"
  have wf: "bt_wf ?m" by (rule bt_wf_review_fold) simp
  have "rv_author v = k" if "(k, v) \<in> set ?m" for k v
    using that wf verdict_of_author [of reviews h pa k v]
    by (simp add: bt_entry_iff bt_get_review_fold verdict_of_def)
  then have "map rv_author (bt_values ?m) = map fst ?m"
    by (auto simp: bt_values_def)
  with wf show ?thesis by (simp add: reduce_reviews_def on_head_def bt_wf_def)
qed

lemma reduce_reviews_distinct: "distinct (map rv_author (reduce_reviews reviews h pa))"
  using reduce_reviews_authors_sorted [of reviews h pa] by (simp add: strict_sorted_iff)

lemma length_reduce_reviews: "length (reduce_reviews reviews h pa) \<le> length reviews"
proof -
  have bound: "length (review_step pa r m) \<le> Suc (length m)" for r m
  proof -
    have "length (bt_insert a r m) \<le> Suc (length m)" for a
      by (induction m) auto
    then show ?thesis
      by (auto simp: review_step_def bt_remove_def split: ReviewState.split option.split
          intro: le_SucI length_filter_le)
  qed
  have "length (fold (review_step pa) rs m) \<le> length m + length rs" for rs m
  proof (induction rs arbitrary: m)
    case (Cons r rs)
    then show ?case using bound [of r m] by (simp add: order_trans [OF Cons.IH])
  qed simp
  from this [of "on_head h reviews" "[]"] show ?thesis
    by (simp add: reduce_reviews_def on_head_def bt_values_def)
       (meson le_trans length_filter_le)
qed

lemma review_in_history: "verdict_of reviews h pa a = Some r \<Longrightarrow> r \<in> set (on_head h reviews)"
proof -
  have "fold (verdict_step pa) rs v = Some r \<Longrightarrow> r \<in> set rs \<or> v = Some r" for rs v
  proof (induction rs arbitrary: v)
    case (Cons x rs)
    then have "r \<in> set rs \<or> verdict_step pa x v = Some r" by simp
    then show ?case
      by (auto simp: verdict_step_def split: if_splits ReviewState.splits option.splits)
  qed simp
  then show "verdict_of reviews h pa a = Some r \<Longrightarrow> r \<in> set (on_head h reviews)"
    by (force simp: verdict_of_def)
qed

text \<open>
  A review after which the reviewer neither decides again nor withdraws it.
\<close>

definition undisturbed :: "string option \<Rightarrow> Review \<Rightarrow> Review list \<Rightarrow> bool" where
  "undisturbed pr_author r later \<longleftrightarrow>
     (\<forall>y \<in> set later. rv_author y = rv_author r \<longrightarrow>
        (case rv_state y of
           RvApproved \<Rightarrow> y = r \<or> self_approval pr_author y
         | RvChangesRequested \<Rightarrow> y = r
         | RvCommented \<Rightarrow> True
         | RvDismissed \<Rightarrow> \<not> clears y r))"

lemma verdict_step_keeps:
  "verdict_step pa y (Some r) = Some r \<longleftrightarrow>
     (case rv_state y of
        RvApproved \<Rightarrow> y = r \<or> self_approval pa y
      | RvChangesRequested \<Rightarrow> y = r
      | RvCommented \<Rightarrow> True
      | RvDismissed \<Rightarrow> \<not> clears y r)"
  by (cases "rv_state y") (auto simp: verdict_step_def self_approval_def)

lemma verdict_step_Some:
  "verdict_step pa x v = Some r \<longleftrightarrow>
     x = r \<and> rv_state r \<in> {RvApproved, RvChangesRequested} \<and> \<not> self_approval pa r
     \<or> v = Some r \<and> verdict_step pa x (Some r) = Some r"
  by (cases "rv_state x"; cases v)
     (simp_all add: verdict_step_def self_approval_def, auto)

lemma verdict_step_decides:
  "rv_state r \<in> {RvApproved, RvChangesRequested} \<Longrightarrow> \<not> self_approval pa r \<Longrightarrow>
     verdict_step pa r v = Some r"
  by (auto simp: verdict_step_def)

lemma verdict_fold_keeps:
  "\<forall>y \<in> set ys. verdict_step pa y (Some r) = Some r \<Longrightarrow> fold (verdict_step pa) ys (Some r) = Some r"
  by (induction ys) auto

lemma verdict_fold_Some:
  "fold (verdict_step pa) rs None = Some r \<longleftrightarrow>
     (\<exists>xs ys. rs = xs @ r # ys \<and> rv_state r \<in> {RvApproved, RvChangesRequested}
        \<and> \<not> self_approval pa r \<and> (\<forall>y \<in> set ys. verdict_step pa y (Some r) = Some r))"
proof
  assume "fold (verdict_step pa) rs None = Some r"
  then show "\<exists>xs ys. rs = xs @ r # ys \<and> rv_state r \<in> {RvApproved, RvChangesRequested}
      \<and> \<not> self_approval pa r \<and> (\<forall>y \<in> set ys. verdict_step pa y (Some r) = Some r)"
  proof (induction rs rule: rev_induct)
    case (snoc x rs)
    then have "verdict_step pa x (fold (verdict_step pa) rs None) = Some r" by simp
    then consider
        "x = r" "rv_state r \<in> {RvApproved, RvChangesRequested}" "\<not> self_approval pa r"
      | "fold (verdict_step pa) rs None = Some r" "verdict_step pa x (Some r) = Some r"
      using iffD1 [OF verdict_step_Some] by blast
    then show ?case
    proof cases
      case 1
      then have "rs @ [x] = rs @ r # []" by simp
      with 1 show ?thesis by (metis empty_iff list.set(1))
    next
      case 2
      from snoc.IH [OF 2(1)] obtain xs ys where "rs = xs @ r # ys"
        "rv_state r \<in> {RvApproved, RvChangesRequested}" "\<not> self_approval pa r"
        "\<forall>y \<in> set ys. verdict_step pa y (Some r) = Some r" by blast
      with 2 show ?thesis by (intro exI [of _ xs] exI [of _ "ys @ [x]"]) auto
    qed
  qed simp
next
  assume "\<exists>xs ys. rs = xs @ r # ys \<and> rv_state r \<in> {RvApproved, RvChangesRequested}
      \<and> \<not> self_approval pa r \<and> (\<forall>y \<in> set ys. verdict_step pa y (Some r) = Some r)"
  then obtain xs ys where "rs = xs @ r # ys" "rv_state r \<in> {RvApproved, RvChangesRequested}"
    "\<not> self_approval pa r" and ys: "\<forall>y \<in> set ys. verdict_step pa y (Some r) = Some r" by blast
  then show "fold (verdict_step pa) rs None = Some r"
    using verdict_step_decides [of r pa] verdict_fold_keeps [OF ys] by simp
qed

lemma filter_eq_append_Cons:
  "filter P zs = xs @ r # ys \<longleftrightarrow>
     (\<exists>us vs. zs = us @ r # vs \<and> P r \<and> filter P us = xs \<and> filter P vs = ys)"
proof
  show "filter P zs = xs @ r # ys \<Longrightarrow>
      \<exists>us vs. zs = us @ r # vs \<and> P r \<and> filter P us = xs \<and> filter P vs = ys"
  proof (induction zs arbitrary: xs)
    case (Cons z zs)
    show ?case
    proof (cases "P z \<and> xs = []")
      case True
      with Cons.prems show ?thesis by (intro exI [of _ "[]"] exI [of _ zs]) auto
    next
      case False
      then obtain us vs where "zs = us @ r # vs" "P r" "filter P us = (if P z then tl xs else xs)"
        "filter P vs = ys"
        using Cons.prems Cons.IH [of "if P z then tl xs else xs"]
        by (cases xs) (auto split: if_splits)
      with False Cons.prems show ?thesis
        by (intro exI [of _ "z # us"] exI [of _ vs]) (cases xs, auto split: if_splits)
    qed
  qed simp
qed auto

lemma verdict_of_Some_iff:
  "verdict_of reviews h pa a = Some r \<longleftrightarrow>
     (\<exists>earlier later. on_head h reviews = earlier @ r # later \<and> rv_author r = a
        \<and> rv_state r \<in> {RvApproved, RvChangesRequested} \<and> \<not> self_approval pa r
        \<and> undisturbed pa r later)"
proof -
  have "undisturbed pa r ys \<longleftrightarrow>
      (\<forall>y \<in> set (filter (\<lambda>y. rv_author y = rv_author r) ys). verdict_step pa y (Some r) = Some r)" for ys
    by (auto simp: undisturbed_def verdict_step_keeps)
  then show ?thesis
    unfolding verdict_of_def verdict_fold_Some filter_eq_append_Cons by metis
qed

section \<open>The gates\<close>

definition approvers :: "Review list \<Rightarrow> ForgePull \<Rightarrow> string set" where
  "approvers reviews pr =
     {a. \<exists>r. verdict_of reviews (gb_sha (fp_head pr)) (Some (fp_author pr)) a = Some r
           \<and> rv_state r = RvApproved}"

definition objectors :: "Review list \<Rightarrow> ForgePull \<Rightarrow> string set" where
  "objectors reviews pr =
     {a. \<exists>r. verdict_of reviews (gb_sha (fp_head pr)) (Some (fp_author pr)) a = Some r
           \<and> rv_state r = RvChangesRequested}"

lemma effective_state_authors:
  "rv_author ` {r \<in> set (effective_reviews_for_pull_request reviews pr). rv_state r = st} =
     {a. \<exists>r. verdict_of reviews (gb_sha (fp_head pr)) (Some (fp_author pr)) a = Some r
           \<and> rv_state r = st}"
  by (auto simp: effective_reviews_for_pull_request_def in_reduce_reviews image_iff
      dest: verdict_of_author)

lemma approvals_authors:
  "rv_author ` set (approvals (effective_reviews_for_pull_request reviews pr)) = approvers reviews pr"
  using effective_state_authors [of reviews pr RvApproved]
  by (simp add: approvals_def approvers_def)

lemma length_approvals:
  "length (approvals (effective_reviews_for_pull_request reviews pr)) = card (approvers reviews pr)"
proof -
  let ?es = "effective_reviews_for_pull_request reviews pr"
  have "distinct (map rv_author (approvals ?es))"
    using reduce_reviews_distinct unfolding approvals_def effective_reviews_for_pull_request_def
    by (rule distinct_map_filter)
  from distinct_card [OF this] show ?thesis
    by (simp add: approvals_authors)
qed

lemma card_approvers_le: "card (approvers reviews pr) \<le> length reviews"
  unfolding length_approvals [symmetric] approvals_def effective_reviews_for_pull_request_def
  by (rule le_trans [OF length_filter_le length_reduce_reviews])

lemma from_blockers_mergeable [simp]: "be_mergeable (from_blockers bs) \<longleftrightarrow> bs = []"
  by (simp add: from_blockers_def)

lemma sha_blockers_Nil [simp]:
  "sha_blockers pr q = [] \<longleftrightarrow> (\<forall>sha. q = Some sha \<longrightarrow> sha = gb_sha (fp_head pr))"
  by (auto simp: sha_blockers_def split: option.split)

lemma draft_blockers_Nil [simp]: "draft_blockers pr = [] \<longleftrightarrow> \<not> fp_draft pr"
  by (simp add: draft_blockers_def)

lemma changes_blockers_Nil [simp]:
  "changes_blockers (effective_reviews_for_pull_request reviews pr) = [] \<longleftrightarrow> objectors reviews pr = {}"
  unfolding objectors_def effective_state_authors [symmetric]
  by (auto simp: changes_blockers_def Let_def filter_empty_conv)

lemma proof_blockers_Nil [simp]:
  "proof_blockers b statuses runs = [] \<longleftrightarrow>
     (b \<longrightarrow> required_context_state ''jankurai/proof'' statuses runs = CtxSatisfied)"
  by (auto simp: proof_blockers_def split: RequiredContextState.split)

lemma context_blockers_Nil [simp]:
  "context_blockers statuses runs c = [] \<longleftrightarrow> required_context_state c statuses runs = CtxSatisfied"
  by (auto simp: context_blockers_def split: RequiredContextState.split)

lemma linear_blockers_Nil [simp]:
  "linear_blockers rule pr = [] \<longleftrightarrow>
     (bp_required_linear_history rule \<longrightarrow> (\<forall>c \<in> set (fp_commits pr). pc_parents c \<le> 1))"
proof (cases "find (\<lambda>c. pc_parents c > 1) (fp_commits pr)")
  case None
  then have "\<forall>c \<in> set (fp_commits pr). pc_parents c \<le> 1" by (auto simp: find_None_iff not_less)
  with None show ?thesis by (simp add: linear_blockers_def)
next
  case (Some c)
  then have "c \<in> set (fp_commits pr)" "\<not> pc_parents c \<le> 1" by (auto simp: find_Some_iff not_le)
  with Some show ?thesis by (auto simp: linear_blockers_def)
qed

lemma signature_blockers_Nil [simp]:
  "signature_blockers rule pr = [] \<longleftrightarrow>
     (bp_require_signed_commits rule \<longrightarrow> (\<forall>c \<in> set (fp_commits pr). pc_verified c))"
  by (auto simp: signature_blockers_def Let_def filter_empty_conv)

lemma review_blockers_Nil:
  assumes "length reviews < 2 ^ 64"
  shows "review_blockers rule (effective_reviews_for_pull_request reviews pr) = [] \<longleftrightarrow>
     unat (bp_required_approving_review_count rule) \<le> card (approvers reviews pr)"
proof -
  have "card (approvers reviews pr) < 2 ^ 64"
    using card_approvers_le [of reviews pr] assms by simp
  then have "unat (word_of_nat (card (approvers reviews pr)) :: u64) = card (approvers reviews pr)"
    by (simp add: unat_of_nat)
  then show ?thesis
    by (auto simp: review_blockers_def Let_def length_approvals word_less_nat_alt not_less
        word_gt_0)
qed

definition path_approved :: "string \<Rightarrow> Review list \<Rightarrow> ForgePull \<Rightarrow> string \<Rightarrow> bool" where
  "path_approved contents reviews pr path \<longleftrightarrow>
     (let owners = owners_for (codeowners_parse contents) path in
      owners = [] \<or> (\<exists>owner \<in> set owners. owner \<in> approvers reviews pr))"

lemma owner_fold:
  "fst (fold (owner_step owners ap) paths acc) =
     fst acc @ filter (\<lambda>p. owners_for owners p \<noteq> [] \<and> \<not> (\<exists>x \<in> set (owners_for owners p). x \<in> set ap)) paths"
  by (induction paths arbitrary: acc) (auto simp: owner_step_def Let_def list_ex_iff)

lemma codeowner_blockers_Nil [simp]:
  "codeowner_blockers co pr (effective_reviews_for_pull_request reviews pr) = [] \<longleftrightarrow>
     (\<forall>contents. co = Some contents \<longrightarrow>
        (\<forall>path \<in> set (fp_changed_files pr). path_approved contents reviews pr path))"
proof (cases co)
  case (Some contents)
  let ?es = "effective_reviews_for_pull_request reviews pr"
  let ?f = "fold (owner_step (codeowners_parse contents) (bs_of (map rv_author (approvals ?es))))
              (fp_changed_files pr) ([], [])"
  have "codeowner_blockers co pr ?es = [] \<longleftrightarrow> fst ?f = []"
    by (simp add: Some codeowner_blockers_def Let_def case_prod_beta)
  also have "\<dots> \<longleftrightarrow> (\<forall>path \<in> set (fp_changed_files pr). path_approved contents reviews pr path)"
    by (auto simp: owner_fold filter_empty_conv path_approved_def Let_def approvals_authors)
  finally show ?thesis by (simp add: Some)
qed (simp add: codeowner_blockers_def)

text \<open>The configurable gates of a rule, which an administrator may bypass.\<close>

definition rule_gates ::
  "BranchProtectionRule \<Rightarrow> ForgePull \<Rightarrow> Review list \<Rightarrow> CommitStatus list \<Rightarrow> CheckRun list
   \<Rightarrow> EvaluationContext \<Rightarrow> bool" where
  "rule_gates rule pr reviews statuses runs ctx \<longleftrightarrow>
     unat (bp_required_approving_review_count rule) \<le> card (approvers reviews pr)
   \<and> (\<forall>c \<in> set (bp_required_status_checks rule). required_context_state c statuses runs = CtxSatisfied)
   \<and> (bp_require_jankurai_proof rule \<longrightarrow>
        required_context_state ''jankurai/proof'' statuses runs = CtxSatisfied)
   \<and> (bp_required_linear_history rule \<longrightarrow> (\<forall>c \<in> set (fp_commits pr). pc_parents c \<le> 1))
   \<and> (bp_require_signed_commits rule \<longrightarrow> (\<forall>c \<in> set (fp_commits pr). pc_verified c))
   \<and> (\<forall>contents. ec_codeowners ctx = Some contents \<longrightarrow>
        (\<forall>path \<in> set (fp_changed_files pr). path_approved contents reviews pr path))"

text \<open>The gates that bind everybody.\<close>

definition intrinsic_gates ::
  "ForgePull \<Rightarrow> Review list \<Rightarrow> CommitStatus list \<Rightarrow> CheckRun list \<Rightarrow> string option
   \<Rightarrow> EvaluationContext \<Rightarrow> bool" where
  "intrinsic_gates pr reviews statuses runs requested ctx \<longleftrightarrow>
     (\<forall>sha. requested = Some sha \<longrightarrow> sha = gb_sha (fp_head pr)) \<and> \<not> fp_draft pr
   \<and> objectors reviews pr = {}
   \<and> (ec_jankurai_proof_mandatory ctx \<longrightarrow>
        required_context_state ''jankurai/proof'' statuses runs = CtxSatisfied)"

lemma evaluate_mergeable_iff:
  assumes "length reviews < 2 ^ 64"
  shows "be_mergeable (evaluate_branch_protection_with pr protection reviews statuses runs requested ctx)
     \<longleftrightarrow> intrinsic_gates pr reviews statuses runs requested ctx
       \<and> (\<forall>rule. protection = Some rule \<longrightarrow>
            ec_actor_is_admin ctx \<and> \<not> bp_enforce_admins rule
            \<or> rule_gates rule pr reviews statuses runs ctx)"
  using review_blockers_Nil [OF assms]
  by (cases protection)
     (auto simp: evaluate_branch_protection_with_def Let_def intrinsic_gates_def rule_gates_def)

lemma evaluate_state_iff:
  "be_state (evaluate_branch_protection_with pr protection reviews statuses runs requested ctx) =
     (if be_mergeable (evaluate_branch_protection_with pr protection reviews statuses runs requested ctx)
      then ''clean'' else ''blocked'')"
  by (auto simp: evaluate_branch_protection_with_def Let_def from_blockers_def split: option.split)

lemma approver_independent:
  assumes "a \<in> approvers reviews pr"
  shows "\<not> eq_ignore_ascii_case a (fp_author pr)
    \<and> (\<exists>r \<in> set reviews. rv_author r = a \<and> rv_state r = RvApproved
          \<and> rv_head_sha r = Some (gb_sha (fp_head pr)))"
proof -
  from assms obtain r where r: "verdict_of reviews (gb_sha (fp_head pr)) (Some (fp_author pr)) a = Some r"
    and st: "rv_state r = RvApproved" by (auto simp: approvers_def)
  have "r \<in> set (on_head (gb_sha (fp_head pr)) reviews)" by (rule review_in_history [OF r])
  moreover have "\<not> self_approval (Some (fp_author pr)) r" "rv_author r = a"
    using r unfolding verdict_of_Some_iff by blast+
  ultimately show ?thesis using st by (auto simp: self_approval_def on_head_def)
qed

text \<open>Appending reviews: only the reviewer's own later reviews touch their verdict.\<close>

lemma verdict_of_append:
  "verdict_of (reviews @ added) h pa a =
     fold (verdict_step pa) (filter (\<lambda>r. rv_author r = a) (on_head h added)) (verdict_of reviews h pa a)"
  by (simp add: verdict_of_def on_head_def)

lemma verdict_survives:
  assumes "verdict_of reviews h pa a = Some r" "undisturbed pa r (on_head h added)"
  shows "verdict_of (reviews @ added) h pa a = Some r"
proof -
  have "\<forall>y \<in> set (filter (\<lambda>r. rv_author r = a) (on_head h added)). verdict_step pa y (Some r) = Some r"
    using assms verdict_of_author [OF assms(1)] by (auto simp: undisturbed_def verdict_step_keeps)
  from verdict_fold_keeps [OF this] show ?thesis by (simp add: verdict_of_append assms(1))
qed

section \<open>Properties\<close>

text \<open>
  C4. A pull request is mergeable exactly when every gate is open. The intrinsic gates bind
  everybody: the requested commit is the head, the request is no draft, no reviewer's current
  verdict asks for changes and, where the proof is mandatory, the newest \<open>jankurai/proof\<close> result is
  a success. With a rule that the actor may not bypass, also: enough distinct reviewers approve,
  every required context is satisfied, the history is linear and signed where demanded, and every
  changed path with code owners has an approval by one of them. An administrator bypasses only
  the gates of a rule that does not enforce administrators. (A vector of \<open>2^64\<close> reviews cannot
  exist.)
\<close>

theorem merge_gate_exact:
  assumes "length reviews < 2 ^ 64"
  shows "be_mergeable (evaluate_branch_protection_with pr protection reviews statuses runs requested ctx)
     \<longleftrightarrow> intrinsic_gates pr reviews statuses runs requested ctx
       \<and> (\<forall>rule. protection = Some rule \<longrightarrow>
            ec_actor_is_admin ctx \<and> \<not> bp_enforce_admins rule
            \<or> rule_gates rule pr reviews statuses runs ctx)"
  using assms by (rule evaluate_mergeable_iff)

definition sample_review :: "uuid \<Rightarrow> string \<Rightarrow> ReviewState \<Rightarrow> Review" where
  "sample_review i author st =
     \<lparr>rv_id = i, rv_owner = ''acme'', rv_repo = ''jeryu'', rv_pull_number = 1, rv_author = author,
      rv_state = st, rv_body = None, rv_head_sha = Some ''abc'', rv_dismissed_review_id = None,
      rv_submitted_at = 0\<rparr>"

definition sample_pull :: ForgePull where
  "sample_pull =
     \<lparr>fp_id = 7, fp_owner = ''acme'', fp_repo = ''jeryu'', fp_number = 1, fp_issue_number = 1,
      fp_title = ''change'', fp_body = None, fp_state = PrOpen, fp_draft = False, fp_author = ''dev'',
      fp_source_repository = ''acme/jeryu'', fp_head = GitBranchRef_new ''feature'' ''abc'',
      fp_base = GitBranchRef_new ''main'' ''base'', fp_mergeable = False,
      fp_mergeable_state = ''unknown'', fp_merged = False, fp_merged_at = None,
      fp_merge_commit_sha = None, fp_commits = [], fp_changed_files = [''src/lib.rs''],
      fp_created_at = 0, fp_updated_at = 0\<rparr>"

definition sample_rule :: BranchProtectionRule where
  "sample_rule =
     \<lparr>bp_owner = ''acme'', bp_repo = ''jeryu'', bp_branch = ''main'', bp_required_status_checks = [],
      bp_required_approving_review_count = 1, bp_enforce_admins = True,
      bp_required_linear_history = True, bp_allow_force_pushes = False, bp_allow_deletions = False,
      bp_require_signed_commits = False, bp_require_jankurai_proof = False, bp_updated_at = 0\<rparr>"

definition sample_context :: EvaluationContext where
  "sample_context =
     \<lparr>ec_codeowners = Some ''src/ @alice'', ec_actor_is_admin = False,
      ec_jankurai_proof_mandatory = False\<rparr>"

lemma sample_mergeable:
  "be_mergeable (evaluate_branch_protection_with sample_pull (Some sample_rule)
     [sample_review 1 ''alice'' RvApproved] [] [] None sample_context)"
  by code_simp

theorem merge_gate_exact_witness:
  "length [sample_review 1 ''alice'' RvApproved] < 2 ^ 64
   \<and> rule_gates sample_rule sample_pull [sample_review 1 ''alice'' RvApproved] [] [] sample_context"
proof -
  have len: "length [sample_review 1 ''alice'' RvApproved] < 2 ^ 64" by simp
  have "\<not> (ec_actor_is_admin sample_context \<and> \<not> bp_enforce_admins sample_rule)"
    by (simp add: sample_context_def)
  with merge_gate_exact [OF len, of sample_pull "Some sample_rule" "[]" "[]" None sample_context]
    sample_mergeable len
  show ?thesis by blast
qed

text \<open>
  C36. The reviews that count are exactly the undisturbed verdicts, one per reviewer and in the
  order of their names: a review of the current head counts when it approves (not one's own
  request) or asks for changes, and afterwards the same reviewer neither decides again nor
  withdraws it. Reviews of other heads, comments, self approvals and other people's reviews play no
  part.
\<close>

theorem effective_reviews_exact:
  "sorted_wrt (<) (map rv_author (effective_reviews_for_pull_request reviews pr))
   \<and> set (effective_reviews_for_pull_request reviews pr) =
       {r. \<exists>earlier later. on_head (gb_sha (fp_head pr)) reviews = earlier @ r # later
             \<and> rv_state r \<in> {RvApproved, RvChangesRequested}
             \<and> \<not> self_approval (Some (fp_author pr)) r
             \<and> undisturbed (Some (fp_author pr)) r later}"
  unfolding effective_reviews_for_pull_request_def
proof (intro conjI set_eqI)
  fix r
  show "r \<in> set (reduce_reviews reviews (gb_sha (fp_head pr)) (Some (fp_author pr))) \<longleftrightarrow>
      r \<in> {r. \<exists>earlier later. on_head (gb_sha (fp_head pr)) reviews = earlier @ r # later
             \<and> rv_state r \<in> {RvApproved, RvChangesRequested}
             \<and> \<not> self_approval (Some (fp_author pr)) r
             \<and> undisturbed (Some (fp_author pr)) r later}"
    unfolding in_reduce_reviews verdict_of_Some_iff mem_Collect_eq by simp
qed (rule reduce_reviews_authors_sorted)



text \<open>
  A ref operation is allowed exactly without a rule, for an administrator a rule does not bind, or
  when the rule allows it.
\<close>

lemma ref_operation_exact:
  "ro_allowed (evaluate_ref_operation operation protection ctx) \<longleftrightarrow>
     (\<forall>rule. protection = Some rule \<longrightarrow>
        ec_actor_is_admin ctx \<and> \<not> bp_enforce_admins rule
        \<or> (case operation of ForcePush \<Rightarrow> bp_allow_force_pushes rule | DeleteRef \<Rightarrow> bp_allow_deletions rule))"
  by (auto simp: evaluate_ref_operation_def ref_blockers_def Let_def
      split: option.split RefOperation.split)

end
