(* ===== verification/Forge_State.thy ===== *)
theory Forge_State
  imports Branch_Protection "HOL-Library.Product_Lexorder"
begin

text \<open>
  The state of \<open>ForgeCore\<close> and what every operation of \<open>jeryu-core/src/engine\<close> shares:
  the \<open>State\<close> of \<open>engine/mod.rs\<close> with the bound-review types of \<open>bound_reviews.rs\<close>, the
  eligibility of actors (\<open>actors.rs\<close>), the reduction of bound review events, the mergeability of a
  pull request and the webhook outbox.

  A \<open>HashMap\<close> is modelled by its entries in key order. The sources iterate over hash maps only
  to filter, to search by an identifier or to sort afterwards; where the order of iteration could
  show, the model's order is one of the possible ones.

  What the process gets from outside arrives in a record \<open>ForgeEnv\<close> per call: clock readings and
  fresh UUIDs (one per place in the code and index, so any sequence is covered), the answers of
  the writer checks and of the SQLite store, the \<open>JERYU_AUDIT_ENFORCE_MERGE\<close> variable, and as
  functions the JSON encoder, the HMAC signer and Rust's \<open>Debug\<close> form of a string.
\<close>

section \<open>Bound review events\<close>

datatype ReviewCredentialKind = CredSession | CredToken

record ReviewActorBinding =
  rb_login :: string
  rb_profile_id :: uuid
  rb_account_created_at :: time
  rb_auth_epoch :: u64
  rb_credential_kind :: ReviewCredentialKind
  rb_credential_id :: uuid

record ReviewGitRepository =
  gr_id :: uuid
  gr_owner :: string
  gr_name :: string

record ReviewGitTarget =
  gt_source :: ReviewGitRepository
  gt_destination :: ReviewGitRepository
  gt_source_ref :: string
  gt_destination_ref :: string

record ManagedGitIdentity =
  mg_storage_root :: string
  mg_root_device :: u64
  mg_root_inode :: u64
  mg_repository_path :: string
  mg_repository_device :: u64
  mg_repository_inode :: u64
  mg_git_executable :: string
  mg_git_executable_sha256 :: string

record ObservedReviewRef =
  ob_reference :: string
  ob_commit_sha :: string
  ob_tree_sha :: string
  ob_identity :: ManagedGitIdentity

record ReviewGitObservation =
  og_source :: ObservedReviewRef
  og_destination :: ObservedReviewRef

record ReviewSnapshot =
  sn_repository_id :: uuid
  sn_pull_request_id :: uuid
  sn_pull_number :: u64
  sn_author :: string
  sn_target :: ReviewGitTarget
  sn_git :: ReviewGitObservation
  sn_stored_head_sha :: string
  sn_stored_base_sha :: string
  sn_draft :: bool
  sn_policy :: "BranchProtectionRule option"
  sn_codeowners :: "string option"
  sn_policy_revision :: string
  sn_reviewer :: ReviewActorBinding
  sn_destination_access :: RepoAccessLevel
  sn_source_access :: RepoAccessLevel
  sn_reviewer_role :: UserRole
  sn_destination_grant :: "RepoAccessGrant option"
  sn_source_grant :: "RepoAccessGrant option"
  sn_bound_event_ids :: "uuid list"
  sn_advisory_reviews :: "Review list"
  sn_advisory_statuses :: "CommitStatus list"
  sn_advisory_check_runs :: "CheckRun list"
  sn_advisory_commits :: "PullRequestCommit list"
  sn_changed_files :: "string list"

record BoundReviewEvent =
  ev_id :: uuid
  ev_repository_id :: uuid
  ev_pull_request_id :: uuid
  ev_pull_number :: u64
  ev_sequence :: u64
  ev_challenge_id :: uuid
  ev_actor :: ReviewActorBinding
  ev_snapshot :: ReviewSnapshot
  ev_snapshot_sha256 :: string
  ev_request_sha256 :: string
  ev_review :: Review
  ev_comments :: "ReviewComment list"
  ev_audit_id :: uuid

section \<open>The state\<close>

record Counters =
  ct_issue :: u64
  ct_pull :: u64

definition Counters_default :: Counters where
  "Counters_default = \<lparr>ct_issue = 0, ct_pull = 0\<rparr>"

record RepositoryCreation =
  cn_repository_id :: uuid
  cn_owner :: string
  cn_request :: CreateRepositoryRequest
  cn_materialized :: bool

type_synonym pair_key = "string \<times> string"
type_synonym pull_key = "string \<times> string \<times> u64"
type_synonym name_key = "string \<times> string \<times> string"

record ForgeState =
  st_users :: "(string, User) btree_map"
  st_accounts :: "(string, UserAccount) btree_map"
  st_sessions :: "(string, WebSession) btree_map"
  st_personal_tokens :: "(uuid, PersonalAccessToken) btree_map"
  st_invitations :: "(uuid, AccountInvitation) btree_map"
  st_activation_challenges :: "(string, ActivationChallenge) btree_map"
  st_bootstrap_owner_consumed :: bool
  st_repo_grants :: "(name_key, RepoAccessGrant) btree_map"
  st_organizations :: "(string, Organization) btree_map"
  st_teams :: "(pair_key, Team) btree_map"
  st_repos :: "(pair_key, Repository) btree_map"
  st_repository_creations :: "(uuid, RepositoryCreation) btree_map"
  st_labels :: "(name_key, Label) btree_map"
  st_issues :: "(pull_key, Issue) btree_map"
  st_issue_comments :: "(pull_key, IssueComment list) btree_map"
  st_pulls :: "(pull_key, ForgePull) btree_map"
  st_reviews :: "(pull_key, Review list) btree_map"
  st_bound_reviews :: "BoundReviewEvent list"
  st_review_comments :: "(pull_key, ReviewComment list) btree_map"
  st_branch_protections :: "(name_key, BranchProtectionRule) btree_map"
  st_codeowners :: "(pair_key, string) btree_map"
  st_readmes :: "(pair_key, string) btree_map"
  st_statuses :: "(name_key, CommitStatus list) btree_map"
  st_check_runs :: "(pair_key, CheckRun list) btree_map"
  st_webhooks :: "(pair_key, Webhook list) btree_map"
  st_webhook_deliveries :: "WebhookDelivery list"
  st_counters :: "(pair_key, Counters) btree_map"
  st_jankurai_scores :: "(pair_key, JankuraiScore list) btree_map"
  st_repository_aliases :: "(pair_key, RepositoryAlias) btree_map"
  st_repository_transfers :: "(string, RepositoryTransferJournal) btree_map"
  st_repository_mutation_blocks :: "(uuid, RepositoryMutationBlock) btree_map"

definition State_default :: ForgeState where
  "State_default =
     \<lparr>st_users = [], st_accounts = [], st_sessions = [], st_personal_tokens = [], st_invitations = [],
      st_activation_challenges = [], st_bootstrap_owner_consumed = False, st_repo_grants = [],
      st_organizations = [], st_teams = [], st_repos = [], st_repository_creations = [],
      st_labels = [], st_issues = [], st_issue_comments = [], st_pulls = [], st_reviews = [],
      st_bound_reviews = [], st_review_comments = [], st_branch_protections = [],
      st_codeowners = [], st_readmes = [], st_statuses = [], st_check_runs = [], st_webhooks = [],
      st_webhook_deliveries = [], st_counters = [], st_jankurai_scores = [],
      st_repository_aliases = [], st_repository_transfers = [], st_repository_mutation_blocks = []\<rparr>"

section \<open>The environment of a call\<close>

record ForgeEnv =
  en_now :: "string \<Rightarrow> nat \<Rightarrow> time"
  en_uuid :: "string \<Rightarrow> nat \<Rightarrow> uuid"
  en_credential_clock :: "uuid \<Rightarrow> time"
  en_process :: "(unit, ForgeError) result"
  en_ordinary :: "(unit, ForgeError) result"
  en_persist :: "nat \<Rightarrow> ForgeState \<Rightarrow> (unit, ForgeError) result"
  en_enforce_merge :: "string option"
  en_to_vec :: "EventPayload \<Rightarrow> string"
  en_sign :: "string \<Rightarrow> string \<Rightarrow> string"
  en_debug_str :: "string \<Rightarrow> string"

text \<open>
  An operation of the core takes the state and returns its result with the new state. Early
  returns keep the state as it is at that point.
\<close>

type_synonym 'a forge = "ForgeState \<Rightarrow> ('a, ForgeError) result \<times> ForgeState"

definition f_bind :: "'a forge \<Rightarrow> ('a \<Rightarrow> 'b forge) \<Rightarrow> 'b forge" where
  "f_bind m k s = (case m s of (Inl e, t) \<Rightarrow> (Inl e, t) | (Inr x, t) \<Rightarrow> k x t)"

text \<open>A fallible read of the state, and a check that does not look at it.\<close>

definition f_read :: "(ForgeState \<Rightarrow> ('a, ForgeError) result) \<Rightarrow> 'a forge" where
  "f_read g s = (g s, s)"

definition f_try :: "('a, ForgeError) result \<Rightarrow> 'a forge" where
  "f_try r s = (r, s)"

text \<open>
  \<open>let previous = state.clone()\<close>, a mutation, \<open>persist_after_mutation(state, previous)?\<close> and
  \<open>Ok(x)\<close>: when the store refuses, the previous state is put back. The index tells the writes of
  one call apart.
\<close>

definition f_commit ::
  "ForgeEnv \<Rightarrow> nat \<Rightarrow> (ForgeState \<Rightarrow> 'a \<times> ForgeState) \<Rightarrow> 'a forge" where
  "f_commit env n f s =
     (case f s of (x, t) \<Rightarrow>
        case en_persist env n t of Inl e \<Rightarrow> (Inl e, s) | Inr _ \<Rightarrow> (Inr x, t))"

section \<open>Names and numbers\<close>

definition require_name :: "string \<Rightarrow> string \<Rightarrow> (unit, ForgeError) result" where
  "require_name field v =
     (if trim v = [] then Err (Validation (field @ '' cannot be empty'')) else Ok ())"

text \<open>
  \<open>str::to_lowercase\<close> followed by the replacement of everything that is not an ASCII letter or
  digit by a dash, on UTF-8 bytes. The only characters outside ASCII whose lower-case form contains
  an ASCII letter are U+0130 (an \<open>i\<close> with a combining dot) and U+212A (the Kelvin sign, \<open>k\<close>);
  every other byte of a longer sequence becomes a dash, and runs of dashes are one separator.
\<close>

fun slug_chars :: "string \<Rightarrow> string" where
  "slug_chars [] = []"
| "slug_chars (a # s) =
     (if is_ascii_alphanumeric a then to_ascii_lowercase a # slug_chars s
      else case s of
        b # s' \<Rightarrow>
          if of_char a = (0xC4 :: nat) \<and> of_char b = (0xB0 :: nat) then CHR ''i'' # CHR ''-'' # slug_chars s'
          else (case s' of
                  c # s'' \<Rightarrow>
                    if of_char a = (0xE2 :: nat) \<and> of_char b = (0x84 :: nat) \<and> of_char c = (0xAA :: nat)
                    then CHR ''k'' # slug_chars s''
                    else CHR ''-'' # slug_chars s
                | [] \<Rightarrow> CHR ''-'' # slug_chars s)
      | [] \<Rightarrow> [CHR ''-''])"

definition slugify :: "string \<Rightarrow> string" where
  "slugify v =
     join ''-'' (filter (\<lambda>part. part \<noteq> []) (split_char (CHR ''-'') (slug_chars (trim v))))"

text \<open>
  Increment of a \<open>u64\<close> counter; it wraps in a release build, for which no profile of the
  workspace enables overflow checks.
\<close>

definition next_issue_number :: "string \<Rightarrow> string \<Rightarrow> ForgeState \<Rightarrow> u64 \<times> ForgeState" where
  "next_issue_number owner repo s =
     (let c = (case bt_get (st_counters s) (owner, repo) of Some c \<Rightarrow> c | None \<Rightarrow> Counters_default);
          n = ct_issue c + 1
      in (n, s\<lparr>st_counters := bt_insert (owner, repo) (c\<lparr>ct_issue := n\<rparr>) (st_counters s)\<rparr>))"

definition next_pull_number :: "string \<Rightarrow> string \<Rightarrow> ForgeState \<Rightarrow> u64 \<times> ForgeState" where
  "next_pull_number owner repo s =
     (let c = (case bt_get (st_counters s) (owner, repo) of Some c \<Rightarrow> c | None \<Rightarrow> Counters_default);
          n = ct_pull c + 1
      in (n, s\<lparr>st_counters := bt_insert (owner, repo) (c\<lparr>ct_pull := n\<rparr>) (st_counters s)\<rparr>))"

text \<open>The hyphenated form of a UUID.\<close>

definition show_uuid :: "uuid \<Rightarrow> string" where
  "show_uuid u =
     (let h = hex_pad 32 (unat u) in
      take 8 h @ ''-'' @ take 4 (drop 8 h) @ ''-'' @ take 4 (drop 12 h) @ ''-''
      @ take 4 (drop 16 h) @ ''-'' @ drop 20 h)"

section \<open>Default protection\<close>

definition default_branch_protection_rule ::
  "ForgeEnv \<Rightarrow> string \<Rightarrow> string \<Rightarrow> string \<Rightarrow> BranchProtectionRule" where
  "default_branch_protection_rule env owner repo branch =
     \<lparr>bp_owner = owner, bp_repo = repo, bp_branch = branch, bp_required_status_checks = [],
      bp_required_approving_review_count = 0, bp_enforce_admins = False,
      bp_required_linear_history = True, bp_allow_force_pushes = False,
      bp_allow_deletions = False, bp_require_signed_commits = False,
      bp_require_jankurai_proof = False, bp_updated_at = en_now env ''default rule'' 0\<rparr>"

definition ensure_default_branch_protection ::
  "ForgeEnv \<Rightarrow> Repository \<Rightarrow> ForgeState \<Rightarrow> bool \<times> ForgeState" where
  "ensure_default_branch_protection env repo s =
     (let key = (re_owner repo, re_name repo, re_default_branch repo) in
      if bt_get (st_branch_protections s) key \<noteq> None then (False, s)
      else (True, s\<lparr>st_branch_protections :=
              bt_insert key
                (default_branch_protection_rule env (re_owner repo) (re_name repo) (re_default_branch repo))
                (st_branch_protections s)\<rparr>))"

definition backfill_default_branch_protections :: "ForgeEnv \<Rightarrow> ForgeState \<Rightarrow> nat \<times> ForgeState" where
  "backfill_default_branch_protections env s =
     fold (\<lambda>repo (n, t). case ensure_default_branch_protection env repo t of
             (True, t') \<Rightarrow> (Suc n, t') | (False, t') \<Rightarrow> (n, t'))
       (bt_values (st_repos s)) (0, s)"

section \<open>Actors\<close>

definition invalid_credential :: ForgeError where
  "invalid_credential =
     Unauthenticated ''credential is absent, expired, revoked or no longer eligible''"

definition credential_live :: "ForgeEnv \<Rightarrow> ForgeState \<Rightarrow> ReviewActorBinding \<Rightarrow> bool" where
  "credential_live env s b =
     (case rb_credential_kind b of
        CredToken \<Rightarrow>
          (case bt_get (st_personal_tokens s) (rb_credential_id b) of
             Some token \<Rightarrow>
               pa_login token = rb_login b \<and> pa_auth_epoch token = rb_auth_epoch b
               \<and> (case pa_expires_at token of
                    Some expiry \<Rightarrow> expiry > en_credential_clock env (rb_credential_id b) | None \<Rightarrow> True)
           | None \<Rightarrow> False)
      | CredSession \<Rightarrow>
          list_ex (\<lambda>session. ss_id session = rb_credential_id b \<and> ss_login session = rb_login b
              \<and> ss_auth_epoch session = rb_auth_epoch b
              \<and> ss_expires_at session > en_credential_clock env (rb_credential_id b))
            (bt_values (st_sessions s)))"

definition validate_actor_binding ::
  "ForgeEnv \<Rightarrow> ForgeState \<Rightarrow> ReviewActorBinding \<Rightarrow> (ReviewActorBinding, ForgeError) result" where
  "validate_actor_binding env s b =
     and_then (ok_or invalid_credential (bt_get (st_accounts s) (rb_login b))) (\<lambda>account.
       if \<not> permits_authentication (ua_status account)
          \<or> ua_must_change_password account
          \<or> ua_auth_epoch account \<noteq> rb_auth_epoch b
          \<or> ua_created_at account \<noteq> rb_account_created_at b
          \<or> (case bt_get (st_users s) (rb_login b) of
               Some profile \<Rightarrow> us_id profile \<noteq> rb_profile_id b | None \<Rightarrow> True)
       then Err invalid_credential
       else if \<not> credential_live env s b then Err invalid_credential
       else Ok b)"

definition require_access ::
  "ForgeState \<Rightarrow> string \<Rightarrow> ReviewGitRepository \<Rightarrow> bool \<Rightarrow> (RepoAccessLevel, ForgeError) result" where
  "require_access s login repo write_access =
     and_then (ok_or (Unauthenticated ''account disappeared'') (bt_get (st_accounts s) login)) (\<lambda>account.
       let access =
         (if ua_role account = RoleAdmin then Some AccessAdmin
          else case bt_get (st_repo_grants s) (login, gr_owner repo, gr_name repo) of
            Some grant \<Rightarrow> Some (rg_access grant)
          | None \<Rightarrow>
              if \<not> write_access
                 \<and> (case bt_get (st_repos s) (gr_owner repo, gr_name repo) of
                      Some r \<Rightarrow> \<not> re_private r | None \<Rightarrow> False)
              then Some AccessRead else None)
       in (case access of
             Some a \<Rightarrow>
               if (if write_access then allows_write a else allows_read a) then Ok a
               else Err (Forbidden (''current repository '' @ (if write_access then ''write'' else ''read'')
                                    @ '' access is required''))
           | None \<Rightarrow>
               Err (Forbidden (''current repository '' @ (if write_access then ''write'' else ''read'')
                               @ '' access is required''))))"

section \<open>Bound reviews that count\<close>

definition bound_step ::
  "ForgePull \<Rightarrow> BoundReviewEvent \<Rightarrow> (uuid, BoundReviewEvent) btree_map
   \<Rightarrow> (uuid, BoundReviewEvent) btree_map" where
  "bound_step pr event latest =
     (let profile = rb_profile_id (ev_actor event) in
      case rv_state (ev_review event) of
        RvApproved \<Rightarrow>
          if eq_ignore_ascii_case (fp_author pr) (rb_login (ev_actor event)) then latest
          else bt_insert profile event latest
      | RvChangesRequested \<Rightarrow> bt_insert profile event latest
      | RvCommented \<Rightarrow> latest
      | RvDismissed \<Rightarrow>
          (case bt_get latest profile of
             Some current \<Rightarrow>
               if Some (rv_id (ev_review current)) = rv_dismissed_review_id (ev_review event)
               then bt_remove profile latest else latest
           | None \<Rightarrow> latest))"

definition events_of :: "ForgeState \<Rightarrow> ForgePull \<Rightarrow> BoundReviewEvent list" where
  "events_of s pr =
     sort_key ev_sequence
       (filter (\<lambda>event. ev_pull_request_id event = fp_id pr
                  \<and> rv_head_sha (ev_review event) = Some (gb_sha (fp_head pr)))
          (st_bound_reviews s))"

definition reduced_bound_events :: "ForgeState \<Rightarrow> ForgePull \<Rightarrow> BoundReviewEvent list" where
  "reduced_bound_events s pr = bt_values (fold (bound_step pr) (events_of s pr) [])"

definition is_Ok :: "('a, 'e) result \<Rightarrow> bool" where
  "is_Ok r = (case r of Inr _ \<Rightarrow> True | Inl _ \<Rightarrow> False)"

definition event_counts :: "ForgeEnv \<Rightarrow> ForgeState \<Rightarrow> ForgePull \<Rightarrow> BoundReviewEvent \<Rightarrow> bool" where
  "event_counts env s pr event =
     (if rv_state (ev_review event) = RvChangesRequested then True
      else sn_policy (ev_snapshot event)
             = bt_get (st_branch_protections s) (fp_owner pr, fp_repo pr, gb_ref_name (fp_base pr))
        \<and> sn_codeowners (ev_snapshot event) = bt_get (st_codeowners s) (fp_owner pr, fp_repo pr)
        \<and> is_Ok (validate_actor_binding env s (ev_actor event))
        \<and> is_Ok (require_access s (rb_login (ev_actor event))
                   (gt_destination (sn_target (ev_snapshot event))) True))"

definition bound_reviews_for_evaluation :: "ForgeEnv \<Rightarrow> ForgeState \<Rightarrow> ForgePull \<Rightarrow> Review list" where
  "bound_reviews_for_evaluation env s pr =
     map ev_review (filter (event_counts env s pr) (reduced_bound_events s pr))"

section \<open>Mergeability of a stored pull request\<close>

definition audit_merge_enforced :: "ForgeEnv \<Rightarrow> bool" where
  "audit_merge_enforced env =
     (case en_enforce_merge env of
        Some v \<Rightarrow> trim v \<in> {''1'', ''true'', ''yes'', ''on''} | None \<Rightarrow> False)"

definition evaluate_locked ::
  "ForgeEnv \<Rightarrow> ForgeState \<Rightarrow> ForgePull \<Rightarrow> string option \<Rightarrow> BranchProtectionEvaluation" where
  "evaluate_locked env s pr requested_sha =
     evaluate_branch_protection_with pr
       (bt_get (st_branch_protections s) (fp_owner pr, fp_repo pr, gb_ref_name (fp_base pr)))
       (bound_reviews_for_evaluation env s pr) [] [] requested_sha
       \<lparr>ec_codeowners = bt_get (st_codeowners s) (fp_owner pr, fp_repo pr),
        ec_actor_is_admin = False,
        ec_jankurai_proof_mandatory = audit_merge_enforced env\<rparr>"

definition apply_evaluation :: "BranchProtectionEvaluation \<Rightarrow> ForgePull \<Rightarrow> ForgePull" where
  "apply_evaluation evaluation pr =
     (if fp_merged pr \<or> fp_state pr = PrMerged
      then pr\<lparr>fp_mergeable := False, fp_mergeable_state := ''merged''\<rparr>
      else if fp_state pr = PrClosed
      then pr\<lparr>fp_mergeable := False, fp_mergeable_state := ''closed''\<rparr>
      else pr\<lparr>fp_mergeable := be_mergeable evaluation, fp_mergeable_state := be_state evaluation,
              fp_state := (if fp_draft pr then PrDraft
                           else if be_mergeable evaluation then PrMergeable else PrBlockedByChecks)\<rparr>)"

definition reevaluate :: "ForgeEnv \<Rightarrow> ForgeState \<Rightarrow> ForgePull \<Rightarrow> ForgePull" where
  "reevaluate env s pr = apply_evaluation (evaluate_locked env s pr None) pr"

text \<open>The pull requests at a head, and the loop that reevaluates each of them in place.\<close>

definition refresh_one :: "ForgeEnv \<Rightarrow> pull_key \<Rightarrow> ForgeState \<Rightarrow> ForgeState" where
  "refresh_one env key s =
     (case bt_get (st_pulls s) key of
        Some pr \<Rightarrow> s\<lparr>st_pulls := bt_insert key (reevaluate env s pr) (st_pulls s)\<rparr>
      | None \<Rightarrow> s)"

definition refresh_pull_mergeability_for_sha ::
  "ForgeEnv \<Rightarrow> string \<Rightarrow> string \<Rightarrow> string \<Rightarrow> ForgeState \<Rightarrow> ForgeState" where
  "refresh_pull_mergeability_for_sha env owner repo sha s =
     fold (refresh_one env)
       (map fst (filter (\<lambda>((o', r, _), pr). o' = owner \<and> r = repo \<and> gb_sha (fp_head pr) = sha)
          (st_pulls s))) s"

section \<open>The webhook outbox\<close>

definition should_deliver :: "Webhook \<Rightarrow> string \<Rightarrow> bool" where
  "should_deliver hook event \<longleftrightarrow>
     wh_active hook \<and> (list_ex (\<lambda>n. n = ''*'') (wh_events hook) \<or> list_ex (\<lambda>n. n = event) (wh_events hook))"

definition event_payload :: "string \<Rightarrow> string \<Rightarrow> ForgeObject \<Rightarrow> EventPayload" where
  "event_payload action object_name object =
     \<lparr>ep_action = action, ep_object_name = object_name, ep_object = object, ep_sender = ''jeryu''\<rparr>"

text \<open>
  One delivery per subscribed hook. \<open>site\<close> tells the outbox writes of one operation apart, so
  that each takes its own UUIDs and clock readings.
\<close>

definition delivery ::
  "ForgeEnv \<Rightarrow> string \<Rightarrow> string \<Rightarrow> string \<Rightarrow> string \<Rightarrow> EventPayload \<Rightarrow> nat \<Rightarrow> Webhook \<Rightarrow> WebhookDelivery" where
  "delivery env site owner repo event payload i hook =
     \<lparr>wd_id = en_uuid env site i, wd_hook_id = wh_id hook, wd_owner = owner, wd_repo = repo,
      wd_event = event, wd_target_url = wc_url (wh_config hook), wd_payload = payload,
      wd_signature_256 = map_option (\<lambda>secret. en_sign env secret (en_to_vec env payload))
                           (wc_secret (wh_config hook)),
      wd_delivered = False, wd_created_at = en_now env site i\<rparr>"

definition emit_event_locked ::
  "ForgeEnv \<Rightarrow> string \<Rightarrow> string \<Rightarrow> string \<Rightarrow> string \<Rightarrow> EventPayload \<Rightarrow> ForgeState \<Rightarrow> ForgeState" where
  "emit_event_locked env site owner repo event payload s =
     (let hooks = (case bt_get (st_webhooks s) (owner, repo) of Some hooks \<Rightarrow> hooks | None \<Rightarrow> []);
          chosen = filter (\<lambda>hook. should_deliver hook event) hooks
      in s\<lparr>st_webhook_deliveries := st_webhook_deliveries s
            @ map (\<lambda>(i, hook). delivery env site owner repo event payload i hook)
                (enumerate 0 chosen)\<rparr>)"

end
