(* ===== verification/Forge_Admission.thy ===== *)
theory Forge_Admission
  imports Forge_State
begin

text \<open>
  \<open>engine/mutation.rs\<close>: how a mutation is admitted. A caller first reads the identities of the
  repositories it names (the \<open>hint\<close> state), then takes the authority and repository guards, and
  under them checks the writer, that the names still mean the same repositories, and that each
  repository admits the operation. The state in which the guards are taken may differ from the hint
  state, as other callers may run in between; all operations below therefore take both. Inside the
  guards an operation is one step: they exclude every other mutation of the named repositories.
\<close>

record RepositoryHint =
  rh_owner :: string
  rh_name :: string
  rh_id :: uuid
  rh_writes :: bool

definition find_repo :: "ForgeState \<Rightarrow> uuid \<Rightarrow> Repository option" where
  "find_repo s i = find (\<lambda>repo. re_id repo = i) (bt_values (st_repos s))"

definition require_repository_admissible ::
  "ForgeState \<Rightarrow> uuid \<Rightarrow> bool \<Rightarrow> (unit, ForgeError) result" where
  "require_repository_admissible s i writes =
     and_then (ok_or (ForgeNotFound (''repository UUID '' @ show_uuid i)) (find_repo s i)) (\<lambda>repo.
       if writes \<and> (re_archived repo \<or> re_disabled repo)
       then Err (Forbidden (''repository '' @ re_full_name repo @ '' is archived or disabled''))
       else case bt_get (st_repository_mutation_blocks s) i of
         Some (ReadOnly reason evidence) \<Rightarrow>
           if writes
           then Err (Forbidden (''repository '' @ re_full_name repo @ '' is read-only: '' @ reason))
           else Ok ()
       | Some (ReconciliationRequired operation_id reason) \<Rightarrow>
           Err (WriterUnavailable (''repository '' @ re_full_name repo
             @ '' requires reconciliation of '' @ show_uuid operation_id @ '': '' @ reason))
       | None \<Rightarrow> Ok ())"

definition require_repository_writable :: "ForgeState \<Rightarrow> uuid \<Rightarrow> (unit, ForgeError) result" where
  "require_repository_writable s i = require_repository_admissible s i True"

definition not_found_repository :: "string \<Rightarrow> string \<Rightarrow> ForgeError" where
  "not_found_repository owner name = ForgeNotFound (''repository '' @ owner @ ''/'' @ name)"

definition make_hint ::
  "ForgeState \<Rightarrow> nat \<times> string \<times> string \<Rightarrow> (RepositoryHint, ForgeError) result" where
  "make_hint hint = (\<lambda>(index, owner, name).
     and_then (ok_or (not_found_repository owner name) (bt_get (st_repos hint) (owner, name))) (\<lambda>repo.
       Ok \<lparr>rh_owner = owner, rh_name = name, rh_id = re_id repo, rh_writes = (index = 0)\<rparr>))"

definition admit_hint :: "ForgeState \<Rightarrow> RepositoryHint \<Rightarrow> (unit, ForgeError) result" where
  "admit_hint s h =
     (if map_option re_id (bt_get (st_repos s) (rh_owner h, rh_name h)) \<noteq> Some (rh_id h)
      then Err (ForgeConflict ''repository identity changed before admission'')
      else require_repository_admissible s (rh_id h) (rh_writes h))"

definition with_named_mutation ::
  "ForgeEnv \<Rightarrow> ForgeState \<Rightarrow> (string \<times> string) list \<Rightarrow> 'a forge \<Rightarrow> 'a forge" where
  "with_named_mutation env hint names operation =
     f_bind (f_try (en_process env)) (\<lambda>_.
     f_bind (f_try (collect_results (map (make_hint hint) (enumerate 0 names)))) (\<lambda>hints.
     f_bind (f_try (en_ordinary env)) (\<lambda>_.
     f_bind (f_read (\<lambda>s. for_each (admit_hint s) hints)) (\<lambda>_.
     operation))))"

definition with_repository_mutation ::
  "ForgeEnv \<Rightarrow> ForgeState \<Rightarrow> string \<Rightarrow> string \<Rightarrow> 'a forge \<Rightarrow> 'a forge" where
  "with_repository_mutation env hint owner repo operation =
     with_named_mutation env hint [(owner, repo)] operation"

text \<open>
  The authority variant holds the authority lock exclusively, and the profile variant decides by
  the existence of the profile which lock to take; both admit in the same way.
\<close>

definition with_repository_authority_mutation ::
  "ForgeEnv \<Rightarrow> ForgeState \<Rightarrow> string \<Rightarrow> string \<Rightarrow> 'a forge \<Rightarrow> 'a forge" where
  "with_repository_authority_mutation env hint owner repo operation =
     with_named_mutation env hint [(owner, repo)] operation"

definition with_profile_mutation ::
  "ForgeEnv \<Rightarrow> ForgeState \<Rightarrow> string \<Rightarrow> string \<Rightarrow> 'a forge \<Rightarrow> 'a forge" where
  "with_profile_mutation env hint owner repo operation =
     f_bind (f_try (en_process env)) (\<lambda>_. with_named_mutation env hint [(owner, repo)] operation)"

definition with_global_mutation :: "ForgeEnv \<Rightarrow> 'a forge \<Rightarrow> 'a forge" where
  "with_global_mutation env operation =
     f_bind (f_try (en_process env)) (\<lambda>_. f_bind (f_try (en_ordinary env)) (\<lambda>_. operation))"

definition source_names ::
  "string \<Rightarrow> string \<Rightarrow> string option \<Rightarrow> string \<Rightarrow> ((string \<times> string) list, ForgeError) result" where
  "source_names owner repo source message =
     (case source of
        None \<Rightarrow> Ok [(owner, repo)]
      | Some src \<Rightarrow>
          and_then (ok_or (Validation message) (split_once (CHR ''/'') src)) (\<lambda>pair.
            Ok [(owner, repo), pair]))"

definition with_source_mutation ::
  "ForgeEnv \<Rightarrow> ForgeState \<Rightarrow> string \<Rightarrow> string \<Rightarrow> string option \<Rightarrow> 'a forge \<Rightarrow> 'a forge" where
  "with_source_mutation env hint owner repo source operation =
     f_bind (f_try (en_process env)) (\<lambda>_.
     f_bind (f_try (source_names owner repo
        (case map_option trim source of Some src \<Rightarrow> if src = [] then None else Some src | None \<Rightarrow> None)
        ''source repository must be owner/name'')) (\<lambda>names.
     with_named_mutation env hint names operation))"

definition not_found_pull :: "string \<Rightarrow> string \<Rightarrow> u64 \<Rightarrow> ForgeError" where
  "not_found_pull owner repo number =
     ForgeNotFound (''pull request '' @ owner @ ''/'' @ repo @ ''#'' @ show_word number)"

definition with_pull_mutation ::
  "ForgeEnv \<Rightarrow> ForgeState \<Rightarrow> string \<Rightarrow> string \<Rightarrow> u64 \<Rightarrow> 'a forge \<Rightarrow> 'a forge" where
  "with_pull_mutation env hint owner repo number operation =
     f_bind (f_try (en_process env)) (\<lambda>_.
     f_bind (f_try (ok_or (not_found_pull owner repo number)
                (bt_get (st_pulls hint) (owner, repo, number)))) (\<lambda>stored.
     let source = fp_source_repository stored in
     f_bind (f_try (source_names owner repo (if source = [] then None else Some source)
        ''stored source repository must be owner/name'')) (\<lambda>names.
     with_named_mutation env hint names
       (f_bind (f_read (\<lambda>s.
          if (case bt_get (st_pulls s) (owner, repo, number) of
                Some pr \<Rightarrow> fp_source_repository pr = source | None \<Rightarrow> False)
          then Ok () else Err (ForgeConflict ''pull request source identity changed'')))
        (\<lambda>_. operation)))))"

definition with_repository_id_mutation :: "ForgeEnv \<Rightarrow> uuid \<Rightarrow> 'a forge \<Rightarrow> 'a forge" where
  "with_repository_id_mutation env i operation =
     f_bind (f_try (en_process env)) (\<lambda>_.
     f_bind (f_try (en_ordinary env)) (\<lambda>_.
     f_bind (f_read (\<lambda>s. require_repository_writable s i)) (\<lambda>_. operation)))"

definition with_repository_creation_mutation :: "ForgeEnv \<Rightarrow> uuid \<Rightarrow> 'a forge \<Rightarrow> 'a forge" where
  "with_repository_creation_mutation env i operation =
     f_bind (f_try (en_process env)) (\<lambda>_.
     f_bind (f_read (\<lambda>s. if list_ex (\<lambda>repo. re_id repo = i) (bt_values (st_repos s))
                        then require_repository_writable s i else Ok ())) (\<lambda>_. operation))"

definition with_transfer_prepare_mutation ::
  "ForgeEnv \<Rightarrow> uuid \<Rightarrow> string \<Rightarrow> string \<Rightarrow> 'a forge \<Rightarrow> 'a forge" where
  "with_transfer_prepare_mutation env i idempotency_key request_fingerprint operation =
     f_bind (f_try (en_process env)) (\<lambda>_.
     f_bind (f_try (en_ordinary env)) (\<lambda>_.
     f_bind (f_read (\<lambda>s.
       case bt_get (st_repository_transfers s) idempotency_key of
         Some existing \<Rightarrow>
           if rt_repository_id existing \<noteq> i \<or> rt_request_fingerprint existing \<noteq> request_fingerprint
           then Err (ForgeConflict (''idempotency key '' @ en_debug_str env idempotency_key
                       @ '' is already bound to another transfer''))
           else Ok ()
       | None \<Rightarrow> Ok ())) (\<lambda>_.
     f_bind (f_read (\<lambda>s. require_repository_writable s i)) (\<lambda>_. operation))))"

definition not_found_transfer :: "uuid \<Rightarrow> ForgeError" where
  "not_found_transfer i = ForgeNotFound (''repository transfer '' @ show_uuid i)"

definition with_transfer_mutation :: "ForgeEnv \<Rightarrow> ForgeState \<Rightarrow> uuid \<Rightarrow> 'a forge \<Rightarrow> 'a forge" where
  "with_transfer_mutation env hint transaction_id operation =
     f_bind (f_try (en_process env)) (\<lambda>_.
     f_bind (f_try (ok_or (not_found_transfer transaction_id)
        (map_option rt_repository_id
          (find (\<lambda>t. rt_transaction_id t = transaction_id)
             (bt_values (st_repository_transfers hint)))))) (\<lambda>i.
     with_repository_id_mutation env i
       (f_bind (f_read (\<lambda>s.
          if list_ex (\<lambda>t. rt_transaction_id t = transaction_id \<and> rt_repository_id t = i)
               (bt_values (st_repository_transfers s))
          then Ok () else Err (ForgeConflict ''repository transfer identity changed'')))
        (\<lambda>_. operation))))"

definition block_repository_mutations ::
  "ForgeEnv \<Rightarrow> uuid \<Rightarrow> RepositoryMutationBlock \<Rightarrow> RepositoryMutationBlock forge" where
  "block_repository_mutations env i block =
     f_bind (f_try (en_process env)) (\<lambda>_.
     f_bind (f_try (case block of
         ReadOnly reason evidence \<Rightarrow>
           if trim reason = [] \<or> trim evidence = []
           then Err (Validation ''read-only custody requires reason and evidence'') else Ok ()
       | ReconciliationRequired operation_id reason \<Rightarrow>
           if operation_id = 0 \<or> trim reason = []
           then Err (Validation ''reconciliation requires operation ID and reason'') else Ok ())) (\<lambda>_.
     f_bind (f_try (en_ordinary env)) (\<lambda>_.
     f_bind (f_read (\<lambda>s.
       ensure (list_ex (\<lambda>repo. re_id repo = i) (bt_values (st_repos s)))
         (ForgeNotFound (''repository UUID '' @ show_uuid i)))) (\<lambda>_.
     (\<lambda>s. case bt_get (st_repository_mutation_blocks s) i of
        Some existing \<Rightarrow>
          if existing = block then (Ok existing, s)
          else (Err (ForgeConflict ''repository mutation restriction is already recorded''), s)
      | None \<Rightarrow>
          f_commit env 0 (\<lambda>s. (block, s\<lparr>st_repository_mutation_blocks :=
            bt_insert i block (st_repository_mutation_blocks s)\<rparr>)) s)))))"

definition repository_mutation_block ::
  "ForgeState \<Rightarrow> uuid \<Rightarrow> (RepositoryMutationBlock option, ForgeError) result" where
  "repository_mutation_block s i =
     (if list_ex (\<lambda>repo. re_id repo = i) (bt_values (st_repos s))
      then Ok (bt_get (st_repository_mutation_blocks s) i)
      else Err (ForgeNotFound (''repository UUID '' @ show_uuid i)))"

section \<open>Running the combinators\<close>

lemma f_bind_run:
  "f_bind m k s = (case m s of (Inl e, t) \<Rightarrow> (Inl e, t) | (Inr x, t) \<Rightarrow> k x t)"
  by (simp add: f_bind_def)

lemma f_bind_try [simp]:
  "f_bind (f_try r) k s = (case r of Inl e \<Rightarrow> (Inl e, s) | Inr x \<Rightarrow> k x s)"
  by (simp add: f_bind_def f_try_def)

lemma f_bind_read [simp]:
  "f_bind (f_read g) k s = (case g s of Inl e \<Rightarrow> (Inl e, s) | Inr x \<Rightarrow> k x s)"
  by (simp add: f_bind_def f_read_def)

lemma f_try_run [simp]: "f_try r s = (r, s)"
  by (simp add: f_try_def)

lemma f_read_run [simp]: "f_read g s = (g s, s)"
  by (simp add: f_read_def)

text \<open>
  What an admission wrapper promises its client: it either refuses and leaves the state as it is,
  or it runs the operation in the state it was admitted in. Checks compose.
\<close>

definition guarded :: "('a forge \<Rightarrow> 'a forge) \<Rightarrow> ForgeState \<Rightarrow> bool" where
  "guarded wrap s \<longleftrightarrow>
     (\<exists>e. \<forall>operation. wrap operation s = (Inl e, s)) \<or> (\<forall>operation. wrap operation s = operation s)"

named_theorems guards \<open>composition of admission checks\<close>

lemma guarded_id [guards]: "guarded (\<lambda>operation. operation) s"
  by (simp add: guarded_def)

lemma guarded_try [guards]:
  "(\<And>x. guarded (w x) s) \<Longrightarrow> guarded (\<lambda>operation. f_bind (f_try r) (\<lambda>x. w x operation)) s"
  by (cases r) (auto simp: guarded_def)

lemma guarded_read [guards]:
  "(\<And>x. guarded (w x) s) \<Longrightarrow> guarded (\<lambda>operation. f_bind (f_read g) (\<lambda>x. w x operation)) s"
  by (cases "g s") (auto simp: guarded_def)

lemma guarded_comp [guards]:
  "guarded w s \<Longrightarrow> guarded v s \<Longrightarrow> guarded (\<lambda>operation. w (v operation)) s"
  by (auto simp: guarded_def)

locale admission =
  fixes wrap :: "'a forge \<Rightarrow> 'a forge"
  assumes wrap_guarded: "guarded wrap s"
begin

lemma wrap_cases:
  obtains e where "wrap operation s = (Inl e, s)" | "wrap operation s = operation s"
  using wrap_guarded [of s] unfolding guarded_def by blast

lemma wrap_state: "snd (wrap operation s) = s \<or> wrap operation s = operation s"
  by (cases rule: wrap_cases [of operation s]) auto

lemma wrap_Ok: "fst (wrap operation s) = Inr x \<Longrightarrow> wrap operation s = operation s"
  by (cases rule: wrap_cases [of operation s]) auto

text \<open>What holds of every refusal and of the admitted operation holds of the wrapped one.\<close>

lemma wrap_all:
  assumes "\<And>e. P (Inl e, s)" "P (operation s)"
  shows "P (wrap operation s)"
  by (cases rule: wrap_cases [of operation s]) (simp_all add: assms)

end

lemma named_guarded: "guarded (with_named_mutation env hint names) s"
  unfolding with_named_mutation_def [abs_def] by (intro guards)

interpretation named_mutation: admission "with_named_mutation env hint names" for env hint names
  by unfold_locales (rule named_guarded)

interpretation repository_mutation: admission "with_repository_mutation env hint owner repo"
  for env hint owner repo
  unfolding with_repository_mutation_def [abs_def] by unfold_locales (rule named_guarded)

interpretation authority_mutation: admission "with_repository_authority_mutation env hint owner repo"
  for env hint owner repo
  unfolding with_repository_authority_mutation_def [abs_def] by unfold_locales (rule named_guarded)

interpretation profile_mutation: admission "with_profile_mutation env hint owner repo"
  for env hint owner repo
  unfolding with_profile_mutation_def [abs_def] by unfold_locales (rule guarded_try, rule named_guarded)

interpretation global_mutation: admission "with_global_mutation env" for env
  unfolding with_global_mutation_def [abs_def] by unfold_locales (intro guards)

interpretation source_mutation: admission "with_source_mutation env hint owner repo source"
  for env hint owner repo source
  unfolding with_source_mutation_def [abs_def]
  by unfold_locales (rule guarded_try, rule guarded_try, rule named_guarded)

interpretation pull_mutation: admission "with_pull_mutation env hint owner repo number"
  for env hint owner repo number
  unfolding with_pull_mutation_def [abs_def] Let_def
  by unfold_locales
     (rule guarded_try, rule guarded_try, rule guarded_try,
      rule guarded_comp [where w = "with_named_mutation env hint names" for names],
      rule named_guarded, rule guarded_read, rule guarded_id)

interpretation repository_id_mutation: admission "with_repository_id_mutation env i" for env i
  unfolding with_repository_id_mutation_def [abs_def] by unfold_locales (intro guards)

interpretation creation_mutation: admission "with_repository_creation_mutation env i" for env i
  unfolding with_repository_creation_mutation_def [abs_def] by unfold_locales (intro guards)

interpretation transfer_prepare_mutation: admission "with_transfer_prepare_mutation env i key fingerprint"
  for env i key fingerprint
  unfolding with_transfer_prepare_mutation_def [abs_def] by unfold_locales (intro guards)

interpretation transfer_mutation: admission "with_transfer_mutation env hint i" for env hint i
  unfolding with_transfer_mutation_def [abs_def]
  by unfold_locales
     (rule guarded_try, rule guarded_try,
      rule guarded_comp [where w = "with_repository_id_mutation env j" for j],
      rule repository_id_mutation.wrap_guarded, rule guarded_read, rule guarded_id)

section \<open>What admission guarantees\<close>

text \<open>A repository that accepts a write: catalogued, neither archived nor disabled nor blocked.\<close>

definition accepts_writes :: "ForgeState \<Rightarrow> uuid \<Rightarrow> bool" where
  "accepts_writes s i \<longleftrightarrow>
     (case find_repo s i of
        Some repo \<Rightarrow> \<not> re_archived repo \<and> \<not> re_disabled repo
      | None \<Rightarrow> False) \<and> bt_get (st_repository_mutation_blocks s) i = None"

lemma admissible_write_iff:
  "require_repository_admissible s i True = Ok () \<longleftrightarrow> accepts_writes s i"
proof (cases "find_repo s i")
  case (Some repo)
  then show ?thesis
    by (cases "bt_get (st_repository_mutation_blocks s) i")
       (simp_all add: require_repository_admissible_def accepts_writes_def
          split: RepositoryMutationBlock.split)
qed (simp add: require_repository_admissible_def accepts_writes_def)

lemma writable_iff: "require_repository_writable s i = Ok u \<longleftrightarrow> accepts_writes s i"
  using admissible_write_iff [of s i] by (simp add: require_repository_writable_def)

lemma named_Ok_hints:
  assumes "fst (with_named_mutation env hint names operation s) = Ok x"
  obtains hints where "collect_results (map (make_hint hint) (enumerate 0 names)) = Ok hints"
    "for_each (admit_hint s) hints = Ok ()"
proof -
  let ?c = "collect_results (map (make_hint hint) (enumerate 0 names))"
  have run: "with_named_mutation env hint names operation s =
      (case en_process env of Inl e \<Rightarrow> (Inl e, s) | Inr _ \<Rightarrow>
       case ?c of Inl e \<Rightarrow> (Inl e, s) | Inr hints \<Rightarrow>
       case en_ordinary env of Inl e \<Rightarrow> (Inl e, s) | Inr _ \<Rightarrow>
       case for_each (admit_hint s) hints of Inl e \<Rightarrow> (Inl e, s) | Inr _ \<Rightarrow> operation s)"
    by (simp only: with_named_mutation_def f_bind_try f_bind_read)
  from assms obtain hints where c: "?c = Ok hints" unfolding run
    by (cases "en_process env"; cases ?c) auto
  from assms have "\<exists>u. for_each (admit_hint s) hints = Ok u" unfolding run c
    by (cases "en_process env"; cases "en_ordinary env"; cases "for_each (admit_hint s) hints") auto
  with c that show thesis by auto
qed

lemma admit_hint_Ok:
  "admit_hint s h = Ok () \<longleftrightarrow>
     (\<exists>r. bt_get (st_repos s) (rh_owner h, rh_name h) = Some r \<and> re_id r = rh_id h)
     \<and> require_repository_admissible s (rh_id h) (rh_writes h) = Ok ()"
  by (auto simp: admit_hint_def)

lemma named_mutation_admits:
  assumes "fst (with_named_mutation env hint ((owner, repo) # names) operation s) = Ok x"
  obtains r where "bt_get (st_repos s) (owner, repo) = Some r" "accepts_writes s (re_id r)"
    "with_named_mutation env hint ((owner, repo) # names) operation s = operation s"
proof -
  obtain hints where
    c: "collect_results (map (make_hint hint) (enumerate 0 ((owner, repo) # names))) = Ok hints"
    and adm: "for_each (admit_hint s) hints = Ok ()"
    using assms by (rule named_Ok_hints)
  from c obtain h where h: "make_hint hint (0, owner, repo) = Ok h" "h \<in> set hints"
    by (auto simp: collect_results_Ok_iff Cons_eq_map_conv)
  then have hd: "rh_owner h = owner" "rh_name h = repo" "rh_writes h"
    by (auto simp: make_hint_def)
  from adm h(2) have "admit_hint s h = Ok ()" by simp
  with hd obtain r where "bt_get (st_repos s) (owner, repo) = Some r"
    "require_repository_admissible s (re_id r) True = Ok ()"
    by (auto simp: admit_hint_Ok)
  then show thesis
    using that named_mutation.wrap_Ok [OF assms] by (simp add: admissible_write_iff)
qed

end
