(* ===== verification/Forge_Core.thy ===== *)
theory Forge_Core
  imports Forge_Admission
begin

text \<open>
  The operations of \<open>ForgeCore\<close> on accounts, repositories, branch protection, pull requests,
  reviews, checks, statuses, issues, labels, webhooks, audit scores and readmes: the files
  \<open>engine/accounts.rs\<close>, \<open>repositories.rs\<close>, \<open>repository_creation.rs\<close>, \<open>branch_protection.rs\<close>,
  \<open>pull_requests.rs\<close>, \<open>reviews.rs\<close>, \<open>check_runs.rs\<close>, \<open>commit_status.rs\<close>, \<open>issues.rs\<close>,
  \<open>webhooks.rs\<close>, \<open>jankurai.rs\<close> and \<open>readmes.rs\<close>. A mutating operation takes the environment of
  the call, the hint state of its admission, its arguments and the state.
\<close>

section \<open>Accounts\<close>

definition get_user :: "ForgeState \<Rightarrow> string \<Rightarrow> (User, ForgeError) result" where
  "get_user s login = ok_or (ForgeNotFound (''user '' @ login)) (bt_get (st_users s) login)"

definition create_user_admitted ::
  "ForgeEnv \<Rightarrow> string \<Rightarrow> string option \<Rightarrow> string option \<Rightarrow> User forge" where
  "create_user_admitted env login name email =
     f_bind (f_try (require_name ''login'' login)) (\<lambda>_.
     f_bind (f_read (\<lambda>s. ensure (bt_get (st_users s) login = None) (ForgeConflict (''user '' @ login)))) (\<lambda>_.
     f_commit env 0 (\<lambda>s.
       let user = \<lparr>us_id = en_uuid env ''user'' 0, us_login = login, us_name = name, us_email = email,
                   us_created_at = en_now env ''user'' 0\<rparr>
       in (user, s\<lparr>st_users := bt_insert login user (st_users s)\<rparr>))))"

definition create_user ::
  "ForgeEnv \<Rightarrow> string \<Rightarrow> string option \<Rightarrow> string option \<Rightarrow> User forge" where
  "create_user env login name email =
     with_global_mutation env (create_user_admitted env login name email)"

definition ensure_user_admitted :: "ForgeEnv \<Rightarrow> string \<Rightarrow> User forge" where
  "ensure_user_admitted env login s =
     (case get_user s login of
        Inr user \<Rightarrow> (Inr user, s)
      | Inl _ \<Rightarrow> create_user_admitted env login None None s)"

definition ensure_user :: "ForgeEnv \<Rightarrow> string \<Rightarrow> User forge" where
  "ensure_user env login = with_global_mutation env (ensure_user_admitted env login)"

definition create_organization :: "ForgeEnv \<Rightarrow> string \<Rightarrow> string option \<Rightarrow> Organization forge" where
  "create_organization env login display_name =
     with_global_mutation env
       (f_bind (f_try (require_name ''login'' login)) (\<lambda>_.
        f_bind (f_read (\<lambda>s. ensure (bt_get (st_organizations s) login = None)
                              (ForgeConflict (''organization '' @ login)))) (\<lambda>_.
        f_commit env 0 (\<lambda>s.
          let organization = \<lparr>og_id = en_uuid env ''organization'' 0, og_login = login,
                              og_display_name = display_name,
                              og_created_at = en_now env ''organization'' 0\<rparr>
          in (organization,
              s\<lparr>st_organizations := bt_insert login organization (st_organizations s)\<rparr>)))))"

definition get_organization :: "ForgeState \<Rightarrow> string \<Rightarrow> (Organization, ForgeError) result" where
  "get_organization s login =
     ok_or (ForgeNotFound (''organization '' @ login)) (bt_get (st_organizations s) login)"

definition create_team :: "ForgeEnv \<Rightarrow> string \<Rightarrow> CreateTeamRequest \<Rightarrow> Team forge" where
  "create_team env org request =
     with_global_mutation env
       (f_bind (f_try (require_name ''team name'' (ctm_name request))) (\<lambda>_.
        let slug = (case ctm_slug request of Some slug \<Rightarrow> slug | None \<Rightarrow> slugify (ctm_name request)) in
        f_bind (f_try (require_name ''team slug'' slug)) (\<lambda>_.
        f_bind (f_read (\<lambda>s. ensure (bt_get (st_organizations s) org \<noteq> None)
                              (ForgeNotFound (''organization '' @ org)))) (\<lambda>_.
        f_bind (f_read (\<lambda>s. ensure (bt_get (st_teams s) (org, slug) = None)
                              (ForgeConflict (''team '' @ org @ ''/'' @ slug)))) (\<lambda>_.
        f_commit env 0 (\<lambda>s.
          let team = \<lparr>tm_id = en_uuid env ''team'' 0, tm_organization = org, tm_slug = slug,
                      tm_name = ctm_name request, tm_members = ctm_members request,
                      tm_created_at = en_now env ''team'' 0\<rparr>
          in (team, s\<lparr>st_teams := bt_insert (org, slug) team (st_teams s)\<rparr>)))))))"

definition list_teams :: "ForgeState \<Rightarrow> string \<Rightarrow> (Team list, ForgeError) result" where
  "list_teams s org =
     (if bt_get (st_organizations s) org = None then Err (ForgeNotFound (''organization '' @ org))
      else Ok (filter (\<lambda>team. tm_organization team = org) (bt_values (st_teams s))))"

section \<open>Repositories and labels\<close>

definition get_repository :: "ForgeState \<Rightarrow> string \<Rightarrow> string \<Rightarrow> (Repository, ForgeError) result" where
  "get_repository s owner repo =
     ok_or (not_found_repository owner repo) (bt_get (st_repos s) (owner, repo))"

definition ensure_repo_exists :: "string \<Rightarrow> string \<Rightarrow> ForgeState \<Rightarrow> (unit, ForgeError) result" where
  "ensure_repo_exists owner repo s = and_then (get_repository s owner repo) (\<lambda>_. Ok ())"

definition list_repositories :: "ForgeState \<Rightarrow> string option \<Rightarrow> Repository list" where
  "list_repositories s owner =
     sort_key re_full_name
       (filter (\<lambda>repo. case owner of Some o' \<Rightarrow> re_owner repo = o' | None \<Rightarrow> True)
          (bt_values (st_repos s)))"

text \<open>
  The time of an update advances: to the clock when it is ahead, else by one nanosecond, unless
  the largest representable time (\<open>max_utc\<close>, from \<open>chrono\<close>) is reached.
\<close>

definition set_repository_visibility ::
  "ForgeEnv \<Rightarrow> ForgeState \<Rightarrow> time \<Rightarrow> string \<Rightarrow> string \<Rightarrow> bool \<Rightarrow> Repository forge" where
  "set_repository_visibility env hint max_utc owner repo private' =
     with_repository_authority_mutation env hint owner repo
       (f_bind (f_read (\<lambda>s. ok_or (not_found_repository owner repo) (bt_get (st_repos s) (owner, repo))))
        (\<lambda>current.
          if re_private current = private' then f_try (Ok current)
          else
            let now = en_now env ''visibility'' 0 in
            f_bind (f_try (if now > re_updated_at current then Ok now
                           else if re_updated_at current < max_utc then Ok (re_updated_at current + 1)
                           else Err (Validation (''repository '' @ owner @ ''/'' @ repo
                                                 @ '' updated_at cannot advance''))))
              (\<lambda>updated_at.
            f_commit env 0 (\<lambda>s.
              let updated = current\<lparr>re_private := private', re_updated_at := updated_at\<rparr>
              in (updated, s\<lparr>st_repos := bt_insert (owner, repo) updated (st_repos s)\<rparr>)))))"

definition set_repository_family_for_identity ::
  "ForgeEnv \<Rightarrow> ForgeState \<Rightarrow> string \<Rightarrow> string \<Rightarrow> uuid option \<Rightarrow> string option \<Rightarrow> Repository forge" where
  "set_repository_family_for_identity env hint owner repo repository_id family =
     with_repository_authority_mutation env hint owner repo
       (f_bind (f_try (case family of
            Some v \<Rightarrow> if trim v = []
                      then Err (Validation ''family must not be blank; send null to clear it'')
                      else Ok (Some (trim v))
          | None \<Rightarrow> Ok None)) (\<lambda>family'.
        f_bind (f_read (\<lambda>s. ok_or (not_found_repository owner repo) (bt_get (st_repos s) (owner, repo))))
        (\<lambda>current.
          if (case repository_id of Some i \<Rightarrow> re_id current \<noteq> i | None \<Rightarrow> False)
          then f_try (Err (ForgeConflict ''repository identity changed during creation''))
          else f_commit env 0 (\<lambda>s.
            let updated = current\<lparr>re_family := family', re_updated_at := en_now env ''family'' 0\<rparr>
            in (updated, s\<lparr>st_repos := bt_insert (owner, repo) updated (st_repos s)\<rparr>)))))"

text \<open>
  The materializer that writes the bare repository to disk, when one is installed: its name check
  and its effect are the adapter's.
\<close>

record Materializer =
  mt_validate :: "string \<Rightarrow> string \<Rightarrow> string \<Rightarrow> (unit, ForgeError) result"
  mt_materialize :: "Repository \<Rightarrow> (unit, ForgeError) result"

definition new_repository :: "ForgeEnv \<Rightarrow> uuid \<Rightarrow> string \<Rightarrow> CreateRepositoryRequest \<Rightarrow> Repository" where
  "new_repository env i owner request =
     \<lparr>re_id = i, re_owner = owner, re_name = crq_name request,
      re_full_name = owner @ ''/'' @ crq_name request, re_private = crq_private request,
      re_description = crq_description request,
      re_default_branch = (case crq_default_branch request of Some b \<Rightarrow> b | None \<Rightarrow> ''main''),
      re_family = None, re_archived = False, re_disabled = False,
      re_created_at = en_now env ''repository'' 0, re_updated_at = en_now env ''repository'' 0\<rparr>"

definition insert_repository ::
  "ForgeEnv \<Rightarrow> uuid \<Rightarrow> string \<Rightarrow> CreateRepositoryRequest \<Rightarrow> ForgeState \<Rightarrow> Repository \<times> ForgeState" where
  "insert_repository env i owner request s =
     (let key = (owner, crq_name request);
          repo = new_repository env i owner request;
          s1 = s\<lparr>st_counters := bt_insert key Counters_default (st_counters s),
                 st_repos := bt_insert key repo (st_repos s)\<rparr>;
          s2 = snd (ensure_default_branch_protection env repo s1)
      in (repo, s2\<lparr>st_repository_creations := bt_insert i
            \<lparr>cn_repository_id = i, cn_owner = owner, cn_request = request, cn_materialized = False\<rparr>
            (st_repository_creations s2)\<rparr>))"

text \<open>The first half: the row and its journal, found again for a retried request.\<close>

definition reserve_repository ::
  "ForgeEnv \<Rightarrow> uuid \<Rightarrow> string \<Rightarrow> CreateRepositoryRequest \<Rightarrow> (Repository \<times> bool) forge" where
  "reserve_repository env i owner request s =
     (let key = (owner, crq_name request) in
      case bt_get (st_repository_creations s) i of
        Some journal \<Rightarrow>
          if cn_owner journal \<noteq> owner \<or> cn_request journal \<noteq> request
          then (Err (ForgeConflict ''creation UUID belongs to another request''), s)
          else (case bt_get (st_repos s) key of
                  Some repo \<Rightarrow>
                    if re_id repo = i then (Ok (repo, cn_materialized journal), s)
                    else (Err (ForgeConflict ''original repository was removed or moved''), s)
                | None \<Rightarrow> (Err (ForgeConflict ''original repository was removed or moved''), s))
      | None \<Rightarrow>
          if bt_get (st_repos s) key \<noteq> None
             \<or> list_ex (\<lambda>repo. re_id repo = i) (bt_values (st_repos s))
          then (Err (ForgeConflict (''repository '' @ owner @ ''/'' @ crq_name request)), s)
          else f_commit env 0 (\<lambda>s. case insert_repository env i owner request s of
                                 (repo, t) \<Rightarrow> ((repo, False), t)) s)"

definition mark_materialized :: "uuid \<Rightarrow> ForgeState \<Rightarrow> ForgeState" where
  "mark_materialized i s =
     (case bt_get (st_repository_creations s) i of
        Some journal \<Rightarrow> s\<lparr>st_repository_creations :=
          bt_insert i (journal\<lparr>cn_materialized := True\<rparr>) (st_repository_creations s)\<rparr>
      | None \<Rightarrow> s)"

definition create_repository_with_id_admitted ::
  "ForgeEnv \<Rightarrow> Materializer option \<Rightarrow> uuid \<Rightarrow> string \<Rightarrow> CreateRepositoryRequest \<Rightarrow> Repository forge" where
  "create_repository_with_id_admitted env mat i owner request =
     f_bind (f_try (require_name ''repository name'' (crq_name request))) (\<lambda>_.
     f_bind (f_try (ensure (i \<noteq> 0) (Validation ''creation UUID must not be nil''))) (\<lambda>_.
     f_bind (f_try (case mat of
         Some m \<Rightarrow> mt_validate m owner (crq_name request)
                     (case crq_default_branch request of Some b \<Rightarrow> b | None \<Rightarrow> ''main'')
       | None \<Rightarrow> Ok ())) (\<lambda>_.
     f_bind (reserve_repository env i owner request) (\<lambda>(repo, done').
     if done' then f_try (Ok repo)
     else
       f_bind (f_try (case mat of Some m \<Rightarrow> mt_materialize m repo | None \<Rightarrow> Ok ())) (\<lambda>_.
       f_bind (f_read (\<lambda>s.
         case bt_get (st_repos s) (owner, crq_name request) of
           Some current \<Rightarrow> if re_id current = i then Ok current
                           else Err (ForgeConflict ''repository changed during creation'')
         | None \<Rightarrow> Err (ForgeConflict ''repository changed during creation''))) (\<lambda>current.
       f_commit env 1 (\<lambda>s. (current, mark_materialized i s))))))))"

definition create_repository_with_id ::
  "ForgeEnv \<Rightarrow> Materializer option \<Rightarrow> uuid \<Rightarrow> string \<Rightarrow> CreateRepositoryRequest \<Rightarrow> Repository forge" where
  "create_repository_with_id env mat i owner request =
     with_repository_creation_mutation env i
       (create_repository_with_id_admitted env mat i owner request)"

definition create_repository ::
  "ForgeEnv \<Rightarrow> Materializer option \<Rightarrow> string \<Rightarrow> CreateRepositoryRequest \<Rightarrow> Repository forge" where
  "create_repository env mat owner request =
     create_repository_with_id env mat (en_uuid env ''repository'' 0) owner request"

definition repository_creations :: "ForgeState \<Rightarrow> RepositoryCreation list" where
  "repository_creations s =
     sort_key cn_repository_id (bt_values (st_repository_creations s))"

record RepositoryDeletion =
  dl_repo :: Repository
  dl_labels :: u32
  dl_issues :: u32
  dl_issue_comments :: u32
  dl_pulls :: u32
  dl_reviews :: u32
  dl_review_comments :: u32
  dl_branch_protections :: u32
  dl_codeowners :: u32
  dl_readmes :: u32
  dl_commit_statuses :: u32
  dl_check_runs :: u32
  dl_webhooks :: u32
  dl_webhook_deliveries :: u32
  dl_counters :: u32
  dl_jankurai_scores :: u32
  dl_repo_grants :: u32

text \<open>Removal of every row keyed by a repository, counting rows or the elements of their vectors.\<close>

definition scoped :: "string \<Rightarrow> string \<Rightarrow> string \<times> string \<times> 'k \<Rightarrow> bool" where
  "scoped owner repo = (\<lambda>(o', r, _). o' = owner \<and> r = repo)"

definition drain_scoped ::
  "string \<Rightarrow> string \<Rightarrow> (string \<times> string \<times> 'k, 'v) btree_map
   \<Rightarrow> u32 \<times> (string \<times> string \<times> 'k, 'v) btree_map" where
  "drain_scoped owner repo m =
     (let keys = filter (scoped owner repo) (map fst m) in
      (word_of_nat (length keys), fold bt_remove keys m))"

definition drain_bucket :: "'k \<Rightarrow> u32 \<times> ('k, 'v list) btree_map \<Rightarrow> u32 \<times> ('k, 'v list) btree_map" where
  "drain_bucket k acc =
     (case bt_get (snd acc) k of
        Some bucket \<Rightarrow> (fst acc + word_of_nat (length bucket), bt_remove k (snd acc))
      | None \<Rightarrow> acc)"

definition drain_scoped_vecs ::
  "string \<Rightarrow> string \<Rightarrow> (string \<times> string \<times> 'k, 'v list) btree_map
   \<Rightarrow> u32 \<times> (string \<times> string \<times> 'k, 'v list) btree_map" where
  "drain_scoped_vecs owner repo m =
     fold drain_bucket (filter (scoped owner repo) (map fst m)) (0, m)"

definition take_row :: "'k \<Rightarrow> ('k, 'v) btree_map \<Rightarrow> u32 \<times> ('k, 'v) btree_map" where
  "take_row k m = (if bt_get m k = None then 0 else 1, bt_remove k m)"

definition take_bucket :: "'k \<Rightarrow> ('k, 'v list) btree_map \<Rightarrow> u32 \<times> ('k, 'v list) btree_map" where
  "take_bucket k m =
     ((case bt_get m k of Some xs \<Rightarrow> word_of_nat (length xs) | None \<Rightarrow> 0), bt_remove k m)"

definition drain_grants ::
  "string \<Rightarrow> string \<Rightarrow> (name_key, RepoAccessGrant) btree_map
   \<Rightarrow> u32 \<times> (name_key, RepoAccessGrant) btree_map" where
  "drain_grants owner repo m =
     (let keys = filter (\<lambda>(_, o', r). o' = owner \<and> r = repo) (map fst m) in
      (word_of_nat (length keys), fold bt_remove keys m))"

definition drain_repository ::
  "string \<Rightarrow> string \<Rightarrow> Repository \<Rightarrow> ForgeState \<Rightarrow> RepositoryDeletion \<times> ForgeState" where
  "drain_repository owner repo removed s =
     (let key = (owner, repo);
          deliveries = filter (\<lambda>d. \<not> (wd_owner d = owner \<and> wd_repo d = repo)) (st_webhook_deliveries s)
      in (\<lparr>dl_repo = removed,
           dl_labels = fst (drain_scoped owner repo (st_labels s)),
           dl_issues = fst (drain_scoped owner repo (st_issues s)),
           dl_issue_comments = fst (drain_scoped_vecs owner repo (st_issue_comments s)),
           dl_pulls = fst (drain_scoped owner repo (st_pulls s)),
           dl_reviews = fst (drain_scoped_vecs owner repo (st_reviews s)),
           dl_review_comments = fst (drain_scoped_vecs owner repo (st_review_comments s)),
           dl_branch_protections = fst (drain_scoped owner repo (st_branch_protections s)),
           dl_codeowners = fst (take_row key (st_codeowners s)),
           dl_readmes = fst (take_row key (st_readmes s)),
           dl_commit_statuses = fst (drain_scoped_vecs owner repo (st_statuses s)),
           dl_check_runs = fst (take_bucket key (st_check_runs s)),
           dl_webhooks = fst (take_bucket key (st_webhooks s)),
           dl_webhook_deliveries = word_of_nat (length (st_webhook_deliveries s) - length deliveries),
           dl_counters = fst (take_row key (st_counters s)),
           dl_jankurai_scores = fst (take_bucket key (st_jankurai_scores s)),
           dl_repo_grants = fst (drain_grants owner repo (st_repo_grants s))\<rparr>,
          s\<lparr>st_repos := bt_remove key (st_repos s),
            st_labels := snd (drain_scoped owner repo (st_labels s)),
            st_issues := snd (drain_scoped owner repo (st_issues s)),
            st_issue_comments := snd (drain_scoped_vecs owner repo (st_issue_comments s)),
            st_pulls := snd (drain_scoped owner repo (st_pulls s)),
            st_reviews := snd (drain_scoped_vecs owner repo (st_reviews s)),
            st_review_comments := snd (drain_scoped_vecs owner repo (st_review_comments s)),
            st_branch_protections := snd (drain_scoped owner repo (st_branch_protections s)),
            st_codeowners := snd (take_row key (st_codeowners s)),
            st_readmes := snd (take_row key (st_readmes s)),
            st_statuses := snd (drain_scoped_vecs owner repo (st_statuses s)),
            st_check_runs := snd (take_bucket key (st_check_runs s)),
            st_webhooks := snd (take_bucket key (st_webhooks s)),
            st_webhook_deliveries := deliveries,
            st_counters := snd (take_row key (st_counters s)),
            st_jankurai_scores := snd (take_bucket key (st_jankurai_scores s)),
            st_repo_grants := snd (drain_grants owner repo (st_repo_grants s))\<rparr>))"

definition delete_repository ::
  "ForgeEnv \<Rightarrow> ForgeState \<Rightarrow> string \<Rightarrow> string \<Rightarrow> RepositoryDeletion forge" where
  "delete_repository env hint owner repo =
     with_repository_authority_mutation env hint owner repo
       (f_bind (f_read (\<lambda>s. ok_or (not_found_repository owner repo) (bt_get (st_repos s) (owner, repo))))
        (\<lambda>removed. f_commit env 0 (drain_repository owner repo removed)))"

definition removed_counts :: "RepositoryDeletion \<Rightarrow> (string \<times> u32) list" where
  "removed_counts d =
     [(''labels'', dl_labels d), (''issues'', dl_issues d), (''issue_comments'', dl_issue_comments d),
      (''pulls'', dl_pulls d), (''reviews'', dl_reviews d),
      (''review_comments'', dl_review_comments d),
      (''branch_protections'', dl_branch_protections d), (''codeowners'', dl_codeowners d),
      (''readmes'', dl_readmes d), (''commit_statuses'', dl_commit_statuses d),
      (''check_runs'', dl_check_runs d), (''webhooks'', dl_webhooks d),
      (''webhook_deliveries'', dl_webhook_deliveries d), (''counters'', dl_counters d),
      (''jankurai_scores'', dl_jankurai_scores d), (''repo_grants'', dl_repo_grants d)]"

definition create_label ::
  "ForgeEnv \<Rightarrow> ForgeState \<Rightarrow> string \<Rightarrow> string \<Rightarrow> CreateLabelRequest \<Rightarrow> Label forge" where
  "create_label env hint owner repo request =
     with_repository_mutation env hint owner repo
       (f_bind (f_try (require_name ''label name'' (clb_name request))) (\<lambda>_.
        f_bind (f_read (ensure_repo_exists owner repo)) (\<lambda>_.
        f_bind (f_read (\<lambda>s. ensure (bt_get (st_labels s) (owner, repo, clb_name request) = None)
           (ForgeConflict (''label '' @ owner @ ''/'' @ repo @ ''/'' @ clb_name request)))) (\<lambda>_.
        f_commit env 0 (\<lambda>s.
          let label = \<lparr>lb_id = en_uuid env ''label'' 0, lb_name = clb_name request,
                       lb_color = clb_color request, lb_description = clb_description request\<rparr>
          in (label, s\<lparr>st_labels := bt_insert (owner, repo, clb_name request) label (st_labels s)\<rparr>))))))"

definition list_labels :: "ForgeState \<Rightarrow> string \<Rightarrow> string \<Rightarrow> (Label list, ForgeError) result" where
  "list_labels s owner repo =
     and_then (ensure_repo_exists owner repo s) (\<lambda>_.
       Ok (sort_key lb_name (map snd (filter (\<lambda>(k, _). scoped owner repo k) (st_labels s)))))"

section \<open>Branch protection, code owners and readmes\<close>

definition set_branch_protection ::
  "ForgeEnv \<Rightarrow> ForgeState \<Rightarrow> string \<Rightarrow> string \<Rightarrow> string \<Rightarrow> SetBranchProtectionRequest
   \<Rightarrow> BranchProtectionRule forge" where
  "set_branch_protection env hint owner repo branch request =
     with_repository_mutation env hint owner repo
       (f_bind (f_read (ensure_repo_exists owner repo)) (\<lambda>_.
        f_bind (f_try (require_name ''branch'' branch)) (\<lambda>_.
        f_commit env 0 (\<lambda>s.
          let rule = \<lparr>bp_owner = owner, bp_repo = repo, bp_branch = branch,
                      bp_required_status_checks = sbp_required_status_checks request,
                      bp_required_approving_review_count = sbp_required_approving_review_count request,
                      bp_enforce_admins = sbp_enforce_admins request,
                      bp_required_linear_history = sbp_required_linear_history request,
                      bp_allow_force_pushes = sbp_allow_force_pushes request,
                      bp_allow_deletions = sbp_allow_deletions request,
                      bp_require_signed_commits = sbp_require_signed_commits request,
                      bp_require_jankurai_proof = sbp_require_jankurai_proof request,
                      bp_updated_at = en_now env ''rule'' 0\<rparr>
          in (rule, s\<lparr>st_branch_protections :=
                bt_insert (owner, repo, branch) rule (st_branch_protections s)\<rparr>)))))"

definition get_branch_protection ::
  "ForgeState \<Rightarrow> string \<Rightarrow> string \<Rightarrow> string \<Rightarrow> (BranchProtectionRule, ForgeError) result" where
  "get_branch_protection s owner repo branch =
     ok_or (ForgeNotFound (''branch protection '' @ owner @ ''/'' @ repo @ '':'' @ branch))
       (bt_get (st_branch_protections s) (owner, repo, branch))"

definition set_codeowners ::
  "ForgeEnv \<Rightarrow> ForgeState \<Rightarrow> string \<Rightarrow> string \<Rightarrow> string \<Rightarrow> unit forge" where
  "set_codeowners env hint owner repo contents =
     with_repository_mutation env hint owner repo
       (f_bind (f_read (ensure_repo_exists owner repo)) (\<lambda>_.
        f_commit env 0 (\<lambda>s. ((), s\<lparr>st_codeowners := bt_insert (owner, repo) contents (st_codeowners s)\<rparr>))))"

definition get_codeowners :: "ForgeState \<Rightarrow> string \<Rightarrow> string \<Rightarrow> (string, ForgeError) result" where
  "get_codeowners s owner repo =
     and_then (ensure_repo_exists owner repo s) (\<lambda>_.
       ok_or (ForgeNotFound (''CODEOWNERS '' @ owner @ ''/'' @ repo))
         (bt_get (st_codeowners s) (owner, repo)))"

definition evaluate_pull_request ::
  "ForgeEnv \<Rightarrow> ForgeState \<Rightarrow> string \<Rightarrow> string \<Rightarrow> u64 \<Rightarrow> string option
   \<Rightarrow> (BranchProtectionEvaluation, ForgeError) result" where
  "evaluate_pull_request env s owner repo number sha =
     and_then (ok_or (not_found_pull owner repo number) (bt_get (st_pulls s) (owner, repo, number)))
       (\<lambda>pr. Ok (evaluate_locked env s pr sha))"

definition core_evaluate_ref_operation ::
  "ForgeState \<Rightarrow> string \<Rightarrow> string \<Rightarrow> string \<Rightarrow> RefOperation \<Rightarrow> bool
   \<Rightarrow> (RefOperationEvaluation, ForgeError) result" where
  "core_evaluate_ref_operation s owner repo branch operation actor_is_admin =
     and_then (ensure_repo_exists owner repo s) (\<lambda>_.
       Ok (evaluate_ref_operation operation
             (bt_get (st_branch_protections s) (owner, repo, branch))
             \<lparr>ec_codeowners = None, ec_actor_is_admin = actor_is_admin,
              ec_jankurai_proof_mandatory = False\<rparr>))"

fun debug_ref_blocker :: "RefOperationBlocker \<Rightarrow> string" where
  "debug_ref_blocker ForcePushNotAllowed = ''ForcePushNotAllowed''"
| "debug_ref_blocker DeletionNotAllowed = ''DeletionNotAllowed''"

definition demand_allowed :: "RefOperationEvaluation \<Rightarrow> (unit, ForgeError) result" where
  "demand_allowed evaluation =
     (if ro_allowed evaluation then Ok ()
      else Err (BranchProtection
             (''['' @ join '', '' (map debug_ref_blocker (ro_blockers evaluation)) @ '']'')))"

definition force_push ::
  "ForgeEnv \<Rightarrow> ForgeState \<Rightarrow> string \<Rightarrow> string \<Rightarrow> string \<Rightarrow> bool \<Rightarrow> unit forge" where
  "force_push env hint owner repo branch actor_is_admin =
     with_repository_mutation env hint owner repo
       (f_bind (f_read (\<lambda>s. core_evaluate_ref_operation s owner repo branch ForcePush actor_is_admin))
        (\<lambda>evaluation. f_try (demand_allowed evaluation)))"

definition delete_ref ::
  "ForgeEnv \<Rightarrow> ForgeState \<Rightarrow> string \<Rightarrow> string \<Rightarrow> string \<Rightarrow> bool \<Rightarrow> unit forge" where
  "delete_ref env hint owner repo branch actor_is_admin =
     with_repository_mutation env hint owner repo
       (f_bind (f_read (\<lambda>s. core_evaluate_ref_operation s owner repo branch DeleteRef actor_is_admin))
        (\<lambda>evaluation. f_try (demand_allowed evaluation)))"

definition get_repository_readme ::
  "ForgeState \<Rightarrow> string \<Rightarrow> string \<Rightarrow> (string option, ForgeError) result" where
  "get_repository_readme s owner repo =
     and_then (ensure_repo_exists owner repo s) (\<lambda>_. Ok (bt_get (st_readmes s) (owner, repo)))"

definition set_repository_readme ::
  "ForgeEnv \<Rightarrow> ForgeState \<Rightarrow> string \<Rightarrow> string \<Rightarrow> string \<Rightarrow> string forge" where
  "set_repository_readme env hint owner repo markdown =
     with_repository_mutation env hint owner repo
       (f_bind (f_read (ensure_repo_exists owner repo)) (\<lambda>_.
        f_commit env 0 (\<lambda>s. (markdown, s\<lparr>st_readmes := bt_insert (owner, repo) markdown (st_readmes s)\<rparr>))))"

definition readme_or_default ::
  "ForgeState \<Rightarrow> string \<Rightarrow> string \<Rightarrow> string \<Rightarrow> (string, ForgeError) result" where
  "readme_or_default s owner repo default_text =
     and_then (get_repository_readme s owner repo) (\<lambda>r.
       Ok (case r of Some text \<Rightarrow> text | None \<Rightarrow> default_text))"

section \<open>Pull requests\<close>

definition normalize_source_repository :: "string \<Rightarrow> string \<Rightarrow> string option \<Rightarrow> string" where
  "normalize_source_repository owner repo source =
     (case map_option trim source of
        Some v \<Rightarrow> if v = [] then owner @ ''/'' @ repo else v
      | None \<Rightarrow> owner @ ''/'' @ repo)"

definition new_pull ::
  "ForgeEnv \<Rightarrow> string \<Rightarrow> string \<Rightarrow> string \<Rightarrow> u64 \<Rightarrow> u64 \<Rightarrow> CreatePullRequestRequest \<Rightarrow> ForgePull" where
  "new_pull env owner repo author issue_number pull_number request =
     (let now = en_now env ''pull'' 0 in
      \<lparr>fp_id = en_uuid env ''pull'' 0, fp_owner = owner, fp_repo = repo, fp_number = pull_number,
       fp_issue_number = issue_number, fp_title = cpr_title request, fp_body = cpr_body request,
       fp_state = (if cpr_draft request then PrDraft else PrOpen), fp_draft = cpr_draft request,
       fp_author = author,
       fp_source_repository = normalize_source_repository owner repo (cpr_source_repository request),
       fp_head = GitBranchRef_new (cpr_head request)
         (case cpr_head_sha request of Some sha \<Rightarrow> sha | None \<Rightarrow> ''head-'' @ show_word pull_number),
       fp_base = GitBranchRef_new (cpr_base request)
         (case cpr_base_sha request of Some sha \<Rightarrow> sha | None \<Rightarrow> ''base''),
       fp_mergeable = False, fp_mergeable_state = ''unknown'', fp_merged = False,
       fp_merged_at = None, fp_merge_commit_sha = None, fp_commits = cpr_commits request,
       fp_changed_files = cpr_changed_files request, fp_created_at = now, fp_updated_at = now\<rparr>)"

definition pull_issue ::
  "ForgeEnv \<Rightarrow> string \<Rightarrow> string \<Rightarrow> string \<Rightarrow> u64 \<Rightarrow> u64 \<Rightarrow> CreatePullRequestRequest \<Rightarrow> Issue" where
  "pull_issue env owner repo author issue_number pull_number request =
     (let now = en_now env ''pull'' 0 in
      \<lparr>is_id = en_uuid env ''pull issue'' 0, is_owner = owner, is_repo = repo,
       is_number = issue_number, is_title = cpr_title request, is_body = cpr_body request,
       is_state = IssueOpen, is_author = author, is_labels = [], is_assignees = [],
       is_milestone = None, is_comments = 0,
       is_pull_request = Some \<lparr>pm_url = ''/repos/'' @ owner @ ''/'' @ repo @ ''/pulls/'' @ show_word pull_number,
                               pm_html_url = ''/'' @ owner @ ''/'' @ repo @ ''/pull/'' @ show_word pull_number\<rparr>,
       is_created_at = now, is_updated_at = now, is_closed_at = None\<rparr>)"

definition insert_pull ::
  "ForgeEnv \<Rightarrow> string \<Rightarrow> string \<Rightarrow> string \<Rightarrow> CreatePullRequestRequest \<Rightarrow> ForgeState
   \<Rightarrow> ForgePull \<times> ForgeState" where
  "insert_pull env owner repo author request s =
     (let (issue_number, s1) = next_issue_number owner repo s;
          (pull_number, s2) = next_pull_number owner repo s1;
          issue = pull_issue env owner repo author issue_number pull_number request;
          pr = reevaluate env s2 (new_pull env owner repo author issue_number pull_number request);
          s3 = s2\<lparr>st_issues := bt_insert (owner, repo, issue_number) issue (st_issues s2),
                  st_pulls := bt_insert (owner, repo, pull_number) pr (st_pulls s2)\<rparr>
      in (pr, emit_event_locked env ''pull event'' owner repo ''pull_request''
                (event_payload ''opened'' ''pull_request'' (PullObject pr)) s3))"

definition create_pull_request ::
  "ForgeEnv \<Rightarrow> ForgeState \<Rightarrow> string \<Rightarrow> string \<Rightarrow> string \<Rightarrow> CreatePullRequestRequest \<Rightarrow> ForgePull forge" where
  "create_pull_request env hint owner repo author request =
     with_source_mutation env hint owner repo (cpr_source_repository request)
       (f_bind (f_try (require_name ''pull request title'' (cpr_title request))) (\<lambda>_.
        f_bind (f_try (require_name ''head'' (cpr_head request))) (\<lambda>_.
        f_bind (f_try (require_name ''base'' (cpr_base request))) (\<lambda>_.
        f_bind (f_read (ensure_repo_exists owner repo)) (\<lambda>_.
        f_bind (ensure_user_admitted env author) (\<lambda>_.
        f_commit env 1 (insert_pull env owner repo author request)))))))"

definition get_pull_request ::
  "ForgeEnv \<Rightarrow> ForgeState \<Rightarrow> string \<Rightarrow> string \<Rightarrow> u64 \<Rightarrow> (ForgePull, ForgeError) result" where
  "get_pull_request env s owner repo number =
     and_then (ok_or (not_found_pull owner repo number) (bt_get (st_pulls s) (owner, repo, number)))
       (\<lambda>pr. Ok (reevaluate env s pr))"

definition list_pull_requests ::
  "ForgeEnv \<Rightarrow> ForgeState \<Rightarrow> string \<Rightarrow> string \<Rightarrow> PullRequestState option
   \<Rightarrow> (ForgePull list, ForgeError) result" where
  "list_pull_requests env s owner repo state_filter =
     and_then (ensure_repo_exists owner repo s) (\<lambda>_.
       Ok (sort_key fp_number
         (map (reevaluate env s)
           (filter (\<lambda>pr. case state_filter of Some f \<Rightarrow> fp_state pr = f | None \<Rightarrow> True)
             (filter (\<lambda>pr. fp_owner pr = owner \<and> fp_repo pr = repo) (bt_values (st_pulls s)))))))"

definition edit_pull :: "ForgeEnv \<Rightarrow> UpdatePullRequestRequest \<Rightarrow> ForgePull \<Rightarrow> ForgePull" where
  "edit_pull env request pr0 =
     (let pr1 = (case upr_title request of Some t \<Rightarrow> pr0\<lparr>fp_title := t\<rparr> | None \<Rightarrow> pr0);
          pr2 = (if upr_body request \<noteq> None then pr1\<lparr>fp_body := upr_body request\<rparr> else pr1);
          pr3 = (case upr_draft request of
                   Some draft \<Rightarrow> pr2\<lparr>fp_draft := draft, fp_state := (if draft then PrDraft else PrOpen)\<rparr>
                 | None \<Rightarrow> pr2);
          pr4 = (case upr_state request of
                   Some st \<Rightarrow> pr3\<lparr>fp_state := st, fp_draft := (st = PrDraft)\<rparr> | None \<Rightarrow> pr3);
          pr5 = (case upr_commits request of Some cs \<Rightarrow> pr4\<lparr>fp_commits := cs\<rparr> | None \<Rightarrow> pr4);
          pr6 = (case upr_changed_files request of Some fs \<Rightarrow> pr5\<lparr>fp_changed_files := fs\<rparr> | None \<Rightarrow> pr5)
      in pr6\<lparr>fp_updated_at := en_now env ''pull edit'' 0\<rparr>)"

definition update_pull_request ::
  "ForgeEnv \<Rightarrow> ForgeState \<Rightarrow> string \<Rightarrow> string \<Rightarrow> u64 \<Rightarrow> UpdatePullRequestRequest \<Rightarrow> ForgePull forge" where
  "update_pull_request env hint owner repo number request =
     with_pull_mutation env hint owner repo number
       (f_bind (f_read (\<lambda>s. ok_or (not_found_pull owner repo number)
                             (bt_get (st_pulls s) (owner, repo, number)))) (\<lambda>pr.
        f_bind (f_try (case upr_title request of
                         Some t \<Rightarrow> require_name ''pull request title'' t | None \<Rightarrow> Ok ())) (\<lambda>_.
        f_commit env 0 (\<lambda>s.
          let edited = edit_pull env request pr;
              s1 = s\<lparr>st_pulls := bt_insert (owner, repo, number) edited (st_pulls s)\<rparr>;
              updated = reevaluate env s1 edited;
              s2 = s1\<lparr>st_pulls := bt_insert (owner, repo, number) updated (st_pulls s1)\<rparr>
          in (updated, emit_event_locked env ''edit event'' owner repo ''pull_request''
                (event_payload ''edited'' ''pull_request'' (PullObject updated)) s2)))))"

definition is_open :: "ForgePull \<Rightarrow> bool" where
  "is_open pr \<longleftrightarrow> \<not> fp_merged pr \<and> fp_state pr \<noteq> PrClosed \<and> fp_state pr \<noteq> PrMerged"

text \<open>One round of the loop over the pull requests of a pushed branch.\<close>

definition refresh_head ::
  "ForgeEnv \<Rightarrow> string \<Rightarrow> string \<Rightarrow> string \<Rightarrow> nat \<times> pull_key
   \<Rightarrow> ForgePull list \<times> ForgeState \<Rightarrow> ForgePull list \<times> ForgeState" where
  "refresh_head env owner repo head_sha = (\<lambda>(i, key) (updated, s).
     case bt_get (st_pulls s) key of
       Some pr0 \<Rightarrow>
         let pr1 = pr0\<lparr>fp_head := (fp_head pr0)\<lparr>gb_sha := head_sha\<rparr>,
                       fp_updated_at := en_now env ''heads'' 0\<rparr>;
             s1 = s\<lparr>st_pulls := bt_insert key pr1 (st_pulls s)\<rparr>;
             pr = reevaluate env s1 pr1;
             s2 = s1\<lparr>st_pulls := bt_insert key pr (st_pulls s1)\<rparr>
         in (updated @ [pr], emit_event_locked env (''heads event '' @ show_nat i) owner repo ''pull_request''
               (event_payload ''synchronize'' ''pull_request'' (PullObject pr)) s2)
     | None \<Rightarrow> (updated, s))"

definition head_keys :: "ForgeState \<Rightarrow> string \<Rightarrow> string \<Rightarrow> string \<Rightarrow> pull_key list" where
  "head_keys s owner repo ref_name =
     map fst (filter (\<lambda>(_, pr). fp_owner pr = owner \<and> fp_repo pr = repo
                        \<and> gb_ref_name (fp_head pr) = ref_name \<and> is_open pr) (st_pulls s))"

definition refresh_pull_request_heads_for_ref ::
  "ForgeEnv \<Rightarrow> ForgeState \<Rightarrow> string \<Rightarrow> string \<Rightarrow> string \<Rightarrow> string \<Rightarrow> ForgePull list forge" where
  "refresh_pull_request_heads_for_ref env hint owner repo ref_name head_sha =
     with_repository_mutation env hint owner repo
       (f_bind (f_read (ensure_repo_exists owner repo)) (\<lambda>_. \<lambda>s.
          let keys = head_keys s owner repo ref_name in
          if keys = [] then (Ok [], s)
          else f_commit env 0 (\<lambda>s. fold (refresh_head env owner repo head_sha) (enumerate 0 keys) ([], s)) s))"

definition merge_executor_unavailable :: ForgeError where
  "merge_executor_unavailable = WriterUnavailable
     ''authenticated required-check attempts and Core-owned durable merge execution are unavailable; split merge dispatch is retired''"

datatype MergeReadiness =
    MergeReady string string string string bool
  | AlreadyMerged string

record MergeResult =
  mr_sha :: string
  mr_merged :: bool
  mr_message :: string

definition evaluate_merge_readiness ::
  "ForgeEnv \<Rightarrow> ForgeState \<Rightarrow> string \<Rightarrow> string \<Rightarrow> u64 \<Rightarrow> string option \<Rightarrow> MergeReadiness forge" where
  "evaluate_merge_readiness env hint owner repo number requested_sha =
     with_pull_mutation env hint owner repo number (f_try (Err merge_executor_unavailable))"

definition finalize_merge ::
  "ForgeEnv \<Rightarrow> ForgeState \<Rightarrow> string \<Rightarrow> string \<Rightarrow> u64 \<Rightarrow> string \<Rightarrow> string option \<Rightarrow> MergeResult forge" where
  "finalize_merge env hint owner repo number merge_sha requested_sha =
     with_pull_mutation env hint owner repo number (f_try (Err merge_executor_unavailable))"

record MergePullRequestRequest =
  mpr_commit_title :: "string option"
  mpr_commit_message :: "string option"
  mpr_sha :: "string option"
  mpr_merge_method :: string

definition merge_pull_request ::
  "ForgeEnv \<Rightarrow> ForgeState \<Rightarrow> string \<Rightarrow> string \<Rightarrow> u64 \<Rightarrow> MergePullRequestRequest \<Rightarrow> MergeResult forge" where
  "merge_pull_request env hint owner repo number request =
     with_pull_mutation env hint owner repo number (f_try (Err merge_executor_unavailable))"

end
