(* ===== verification/Forge_Activity.thy ===== *)
theory Forge_Activity
  imports Forge_Core
begin

text \<open>
  What happens around a pull request: advisory reviews (\<open>engine/reviews.rs\<close>), check runs and
  suites (\<open>check_runs.rs\<close>), commit statuses (\<open>commit_status.rs\<close>), issues (\<open>issues.rs\<close>), webhooks
  (\<open>engine/webhooks.rs\<close>) and audit scores (\<open>engine/jankurai.rs\<close>).
\<close>

section \<open>Reviews\<close>

definition require_login :: "string \<Rightarrow> (unit, ForgeError) result" where
  "require_login login =
     and_then (require_name ''login'' login) (\<lambda>_.
       if trim login \<noteq> login
          \<or> \<not> list_all (\<lambda>c. is_ascii_lowercase c \<or> is_ascii_digit c \<or> c = CHR ''-'' \<or> c = CHR ''_'') login
       then Err (Validation ''login must be canonical lowercase ASCII using letters, numbers, hyphen, or underscore'')
       else Ok ())"

text \<open>The checks of the pull request: the head the review is for.\<close>

definition review_head ::
  "string \<Rightarrow> string \<Rightarrow> u64 \<Rightarrow> string \<Rightarrow> CreateReviewRequest \<Rightarrow> ForgeState \<Rightarrow> (string, ForgeError) result" where
  "review_head owner repo number author request s =
     (case bt_get (st_pulls s) (owner, repo, number) of
        Some pr \<Rightarrow>
          if crr_event request = RvApproved \<and> eq_ignore_ascii_case (fp_author pr) author
          then Err (Forbidden ''pull request authors cannot approve their own changes'')
          else if (case crr_expected_head_sha request of
                     Some expected \<Rightarrow> expected \<noteq> gb_sha (fp_head pr) | None \<Rightarrow> False)
          then Err (ForgeConflict (''pull request '' @ owner @ ''/'' @ repo @ ''#'' @ show_word number
                                   @ '' head changed''))
          else Ok (gb_sha (fp_head pr))
      | None \<Rightarrow> Err (not_found_pull owner repo number))"

definition reviews_of :: "ForgeState \<Rightarrow> string \<Rightarrow> string \<Rightarrow> u64 \<Rightarrow> Review list" where
  "reviews_of s owner repo number =
     (case bt_get (st_reviews s) (owner, repo, number) of Some rs \<Rightarrow> rs | None \<Rightarrow> [])"

definition check_dismissal ::
  "string \<Rightarrow> string \<Rightarrow> u64 \<Rightarrow> string \<Rightarrow> string \<Rightarrow> uuid option \<Rightarrow> ForgeState \<Rightarrow> (unit, ForgeError) result" where
  "check_dismissal owner repo number author head_sha dismissed s =
     (case dismissed of
        None \<Rightarrow> Ok ()
      | Some target_id \<Rightarrow>
          and_then (ok_or (ForgeNotFound (''review '' @ show_uuid target_id @ '' in '' @ owner @ ''/''
                              @ repo @ ''#'' @ show_word number))
              (find (\<lambda>r. rv_id r = target_id) (reviews_of s owner repo number))) (\<lambda>target.
            if rv_author target \<noteq> author
            then Err (Forbidden ''reviewers may dismiss only their own verdicts'')
            else if rv_state target \<noteq> RvApproved \<and> rv_state target \<noteq> RvChangesRequested
            then Err (Validation ''dismissal target must be an explicit review verdict'')
            else if rv_head_sha target \<noteq> Some head_sha
                    \<or> \<not> list_ex (\<lambda>r. rv_id r = target_id)
                          (effective_reviews_for_head (reviews_of s owner repo number) head_sha)
            then Err (ForgeConflict ''dismissal target is not the reviewer's current-head verdict'')
            else Ok ()))"

definition new_review ::
  "ForgeEnv \<Rightarrow> string \<Rightarrow> string \<Rightarrow> u64 \<Rightarrow> string \<Rightarrow> string \<Rightarrow> CreateReviewRequest \<Rightarrow> uuid option \<Rightarrow> Review" where
  "new_review env owner repo number author head_sha request dismissed =
     \<lparr>rv_id = en_uuid env ''review'' 0, rv_owner = owner, rv_repo = repo, rv_pull_number = number,
      rv_author = author, rv_state = crr_event request, rv_body = crr_body request,
      rv_head_sha = Some head_sha, rv_dismissed_review_id = dismissed,
      rv_submitted_at = en_now env ''review'' 0\<rparr>"

definition new_comments ::
  "ForgeEnv \<Rightarrow> string \<Rightarrow> string \<Rightarrow> u64 \<Rightarrow> string \<Rightarrow> ReviewCommentInput list \<Rightarrow> ReviewComment list" where
  "new_comments env owner repo number author inputs =
     map (\<lambda>(i, c). \<lparr>rc_id = en_uuid env ''review comment'' i, rc_review_id = en_uuid env ''review'' 0,
            rc_owner = owner, rc_repo = repo, rc_pull_number = number, rc_path = ri_path c,
            rc_line = ri_line c, rc_author = author, rc_body = ri_body c,
            rc_created_at = en_now env ''review comment'' i\<rparr>)
       (enumerate 0 inputs)"

definition insert_profile :: "ForgeEnv \<Rightarrow> string \<Rightarrow> ForgeState \<Rightarrow> ForgeState" where
  "insert_profile env author s =
     (if bt_get (st_users s) author = None
      then s\<lparr>st_users := bt_insert author
             \<lparr>us_id = en_uuid env ''profile'' 0, us_login = author, us_name = None, us_email = None,
              us_created_at = en_now env ''profile'' 0\<rparr> (st_users s)\<rparr>
      else s)"

definition insert_review ::
  "ForgeEnv \<Rightarrow> string \<Rightarrow> string \<Rightarrow> u64 \<Rightarrow> string \<Rightarrow> string \<Rightarrow> CreateReviewRequest \<Rightarrow> uuid option
   \<Rightarrow> ForgeState \<Rightarrow> Review \<times> ForgeState" where
  "insert_review env owner repo number author head_sha request dismissed s =
     (let key = (owner, repo, number);
          s0 = insert_profile env author s;
          review = new_review env owner repo number author head_sha request dismissed;
          s1 = s0\<lparr>st_reviews := bt_update_or [] key (\<lambda>rs. rs @ [review]) (st_reviews s0),
                  st_review_comments := bt_update_or [] key
                    (\<lambda>cs. cs @ new_comments env owner repo number author (crr_comments request))
                    (st_review_comments s0)\<rparr>;
          s2 = refresh_one env key s1
      in (review, emit_event_locked env ''review event'' owner repo ''pull_request_review''
                    (event_payload ''submitted'' ''review'' (ReviewObject review)) s2))"

definition record_review ::
  "ForgeEnv \<Rightarrow> ForgeState \<Rightarrow> string \<Rightarrow> string \<Rightarrow> u64 \<Rightarrow> string \<Rightarrow> CreateReviewRequest \<Rightarrow> uuid option
   \<Rightarrow> Review forge" where
  "record_review env hint owner repo number author request dismissed =
     with_profile_mutation env hint owner repo
       (f_bind (f_try (require_login author)) (\<lambda>_.
        f_bind (f_read (review_head owner repo number author request)) (\<lambda>head_sha.
        f_bind (f_read (check_dismissal owner repo number author head_sha dismissed)) (\<lambda>_.
        f_commit env 0 (insert_review env owner repo number author head_sha request dismissed)))))"

definition create_review ::
  "ForgeEnv \<Rightarrow> ForgeState \<Rightarrow> string \<Rightarrow> string \<Rightarrow> u64 \<Rightarrow> string \<Rightarrow> CreateReviewRequest \<Rightarrow> Review forge" where
  "create_review env hint owner repo number author request =
     f_bind (f_try (ensure (crr_event request \<noteq> RvDismissed)
         (Validation ''use dismiss_review with a target review, exact head and reason''))) (\<lambda>_.
       record_review env hint owner repo number author request None)"

definition full_sha1 :: "string \<Rightarrow> bool" where
  "full_sha1 s \<longleftrightarrow>
     length s = 40 \<and> list_all (\<lambda>c. is_ascii_digit c \<or> CHR ''a'' \<le> c \<and> c \<le> CHR ''f'') s"

definition dismiss_review ::
  "ForgeEnv \<Rightarrow> ForgeState \<Rightarrow> string \<Rightarrow> string \<Rightarrow> u64 \<Rightarrow> string \<Rightarrow> DismissReviewRequest \<Rightarrow> Review forge" where
  "dismiss_review env hint owner repo number actor request =
     f_bind (f_try (ensure (trim (drr_reason request) \<noteq> [])
         (Validation ''review dismissal requires a non-empty reason''))) (\<lambda>_.
     f_bind (f_try (ensure (full_sha1 (drr_expected_head_sha request))
         (Validation ''review dismissal requires a full lowercase SHA-1 head''))) (\<lambda>_.
       record_review env hint owner repo number actor
         \<lparr>crr_body = Some (drr_reason request), crr_event = RvDismissed, crr_comments = [],
          crr_expected_head_sha = Some (drr_expected_head_sha request)\<rparr>
         (Some (drr_review_id request))))"

definition list_reviews ::
  "ForgeEnv \<Rightarrow> ForgeState \<Rightarrow> string \<Rightarrow> string \<Rightarrow> u64 \<Rightarrow> (Review list, ForgeError) result" where
  "list_reviews env s owner repo number =
     and_then (get_pull_request env s owner repo number) (\<lambda>_. Ok (reviews_of s owner repo number))"

definition list_review_comments ::
  "ForgeEnv \<Rightarrow> ForgeState \<Rightarrow> string \<Rightarrow> string \<Rightarrow> u64 \<Rightarrow> (ReviewComment list, ForgeError) result" where
  "list_review_comments env s owner repo number =
     and_then (get_pull_request env s owner repo number) (\<lambda>_.
       Ok (case bt_get (st_review_comments s) (owner, repo, number) of Some cs \<Rightarrow> cs | None \<Rightarrow> []))"

section \<open>Check runs\<close>

definition new_check_run ::
  "ForgeEnv \<Rightarrow> string \<Rightarrow> string \<Rightarrow> CreateCheckRunRequest \<Rightarrow> CheckRun" where
  "new_check_run env owner repo request =
     (let completed = (ccr_status request = Some RunCompleted \<or> ccr_conclusion request \<noteq> None) in
      \<lparr>cr_id = en_uuid env ''check run'' 0, cr_owner = owner, cr_repo = repo,
       cr_name = ccr_name request, cr_head_sha = ccr_head_sha request,
       cr_status = (case ccr_status request of
                      Some st \<Rightarrow> st | None \<Rightarrow> if completed then RunCompleted else RunQueued),
       cr_conclusion = ccr_conclusion request, cr_details_url = ccr_details_url request,
       cr_output = ccr_output request, cr_started_at = en_now env ''check run'' 0,
       cr_completed_at = (if completed then Some (en_now env ''check run'' 1) else None)\<rparr>)"

definition create_check_run ::
  "ForgeEnv \<Rightarrow> ForgeState \<Rightarrow> string \<Rightarrow> string \<Rightarrow> CreateCheckRunRequest \<Rightarrow> CheckRun forge" where
  "create_check_run env hint owner repo request =
     with_repository_mutation env hint owner repo
       (f_bind (f_try (require_name ''check run name'' (ccr_name request))) (\<lambda>_.
        f_bind (f_try (require_name ''head sha'' (ccr_head_sha request))) (\<lambda>_.
        f_bind (f_read (ensure_repo_exists owner repo)) (\<lambda>_.
        f_commit env 0 (\<lambda>s.
          let check_run = new_check_run env owner repo request;
              s1 = s\<lparr>st_check_runs := bt_update_or [] (owner, repo) (\<lambda>rs. rs @ [check_run]) (st_check_runs s)\<rparr>;
              s2 = refresh_pull_mergeability_for_sha env owner repo (cr_head_sha check_run) s1
          in (check_run, emit_event_locked env ''check event'' owner repo ''check_run''
                (event_payload ''created'' ''check_run'' (CheckObject check_run)) s2))))))"

record CheckRunList =
  cl_total_count :: nat
  cl_check_runs :: "CheckRun list"

definition list_check_runs ::
  "ForgeState \<Rightarrow> string \<Rightarrow> string \<Rightarrow> string option \<Rightarrow> (CheckRunList, ForgeError) result" where
  "list_check_runs s owner repo head_sha =
     and_then (ensure_repo_exists owner repo s) (\<lambda>_.
       let runs = (case bt_get (st_check_runs s) (owner, repo) of
             Some runs \<Rightarrow> filter (\<lambda>run. case head_sha of Some sha \<Rightarrow> cr_head_sha run = sha | None \<Rightarrow> True) runs
           | None \<Rightarrow> [])
       in Ok \<lparr>cl_total_count = length runs, cl_check_runs = runs\<rparr>)"

definition suite_status :: "CheckRun list \<Rightarrow> CheckRunStatus" where
  "suite_status runs =
     (if list_all (\<lambda>run. cr_status run = RunCompleted) runs then RunCompleted
      else if list_ex (\<lambda>run. cr_status run = RunInProgress) runs then RunInProgress
      else RunQueued)"

definition suite_conclusion :: "CheckRun list \<Rightarrow> CheckConclusion option" where
  "suite_conclusion runs =
     (if suite_status runs = RunCompleted then
        Some (if list_all (\<lambda>run. cr_conclusion run = Some CcSuccess) runs then CcSuccess else CcFailure)
      else None)"

definition check_suites ::
  "ForgeEnv \<Rightarrow> ForgeState \<Rightarrow> string \<Rightarrow> string \<Rightarrow> string option \<Rightarrow> (CheckSuite list, ForgeError) result" where
  "check_suites env s owner repo head_sha =
     and_then (list_check_runs s owner repo head_sha) (\<lambda>found.
       let grouped = fold (\<lambda>run. bt_update_or [] (cr_head_sha run) (\<lambda>rs. rs @ [run])) (cl_check_runs found) []
       in Ok (map (\<lambda>(i, sha, runs).
            \<lparr>su_id = en_uuid env ''suite'' i, su_owner = owner, su_repo = repo, su_head_sha = sha,
             su_status = suite_status runs, su_conclusion = suite_conclusion runs,
             su_check_runs = runs\<rparr>)
           (enumerate 0 grouped)))"

record WorkflowRun =
  wr_id :: uuid
  wr_name :: string
  wr_head_sha :: string
  wr_status :: CheckRunStatus
  wr_conclusion :: "CheckConclusion option"
  wr_check_runs :: "CheckRun list"

definition workflow_runs ::
  "ForgeEnv \<Rightarrow> ForgeState \<Rightarrow> string \<Rightarrow> string \<Rightarrow> (nat \<times> WorkflowRun list, ForgeError) result" where
  "workflow_runs env s owner repo =
     and_then (check_suites env s owner repo None) (\<lambda>suites.
       let runs = map (\<lambda>suite. \<lparr>wr_id = su_id suite, wr_name = ''Phase 2 checks'',
              wr_head_sha = su_head_sha suite, wr_status = su_status suite,
              wr_conclusion = su_conclusion suite, wr_check_runs = su_check_runs suite\<rparr>) suites
       in Ok (length runs, runs))"

section \<open>Commit statuses\<close>

definition new_status ::
  "ForgeEnv \<Rightarrow> string \<Rightarrow> string \<Rightarrow> string \<Rightarrow> string \<Rightarrow> CreateCommitStatusRequest \<Rightarrow> CommitStatus" where
  "new_status env owner repo sha creator request =
     (let now = en_now env ''status'' 0 in
      \<lparr>cs_id = en_uuid env ''status'' 0, cs_owner = owner, cs_repo = repo, cs_sha = sha,
       cs_state = ccs_state request, cs_context = ccs_context request,
       cs_description = ccs_description request, cs_target_url = ccs_target_url request,
       cs_creator = creator, cs_created_at = now, cs_updated_at = now\<rparr>)"

definition create_commit_status ::
  "ForgeEnv \<Rightarrow> ForgeState \<Rightarrow> string \<Rightarrow> string \<Rightarrow> string \<Rightarrow> string \<Rightarrow> CreateCommitStatusRequest
   \<Rightarrow> CommitStatus forge" where
  "create_commit_status env hint owner repo sha creator request =
     with_profile_mutation env hint owner repo
       (f_bind (f_try (require_name ''sha'' sha)) (\<lambda>_.
        f_bind (f_read (ensure_repo_exists owner repo)) (\<lambda>_.
        f_bind (ensure_user_admitted env creator) (\<lambda>_.
        f_commit env 1 (\<lambda>s.
          let status = new_status env owner repo sha creator request;
              s1 = s\<lparr>st_statuses := bt_update_or [] (owner, repo, sha) (\<lambda>xs. xs @ [status]) (st_statuses s)\<rparr>;
              s2 = refresh_pull_mergeability_for_sha env owner repo sha s1
          in (status, emit_event_locked env ''status event'' owner repo ''status''
                (event_payload ''created'' ''status'' (StatusObject status)) s2))))))"

definition combine_states :: "CommitStatusState list \<Rightarrow> CommitStatusState" where
  "combine_states states =
     (if list_ex (\<lambda>st. st = StError) states then StError
      else if list_ex (\<lambda>st. st = StFailure) states then StFailure
      else if states = [] \<or> list_ex (\<lambda>st. st = StPending) states then StPending
      else StSuccess)"

definition combined_status ::
  "ForgeState \<Rightarrow> string \<Rightarrow> string \<Rightarrow> string \<Rightarrow> (CombinedStatus, ForgeError) result" where
  "combined_status s owner repo sha =
     and_then (ensure_repo_exists owner repo s) (\<lambda>_.
       let statuses = (case bt_get (st_statuses s) (owner, repo, sha) of Some xs \<Rightarrow> xs | None \<Rightarrow> [])
       in Ok \<lparr>cb_state = combine_states (map cs_state statuses), cb_total_count = length statuses,
              cb_statuses = statuses\<rparr>)"

section \<open>Issues\<close>

definition not_found_issue :: "string \<Rightarrow> string \<Rightarrow> u64 \<Rightarrow> ForgeError" where
  "not_found_issue owner repo number =
     ForgeNotFound (''issue '' @ owner @ ''/'' @ repo @ ''#'' @ show_word number)"

definition insert_issue ::
  "ForgeEnv \<Rightarrow> string \<Rightarrow> string \<Rightarrow> string \<Rightarrow> CreateIssueRequest \<Rightarrow> ForgeState \<Rightarrow> Issue \<times> ForgeState" where
  "insert_issue env owner repo author request s =
     (let (number, s1) = next_issue_number owner repo s;
          now = en_now env ''issue'' 0;
          issue = \<lparr>is_id = en_uuid env ''issue'' 0, is_owner = owner, is_repo = repo,
                   is_number = number, is_title = cis_title request, is_body = cis_body request,
                   is_state = IssueOpen, is_author = author, is_labels = cis_labels request,
                   is_assignees = cis_assignees request, is_milestone = cis_milestone request,
                   is_comments = 0, is_pull_request = None, is_created_at = now,
                   is_updated_at = now, is_closed_at = None\<rparr>;
          s2 = s1\<lparr>st_issues := bt_insert (owner, repo, number) issue (st_issues s1)\<rparr>
      in (issue, emit_event_locked env ''issue event'' owner repo ''issues''
                   (event_payload ''opened'' ''issue'' (IssueObject issue)) s2))"

definition create_issue ::
  "ForgeEnv \<Rightarrow> ForgeState \<Rightarrow> string \<Rightarrow> string \<Rightarrow> string \<Rightarrow> CreateIssueRequest \<Rightarrow> Issue forge" where
  "create_issue env hint owner repo author request =
     with_profile_mutation env hint owner repo
       (f_bind (f_try (require_name ''issue title'' (cis_title request))) (\<lambda>_.
        f_bind (f_read (ensure_repo_exists owner repo)) (\<lambda>_.
        f_bind (ensure_user_admitted env author) (\<lambda>_.
        f_commit env 1 (insert_issue env owner repo author request)))))"

definition list_issues ::
  "ForgeState \<Rightarrow> string \<Rightarrow> string \<Rightarrow> IssueState option \<Rightarrow> (Issue list, ForgeError) result" where
  "list_issues s owner repo state_filter =
     and_then (ensure_repo_exists owner repo s) (\<lambda>_.
       Ok (sort_key is_number
         (filter (\<lambda>issue. case state_filter of Some st \<Rightarrow> is_state issue = st | None \<Rightarrow> True)
           (filter (\<lambda>issue. is_owner issue = owner \<and> is_repo issue = repo) (bt_values (st_issues s))))))"

definition get_issue :: "ForgeState \<Rightarrow> string \<Rightarrow> string \<Rightarrow> u64 \<Rightarrow> (Issue, ForgeError) result" where
  "get_issue s owner repo number =
     ok_or (not_found_issue owner repo number) (bt_get (st_issues s) (owner, repo, number))"

definition edit_issue :: "ForgeEnv \<Rightarrow> UpdateIssueRequest \<Rightarrow> Issue \<Rightarrow> Issue" where
  "edit_issue env request i0 =
     (let i1 = (case uis_title request of Some t \<Rightarrow> i0\<lparr>is_title := t\<rparr> | None \<Rightarrow> i0);
          i2 = (if uis_body request \<noteq> None then i1\<lparr>is_body := uis_body request\<rparr> else i1);
          i3 = (case uis_labels request of Some ls \<Rightarrow> i2\<lparr>is_labels := ls\<rparr> | None \<Rightarrow> i2);
          i4 = (case uis_assignees request of Some as \<Rightarrow> i3\<lparr>is_assignees := as\<rparr> | None \<Rightarrow> i3);
          i5 = (if uis_milestone request \<noteq> None then i4\<lparr>is_milestone := uis_milestone request\<rparr> else i4);
          i6 = (case uis_state request of
                  Some st \<Rightarrow> i5\<lparr>is_state := st,
                               is_closed_at := (if st = IssueClosed then Some (en_now env ''issue closed'' 0) else None)\<rparr>
                | None \<Rightarrow> i5)
      in i6\<lparr>is_updated_at := en_now env ''issue edit'' 0\<rparr>)"

definition issue_action :: "UpdateIssueRequest \<Rightarrow> string" where
  "issue_action request =
     (case uis_state request of
        Some IssueOpen \<Rightarrow> ''reopened'' | Some IssueClosed \<Rightarrow> ''closed'' | None \<Rightarrow> ''edited'')"

definition update_issue ::
  "ForgeEnv \<Rightarrow> ForgeState \<Rightarrow> string \<Rightarrow> string \<Rightarrow> u64 \<Rightarrow> UpdateIssueRequest \<Rightarrow> Issue forge" where
  "update_issue env hint owner repo number request =
     with_repository_mutation env hint owner repo
       (f_bind (f_read (\<lambda>s. get_issue s owner repo number)) (\<lambda>issue.
        f_bind (f_try (case uis_title request of
                         Some t \<Rightarrow> require_name ''issue title'' t | None \<Rightarrow> Ok ())) (\<lambda>_.
        f_commit env 0 (\<lambda>s.
          let updated = edit_issue env request issue;
              s1 = s\<lparr>st_issues := bt_insert (owner, repo, number) updated (st_issues s)\<rparr>
          in (updated, emit_event_locked env ''issue edit event'' owner repo ''issues''
                (event_payload (issue_action request) ''issue'' (IssueObject updated)) s1)))))"

definition add_issue_comment ::
  "ForgeEnv \<Rightarrow> ForgeState \<Rightarrow> string \<Rightarrow> string \<Rightarrow> u64 \<Rightarrow> string \<Rightarrow> string \<Rightarrow> IssueComment forge" where
  "add_issue_comment env hint owner repo number author body =
     with_profile_mutation env hint owner repo
       (f_bind (f_try (require_name ''comment body'' body)) (\<lambda>_.
        f_bind (ensure_user_admitted env author) (\<lambda>_.
        f_bind (f_read (\<lambda>s. get_issue s owner repo number)) (\<lambda>issue.
        f_commit env 1 (\<lambda>s.
          let key = (owner, repo, number);
              issue' = issue\<lparr>is_comments := is_comments issue + 1,
                             is_updated_at := en_now env ''comment issue'' 0\<rparr>;
              comment = \<lparr>ic_id = en_uuid env ''comment'' 0, ic_owner = owner, ic_repo = repo,
                         ic_issue_number = number, ic_author = author, ic_body = body,
                         ic_created_at = en_now env ''comment'' 0,
                         ic_updated_at = en_now env ''comment'' 1\<rparr>;
              s1 = s\<lparr>st_issues := bt_insert key issue' (st_issues s),
                     st_issue_comments := bt_update_or [] key (\<lambda>cs. cs @ [comment]) (st_issue_comments s)\<rparr>
          in (comment, emit_event_locked env ''comment event'' owner repo ''issue_comment''
                (event_payload ''created'' ''comment'' (CommentObject comment)) s1))))))"

definition list_issue_comments ::
  "ForgeState \<Rightarrow> string \<Rightarrow> string \<Rightarrow> u64 \<Rightarrow> (IssueComment list, ForgeError) result" where
  "list_issue_comments s owner repo number =
     and_then (get_issue s owner repo number) (\<lambda>_.
       Ok (case bt_get (st_issue_comments s) (owner, repo, number) of Some cs \<Rightarrow> cs | None \<Rightarrow> []))"

section \<open>Webhooks\<close>

definition create_webhook ::
  "ForgeEnv \<Rightarrow> ForgeState \<Rightarrow> string \<Rightarrow> string \<Rightarrow> CreateWebhookRequest \<Rightarrow> Webhook forge" where
  "create_webhook env hint owner repo request =
     with_repository_mutation env hint owner repo
       (f_bind (f_read (ensure_repo_exists owner repo)) (\<lambda>_.
        f_bind (f_try (require_name ''webhook url'' (wc_url (cwh_config request)))) (\<lambda>_.
        f_commit env 0 (\<lambda>s.
          let now = en_now env ''webhook'' 0;
              hook = \<lparr>wh_id = en_uuid env ''webhook'' 0, wh_owner = owner, wh_repo = repo,
                      wh_name = cwh_name request, wh_active = cwh_active request,
                      wh_events = cwh_events request, wh_config = cwh_config request,
                      wh_created_at = now, wh_updated_at = now\<rparr>
          in (hook, s\<lparr>st_webhooks := bt_update_or [] (owner, repo) (\<lambda>hs. hs @ [hook]) (st_webhooks s)\<rparr>)))))"

definition list_webhooks :: "ForgeState \<Rightarrow> string \<Rightarrow> string \<Rightarrow> (Webhook list, ForgeError) result" where
  "list_webhooks s owner repo =
     and_then (ensure_repo_exists owner repo s) (\<lambda>_.
       Ok (case bt_get (st_webhooks s) (owner, repo) of Some hs \<Rightarrow> hs | None \<Rightarrow> []))"

definition list_webhook_deliveries ::
  "ForgeState \<Rightarrow> string \<Rightarrow> string \<Rightarrow> (WebhookDelivery list, ForgeError) result" where
  "list_webhook_deliveries s owner repo =
     and_then (ensure_repo_exists owner repo s) (\<lambda>_.
       Ok (filter (\<lambda>d. wd_owner d = owner \<and> wd_repo d = repo) (st_webhook_deliveries s)))"

section \<open>Audit scores\<close>

definition MAX_SCORES_PER_BRANCH :: nat where
  "MAX_SCORES_PER_BRANCH = 200"

text \<open>The report is the text of the supplied JSON value.\<close>

record RecordJankuraiScoreRequest =
  rj_branch :: string
  rj_commit_sha :: string
  rj_score :: "u32 option"
  rj_hard_findings :: "u32 option"
  rj_decision :: string
  rj_caps_applied :: "string list"
  rj_report :: "string option"
  rj_tool_exit :: "int option"

definition of_branch :: "string \<Rightarrow> JankuraiScore list \<Rightarrow> JankuraiScore list" where
  "of_branch branch scores = filter (\<lambda>e. js_branch e = branch) scores"

text \<open>The index of the oldest record of a branch, and the loop that drops it while there are too many.\<close>

definition oldest_index :: "string \<Rightarrow> JankuraiScore list \<Rightarrow> nat option" where
  "oldest_index branch scores =
     map_option fst (min_by_key (\<lambda>(_, e). js_created_at e)
       (filter (\<lambda>(_, e). js_branch e = branch) (enumerate 0 scores)))"

lemma oldest_index_bound:
  assumes "oldest_index branch scores = Some i"
  shows "i < length scores \<and> js_branch (scores ! i) = branch"
proof -
  from assms obtain e where
    "min_by_key (\<lambda>(_, e). js_created_at e)
       (filter (\<lambda>(_, e). js_branch e = branch) (enumerate 0 scores)) = Some (i, e)"
    by (auto simp: oldest_index_def)
  from min_by_key_Some [OF this] show ?thesis by (auto simp: in_set_enumerate_eq)
qed

function prune_scores :: "string \<Rightarrow> JankuraiScore list \<Rightarrow> JankuraiScore list" where
  "prune_scores branch scores =
     (if length (of_branch branch scores) > MAX_SCORES_PER_BRANCH then
        (case oldest_index branch scores of
           Some i \<Rightarrow> prune_scores branch (take i scores @ drop (Suc i) scores)
         | None \<Rightarrow> scores)
      else scores)"
  by pat_completeness auto
termination
  by (relation "measure (\<lambda>(_, scores). length scores)") (auto dest: oldest_index_bound)

declare prune_scores.simps [simp del]

definition record_score ::
  "ForgeEnv \<Rightarrow> string \<Rightarrow> string \<Rightarrow> RecordJankuraiScoreRequest \<Rightarrow> JankuraiScore" where
  "record_score env owner repo request =
     \<lparr>js_id = en_uuid env ''score'' 0, js_owner = owner, js_repo = repo,
      js_branch = trim (rj_branch request), js_commit_sha = trim (rj_commit_sha request),
      js_score = rj_score request,
      js_hard_findings = (case rj_hard_findings request of Some n \<Rightarrow> n | None \<Rightarrow> 0),
      js_decision = trim (rj_decision request), js_caps_applied = rj_caps_applied request,
      js_report_json = (case rj_report request of
          Some report \<Rightarrow> Some report
        | None \<Rightarrow> (case rj_tool_exit request of
            Some exit \<Rightarrow> Some (''{'' @ [CHR 0x22] @ ''tool_exit'' @ [CHR 0x22] @ '':'' @ show_int exit @ ''}'')
          | None \<Rightarrow> None)),
      js_created_at = en_now env ''score'' 0\<rparr>"

definition add_score :: "JankuraiScore \<Rightarrow> JankuraiScore list \<Rightarrow> JankuraiScore list" where
  "add_score r scores =
     prune_scores (js_branch r)
       (filter (\<lambda>e. \<not> (js_branch e = js_branch r \<and> js_commit_sha e = js_commit_sha r)) scores @ [r])"

definition record_jankurai_score ::
  "ForgeEnv \<Rightarrow> ForgeState \<Rightarrow> string \<Rightarrow> string \<Rightarrow> RecordJankuraiScoreRequest \<Rightarrow> JankuraiScore forge" where
  "record_jankurai_score env hint owner repo request =
     with_repository_mutation env hint owner repo
       (f_bind (f_try (require_name ''branch'' (rj_branch request))) (\<lambda>_.
        f_bind (f_try (require_name ''commit sha'' (rj_commit_sha request))) (\<lambda>_.
        f_bind (f_try (require_name ''decision'' (rj_decision request))) (\<lambda>_.
        f_bind (f_try (case rj_score request of
            Some score \<Rightarrow> ensure (score \<le> 100) (Validation (''score must be 0-100, got '' @ show_word score))
          | None \<Rightarrow> Ok ())) (\<lambda>_.
        f_bind (f_read (ensure_repo_exists owner repo)) (\<lambda>_.
        f_commit env 0 (\<lambda>s.
          let r = record_score env owner repo request
          in (r, s\<lparr>st_jankurai_scores :=
                    bt_update_or [] (owner, repo) (add_score r) (st_jankurai_scores s)\<rparr>))))))))"

definition list_jankurai_scores ::
  "ForgeState \<Rightarrow> string \<Rightarrow> string \<Rightarrow> string option \<Rightarrow> string option \<Rightarrow> (JankuraiScore list, ForgeError) result" where
  "list_jankurai_scores s owner repo branch commit_sha =
     and_then (ensure_repo_exists owner repo s) (\<lambda>_.
       Ok (sort_key (\<lambda>score. - js_created_at score)
         (filter (\<lambda>score. case commit_sha of Some sha \<Rightarrow> js_commit_sha score = sha | None \<Rightarrow> True)
           (filter (\<lambda>score. case branch of Some b \<Rightarrow> js_branch score = b | None \<Rightarrow> True)
             (case bt_get (st_jankurai_scores s) (owner, repo) of Some xs \<Rightarrow> xs | None \<Rightarrow> [])))))"

definition latest_jankurai_score ::
  "ForgeState \<Rightarrow> string \<Rightarrow> string \<Rightarrow> string \<Rightarrow> JankuraiScore option" where
  "latest_jankurai_score s owner repo branch =
     (case bt_get (st_jankurai_scores s) (owner, repo) of
        Some scores \<Rightarrow> max_by_key js_created_at (of_branch branch scores)
      | None \<Rightarrow> None)"

end
