(* ===== verification/Forge_Transfer.thy ===== *)
theory Forge_Transfer
  imports Forge_Activity
begin

text \<open>
  Repository transfers: the two-phase lifecycle of \<open>engine/repository_transfer.rs\<close> and the
  re-keying of the whole state of \<open>engine/repository_transfer_state.rs\<close>.
\<close>

section \<open>Re-keying\<close>

definition rekey_pairs ::
  "pair_key \<Rightarrow> pair_key \<Rightarrow> ('v \<Rightarrow> 'v) \<Rightarrow> (pair_key, 'v) btree_map \<Rightarrow> (pair_key, 'v) btree_map" where
  "rekey_pairs old new update m =
     (case bt_get m old of
        Some v \<Rightarrow> bt_insert new (update v) (bt_remove old m)
      | None \<Rightarrow> m)"

definition rekey_triple_step ::
  "pair_key \<Rightarrow> ('v \<Rightarrow> 'v) \<Rightarrow> string \<times> string \<times> 'k::linorder
   \<Rightarrow> (string \<times> string \<times> 'k, 'v) btree_map \<Rightarrow> (string \<times> string \<times> 'k, 'v) btree_map" where
  "rekey_triple_step new update key m =
     (case bt_get m key of
        Some v \<Rightarrow> bt_insert (fst new, snd new, snd (snd key)) (update v) (bt_remove key m)
      | None \<Rightarrow> m)"

definition rekey_triples ::
  "pair_key \<Rightarrow> pair_key \<Rightarrow> ('v \<Rightarrow> 'v) \<Rightarrow> (string \<times> string \<times> 'k::linorder, 'v) btree_map
   \<Rightarrow> (string \<times> string \<times> 'k, 'v) btree_map" where
  "rekey_triples old new update m =
     fold (rekey_triple_step new update) (filter (scoped (fst old) (snd old)) (map fst m)) m"

definition rekey_grant_step ::
  "pair_key \<Rightarrow> name_key \<Rightarrow> (name_key, RepoAccessGrant) btree_map \<Rightarrow> (name_key, RepoAccessGrant) btree_map" where
  "rekey_grant_step new key m =
     (case bt_get m key of
        Some grant \<Rightarrow> bt_insert (fst key, fst new, snd new)
                       (grant\<lparr>rg_owner := fst new, rg_repo := snd new\<rparr>) (bt_remove key m)
      | None \<Rightarrow> m)"

definition rekey_grants ::
  "pair_key \<Rightarrow> pair_key \<Rightarrow> (name_key, RepoAccessGrant) btree_map \<Rightarrow> (name_key, RepoAccessGrant) btree_map" where
  "rekey_grants old new m =
     fold (rekey_grant_step new) (filter (\<lambda>(_, o', r). o' = fst old \<and> r = snd old) (map fst m)) m"

definition rekey_pull :: "pair_key \<Rightarrow> pair_key \<Rightarrow> ForgePull \<Rightarrow> ForgePull" where
  "rekey_pull old new pull =
     (let pull' = pull\<lparr>fp_owner := fst new, fp_repo := snd new\<rparr> in
      if fp_source_repository pull' = fst old @ ''/'' @ snd old
      then pull'\<lparr>fp_source_repository := fst new @ ''/'' @ snd new\<rparr> else pull')"

definition rekey_rows :: "pair_key \<Rightarrow> pair_key \<Rightarrow> ForgeState \<Rightarrow> ForgeState" where
  "rekey_rows old new s =
     s\<lparr>st_labels := rekey_triples old new (\<lambda>l. l) (st_labels s),
       st_issues := rekey_triples old new (\<lambda>i. i\<lparr>is_owner := fst new, is_repo := snd new\<rparr>) (st_issues s),
       st_issue_comments := rekey_triples old new
         (map (\<lambda>c. c\<lparr>ic_owner := fst new, ic_repo := snd new\<rparr>)) (st_issue_comments s),
       st_pulls := rekey_triples old new (rekey_pull old new) (st_pulls s),
       st_reviews := rekey_triples old new
         (map (\<lambda>r. r\<lparr>rv_owner := fst new, rv_repo := snd new\<rparr>)) (st_reviews s),
       st_review_comments := rekey_triples old new
         (map (\<lambda>c. c\<lparr>rc_owner := fst new, rc_repo := snd new\<rparr>)) (st_review_comments s),
       st_branch_protections := rekey_triples old new
         (\<lambda>rule. rule\<lparr>bp_owner := fst new, bp_repo := snd new\<rparr>) (st_branch_protections s),
       st_codeowners := rekey_pairs old new (\<lambda>x. x) (st_codeowners s),
       st_readmes := rekey_pairs old new (\<lambda>x. x) (st_readmes s),
       st_statuses := rekey_triples old new
         (map (\<lambda>x. x\<lparr>cs_owner := fst new, cs_repo := snd new\<rparr>)) (st_statuses s),
       st_check_runs := rekey_pairs old new
         (map (\<lambda>x. x\<lparr>cr_owner := fst new, cr_repo := snd new\<rparr>)) (st_check_runs s),
       st_webhooks := rekey_pairs old new
         (map (\<lambda>x. x\<lparr>wh_owner := fst new, wh_repo := snd new\<rparr>)) (st_webhooks s),
       st_counters := rekey_pairs old new (\<lambda>x. x) (st_counters s),
       st_jankurai_scores := rekey_pairs old new
         (map (\<lambda>x. x\<lparr>js_owner := fst new, js_repo := snd new\<rparr>)) (st_jankurai_scores s),
       st_repo_grants := rekey_grants old new (st_repo_grants s),
       st_webhook_deliveries := map (\<lambda>d. if wd_owner d = fst old \<and> wd_repo d = snd old
         then d\<lparr>wd_owner := fst new, wd_repo := snd new\<rparr> else d) (st_webhook_deliveries s)\<rparr>"

definition rekey_repository ::
  "ForgeEnv \<Rightarrow> RepositoryTransferJournal \<Rightarrow> ForgeState \<Rightarrow> (ForgeState, ForgeError) result" where
  "rekey_repository env transfer s =
     (let old = (rt_source_owner transfer, rt_source_name transfer);
          new = (rt_destination_owner transfer, rt_destination_name transfer)
      in if bt_get (st_repos s) new \<noteq> None \<or> bt_get (st_repository_aliases s) new \<noteq> None
         then Err (ForgeConflict (''destination repository '' @ fst new @ ''/'' @ snd new))
         else case bt_get (st_repos s) old of
           None \<Rightarrow> Err (not_found_repository (fst old) (snd old))
         | Some repository \<Rightarrow>
             if re_id repository \<noteq> rt_repository_id transfer
             then Err (Validation (''repository UUID drift for '' @ fst old @ ''/'' @ snd old))
             else
               let repository' = repository\<lparr>re_owner := fst new, re_name := snd new,
                     re_full_name := fst new @ ''/'' @ snd new,
                     re_updated_at := en_now env ''transfer'' 0\<rparr>
               in Ok (rekey_rows old new
                        (s\<lparr>st_repos := bt_insert new repository' (bt_remove old (st_repos s))\<rparr>)))"

section \<open>The two phases\<close>

definition get_repository_by_id :: "ForgeState \<Rightarrow> uuid \<Rightarrow> (Repository, ForgeError) result" where
  "get_repository_by_id s i =
     ok_or (ForgeNotFound (''repository UUID '' @ show_uuid i)) (find_repo s i)"

definition prepare_repository_transfer ::
  "ForgeEnv \<Rightarrow> PrepareRepositoryTransfer \<Rightarrow> RepositoryTransferJournal forge" where
  "prepare_repository_transfer env request =
     with_transfer_prepare_mutation env (pt_repository_id request) (pt_idempotency_key request)
       (pt_request_fingerprint request)
       (f_bind (f_try (require_name ''expected source owner'' (pt_expected_source_owner request))) (\<lambda>_.
        f_bind (f_try (require_name ''expected source name'' (pt_expected_source_name request))) (\<lambda>_.
        f_bind (f_try (require_name ''destination owner'' (pt_destination_owner request))) (\<lambda>_.
        f_bind (f_try (require_name ''request fingerprint'' (pt_request_fingerprint request))) (\<lambda>_.
        f_bind (f_try (require_name ''idempotency key'' (pt_idempotency_key request))) (\<lambda>_. \<lambda>s.
        case bt_get (st_repository_transfers s) (pt_idempotency_key request) of
          Some existing \<Rightarrow> (Ok existing, s)
        | None \<Rightarrow>
          f_bind (f_read (\<lambda>s. get_repository_by_id s (pt_repository_id request))) (\<lambda>repository.
          f_bind (f_try (ensure (re_owner repository = pt_expected_source_owner request
                                 \<and> re_name repository = pt_expected_source_name request)
             (Validation (''repository source drift: expected '' @ pt_expected_source_owner request @ ''/''
                @ pt_expected_source_name request @ '', found '' @ re_full_name repository)))) (\<lambda>_.
          f_bind (f_try (ensure (re_owner repository \<noteq> pt_destination_owner request)
             (Validation ''destination owner must differ from source owner''))) (\<lambda>_.
          f_bind (f_read (\<lambda>s. ensure
             (bt_get (st_repos s) (pt_destination_owner request, re_name repository) = None
              \<and> bt_get (st_repository_aliases s) (pt_destination_owner request, re_name repository) = None)
             (ForgeConflict (''destination repository '' @ pt_destination_owner request @ ''/''
                @ re_name repository)))) (\<lambda>_.
          f_commit env 0 (\<lambda>s.
            let journal = \<lparr>rt_transaction_id = en_uuid env ''transfer'' 0,
                  rt_idempotency_key = pt_idempotency_key request,
                  rt_request_fingerprint = pt_request_fingerprint request,
                  rt_repository_id = re_id repository, rt_source_owner = re_owner repository,
                  rt_source_name = re_name repository,
                  rt_destination_owner = pt_destination_owner request,
                  rt_destination_name = re_name repository, rt_status = TrPrepared,
                  rt_prepared_at = en_now env ''transfer'' 1, rt_completed_at = None,
                  rt_failure = None, rt_receipt = None\<rparr>
            in (journal, s\<lparr>st_repository_transfers :=
                  bt_insert (pt_idempotency_key request) journal (st_repository_transfers s)\<rparr>))))))
          s))))))"

definition transfer_key_for_id :: "uuid \<Rightarrow> ForgeState \<Rightarrow> (string, ForgeError) result" where
  "transfer_key_for_id i s =
     ok_or (not_found_transfer i)
       (map_option fst (find (\<lambda>(_, journal). rt_transaction_id journal = i) (st_repository_transfers s)))"

definition transfer_entry :: "uuid \<Rightarrow> ForgeState \<Rightarrow> (string \<times> RepositoryTransferJournal, ForgeError) result" where
  "transfer_entry i s =
     and_then (transfer_key_for_id i s) (\<lambda>key.
       and_then (ok_or (not_found_transfer i) (bt_get (st_repository_transfers s) key)) (\<lambda>journal.
         Ok (key, journal)))"

text \<open>The alias rows and the journal of a committed transfer.\<close>

definition commit_rows ::
  "ForgeEnv \<Rightarrow> string \<Rightarrow> RepositoryTransferJournal \<Rightarrow> string \<Rightarrow> ForgeState
   \<Rightarrow> RepositoryTransferJournal \<times> ForgeState" where
  "commit_rows env key journal receipt s =
     (let aliases = bt_map_values (\<lambda>alias. if ra_repository_id alias = rt_repository_id journal
            then alias\<lparr>ra_canonical_owner := rt_destination_owner journal,
                       ra_canonical_name := rt_destination_name journal\<rparr> else alias)
            (st_repository_aliases s);
          alias = \<lparr>ra_repository_id = rt_repository_id journal, ra_owner = rt_source_owner journal,
                   ra_name = rt_source_name journal, ra_canonical_owner = rt_destination_owner journal,
                   ra_canonical_name = rt_destination_name journal,
                   ra_created_at = en_now env ''alias'' 0,
                   ra_transaction_id = rt_transaction_id journal\<rparr>;
          committed = journal\<lparr>rt_status := TrCommitted,
                   rt_completed_at := Some (en_now env ''transfer committed'' 0),
                   rt_receipt := Some receipt\<rparr>
      in (committed,
          s\<lparr>st_repository_aliases := bt_insert (rt_source_owner journal, rt_source_name journal) alias aliases,
            st_repository_transfers := bt_insert key committed (st_repository_transfers s)\<rparr>))"

definition commit_repository_transfer ::
  "ForgeEnv \<Rightarrow> ForgeState \<Rightarrow> uuid \<Rightarrow> string \<Rightarrow> RepositoryTransferJournal forge" where
  "commit_repository_transfer env hint i receipt =
     with_transfer_mutation env hint i
       (f_bind (f_read (transfer_entry i)) (\<lambda>(key, journal).
        case rt_status journal of
          TrCommitted \<Rightarrow> f_try (Ok journal)
        | TrFailed \<Rightarrow> f_try (Err (ForgeConflict (''repository transfer '' @ show_uuid i @ '' already failed'')))
        | TrPrepared \<Rightarrow> (\<lambda>s.
            case rekey_repository env journal s of
              Inl e \<Rightarrow> (Inl e, s)
            | Inr t \<Rightarrow> f_commit env 0 (\<lambda>_. commit_rows env key journal receipt t) s)))"

definition fail_repository_transfer ::
  "ForgeEnv \<Rightarrow> ForgeState \<Rightarrow> uuid \<Rightarrow> string \<Rightarrow> RepositoryTransferJournal forge" where
  "fail_repository_transfer env hint i reason =
     with_transfer_mutation env hint i
       (f_bind (f_try (require_name ''transfer failure reason'' reason)) (\<lambda>_.
        f_bind (f_read (transfer_entry i)) (\<lambda>(key, journal).
        case rt_status journal of
          TrCommitted \<Rightarrow>
            f_try (Err (ForgeConflict (''repository transfer '' @ show_uuid i @ '' is already committed'')))
        | TrFailed \<Rightarrow>
            if rt_failure journal = Some reason then f_try (Ok journal)
            else f_try (Err (ForgeConflict (''repository transfer '' @ show_uuid i
                   @ '' already failed with a different reason'')))
        | TrPrepared \<Rightarrow>
            f_commit env 0 (\<lambda>s.
              let failed = journal\<lparr>rt_status := TrFailed,
                    rt_completed_at := Some (en_now env ''transfer failed'' 0),
                    rt_failure := Some reason\<rparr>
              in (failed, s\<lparr>st_repository_transfers :=
                    bt_insert key failed (st_repository_transfers s)\<rparr>)))))"

end
