(* ===== verification/Forge_Auth.thy ===== *)
theory Forge_Auth
  imports Forge_Activity
begin

text \<open>
  \<open>engine/auth.rs\<close>, \<open>engine/auth/crypto.rs\<close> and \<open>engine/actors.rs\<close>: accounts and their
  lifecycle, web sessions, personal access tokens, invitations and activation, repository grants,
  and the authentication of an actor. Password hashing (Argon2), SHA-256 and the random source are
  outside the sources and come in a record \<open>AuthEnv\<close>, with the largest time of \<open>chrono\<close>.

  Where the sources leave an early error return after they have begun to change the live state, the
  model returns the changed state with the error: \<open>next_auth_epoch\<close> can fail after the account has
  been modified in \<open>reset_account_password\<close>, \<open>change_account_password\<close>,
  \<open>force_password_change\<close> and \<open>transition_account_status\<close>.
\<close>

record AuthEnv =
  au_argon2_hash :: "string \<Rightarrow> (string, ForgeError) result"
  au_argon2_verify :: "string \<Rightarrow> string \<Rightarrow> (unit, ForgeError) result"
  au_sha256_hex :: "string \<Rightarrow> string"
  au_random :: "string \<Rightarrow> (string, ForgeError) result"
  au_max_utc :: time

section \<open>Constants and helpers\<close>

abbreviation nanos_per_sec :: time where "nanos_per_sec \<equiv> 1000000000"

definition SESSION_TTL_SECS :: int where "SESSION_TTL_SECS = 60 * 60 * 24 * 14"
definition PAT_DEFAULT_TTL_DAYS :: int where "PAT_DEFAULT_TTL_DAYS = 90"
definition PAT_MAX_TTL_DAYS :: int where "PAT_MAX_TTL_DAYS = 365"
definition INVITATION_MAX_TTL_HOURS :: int where "INVITATION_MAX_TTL_HOURS = 24"
definition ACTIVATION_CHALLENGE_TTL_MINUTES :: int where "ACTIVATION_CHALLENGE_TTL_MINUTES = 10"
definition ACTIVATION_MAX_ATTEMPTS :: u32 where "ACTIVATION_MAX_ATTEMPTS = 5"

definition activation_error :: ForgeError where
  "activation_error = Validation ''activation could not be completed''"

definition bad_password :: ForgeError where
  "bad_password = Validation ''invalid login or password''"

definition days :: "int \<Rightarrow> time" where "days n = n * 24 * 60 * 60 * nanos_per_sec"
definition hours :: "int \<Rightarrow> time" where "hours n = n * 60 * 60 * nanos_per_sec"
definition minutes :: "int \<Rightarrow> time" where "minutes n = n * 60 * nanos_per_sec"

definition bad_binding :: ForgeError where
  "bad_binding = Validation ''team binding must be canonical organization/team''"

definition split_team_binding :: "string \<Rightarrow> (string \<times> string, ForgeError) result" where
  "split_team_binding binding =
     and_then (ok_or bad_binding (split_once (CHR ''/'') binding)) (\<lambda>(organization, team).
       if organization = [] \<or> team = [] \<or> CHR ''/'' \<in> set team then Err bad_binding
       else Ok (organization, team))"

fun normalize_bindings :: "string list \<Rightarrow> string btree_set \<Rightarrow> (string list, ForgeError) result" where
  "normalize_bindings [] acc = Ok acc"
| "normalize_bindings (b # bs) acc =
     and_then (split_team_binding (trim b)) (\<lambda>(organization, team).
     and_then (require_login organization) (\<lambda>_.
     and_then (require_login team) (\<lambda>_.
       normalize_bindings bs (bs_insert (organization @ ''/'' @ team) acc))))"

definition normalize_team_bindings :: "string list \<Rightarrow> (string list, ForgeError) result" where
  "normalize_team_bindings bindings = normalize_bindings bindings []"

definition next_auth_epoch :: "u64 \<Rightarrow> (u64, ForgeError) result" where
  "next_auth_epoch current =
     ok_or (Storage ''account auth epoch overflow'') (checked_add current 1)"

definition require_password :: "string \<Rightarrow> (unit, ForgeError) result" where
  "require_password password =
     (if length password < 12 then Err (Validation ''password must be at least 12 bytes'') else Ok ())"

definition hash_password :: "AuthEnv \<Rightarrow> string \<Rightarrow> (string, ForgeError) result" where
  "hash_password au password =
     and_then (au_argon2_hash au password) (\<lambda>h.
       if starts_with h ''$argon2id$'' then Ok h
       else Err (Storage ''password hash was not encoded as argon2id PHC''))"

definition validate_pat_expiry :: "time \<Rightarrow> time option \<Rightarrow> (time option, ForgeError) result" where
  "validate_pat_expiry now requested =
     (let expires_at = (case requested of Some t \<Rightarrow> t | None \<Rightarrow> now + days PAT_DEFAULT_TTL_DAYS) in
      if expires_at \<le> now then Err (Validation ''token expiry must be in the future'')
      else if expires_at > now + days PAT_MAX_TTL_DAYS
      then Err (Validation (''token expiry may not exceed '' @ show_int PAT_MAX_TTL_DAYS @ '' days''))
      else Ok (Some expires_at))"

definition token_hash :: "AuthEnv \<Rightarrow> string \<Rightarrow> string" where
  "token_hash au token = au_sha256_hex au token"

text \<open>The comparison that does not stop at the first difference.\<close>

definition constant_time_eq :: "string \<Rightarrow> string \<Rightarrow> bool" where
  "constant_time_eq left right =
     (if length left \<noteq> length right then False
      else foldl (\<lambda>diff (a, b). or diff (xor (of_char a :: u8) (of_char b))) 0 (zip left right) = 0)"

section \<open>Accounts\<close>

definition get_account :: "ForgeState \<Rightarrow> string \<Rightarrow> (AccountSummary, ForgeError) result" where
  "get_account s login =
     ok_or (ForgeNotFound (''account '' @ login))
       (map_option AccountSummary_from (bt_get (st_accounts s) login))"

definition list_accounts :: "ForgeState \<Rightarrow> AccountSummary list" where
  "list_accounts s = sort_key as_login (map AccountSummary_from (bt_values (st_accounts s)))"

definition require_active_account :: "ForgeState \<Rightarrow> string \<Rightarrow> (AccountSummary, ForgeError) result" where
  "require_active_account s login =
     and_then (get_account s login) (\<lambda>account.
       if \<not> permits_authentication (as_status account) then Err (Validation ''account is not active'')
       else Ok account)"

definition add_profile :: "ForgeEnv \<Rightarrow> string \<Rightarrow> string option \<Rightarrow> time \<Rightarrow> ForgeState \<Rightarrow> ForgeState" where
  "add_profile env login name now s =
     (if bt_get (st_users s) login = None
      then s\<lparr>st_users := bt_insert login
             \<lparr>us_id = en_uuid env ''account profile'' 0, us_login = login, us_name = name,
              us_email = None, us_created_at = now\<rparr> (st_users s)\<rparr>
      else s)"

definition create_account_admitted ::
  "ForgeEnv \<Rightarrow> AuthEnv \<Rightarrow> string \<Rightarrow> string \<Rightarrow> UserRole \<Rightarrow> AccountSummary forge" where
  "create_account_admitted env au login password role =
     f_bind (f_try (require_login login)) (\<lambda>_.
     f_bind (f_try (require_password password)) (\<lambda>_.
     f_bind (f_read (\<lambda>s. ensure (bt_get (st_accounts s) login = None) (ForgeConflict (''account '' @ login)))) (\<lambda>_.
     f_bind (f_try (hash_password au password)) (\<lambda>h.
     f_commit env 0 (\<lambda>s.
       let now = en_now env ''account'' 0;
           account = \<lparr>ua_canonical_login = login, ua_display_name = login, ua_password_hash = h,
                      ua_role = role, ua_status = AccActive, ua_auth_epoch = 0,
                      ua_must_change_password = False, ua_created_at = now, ua_updated_at = now\<rparr>;
           s1 = add_profile env login None now s
       in (AccountSummary_from account,
           s1\<lparr>st_accounts := bt_insert login account (st_accounts s1)\<rparr>))))))"

definition create_account ::
  "ForgeEnv \<Rightarrow> AuthEnv \<Rightarrow> string \<Rightarrow> string \<Rightarrow> UserRole \<Rightarrow> AccountSummary forge" where
  "create_account env au login password role =
     with_global_mutation env (create_account_admitted env au login password role)"

definition authenticate_password ::
  "AuthEnv \<Rightarrow> ForgeState \<Rightarrow> string \<Rightarrow> string \<Rightarrow> (AccountSummary, ForgeError) result" where
  "authenticate_password au s login password =
     and_then (ok_or bad_password (bt_get (st_accounts s) login)) (\<lambda>account.
       if \<not> permits_authentication (ua_status account) then Err bad_password
       else and_then (au_argon2_verify au password (ua_password_hash account)) (\<lambda>_.
         Ok (AccountSummary_from account)))"

text \<open>
  The tail that every revocation shares: the new epoch, the time, the sessions and tokens of the
  login, and the write. When the epoch cannot advance, the account stays as changed so far.
\<close>

definition drop_credentials :: "string \<Rightarrow> ForgeState \<Rightarrow> ForgeState" where
  "drop_credentials login s =
     s\<lparr>st_sessions := bt_retain (\<lambda>_ session. ss_login session \<noteq> login) (st_sessions s),
       st_personal_tokens := bt_retain (\<lambda>_ token. pa_login token \<noteq> login) (st_personal_tokens s)\<rparr>"

definition put_account :: "string \<Rightarrow> UserAccount \<Rightarrow> ForgeState \<Rightarrow> ForgeState" where
  "put_account login account s = s\<lparr>st_accounts := bt_insert login account (st_accounts s)\<rparr>"

definition advance_epoch ::
  "ForgeEnv \<Rightarrow> nat \<Rightarrow> string \<Rightarrow> UserAccount \<Rightarrow> AccountSummary forge" where
  "advance_epoch env n login account s =
     (case next_auth_epoch (ua_auth_epoch account) of
        Inl e \<Rightarrow> (Inl e, put_account login account s)
      | Inr epoch \<Rightarrow>
          f_commit env n (\<lambda>s.
            let updated = account\<lparr>ua_auth_epoch := epoch, ua_updated_at := en_now env ''account update'' n\<rparr>
            in (AccountSummary_from updated, drop_credentials login (put_account login updated s))) s)"

definition not_found_account :: "string \<Rightarrow> ForgeError" where
  "not_found_account login = ForgeNotFound (''account '' @ login)"

definition reset_account_password ::
  "ForgeEnv \<Rightarrow> AuthEnv \<Rightarrow> string \<Rightarrow> string \<Rightarrow> AccountSummary forge" where
  "reset_account_password env au login new_password =
     with_global_mutation env
       (f_bind (f_try (require_password new_password)) (\<lambda>_.
        f_bind (f_read (\<lambda>s. ok_or (not_found_account login) (bt_get (st_accounts s) login))) (\<lambda>account.
        f_bind (f_try (hash_password au new_password)) (\<lambda>h.
        advance_epoch env 0 login
          (account\<lparr>ua_password_hash := h, ua_must_change_password := True\<rparr>)))))"

definition change_account_password ::
  "ForgeEnv \<Rightarrow> AuthEnv \<Rightarrow> string \<Rightarrow> string \<Rightarrow> string \<Rightarrow> AccountSummary forge" where
  "change_account_password env au login current_password new_password =
     with_global_mutation env
       (f_bind (f_try (require_password new_password)) (\<lambda>_.
        f_bind (f_read (\<lambda>s. ok_or (not_found_account login) (bt_get (st_accounts s) login))) (\<lambda>account.
        f_bind (f_try (ensure (permits_authentication (ua_status account)) bad_password)) (\<lambda>_.
        f_bind (f_try (au_argon2_verify au current_password (ua_password_hash account))) (\<lambda>_.
        f_bind (f_try (hash_password au new_password)) (\<lambda>h.
        advance_epoch env 0 login
          (account\<lparr>ua_password_hash := h, ua_must_change_password := False\<rparr>)))))))"

definition force_password_change_admitted ::
  "ForgeEnv \<Rightarrow> nat \<Rightarrow> string \<Rightarrow> bool \<Rightarrow> AccountSummary forge" where
  "force_password_change_admitted env n login forced =
     f_bind (f_read (\<lambda>s. ok_or (not_found_account login) (bt_get (st_accounts s) login))) (\<lambda>account.
       let changed = account\<lparr>ua_must_change_password := forced\<rparr> in
       if forced then advance_epoch env n login changed
       else f_commit env n (\<lambda>s.
         let updated = changed\<lparr>ua_updated_at := en_now env ''account update'' n\<rparr>
         in (AccountSummary_from updated, put_account login updated s)))"

definition force_password_change :: "ForgeEnv \<Rightarrow> string \<Rightarrow> bool \<Rightarrow> AccountSummary forge" where
  "force_password_change env login forced =
     with_global_mutation env (force_password_change_admitted env 0 login forced)"

definition create_temporary_account ::
  "ForgeEnv \<Rightarrow> AuthEnv \<Rightarrow> string \<Rightarrow> string \<Rightarrow> UserRole \<Rightarrow> AccountSummary forge" where
  "create_temporary_account env au login password role =
     with_global_mutation env
       (f_bind (create_account_admitted env au login password role) (\<lambda>account.
        f_bind (force_password_change_admitted env 1 login True) (\<lambda>_. \<lambda>s.
          (Ok (case get_account s login of Inr current \<Rightarrow> current | Inl _ \<Rightarrow> account), s))))"

definition transition_account_status ::
  "ForgeEnv \<Rightarrow> string \<Rightarrow> AccountStatus \<Rightarrow> AccountStatus list option \<Rightarrow> AccountSummary forge" where
  "transition_account_status env login status allowed_current =
     with_global_mutation env
       (f_bind (f_read (\<lambda>s. ok_or (not_found_account login) (bt_get (st_accounts s) login))) (\<lambda>account.
        f_bind (f_try (case allowed_current of
            Some allowed \<Rightarrow>
              if ua_status account \<in> set allowed then Ok ()
              else Err (Validation (case status of
                  AccPendingMfa \<Rightarrow> ''only disabled or locked accounts may be reactivated''
                | AccActive \<Rightarrow> ''account is not pending MFA enrollment''
                | _ \<Rightarrow> ''account status transition is not allowed''))
          | None \<Rightarrow> Ok ())) (\<lambda>_.
        if ua_status account = status then f_try (Ok (AccountSummary_from account))
        else advance_epoch env 0 login (account\<lparr>ua_status := status\<rparr>))))"

definition disable_account :: "ForgeEnv \<Rightarrow> string \<Rightarrow> AccountSummary forge" where
  "disable_account env login = transition_account_status env login AccDisabled None"

definition lock_account :: "ForgeEnv \<Rightarrow> string \<Rightarrow> AccountSummary forge" where
  "lock_account env login = transition_account_status env login AccLocked None"

definition reactivate_account :: "ForgeEnv \<Rightarrow> string \<Rightarrow> AccountSummary forge" where
  "reactivate_account env login =
     transition_account_status env login AccPendingMfa (Some [AccDisabled, AccLocked])"

definition mark_account_mfa_active :: "ForgeEnv \<Rightarrow> string \<Rightarrow> AccountSummary forge" where
  "mark_account_mfa_active env login =
     transition_account_status env login AccActive (Some [AccPendingMfa])"

section \<open>Sessions\<close>

definition create_session_with_ttl_admitted ::
  "ForgeEnv \<Rightarrow> AuthEnv \<Rightarrow> string \<Rightarrow> time \<Rightarrow> (WebSession \<times> string) forge" where
  "create_session_with_ttl_admitted env au login ttl =
     f_bind (f_try (ensure (ttl > 0) (Validation ''session ttl must be positive''))) (\<lambda>_.
     f_bind (f_read (\<lambda>s. require_active_account s login)) (\<lambda>account.
     f_bind (f_try (au_random au ''session token'')) (\<lambda>token.
     f_bind (f_try (au_random au ''csrf token'')) (\<lambda>csrf.
     let created_at = en_now env ''session'' 0 in
     f_bind (f_try (ensure (created_at + ttl \<le> au_max_utc au) (Validation ''session ttl is out of range''))) (\<lambda>_.
     f_commit env 0 (\<lambda>s.
       let session = \<lparr>ss_id = en_uuid env ''session'' 0, ss_login = login,
                      ss_auth_epoch = as_auth_epoch account, ss_token_hash = token_hash au token,
                      ss_csrf_token = csrf, ss_created_at = created_at,
                      ss_expires_at = created_at + ttl\<rparr>
       in ((session, token),
           s\<lparr>st_sessions := bt_insert (ss_token_hash session) session (st_sessions s)\<rparr>)))))))"

definition create_session_with_ttl ::
  "ForgeEnv \<Rightarrow> AuthEnv \<Rightarrow> string \<Rightarrow> string \<Rightarrow> time \<Rightarrow> (WebSession \<times> string) forge" where
  "create_session_with_ttl env au login password ttl =
     with_global_mutation env
       (f_bind (f_read (\<lambda>s. map_err (\<lambda>_. Unauthenticated ''invalid login or password'')
                             (authenticate_password au s login password))) (\<lambda>_.
        create_session_with_ttl_admitted env au login ttl))"

definition create_session ::
  "ForgeEnv \<Rightarrow> AuthEnv \<Rightarrow> string \<Rightarrow> string \<Rightarrow> (WebSession \<times> string) forge" where
  "create_session env au login password =
     create_session_with_ttl env au login password (SESSION_TTL_SECS * nanos_per_sec)"

definition session_for_token ::
  "AuthEnv \<Rightarrow> ForgeState \<Rightarrow> time \<Rightarrow> string \<Rightarrow> (AccountSummary \<times> WebSession) option" where
  "session_for_token au s now token =
     (case bt_get (st_sessions s) (token_hash au token) of
        None \<Rightarrow> None
      | Some session \<Rightarrow>
          if ss_expires_at session \<le> now then None
          else case bt_get (st_accounts s) (ss_login session) of
            None \<Rightarrow> None
          | Some account \<Rightarrow>
              if \<not> permits_authentication (ua_status account)
                 \<or> ua_auth_epoch account \<noteq> ss_auth_epoch session
              then None else Some (AccountSummary_from account, session))"

definition authenticate_session ::
  "AuthEnv \<Rightarrow> ForgeState \<Rightarrow> time \<Rightarrow> string \<Rightarrow> AccountSummary option" where
  "authenticate_session au s now token = map_option fst (session_for_token au s now token)"

definition session_csrf_matches ::
  "AuthEnv \<Rightarrow> ForgeState \<Rightarrow> time \<Rightarrow> string \<Rightarrow> string \<Rightarrow> bool" where
  "session_csrf_matches au s now token csrf_token =
     (case session_for_token au s now token of
        Some (_, session) \<Rightarrow> constant_time_eq (ss_csrf_token session) csrf_token
      | None \<Rightarrow> False)"

definition revoke_session :: "ForgeEnv \<Rightarrow> AuthEnv \<Rightarrow> string \<Rightarrow> unit forge" where
  "revoke_session env au token =
     with_global_mutation env
       (f_commit env 0 (\<lambda>s. ((), s\<lparr>st_sessions := bt_remove (token_hash au token) (st_sessions s)\<rparr>)))"

section \<open>Actors and tokens\<close>

datatype ActorCredential =
    TokenCredential string
  | SessionCredential string string
  | SessionReadOnly string

text \<open>
  The handle minted from a credential. It also remembers the runtime that minted it: \<open>aa_runtime\<close>
  is that identity, and \<open>None\<close> stands for a runtime that is gone.
\<close>

record AuthenticatedActor =
  aa_runtime :: "nat option"
  aa_binding :: ReviewActorBinding
  aa_mutation_authorized :: bool

definition validate_actor_locked ::
  "ForgeEnv \<Rightarrow> nat \<Rightarrow> ForgeState \<Rightarrow> AuthenticatedActor \<Rightarrow> bool \<Rightarrow> (ReviewActorBinding, ForgeError) result" where
  "validate_actor_locked env runtime s actor mutation =
     and_then (ok_or invalid_credential (aa_runtime actor)) (\<lambda>r.
       if r \<noteq> runtime then Err invalid_credential
       else if mutation \<and> \<not> aa_mutation_authorized actor
       then Err (Forbidden ''read-only session proof cannot authorize mutations'')
       else validate_actor_binding env s (aa_binding actor))"

definition live_session ::
  "ForgeEnv \<Rightarrow> AuthEnv \<Rightarrow> ForgeState \<Rightarrow> string \<Rightarrow> (WebSession, ForgeError) result" where
  "live_session env au s token =
     (case bt_get (st_sessions s) (token_hash au token) of
        Some session \<Rightarrow>
          if ss_expires_at session > en_now env ''actor'' 0 then Ok session else Err invalid_credential
      | None \<Rightarrow> Err invalid_credential)"

definition credential_claim ::
  "ForgeEnv \<Rightarrow> AuthEnv \<Rightarrow> ForgeState \<Rightarrow> ActorCredential
   \<Rightarrow> (string \<times> ReviewCredentialKind \<times> uuid \<times> u64 \<times> bool, ForgeError) result" where
  "credential_claim env au s credential =
     (case credential of
        TokenCredential secret \<Rightarrow>
          and_then (ok_or invalid_credential
            (find (\<lambda>token. constant_time_eq (pa_token_hash token) (token_hash au secret)
                     \<and> (case pa_expires_at token of
                          Some expiry \<Rightarrow> expiry > en_now env ''actor'' 0 | None \<Rightarrow> True))
               (bt_values (st_personal_tokens s)))) (\<lambda>token.
            Ok (pa_login token, CredToken, pa_id token, pa_auth_epoch token, True))
      | SessionCredential token csrf_token \<Rightarrow>
          and_then (live_session env au s token) (\<lambda>session.
            if \<not> constant_time_eq (ss_csrf_token session) csrf_token
            then Err (Forbidden ''session CSRF proof is invalid'')
            else Ok (ss_login session, CredSession, ss_id session, ss_auth_epoch session, True))
      | SessionReadOnly token \<Rightarrow>
          and_then (live_session env au s token) (\<lambda>session.
            Ok (ss_login session, CredSession, ss_id session, ss_auth_epoch session, False)))"

definition authenticate_actor ::
  "ForgeEnv \<Rightarrow> AuthEnv \<Rightarrow> nat \<Rightarrow> ForgeState \<Rightarrow> ActorCredential \<Rightarrow> (AuthenticatedActor, ForgeError) result" where
  "authenticate_actor env au runtime s credential =
     and_then (en_process env) (\<lambda>_.
     and_then (credential_claim env au s credential) (\<lambda>(login, kind, i, epoch, mutation).
     and_then (ok_or invalid_credential (bt_get (st_accounts s) login)) (\<lambda>account.
     and_then (ok_or invalid_credential (bt_get (st_users s) login)) (\<lambda>profile.
     let actor = \<lparr>aa_runtime = Some runtime,
                  aa_binding = \<lparr>rb_login = login, rb_profile_id = us_id profile,
                                rb_account_created_at = ua_created_at account, rb_auth_epoch = epoch,
                                rb_credential_kind = kind, rb_credential_id = i\<rparr>,
                  aa_mutation_authorized = mutation\<rparr>
     in and_then (validate_actor_locked env runtime s actor False) (\<lambda>_. Ok actor)))))"

definition create_personal_access_token ::
  "ForgeEnv \<Rightarrow> AuthEnv \<Rightarrow> nat \<Rightarrow> AuthenticatedActor \<Rightarrow> string \<Rightarrow> time option
   \<Rightarrow> (PersonalAccessToken \<times> string) forge" where
  "create_personal_access_token env au runtime actor name expires_at =
     with_global_mutation env
       (f_bind (f_read (\<lambda>s. validate_actor_locked env runtime s actor True)) (\<lambda>binding.
        f_bind (f_read (\<lambda>s. require_active_account s (rb_login binding))) (\<lambda>account.
        f_bind (f_try (require_name ''token name'' name)) (\<lambda>_.
        f_bind (f_try (validate_pat_expiry (en_now env ''token'' 0) expires_at)) (\<lambda>expiry.
        f_bind (f_try (au_random au ''token'')) (\<lambda>random.
        f_commit env 0 (\<lambda>s.
          let secret = ''jpat_'' @ random;
              token = \<lparr>pa_id = en_uuid env ''token'' 0, pa_login = rb_login binding,
                       pa_auth_epoch = as_auth_epoch account, pa_name = trim name,
                       pa_token_hash = token_hash au secret, pa_created_at = en_now env ''token'' 1,
                       pa_expires_at = expiry\<rparr>
          in ((token, secret),
              s\<lparr>st_personal_tokens := bt_insert (pa_id token) token (st_personal_tokens s)\<rparr>))))))))"

definition revoke_personal_access_token :: "ForgeEnv \<Rightarrow> string \<Rightarrow> uuid \<Rightarrow> bool forge" where
  "revoke_personal_access_token env login i =
     with_global_mutation env
       (f_bind (f_read (\<lambda>s. get_account s login)) (\<lambda>_.
        f_commit env 0 (\<lambda>s.
          case bt_get (st_personal_tokens s) i of
            Some token \<Rightarrow>
              if pa_login token = login
              then (True, s\<lparr>st_personal_tokens := bt_remove i (st_personal_tokens s)\<rparr>)
              else (False, s)
          | None \<Rightarrow> (False, s))))"

definition authenticate_personal_access_token ::
  "AuthEnv \<Rightarrow> ForgeState \<Rightarrow> time \<Rightarrow> string \<Rightarrow> AccountSummary option" where
  "authenticate_personal_access_token au s now secret =
     (case find (\<lambda>token. pa_token_hash token = token_hash au secret
                  \<and> (case pa_expires_at token of Some expires \<Rightarrow> expires > now | None \<Rightarrow> True))
             (bt_values (st_personal_tokens s)) of
        None \<Rightarrow> None
      | Some token \<Rightarrow>
          (case bt_get (st_accounts s) (pa_login token) of
             None \<Rightarrow> None
           | Some account \<Rightarrow>
               if \<not> permits_authentication (ua_status account)
                  \<or> ua_auth_epoch account \<noteq> pa_auth_epoch token
               then None else Some (AccountSummary_from account)))"

record PersonalAccessTokenSummary =
  pts_id :: uuid
  pts_login :: string
  pts_name :: string
  pts_created_at :: time
  pts_expires_at :: "time option"

definition PersonalAccessTokenSummary_from :: "PersonalAccessToken \<Rightarrow> PersonalAccessTokenSummary" where
  "PersonalAccessTokenSummary_from t =
     \<lparr>pts_id = pa_id t, pts_login = pa_login t, pts_name = pa_name t,
      pts_created_at = pa_created_at t, pts_expires_at = pa_expires_at t\<rparr>"

definition list_personal_access_tokens ::
  "ForgeState \<Rightarrow> string \<Rightarrow> (PersonalAccessTokenSummary list, ForgeError) result" where
  "list_personal_access_tokens s login =
     and_then (get_account s login) (\<lambda>_.
       Ok (sort_key (\<lambda>t. (- pts_created_at t, pts_name t))
         (map PersonalAccessTokenSummary_from
           (filter (\<lambda>token. pa_login token = login) (bt_values (st_personal_tokens s))))))"

section \<open>Invitations and activation\<close>

record AccountInvitationSummary =
  ais_id :: uuid
  ais_canonical_login :: string
  ais_display_name :: string
  ais_issuer_principal :: string
  ais_intended_bindings :: InvitationBindings
  ais_created_at :: time
  ais_expires_at :: time
  ais_consumed_at :: "time option"
  ais_revoked_at :: "time option"
  ais_attempt_count :: u32

definition AccountInvitationSummary_from :: "AccountInvitation \<Rightarrow> AccountInvitationSummary" where
  "AccountInvitationSummary_from i =
     \<lparr>ais_id = ai_id i, ais_canonical_login = ai_canonical_login i,
      ais_display_name = ai_display_name i, ais_issuer_principal = ai_issuer_principal i,
      ais_intended_bindings = ai_intended_bindings i, ais_created_at = ai_created_at i,
      ais_expires_at = ai_expires_at i, ais_consumed_at = ai_consumed_at i,
      ais_revoked_at = ai_revoked_at i, ais_attempt_count = ai_attempt_count i\<rparr>"

definition has_admin :: "ForgeState \<Rightarrow> bool" where
  "has_admin s = list_ex (\<lambda>account. ua_role account = RoleAdmin) (bt_values (st_accounts s))"

definition pending :: "AccountInvitation \<Rightarrow> bool" where
  "pending i \<longleftrightarrow> ai_consumed_at i = None \<and> ai_revoked_at i = None"

definition team_exists :: "ForgeState \<Rightarrow> ForgeError \<Rightarrow> string \<Rightarrow> (unit, ForgeError) result" where
  "team_exists s missing binding =
     and_then (split_team_binding binding) (\<lambda>(organization, team).
       ensure (bt_get (st_teams s) (organization, team) \<noteq> None) missing)"

definition expired_ids :: "ForgeState \<Rightarrow> time \<Rightarrow> uuid btree_set" where
  "expired_ids s now =
     bs_of (map ai_id (filter (\<lambda>i. pending i \<and> ai_expires_at i \<le> now) (bt_values (st_invitations s))))"

definition revoke_expired :: "time \<Rightarrow> uuid \<Rightarrow> (uuid, AccountInvitation) btree_map \<Rightarrow> (uuid, AccountInvitation) btree_map" where
  "revoke_expired now i m =
     (case bt_get m i of
        Some invitation \<Rightarrow> bt_insert i (invitation\<lparr>ai_revoked_at := Some now\<rparr>) m | None \<Rightarrow> m)"

definition invitation_guards ::
  "string \<Rightarrow> string list \<Rightarrow> time \<Rightarrow> bool \<Rightarrow> ForgeState \<Rightarrow> (unit, ForgeError) result" where
  "invitation_guards canonical_login teams now bootstrap_owner s =
     and_then (ensure (bt_get (st_accounts s) canonical_login = None)
                 (ForgeConflict (''account '' @ canonical_login))) (\<lambda>_.
     and_then (ensure (\<not> (bootstrap_owner \<and> (st_bootstrap_owner_consumed s \<or> has_admin s)))
                 (ForgeConflict ''owner bootstrap has already been consumed'')) (\<lambda>_.
     and_then (for_each (\<lambda>b. team_exists s (ForgeNotFound (''team '' @ b)) b) teams) (\<lambda>_.
     and_then (ensure (\<not> list_ex (\<lambda>i. ai_canonical_login i = canonical_login \<and> pending i
                           \<and> ai_id i \<notin> set (expired_ids s now)) (bt_values (st_invitations s)))
                 (ForgeConflict (''active invitation for '' @ canonical_login))) (\<lambda>_.
     ensure (\<not> (bootstrap_owner \<and> list_ex (\<lambda>i. ai_bootstrap_owner i \<and> pending i
                           \<and> ai_id i \<notin> set (expired_ids s now)) (bt_values (st_invitations s))))
        (ForgeConflict ''active owner bootstrap invitation'')))))"

definition create_account_invitation_inner ::
  "ForgeEnv \<Rightarrow> AuthEnv \<Rightarrow> string \<Rightarrow> string \<Rightarrow> string \<Rightarrow> InvitationBindings \<Rightarrow> time \<Rightarrow> bool
   \<Rightarrow> (AccountInvitationSummary \<times> string) forge" where
  "create_account_invitation_inner env au issuer canonical_login display_name bindings expires_at
       bootstrap_owner =
     with_global_mutation env
       (f_bind (f_try (require_login canonical_login)) (\<lambda>_.
        f_bind (f_try (require_name ''display name'' display_name)) (\<lambda>_.
        f_bind (f_try (require_name ''issuer principal'' issuer)) (\<lambda>_.
        f_bind (f_try (normalize_team_bindings (ib_teams bindings))) (\<lambda>teams.
        let now = en_now env ''invitation'' 0 in
        f_bind (f_try (ensure (expires_at > now) (Validation ''invitation expiry must be in the future''))) (\<lambda>_.
        f_bind (f_try (ensure (expires_at \<le> now + hours INVITATION_MAX_TTL_HOURS)
           (Validation (''invitation expiry may not exceed '' @ show_int INVITATION_MAX_TTL_HOURS @ '' hours'')))) (\<lambda>_.
        f_bind (f_try (au_random au ''activation secret'')) (\<lambda>secret.
        f_bind (f_read (invitation_guards canonical_login teams now bootstrap_owner)) (\<lambda>_.
        f_commit env 0 (\<lambda>s.
          let invitation = \<lparr>ai_id = en_uuid env ''invitation'' 0, ai_canonical_login = canonical_login,
                ai_display_name = trim display_name, ai_activation_secret_hash = token_hash au secret,
                ai_issuer_principal = trim issuer,
                ai_intended_bindings = bindings\<lparr>ib_teams := teams\<rparr>, ai_created_at = now,
                ai_expires_at = expires_at, ai_consumed_at = None, ai_revoked_at = None,
                ai_attempt_count = 0, ai_bootstrap_owner = bootstrap_owner\<rparr>
          in ((AccountInvitationSummary_from invitation, secret),
              s\<lparr>st_invitations := bt_insert (ai_id invitation) invitation
                   (fold (revoke_expired now) (expired_ids s now) (st_invitations s))\<rparr>)))))))))))"

definition create_account_invitation ::
  "ForgeEnv \<Rightarrow> AuthEnv \<Rightarrow> string \<Rightarrow> string \<Rightarrow> string \<Rightarrow> InvitationBindings \<Rightarrow> time
   \<Rightarrow> (AccountInvitationSummary \<times> string) forge" where
  "create_account_invitation env au issuer canonical_login display_name bindings expires_at =
     create_account_invitation_inner env au issuer canonical_login display_name bindings expires_at False"

definition create_bootstrap_owner_invitation ::
  "ForgeEnv \<Rightarrow> AuthEnv \<Rightarrow> string \<Rightarrow> string \<Rightarrow> time \<Rightarrow> (AccountInvitationSummary \<times> string) forge" where
  "create_bootstrap_owner_invitation env au canonical_login display_name expires_at =
     create_account_invitation_inner env au ''local-operator'' canonical_login display_name
       \<lparr>ib_role = RoleAdmin, ib_teams = []\<rparr> expires_at True"

definition revoke_account_invitation :: "ForgeEnv \<Rightarrow> uuid \<Rightarrow> bool forge" where
  "revoke_account_invitation env i =
     with_global_mutation env
       (f_commit env 0 (\<lambda>s.
          case bt_get (st_invitations s) i of
            Some invitation \<Rightarrow>
              if pending invitation
              then (True, s\<lparr>st_invitations := bt_insert i
                      (invitation\<lparr>ai_revoked_at := Some (en_now env ''revoke'' 0)\<rparr>) (st_invitations s)\<rparr>)
              else (False, s)
          | None \<Rightarrow> (False, s)))"

text \<open>
  An attempt is counted and written before its secret is judged, so a wrong secret consumes it.
  The searched value is found by its identifier again, as the sources do.
\<close>

definition start_account_activation ::
  "ForgeEnv \<Rightarrow> AuthEnv \<Rightarrow> string \<Rightarrow> string \<Rightarrow> (string \<times> time) forge" where
  "start_account_activation env au canonical_login activation_secret =
     with_global_mutation env
       (f_bind (f_try (map_err (\<lambda>_. activation_error) (require_login canonical_login))) (\<lambda>_.
        f_bind (f_try (au_random au ''challenge'')) (\<lambda>challenge.
        let now = en_now env ''activation'' 0 in
        f_bind (f_read (\<lambda>s. and_then (ok_or activation_error (map_option ai_id
            (find (\<lambda>i. ai_canonical_login i = canonical_login \<and> pending i \<and> ai_expires_at i > now)
               (bt_values (st_invitations s))))) (\<lambda>i.
            ok_or activation_error (map_option (\<lambda>v. (i, v)) (bt_get (st_invitations s) i))))) (\<lambda>(i, invitation).
        f_bind (f_try (ensure (ai_attempt_count invitation < ACTIVATION_MAX_ATTEMPTS) activation_error)) (\<lambda>_.
        let counted = invitation\<lparr>ai_attempt_count := ai_attempt_count invitation + 1\<rparr> in
        if \<not> constant_time_eq (token_hash au activation_secret) (ai_activation_secret_hash invitation)
        then f_bind (f_commit env 0 (\<lambda>s. ((), s\<lparr>st_invitations := bt_insert i counted (st_invitations s)\<rparr>)))
               (\<lambda>_. f_try (Err activation_error))
        else f_commit env 0 (\<lambda>s.
          let expires_at = now + minutes ACTIVATION_CHALLENGE_TTL_MINUTES;
              r = \<lparr>ac_id = en_uuid env ''challenge'' 0, ac_invitation_id = i,
                   ac_challenge_hash = token_hash au challenge, ac_created_at = now,
                   ac_expires_at = expires_at, ac_consumed_at = None\<rparr>
          in ((challenge, expires_at),
              s\<lparr>st_invitations := bt_insert i counted (st_invitations s),
                st_activation_challenges := bt_insert (ac_challenge_hash r) r (st_activation_challenges s)\<rparr>)))))))"

definition activation_challenge ::
  "string \<Rightarrow> time \<Rightarrow> ForgeState \<Rightarrow> (ActivationChallenge, ForgeError) result" where
  "activation_challenge challenge_hash now s =
     (case bt_get (st_activation_challenges s) challenge_hash of
        Some r \<Rightarrow> if ac_consumed_at r = None \<and> ac_expires_at r > now then Ok r else Err activation_error
      | None \<Rightarrow> Err activation_error)"

definition activation_invitation ::
  "ActivationChallenge \<Rightarrow> time \<Rightarrow> ForgeState \<Rightarrow> (AccountInvitation, ForgeError) result" where
  "activation_invitation r now s =
     (case bt_get (st_invitations s) (ac_invitation_id r) of
        Some i \<Rightarrow> if pending i \<and> ai_expires_at i > now \<and> ai_attempt_count i \<le> ACTIVATION_MAX_ATTEMPTS
                  then Ok i else Err activation_error
      | None \<Rightarrow> Err activation_error)"

definition join_team :: "string \<Rightarrow> string \<Rightarrow> (pair_key, Team) btree_map \<Rightarrow> (pair_key, Team) btree_map" where
  "join_team login binding m =
     (case split_team_binding binding of
        Inr key \<Rightarrow>
          (case bt_get m key of
             Some team \<Rightarrow>
               if login \<in> set (tm_members team) then m
               else bt_insert key (team\<lparr>tm_members := sort (tm_members team @ [login])\<rparr>) m
           | None \<Rightarrow> m)
      | Inl _ \<Rightarrow> m)"

definition consume_invitation ::
  "ForgeEnv \<Rightarrow> string \<Rightarrow> string \<Rightarrow> time \<Rightarrow> ActivationChallenge \<Rightarrow> AccountInvitation \<Rightarrow> ForgeState
   \<Rightarrow> AccountSummary \<times> ForgeState" where
  "consume_invitation env password_hash challenge_hash now r invitation s =
     (let login = ai_canonical_login invitation;
          account = \<lparr>ua_canonical_login = login, ua_display_name = ai_display_name invitation,
                     ua_password_hash = password_hash,
                     ua_role = ib_role (ai_intended_bindings invitation),
                     ua_status = AccPendingMfa, ua_auth_epoch = 0, ua_must_change_password = False,
                     ua_created_at = now, ua_updated_at = now\<rparr>;
          s1 = s\<lparr>st_activation_challenges := bt_insert challenge_hash (r\<lparr>ac_consumed_at := Some now\<rparr>)
                   (st_activation_challenges s),
                 st_invitations := bt_insert (ai_id invitation) (invitation\<lparr>ai_consumed_at := Some now\<rparr>)
                   (st_invitations s)\<rparr>;
          s2 = add_profile env login (Some (ai_display_name invitation)) now s1;
          s3 = s2\<lparr>st_teams := fold (join_team login) (ib_teams (ai_intended_bindings invitation)) (st_teams s2),
                  st_bootstrap_owner_consumed :=
                    (if ai_bootstrap_owner invitation then True else st_bootstrap_owner_consumed s2)\<rparr>
      in (AccountSummary_from account, put_account login account s3))"

definition complete_account_activation ::
  "ForgeEnv \<Rightarrow> AuthEnv \<Rightarrow> string \<Rightarrow> string \<Rightarrow> AccountSummary forge" where
  "complete_account_activation env au challenge password =
     with_global_mutation env
       (f_bind (f_try (require_password password)) (\<lambda>_.
        f_bind (f_try (hash_password au password)) (\<lambda>h.
        let challenge_hash = token_hash au challenge; now = en_now env ''complete'' 0 in
        f_bind (f_read (activation_challenge challenge_hash now)) (\<lambda>r.
        f_bind (f_read (activation_invitation r now)) (\<lambda>invitation.
        f_bind (f_read (\<lambda>s. ensure (bt_get (st_accounts s) (ai_canonical_login invitation) = None)
                              activation_error)) (\<lambda>_.
        f_bind (f_read (\<lambda>s. for_each (team_exists s activation_error)
                              (ib_teams (ai_intended_bindings invitation)))) (\<lambda>_.
        f_bind (f_read (\<lambda>s. ensure (\<not> (ai_bootstrap_owner invitation
                              \<and> (st_bootstrap_owner_consumed s \<or> has_admin s))) activation_error)) (\<lambda>_.
        f_commit env 0 (consume_invitation env h challenge_hash now r invitation)))))))))"

section \<open>Repository grants\<close>

definition repo_access_for :: "ForgeState \<Rightarrow> string \<Rightarrow> string \<Rightarrow> string \<Rightarrow> RepoAccessLevel option" where
  "repo_access_for s login owner repo =
     (case bt_get (st_accounts s) login of
        None \<Rightarrow> None
      | Some account \<Rightarrow>
          if \<not> permits_authentication (ua_status account) then None
          else if ua_role account = RoleAdmin then Some AccessAdmin
          else map_option rg_access (bt_get (st_repo_grants s) (login, owner, repo)))"

definition user_can_read_repo :: "ForgeState \<Rightarrow> string \<Rightarrow> string \<Rightarrow> string \<Rightarrow> bool" where
  "user_can_read_repo s login owner repo =
     (case repo_access_for s login owner repo of Some l \<Rightarrow> allows_read l | None \<Rightarrow> False)"

definition user_can_write_repo :: "ForgeState \<Rightarrow> string \<Rightarrow> string \<Rightarrow> string \<Rightarrow> bool" where
  "user_can_write_repo s login owner repo =
     (case repo_access_for s login owner repo of Some l \<Rightarrow> allows_write l | None \<Rightarrow> False)"

definition user_can_admin_repo :: "ForgeState \<Rightarrow> string \<Rightarrow> string \<Rightarrow> string \<Rightarrow> bool" where
  "user_can_admin_repo s login owner repo =
     (case repo_access_for s login owner repo of Some l \<Rightarrow> allows_admin l | None \<Rightarrow> False)"

definition grant_repo_access_admitted ::
  "ForgeEnv \<Rightarrow> string \<Rightarrow> string \<Rightarrow> string \<Rightarrow> string \<Rightarrow> RepoAccessLevel \<Rightarrow> RepoAccessGrant forge" where
  "grant_repo_access_admitted env actor login owner repo access =
     f_bind (f_read (\<lambda>s. get_account s login)) (\<lambda>_.
     f_bind (f_read (\<lambda>s. get_repository s owner repo)) (\<lambda>_.
     f_commit env 0 (\<lambda>s.
       let grant = \<lparr>rg_login = login, rg_owner = owner, rg_repo = repo, rg_access = access,
                    rg_granted_by = actor, rg_granted_at = en_now env ''grant'' 0\<rparr>
       in (grant, s\<lparr>st_repo_grants := bt_insert (login, owner, repo) grant (st_repo_grants s)\<rparr>))))"

definition grant_repo_access ::
  "ForgeEnv \<Rightarrow> ForgeState \<Rightarrow> string \<Rightarrow> string \<Rightarrow> string \<Rightarrow> string \<Rightarrow> RepoAccessLevel \<Rightarrow> RepoAccessGrant forge" where
  "grant_repo_access env hint actor login owner repo access =
     with_repository_authority_mutation env hint owner repo
       (grant_repo_access_admitted env actor login owner repo access)"

definition demand_repo_admin :: "string \<Rightarrow> string \<Rightarrow> string \<Rightarrow> ForgeState \<Rightarrow> (unit, ForgeError) result" where
  "demand_repo_admin actor owner repo s =
     and_then (get_repository s owner repo) (\<lambda>_.
       ensure (user_can_admin_repo s actor owner repo) (BranchProtection ''repo admin access required''))"

definition grant_repo_access_checked ::
  "ForgeEnv \<Rightarrow> ForgeState \<Rightarrow> string \<Rightarrow> string \<Rightarrow> string \<Rightarrow> string \<Rightarrow> RepoAccessLevel \<Rightarrow> RepoAccessGrant forge" where
  "grant_repo_access_checked env hint actor login owner repo access =
     with_repository_authority_mutation env hint owner repo
       (f_bind (f_read (demand_repo_admin actor owner repo)) (\<lambda>_.
        grant_repo_access_admitted env actor login owner repo access))"

definition revoke_repo_access_admitted :: "ForgeEnv \<Rightarrow> string \<Rightarrow> string \<Rightarrow> string \<Rightarrow> bool forge" where
  "revoke_repo_access_admitted env login owner repo =
     f_commit env 0 (\<lambda>s.
       (bt_get (st_repo_grants s) (login, owner, repo) \<noteq> None,
        s\<lparr>st_repo_grants := bt_remove (login, owner, repo) (st_repo_grants s)\<rparr>))"

definition revoke_repo_access ::
  "ForgeEnv \<Rightarrow> ForgeState \<Rightarrow> string \<Rightarrow> string \<Rightarrow> string \<Rightarrow> bool forge" where
  "revoke_repo_access env hint login owner repo =
     with_repository_authority_mutation env hint owner repo (revoke_repo_access_admitted env login owner repo)"

definition revoke_repo_access_checked ::
  "ForgeEnv \<Rightarrow> ForgeState \<Rightarrow> string \<Rightarrow> string \<Rightarrow> string \<Rightarrow> string \<Rightarrow> bool forge" where
  "revoke_repo_access_checked env hint actor login owner repo =
     with_repository_authority_mutation env hint owner repo
       (f_bind (f_read (demand_repo_admin actor owner repo)) (\<lambda>_.
        revoke_repo_access_admitted env login owner repo))"

definition list_repo_access :: "ForgeState \<Rightarrow> string \<Rightarrow> string \<Rightarrow> RepoAccessGrant list" where
  "list_repo_access s owner repo =
     sort_key rg_login
       (filter (\<lambda>grant. rg_owner grant = owner \<and> rg_repo grant = repo) (bt_values (st_repo_grants s)))"

definition list_repo_access_checked ::
  "ForgeState \<Rightarrow> string \<Rightarrow> string \<Rightarrow> string \<Rightarrow> (RepoAccessGrant list, ForgeError) result" where
  "list_repo_access_checked s actor owner repo =
     and_then (demand_repo_admin actor owner repo s) (\<lambda>_. Ok (list_repo_access s owner repo))"

end
