(* ===== verification/Forge_Reviews.thy ===== *)
theory Forge_Reviews
  imports Forge_Activity Forge_Auth
begin

text \<open>
  Authenticated reviews: \<open>engine/bound_reviews.rs\<close> with the two tables of
  \<open>engine/storage/bound_reviews.rs\<close> and their schema (\<open>db/migrations/0015_authenticated_reviews.sql\<close>).
  A reviewer first obtains a challenge, a nonce bound to a snapshot of the refs, the policy, the
  reviewer and the evidence, and then submits one verdict against it.

  The tables are a \<open>ReviewDb\<close> next to the state. What comes from outside the sources (the Git
  observer, the JSON and digest functions, the failures of the SQL engine) is the record
  \<open>ReviewEnv\<close>.
\<close>

section \<open>Requests, challenges and tables\<close>

record ReviewChallenge =
  ch_id :: uuid
  ch_nonce :: string
  ch_created_at :: time
  ch_expires_at :: time
  ch_snapshot :: ReviewSnapshot
  ch_snapshot_sha256 :: string
  ch_merge_qualified :: bool
  ch_blockers :: "string list"

record SubmitBoundReviewRequest =
  sbr_challenge_id :: uuid
  sbr_nonce :: string
  sbr_expected_head_sha :: string
  sbr_event :: ReviewState
  sbr_body :: "string option"
  sbr_comments :: "ReviewCommentInput list"

record DismissBoundReviewRequest =
  dbr_challenge_id :: uuid
  dbr_nonce :: string
  dbr_expected_head_sha :: string
  dbr_review_id :: uuid
  dbr_reason :: string

record ReviewQualification =
  rq_repository_id :: uuid
  rq_pull_number :: u64
  rq_head_sha :: string
  rq_effective_reviews :: "Review list"
  rq_advisory_reviews :: "Review list"
  rq_bound_review_ids :: "uuid list"
  rq_merge_qualified :: bool
  rq_blockers :: "string list"

record BoundReviewHistory =
  bh_events :: "BoundReviewEvent list"
  bh_qualification :: ReviewQualification

record AuditEntry =
  ae_id :: string
  ae_occurred_at :: string
  ae_actor :: string
  ae_action :: string
  ae_subject :: string
  ae_phase :: string
  ae_detail :: string

record ChallengeRow =
  cw_repo_id :: string
  cw_pull_id :: string
  cw_pull_number :: u64
  cw_expires_at :: string
  cw_challenge_json :: string
  cw_accepted_event_id :: "string option"

record EventRow =
  ew_repo_id :: string
  ew_pull_id :: string
  ew_pull_number :: u64
  ew_sequence :: u64
  ew_challenge_id :: string
  ew_event_json :: string

record ReviewDb =
  db_challenges :: "(string, ChallengeRow) btree_map"
  db_events :: "(string, EventRow) btree_map"
  db_audit :: "AuditEntry list"

record ReviewEnv =
  rw_observer :: "(ReviewGitTarget \<Rightarrow> (ReviewGitObservation, ForgeError) result) option"
  rw_storage_root :: "string option"
  rw_storage :: "(unit, ForgeError) result"
  rw_sql :: "string \<Rightarrow> (unit, ForgeError) result"
  rw_persist :: "ForgeState \<Rightarrow> (unit, ForgeError) result"
  rw_challenge_json :: "ReviewChallenge \<Rightarrow> (string, ForgeError) result"
  rw_challenge_of :: "string \<Rightarrow> (ReviewChallenge, ForgeError) result"
  rw_event_json :: "BoundReviewEvent \<Rightarrow> (string, ForgeError) result"
  rw_event_of :: "string \<Rightarrow> (BoundReviewEvent, ForgeError) result"
  rw_snapshot_digest :: "ReviewSnapshot \<Rightarrow> (string, ForgeError) result"
  rw_policy_digest :: "BranchProtectionRule option \<Rightarrow> string option \<Rightarrow> (string, ForgeError) result"
  rw_submit_digest :: "SubmitBoundReviewRequest \<Rightarrow> (string, ForgeError) result"
  rw_dismiss_digest :: "DismissBoundReviewRequest \<Rightarrow> (string, ForgeError) result"
  rw_rfc3339 :: "time \<Rightarrow> string"
  rw_challenge_detail :: "ReviewChallenge \<Rightarrow> string"
  rw_event_detail :: "BoundReviewEvent \<Rightarrow> string"

section \<open>References and object names\<close>

definition validate_oid :: "string \<Rightarrow> (unit, ForgeError) result" where
  "validate_oid oid =
     ensure (full_sha1 oid \<and> \<not> list_all (\<lambda>c. c = CHR ''0'') oid)
       (Validation ''a full nonzero lowercase SHA-1 is required'')"

definition branch_ref :: "string \<Rightarrow> (string, ForgeError) result" where
  "branch_ref branch =
     (let full = (if starts_with branch ''refs/'' then branch else ''refs/heads/'' @ branch) in
      if \<not> starts_with full ''refs/heads/'' \<or> ends_with full ''/'' \<or> ends_with full ''.''
         \<or> str_contains full ''..'' \<or> str_contains full [CHR 0x40, CHR 0x7B] \<or> str_contains full ''//''
         \<or> list_ex (\<lambda>c. c \<le> CHR '' '' \<or> c = CHR 0x7F \<or> c \<in> set (''~^:?*['' @ [CHR 0x5C])) full
         \<or> list_ex (\<lambda>part. part = [] \<or> starts_with part ''.'' \<or> ends_with part ''.lock'')
             (split_char (CHR ''/'') full)
      then Err (Validation ''review refs must be full direct branch names'')
      else Ok full)"

definition unavailable_blockers :: "string list" where
  "unavailable_blockers =
     [''authoritative required-check attempts are unavailable; legacy checks are advisory'',
      ''Core-owned merge execution and fresh live-ref qualification are unavailable'']"

text \<open>Equality of \<open>std::path::Path\<close>, which compares components.\<close>

definition path_parts :: "string \<Rightarrow> bool \<times> string list" where
  "path_parts p =
     (let parts = split_char (CHR ''/'') p; absolute = starts_with p ''/'' in
      (absolute,
       (if \<not> absolute \<and> parts \<noteq> [] \<and> hd parts = ''.'' then [''.''] else [])
       @ filter (\<lambda>c. c \<noteq> [] \<and> c \<noteq> ''.'') parts))"

definition git_repository :: "Repository \<Rightarrow> ReviewGitRepository" where
  "git_repository repo = \<lparr>gr_id = re_id repo, gr_owner = re_owner repo, gr_name = re_name repo\<rparr>"

definition review_target ::
  "ForgeState \<Rightarrow> uuid \<Rightarrow> u64 \<Rightarrow> (ReviewGitTarget \<times> ForgePull, ForgeError) result" where
  "review_target s repository_id number =
     and_then (ok_or (ForgeNotFound (''repository '' @ show_uuid repository_id)) (find_repo s repository_id))
       (\<lambda>destination.
     and_then (ok_or (ForgeNotFound (''pull request '' @ show_uuid repository_id @ ''#'' @ show_word number))
                 (bt_get (st_pulls s) (re_owner destination, re_name destination, number))) (\<lambda>pr.
     let source_name = (if fp_source_repository pr = [] then re_full_name destination
                        else fp_source_repository pr) in
     and_then (ok_or (Validation ''invalid stored source repository'') (split_once (CHR ''/'') source_name))
       (\<lambda>source_key.
     and_then (ok_or (ForgeNotFound (''source repository '' @ source_name)) (bt_get (st_repos s) source_key))
       (\<lambda>source.
     and_then (branch_ref (gb_ref_name (fp_head pr))) (\<lambda>source_ref.
     and_then (branch_ref (gb_ref_name (fp_base pr))) (\<lambda>destination_ref.
       Ok (\<lparr>gt_source = git_repository source, gt_destination = git_repository destination,
            gt_source_ref = source_ref, gt_destination_ref = destination_ref\<rparr>, pr)))))))"

section \<open>The admitted context of a review\<close>

definition review_context ::
  "ForgeEnv \<Rightarrow> nat \<Rightarrow> AuthenticatedActor \<Rightarrow> uuid \<Rightarrow> u64 \<Rightarrow> bool \<Rightarrow> ReviewGitTarget \<Rightarrow> ForgeState
   \<Rightarrow> (ReviewGitTarget \<times> ForgePull \<times> ReviewActorBinding, ForgeError) result" where
  "review_context env runtime actor repository_id number mutation hint_target s =
     and_then (validate_actor_locked env runtime s actor mutation) (\<lambda>binding.
     and_then (review_target s repository_id number) (\<lambda>(target, pr).
     if target \<noteq> hint_target then Err (ForgeConflict ''review repository/ref identity changed'')
     else
       and_then (require_repository_admissible s (gr_id (gt_destination target)) mutation) (\<lambda>_.
       and_then (require_repository_admissible s (gr_id (gt_source target)) False) (\<lambda>_.
       and_then (require_access s (rb_login binding) (gt_destination target) mutation) (\<lambda>_.
       and_then (require_access s (rb_login binding) (gt_source target) False) (\<lambda>_.
         Ok (target, pr, binding)))))))"

definition with_review_context ::
  "ForgeEnv \<Rightarrow> ForgeState \<Rightarrow> nat \<Rightarrow> AuthenticatedActor \<Rightarrow> uuid \<Rightarrow> u64 \<Rightarrow> bool
   \<Rightarrow> (ReviewGitTarget \<Rightarrow> ForgePull \<Rightarrow> ReviewActorBinding \<Rightarrow> 'a forge) \<Rightarrow> 'a forge" where
  "with_review_context env hint runtime actor repository_id number mutation operation =
     f_bind (f_try (en_process env)) (\<lambda>_.
     f_bind (f_try (and_then (validate_actor_locked env runtime hint actor mutation) (\<lambda>_.
        and_then (review_target hint repository_id number) (\<lambda>(target, _). Ok target)))) (\<lambda>hint_target.
     f_bind (f_try (if mutation then en_ordinary env else Ok ())) (\<lambda>_.
     f_bind (f_read (review_context env runtime actor repository_id number mutation hint_target))
       (\<lambda>(target, pr, binding). operation target pr binding))))"

definition check_observed ::
  "ReviewEnv \<Rightarrow> ObservedReviewRef \<Rightarrow> (unit, ForgeError) result" where
  "check_observed ren observed =
     and_then (validate_oid (ob_commit_sha observed)) (\<lambda>_.
     and_then (validate_oid (ob_tree_sha observed)) (\<lambda>_.
       if (case rw_storage_root ren of
             Some root \<Rightarrow> path_parts (mg_storage_root (ob_identity observed)) = path_parts root
           | None \<Rightarrow> False)
       then Ok ()
       else Err (WriterUnavailable ''observed Git root does not match managed custody'')))"

definition bound_events :: "ForgeState \<Rightarrow> uuid \<Rightarrow> uuid \<Rightarrow> BoundReviewEvent list" where
  "bound_events s repository_id pull_id =
     filter (\<lambda>event. ev_repository_id event = repository_id \<and> ev_pull_request_id event = pull_id)
       (st_bound_reviews s)"

definition stored_reviews :: "ForgeState \<Rightarrow> ForgePull \<Rightarrow> Review list" where
  "stored_reviews s pr =
     (case bt_get (st_reviews s) (fp_owner pr, fp_repo pr, fp_number pr) of Some rs \<Rightarrow> rs | None \<Rightarrow> [])"

definition review_snapshot ::
  "ReviewEnv \<Rightarrow> ReviewGitTarget \<Rightarrow> ForgePull \<Rightarrow> ReviewActorBinding \<Rightarrow> ReviewGitObservation \<Rightarrow> ForgeState
   \<Rightarrow> (ReviewSnapshot, ForgeError) result" where
  "review_snapshot ren target pr binding git s =
     (let policy = bt_get (st_branch_protections s) (fp_owner pr, fp_repo pr, gb_ref_name (fp_base pr));
          codeowners = bt_get (st_codeowners s) (fp_owner pr, fp_repo pr);
          bound_ids = map ev_id (bound_events s (gr_id (gt_destination target)) (fp_id pr));
          statuses = (case bt_get (st_statuses s) (fp_owner pr, fp_repo pr, gb_sha (fp_head pr)) of
                        Some xs \<Rightarrow> xs | None \<Rightarrow> []);
          runs = filter (\<lambda>check. cr_head_sha check = gb_sha (fp_head pr))
                   (case bt_get (st_check_runs s) (fp_owner pr, fp_repo pr) of Some xs \<Rightarrow> xs | None \<Rightarrow> [])
      in
      and_then (rw_policy_digest ren policy codeowners) (\<lambda>policy_revision.
      and_then (require_access s (rb_login binding) (gt_destination target) True) (\<lambda>destination_access.
      and_then (require_access s (rb_login binding) (gt_source target) False) (\<lambda>source_access.
      and_then (ok_or (Unauthenticated ''account disappeared'') (bt_get (st_accounts s) (rb_login binding)))
        (\<lambda>account.
        Ok \<lparr>sn_repository_id = gr_id (gt_destination target), sn_pull_request_id = fp_id pr,
            sn_pull_number = fp_number pr, sn_author = fp_author pr, sn_target = target, sn_git = git,
            sn_stored_head_sha = gb_sha (fp_head pr), sn_stored_base_sha = gb_sha (fp_base pr),
            sn_draft = fp_draft pr, sn_policy = policy, sn_codeowners = codeowners,
            sn_policy_revision = policy_revision, sn_reviewer = binding,
            sn_destination_access = destination_access, sn_source_access = source_access,
            sn_reviewer_role = ua_role account,
            sn_destination_grant = bt_get (st_repo_grants s)
              (rb_login binding, gr_owner (gt_destination target), gr_name (gt_destination target)),
            sn_source_grant = bt_get (st_repo_grants s)
              (rb_login binding, gr_owner (gt_source target), gr_name (gt_source target)),
            sn_bound_event_ids = bound_ids,
            sn_advisory_reviews = filter (\<lambda>review. rv_id review \<notin> set bound_ids) (stored_reviews s pr),
            sn_advisory_statuses = sort_key cs_id statuses, sn_advisory_check_runs = sort_key cr_id runs,
            sn_advisory_commits = fp_commits pr, sn_changed_files = fp_changed_files pr\<rparr>)))))"

definition observe_review_snapshot ::
  "ReviewEnv \<Rightarrow> ReviewGitTarget \<Rightarrow> ForgePull \<Rightarrow> ReviewActorBinding \<Rightarrow> ForgeState
   \<Rightarrow> (ReviewSnapshot, ForgeError) result" where
  "observe_review_snapshot ren target pr binding s =
     (if fp_merged pr \<or> fp_state pr = PrClosed \<or> fp_state pr = PrMerged
      then Err (ForgeConflict ''closed pull request cannot accept a new review'')
      else
        and_then (ok_or (WriterUnavailable ''managed Git review observer is unavailable'') (rw_observer ren))
          (\<lambda>observe.
        and_then (observe target) (\<lambda>git.
        and_then (for_each (check_observed ren) [og_source git, og_destination git]) (\<lambda>_.
        if ob_reference (og_source git) \<noteq> gt_source_ref target
           \<or> ob_reference (og_destination git) \<noteq> gt_destination_ref target
           \<or> ob_commit_sha (og_source git) \<noteq> gb_sha (fp_head pr)
        then Err (ForgeConflict ''requested, stored and live pull head/ref must agree'')
        else review_snapshot ren target pr binding git s))))"

section \<open>The tables\<close>

definition decode_event :: "ReviewEnv \<Rightarrow> string \<Rightarrow> (BoundReviewEvent, ForgeError) result" where
  "decode_event ren json =
     and_then (rw_event_of ren json) (\<lambda>event.
     and_then (rw_snapshot_digest ren (ev_snapshot event)) (\<lambda>digest.
     if digest \<noteq> ev_snapshot_sha256 event
        \<or> sn_reviewer (ev_snapshot event) \<noteq> ev_actor event
        \<or> ev_id event \<noteq> rv_id (ev_review event)
        \<or> sn_repository_id (ev_snapshot event) \<noteq> ev_repository_id event
        \<or> sn_pull_request_id (ev_snapshot event) \<noteq> ev_pull_request_id event
        \<or> sn_pull_number (ev_snapshot event) \<noteq> ev_pull_number event
        \<or> ev_sequence event = 0
        \<or> rv_author (ev_review event) \<noteq> rb_login (ev_actor event)
        \<or> rv_head_sha (ev_review event) \<noteq> Some (ob_commit_sha (og_source (sn_git (ev_snapshot event))))
        \<or> list_ex (\<lambda>comment. rc_review_id comment \<noteq> ev_id event \<or> rc_author comment \<noteq> rb_login (ev_actor event))
            (ev_comments event)
     then Err (Storage ''inconsistent persisted bound review event'')
     else Ok event))"

definition load_accepted ::
  "ReviewEnv \<Rightarrow> ReviewDb \<Rightarrow> uuid \<Rightarrow> ReviewChallenge \<Rightarrow> string \<Rightarrow> (BoundReviewEvent, ForgeError) result" where
  "load_accepted ren db i challenge event_id =
     (case bt_get (db_events db) event_id of
        Some row \<Rightarrow>
          if ew_challenge_id row \<noteq> show_uuid i then Err (Storage ''Query returned no rows'')
          else and_then (decode_event ren (ew_event_json row)) (\<lambda>event.
            if show_uuid (ev_id event) \<noteq> event_id \<or> ev_challenge_id event \<noteq> i
               \<or> ev_snapshot event \<noteq> ch_snapshot challenge
            then Err (Storage ''inconsistent consumed review challenge'')
            else Ok event)
      | None \<Rightarrow> Err (Storage ''Query returned no rows''))"

definition load_challenge ::
  "ReviewEnv \<Rightarrow> ReviewDb \<Rightarrow> uuid \<Rightarrow> (ReviewChallenge \<times> BoundReviewEvent option, ForgeError) result" where
  "load_challenge ren db i =
     and_then (rw_sql ren ''SELECT forge_review_challenges'') (\<lambda>_.
     and_then (ok_or (ForgeNotFound (''review challenge '' @ show_uuid i))
                 (bt_get (db_challenges db) (show_uuid i))) (\<lambda>row.
     and_then (rw_challenge_of ren (cw_challenge_json row)) (\<lambda>challenge.
     and_then (rw_snapshot_digest ren (ch_snapshot challenge)) (\<lambda>digest.
     if ch_id challenge \<noteq> i
        \<or> show_uuid (sn_repository_id (ch_snapshot challenge)) \<noteq> cw_repo_id row
        \<or> show_uuid (sn_pull_request_id (ch_snapshot challenge)) \<noteq> cw_pull_id row
        \<or> sn_pull_number (ch_snapshot challenge) \<noteq> cw_pull_number row
        \<or> rw_rfc3339 ren (ch_expires_at challenge) \<noteq> cw_expires_at row
        \<or> digest \<noteq> ch_snapshot_sha256 challenge
        \<or> ch_merge_qualified challenge
     then Err (Storage ''inconsistent persisted review challenge'')
     else (case cw_accepted_event_id row of
             None \<Rightarrow> Ok (challenge, None)
           | Some event_id \<Rightarrow>
               and_then (load_accepted ren db i challenge event_id) (\<lambda>event. Ok (challenge, Some event)))))))"

definition insert_audit :: "ReviewEnv \<Rightarrow> AuditEntry \<Rightarrow> ReviewDb \<Rightarrow> (ReviewDb, ForgeError) result" where
  "insert_audit ren entry db =
     and_then (rw_sql ren ''INSERT forge_audit_log'') (\<lambda>_.
     if list_ex (\<lambda>e. ae_id e = ae_id entry) (db_audit db)
     then Err (Storage ''UNIQUE constraint failed: forge_audit_log.id'')
     else Ok (db\<lparr>db_audit := db_audit db @ [entry]\<rparr>))"

definition insert_review_challenge ::
  "ReviewEnv \<Rightarrow> uuid \<Rightarrow> ReviewChallenge \<Rightarrow> ReviewDb \<Rightarrow> (ReviewDb, ForgeError) result" where
  "insert_review_challenge ren audit_id challenge db =
     (let snapshot = ch_snapshot challenge; key = show_uuid (ch_id challenge) in
      and_then (rw_challenge_json ren challenge) (\<lambda>json.
      and_then (rw_sql ren ''INSERT forge_review_challenges'') (\<lambda>_.
      if bt_get (db_challenges db) key \<noteq> None
      then Err (Storage ''UNIQUE constraint failed: forge_review_challenges.id'')
      else if sn_pull_number snapshot = 0 then Err (Storage ''CHECK constraint failed: pull_number > 0'')
      else
        and_then (insert_audit ren
          \<lparr>ae_id = show_uuid audit_id, ae_occurred_at = rw_rfc3339 ren (ch_created_at challenge),
           ae_actor = rb_login (sn_reviewer snapshot), ae_action = ''review.challenge'',
           ae_subject = show_uuid (sn_repository_id snapshot), ae_phase = ''requested'',
           ae_detail = rw_challenge_detail ren challenge\<rparr>
          (db\<lparr>db_challenges := bt_insert key
             \<lparr>cw_repo_id = show_uuid (sn_repository_id snapshot),
              cw_pull_id = show_uuid (sn_pull_request_id snapshot),
              cw_pull_number = sn_pull_number snapshot,
              cw_expires_at = rw_rfc3339 ren (ch_expires_at challenge),
              cw_challenge_json = json, cw_accepted_event_id = None\<rparr> (db_challenges db)\<rparr>)) (\<lambda>db'.
        and_then (rw_sql ren ''COMMIT'') (\<lambda>_. Ok db')))))"

text \<open>The insertion of an event under the constraints of its table.\<close>

definition event_row_free :: "ReviewDb \<Rightarrow> BoundReviewEvent \<Rightarrow> bool" where
  "event_row_free db event \<longleftrightarrow>
     bt_get (db_events db) (show_uuid (ev_id event)) = None
   \<and> ev_pull_number event \<noteq> 0 \<and> ev_sequence event \<noteq> 0
   \<and> \<not> list_ex (\<lambda>row. ew_challenge_id row = show_uuid (ev_challenge_id event)
         \<or> ew_repo_id row = show_uuid (ev_repository_id event)
           \<and> ew_pull_id row = show_uuid (ev_pull_request_id event)
           \<and> ew_sequence row = ev_sequence event) (bt_values (db_events db))"

definition insert_event ::
  "ReviewEnv \<Rightarrow> BoundReviewEvent \<Rightarrow> ReviewDb \<Rightarrow> (ReviewDb, ForgeError) result" where
  "insert_event ren event db =
     and_then (rw_event_json ren event) (\<lambda>json.
     and_then (rw_sql ren ''INSERT forge_bound_review_events'') (\<lambda>_.
     if \<not> event_row_free db event then Err (Storage ''constraint failed: forge_bound_review_events'')
     else Ok (db\<lparr>db_events := bt_insert (show_uuid (ev_id event))
            \<lparr>ew_repo_id = show_uuid (ev_repository_id event),
             ew_pull_id = show_uuid (ev_pull_request_id event),
             ew_pull_number = ev_pull_number event, ew_sequence = ev_sequence event,
             ew_challenge_id = show_uuid (ev_challenge_id event), ew_event_json = json\<rparr>
            (db_events db)\<rparr>)))"

definition consume_challenge ::
  "ReviewEnv \<Rightarrow> ReviewChallenge \<Rightarrow> BoundReviewEvent \<Rightarrow> ReviewDb \<Rightarrow> (ReviewDb, ForgeError) result" where
  "consume_challenge ren challenge event db =
     (let key = show_uuid (ch_id challenge) in
      and_then (rw_sql ren ''UPDATE forge_review_challenges'') (\<lambda>_.
      case bt_get (db_challenges db) key of
        Some row \<Rightarrow>
          if cw_accepted_event_id row \<noteq> None
          then Err (ForgeConflict ''review challenge was already consumed'')
          else if list_ex (\<lambda>r. cw_accepted_event_id r = Some (show_uuid (ev_id event)))
                    (bt_values (db_challenges db))
          then Err (Storage ''UNIQUE constraint failed: forge_review_challenges.accepted_event_id'')
          else Ok (db\<lparr>db_challenges := bt_insert key
                 (row\<lparr>cw_accepted_event_id := Some (show_uuid (ev_id event))\<rparr>) (db_challenges db)\<rparr>)
      | None \<Rightarrow> Err (ForgeConflict ''review challenge was already consumed'')))"

definition commit_bound_review ::
  "ReviewEnv \<Rightarrow> ReviewChallenge \<Rightarrow> BoundReviewEvent \<Rightarrow> ForgeState \<Rightarrow> ReviewDb \<Rightarrow> (ReviewDb, ForgeError) result" where
  "commit_bound_review ren challenge event proposed db =
     and_then (load_challenge ren db (ch_id challenge)) (\<lambda>(current, accepted).
     if current \<noteq> challenge \<or> accepted \<noteq> None
     then Err (ForgeConflict ''review challenge changed before commit'')
     else
       and_then (rw_persist ren proposed) (\<lambda>_.
       and_then (insert_event ren event db) (\<lambda>db1.
       and_then (consume_challenge ren challenge event db1) (\<lambda>db2.
       and_then (insert_audit ren
          \<lparr>ae_id = show_uuid (ev_audit_id event),
           ae_occurred_at = rw_rfc3339 ren (rv_submitted_at (ev_review event)),
           ae_actor = rb_login (ev_actor event), ae_action = ''review.bound_event'',
           ae_subject = show_uuid (ev_repository_id event), ae_phase = ''completed'',
           ae_detail = rw_event_detail ren event\<rparr> db2) (\<lambda>db3.
       and_then (rw_sql ren ''COMMIT'') (\<lambda>_. Ok db3))))))"

section \<open>Challenges and verdicts\<close>

definition create_review_challenge ::
  "ForgeEnv \<Rightarrow> AuthEnv \<Rightarrow> ReviewEnv \<Rightarrow> ForgeState \<Rightarrow> nat \<Rightarrow> ReviewDb \<Rightarrow> AuthenticatedActor \<Rightarrow> uuid \<Rightarrow> u64
   \<Rightarrow> string \<Rightarrow> (ReviewChallenge \<times> ReviewDb) forge" where
  "create_review_challenge env au ren hint runtime db actor repository_id pull_number expected_head_sha =
     f_bind (f_try (validate_oid expected_head_sha)) (\<lambda>_.
     with_review_context env hint runtime actor repository_id pull_number True (\<lambda>target pr binding.
       f_bind (f_read (observe_review_snapshot ren target pr binding)) (\<lambda>snapshot.
       f_bind (f_try (ensure (ob_commit_sha (og_source (sn_git snapshot)) = expected_head_sha)
          (ForgeConflict ''requested, stored and live pull head must agree''))) (\<lambda>_.
       f_bind (f_read (\<lambda>s. validate_actor_locked env runtime s actor True)) (\<lambda>_.
       f_bind (f_try (au_random au ''review nonce'')) (\<lambda>nonce.
       f_bind (f_try (rw_snapshot_digest ren snapshot)) (\<lambda>digest.
       let now = en_now env ''challenge'' 0;
           challenge = \<lparr>ch_id = en_uuid env ''challenge'' 0, ch_nonce = nonce, ch_created_at = now,
             ch_expires_at = now + minutes 10, ch_snapshot = snapshot, ch_snapshot_sha256 = digest,
             ch_merge_qualified = False, ch_blockers = unavailable_blockers\<rparr>
       in f_bind (f_try (rw_storage ren)) (\<lambda>_.
          f_bind (f_try (insert_review_challenge ren (en_uuid env ''challenge audit'' 0) challenge db)) (\<lambda>db'.
          f_try (Ok (challenge, db')))))))))))"

definition challenge_matches ::
  "ReviewChallenge \<Rightarrow> uuid \<Rightarrow> u64 \<Rightarrow> ForgePull \<Rightarrow> ReviewActorBinding \<Rightarrow> SubmitBoundReviewRequest \<Rightarrow> bool" where
  "challenge_matches challenge repository_id pull_number pr binding request \<longleftrightarrow>
     sn_repository_id (ch_snapshot challenge) = repository_id
   \<and> sn_pull_request_id (ch_snapshot challenge) = fp_id pr
   \<and> sn_pull_number (ch_snapshot challenge) = pull_number
   \<and> sn_reviewer (ch_snapshot challenge) = binding
   \<and> ob_commit_sha (og_source (sn_git (ch_snapshot challenge))) = sbr_expected_head_sha request
   \<and> constant_time_eq (ch_nonce challenge) (sbr_nonce request)"

definition check_bound_dismissal ::
  "ForgePull \<Rightarrow> ReviewActorBinding \<Rightarrow> uuid option \<Rightarrow> ForgeState \<Rightarrow> (unit, ForgeError) result" where
  "check_bound_dismissal pr binding dismissed s =
     (case dismissed of
        None \<Rightarrow> Ok ()
      | Some target_id \<Rightarrow>
          and_then (ok_or (ForgeConflict ''dismissal target is not a current bound verdict'')
             (find (\<lambda>event. rv_id (ev_review event) = target_id) (reduced_bound_events s pr))) (\<lambda>event.
            if rb_profile_id (ev_actor event) \<noteq> rb_profile_id binding
               \<or> rb_login (ev_actor event) \<noteq> rb_login binding
            then Err (Forbidden ''reviewers may dismiss only their own verdicts'')
            else Ok ()))"

definition next_sequence :: "ForgeState \<Rightarrow> uuid \<Rightarrow> ForgePull \<Rightarrow> (u64, ForgeError) result" where
  "next_sequence s repository_id pr =
     (let last = fold max (map ev_sequence (bound_events s repository_id (fp_id pr))) 0
      in ok_or (Storage ''bound review sequence exhausted'') (checked_add last 1))"

definition bound_event ::
  "ForgeEnv \<Rightarrow> uuid \<Rightarrow> u64 \<Rightarrow> u64 \<Rightarrow> ForgePull \<Rightarrow> ReviewActorBinding \<Rightarrow> ReviewChallenge \<Rightarrow> ReviewSnapshot
   \<Rightarrow> SubmitBoundReviewRequest \<Rightarrow> uuid option \<Rightarrow> string \<Rightarrow> BoundReviewEvent" where
  "bound_event env repository_id pull_number sequence pr binding challenge observed request dismissed digest =
     (let now = en_now env ''bound review'' 0; i = en_uuid env ''bound review'' 0 in
      \<lparr>ev_id = i, ev_repository_id = repository_id, ev_pull_request_id = fp_id pr,
       ev_pull_number = pull_number, ev_sequence = sequence, ev_challenge_id = ch_id challenge,
       ev_actor = binding, ev_snapshot = observed, ev_snapshot_sha256 = ch_snapshot_sha256 challenge,
       ev_request_sha256 = digest,
       ev_review = \<lparr>rv_id = i, rv_owner = fp_owner pr, rv_repo = fp_repo pr, rv_pull_number = pull_number,
         rv_author = rb_login binding, rv_state = sbr_event request, rv_body = sbr_body request,
         rv_head_sha = Some (ob_commit_sha (og_source (sn_git observed))),
         rv_dismissed_review_id = dismissed, rv_submitted_at = now\<rparr>,
       ev_comments = map (\<lambda>(n, comment). \<lparr>rc_id = en_uuid env ''bound comment'' n, rc_review_id = i,
           rc_owner = fp_owner pr, rc_repo = fp_repo pr, rc_pull_number = pull_number,
           rc_path = ri_path comment, rc_line = ri_line comment, rc_author = rb_login binding,
           rc_body = ri_body comment, rc_created_at = now\<rparr>) (enumerate 0 (sbr_comments request)),
       ev_audit_id = en_uuid env ''bound audit'' 0\<rparr>)"

definition propose_review :: "ForgeEnv \<Rightarrow> ForgePull \<Rightarrow> u64 \<Rightarrow> BoundReviewEvent \<Rightarrow> ForgeState \<Rightarrow> ForgeState" where
  "propose_review env pr pull_number event s =
     (let key = (fp_owner pr, fp_repo pr, pull_number);
          s1 = s\<lparr>st_reviews := bt_update_or [] key (\<lambda>rs. rs @ [ev_review event]) (st_reviews s),
                 st_review_comments := bt_update_or [] key (\<lambda>cs. cs @ ev_comments event) (st_review_comments s),
                 st_bound_reviews := st_bound_reviews s @ [event]\<rparr>
      in s1\<lparr>st_pulls := bt_insert key (reevaluate env s1 pr) (st_pulls s1)\<rparr>)"

definition accept_review ::
  "ForgeEnv \<Rightarrow> ReviewEnv \<Rightarrow> ReviewDb \<Rightarrow> uuid \<Rightarrow> u64 \<Rightarrow> ForgePull \<Rightarrow> ReviewActorBinding \<Rightarrow> ReviewChallenge
   \<Rightarrow> ReviewSnapshot \<Rightarrow> SubmitBoundReviewRequest \<Rightarrow> uuid option \<Rightarrow> string
   \<Rightarrow> (BoundReviewEvent \<times> ReviewDb) forge" where
  "accept_review env ren db repository_id pull_number pr binding challenge observed request dismissed digest s =
     (case next_sequence s repository_id pr of
        Inl e \<Rightarrow> (Inl e, s)
      | Inr sequence \<Rightarrow>
          let event = bound_event env repository_id pull_number sequence pr binding challenge observed
                        request dismissed digest;
              proposed = propose_review env pr pull_number event s
          in (case commit_bound_review ren challenge event proposed db of
                Inl e \<Rightarrow> (Inl e, s)
              | Inr db' \<Rightarrow> (Inr (event, db'), proposed)))"

text \<open>A challenge that is not yet consumed, judged against the state as it is now.\<close>

definition judge_review ::
  "ForgeEnv \<Rightarrow> ReviewEnv \<Rightarrow> nat \<Rightarrow> ReviewDb \<Rightarrow> AuthenticatedActor \<Rightarrow> uuid \<Rightarrow> u64 \<Rightarrow> ReviewGitTarget \<Rightarrow> ForgePull
   \<Rightarrow> ReviewActorBinding \<Rightarrow> ReviewChallenge \<Rightarrow> SubmitBoundReviewRequest \<Rightarrow> uuid option \<Rightarrow> string
   \<Rightarrow> (BoundReviewEvent \<times> ReviewDb) forge" where
  "judge_review env ren runtime db actor repository_id pull_number target pr binding challenge request
       dismissed digest =
     f_bind (f_try (ensure (ch_expires_at challenge > en_now env ''submit'' 0)
        (ForgeConflict ''review challenge expired; obtain a fresh challenge''))) (\<lambda>_.
     f_bind (f_read (observe_review_snapshot ren target pr binding)) (\<lambda>observed.
     f_bind (f_try (and_then (rw_snapshot_digest ren observed) (\<lambda>d.
        ensure (observed = ch_snapshot challenge \<and> d = ch_snapshot_sha256 challenge)
          (ForgeConflict ''review refs, policy, authority or evidence changed; obtain a fresh challenge'')))) (\<lambda>_.
     f_bind (f_try (ensure (ch_expires_at challenge > en_now env ''submit'' 1)
        (ForgeConflict ''review challenge expired during Git observation''))) (\<lambda>_.
     f_bind (f_read (\<lambda>s. validate_actor_locked env runtime s actor True)) (\<lambda>_.
     f_bind (f_try (ensure (\<not> (sbr_event request = RvApproved
                               \<and> eq_ignore_ascii_case (fp_author pr) (rb_login binding)))
        (Forbidden ''pull request authors cannot approve their own changes''))) (\<lambda>_.
     f_bind (f_read (check_bound_dismissal pr binding dismissed)) (\<lambda>_.
     accept_review env ren db repository_id pull_number pr binding challenge observed request
       dismissed digest)))))))"

text \<open>A consumed challenge gives its verdict back to the request that consumed it.\<close>

definition record_bound_review ::
  "ForgeEnv \<Rightarrow> ReviewEnv \<Rightarrow> ForgeState \<Rightarrow> nat \<Rightarrow> ReviewDb \<Rightarrow> AuthenticatedActor \<Rightarrow> uuid \<Rightarrow> u64
   \<Rightarrow> SubmitBoundReviewRequest \<Rightarrow> uuid option \<Rightarrow> string \<Rightarrow> (BoundReviewEvent \<times> ReviewDb) forge" where
  "record_bound_review env ren hint runtime db actor repository_id pull_number request dismissed digest =
     f_bind (f_try (validate_oid (sbr_expected_head_sha request))) (\<lambda>_.
     with_review_context env hint runtime actor repository_id pull_number True (\<lambda>target pr binding.
       f_bind (f_try (rw_storage ren)) (\<lambda>_.
       f_bind (f_try (load_challenge ren db (sbr_challenge_id request))) (\<lambda>(challenge, accepted).
       f_bind (f_try (ensure (challenge_matches challenge repository_id pull_number pr binding request)
          (ForgeConflict ''review challenge binding does not match this request''))) (\<lambda>_.
       case accepted of
         Some event \<Rightarrow>
           if ev_request_sha256 event = digest then f_try (Ok (event, db))
           else f_try (Err (ForgeConflict ''review challenge was consumed by a different request''))
       | None \<Rightarrow>
           judge_review env ren runtime db actor repository_id pull_number target pr binding challenge
             request dismissed digest)))))"

definition comment_acceptable :: "ReviewCommentInput \<Rightarrow> bool" where
  "comment_acceptable comment \<longleftrightarrow>
     \<not> (ri_path comment = [] \<or> starts_with (ri_path comment) ''/''
        \<or> list_ex (\<lambda>part. part \<in> {'''', ''.'', ''..''}) (split_char (CHR ''/'') (ri_path comment))
        \<or> trim (ri_body comment) = [] \<or> ri_line comment = Some 0)"

definition submit_bound_review ::
  "ForgeEnv \<Rightarrow> ReviewEnv \<Rightarrow> ForgeState \<Rightarrow> nat \<Rightarrow> ReviewDb \<Rightarrow> AuthenticatedActor \<Rightarrow> uuid \<Rightarrow> u64
   \<Rightarrow> SubmitBoundReviewRequest \<Rightarrow> (BoundReviewEvent \<times> ReviewDb) forge" where
  "submit_bound_review env ren hint runtime db actor repository_id pull_number request =
     f_bind (f_try (ensure (sbr_event request \<noteq> RvDismissed)
        (Validation ''dismissal requires an explicit target review and reason''))) (\<lambda>_.
     f_bind (f_try (ensure (list_all comment_acceptable (sbr_comments request))
        (Validation ''review comments require a relative path, nonempty body and positive line''))) (\<lambda>_.
     f_bind (f_try (rw_submit_digest ren request)) (\<lambda>digest.
     record_bound_review env ren hint runtime db actor repository_id pull_number request None digest)))"

definition dismiss_bound_review ::
  "ForgeEnv \<Rightarrow> ReviewEnv \<Rightarrow> ForgeState \<Rightarrow> nat \<Rightarrow> ReviewDb \<Rightarrow> AuthenticatedActor \<Rightarrow> uuid \<Rightarrow> u64
   \<Rightarrow> DismissBoundReviewRequest \<Rightarrow> (BoundReviewEvent \<times> ReviewDb) forge" where
  "dismiss_bound_review env ren hint runtime db actor repository_id pull_number request =
     f_bind (f_try (ensure (trim (dbr_reason request) \<noteq> [])
        (Validation ''review dismissal requires a reason''))) (\<lambda>_.
     f_bind (f_try (rw_dismiss_digest ren request)) (\<lambda>digest.
     record_bound_review env ren hint runtime db actor repository_id pull_number
       \<lparr>sbr_challenge_id = dbr_challenge_id request, sbr_nonce = dbr_nonce request,
        sbr_expected_head_sha = dbr_expected_head_sha request, sbr_event = RvDismissed,
        sbr_body = Some (dbr_reason request), sbr_comments = []\<rparr>
       (Some (dbr_review_id request)) digest))"

definition qualification_locked ::
  "ForgeEnv \<Rightarrow> ForgeState \<Rightarrow> ForgePull \<Rightarrow> uuid \<Rightarrow> ReviewQualification" where
  "qualification_locked env s pr repository_id =
     (let ids = map (\<lambda>event. rv_id (ev_review event)) (bound_events s repository_id (fp_id pr)) in
      \<lparr>rq_repository_id = repository_id, rq_pull_number = fp_number pr, rq_head_sha = gb_sha (fp_head pr),
       rq_effective_reviews = bound_reviews_for_evaluation env s pr,
       rq_advisory_reviews = filter (\<lambda>review. rv_id review \<notin> set ids) (stored_reviews s pr),
       rq_bound_review_ids = ids, rq_merge_qualified = False, rq_blockers = unavailable_blockers\<rparr>)"

definition bound_review_history ::
  "ForgeEnv \<Rightarrow> ForgeState \<Rightarrow> nat \<Rightarrow> AuthenticatedActor \<Rightarrow> uuid \<Rightarrow> u64 \<Rightarrow> BoundReviewHistory forge" where
  "bound_review_history env hint runtime actor repository_id pull_number =
     with_review_context env hint runtime actor repository_id pull_number False (\<lambda>_ pr _.
       f_read (\<lambda>s. Ok \<lparr>bh_events = bound_events s repository_id (fp_id pr),
                        bh_qualification = qualification_locked env s pr repository_id\<rparr>))"

definition review_qualification ::
  "ForgeEnv \<Rightarrow> ForgeState \<Rightarrow> string \<Rightarrow> string \<Rightarrow> u64 \<Rightarrow> (ReviewQualification, ForgeError) result" where
  "review_qualification env s owner repo number =
     and_then (en_process env) (\<lambda>_.
     and_then (ok_or (not_found_repository owner repo) (bt_get (st_repos s) (owner, repo))) (\<lambda>repository.
     and_then (ok_or (not_found_pull owner repo number) (bt_get (st_pulls s) (owner, repo, number))) (\<lambda>pr.
       Ok (qualification_locked env s pr (re_id repository)))))"

end
