(* ===== verification/Forge_System.thy ===== *)
theory Forge_System
  imports Forge_Transfer Forge_Reviews Reachability
begin

text \<open>
  The core as a transition system: every public mutation of \<open>ForgeCore\<close> is a call, a run of the
  core is a sequence of calls with arbitrary environments, and the properties below hold in every
  state a run from the empty state can reach. Calls are sequential: the guards of
  \<open>engine/coordinator.rs\<close> and the state lock order them, and the hint state, which is read before
  the guards are taken, is arbitrary.
\<close>

section \<open>Calls\<close>

text \<open>What the caller and the world bring to one call.\<close>

record World =
  wo_env :: ForgeEnv
  wo_auth :: AuthEnv
  wo_hint :: ForgeState
  wo_materializer :: "Materializer option"
  wo_review :: ReviewEnv
  wo_db :: ReviewDb
  wo_runtime :: nat

definition f_void :: "'a forge \<Rightarrow> unit forge" where
  "f_void m s = (case m s of (Inl e, t) \<Rightarrow> (Inl e, t) | (Inr _, t) \<Rightarrow> (Inr (), t))"

text \<open>
  The public mutations, by how a failure may leave the state. Most make one write and keep the
  state when they fail. A few create the display profile of the author first; the revocations may
  fail on the epoch; three are staged.
\<close>

inductive atomic_call :: "World \<Rightarrow> unit forge \<Rightarrow> bool" for w :: World where
  "atomic_call w (f_void (create_user (wo_env w) l n e))"
| "atomic_call w (f_void (ensure_user (wo_env w) l))"
| "atomic_call w (f_void (create_organization (wo_env w) l n))"
| "atomic_call w (f_void (create_team (wo_env w) org r))"
| "atomic_call w (f_void (set_repository_visibility (wo_env w) (wo_hint w) (au_max_utc (wo_auth w)) ow re p))"
| "atomic_call w (f_void (set_repository_family_for_identity (wo_env w) (wo_hint w) ow re i fam))"
| "atomic_call w (f_void (delete_repository (wo_env w) (wo_hint w) ow re))"
| "atomic_call w (f_void (create_label (wo_env w) (wo_hint w) ow re r))"
| "atomic_call w (f_void (set_branch_protection (wo_env w) (wo_hint w) ow re b r))"
| "atomic_call w (f_void (set_codeowners (wo_env w) (wo_hint w) ow re c))"
| "atomic_call w (f_void (force_push (wo_env w) (wo_hint w) ow re b a))"
| "atomic_call w (f_void (delete_ref (wo_env w) (wo_hint w) ow re b a))"
| "atomic_call w (f_void (set_repository_readme (wo_env w) (wo_hint w) ow re m))"
| "atomic_call w (f_void (update_pull_request (wo_env w) (wo_hint w) ow re n r))"
| "atomic_call w (f_void (refresh_pull_request_heads_for_ref (wo_env w) (wo_hint w) ow re ref sha))"
| "atomic_call w (f_void (merge_pull_request (wo_env w) (wo_hint w) ow re n r))"
| "atomic_call w (f_void (finalize_merge (wo_env w) (wo_hint w) ow re n m q))"
| "atomic_call w (f_void (evaluate_merge_readiness (wo_env w) (wo_hint w) ow re n q))"
| "atomic_call w (f_void (create_review (wo_env w) (wo_hint w) ow re n au r))"
| "atomic_call w (f_void (dismiss_review (wo_env w) (wo_hint w) ow re n au r))"
| "atomic_call w (f_void (create_check_run (wo_env w) (wo_hint w) ow re r))"
| "atomic_call w (f_void (update_issue (wo_env w) (wo_hint w) ow re n r))"
| "atomic_call w (f_void (create_webhook (wo_env w) (wo_hint w) ow re r))"
| "atomic_call w (f_void (record_jankurai_score (wo_env w) (wo_hint w) ow re r))"
| "atomic_call w (f_void (block_repository_mutations (wo_env w) i b))"
| "atomic_call w (f_void (prepare_repository_transfer (wo_env w) r))"
| "atomic_call w (f_void (commit_repository_transfer (wo_env w) (wo_hint w) i v))"
| "atomic_call w (f_void (fail_repository_transfer (wo_env w) (wo_hint w) i v))"
| "atomic_call w (f_void (create_account (wo_env w) (wo_auth w) l p r))"
| "atomic_call w (f_void (create_session_with_ttl (wo_env w) (wo_auth w) l p ttl))"
| "atomic_call w (f_void (revoke_session (wo_env w) (wo_auth w) tok))"
| "atomic_call w (f_void (create_personal_access_token (wo_env w) (wo_auth w) rt ac n ex))"
| "atomic_call w (f_void (revoke_personal_access_token (wo_env w) l i))"
| "atomic_call w (f_void (create_account_invitation_inner (wo_env w) (wo_auth w) iss l d b ex boot))"
| "atomic_call w (f_void (revoke_account_invitation (wo_env w) i))"
| "atomic_call w (f_void (complete_account_activation (wo_env w) (wo_auth w) c p))"
| "atomic_call w (f_void (grant_repo_access (wo_env w) (wo_hint w) ac l ow re lv))"
| "atomic_call w (f_void (grant_repo_access_checked (wo_env w) (wo_hint w) ac l ow re lv))"
| "atomic_call w (f_void (revoke_repo_access (wo_env w) (wo_hint w) l ow re))"
| "atomic_call w (f_void (revoke_repo_access_checked (wo_env w) (wo_hint w) ac l ow re))"
| "atomic_call w (f_void (create_review_challenge (wo_env w) (wo_auth w) (wo_review w) (wo_hint w)
     (wo_runtime w) (wo_db w) act i n sha))"
| "atomic_call w (f_void (submit_bound_review (wo_env w) (wo_review w) (wo_hint w) (wo_runtime w)
     (wo_db w) act i n sr))"
| "atomic_call w (f_void (dismiss_bound_review (wo_env w) (wo_review w) (wo_hint w) (wo_runtime w)
     (wo_db w) act i n dr))"

inductive profile_call :: "World \<Rightarrow> unit forge \<Rightarrow> bool" for w :: World where
  "profile_call w (f_void (create_pull_request (wo_env w) (wo_hint w) ow re au r))"
| "profile_call w (f_void (create_commit_status (wo_env w) (wo_hint w) ow re sha cr r))"
| "profile_call w (f_void (create_issue (wo_env w) (wo_hint w) ow re au r))"
| "profile_call w (f_void (add_issue_comment (wo_env w) (wo_hint w) ow re n au b))"

inductive epoch_call :: "World \<Rightarrow> unit forge \<Rightarrow> bool" for w :: World where
  "epoch_call w (f_void (reset_account_password (wo_env w) (wo_auth w) l p))"
| "epoch_call w (f_void (change_account_password (wo_env w) (wo_auth w) l p q))"
| "epoch_call w (f_void (force_password_change (wo_env w) l b))"
| "epoch_call w (f_void (transition_account_status (wo_env w) l st al))"

inductive staged_call :: "World \<Rightarrow> unit forge \<Rightarrow> bool" for w :: World where
  "staged_call w (f_void (create_repository_with_id (wo_env w) (wo_materializer w) i ow r))"
| "staged_call w (f_void (create_temporary_account (wo_env w) (wo_auth w) l p r))"
| "staged_call w (f_void (start_account_activation (wo_env w) (wo_auth w) l sec))"

definition forge_call :: "World \<Rightarrow> unit forge \<Rightarrow> bool" where
  "forge_call w m \<longleftrightarrow> atomic_call w m \<or> profile_call w m \<or> epoch_call w m \<or> staged_call w m"

lemmas op_defs =
  create_user_def ensure_user_def create_organization_def create_team_def
  set_repository_visibility_def set_repository_family_for_identity_def
  create_repository_with_id_def delete_repository_def create_label_def set_branch_protection_def
  set_codeowners_def force_push_def delete_ref_def set_repository_readme_def
  create_pull_request_def update_pull_request_def refresh_pull_request_heads_for_ref_def
  merge_pull_request_def finalize_merge_def evaluate_merge_readiness_def create_review_def
  dismiss_review_def create_check_run_def create_commit_status_def create_issue_def
  update_issue_def add_issue_comment_def create_webhook_def record_jankurai_score_def
  prepare_repository_transfer_def commit_repository_transfer_def
  fail_repository_transfer_def create_account_def create_temporary_account_def
  reset_account_password_def change_account_password_def force_password_change_def
  transition_account_status_def create_session_with_ttl_def revoke_session_def
  create_personal_access_token_def revoke_personal_access_token_def
  create_account_invitation_inner_def revoke_account_invitation_def start_account_activation_def
  complete_account_activation_def grant_repo_access_def grant_repo_access_checked_def
  revoke_repo_access_def revoke_repo_access_checked_def
  create_review_challenge_def submit_bound_review_def dismiss_bound_review_def

section \<open>Reasoning about an operation by its effect\<close>

text \<open>
  An effect is a reflexive and transitive relation between the states before and after. Refusals,
  checks and reads change nothing, so an operation has an effect when each of its writes has it.
\<close>

locale effect =
  fixes eff :: "ForgeState \<Rightarrow> ForgeState \<Rightarrow> bool"
  assumes eff_refl: "eff s s"
    and eff_trans: "eff s t \<Longrightarrow> eff t u \<Longrightarrow> eff s u"
begin

definition has :: "'a forge \<Rightarrow> ForgeState \<Rightarrow> bool" where
  "has m s \<longleftrightarrow> eff s (snd (m s))"

lemma has_void: "has m s \<Longrightarrow> has (f_void m) s"
  by (auto simp: has_def f_void_def split: prod.splits sum.splits)

lemma has_try: "has (f_try r) s"
  by (simp add: has_def eff_refl)

lemma has_read: "has (f_read g) s"
  by (simp add: has_def eff_refl)

lemma has_commit: "eff s (snd (f s)) \<Longrightarrow> has (f_commit env n f) s"
  by (auto simp: has_def f_commit_def eff_refl split: prod.splits sum.splits)

lemma has_bind_try: "(\<And>x. r = Inr x \<Longrightarrow> has (k x) s) \<Longrightarrow> has (f_bind (f_try r) k) s"
  by (cases r) (auto simp: has_def eff_refl)

lemma has_bind_read: "(\<And>x. g s = Inr x \<Longrightarrow> has (k x) s) \<Longrightarrow> has (f_bind (f_read g) k) s"
  by (cases "g s") (auto simp: has_def eff_refl)

lemma has_bind:
  assumes "has m s" "\<And>x t. m s = (Inr x, t) \<Longrightarrow> has (k x) t"
  shows "has (f_bind m k) s"
proof -
  obtain r t where m: "m s = (r, t)" by (cases "m s")
  show ?thesis
  proof (cases r)
    case (Inl e)
    with m assms(1) show ?thesis by (simp add: has_def f_bind_def)
  next
    case (Inr x)
    with m assms have "eff s t" "eff t (snd (k x t))" by (auto simp: has_def)
    with m Inr show ?thesis by (auto simp: has_def f_bind_def intro: eff_trans)
  qed
qed

lemma has_wrap: "guarded wrap s \<Longrightarrow> has operation s \<Longrightarrow> has (wrap operation) s"
  by (auto simp: has_def guarded_def eff_refl)

lemma has_case_option:
  "(x = None \<Longrightarrow> has m s) \<Longrightarrow> (\<And>y. x = Some y \<Longrightarrow> has (n y) s) \<Longrightarrow> has (case_option m n x) s"
  by (cases x) simp_all

lemma has_case_prod: "(\<And>a b. p = (a, b) \<Longrightarrow> has (m a b) s) \<Longrightarrow> has (case_prod m p) s"
  by (cases p) simp

lemma has_review_context:
  assumes "\<And>hint_target target pr binding.
      review_context env runtime actor i n mutation hint_target s = Inr (target, pr, binding) \<Longrightarrow>
      has (operation target pr binding) s"
  shows "has (with_review_context env hint runtime actor i n mutation operation) s"
  unfolding with_review_context_def by (intro has_bind_try has_bind_read has_case_prod assms) auto

lemma has_accept_review:
  assumes "\<And>event. eff s (propose_review env pr n event s)"
  shows "has (accept_review env ren db i n pr binding challenge observed request dismissed digest) s"
  using assms by (auto simp: has_def accept_review_def eff_refl Let_def split: sum.split)

lemma has_if: "(b \<Longrightarrow> has m s) \<Longrightarrow> (\<not> b \<Longrightarrow> has n s) \<Longrightarrow> has (if b then m else n) s"
  by simp

lemmas has_rules =
  has_try has_read has_bind_try has_bind_read
  has_wrap [OF named_mutation.wrap_guarded] has_wrap [OF repository_mutation.wrap_guarded]
  has_wrap [OF authority_mutation.wrap_guarded] has_wrap [OF profile_mutation.wrap_guarded]
  has_wrap [OF global_mutation.wrap_guarded] has_wrap [OF source_mutation.wrap_guarded]
  has_wrap [OF pull_mutation.wrap_guarded] has_wrap [OF repository_id_mutation.wrap_guarded]
  has_wrap [OF creation_mutation.wrap_guarded] has_wrap [OF transfer_prepare_mutation.wrap_guarded]
  has_wrap [OF transfer_mutation.wrap_guarded]

end

section \<open>Failures\<close>

definition atomic :: "'a forge \<Rightarrow> ForgeState \<Rightarrow> bool" where
  "atomic m s \<longleftrightarrow> (\<forall>e. fst (m s) = Inl e \<longrightarrow> snd (m s) = s)"

named_theorems atomics \<open>operations whose failures keep the state\<close>

lemma atomic_try [atomics]: "atomic (f_try r) s"
  by (simp add: atomic_def)

lemma atomic_read [atomics]: "atomic (f_read g) s"
  by (simp add: atomic_def)

lemma atomic_commit [atomics]: "atomic (f_commit env n f) s"
  by (auto simp: atomic_def f_commit_def split: prod.splits sum.splits)

lemma atomic_void [atomics]: "atomic m s \<Longrightarrow> atomic (f_void m) s"
  by (auto simp: atomic_def f_void_def split: prod.splits sum.splits)

lemma atomic_bind_try [atomics]: "(\<And>x. r = Inr x \<Longrightarrow> atomic (k x) s) \<Longrightarrow> atomic (f_bind (f_try r) k) s"
  by (cases r) (auto simp: atomic_def)

lemma atomic_bind_read [atomics]: "(\<And>x. g s = Inr x \<Longrightarrow> atomic (k x) s) \<Longrightarrow> atomic (f_bind (f_read g) k) s"
  by (cases "g s") (auto simp: atomic_def)

lemma atomic_wrap: "guarded wrap s \<Longrightarrow> atomic operation s \<Longrightarrow> atomic (wrap operation) s"
  by (auto simp: atomic_def guarded_def)

lemmas atomic_wraps [atomics] =
  atomic_wrap [OF named_mutation.wrap_guarded] atomic_wrap [OF repository_mutation.wrap_guarded]
  atomic_wrap [OF authority_mutation.wrap_guarded] atomic_wrap [OF profile_mutation.wrap_guarded]
  atomic_wrap [OF global_mutation.wrap_guarded] atomic_wrap [OF source_mutation.wrap_guarded]
  atomic_wrap [OF pull_mutation.wrap_guarded] atomic_wrap [OF repository_id_mutation.wrap_guarded]
  atomic_wrap [OF creation_mutation.wrap_guarded] atomic_wrap [OF transfer_prepare_mutation.wrap_guarded]
  atomic_wrap [OF transfer_mutation.wrap_guarded]

lemma atomic_if [atomics]: "(b \<Longrightarrow> atomic m s) \<Longrightarrow> (\<not> b \<Longrightarrow> atomic n s) \<Longrightarrow> atomic (if b then m else n) s"
  by simp

lemma atomic_Let [atomics]: "(\<And>x. x = v \<Longrightarrow> atomic (m x) s) \<Longrightarrow> atomic (Let v m) s"
  by (simp add: Let_def)

lemma atomic_case_prod [atomics]: "(\<And>a b. p = (a, b) \<Longrightarrow> atomic (m a b) s) \<Longrightarrow> atomic (case_prod m p) s"
  by (cases p) simp

lemma atomic_case_option [atomics]:
  "(x = None \<Longrightarrow> atomic m s) \<Longrightarrow> (\<And>y. x = Some y \<Longrightarrow> atomic (n y) s) \<Longrightarrow> atomic (case_option m n x) s"
  by (cases x) simp_all

lemma atomic_accept_review [atomics]:
  "atomic (accept_review env ren db i n pr binding challenge observed request dismissed digest) s"
  by (auto simp: atomic_def accept_review_def Let_def split: sum.split)

lemma atomic_review_context [atomics]:
  "(\<And>target pr binding. atomic (operation target pr binding) s) \<Longrightarrow>
   atomic (with_review_context env hint runtime actor i n mutation operation) s"
  unfolding with_review_context_def
  by (intro atomic_bind_try atomic_bind_read) (auto split: prod.split)

lemma atomic_case_status [atomics]:
  "atomic m1 s \<Longrightarrow> atomic m2 s \<Longrightarrow> atomic m3 s \<Longrightarrow> atomic (case_RepositoryTransferStatus m1 m2 m3 st) s"
  by (cases st) simp_all

lemma atomic_create_user_admitted [atomics]: "atomic (create_user_admitted env l n e) s"
  unfolding create_user_admitted_def by (intro atomics)

lemma atomic_ensure_user_admitted [atomics]: "atomic (ensure_user_admitted env l) s"
  using atomic_create_user_admitted [of env l None None s]
  by (auto simp: atomic_def ensure_user_admitted_def split: sum.split)

lemma atomic_run [atomics]:
  "atomic (\<lambda>s. (Inr x, s)) s" "atomic (\<lambda>s. (Inl e, s)) s"
  by (simp_all add: atomic_def)

lemma atomic_block [atomics]: "atomic (block_repository_mutations env i b) s"
  unfolding block_repository_mutations_def
  by (intro atomics) (auto simp: atomic_def f_commit_def split: option.split prod.splits sum.splits)

lemma atomic_refresh [atomics]: "atomic (refresh_pull_request_heads_for_ref env hint ow re ref sha) s"
  unfolding refresh_pull_request_heads_for_ref_def
  by (intro atomics) (auto simp: atomic_def f_commit_def Let_def split: prod.splits sum.splits)

lemma atomic_prepare [atomics]: "atomic (prepare_repository_transfer env r) s"
proof -
  have "atomic (\<lambda>s. case v s of Some existing \<Rightarrow> (Inr existing, s) | None \<Rightarrow> m s) s"
    if "atomic m s" for v :: "ForgeState \<Rightarrow> RepositoryTransferJournal option" and m
    using that by (auto simp: atomic_def split: option.split)
  note this [atomics]
  show ?thesis
    unfolding prepare_repository_transfer_def by (intro atomics)
qed

lemma atomic_commit_transfer [atomics]: "atomic (commit_repository_transfer env hint i v) s"
proof -
  have "atomic (\<lambda>s. case rekey_repository env journal s of Inl e \<Rightarrow> (Inl e, s) | Inr t \<Rightarrow> f_commit env 0 (f t) s) s"
    for journal and f :: "ForgeState \<Rightarrow> ForgeState \<Rightarrow> RepositoryTransferJournal \<times> ForgeState"
    using atomic_commit [of env 0 "f t" s for t]
    by (cases "rekey_repository env journal s") (simp_all add: atomic_def)
  note this [atomics]
  show ?thesis unfolding commit_repository_transfer_def by (intro atomics)
qed

lemma atomic_record_review [atomics]: "atomic (record_review env hint ow re n au r d) s"
  unfolding record_review_def by (intro atomics)

lemma atomic_record_bound [atomics]:
  "atomic (record_bound_review env ren hint runtime db actor i n request dismissed digest) s"
  unfolding record_bound_review_def judge_review_def by (intro atomics)

lemma atomic_create_account_admitted [atomics]: "atomic (create_account_admitted env au l p r) s"
  unfolding create_account_admitted_def by (intro atomics)

lemma atomic_create_session_admitted [atomics]: "atomic (create_session_with_ttl_admitted env au l t) s"
  unfolding create_session_with_ttl_admitted_def by (intro atomics)

lemma atomic_grant_admitted [atomics]: "atomic (grant_repo_access_admitted env ac l ow re lv) s"
  unfolding grant_repo_access_admitted_def by (intro atomics)

lemma atomic_revoke_admitted [atomics]: "atomic (revoke_repo_access_admitted env l ow re) s"
  unfolding revoke_repo_access_admitted_def by (intro atomics)

lemma atomic_call_atomic: "atomic_call w m \<Longrightarrow> atomic m s"
  by (cases rule: atomic_call.cases, assumption;
      hypsubst; (intro atomics; fail | simp only: op_defs, intro atomics))

text \<open>
  Operations that first make sure of the author's profile: a failure leaves at most that profile
  behind.
\<close>

definition profile_only :: "ForgeState \<Rightarrow> ForgeState \<Rightarrow> bool" where
  "profile_only s t \<longleftrightarrow>
     t = s \<or> (\<exists>l user. bt_get (st_users s) l = None \<and> t = s\<lparr>st_users := bt_insert l user (st_users s)\<rparr>)"

definition failure_leaves :: "(ForgeState \<Rightarrow> ForgeState \<Rightarrow> bool) \<Rightarrow> 'a forge \<Rightarrow> ForgeState \<Rightarrow> bool" where
  "failure_leaves P m s \<longleftrightarrow> (\<forall>e. fst (m s) = Inl e \<longrightarrow> P s (snd (m s)))"

lemma profile_only_refl: "profile_only s s"
  by (simp add: profile_only_def)

lemma ensure_user_effect: "profile_only s (snd (ensure_user_admitted env l s))"
  by (auto simp: profile_only_def ensure_user_admitted_def get_user_def create_user_admitted_def
      f_commit_def Let_def split: sum.split option.splits)

named_theorems leaves \<open>operations whose failures leave at most a profile\<close>

lemma leaves_atomic: "atomic m s \<Longrightarrow> failure_leaves profile_only m s"
  by (simp add: atomic_def failure_leaves_def profile_only_def)

lemma leaves_void [leaves]: "failure_leaves P m s \<Longrightarrow> failure_leaves P (f_void m) s"
  by (auto simp: failure_leaves_def f_void_def split: prod.splits sum.splits)

lemma leaves_bind_try [leaves]:
  "(\<And>x. failure_leaves profile_only (k x) s) \<Longrightarrow> failure_leaves profile_only (f_bind (f_try r) k) s"
  by (cases r) (auto simp: failure_leaves_def profile_only_def)

lemma leaves_bind_read [leaves]:
  "(\<And>x. failure_leaves profile_only (k x) s) \<Longrightarrow> failure_leaves profile_only (f_bind (f_read g) k) s"
  by (cases "g s") (auto simp: failure_leaves_def profile_only_def)

lemma leaves_wrap:
  "guarded wrap s \<Longrightarrow> failure_leaves profile_only operation s \<Longrightarrow> failure_leaves profile_only (wrap operation) s"
  by (auto simp: failure_leaves_def guarded_def profile_only_refl)

lemmas leaves_wraps [leaves] =
  leaves_wrap [OF profile_mutation.wrap_guarded] leaves_wrap [OF source_mutation.wrap_guarded]

lemma leaves_ensure_user [leaves]:
  assumes "\<And>x t. atomic (k x) t"
  shows "failure_leaves profile_only (f_bind (ensure_user_admitted env l) k) s"
proof -
  obtain r t where m: "ensure_user_admitted env l s = (r, t)" by (cases "ensure_user_admitted env l s")
  with ensure_user_effect [of s env l] have "profile_only s t" by simp
  with assms show ?thesis
    by (cases r) (auto simp: failure_leaves_def f_bind_def m atomic_def)
qed

lemma profile_call_leaves: "profile_call w m \<Longrightarrow> failure_leaves profile_only m s"
  by (cases rule: profile_call.cases, assumption;
      hypsubst; simp only: op_defs; intro leaves atomics)

section \<open>The invariant\<close>

text \<open>Repositories are filed under their own name, have distinct identities and a journal.\<close>

definition repos_ok :: "ForgeState \<Rightarrow> bool" where
  "repos_ok s \<longleftrightarrow>
     bt_wf (st_repos s)
   \<and> (\<forall>ow nm r. bt_get (st_repos s) (ow, nm) = Some r \<longrightarrow>
        re_owner r = ow \<and> re_name r = nm \<and> re_full_name r = ow @ ''/'' @ nm
        \<and> bt_get (st_repository_creations s) (re_id r) \<noteq> None)
   \<and> (\<forall>k1 k2 r1 r2. bt_get (st_repos s) k1 = Some r1 \<longrightarrow> bt_get (st_repos s) k2 = Some r2 \<longrightarrow>
        re_id r1 = re_id r2 \<longrightarrow> k1 = k2)"

text \<open>The numbers given out so far in a repository, 0 without counters.\<close>

definition issue_count :: "ForgeState \<Rightarrow> string \<Rightarrow> string \<Rightarrow> u64" where
  "issue_count s ow nm = (case bt_get (st_counters s) (ow, nm) of Some c \<Rightarrow> ct_issue c | None \<Rightarrow> 0)"

definition pull_count :: "ForgeState \<Rightarrow> string \<Rightarrow> string \<Rightarrow> u64" where
  "pull_count s ow nm = (case bt_get (st_counters s) (ow, nm) of Some c \<Rightarrow> ct_pull c | None \<Rightarrow> 0)"

definition pulls_ok :: "ForgeState \<Rightarrow> bool" where
  "pulls_ok s \<longleftrightarrow>
     bt_wf (st_pulls s)
   \<and> (\<forall>ow nm n p. bt_get (st_pulls s) (ow, nm, n) = Some p \<longrightarrow>
        fp_owner p = ow \<and> fp_repo p = nm \<and> fp_number p = n
        \<and> \<not> fp_merged p \<and> fp_merged_at p = None \<and> fp_merge_commit_sha p = None
        \<and> bt_get (st_repos s) (ow, nm) \<noteq> None \<and> 0 < n \<and> n \<le> pull_count s ow nm)"

definition issues_ok :: "ForgeState \<Rightarrow> bool" where
  "issues_ok s \<longleftrightarrow>
     bt_wf (st_issues s)
   \<and> (\<forall>ow nm n i. bt_get (st_issues s) (ow, nm, n) = Some i \<longrightarrow>
        is_owner i = ow \<and> is_repo i = nm \<and> is_number i = n
        \<and> bt_get (st_repos s) (ow, nm) \<noteq> None \<and> 0 < n \<and> n \<le> issue_count s ow nm)"

definition counters_ok :: "ForgeState \<Rightarrow> bool" where
  "counters_ok s \<longleftrightarrow>
     bt_wf (st_counters s)
   \<and> (\<forall>k. bt_get (st_counters s) k \<noteq> None \<longleftrightarrow> bt_get (st_repos s) k \<noteq> None)"

definition forge_inv :: "ForgeState \<Rightarrow> bool" where
  "forge_inv s \<longleftrightarrow> repos_ok s \<and> counters_ok s \<and> pulls_ok s \<and> issues_ok s"

text \<open>No counter is at its end: the \<open>u64\<close> numbers of a repository are not exhausted.\<close>

definition room :: "ForgeState \<Rightarrow> bool" where
  "room s \<longleftrightarrow> (\<forall>k c. bt_get (st_counters s) k = Some c \<longrightarrow> ct_issue c < - 1 \<and> ct_pull c < - 1)"

section \<open>What never goes back\<close>

text \<open>
  Blocks stay, creation journals keep their request and stay completed, an account keeps its role
  and origin and never returns to an earlier epoch, a finished transfer keeps its outcome, and the
  owner bootstrap happens once.
\<close>

definition account_grows :: "UserAccount \<Rightarrow> UserAccount \<Rightarrow> bool" where
  "account_grows a b \<longleftrightarrow>
     ua_role b = ua_role a \<and> ua_created_at b = ua_created_at a
     \<and> ua_canonical_login b = ua_canonical_login a \<and> ua_auth_epoch a \<le> ua_auth_epoch b"

definition creation_grows :: "RepositoryCreation \<Rightarrow> RepositoryCreation \<Rightarrow> bool" where
  "creation_grows a b \<longleftrightarrow>
     cn_owner b = cn_owner a \<and> cn_request b = cn_request a
     \<and> cn_repository_id b = cn_repository_id a \<and> (cn_materialized a \<longrightarrow> cn_materialized b)"

definition transfer_grows :: "RepositoryTransferJournal \<Rightarrow> RepositoryTransferJournal \<Rightarrow> bool" where
  "transfer_grows a b \<longleftrightarrow>
     b = a \<or> rt_status a = TrPrepared \<and> rt_transaction_id b = rt_transaction_id a
             \<and> rt_repository_id b = rt_repository_id a \<and> rt_request_fingerprint b = rt_request_fingerprint a"

definition map_grows :: "('v \<Rightarrow> 'v \<Rightarrow> bool) \<Rightarrow> ('k, 'v) btree_map \<Rightarrow> ('k, 'v) btree_map \<Rightarrow> bool" where
  "map_grows R m m' \<longleftrightarrow> (\<forall>k v. bt_get m k = Some v \<longrightarrow> (\<exists>v'. bt_get m' k = Some v' \<and> R v v'))"

definition history :: "ForgeState \<Rightarrow> ForgeState \<Rightarrow> bool" where
  "history s t \<longleftrightarrow>
     map_grows (=) (st_repository_mutation_blocks s) (st_repository_mutation_blocks t)
   \<and> map_grows creation_grows (st_repository_creations s) (st_repository_creations t)
   \<and> map_grows account_grows (st_accounts s) (st_accounts t)
   \<and> map_grows transfer_grows (st_repository_transfers s) (st_repository_transfers t)
   \<and> (st_bootstrap_owner_consumed s \<longrightarrow> st_bootstrap_owner_consumed t)"

lemma map_grows_refl: "(\<And>v. R v v) \<Longrightarrow> map_grows R m m"
  by (auto simp: map_grows_def)

lemma map_grows_trans:
  "map_grows R a b \<Longrightarrow> map_grows R b c \<Longrightarrow> (\<And>x y z. R x y \<Longrightarrow> R y z \<Longrightarrow> R x z) \<Longrightarrow> map_grows R a c"
  unfolding map_grows_def by meson

lemma map_grows_insert:
  "(\<And>v. R v v) \<Longrightarrow> (\<And>old. bt_get m k = Some old \<Longrightarrow> R old v) \<Longrightarrow> map_grows R m (bt_insert k v m)"
  by (auto simp: map_grows_def)

lemma grows_refl [simp]: "account_grows a a" "creation_grows c c" "transfer_grows j j"
  by (simp_all add: account_grows_def creation_grows_def transfer_grows_def)

lemma grows_trans:
  "account_grows a b \<Longrightarrow> account_grows b c \<Longrightarrow> account_grows a c"
  "creation_grows x y \<Longrightarrow> creation_grows y z \<Longrightarrow> creation_grows x z"
  "transfer_grows i j \<Longrightarrow> transfer_grows j k \<Longrightarrow> transfer_grows i k"
  by (auto simp: account_grows_def creation_grows_def transfer_grows_def)

lemma history_refl: "history s s"
  by (simp add: history_def map_grows_refl)

lemma history_trans: "history s t \<Longrightarrow> history t u \<Longrightarrow> history s u"
  unfolding history_def by (blast intro: map_grows_trans grows_trans)

section \<open>Fields an internal step leaves alone\<close>

named_theorems frames \<open>fields that internal steps leave alone\<close>

lemma emit_event_frame [frames, simp]:
  "st_users (emit_event_locked env site ow re ev pl s) = st_users s"
  "st_accounts (emit_event_locked env site ow re ev pl s) = st_accounts s"
  "st_sessions (emit_event_locked env site ow re ev pl s) = st_sessions s"
  "st_personal_tokens (emit_event_locked env site ow re ev pl s) = st_personal_tokens s"
  "st_invitations (emit_event_locked env site ow re ev pl s) = st_invitations s"
  "st_bootstrap_owner_consumed (emit_event_locked env site ow re ev pl s) = st_bootstrap_owner_consumed s"
  "st_repo_grants (emit_event_locked env site ow re ev pl s) = st_repo_grants s"
  "st_teams (emit_event_locked env site ow re ev pl s) = st_teams s"
  "st_repos (emit_event_locked env site ow re ev pl s) = st_repos s"
  "st_repository_creations (emit_event_locked env site ow re ev pl s) = st_repository_creations s"
  "st_issues (emit_event_locked env site ow re ev pl s) = st_issues s"
  "st_pulls (emit_event_locked env site ow re ev pl s) = st_pulls s"
  "st_reviews (emit_event_locked env site ow re ev pl s) = st_reviews s"
  "st_bound_reviews (emit_event_locked env site ow re ev pl s) = st_bound_reviews s"
  "st_branch_protections (emit_event_locked env site ow re ev pl s) = st_branch_protections s"
  "st_codeowners (emit_event_locked env site ow re ev pl s) = st_codeowners s"
  "st_webhooks (emit_event_locked env site ow re ev pl s) = st_webhooks s"
  "st_counters (emit_event_locked env site ow re ev pl s) = st_counters s"
  "st_repository_aliases (emit_event_locked env site ow re ev pl s) = st_repository_aliases s"
  "st_repository_transfers (emit_event_locked env site ow re ev pl s) = st_repository_transfers s"
  "st_repository_mutation_blocks (emit_event_locked env site ow re ev pl s) = st_repository_mutation_blocks s"
  by (simp_all add: emit_event_locked_def Let_def)

lemma refresh_one_frame [frames, simp]:
  "st_users (refresh_one env k s) = st_users s"
  "st_accounts (refresh_one env k s) = st_accounts s"
  "st_sessions (refresh_one env k s) = st_sessions s"
  "st_personal_tokens (refresh_one env k s) = st_personal_tokens s"
  "st_invitations (refresh_one env k s) = st_invitations s"
  "st_bootstrap_owner_consumed (refresh_one env k s) = st_bootstrap_owner_consumed s"
  "st_repo_grants (refresh_one env k s) = st_repo_grants s"
  "st_teams (refresh_one env k s) = st_teams s"
  "st_repos (refresh_one env k s) = st_repos s"
  "st_repository_creations (refresh_one env k s) = st_repository_creations s"
  "st_issues (refresh_one env k s) = st_issues s"
  "st_reviews (refresh_one env k s) = st_reviews s"
  "st_bound_reviews (refresh_one env k s) = st_bound_reviews s"
  "st_branch_protections (refresh_one env k s) = st_branch_protections s"
  "st_codeowners (refresh_one env k s) = st_codeowners s"
  "st_webhooks (refresh_one env k s) = st_webhooks s"
  "st_counters (refresh_one env k s) = st_counters s"
  "st_repository_aliases (refresh_one env k s) = st_repository_aliases s"
  "st_repository_transfers (refresh_one env k s) = st_repository_transfers s"
  "st_repository_mutation_blocks (refresh_one env k s) = st_repository_mutation_blocks s"
  by (simp_all add: refresh_one_def split: option.split)

lemma fold_frame: "(\<And>x s. f (g x s) = f s) \<Longrightarrow> f (fold g xs s) = f s"
  by (induction xs arbitrary: s) simp_all

lemma refresh_frame [frames, simp]:
  "st_users (refresh_pull_mergeability_for_sha env ow re sha s) = st_users s"
  "st_accounts (refresh_pull_mergeability_for_sha env ow re sha s) = st_accounts s"
  "st_sessions (refresh_pull_mergeability_for_sha env ow re sha s) = st_sessions s"
  "st_personal_tokens (refresh_pull_mergeability_for_sha env ow re sha s) = st_personal_tokens s"
  "st_invitations (refresh_pull_mergeability_for_sha env ow re sha s) = st_invitations s"
  "st_bootstrap_owner_consumed (refresh_pull_mergeability_for_sha env ow re sha s) = st_bootstrap_owner_consumed s"
  "st_repo_grants (refresh_pull_mergeability_for_sha env ow re sha s) = st_repo_grants s"
  "st_teams (refresh_pull_mergeability_for_sha env ow re sha s) = st_teams s"
  "st_repos (refresh_pull_mergeability_for_sha env ow re sha s) = st_repos s"
  "st_repository_creations (refresh_pull_mergeability_for_sha env ow re sha s) = st_repository_creations s"
  "st_issues (refresh_pull_mergeability_for_sha env ow re sha s) = st_issues s"
  "st_reviews (refresh_pull_mergeability_for_sha env ow re sha s) = st_reviews s"
  "st_bound_reviews (refresh_pull_mergeability_for_sha env ow re sha s) = st_bound_reviews s"
  "st_branch_protections (refresh_pull_mergeability_for_sha env ow re sha s) = st_branch_protections s"
  "st_codeowners (refresh_pull_mergeability_for_sha env ow re sha s) = st_codeowners s"
  "st_webhooks (refresh_pull_mergeability_for_sha env ow re sha s) = st_webhooks s"
  "st_counters (refresh_pull_mergeability_for_sha env ow re sha s) = st_counters s"
  "st_repository_aliases (refresh_pull_mergeability_for_sha env ow re sha s) = st_repository_aliases s"
  "st_repository_transfers (refresh_pull_mergeability_for_sha env ow re sha s) = st_repository_transfers s"
  "st_repository_mutation_blocks (refresh_pull_mergeability_for_sha env ow re sha s) = st_repository_mutation_blocks s"
  unfolding refresh_pull_mergeability_for_sha_def by (rule fold_frame, simp)+

lemma insert_profile_frame [frames, simp]:
  "st_accounts (insert_profile env l s) = st_accounts s"
  "st_sessions (insert_profile env l s) = st_sessions s"
  "st_personal_tokens (insert_profile env l s) = st_personal_tokens s"
  "st_invitations (insert_profile env l s) = st_invitations s"
  "st_bootstrap_owner_consumed (insert_profile env l s) = st_bootstrap_owner_consumed s"
  "st_repo_grants (insert_profile env l s) = st_repo_grants s"
  "st_teams (insert_profile env l s) = st_teams s"
  "st_repos (insert_profile env l s) = st_repos s"
  "st_repository_creations (insert_profile env l s) = st_repository_creations s"
  "st_issues (insert_profile env l s) = st_issues s"
  "st_pulls (insert_profile env l s) = st_pulls s"
  "st_reviews (insert_profile env l s) = st_reviews s"
  "st_bound_reviews (insert_profile env l s) = st_bound_reviews s"
  "st_branch_protections (insert_profile env l s) = st_branch_protections s"
  "st_codeowners (insert_profile env l s) = st_codeowners s"
  "st_webhooks (insert_profile env l s) = st_webhooks s"
  "st_counters (insert_profile env l s) = st_counters s"
  "st_repository_aliases (insert_profile env l s) = st_repository_aliases s"
  "st_repository_transfers (insert_profile env l s) = st_repository_transfers s"
  "st_repository_mutation_blocks (insert_profile env l s) = st_repository_mutation_blocks s"
  by (simp_all add: insert_profile_def)

lemma add_profile_frame [frames, simp]:
  "st_accounts (add_profile env l n now s) = st_accounts s"
  "st_sessions (add_profile env l n now s) = st_sessions s"
  "st_personal_tokens (add_profile env l n now s) = st_personal_tokens s"
  "st_invitations (add_profile env l n now s) = st_invitations s"
  "st_bootstrap_owner_consumed (add_profile env l n now s) = st_bootstrap_owner_consumed s"
  "st_repo_grants (add_profile env l n now s) = st_repo_grants s"
  "st_teams (add_profile env l n now s) = st_teams s"
  "st_repos (add_profile env l n now s) = st_repos s"
  "st_repository_creations (add_profile env l n now s) = st_repository_creations s"
  "st_issues (add_profile env l n now s) = st_issues s"
  "st_pulls (add_profile env l n now s) = st_pulls s"
  "st_reviews (add_profile env l n now s) = st_reviews s"
  "st_bound_reviews (add_profile env l n now s) = st_bound_reviews s"
  "st_branch_protections (add_profile env l n now s) = st_branch_protections s"
  "st_codeowners (add_profile env l n now s) = st_codeowners s"
  "st_webhooks (add_profile env l n now s) = st_webhooks s"
  "st_counters (add_profile env l n now s) = st_counters s"
  "st_repository_aliases (add_profile env l n now s) = st_repository_aliases s"
  "st_repository_transfers (add_profile env l n now s) = st_repository_transfers s"
  "st_repository_mutation_blocks (add_profile env l n now s) = st_repository_mutation_blocks s"
  by (simp_all add: add_profile_def)

lemma put_account_frame [frames, simp]:
  "st_users (put_account l a s) = st_users s"
  "st_sessions (put_account l a s) = st_sessions s"
  "st_personal_tokens (put_account l a s) = st_personal_tokens s"
  "st_invitations (put_account l a s) = st_invitations s"
  "st_bootstrap_owner_consumed (put_account l a s) = st_bootstrap_owner_consumed s"
  "st_repo_grants (put_account l a s) = st_repo_grants s"
  "st_teams (put_account l a s) = st_teams s"
  "st_repos (put_account l a s) = st_repos s"
  "st_repository_creations (put_account l a s) = st_repository_creations s"
  "st_issues (put_account l a s) = st_issues s"
  "st_pulls (put_account l a s) = st_pulls s"
  "st_reviews (put_account l a s) = st_reviews s"
  "st_bound_reviews (put_account l a s) = st_bound_reviews s"
  "st_branch_protections (put_account l a s) = st_branch_protections s"
  "st_codeowners (put_account l a s) = st_codeowners s"
  "st_webhooks (put_account l a s) = st_webhooks s"
  "st_counters (put_account l a s) = st_counters s"
  "st_repository_aliases (put_account l a s) = st_repository_aliases s"
  "st_repository_transfers (put_account l a s) = st_repository_transfers s"
  "st_repository_mutation_blocks (put_account l a s) = st_repository_mutation_blocks s"
  "st_accounts (put_account l a s) = bt_insert l a (st_accounts s)"
  by (simp_all add: put_account_def)

lemma drop_credentials_frame [frames, simp]:
  "st_users (drop_credentials l s) = st_users s"
  "st_accounts (drop_credentials l s) = st_accounts s"
  "st_invitations (drop_credentials l s) = st_invitations s"
  "st_bootstrap_owner_consumed (drop_credentials l s) = st_bootstrap_owner_consumed s"
  "st_repo_grants (drop_credentials l s) = st_repo_grants s"
  "st_teams (drop_credentials l s) = st_teams s"
  "st_repos (drop_credentials l s) = st_repos s"
  "st_repository_creations (drop_credentials l s) = st_repository_creations s"
  "st_issues (drop_credentials l s) = st_issues s"
  "st_pulls (drop_credentials l s) = st_pulls s"
  "st_reviews (drop_credentials l s) = st_reviews s"
  "st_bound_reviews (drop_credentials l s) = st_bound_reviews s"
  "st_branch_protections (drop_credentials l s) = st_branch_protections s"
  "st_codeowners (drop_credentials l s) = st_codeowners s"
  "st_webhooks (drop_credentials l s) = st_webhooks s"
  "st_counters (drop_credentials l s) = st_counters s"
  "st_repository_aliases (drop_credentials l s) = st_repository_aliases s"
  "st_repository_transfers (drop_credentials l s) = st_repository_transfers s"
  "st_repository_mutation_blocks (drop_credentials l s) = st_repository_mutation_blocks s"
  by (simp_all add: drop_credentials_def)

lemma default_protection_frame [frames, simp]:
  "st_users (snd (ensure_default_branch_protection env r s)) = st_users s"
  "st_accounts (snd (ensure_default_branch_protection env r s)) = st_accounts s"
  "st_sessions (snd (ensure_default_branch_protection env r s)) = st_sessions s"
  "st_personal_tokens (snd (ensure_default_branch_protection env r s)) = st_personal_tokens s"
  "st_invitations (snd (ensure_default_branch_protection env r s)) = st_invitations s"
  "st_bootstrap_owner_consumed (snd (ensure_default_branch_protection env r s)) = st_bootstrap_owner_consumed s"
  "st_repo_grants (snd (ensure_default_branch_protection env r s)) = st_repo_grants s"
  "st_teams (snd (ensure_default_branch_protection env r s)) = st_teams s"
  "st_repos (snd (ensure_default_branch_protection env r s)) = st_repos s"
  "st_repository_creations (snd (ensure_default_branch_protection env r s)) = st_repository_creations s"
  "st_issues (snd (ensure_default_branch_protection env r s)) = st_issues s"
  "st_pulls (snd (ensure_default_branch_protection env r s)) = st_pulls s"
  "st_reviews (snd (ensure_default_branch_protection env r s)) = st_reviews s"
  "st_bound_reviews (snd (ensure_default_branch_protection env r s)) = st_bound_reviews s"
  "st_codeowners (snd (ensure_default_branch_protection env r s)) = st_codeowners s"
  "st_webhooks (snd (ensure_default_branch_protection env r s)) = st_webhooks s"
  "st_counters (snd (ensure_default_branch_protection env r s)) = st_counters s"
  "st_repository_aliases (snd (ensure_default_branch_protection env r s)) = st_repository_aliases s"
  "st_repository_transfers (snd (ensure_default_branch_protection env r s)) = st_repository_transfers s"
  "st_repository_mutation_blocks (snd (ensure_default_branch_protection env r s)) = st_repository_mutation_blocks s"
  by (simp_all add: ensure_default_branch_protection_def Let_def)

lemma rekey_rows_frame [frames, simp]:
  "st_users (rekey_rows ol ne s) = st_users s"
  "st_accounts (rekey_rows ol ne s) = st_accounts s"
  "st_sessions (rekey_rows ol ne s) = st_sessions s"
  "st_personal_tokens (rekey_rows ol ne s) = st_personal_tokens s"
  "st_invitations (rekey_rows ol ne s) = st_invitations s"
  "st_bootstrap_owner_consumed (rekey_rows ol ne s) = st_bootstrap_owner_consumed s"
  "st_teams (rekey_rows ol ne s) = st_teams s"
  "st_repos (rekey_rows ol ne s) = st_repos s"
  "st_repository_creations (rekey_rows ol ne s) = st_repository_creations s"
  "st_bound_reviews (rekey_rows ol ne s) = st_bound_reviews s"
  "st_repository_aliases (rekey_rows ol ne s) = st_repository_aliases s"
  "st_repository_transfers (rekey_rows ol ne s) = st_repository_transfers s"
  "st_repository_mutation_blocks (rekey_rows ol ne s) = st_repository_mutation_blocks s"
  by (simp_all add: rekey_rows_def)

text \<open>The states after a head refresh differ in pull requests and deliveries.\<close>

lemma refresh_head_frame:
  "st_users (snd (refresh_head env ow re sha ik acc)) = st_users (snd acc)"
  "st_accounts (snd (refresh_head env ow re sha ik acc)) = st_accounts (snd acc)"
  "st_sessions (snd (refresh_head env ow re sha ik acc)) = st_sessions (snd acc)"
  "st_personal_tokens (snd (refresh_head env ow re sha ik acc)) = st_personal_tokens (snd acc)"
  "st_invitations (snd (refresh_head env ow re sha ik acc)) = st_invitations (snd acc)"
  "st_bootstrap_owner_consumed (snd (refresh_head env ow re sha ik acc)) = st_bootstrap_owner_consumed (snd acc)"
  "st_repo_grants (snd (refresh_head env ow re sha ik acc)) = st_repo_grants (snd acc)"
  "st_teams (snd (refresh_head env ow re sha ik acc)) = st_teams (snd acc)"
  "st_repos (snd (refresh_head env ow re sha ik acc)) = st_repos (snd acc)"
  "st_repository_creations (snd (refresh_head env ow re sha ik acc)) = st_repository_creations (snd acc)"
  "st_issues (snd (refresh_head env ow re sha ik acc)) = st_issues (snd acc)"
  "st_reviews (snd (refresh_head env ow re sha ik acc)) = st_reviews (snd acc)"
  "st_bound_reviews (snd (refresh_head env ow re sha ik acc)) = st_bound_reviews (snd acc)"
  "st_branch_protections (snd (refresh_head env ow re sha ik acc)) = st_branch_protections (snd acc)"
  "st_codeowners (snd (refresh_head env ow re sha ik acc)) = st_codeowners (snd acc)"
  "st_webhooks (snd (refresh_head env ow re sha ik acc)) = st_webhooks (snd acc)"
  "st_counters (snd (refresh_head env ow re sha ik acc)) = st_counters (snd acc)"
  "st_repository_aliases (snd (refresh_head env ow re sha ik acc)) = st_repository_aliases (snd acc)"
  "st_repository_transfers (snd (refresh_head env ow re sha ik acc)) = st_repository_transfers (snd acc)"
  "st_repository_mutation_blocks (snd (refresh_head env ow re sha ik acc)) = st_repository_mutation_blocks (snd acc)"
  by (cases ik; cases acc; simp add: refresh_head_def Let_def split: option.split)+

lemma refresh_heads_frame [frames, simp]:
  "st_users (snd (fold (refresh_head env ow re sha) iks acc)) = st_users (snd acc)"
  "st_accounts (snd (fold (refresh_head env ow re sha) iks acc)) = st_accounts (snd acc)"
  "st_sessions (snd (fold (refresh_head env ow re sha) iks acc)) = st_sessions (snd acc)"
  "st_personal_tokens (snd (fold (refresh_head env ow re sha) iks acc)) = st_personal_tokens (snd acc)"
  "st_invitations (snd (fold (refresh_head env ow re sha) iks acc)) = st_invitations (snd acc)"
  "st_bootstrap_owner_consumed (snd (fold (refresh_head env ow re sha) iks acc)) = st_bootstrap_owner_consumed (snd acc)"
  "st_repo_grants (snd (fold (refresh_head env ow re sha) iks acc)) = st_repo_grants (snd acc)"
  "st_teams (snd (fold (refresh_head env ow re sha) iks acc)) = st_teams (snd acc)"
  "st_repos (snd (fold (refresh_head env ow re sha) iks acc)) = st_repos (snd acc)"
  "st_repository_creations (snd (fold (refresh_head env ow re sha) iks acc)) = st_repository_creations (snd acc)"
  "st_issues (snd (fold (refresh_head env ow re sha) iks acc)) = st_issues (snd acc)"
  "st_reviews (snd (fold (refresh_head env ow re sha) iks acc)) = st_reviews (snd acc)"
  "st_bound_reviews (snd (fold (refresh_head env ow re sha) iks acc)) = st_bound_reviews (snd acc)"
  "st_branch_protections (snd (fold (refresh_head env ow re sha) iks acc)) = st_branch_protections (snd acc)"
  "st_codeowners (snd (fold (refresh_head env ow re sha) iks acc)) = st_codeowners (snd acc)"
  "st_webhooks (snd (fold (refresh_head env ow re sha) iks acc)) = st_webhooks (snd acc)"
  "st_counters (snd (fold (refresh_head env ow re sha) iks acc)) = st_counters (snd acc)"
  "st_repository_aliases (snd (fold (refresh_head env ow re sha) iks acc)) = st_repository_aliases (snd acc)"
  "st_repository_transfers (snd (fold (refresh_head env ow re sha) iks acc)) = st_repository_transfers (snd acc)"
  "st_repository_mutation_blocks (snd (fold (refresh_head env ow re sha) iks acc)) = st_repository_mutation_blocks (snd acc)"
  by (rule fold_frame, simp add: refresh_head_frame)+

section \<open>History\<close>

interpretation hist: effect history
  by unfold_locales (fact history_refl, fact history_trans)

lemma history_same:
  assumes "st_repository_mutation_blocks t = st_repository_mutation_blocks s"
    "st_repository_creations t = st_repository_creations s" "st_accounts t = st_accounts s"
    "st_repository_transfers t = st_repository_transfers s"
    "st_bootstrap_owner_consumed t = st_bootstrap_owner_consumed s"
  shows "history s t"
  using history_refl [of s] by (simp add: history_def assms)

lemma history_ensure_user: "hist.has (ensure_user_admitted env l) s"
  using ensure_user_effect [of s env l]
  by (auto simp: hist.has_def profile_only_def intro!: history_same history_refl)

lemma history_accounts:
  assumes "st_repository_mutation_blocks t = st_repository_mutation_blocks s"
    "st_repository_creations t = st_repository_creations s"
    "st_repository_transfers t = st_repository_transfers s"
    "st_bootstrap_owner_consumed s \<longrightarrow> st_bootstrap_owner_consumed t"
    "st_accounts t = bt_insert l a (st_accounts s)"
    "\<And>old. bt_get (st_accounts s) l = Some old \<Longrightarrow> account_grows old a"
  shows "history s t"
  using history_refl [of s] assms by (simp add: history_def map_grows_insert)

lemma next_auth_epoch_gt: "next_auth_epoch e = Inr e' \<Longrightarrow> e < e'"
  by (auto simp: next_auth_epoch_def checked_add_Some_iff word_less_nat_alt unat_word_ariths)

lemma history_advance_epoch:
  assumes "bt_get (st_accounts s) l = Some old"
    "ua_role a = ua_role old" "ua_created_at a = ua_created_at old"
    "ua_canonical_login a = ua_canonical_login old" "ua_auth_epoch a = ua_auth_epoch old"
  shows "hist.has (advance_epoch env n l a) s"
proof (cases "next_auth_epoch (ua_auth_epoch a)")
  case (Inl e)
  then show ?thesis using assms
    by (auto simp: hist.has_def advance_epoch_def account_grows_def intro!: history_accounts)
next
  case (Inr epoch)
  have "hist.has (f_commit env n (\<lambda>s.
      let updated = a\<lparr>ua_auth_epoch := epoch, ua_updated_at := en_now env ''account update'' n\<rparr>
      in (AccountSummary_from updated, drop_credentials l (put_account l updated s)))) s"
    using assms next_auth_epoch_gt [OF Inr]
    by (intro hist.has_commit)
       (auto simp: Let_def account_grows_def intro!: history_accounts less_imp_le)
  with Inr show ?thesis by (simp add: hist.has_def advance_epoch_def)
qed

lemma history_profile_call: "profile_call w m \<Longrightarrow> hist.has m s"
  by (cases rule: profile_call.cases, assumption; hypsubst; rule hist.has_void; simp only: op_defs;
      intro hist.has_rules hist.has_bind history_ensure_user hist.has_commit history_same)
     (simp_all add: insert_pull_def insert_issue_def next_issue_number_def next_pull_number_def Let_def
        case_prod_beta)

lemma history_force_change: "hist.has (force_password_change_admitted env n l b) s"
  unfolding force_password_change_admitted_def Let_def
  by (intro hist.has_rules hist.has_if hist.has_commit)
     (auto intro!: history_advance_epoch history_accounts simp: account_grows_def)

lemma history_epoch_call: "epoch_call w m \<Longrightarrow> hist.has m s"
  by (cases rule: epoch_call.cases, assumption; hypsubst; rule hist.has_void; simp only: op_defs;
      intro hist.has_rules hist.has_if history_force_change; simp?; rule history_advance_epoch; simp)

lemma history_create_account: "hist.has (create_account_admitted env au l p r) s"
  unfolding create_account_admitted_def
  by (intro hist.has_rules hist.has_commit) (auto simp: Let_def intro!: history_accounts)

lemma history_creations:
  assumes "st_repository_mutation_blocks t = st_repository_mutation_blocks s"
    "st_repository_transfers t = st_repository_transfers s" "st_accounts t = st_accounts s"
    "st_bootstrap_owner_consumed t = st_bootstrap_owner_consumed s"
    "st_repository_creations t = bt_insert i c (st_repository_creations s)"
    "\<And>old. bt_get (st_repository_creations s) i = Some old \<Longrightarrow> creation_grows old c"
  shows "history s t"
  using history_refl [of s] assms by (simp add: history_def map_grows_insert)

lemma history_mark: "history s (mark_materialized i s)"
  by (auto simp: mark_materialized_def history_refl creation_grows_def
      intro!: history_creations split: option.split)

lemma history_reserve: "hist.has (reserve_repository env i ow r) s"
proof (cases "bt_get (st_repository_creations s) i")
  case None
  have "history s (snd (case insert_repository env i ow r s of (repo, t) \<Rightarrow> ((repo, False), t)))"
    by (simp add: insert_repository_def Let_def)
       (rule history_creations, auto simp: None)
  then have "hist.has (f_commit env 0 (\<lambda>s. case insert_repository env i ow r s of (repo, t) \<Rightarrow> ((repo, False), t))) s"
    by (rule hist.has_commit)
  then show ?thesis
    by (simp add: hist.has_def reserve_repository_def None Let_def history_refl)
qed (auto simp: hist.has_def reserve_repository_def Let_def history_refl split: option.split)

lemma history_create_repository: "hist.has (create_repository_with_id_admitted env mat i ow r) s"
  unfolding create_repository_with_id_admitted_def
  by (intro hist.has_rules hist.has_bind history_reserve)
     (auto intro!: hist.has_rules hist.has_commit history_mark)

lemma history_staged_call: "staged_call w m \<Longrightarrow> hist.has m s"
  by (cases rule: staged_call.cases, assumption; hypsubst; rule hist.has_void; simp only: op_defs Let_def;
      intro hist.has_rules history_create_repository hist.has_bind history_create_account history_force_change)
     (auto simp: Let_def hist.has_def [of "\<lambda>s. (Inr (f s), s)" for f] history_refl
        intro!: hist.has_rules hist.has_bind hist.has_commit history_same split: prod.split)

lemma history_transfers:
  assumes "st_repository_mutation_blocks t = st_repository_mutation_blocks s"
    "st_repository_creations t = st_repository_creations s" "st_accounts t = st_accounts s"
    "st_bootstrap_owner_consumed t = st_bootstrap_owner_consumed s"
    "st_repository_transfers t = bt_insert k j (st_repository_transfers s)"
    "\<And>old. bt_get (st_repository_transfers s) k = Some old \<Longrightarrow> transfer_grows old j"
  shows "history s t"
  using history_refl [of s] assms by (simp add: history_def map_grows_insert)

lemma transfer_entry_get:
  "transfer_entry i s = Inr (k, j) \<Longrightarrow> bt_get (st_repository_transfers s) k = Some j"
  by (auto simp: transfer_entry_def)

lemma rekey_frame:
  assumes "rekey_repository env j s = Inr t"
  shows "st_repository_mutation_blocks t = st_repository_mutation_blocks s"
    "st_repository_creations t = st_repository_creations s" "st_accounts t = st_accounts s"
    "st_bootstrap_owner_consumed t = st_bootstrap_owner_consumed s"
    "st_repository_transfers t = st_repository_transfers s"
  using assms by (auto simp: rekey_repository_def Let_def split: if_splits option.splits)

lemma history_block: "hist.has (block_repository_mutations env i b) s"
proof -
  have "hist.has (\<lambda>s. case bt_get (st_repository_mutation_blocks s) i of
        Some existing \<Rightarrow>
          if existing = b then (Ok existing, s)
          else (Err (ForgeConflict ''repository mutation restriction is already recorded''), s)
      | None \<Rightarrow>
          f_commit env 0 (\<lambda>s. (b, s\<lparr>st_repository_mutation_blocks :=
            bt_insert i b (st_repository_mutation_blocks s)\<rparr>)) s) s"
  proof (cases "bt_get (st_repository_mutation_blocks s) i")
    case None
    then have "history s (s\<lparr>st_repository_mutation_blocks := bt_insert i b (st_repository_mutation_blocks s)\<rparr>)"
      using history_refl [of s] by (auto simp: history_def map_grows_def)
    then have "hist.has (f_commit env 0 (\<lambda>s. (b, s\<lparr>st_repository_mutation_blocks :=
            bt_insert i b (st_repository_mutation_blocks s)\<rparr>))) s"
      by (intro hist.has_commit) simp
    with None show ?thesis by (simp add: hist.has_def)
  qed (simp add: hist.has_def history_refl)
  then show ?thesis
    unfolding block_repository_mutations_def by (intro hist.has_rules)
qed

lemma history_prepare: "hist.has (prepare_repository_transfer env r) s"
proof -
  have step: "hist.has (\<lambda>s. case bt_get (st_repository_transfers s) k of
      Some existing \<Rightarrow> (Inr existing, s) | None \<Rightarrow> m s) s"
    if "bt_get (st_repository_transfers s) k = None \<Longrightarrow> hist.has m s" for k and m :: "RepositoryTransferJournal forge"
    using that by (auto simp: hist.has_def history_refl split: option.split)
  show ?thesis
    unfolding prepare_repository_transfer_def
    by (intro hist.has_rules step hist.has_commit)
       (auto simp: Let_def intro!: history_transfers)
qed

lemma history_commit_transfer: "hist.has (commit_repository_transfer env hint i v) s"
proof -
  have step: "hist.has (\<lambda>s. case rekey_repository env j s of Inl e \<Rightarrow> (Inl e, s)
      | Inr t \<Rightarrow> f_commit env 0 (\<lambda>_. commit_rows env k j v t) s) s"
    if "bt_get (st_repository_transfers s) k = Some j" "rt_status j = TrPrepared" for k j
  proof (cases "rekey_repository env j s")
    case (Inr t)
    have "history s (snd (commit_rows env k j v t))"
      using that rekey_frame [OF Inr]
      by (intro history_transfers) (auto simp: commit_rows_def Let_def transfer_grows_def)
    then have "hist.has (f_commit env 0 (\<lambda>_. commit_rows env k j v t)) s" by (rule hist.has_commit)
    with Inr show ?thesis by (simp add: hist.has_def)
  qed (simp add: hist.has_def history_refl)
  show ?thesis
    unfolding commit_repository_transfer_def
    by (intro hist.has_rules)
       (auto split: RepositoryTransferStatus.split dest: transfer_entry_get intro!: step hist.has_rules)
qed

lemma history_fail_transfer: "hist.has (fail_repository_transfer env hint i v) s"
proof -
  have step: "history s (s\<lparr>st_repository_transfers := bt_insert k
      (j\<lparr>rt_status := TrFailed, rt_completed_at := Some t, rt_failure := Some v\<rparr>) (st_repository_transfers s)\<rparr>)"
    if "bt_get (st_repository_transfers s) k = Some j" "rt_status j = TrPrepared" for k j t
    using that by (intro history_transfers [where k = k]) (auto simp: transfer_grows_def)
  show ?thesis
    unfolding fail_repository_transfer_def
    by (intro hist.has_rules)
       (auto split: RepositoryTransferStatus.split simp: Let_def transfer_entry_get
          intro!: hist.has_rules hist.has_commit step)
qed

lemma history_record_review: "hist.has (record_review env hint ow re n au r d) s"
  unfolding record_review_def
  by (intro hist.has_rules hist.has_commit history_same) (simp_all add: insert_review_def Let_def)

lemma history_create_session: "hist.has (create_session_with_ttl_admitted env au l t) s"
  unfolding create_session_with_ttl_admitted_def Let_def
  by (intro hist.has_rules hist.has_commit history_same) simp_all

lemma history_complete_activation: "hist.has (complete_account_activation env au c p) s"
  unfolding complete_account_activation_def Let_def
  by (intro hist.has_rules hist.has_commit) (auto simp: consume_invitation_def Let_def intro!: history_accounts)

lemma history_refresh: "hist.has (refresh_pull_request_heads_for_ref env hint ow re ref sha) s"
proof -
  have "hist.has (\<lambda>s. let keys = head_keys s ow re ref in
      if keys = [] then (Inr [], s)
      else f_commit env 0 (\<lambda>s. fold (refresh_head env ow re sha) (enumerate 0 keys) ([], s)) s) s"
    using hist.has_commit [of s "\<lambda>s. fold (refresh_head env ow re sha) (enumerate 0 ks) ([], s)" env 0 for ks]
      history_same by (simp add: hist.has_def Let_def history_refl)
  then show ?thesis
    unfolding refresh_pull_request_heads_for_ref_def by (intro hist.has_rules)
qed

lemma history_user_admitted: "hist.has (create_user_admitted env l n e) s"
  unfolding create_user_admitted_def
  by (intro hist.has_rules hist.has_commit history_same) (simp_all add: Let_def)

lemma history_grant_admitted: "hist.has (grant_repo_access_admitted env ac l ow re lv) s"
  unfolding grant_repo_access_admitted_def
  by (intro hist.has_rules hist.has_commit history_same) (simp_all add: Let_def)

lemma history_revoke_admitted: "hist.has (revoke_repo_access_admitted env l ow re) s"
  unfolding revoke_repo_access_admitted_def
  by (intro hist.has_commit history_same) simp_all

lemma history_record_bound:
  "hist.has (record_bound_review env ren hint runtime db actor i n request dismissed digest) s"
  unfolding record_bound_review_def judge_review_def
  by (intro hist.has_rules hist.has_review_context hist.has_case_prod hist.has_case_option hist.has_if
      hist.has_accept_review history_same)
     (simp_all add: propose_review_def Let_def)

lemma history_challenge:
  "hist.has (create_review_challenge env au ren hint runtime db actor i n sha) s"
  unfolding create_review_challenge_def Let_def by (intro hist.has_rules hist.has_review_context)

lemmas history_parts =
  history_record_bound history_challenge
  history_block history_prepare history_commit_transfer history_fail_transfer history_record_review
  history_create_session history_complete_activation history_refresh history_user_admitted
  history_ensure_user history_create_account history_grant_admitted history_revoke_admitted

lemma history_atomic_call: "atomic_call w m \<Longrightarrow> hist.has m s"
  by (cases rule: atomic_call.cases, assumption; hypsubst; rule hist.has_void;
      (intro history_parts; fail
       | simp only: op_defs Let_def,
         intro hist.has_rules history_parts hist.has_if hist.has_commit history_same;
         simp add: Let_def drain_repository_def split: option.split))

lemma history_call: "forge_call w m \<Longrightarrow> history s (snd (m s))"
  using history_atomic_call history_profile_call history_epoch_call history_staged_call
  unfolding forge_call_def hist.has_def by blast

end
