(* ===== verification/Forge_Invariant.thy ===== *)
theory Forge_Invariant
  imports Forge_System
begin

text \<open>
  Every call of the core keeps the invariant of \<open>Forge_System\<close>: the rows of a repository are filed
  under it, numbers are handed out once, and no pull request is ever marked as merged. The proof
  follows the writes of each operation; the transfer and the deletion move or drop whole scopes.
\<close>

section \<open>Preservation of the invariant\<close>

definition preserves :: "ForgeState \<Rightarrow> ForgeState \<Rightarrow> bool" where
  "preserves s t \<longleftrightarrow> (forge_inv s \<longrightarrow> forge_inv t)"

interpretation keep: effect preserves
  by unfold_locales (simp_all add: preserves_def)

lemma preserves_frame:
  assumes "st_repos t = st_repos s" "st_counters t = st_counters s" "st_pulls t = st_pulls s"
    "st_issues t = st_issues s"
    "\<And>i. bt_get (st_repository_creations s) i \<noteq> None \<Longrightarrow> bt_get (st_repository_creations t) i \<noteq> None"
  shows "preserves s t"
  using assms
  by (auto simp: preserves_def forge_inv_def repos_ok_def counters_ok_def pulls_ok_def issues_ok_def
      issue_count_def pull_count_def)

lemma preserves_same:
  assumes "st_repos t = st_repos s" "st_counters t = st_counters s" "st_pulls t = st_pulls s"
    "st_issues t = st_issues s" "st_repository_creations t = st_repository_creations s"
  shows "preserves s t"
  using assms by (intro preserves_frame) simp_all

text \<open>The fields by which the invariant knows a pull request.\<close>

definition same_pull :: "ForgePull \<Rightarrow> ForgePull \<Rightarrow> bool" where
  "same_pull p q \<longleftrightarrow>
     fp_owner q = fp_owner p \<and> fp_repo q = fp_repo p \<and> fp_number q = fp_number p
     \<and> fp_merged q = fp_merged p \<and> fp_merged_at q = fp_merged_at p
     \<and> fp_merge_commit_sha q = fp_merge_commit_sha p"

lemma same_pull_trans: "same_pull p q \<Longrightarrow> same_pull q r \<Longrightarrow> same_pull p r"
  by (simp add: same_pull_def)

lemma same_pull_reevaluate: "same_pull p (reevaluate env s p)"
  by (simp add: same_pull_def reevaluate_def apply_evaluation_def)

lemma same_pull_edit: "same_pull p (edit_pull env r p)"
  by (simp add: same_pull_def edit_pull_def Let_def split: option.split)

lemma preserves_pull:
  assumes "st_repos t = st_repos s" "st_counters t = st_counters s"
    "st_pulls t = bt_insert k q (st_pulls s)" "st_issues t = st_issues s"
    "st_repository_creations t = st_repository_creations s"
    "bt_get (st_pulls s) k = Some p" "same_pull p q"
  shows "preserves s t"
proof -
  obtain ow nm n where k: "k = (ow, nm, n)" by (cases k)
  have "pulls_ok t" if "pulls_ok s"
    using that assms by (auto simp: pulls_ok_def pull_count_def same_pull_def k)
  then show ?thesis
    using assms by (auto simp: preserves_def forge_inv_def repos_ok_def counters_ok_def issues_ok_def
        issue_count_def)
qed

lemma preserves_refresh_one: "preserves s (refresh_one env k s)"
proof (cases "bt_get (st_pulls s) k")
  case (Some p)
  then show ?thesis
    by (intro preserves_pull [of _ s k "reevaluate env s p" p])
       (simp_all add: refresh_one_def same_pull_reevaluate)
qed (simp add: refresh_one_def preserves_def)

lemma preserves_fold: "(\<And>x s. preserves s (f x s)) \<Longrightarrow> preserves s (fold f xs s)"
  by (induction xs arbitrary: s) (auto simp: preserves_def)

lemma preserves_refresh: "preserves s (refresh_pull_mergeability_for_sha env ow re sha s)"
  unfolding refresh_pull_mergeability_for_sha_def by (intro preserves_fold preserves_refresh_one)

lemma preserves_emit: "preserves s (emit_event_locked env site ow re ev pl s)"
  by (rule preserves_same) simp_all

lemma preserves_trans: "preserves s t \<Longrightarrow> preserves t u \<Longrightarrow> preserves s u"
  by (simp add: preserves_def)

lemma preserves_then_emit:
  "preserves s t \<Longrightarrow> preserves s (emit_event_locked env site ow re ev pl t)"
  using preserves_emit preserves_trans by blast

lemma preserves_refresh_head:
  "preserves (snd acc) (snd (refresh_head env ow re sha ik acc))"
proof -
  obtain i k ps s where [simp]: "ik = (i, k)" "acc = (ps, s)" by (cases ik; cases acc)
  show ?thesis
  proof (cases "bt_get (st_pulls s) k")
    case (Some p)
    let ?p1 = "p\<lparr>fp_head := (fp_head p)\<lparr>gb_sha := sha\<rparr>, fp_updated_at := en_now env ''heads'' 0\<rparr>"
    let ?s1 = "s\<lparr>st_pulls := bt_insert k ?p1 (st_pulls s)\<rparr>"
    have "same_pull p (reevaluate env ?s1 ?p1)"
      by (rule same_pull_trans [OF _ same_pull_reevaluate]) (simp add: same_pull_def)
    with Some show ?thesis
      by (auto simp: refresh_head_def Let_def intro!: preserves_then_emit preserves_pull)
  qed (simp add: refresh_head_def preserves_def)
qed

lemma preserves_refresh_heads:
  "preserves (snd acc) (snd (fold (refresh_head env ow re sha) iks acc))"
proof (induction iks arbitrary: acc)
  case (Cons ik iks)
  then show ?case using preserves_trans [OF preserves_refresh_head Cons.IH] by simp
qed (simp add: preserves_def)

lemma preserves_issue:
  assumes "st_repos t = st_repos s" "st_counters t = st_counters s"
    "st_issues t = bt_insert k j (st_issues s)" "st_pulls t = st_pulls s"
    "st_repository_creations t = st_repository_creations s"
    "bt_get (st_issues s) k = Some i"
    "is_owner j = is_owner i" "is_repo j = is_repo i" "is_number j = is_number i"
  shows "preserves s t"
proof -
  obtain ow nm n where k: "k = (ow, nm, n)" by (cases k)
  have "issues_ok t" if "issues_ok s"
    using that assms by (auto simp: issues_ok_def issue_count_def k)
  then show ?thesis
    using assms by (auto simp: preserves_def forge_inv_def repos_ok_def counters_ok_def pulls_ok_def
        pull_count_def)
qed

section \<open>New numbers\<close>

lemma below_succ:
  fixes c :: u64
  assumes "c < - 1"
  shows "0 < c + 1" "n \<le> c \<Longrightarrow> n \<le> c + 1" "n \<le> c \<Longrightarrow> n < c + 1"
proof -
  have "unat (- 1 :: u64) = 2 ^ 64 - 1" by (simp add: unat_minus_one_word)
  with assms have "unat (c + 1) = unat c + 1"
    by (simp add: word_less_nat_alt unat_word_ariths)
  then show "0 < c + 1" "n \<le> c \<Longrightarrow> n \<le> c + 1" "n \<le> c \<Longrightarrow> n < c + 1"
    by (simp_all add: word_less_nat_alt word_le_nat_alt)
qed

lemma issue_numbered:
  assumes s: "forge_inv s" "ct_issue c < - 1" "bt_get (st_counters s) (ow, nm) = Some c"
    and t: "st_repos t = st_repos s" "st_repository_creations t = st_repository_creations s"
    "st_counters t = bt_insert (ow, nm) (c\<lparr>ct_issue := ct_issue c + 1\<rparr>) (st_counters s)"
    "st_issues t = bt_insert (ow, nm, ct_issue c + 1) i (st_issues s)" "st_pulls t = st_pulls s"
    and i: "is_owner i = ow" "is_repo i = nm" "is_number i = ct_issue c + 1"
  shows "forge_inv t"
proof -
  have repo: "bt_get (st_repos s) (ow, nm) \<noteq> None"
    using s by (auto simp: forge_inv_def counters_ok_def)
  note up = below_succ [OF s(2)]
  have "issue_count t a b = (if (a, b) = (ow, nm) then ct_issue c + 1 else issue_count s a b)"
    "pull_count t a b = pull_count s a b" for a b
    by (auto simp: issue_count_def pull_count_def t s)
  moreover have up2: "n \<le> issue_count s ow nm \<Longrightarrow> n \<le> ct_issue c + 1" for n
    using up(2) by (simp add: issue_count_def s)
  ultimately have "issues_ok t" "pulls_ok t"
    using s t i up(1) repo by (auto simp: forge_inv_def issues_ok_def pulls_ok_def intro!: up2)
  moreover have "repos_ok t" "counters_ok t"
    using s t repo by (auto simp: forge_inv_def repos_ok_def counters_ok_def)
  ultimately show ?thesis by (simp add: forge_inv_def)
qed

lemma pull_numbered:
  assumes s: "forge_inv s" "ct_pull c < - 1" "bt_get (st_counters s) (ow, nm) = Some c"
    and t: "st_repos t = st_repos s" "st_repository_creations t = st_repository_creations s"
    "st_counters t = bt_insert (ow, nm) (c\<lparr>ct_pull := ct_pull c + 1\<rparr>) (st_counters s)"
    "st_pulls t = bt_insert (ow, nm, ct_pull c + 1) p (st_pulls s)" "st_issues t = st_issues s"
    and p: "fp_owner p = ow" "fp_repo p = nm" "fp_number p = ct_pull c + 1"
    "\<not> fp_merged p" "fp_merged_at p = None" "fp_merge_commit_sha p = None"
  shows "forge_inv t"
proof -
  have repo: "bt_get (st_repos s) (ow, nm) \<noteq> None"
    using s by (auto simp: forge_inv_def counters_ok_def)
  note up = below_succ [OF s(2)]
  have "pull_count t a b = (if (a, b) = (ow, nm) then ct_pull c + 1 else pull_count s a b)"
    "issue_count t a b = issue_count s a b" for a b
    by (auto simp: issue_count_def pull_count_def t s)
  moreover have up2: "n \<le> pull_count s ow nm \<Longrightarrow> n \<le> ct_pull c + 1" for n
    using up(2) by (simp add: pull_count_def s)
  ultimately have "issues_ok t" "pulls_ok t"
    using s t p up(1) repo by (auto simp: forge_inv_def issues_ok_def pulls_ok_def intro!: up2)
  moreover have "repos_ok t" "counters_ok t"
    using s t repo by (auto simp: forge_inv_def repos_ok_def counters_ok_def)
  ultimately show ?thesis by (simp add: forge_inv_def)
qed

lemma inv_counters:
  "forge_inv s \<Longrightarrow> bt_get (st_repos s) k \<noteq> None \<Longrightarrow> \<exists>c. bt_get (st_counters s) k = Some c"
  by (cases k) (auto simp: forge_inv_def counters_ok_def)

lemma inv_room:
  assumes "forge_inv s" "room s" "bt_get (st_repos s) k \<noteq> None"
  obtains c where "bt_get (st_counters s) k = Some c" "ct_issue c < - 1" "ct_pull c < - 1"
proof -
  obtain c where c: "bt_get (st_counters s) k = Some c" using inv_counters [OF assms(1,3)] ..
  moreover from c have "ct_issue c < - 1 \<and> ct_pull c < - 1"
    using assms(2) unfolding room_def by (metis surj_pair)
  ultimately show thesis using that by blast
qed

lemma preserves_insert_issue:
  assumes "room s" "bt_get (st_repos s) (ow, nm) \<noteq> None"
  shows "preserves s (snd (insert_issue env ow nm au r s))"
  unfolding preserves_def
proof
  assume inv: "forge_inv s"
  obtain c where c: "bt_get (st_counters s) (ow, nm) = Some c" "ct_issue c < - 1"
    using inv_room [OF inv assms] .
  obtain i where "fst (insert_issue env ow nm au r s) = i" by blast
  then have "is_owner i = ow" "is_repo i = nm" "is_number i = ct_issue c + 1"
    "st_issues (snd (insert_issue env ow nm au r s)) = bt_insert (ow, nm, ct_issue c + 1) i (st_issues s)"
    by (auto simp: insert_issue_def next_issue_number_def Let_def c)
  with c show "forge_inv (snd (insert_issue env ow nm au r s))"
    by (intro issue_numbered [OF inv]) (simp_all add: insert_issue_def next_issue_number_def Let_def)
qed

lemma reevaluate_fields:
  "fp_owner (reevaluate env s p) = fp_owner p" "fp_repo (reevaluate env s p) = fp_repo p"
  "fp_number (reevaluate env s p) = fp_number p" "fp_merged (reevaluate env s p) = fp_merged p"
  "fp_merged_at (reevaluate env s p) = fp_merged_at p"
  "fp_merge_commit_sha (reevaluate env s p) = fp_merge_commit_sha p"
  using same_pull_reevaluate [of p env s] by (simp_all add: same_pull_def)

lemma preserves_insert_pull:
  assumes "room s" "bt_get (st_repos s) (ow, nm) \<noteq> None"
  shows "preserves s (snd (insert_pull env ow nm au r s))"
  unfolding preserves_def
proof
  assume inv: "forge_inv s"
  obtain c where c: "bt_get (st_counters s) (ow, nm) = Some c" "ct_issue c < - 1" "ct_pull c < - 1"
    using inv_room [OF inv assms] .
  obtain i p where [simp]: "c = \<lparr>ct_issue = i, ct_pull = p\<rparr>" by (cases c)
  let ?m = "ct_pull c + 1" and ?n = "ct_issue c + 1" and ?t = "insert_pull env ow nm au r s"
  let ?c = "c\<lparr>ct_pull := ?m\<rparr>"
  let ?u = "s\<lparr>st_counters := bt_insert (ow, nm) ?c (st_counters s),
              st_pulls := bt_insert (ow, nm, ?m) (fst ?t) (st_pulls s)\<rparr>"
  have "forge_inv ?u"
    by (rule pull_numbered [where p = "fst ?t", OF inv c(3,1)])
       (simp_all add: insert_pull_def next_issue_number_def next_pull_number_def Let_def c
          reevaluate_fields new_pull_def)
  moreover have "ct_issue ?c < - 1" "bt_get (st_counters ?u) (ow, nm) = Some ?c" using c by simp_all
  ultimately show "forge_inv (snd ?t)"
    by (rule issue_numbered [where i = "pull_issue env ow nm au ?n ?m r"])
       (simp_all add:  insert_pull_def next_issue_number_def next_pull_number_def Let_def c
          pull_issue_def)
qed

section \<open>Scopes\<close>

text \<open>Lookups after the removal or the move of all rows of a repository.\<close>

lemma get_fold_remove: "bt_get (fold bt_remove ks m) k = (if k \<in> set ks then None else bt_get m k)"
  by (induction ks arbitrary: m) simp_all

lemma wf_fold: "(\<And>k m. bt_wf m \<Longrightarrow> bt_wf (g k m)) \<Longrightarrow> bt_wf m \<Longrightarrow> bt_wf (fold g ks m)"
  by (induction ks arbitrary: m) simp_all

lemma wf_fold_remove: "bt_wf m \<Longrightarrow> bt_wf (fold bt_remove ks m)"
  by (intro wf_fold bt_wf_remove)

lemma get_drain_scoped:
  "bt_get (snd (drain_scoped ow nm m)) k = (if scoped ow nm k then None else bt_get m k)"
proof -
  have "k \<in> fst ` set m \<or> bt_get m k = None" by (auto simp: map_of_eq_None_iff)
  then show ?thesis by (auto simp: drain_scoped_def Let_def get_fold_remove)
qed

lemma wf_drain_scoped: "bt_wf m \<Longrightarrow> bt_wf (snd (drain_scoped ow nm m))"
  by (simp add: drain_scoped_def Let_def wf_fold_remove)

lemma scoped_iff [simp]: "scoped ow nm (a, b, c) \<longleftrightarrow> a = ow \<and> b = nm"
  by (simp add: scoped_def)

lemma preserves_drain: "preserves s (snd (drain_repository ow nm r s))"
  unfolding preserves_def
proof
  let ?t = "snd (drain_repository ow nm r s)"
  assume inv: "forge_inv s"
  have count: "issue_count ?t a b = (if (a, b) = (ow, nm) then 0 else issue_count s a b)"
    "pull_count ?t a b = (if (a, b) = (ow, nm) then 0 else pull_count s a b)" for a b
    by (auto simp: issue_count_def pull_count_def drain_repository_def Let_def take_row_def)
  have "repos_ok ?t" "counters_ok ?t"
    using inv by (auto simp: forge_inv_def repos_ok_def counters_ok_def drain_repository_def Let_def take_row_def)
  moreover have "pulls_ok ?t" "issues_ok ?t"
    using inv unfolding forge_inv_def pulls_ok_def issues_ok_def count
    by (auto simp: drain_repository_def Let_def get_drain_scoped wf_drain_scoped)
  ultimately show "forge_inv ?t" by (simp add: forge_inv_def)
qed

text \<open>A transfer moves the rows of the source into an empty scope.\<close>

lemma get_rekey_pairs:
  assumes "bt_get m new = None" "old \<noteq> new"
  shows "bt_get (rekey_pairs old new f m) k =
    (if k = new then map_option f (bt_get m old) else if k = old then None else bt_get m k)"
  using assms by (auto simp: rekey_pairs_def split: option.split)

lemma get_rekey_step:
  assumes "bt_get m (u, v, x) = None" "(p, q) \<noteq> (u, v)"
  shows "bt_get (rekey_triple_step (u, v) f (p, q, x) m) k =
    (if k = (u, v, x) then map_option f (bt_get m (p, q, x))
     else if k = (p, q, x) then None else bt_get m k)"
  using assms by (auto simp: rekey_triple_step_def split: option.split)

lemma get_rekey_fold:
  assumes "distinct xs" "(p, q) \<noteq> (u, v)" "\<forall>x\<in>set xs. bt_get m (u, v, x) = None"
  shows "bt_get (fold (rekey_triple_step (u, v) f) (map (\<lambda>x. (p, q, x)) xs) m) (a, b, n) =
    (if (a, b) = (u, v) \<and> n \<in> set xs then map_option f (bt_get m (p, q, n))
     else if (a, b) = (p, q) \<and> n \<in> set xs then None else bt_get m (a, b, n))"
  using assms
proof (induction xs arbitrary: m)
  case (Cons x xs)
  let ?m = "rekey_triple_step (u, v) f (p, q, x) m"
  have step: "bt_get ?m k = (if k = (u, v, x) then map_option f (bt_get m (p, q, x))
     else if k = (p, q, x) then None else bt_get m k)" for k
    using Cons.prems by (intro get_rekey_step) auto
  have "bt_get ?m (u, v, y) = None" if "y \<in> set xs" for y
    using that Cons.prems unfolding step by auto
  with Cons have "bt_get (fold (rekey_triple_step (u, v) f) (map (\<lambda>x. (p, q, x)) (x # xs)) m) (a, b, n) =
    (if (a, b) = (u, v) \<and> n \<in> set xs then map_option f (bt_get ?m (p, q, n))
     else if (a, b) = (p, q) \<and> n \<in> set xs then None else bt_get ?m (a, b, n))"
    by simp
  with Cons.prems show ?case
    unfolding step by (cases "n = x") auto
qed simp

lemma scope_keys:
  "filter (scoped p q) (map fst m) = map (\<lambda>x. (p, q, x)) (map (\<lambda>k. snd (snd k)) (filter (scoped p q) (map fst m)))"
  unfolding map_map by (rule map_idI [symmetric]) (auto simp: scoped_def)

lemma get_rekey_triples:
  assumes "bt_wf m" "(p, q) \<noteq> (u, v)" "\<And>x. bt_get m (u, v, x) = None"
  shows "bt_get (rekey_triples (p, q) (u, v) f m) (a, b, n) =
    (if (a, b) = (u, v) then map_option f (bt_get m (p, q, n))
     else if (a, b) = (p, q) then None else bt_get m (a, b, n))"
proof -
  let ?xs = "map (\<lambda>k. snd (snd k)) (filter (scoped p q) (map fst m))"
  have "distinct (filter (scoped p q) (map fst m))" using bt_wf_distinct [OF assms(1)] by simp
  then have "distinct ?xs" by (auto simp: distinct_map inj_on_def scoped_def)
  moreover have "n \<in> set ?xs \<longleftrightarrow> bt_get m (p, q, n) \<noteq> None" for n
    by (force simp: map_of_eq_None_iff)
  ultimately show ?thesis
    using get_rekey_fold [of ?xs p q u v m f a b n] assms(2,3)
    unfolding rekey_triples_def fst_conv snd_conv by (subst scope_keys) auto
qed

lemma wf_rekey_step: "bt_wf m \<Longrightarrow> bt_wf (rekey_triple_step new f k m)"
  by (auto simp: rekey_triple_step_def split: option.split)

lemma wf_rekey_triples: "bt_wf m \<Longrightarrow> bt_wf (rekey_triples old new f m)"
  unfolding rekey_triples_def by (intro wf_fold wf_rekey_step)

lemma wf_rekey_pairs: "bt_wf m \<Longrightarrow> bt_wf (rekey_pairs old new f m)"
  by (auto simp: rekey_pairs_def split: option.split)

lemma unfiled:
  assumes "forge_inv s" "bt_get (st_repos s) (u, v) = None"
  shows "bt_get (st_pulls s) (u, v, n) = None" "bt_get (st_issues s) (u, v, n) = None"
    "bt_get (st_counters s) (u, v) = None"
proof -
  have "bt_get (st_pulls s) (u, v, n) \<noteq> None \<Longrightarrow> bt_get (st_repos s) (u, v) \<noteq> None"
    "bt_get (st_issues s) (u, v, n) \<noteq> None \<Longrightarrow> bt_get (st_repos s) (u, v) \<noteq> None"
    "bt_get (st_counters s) (u, v) \<noteq> None \<Longrightarrow> bt_get (st_repos s) (u, v) \<noteq> None"
    using assms(1) by (auto simp: forge_inv_def pulls_ok_def issues_ok_def counters_ok_def)
  with assms(2) show "bt_get (st_pulls s) (u, v, n) = None" "bt_get (st_issues s) (u, v, n) = None"
    "bt_get (st_counters s) (u, v) = None" by blast+
qed

lemma rekey_pull_fields:
  "fp_owner (rekey_pull old new p) = fst new" "fp_repo (rekey_pull old new p) = snd new"
  "fp_number (rekey_pull old new p) = fp_number p" "fp_merged (rekey_pull old new p) = fp_merged p"
  "fp_merged_at (rekey_pull old new p) = fp_merged_at p"
  "fp_merge_commit_sha (rekey_pull old new p) = fp_merge_commit_sha p"
  by (simp_all add: rekey_pull_def Let_def)

lemma repos_ok_moved:
  assumes inv: "repos_ok s" and old: "bt_get (st_repos s) k = Some r"
    and wft: "bt_wf (st_repos t)"
    and get: "\<And>j. bt_get (st_repos t) j =
      (if j = (u, v) then Some r' else if j = k then None else bt_get (st_repos s) j)"
    and t: "st_repository_creations t = st_repository_creations s"
    and r': "re_owner r' = u" "re_name r' = v" "re_full_name r' = u @ ''/'' @ v" "re_id r' = re_id r"
  shows "repos_ok t"
proof -
  have row: "\<And>a b x. bt_get (st_repos s) (a, b) = Some x \<Longrightarrow> re_owner x = a \<and> re_name x = b
        \<and> re_full_name x = a @ ''/'' @ b \<and> bt_get (st_repository_creations s) (re_id x) \<noteq> None"
    and inj: "\<And>k1 k2 x y. bt_get (st_repos s) k1 = Some x \<Longrightarrow> bt_get (st_repos s) k2 = Some y \<Longrightarrow>
        re_id x = re_id y \<Longrightarrow> k1 = k2"
    using inv unfolding repos_ok_def by blast+
  have journal: "bt_get (st_repository_creations s) (re_id r) \<noteq> None"
    using row [of "fst k" "snd k" r] old by simp
  have moved: "j = (u, v)" if "bt_get (st_repos t) j = Some x" "re_id x = re_id r" for j x
    using that inj [OF _ old, of j x] by (auto simp: get split: if_splits)
  show ?thesis
    unfolding repos_ok_def
  proof (intro conjI allI impI)
    show "bt_wf (st_repos t)" by (fact wft)
  next
    fix a b x assume "bt_get (st_repos t) (a, b) = Some x"
    then show "re_owner x = a" "re_name x = b" "re_full_name x = a @ ''/'' @ b"
      "bt_get (st_repository_creations t) (re_id x) \<noteq> None"
      using row [of a b x] r' journal by (auto simp: get t split: if_splits)
  next
    fix k1 k2 x y
    assume xy: "bt_get (st_repos t) k1 = Some x" "bt_get (st_repos t) k2 = Some y" "re_id x = re_id y"
    show "k1 = k2"
    proof (cases "re_id x = re_id r")
      case True
      then show ?thesis using moved [OF xy(1)] moved [OF xy(2)] xy(3) by simp
    next
      case False
      then have "k1 \<noteq> (u, v)" "k2 \<noteq> (u, v)" using xy r' by (auto simp: get)
      then show ?thesis using xy inj [of k1 x k2 y] by (simp add: get split: if_splits)
    qed
  qed
qed

lemma moved_inv:
  assumes inv: "forge_inv s" and free: "bt_get (st_repos s) (u, v) = None"
    and old: "bt_get (st_repos s) (p, q) = Some r"
    and t: "st_repos t = bt_insert (u, v) r' (bt_remove (p, q) (st_repos s))"
    "st_repository_creations t = st_repository_creations s"
    "st_counters t = rekey_pairs (p, q) (u, v) (\<lambda>x. x) (st_counters s)"
    "st_issues t = rekey_triples (p, q) (u, v) (\<lambda>i. i\<lparr>is_owner := u, is_repo := v\<rparr>) (st_issues s)"
    "st_pulls t = rekey_triples (p, q) (u, v) (rekey_pull (p, q) (u, v)) (st_pulls s)"
    and r': "re_owner r' = u" "re_name r' = v" "re_full_name r' = u @ ''/'' @ v" "re_id r' = re_id r"
  shows "forge_inv t"
proof -
  have ne: "(p, q) \<noteq> (u, v)" using free old by auto
  note none = unfiled [OF inv free]
  have wf: "bt_wf (st_issues s)" "bt_wf (st_pulls s)"
    using inv by (simp_all add: forge_inv_def issues_ok_def pulls_ok_def)
  have counters: "bt_get (st_counters t) k = (if k = (u, v) then bt_get (st_counters s) (p, q)
      else if k = (p, q) then None else bt_get (st_counters s) k)" for k
    using get_rekey_pairs [OF none(3) ne, of "\<lambda>x. x" k] by (simp add: t option.map_ident)
  have counts: "issue_count t a b = (if (a, b) = (u, v) then issue_count s p q
      else if (a, b) = (p, q) then 0 else issue_count s a b)"
    "pull_count t a b = (if (a, b) = (u, v) then pull_count s p q
      else if (a, b) = (p, q) then 0 else pull_count s a b)" for a b
    by (auto simp: issue_count_def pull_count_def counters)
  have issues: "bt_get (st_issues t) (a, b, n) =
      (if (a, b) = (u, v) then map_option (\<lambda>i. i\<lparr>is_owner := u, is_repo := v\<rparr>) (bt_get (st_issues s) (p, q, n))
       else if (a, b) = (p, q) then None else bt_get (st_issues s) (a, b, n))" for a b n
    unfolding t by (rule get_rekey_triples [OF wf(1) ne none(2)])
  have pulls: "bt_get (st_pulls t) (a, b, n) =
      (if (a, b) = (u, v) then map_option (rekey_pull (p, q) (u, v)) (bt_get (st_pulls s) (p, q, n))
       else if (a, b) = (p, q) then None else bt_get (st_pulls s) (a, b, n))" for a b n
    unfolding t by (rule get_rekey_triples [OF wf(2) ne none(1)])
  have "issues_ok t"
    using inv old ne wf unfolding issues_ok_def issues counts
    by (auto simp: t forge_inv_def issues_ok_def wf_rekey_triples split: if_splits)
  moreover have "pulls_ok t"
    using inv old ne wf unfolding pulls_ok_def pulls counts
    by (auto simp: t forge_inv_def pulls_ok_def wf_rekey_triples rekey_pull_fields split: if_splits)
  moreover have "counters_ok t"
    using inv old ne unfolding counters_ok_def counters
    by (auto simp: t forge_inv_def counters_ok_def wf_rekey_pairs)
  moreover have "repos_ok t"
    using inv by (intro repos_ok_moved [OF _ old _ _ t(2) r'])
      (auto simp: t forge_inv_def repos_ok_def)
  ultimately show ?thesis by (simp add: forge_inv_def)
qed

section \<open>Repositories\<close>

lemma preserves_repo:
  assumes "bt_get (st_repos s) (ow, nm) = Some r" "st_repos t = bt_insert (ow, nm) r' (st_repos s)"
    "st_repository_creations t = st_repository_creations s" "st_counters t = st_counters s"
    "st_pulls t = st_pulls s" "st_issues t = st_issues s"
    "re_owner r' = re_owner r" "re_name r' = re_name r" "re_full_name r' = re_full_name r" "re_id r' = re_id r"
  shows "preserves s t"
  unfolding preserves_def
proof
  assume inv: "forge_inv s"
  then have "re_owner r = ow" "re_name r = nm" "re_full_name r = ow @ ''/'' @ nm" "bt_wf (st_repos s)"
    using assms(1) by (simp_all add: forge_inv_def repos_ok_def)
  then have "repos_ok t"
    using inv assms by (intro repos_ok_moved [of s "(ow, nm)" r t ow nm r']) (auto simp: forge_inv_def)
  with inv assms show "forge_inv t"
    by (auto simp: forge_inv_def counters_ok_def pulls_ok_def issues_ok_def issue_count_def pull_count_def)
qed

lemma preserves_insert_repository:
  assumes "bt_get (st_repos s) (ow, crq_name rq) = None" "\<not> list_ex (\<lambda>repo. re_id repo = i) (bt_values (st_repos s))"
  shows "preserves s (snd (insert_repository env i ow rq s))"
  unfolding preserves_def
proof
  let ?t = "snd (insert_repository env i ow rq s)" and ?k = "(ow, crq_name rq)"
  let ?r = "new_repository env i ow rq"
  assume inv: "forge_inv s"
  have t: "st_repos ?t = bt_insert ?k ?r (st_repos s)"
    "st_counters ?t = bt_insert ?k Counters_default (st_counters s)"
    "st_pulls ?t = st_pulls s" "st_issues ?t = st_issues s"
    "bt_get (st_repository_creations ?t) j \<noteq> None \<longleftrightarrow> j = i \<or> bt_get (st_repository_creations s) j \<noteq> None" for j
    by (simp_all add: insert_repository_def Let_def)
  have r: "re_id ?r = i" "re_owner ?r = ow" "re_name ?r = crq_name rq" "re_full_name ?r = ow @ ''/'' @ crq_name rq"
    by (simp_all add: new_repository_def)
  have rs: "repos_ok s" using inv by (simp add: forge_inv_def)
  have fresh: "re_id x \<noteq> i" if "bt_get (st_repos s) k = Some x" for k x
  proof -
    have "x \<in> set (bt_values (st_repos s))"
      using that bt_values_iff [of "st_repos s" x] rs unfolding repos_ok_def by blast
    then show ?thesis using assms(2) by (auto simp: list_ex_iff)
  qed
  note none = unfiled [OF inv assms(1)]
  have counts: "issue_count ?t a b = issue_count s a b" "pull_count ?t a b = pull_count s a b" for a b
    using none(3) by (auto simp: issue_count_def pull_count_def t Counters_default_def)
  have "repos_ok ?t"
    unfolding repos_ok_def
  proof (intro conjI allI impI)
    show "bt_wf (st_repos ?t)" using rs by (auto simp: t repos_ok_def)
  next
    fix a b x assume "bt_get (st_repos ?t) (a, b) = Some x"
    then show "re_owner x = a" "re_name x = b" "re_full_name x = a @ ''/'' @ b"
      "bt_get (st_repository_creations ?t) (re_id x) \<noteq> None"
      using rs r unfolding t(5) by (auto simp: t(1) repos_ok_def split: if_splits)
  next
    fix k1 k2 x y
    assume "bt_get (st_repos ?t) k1 = Some x" "bt_get (st_repos ?t) k2 = Some y" "re_id x = re_id y"
    moreover from this fresh [of k1 x] fresh [of k2 y] have "k1 = ?k \<longleftrightarrow> k2 = ?k"
      by (auto simp: t(1) r split: if_splits)
    ultimately show "k1 = k2"
      using rs unfolding t(1) repos_ok_def by (metis bt_get_insert)
  qed
  moreover have "counters_ok ?t" using inv by (auto simp: forge_inv_def counters_ok_def t)
  moreover have "pulls_ok ?t" "issues_ok ?t"
    using inv by (auto simp: forge_inv_def pulls_ok_def issues_ok_def t counts)
  ultimately show "forge_inv ?t" by (simp add: forge_inv_def)
qed

section \<open>The calls\<close>

lemma preserves_mark: "preserves s (mark_materialized i s)"
  by (cases "bt_get (st_repository_creations s) i")
     (auto simp: mark_materialized_def preserves_def [of s s] intro!: preserves_frame)

lemma keep_reserve: "keep.has (reserve_repository env i ow r) s"
proof (cases "bt_get (st_repository_creations s) i")
  case None
  have "keep.has (f_commit env 0 (\<lambda>s. case insert_repository env i ow r s of (repo, t) \<Rightarrow> ((repo, False), t))) s"
    if "bt_get (st_repos s) (ow, crq_name r) = None" "\<not> list_ex (\<lambda>repo. re_id repo = i) (bt_values (st_repos s))"
    using preserves_insert_repository [OF that] by (intro keep.has_commit) (simp add: case_prod_beta)
  then show ?thesis
    by (auto simp: keep.has_def reserve_repository_def None Let_def preserves_def [of s s])
qed (auto simp: keep.has_def reserve_repository_def Let_def preserves_def split: option.split)

lemma keep_create_repository: "keep.has (create_repository_with_id_admitted env mat i ow r) s"
  unfolding create_repository_with_id_admitted_def
  by (intro keep.has_rules keep.has_bind keep_reserve)
     (auto intro!: keep.has_rules keep.has_commit preserves_mark)

lemma keep_ensure_user: "keep.has (ensure_user_admitted env l) s"
  using ensure_user_effect [of s env l]
  by (auto simp: keep.has_def profile_only_def preserves_def [of s s] intro!: preserves_same)

text \<open>What follows a profile sees the repositories and counters of the state before it.\<close>

lemma keep_after_profile:
  assumes "\<And>x t. st_repos t = st_repos s \<Longrightarrow> room t = room s \<Longrightarrow> keep.has (k x) t"
  shows "keep.has (f_bind (ensure_user_admitted env l) k) s"
proof (rule keep.has_bind [OF keep_ensure_user])
  fix x t assume "ensure_user_admitted env l s = (Inr x, t)"
  with ensure_user_effect [of s env l] have "st_repos t = st_repos s" "st_counters t = st_counters s"
    by (auto simp: profile_only_def)
  then show "keep.has (k x) t" by (intro assms) (simp_all add: room_def)
qed

lemma repo_found: "ensure_repo_exists ow re s = Inr x \<Longrightarrow> bt_get (st_repos s) (ow, re) \<noteq> None"
  by (auto simp: ensure_repo_exists_def get_repository_def)

lemma issue_found: "get_issue s ow re n = Inr i \<Longrightarrow> bt_get (st_issues s) (ow, re, n) = Some i"
  by (auto simp: get_issue_def)

lemma keep_create_issue: "room s \<Longrightarrow> keep.has (create_issue env hint ow re au r) s"
  unfolding create_issue_def
  by (intro keep.has_rules keep_after_profile keep.has_commit preserves_insert_issue)
     (auto dest: repo_found)

lemma keep_create_pull: "room s \<Longrightarrow> keep.has (create_pull_request env hint ow re au r) s"
  unfolding create_pull_request_def
  by (intro keep.has_rules keep_after_profile keep.has_commit preserves_insert_pull)
     (auto dest: repo_found)

lemma keep_comment: "keep.has (add_issue_comment env hint ow re n au b) s"
  unfolding add_issue_comment_def
  by (intro keep.has_rules keep_after_profile keep.has_commit)
     (auto simp: Let_def dest!: issue_found intro!: preserves_then_emit preserves_issue)

lemma preserves_then_refresh:
  "preserves s t \<Longrightarrow> preserves s (refresh_pull_mergeability_for_sha env ow re sha t)"
  "preserves s t \<Longrightarrow> preserves s (refresh_one env k t)"
  using preserves_refresh preserves_refresh_one preserves_trans by blast+

lemma keep_status: "keep.has (create_commit_status env hint ow re sha cr r) s"
  unfolding create_commit_status_def
  by (intro keep.has_rules keep_after_profile keep.has_commit)
     (auto simp: Let_def intro!: preserves_then_emit preserves_then_refresh preserves_same)

lemma keep_check_run: "keep.has (create_check_run env hint ow re r) s"
  unfolding create_check_run_def
  by (intro keep.has_rules keep.has_commit)
     (auto simp: Let_def intro!: preserves_then_emit preserves_then_refresh preserves_same)

lemma keep_record_review: "keep.has (record_review env hint ow re n au r d) s"
  unfolding record_review_def
  by (intro keep.has_rules keep.has_commit)
     (auto simp: insert_review_def Let_def intro!: preserves_then_emit preserves_then_refresh preserves_same)

lemma keep_update_issue: "keep.has (update_issue env hint ow re n r) s"
  unfolding update_issue_def
  by (intro keep.has_rules keep.has_commit)
     (auto simp: Let_def edit_issue_def dest!: issue_found intro!: preserves_then_emit preserves_issue
        split: option.split)

lemma keep_update_pull: "keep.has (update_pull_request env hint ow re n r) s"
proof -
  have "same_pull p (reevaluate env t (edit_pull env r p))" for t p
    by (rule same_pull_trans [OF same_pull_edit same_pull_reevaluate])
  then show ?thesis
    unfolding update_pull_request_def
    by (intro keep.has_rules keep.has_commit)
       (auto simp: Let_def intro!: preserves_then_emit preserves_pull)
qed

lemma keep_refresh_heads: "keep.has (refresh_pull_request_heads_for_ref env hint ow re ref sha) s"
proof -
  have "keep.has (\<lambda>s. let keys = head_keys s ow re ref in
      if keys = [] then (Inr [], s)
      else f_commit env 0 (\<lambda>s. fold (refresh_head env ow re sha) (enumerate 0 keys) ([], s)) s) s"
    using preserves_refresh_heads [of "([], s)" env ow re sha "enumerate 0 ks" for ks]
      keep.has_commit [of s "\<lambda>s. fold (refresh_head env ow re sha) (enumerate 0 ks) ([], s)" env 0 for ks]
    by (simp add: keep.has_def Let_def preserves_def [of s s])
  then show ?thesis
    unfolding refresh_pull_request_heads_for_ref_def by (intro keep.has_rules)
qed

lemma keep_visibility: "keep.has (set_repository_visibility env hint mx ow re p) s"
  unfolding set_repository_visibility_def
  by (intro keep.has_rules keep.has_if keep.has_commit)
     (auto simp: Let_def intro!: keep.has_rules keep.has_commit preserves_repo)

lemma keep_family: "keep.has (set_repository_family_for_identity env hint ow re i fam) s"
  unfolding set_repository_family_for_identity_def
  by (intro keep.has_rules keep.has_if keep.has_commit) (auto simp: Let_def intro!: preserves_repo)

lemma keep_delete: "keep.has (delete_repository env hint ow re) s"
  unfolding delete_repository_def by (intro keep.has_rules keep.has_commit preserves_drain)

lemma preserves_rekey:
  assumes "rekey_repository env j s = Inr t"
  shows "preserves s t"
  unfolding preserves_def
proof
  let ?p = "rt_source_owner j" and ?q = "rt_source_name j"
  let ?u = "rt_destination_owner j" and ?v = "rt_destination_name j"
  assume inv: "forge_inv s"
  define moved where "moved r = r\<lparr>re_owner := ?u, re_name := ?v, re_full_name := ?u @ ''/'' @ ?v,
     re_updated_at := en_now env ''transfer'' 0\<rparr>" for r :: Repository
  obtain r where r: "bt_get (st_repos s) (?u, ?v) = None" "bt_get (st_repos s) (?p, ?q) = Some r"
    and t: "t = rekey_rows (?p, ?q) (?u, ?v)
      (s\<lparr>st_repos := bt_insert (?u, ?v) (moved r) (bt_remove (?p, ?q) (st_repos s))\<rparr>)"
    using assms by (auto simp: rekey_repository_def moved_def Let_def split: if_splits option.splits)
  show "forge_inv t"
    by (rule moved_inv [OF inv r, where r' = "moved r"]) (simp_all add: t rekey_rows_def moved_def)
qed

lemma keep_commit_transfer: "keep.has (commit_repository_transfer env hint i v) s"
proof -
  have "keep.has (\<lambda>s. case rekey_repository env j s of Inl e \<Rightarrow> (Inl e, s)
      | Inr t \<Rightarrow> f_commit env 0 (\<lambda>_. commit_rows env k j v t) s) s" for k j
  proof (cases "rekey_repository env j s")
    case (Inr t)
    have "preserves t (snd (commit_rows env k j v t))"
      by (intro preserves_same) (simp_all add: commit_rows_def Let_def)
    then have "keep.has (f_commit env 0 (\<lambda>_. commit_rows env k j v t)) s"
      using preserves_rekey [OF Inr] by (intro keep.has_commit) (rule preserves_trans)
    with Inr show ?thesis by (simp add: keep.has_def)
  qed (simp add: keep.has_def preserves_def)
  then show ?thesis
    unfolding commit_repository_transfer_def
    by (intro keep.has_rules)
       (auto split: RepositoryTransferStatus.split intro!: keep.has_rules)
qed

lemma keep_advance_epoch: "keep.has (advance_epoch env n l a) s"
proof (cases "next_auth_epoch (ua_auth_epoch a)")
  case (Inr epoch)
  have "keep.has (f_commit env n (\<lambda>s.
      let updated = a\<lparr>ua_auth_epoch := epoch, ua_updated_at := en_now env ''account update'' n\<rparr>
      in (AccountSummary_from updated, drop_credentials l (put_account l updated s)))) s"
    by (intro keep.has_commit preserves_same) (simp_all add: Let_def)
  with Inr show ?thesis by (simp add: keep.has_def advance_epoch_def)
qed (auto simp: keep.has_def advance_epoch_def intro!: preserves_same)

lemma keep_force_change: "keep.has (force_password_change_admitted env n l b) s"
  unfolding force_password_change_admitted_def Let_def
  by (intro keep.has_rules keep.has_if keep.has_commit) (auto intro!: keep_advance_epoch preserves_same)

lemma keep_create_account: "keep.has (create_account_admitted env au l p r) s"
  unfolding create_account_admitted_def
  by (intro keep.has_rules keep.has_commit preserves_same) (simp_all add: Let_def)

lemma keep_epoch_call: "epoch_call w m \<Longrightarrow> keep.has m s"
  by (cases rule: epoch_call.cases, assumption; hypsubst; rule keep.has_void; simp only: op_defs;
      intro keep.has_rules keep.has_if keep_force_change keep_advance_epoch; simp?)

lemma keep_staged_call: "staged_call w m \<Longrightarrow> keep.has m s"
  by (cases rule: staged_call.cases, assumption; hypsubst; rule keep.has_void; simp only: op_defs Let_def;
      intro keep.has_rules keep_create_repository keep.has_bind keep_create_account keep_force_change)
     (auto simp: Let_def keep.has_def [of "\<lambda>s. (Inr (f s), s)" for f] preserves_def [of s s for s]
        intro!: keep.has_rules keep.has_bind keep.has_commit preserves_same split: prod.split)

lemma keep_profile_call: "profile_call w m \<Longrightarrow> room s \<Longrightarrow> keep.has m s"
  by (cases rule: profile_call.cases, assumption; hypsubst; rule keep.has_void)
     (intro keep_create_pull keep_status keep_create_issue keep_comment; assumption)+

lemma keep_block: "keep.has (block_repository_mutations env i b) s"
proof -
  have "keep.has (\<lambda>s. case bt_get (st_repository_mutation_blocks s) i of
        Some existing \<Rightarrow>
          if existing = b then (Ok existing, s)
          else (Err (ForgeConflict ''repository mutation restriction is already recorded''), s)
      | None \<Rightarrow>
          f_commit env 0 (\<lambda>s. (b, s\<lparr>st_repository_mutation_blocks :=
            bt_insert i b (st_repository_mutation_blocks s)\<rparr>)) s) s"
    by (auto simp: keep.has_def f_commit_def preserves_def [of s s] intro!: preserves_same
        split: option.split sum.split)
  then show ?thesis
    unfolding block_repository_mutations_def by (intro keep.has_rules)
qed

lemma keep_prepare: "keep.has (prepare_repository_transfer env r) s"
proof -
  have step: "keep.has (\<lambda>s. case bt_get (st_repository_transfers s) k of
      Some existing \<Rightarrow> (Inr existing, s) | None \<Rightarrow> m s) s"
    if "keep.has m s" for k and m :: "RepositoryTransferJournal forge"
    using that by (auto simp: keep.has_def preserves_def [of s s] split: option.split)
  show ?thesis
    unfolding prepare_repository_transfer_def
    by (intro keep.has_rules step keep.has_commit preserves_same) (simp_all add: Let_def)
qed

lemma keep_fail_transfer: "keep.has (fail_repository_transfer env hint i v) s"
  unfolding fail_repository_transfer_def
  by (intro keep.has_rules)
     (auto split: RepositoryTransferStatus.split simp: Let_def intro!: keep.has_rules keep.has_commit preserves_same)

lemma keep_create_session: "keep.has (create_session_with_ttl_admitted env au l t) s"
  unfolding create_session_with_ttl_admitted_def Let_def
  by (intro keep.has_rules keep.has_commit preserves_same) simp_all

lemma keep_complete_activation: "keep.has (complete_account_activation env au c p) s"
  unfolding complete_account_activation_def Let_def
  by (intro keep.has_rules keep.has_commit preserves_same) (simp_all add: consume_invitation_def Let_def)

lemma keep_user_admitted: "keep.has (create_user_admitted env l n e) s"
  unfolding create_user_admitted_def
  by (intro keep.has_rules keep.has_commit preserves_same) (simp_all add: Let_def)

lemma keep_grant_admitted: "keep.has (grant_repo_access_admitted env ac l ow re lv) s"
  unfolding grant_repo_access_admitted_def
  by (intro keep.has_rules keep.has_commit preserves_same) (simp_all add: Let_def)

lemma keep_revoke_admitted: "keep.has (revoke_repo_access_admitted env l ow re) s"
  unfolding revoke_repo_access_admitted_def
  by (intro keep.has_commit preserves_same) simp_all

lemma review_target_pull:
  assumes "forge_inv s" "review_target s i n = Inr (target, pr)"
  shows "bt_get (st_pulls s) (fp_owner pr, fp_repo pr, n) = Some pr"
proof -
  have "\<exists>a b. bt_get (st_pulls s) (a, b, n) = Some pr"
    using assms(2) by (auto simp: review_target_def Let_def)
  then obtain a b where "bt_get (st_pulls s) (a, b, n) = Some pr" by blast
  then show ?thesis using assms(1) by (auto simp: forge_inv_def pulls_ok_def)
qed

lemma preserves_propose:
  assumes "review_context env runtime actor i n mutation hint_target s = Inr (target, pr, binding)"
  shows "preserves s (propose_review env pr n event s)"
  unfolding preserves_def
proof
  assume inv: "forge_inv s"
  have "review_target s i n = Inr (target, pr)"
    using assms by (auto simp: review_context_def split: if_splits)
  note row = review_target_pull [OF inv this]
  obtain u where "st_pulls (propose_review env pr n event s) =
      bt_insert (fp_owner pr, fp_repo pr, n) (reevaluate env u pr) (st_pulls s)"
    by (simp add: propose_review_def Let_def)
  then have "preserves s (propose_review env pr n event s)"
    by (intro preserves_pull [OF _ _ _ _ _ row same_pull_reevaluate])
       (simp_all add: propose_review_def Let_def)
  with inv show "forge_inv (propose_review env pr n event s)" by (simp add: preserves_def)
qed

lemma keep_record_bound:
  "keep.has (record_bound_review env ren hint runtime db actor i n request dismissed digest) s"
  unfolding record_bound_review_def judge_review_def
  by (intro keep.has_rules keep.has_review_context keep.has_case_prod keep.has_case_option keep.has_if
      keep.has_accept_review) (rule preserves_propose)

lemma keep_challenge:
  "keep.has (create_review_challenge env au ren hint runtime db actor i n sha) s"
  unfolding create_review_challenge_def Let_def by (intro keep.has_rules keep.has_review_context)

lemmas keep_parts =
  keep_record_bound keep_challenge
  keep_block keep_prepare keep_commit_transfer keep_fail_transfer keep_record_review
  keep_create_session keep_complete_activation keep_refresh_heads keep_user_admitted
  keep_ensure_user keep_create_account keep_grant_admitted keep_revoke_admitted
  keep_visibility keep_family keep_delete keep_update_issue keep_update_pull keep_check_run

lemma keep_atomic_call: "atomic_call w m \<Longrightarrow> keep.has m s"
  by (cases rule: atomic_call.cases, assumption; hypsubst; rule keep.has_void;
      (intro keep_parts; fail
       | simp only: op_defs Let_def,
         intro keep.has_rules keep_parts keep.has_if keep.has_commit preserves_same;
         simp add: Let_def split: option.split))

lemma call_keeps_inv:
  assumes "forge_call w m" "forge_inv s" "room s"
  shows "forge_inv (snd (m s))"
  using assms keep_atomic_call [of w m s] keep_profile_call [of w m s] keep_epoch_call [of w m s]
    keep_staged_call [of w m s]
  unfolding forge_call_def keep.has_def preserves_def by blast

section \<open>Runs of the core\<close>

definition forge_init :: "ForgeState \<Rightarrow> bool" where
  "forge_init s \<longleftrightarrow> s = State_default"

definition forge_step :: "ForgeState \<Rightarrow> ForgeState \<Rightarrow> bool" where
  "forge_step s t \<longleftrightarrow> (\<exists>w m. forge_call w m \<and> room s \<and> t = snd (m s))"

interpretation forge: monotone_system forge_init forge_step forge_inv history
proof
  show "forge_inv s" if "forge_init s" for s
    using that by (simp add: forge_init_def forge_inv_def State_default_def repos_ok_def counters_ok_def
        pulls_ok_def issues_ok_def)
  show "forge_inv t" if "forge_inv s" "forge_step s t" for s t
    using that call_keeps_inv by (auto simp: forge_step_def)
  show "history s s" for s by (rule history_refl)
  show "history s u" if "history s t" "history t u" for s t u using that by (rule history_trans)
  show "history s t" if "forge_inv s" "forge_step s t" for s t
    using that history_call by (auto simp: forge_step_def)
qed

end
