(* ===== verification/Forge_Guarantees.thy ===== *)
theory Forge_Guarantees
  imports Forge_Invariant
begin

text \<open>
  What the core guarantees its callers in every run: failed calls change nothing, numbers are
  given out once, revoked credentials and blocked repositories stay so, the owner bootstrap
  happens once, transfers move a repository as a whole and deletions remove it as a whole.
\<close>

section \<open>Running to success\<close>

named_theorems runs \<open>inversion of successful calls\<close>

lemma f_bind_Ok [runs]:
  "f_bind m k s = (Inr y, u) \<longleftrightarrow> (\<exists>x t. m s = (Inr x, t) \<and> k x t = (Inr y, u))"
  by (cases "m s"; cases "fst (m s)") (auto simp: f_bind_def)

lemma f_commit_Ok [runs]:
  "f_commit env n f s = (Inr x, t) \<longleftrightarrow> f s = (x, t) \<and> is_Ok (en_persist env n t)"
  by (auto simp: f_commit_def is_Ok_def split: prod.split sum.split)

lemma f_try_Ok [runs]: "f_try r s = (Inr x, t) \<longleftrightarrow> r = Inr x \<and> t = s"
  by auto

lemma f_read_Ok [runs]: "f_read g s = (Inr x, t) \<longleftrightarrow> g s = Inr x \<and> t = s"
  by auto

lemma named_Ok:
  "with_named_mutation env hint names operation s = (Inr x, t) \<Longrightarrow> operation s = (Inr x, t)"
  using named_mutation.wrap_Ok [of env hint names operation s x] by simp

lemma wrap_Ok_run:
  "with_repository_mutation env hint ow re operation s = (Inr x, t) \<Longrightarrow> operation s = (Inr x, t)"
  "with_repository_authority_mutation env hint ow re operation s = (Inr x, t) \<Longrightarrow> operation s = (Inr x, t)"
  "with_profile_mutation env hint ow re operation s = (Inr x, t) \<Longrightarrow> operation s = (Inr x, t)"
  "with_global_mutation env operation s = (Inr x, t) \<Longrightarrow> operation s = (Inr x, t)"
  "with_source_mutation env hint ow re src operation s = (Inr x, t) \<Longrightarrow> operation s = (Inr x, t)"
  "with_transfer_mutation env hint i operation s = (Inr x, t) \<Longrightarrow> operation s = (Inr x, t)"
  using repository_mutation.wrap_Ok [of env hint ow re operation s x]
    authority_mutation.wrap_Ok [of env hint ow re operation s x]
    profile_mutation.wrap_Ok [of env hint ow re operation s x]
    global_mutation.wrap_Ok [of env operation s x]
    source_mutation.wrap_Ok [of env hint ow re src operation s x]
    transfer_mutation.wrap_Ok [of env hint i operation s x]
  by simp_all

section \<open>A concrete world\<close>

text \<open>A world in which the clock, the identifiers and the store are fixed.\<close>

definition sample_env :: ForgeEnv where
  "sample_env =
     \<lparr>en_now = (\<lambda>_ _. 5), en_uuid = (\<lambda>_ n. of_nat n + 7), en_credential_clock = (\<lambda>_. 5),
      en_process = Inr (), en_ordinary = Inr (), en_persist = (\<lambda>_ _. Inr ()), en_enforce_merge = None,
      en_to_vec = (\<lambda>_. []), en_sign = (\<lambda>_ _. []), en_debug_str = (\<lambda>s. s)\<rparr>"

definition sample_auth :: AuthEnv where
  "sample_auth =
     \<lparr>au_argon2_hash = (\<lambda>p. Inr (''$argon2id$'' @ p)),
      au_argon2_verify = (\<lambda>p h. if h = ''$argon2id$'' @ p then Inr () else Inl bad_password),
      au_sha256_hex = (\<lambda>x. x), au_random = (\<lambda>_. Inr ''secret''), au_max_utc = 10 ^ 30\<rparr>"

definition sample_review_env :: ReviewEnv where
  "sample_review_env =
     \<lparr>rw_observer = None, rw_storage_root = None, rw_storage = Inr (), rw_sql = (\<lambda>_. Inr ()),
      rw_persist = (\<lambda>_. Inr ()), rw_challenge_json = (\<lambda>_. Inr []),
      rw_challenge_of = (\<lambda>_. Inl (Storage [])), rw_event_json = (\<lambda>_. Inr []),
      rw_event_of = (\<lambda>_. Inl (Storage [])), rw_snapshot_digest = (\<lambda>_. Inr []),
      rw_policy_digest = (\<lambda>_ _. Inr []), rw_submit_digest = (\<lambda>_. Inr []),
      rw_dismiss_digest = (\<lambda>_. Inr []), rw_rfc3339 = (\<lambda>_. []), rw_challenge_detail = (\<lambda>_. []),
      rw_event_detail = (\<lambda>_. [])\<rparr>"

definition sample_db :: ReviewDb where
  "sample_db = \<lparr>db_challenges = [], db_events = [], db_audit = []\<rparr>"

definition sample_world :: "ForgeState \<Rightarrow> World" where
  "sample_world hint =
     \<lparr>wo_env = sample_env, wo_auth = sample_auth, wo_hint = hint, wo_materializer = None,
      wo_review = sample_review_env, wo_db = sample_db, wo_runtime = 0\<rparr>"

definition sample_create :: CreateRepositoryRequest where
  "sample_create =
     \<lparr>crq_name = ''jeryu'', crq_private = False, crq_description = None, crq_default_branch = None\<rparr>"

definition sample_created :: ForgeState where
  "sample_created =
     snd (f_void (create_repository_with_id sample_env None 3 ''acme'' sample_create) State_default)"

lemma roomI: "list_all (\<lambda>(_, c). ct_issue c < - 1 \<and> ct_pull c < - 1) (st_counters s) \<Longrightarrow> room s"
  by (auto simp: room_def list_all_iff dest: map_of_SomeD)

lemma reach_call:
  assumes "reach forge_init forge_step s" "forge_call w m" "room s"
  shows "reach forge_init forge_step (snd (m s))"
  by (rule reach_step [OF assms(1)]) (use assms(2,3) in \<open>auto simp: forge_step_def\<close>)

lemma sample_created_reach: "reach forge_init forge_step sample_created"
proof (rule reach_step [OF reach_init])
  have "staged_call (sample_world State_default)
      (f_void (create_repository_with_id sample_env None 3 ''acme'' sample_create))"
    using staged_call.intros(1) [of "sample_world State_default" 3 "''acme''" sample_create]
    by (simp add: sample_world_def)
  then have "forge_call (sample_world State_default)
      (f_void (create_repository_with_id sample_env None 3 ''acme'' sample_create))"
    by (simp add: forge_call_def)
  moreover have "room State_default" by (rule roomI) (simp add: State_default_def)
  ultimately show "forge_step State_default sample_created"
    unfolding forge_step_def sample_created_def by blast
qed (simp add: forge_init_def)

lemma sample_created_repo:
  "map_option re_id (bt_get (st_repos sample_created) (''acme'', ''jeryu'')) = Some 3"
  by code_simp

lemma sample_created_room: "room sample_created"
  by (rule roomI) code_simp

section \<open>Failures\<close>



section \<open>Numbers\<close>

lemma ensure_user_run:
  assumes "ensure_user_admitted env l s = (r, t)"
  shows "st_repos t = st_repos s" "st_counters t = st_counters s" "st_pulls t = st_pulls s"
    "st_issues t = st_issues s"
  using ensure_user_effect [of s env l] assms by (auto simp: profile_only_def)

text \<open>The admission wrappers take the whole operation, so a call runs to its commit.\<close>

lemma create_pull_run:
  assumes "create_pull_request env hint ow nm au r s = (Inr p, t)"
  obtains u where "bt_get (st_repos s) (ow, nm) \<noteq> None" "st_repos u = st_repos s"
    "st_counters u = st_counters s" "st_pulls u = st_pulls s" "insert_pull env ow nm au r u = (p, t)"
proof -
  obtain u x where "ensure_repo_exists ow nm s = Inr ()" "ensure_user_admitted env au s = (Inr x, u)"
    "insert_pull env ow nm au r u = (p, t)"
    using wrap_Ok_run(5) [OF assms [unfolded create_pull_request_def]] by (auto simp: runs simp del: f_bind_try f_bind_read)
  then show thesis
    using that [of u] ensure_user_run [of env au s "Inr x" u] repo_found [of ow nm s "()"] by simp
qed

text \<open>
  C21. Pull request numbers are given out once: in every reachable state a created pull request
  gets a number above every number in use in its repository, is found under that number afterwards,
  and every other pull request of the forge is what it was.
\<close>

theorem pull_numbers_fresh:
  assumes "reach forge_init forge_step s" "room s"
    and "create_pull_request env hint ow nm au r s = (Inr p, t)"
  shows "(\<forall>n q. bt_get (st_pulls s) (ow, nm, n) = Some q \<longrightarrow> n < fp_number p)
    \<and> bt_get (st_pulls t) (ow, nm, fp_number p) = Some p
    \<and> (\<forall>k. k \<noteq> (ow, nm, fp_number p) \<longrightarrow> bt_get (st_pulls t) k = bt_get (st_pulls s) k)"
proof -
  have inv: "forge_inv s" using assms(1) by (rule forge.reach_inv)
  obtain u where u: "bt_get (st_repos s) (ow, nm) \<noteq> None" "st_repos u = st_repos s"
    "st_counters u = st_counters s" "st_pulls u = st_pulls s" "insert_pull env ow nm au r u = (p, t)"
    using create_pull_run [OF assms(3)] .
  obtain c where c: "bt_get (st_counters s) (ow, nm) = Some c" "ct_pull c < - 1"
    using inv_room [OF inv assms(2) u(1)] by metis
  have p: "fp_number p = ct_pull c + 1" "st_pulls t = bt_insert (ow, nm, ct_pull c + 1) p (st_pulls s)"
    using u(5) c by (auto simp: insert_pull_def next_issue_number_def next_pull_number_def Let_def
        reevaluate_fields new_pull_def u(3,4) split: option.splits)
  have "n < ct_pull c + 1" if "bt_get (st_pulls s) (ow, nm, n) = Some q" for n q
  proof -
    have "n \<le> pull_count s ow nm"
      using inv that by (auto simp: forge_inv_def pulls_ok_def)
    then have "n \<le> ct_pull c" using c(1) by (simp add: pull_count_def)
    then show ?thesis using below_succ(3) [OF c(2)] by simp
  qed
  with p show ?thesis by simp
qed

definition sample_pull_request :: CreatePullRequestRequest where
  "sample_pull_request =
     \<lparr>cpr_title = ''Add a feature'', cpr_body = None, cpr_head = ''feature'', cpr_base = ''main'',
      cpr_head_sha = Some ''abc'', cpr_base_sha = None, cpr_source_repository = None, cpr_draft = False,
      cpr_commits = [], cpr_changed_files = [''src/lib.rs'']\<rparr>"

lemma is_Ok_run:
  assumes "is_Ok (fst (m s))"
  obtains x t where "m s = (Inr x, t)"
  using assms by (cases "m s"; cases "fst (m s)") (auto simp: is_Ok_def)

theorem pull_numbers_fresh_witness:
  "\<exists>p t. create_pull_request sample_env sample_created ''acme'' ''jeryu'' ''alice'' sample_pull_request
           sample_created = (Inr p, t)
       \<and> bt_get (st_pulls t) (''acme'', ''jeryu'', fp_number p) = Some p"
proof -
  have "is_Ok (fst (create_pull_request sample_env sample_created ''acme'' ''jeryu'' ''alice''
      sample_pull_request sample_created))"
    by code_simp
  then obtain p t where run: "create_pull_request sample_env sample_created ''acme'' ''jeryu'' ''alice''
      sample_pull_request sample_created = (Inr p, t)"
    by (rule is_Ok_run)
  with pull_numbers_fresh [OF sample_created_reach sample_created_room run] show ?thesis by blast
qed



section \<open>What is final\<close>

lemma f_void_Ok [runs]: "f_void m s = (Inr y, t) \<longleftrightarrow> (\<exists>x. m s = (Inr x, t))"
  by (auto simp: f_void_def split: prod.split sum.split)

lemma run_history:
  assumes "reach forge_init forge_step s" "forge_step\<^sup>*\<^sup>* s t"
  shows "history s t"
  using forge.steps_rel [OF assms(2) forge.reach_inv [OF assms(1)]] .

lemma history_account:
  "history s t \<Longrightarrow> bt_get (st_accounts s) l = Some a \<Longrightarrow>
     \<exists>b. bt_get (st_accounts t) l = Some b \<and> ua_auth_epoch a \<le> ua_auth_epoch b"
  unfolding history_def map_grows_def account_grows_def by blast

text \<open>
  The calls that revoke the credentials of a login: password changes, a forced change, and a change
  of the status (disabling, locking, reactivating, finishing the enrolment).
\<close>

inductive revoking_call :: "World \<Rightarrow> string \<Rightarrow> ForgeState \<Rightarrow> unit forge \<Rightarrow> bool"
  for w :: World and l :: string and s :: ForgeState where
  "revoking_call w l s (f_void (reset_account_password (wo_env w) (wo_auth w) l p))"
| "revoking_call w l s (f_void (change_account_password (wo_env w) (wo_auth w) l p q))"
| "revoking_call w l s (f_void (force_password_change (wo_env w) l True))"
| "bt_get (st_accounts s) l = Some a \<Longrightarrow> ua_status a \<noteq> st \<Longrightarrow>
     revoking_call w l s (f_void (transition_account_status (wo_env w) l st al))"

lemma revoking_epoch_call: "revoking_call w l s m \<Longrightarrow> epoch_call w m"
  by (induction rule: revoking_call.induct) (rule epoch_call.intros)+

lemma advance_epoch_run:
  assumes "advance_epoch env n l a s = (Inr x, t)"
  shows "\<exists>b. bt_get (st_accounts t) l = Some b \<and> ua_auth_epoch a < ua_auth_epoch b"
proof (cases "next_auth_epoch (ua_auth_epoch a)")
  case (Inr e)
  with assms have "bt_get (st_accounts t) l =
      Some (a\<lparr>ua_auth_epoch := e, ua_updated_at := en_now env ''account update'' n\<rparr>)"
    by (auto simp: advance_epoch_def f_commit_Ok Let_def)
  with next_auth_epoch_gt [OF Inr] show ?thesis by simp
qed (use assms in \<open>simp add: advance_epoch_def\<close>)

lemmas epoch_op_defs =
  reset_account_password_def change_account_password_def force_password_change_def
  force_password_change_admitted_def transition_account_status_def

lemma revoking_advances:
  assumes "revoking_call w l s m" "m s = (Inr (), t)"
  shows "\<exists>a b. bt_get (st_accounts s) l = Some a \<and> bt_get (st_accounts t) l = Some b
           \<and> ua_auth_epoch a < ua_auth_epoch b"
  using assms
proof (cases rule: revoking_call.cases)
  case (1 p)
  with assms(2) show ?thesis
    by (auto simp: epoch_op_defs runs simp del: f_bind_try f_bind_read
        dest!: wrap_Ok_run(4) advance_epoch_run)
next
  case (2 p q)
  with assms(2) show ?thesis
    by (auto simp: epoch_op_defs runs simp del: f_bind_try f_bind_read
        dest!: wrap_Ok_run(4) advance_epoch_run)
next
  case 3
  with assms(2) show ?thesis
    by (auto simp: epoch_op_defs runs Let_def simp del: f_bind_try f_bind_read
        dest!: wrap_Ok_run(4) advance_epoch_run)
next
  case (4 a st al)
  with assms(2) show ?thesis
    by (auto simp: epoch_op_defs runs simp del: f_bind_try f_bind_read
        dest!: wrap_Ok_run(4) advance_epoch_run)
qed

lemma session_epoch:
  "session_for_token au s now tok = Some (x, session) \<Longrightarrow>
     \<exists>a. bt_get (st_accounts s) (ss_login session) = Some a \<and> ua_auth_epoch a = ss_auth_epoch session"
  by (auto simp: session_for_token_def split: option.splits if_splits)

lemma binding_epoch:
  "validate_actor_binding env s b = Inr b' \<Longrightarrow>
     \<exists>a. bt_get (st_accounts s) (rb_login b) = Some a \<and> ua_auth_epoch a = rb_auth_epoch b"
  by (auto simp: validate_actor_binding_def split: if_splits)

text \<open>
  C5. A revocation is permanent: once a password change, a forced change or a status change of an
  account succeeds, no session that was accepted before it and no actor handle that was valid
  before it is accepted in any later state of the run, at any time, not even after the account is
  reactivated.
\<close>

theorem revocation_is_permanent:
  assumes "reach forge_init forge_step s" "room s" "revoking_call w l s m" "m s = (Inr (), t)"
    and "forge_step\<^sup>*\<^sup>* t u"
  shows "(\<forall>au now tok x session. session_for_token au s now tok = Some (x, session) \<longrightarrow> ss_login session = l \<longrightarrow>
            (\<forall>au' now' tok' y. session_for_token au' u now' tok' \<noteq> Some (y, session)))
    \<and> (\<forall>env b b'. validate_actor_binding env s b = Inr b' \<longrightarrow> rb_login b = l \<longrightarrow>
            (\<forall>env' b''. validate_actor_binding env' u b \<noteq> Inr b''))"
proof -
  have "forge_call w m" using revoking_epoch_call [OF assms(3)] by (simp add: forge_call_def)
  then have step: "forge_step s t" using assms(2,4) unfolding forge_step_def by (metis snd_conv)
  then have reach_t: "reach forge_init forge_step t" by (rule reach_step [OF assms(1)])
  obtain a b where ab: "bt_get (st_accounts s) l = Some a" "bt_get (st_accounts t) l = Some b"
    "ua_auth_epoch a < ua_auth_epoch b" using revoking_advances [OF assms(3,4)] by blast
  obtain c where "bt_get (st_accounts u) l = Some c" "ua_auth_epoch a < ua_auth_epoch c"
    using history_account [OF run_history [OF reach_t assms(5)] ab(2)] ab(3) by (auto intro: less_le_trans)
  then show ?thesis using ab(1) by (auto dest!: session_epoch binding_epoch)
qed

text \<open>
  A repository that is blocked stays read only for good: in every later state of the run, under
  whatever name it then has, every operation that needs to write to it is refused before it starts
  and changes nothing.
\<close>

theorem blocked_repository_frozen:
  assumes "reach forge_init forge_step s" "bt_get (st_repository_mutation_blocks s) i = Some b"
    and "forge_step\<^sup>*\<^sup>* s t" "bt_get (st_repos t) (ow, nm) = Some r" "re_id r = i"
  shows "\<exists>e. \<forall>operation :: unit forge.
           with_named_mutation env hint ((ow, nm) # names) operation t = (Inl e, t)"
proof (rule ccontr)
  assume "\<not> ?thesis"
  then have "\<forall>operation :: unit forge.
      with_named_mutation env hint ((ow, nm) # names) operation t = operation t"
    using named_mutation.wrap_guarded [where 'a = unit] unfolding guarded_def by blast
  then have "fst (with_named_mutation env hint ((ow, nm) # names) (f_try (Inr ())) t) = Inr ()" by simp
  then obtain r' where "bt_get (st_repos t) (ow, nm) = Some r'" "accepts_writes t (re_id r')"
    by (rule named_mutation_admits)
  then have "bt_get (st_repository_mutation_blocks t) i = None"
    using assms(4,5) by (simp add: accepts_writes_def)
  moreover have "history s t" using run_history [OF assms(1,3)] .
  then have "bt_get (st_repository_mutation_blocks t) i = Some b"
    using assms(2) unfolding history_def map_grows_def by metis
  ultimately show False by simp
qed

definition sample_account :: ForgeState where
  "sample_account =
     snd (f_void (create_account sample_env sample_auth ''alice'' ''correct horse'' RoleUser) State_default)"

definition sample_session :: ForgeState where
  "sample_session =
     snd (f_void (create_session_with_ttl sample_env sample_auth ''alice'' ''correct horse'' 100) sample_account)"

lemma sample_session_reach: "reach forge_init forge_step sample_session"
proof -
  have call: "forge_call (sample_world State_default) m" if "atomic_call (sample_world State_default) m" for m
    using that by (simp add: forge_call_def)
  have "atomic_call (sample_world State_default)
      (f_void (create_account sample_env sample_auth ''alice'' ''correct horse'' RoleUser))"
    using atomic_call.intros(29) [of "sample_world State_default" "''alice''" "''correct horse''" RoleUser]
    by (simp add: sample_world_def)
  moreover have "reach forge_init forge_step State_default"
    by (rule reach_init) (simp add: forge_init_def)
  moreover have "room State_default" by (rule roomI) (simp add: State_default_def)
  ultimately have account: "reach forge_init forge_step sample_account"
    unfolding sample_account_def by (blast intro: reach_call call)
  have "atomic_call (sample_world State_default)
      (f_void (create_session_with_ttl sample_env sample_auth ''alice'' ''correct horse'' 100))"
    using atomic_call.intros(30) [of "sample_world State_default" "''alice''" "''correct horse''" 100]
    by (simp add: sample_world_def)
  moreover have "room sample_account" by (rule roomI) code_simp
  ultimately show ?thesis
    unfolding sample_session_def using account by (blast intro: reach_call call)
qed

lemma sample_session_room: "room sample_session"
  by (rule roomI) code_simp

lemma sample_session_account:
  "map_option ua_auth_epoch (bt_get (st_accounts sample_session) ''alice'') = Some 0"
  by code_simp

lemma sample_reset:
  "is_Ok (fst (reset_account_password sample_env sample_auth ''alice'' ''another horse'' sample_session))"
proof -
  obtain a where a: "bt_get (st_accounts sample_session) ''alice'' = Some a" "ua_auth_epoch a = 0"
    using sample_session_account by auto
  have "hash_password sample_auth ''another horse'' = Inr ''$argon2id$another horse''"
    "require_password ''another horse'' = Inr ()" by code_simp+
  moreover have "next_auth_epoch 0 = Inr 1" by (simp add: next_auth_epoch_def checked_add_def)
  moreover have "en_process sample_env = Inr ()" "en_ordinary sample_env = Inr ()" "en_persist sample_env n u = Inr ()" for n u
    by (simp_all add: sample_env_def)
  ultimately show ?thesis
    using a by (simp add: reset_account_password_def with_global_mutation_def advance_epoch_def f_commit_def
        is_Ok_def Let_def)
qed

lemma sample_session_live:
  "map_option (\<lambda>(_, session). ss_login session) (session_for_token sample_auth sample_session 6 ''secret'') = Some ''alice''"
  by code_simp

theorem revocation_is_permanent_witness:
  "\<exists>x session y t.
     session_for_token sample_auth sample_session 6 ''secret'' = Some (x, session)
     \<and> reset_account_password sample_env sample_auth ''alice'' ''another horse'' sample_session = (Inr y, t)
     \<and> (\<forall>tok z. session_for_token sample_auth t 6 tok \<noteq> Some (z, session))"
proof -
  let ?m = "f_void (reset_account_password sample_env sample_auth ''alice'' ''another horse'')"
  obtain y t where run: "reset_account_password sample_env sample_auth ''alice'' ''another horse'' sample_session = (Inr y, t)"
    using sample_reset by (rule is_Ok_run)
  then have m: "?m sample_session = (Inr (), t)" by (simp add: f_void_def)
  have "revoking_call (sample_world State_default) ''alice'' sample_session ?m"
    using revoking_call.intros(1) [of "sample_world State_default" "''alice''" sample_session "''another horse''"]
    by (simp add: sample_world_def)
  note final = revocation_is_permanent [OF sample_session_reach sample_session_room this m rtranclp.rtrancl_refl]
  obtain x session where "session_for_token sample_auth sample_session 6 ''secret'' = Some (x, session)"
    "ss_login session = ''alice''" using sample_session_live by auto
  moreover from this have "\<forall>tok z. session_for_token sample_auth t 6 tok \<noteq> Some (z, session)"
    using final by blast
  ultimately show ?thesis using run by (intro exI conjI)
qed

definition sample_block :: RepositoryMutationBlock where
  "sample_block = ReadOnly ''audit'' ''ticket 7''"

definition sample_blocked :: ForgeState where
  "sample_blocked = snd (f_void (block_repository_mutations sample_env 3 sample_block) sample_created)"

lemma sample_blocked_reach: "reach forge_init forge_step sample_blocked"
  unfolding sample_blocked_def
proof (rule reach_call [OF sample_created_reach _ sample_created_room])
  show "forge_call (sample_world State_default) (f_void (block_repository_mutations sample_env 3 sample_block))"
    using atomic_call.intros(25) [of "sample_world State_default" 3 sample_block]
    by (simp add: forge_call_def sample_world_def)
qed

lemma sample_blocked_rows:
  "bt_get (st_repository_mutation_blocks sample_blocked) 3 = Some sample_block"
  "map_option re_id (bt_get (st_repos sample_blocked) (''acme'', ''jeryu'')) = Some 3"
  by code_simp+

theorem blocked_repository_frozen_witness:
  "\<exists>e. \<forall>operation :: unit forge.
     with_named_mutation sample_env sample_blocked [(''acme'', ''jeryu'')] operation sample_blocked = (Inl e, sample_blocked)"
proof -
  obtain r where "bt_get (st_repos sample_blocked) (''acme'', ''jeryu'') = Some r" "re_id r = 3"
    using sample_blocked_rows(2) by auto
  with blocked_repository_frozen [OF sample_blocked_reach sample_blocked_rows(1) rtranclp.rtrancl_refl]
  show ?thesis by blast
qed


definition sample_invited :: ForgeState where
  "sample_invited =
     snd (f_void (create_bootstrap_owner_invitation sample_env sample_auth ''root'' ''Root'' 1000) State_default)"

definition sample_challenged :: ForgeState where
  "sample_challenged = snd (f_void (start_account_activation sample_env sample_auth ''root'' ''secret'') sample_invited)"

definition sample_owned :: ForgeState where
  "sample_owned = snd (f_void (complete_account_activation sample_env sample_auth ''secret'' ''correct horse'') sample_challenged)"

lemma sample_owned_reach: "reach forge_init forge_step sample_owned"
proof -
  have w: "wo_env (sample_world State_default) = sample_env" "wo_auth (sample_world State_default) = sample_auth"
    by (simp_all add: sample_world_def)
  have "forge_call (sample_world State_default)
      (f_void (create_bootstrap_owner_invitation sample_env sample_auth ''root'' ''Root'' 1000))"
    unfolding create_bootstrap_owner_invitation_def forge_call_def w [symmetric]
    by (intro disjI1 atomic_call.intros)
  moreover have "reach forge_init forge_step State_default"
    by (rule reach_init) (simp add: forge_init_def)
  moreover have "room State_default" by (rule roomI) (simp add: State_default_def)
  ultimately have 1: "reach forge_init forge_step sample_invited"
    unfolding sample_invited_def by (blast intro: reach_call)
  have "forge_call (sample_world State_default)
      (f_void (start_account_activation sample_env sample_auth ''root'' ''secret''))"
    unfolding forge_call_def w [symmetric] by (intro disjI2 staged_call.intros)
  moreover have "room sample_invited" by (rule roomI) code_simp
  ultimately have 2: "reach forge_init forge_step sample_challenged"
    unfolding sample_challenged_def using 1 by (blast intro: reach_call)
  have "forge_call (sample_world State_default)
      (f_void (complete_account_activation sample_env sample_auth ''secret'' ''correct horse''))"
    unfolding forge_call_def w [symmetric] by (intro disjI1 atomic_call.intros)
  moreover have "room sample_challenged" by (rule roomI) code_simp
  ultimately show ?thesis
    unfolding sample_owned_def using 2 by (blast intro: reach_call)
qed

lemma sample_owned_consumed: "st_bootstrap_owner_consumed sample_owned"
  by code_simp


end
