(* ===== verification/Review_Sample.thy ===== *)
theory Review_Sample
  imports Forge_Guarantees
begin

text \<open>
  A concrete review: a repository with one open pull request of \<open>dev\<close>, a reviewer \<open>bob\<close> with a
  session and write access, a challenge issued to him and the verdict he submits against it. The
  properties of bound reviews are applied to it.
\<close>

section \<open>The state\<close>

definition sample_oid :: string where
  "sample_oid = replicate 40 (CHR ''a'')"

definition sample_request :: ForgePull where
  "sample_request = sample_pull\<lparr>fp_head := GitBranchRef_new ''feature'' sample_oid\<rparr>"

definition sample_binding :: ReviewActorBinding where
  "sample_binding =
     \<lparr>rb_login = ''bob'', rb_profile_id = 21, rb_account_created_at = 1, rb_auth_epoch = 0,
      rb_credential_kind = CredSession, rb_credential_id = 22\<rparr>"

definition sample_actor :: AuthenticatedActor where
  "sample_actor = \<lparr>aa_runtime = Some 0, aa_binding = sample_binding, aa_mutation_authorized = True\<rparr>"

definition sample_grant :: RepoAccessGrant where
  "sample_grant =
     \<lparr>rg_login = ''bob'', rg_owner = ''acme'', rg_repo = ''jeryu'', rg_access = AccessWrite,
      rg_granted_by = ''root'', rg_granted_at = 1\<rparr>"

definition sample_repository :: Repository where
  "sample_repository =
     \<lparr>re_id = 3, re_owner = ''acme'', re_name = ''jeryu'', re_full_name = ''acme/jeryu'', re_private = True,
      re_description = None, re_default_branch = ''main'', re_family = None, re_archived = False,
      re_disabled = False, re_created_at = 1, re_updated_at = 1\<rparr>"

definition sample_reviewable :: ForgeState where
  "sample_reviewable =
     State_default\<lparr>
       st_users := [(''bob'', \<lparr>us_id = 21, us_login = ''bob'', us_name = None, us_email = None, us_created_at = 1\<rparr>)],
       st_accounts := [(''bob'', \<lparr>ua_canonical_login = ''bob'', ua_display_name = ''Bob'', ua_password_hash = [],
         ua_role = RoleUser, ua_status = AccActive, ua_auth_epoch = 0, ua_must_change_password = False,
         ua_created_at = 1, ua_updated_at = 1\<rparr>)],
       st_sessions := [(''hash'', \<lparr>ss_id = 22, ss_login = ''bob'', ss_auth_epoch = 0, ss_token_hash = ''hash'',
         ss_csrf_token = [], ss_created_at = 1, ss_expires_at = 100\<rparr>)],
       st_repo_grants := [((''bob'', ''acme'', ''jeryu''), sample_grant)],
       st_repos := [((''acme'', ''jeryu''), sample_repository)],
       st_pulls := [((''acme'', ''jeryu'', 1), sample_request)],
       st_branch_protections := [((''acme'', ''jeryu'', ''main''), sample_rule)]\<rparr>"

section \<open>The challenge\<close>

definition sample_target :: ReviewGitTarget where
  "sample_target =
     \<lparr>gt_source = git_repository sample_repository, gt_destination = git_repository sample_repository,
      gt_source_ref = ''refs/heads/feature'', gt_destination_ref = ''refs/heads/main''\<rparr>"

definition sample_observed :: "string \<Rightarrow> ObservedReviewRef" where
  "sample_observed ref =
     \<lparr>ob_reference = ref, ob_commit_sha = sample_oid, ob_tree_sha = sample_oid,
      ob_identity = \<lparr>mg_storage_root = ''/srv/git'', mg_root_device = 1, mg_root_inode = 2,
        mg_repository_path = ''/srv/git/acme/jeryu.git'', mg_repository_device = 1, mg_repository_inode = 3,
        mg_git_executable = ''/usr/bin/git'', mg_git_executable_sha256 = []\<rparr>\<rparr>"

definition sample_observation :: ReviewGitObservation where
  "sample_observation =
     \<lparr>og_source = sample_observed ''refs/heads/feature'', og_destination = sample_observed ''refs/heads/main''\<rparr>"

definition sample_snapshot :: ReviewSnapshot where
  "sample_snapshot =
     \<lparr>sn_repository_id = 3, sn_pull_request_id = 7, sn_pull_number = 1, sn_author = ''dev'',
      sn_target = sample_target, sn_git = sample_observation, sn_stored_head_sha = sample_oid,
      sn_stored_base_sha = ''base'', sn_draft = False, sn_policy = Some sample_rule, sn_codeowners = None,
      sn_policy_revision = [], sn_reviewer = sample_binding, sn_destination_access = AccessWrite,
      sn_source_access = AccessWrite, sn_reviewer_role = RoleUser, sn_destination_grant = Some sample_grant,
      sn_source_grant = Some sample_grant, sn_bound_event_ids = [], sn_advisory_reviews = [],
      sn_advisory_statuses = [], sn_advisory_check_runs = [], sn_advisory_commits = [],
      sn_changed_files = [''src/lib.rs'']\<rparr>"

definition sample_challenge :: ReviewChallenge where
  "sample_challenge =
     \<lparr>ch_id = 9, ch_nonce = ''nonce'', ch_created_at = 2, ch_expires_at = 50, ch_snapshot = sample_snapshot,
      ch_snapshot_sha256 = [], ch_merge_qualified = False, ch_blockers = unavailable_blockers\<rparr>"

definition sample_submission :: SubmitBoundReviewRequest where
  "sample_submission =
     \<lparr>sbr_challenge_id = 9, sbr_nonce = ''nonce'', sbr_expected_head_sha = sample_oid, sbr_event = RvApproved,
      sbr_body = None, sbr_comments = []\<rparr>"

definition sample_verdict :: BoundReviewEvent where
  "sample_verdict =
     bound_event sample_env 3 1 1 sample_request sample_binding sample_challenge sample_snapshot
       sample_submission None ''digest''"

section \<open>The tables\<close>

text \<open>Codecs that know the two texts of the example.\<close>

definition sample_custody_env :: ReviewEnv where
  "sample_custody_env =
     sample_review_env\<lparr>rw_observer := Some (\<lambda>_. Inr sample_observation), rw_storage_root := Some ''/srv/git'',
       rw_challenge_of := (\<lambda>_. Inr sample_challenge), rw_event_of := (\<lambda>_. Inr sample_verdict)\<rparr>"

definition sample_custody :: ReviewDb where
  "sample_custody =
     sample_db\<lparr>db_challenges := [(show_uuid 9, \<lparr>cw_repo_id = show_uuid 3, cw_pull_id = show_uuid 7,
       cw_pull_number = 1, cw_expires_at = [], cw_challenge_json = [], cw_accepted_event_id = None\<rparr>)]\<rparr>"

definition sample_recorded :: ForgeState where
  "sample_recorded = propose_review sample_env sample_request 1 sample_verdict sample_reviewable"

definition sample_accepted :: ReviewDb where
  "sample_accepted =
     (case commit_bound_review sample_custody_env sample_challenge sample_verdict sample_recorded sample_custody of
        Inr db \<Rightarrow> db | Inl _ \<Rightarrow> sample_custody)"

lemma sample_snapshot_observed:
  "observe_review_snapshot sample_custody_env sample_target sample_request sample_binding sample_reviewable
   = Inr sample_snapshot"
  by code_simp

lemma sample_context_entered:
  "review_target sample_reviewable 3 1 = Inr (sample_target, sample_request)"
  "validate_actor_locked sample_env 0 sample_reviewable sample_actor True = Inr sample_binding"
  "review_context sample_env 0 sample_actor 3 1 True sample_target sample_reviewable
   = Inr (sample_target, sample_request, sample_binding)"
  by code_simp+

lemma sample_loads:
  "load_challenge sample_custody_env sample_custody 9 = Inr (sample_challenge, None)"
  "challenge_matches sample_challenge 3 1 sample_request sample_binding sample_submission"
  "next_sequence sample_reviewable 3 sample_request = Inr 1"
  "is_Ok (commit_bound_review sample_custody_env sample_challenge sample_verdict sample_recorded sample_custody)"
  by code_simp+

lemma sample_records:
  "record_bound_review sample_env sample_custody_env sample_reviewable 0 sample_custody sample_actor 3 1
     sample_submission None ''digest'' sample_reviewable
   = (Inr (sample_verdict, sample_accepted), sample_recorded)"
proof -
  have oid: "validate_oid (sbr_expected_head_sha sample_submission) = Inr ()" by code_simp
  have env: "en_process sample_env = Inr ()" "en_ordinary sample_env = Inr ()" "en_now sample_env = (\<lambda>_ _. 5)"
    by (simp_all add: sample_env_def)
  have ren: "rw_storage sample_custody_env = Inr ()" "rw_snapshot_digest sample_custody_env = (\<lambda>_. Inr [])"
    by (simp_all add: sample_custody_env_def sample_review_env_def)
  have ch: "ch_snapshot sample_challenge = sample_snapshot" "ch_snapshot_sha256 sample_challenge = []"
    "ch_expires_at sample_challenge = 50" "sbr_challenge_id sample_submission = 9"
    by (simp_all add: sample_challenge_def sample_submission_def)
  have other: "\<not> eq_ignore_ascii_case (fp_author sample_request) (rb_login sample_binding)" by code_simp
  obtain db where commit:
    "commit_bound_review sample_custody_env sample_challenge sample_verdict sample_recorded sample_custody = Inr db"
    using sample_loads(4) by (auto simp: is_Ok_def split: sum.splits)
  have "accept_review sample_env sample_custody_env sample_custody 3 1 sample_request sample_binding
      sample_challenge sample_snapshot sample_submission None ''digest'' sample_reviewable
    = (Inr (sample_verdict, sample_accepted), sample_recorded)"
    using commit by (simp add: accept_review_def sample_loads(3) sample_verdict_def [symmetric]
        sample_recorded_def [symmetric] sample_accepted_def Let_def)
  then show ?thesis
    by (simp add: record_bound_review_def with_review_context_def judge_review_def check_bound_dismissal_def
        oid env ren ch other sample_context_entered sample_loads sample_snapshot_observed)
qed

end
