(* ===== verification/Forge_Lifecycle.thy ===== *)
theory Forge_Lifecycle
  imports Review_Sample
begin

text \<open>
  The lifecycle of a repository from its creation, which may be retried, to its transfer or
  deletion, and what the core keeps about its commits: bounded audit scores and the mergeability of
  its pull requests.
\<close>

section \<open>Retention of audit scores\<close>

lemma of_branch_drop:
  assumes "i < length xs" "js_branch (xs ! i) = b"
  shows "length (of_branch b (take i xs @ drop (Suc i) xs)) = length (of_branch b xs) - 1"
    and "c \<noteq> b \<Longrightarrow> of_branch c (take i xs @ drop (Suc i) xs) = of_branch c xs"
proof -
  have "xs = take i xs @ xs ! i # drop (Suc i) xs" using assms(1) by (rule id_take_nth_drop)
  then have "of_branch d xs = of_branch d (take i xs) @ of_branch d [xs ! i] @ of_branch d (drop (Suc i) xs)" for d
    unfolding of_branch_def by (metis append_Cons append_Nil filter_append)
  then show "length (of_branch b (take i xs @ drop (Suc i) xs)) = length (of_branch b xs) - 1"
    "c \<noteq> b \<Longrightarrow> of_branch c (take i xs @ drop (Suc i) xs) = of_branch c xs"
    using assms(2) by (simp_all add: of_branch_def)
qed

lemma oldest_index_None:
  assumes "oldest_index b xs = None"
  shows "of_branch b xs = []"
proof -
  have none: "\<forall>p\<in>set (enumerate 0 xs). js_branch (snd p) \<noteq> b"
    using assms by (auto simp: oldest_index_def filter_empty_conv)
  have "js_branch (xs ! i) \<noteq> b" if "i < length xs" for i
    using bspec [OF none, of "(i, xs ! i)"] that by (simp add: in_set_enumerate_eq)
  then show ?thesis unfolding of_branch_def filter_empty_conv by (metis in_set_conv_nth)
qed

lemma prune_scores_bound:
  "length (of_branch b (prune_scores b xs)) = min MAX_SCORES_PER_BRANCH (length (of_branch b xs))"
  "c \<noteq> b \<Longrightarrow> of_branch c (prune_scores b xs) = of_branch c xs"
proof (induction b xs rule: prune_scores.induct)
  case (1 b xs)
  {
    case 1
    show ?case
    proof (cases "oldest_index b xs")
      case (Some i)
      with "1.IH"(1) [of i] of_branch_drop(1) [of i xs b] oldest_index_bound [OF Some] show ?thesis
        by (subst prune_scores.simps) auto
    qed (subst prune_scores.simps, auto dest: oldest_index_None)
  next
    case 2
    show ?case
    proof (cases "oldest_index b xs")
      case (Some i)
      with "1.IH"(2) [of i] of_branch_drop(2) [of i xs b c] oldest_index_bound [OF Some] 2 show ?thesis
        by (subst prune_scores.simps) auto
    qed (subst prune_scores.simps, auto)
  }
qed



section \<open>Deletion\<close>

lemma remove_absent: "bt_get m k = None \<Longrightarrow> bt_remove k m = m"
  by (auto simp: bt_remove_def map_of_eq_None_iff filter_id_conv)

lemma snd_drain_buckets: "snd (fold drain_bucket ks acc) = fold bt_remove ks (snd acc)"
  by (induction ks arbitrary: acc) (auto simp: drain_bucket_def remove_absent split: option.split)

lemma get_drain_scoped_vecs:
  "bt_get (snd (drain_scoped_vecs ow nm m)) k = (if scoped ow nm k then None else bt_get m k)"
  using get_drain_scoped [of ow nm m k]
  by (simp add: drain_scoped_vecs_def snd_drain_buckets drain_scoped_def Let_def)

lemma get_drain_grants:
  "bt_get (snd (drain_grants ow nm m)) k = (if snd k = (ow, nm) then None else bt_get m k)"
proof -
  have "k \<in> fst ` set m \<or> bt_get m k = None" by (auto simp: map_of_eq_None_iff)
  then show ?thesis
    by (cases k) (auto simp: drain_grants_def Let_def get_fold_remove split: prod.splits)
qed

text \<open>The tables of a state that hold rows per repository, as lookups by repository and rest of the key.\<close>

definition gone :: "string \<Rightarrow> string \<Rightarrow> (string \<times> string \<times> 'k \<Rightarrow> 'v option) \<Rightarrow> (string \<times> string \<times> 'k \<Rightarrow> 'v option) \<Rightarrow> bool" where
  "gone ow nm before after \<longleftrightarrow>
     (\<forall>a b x. after (a, b, x) = (if (a, b) = (ow, nm) then None else before (a, b, x)))"

definition gone_row :: "string \<Rightarrow> string \<Rightarrow> (pair_key \<Rightarrow> 'v option) \<Rightarrow> (pair_key \<Rightarrow> 'v option) \<Rightarrow> bool" where
  "gone_row ow nm before after \<longleftrightarrow> after = before((ow, nm) := None)"

lemma gone_drain:
  "gone ow nm (bt_get m) (bt_get (snd (drain_scoped ow nm m)))"
  "gone ow nm (bt_get v) (bt_get (snd (drain_scoped_vecs ow nm v)))"
  by (auto simp: gone_def get_drain_scoped get_drain_scoped_vecs)

lemma gone_take:
  "gone_row ow nm (bt_get m) (bt_get (bt_remove (ow, nm) m))"
  "gone_row ow nm (bt_get m) (bt_get (snd (take_row (ow, nm) m)))"
  "gone_row ow nm (bt_get v) (bt_get (snd (take_bucket (ow, nm) v)))"
  by (auto simp: gone_row_def take_row_def take_bucket_def fun_eq_iff)



section \<open>Creation\<close>

lemma mark_materialized_run:
  "st_repos (mark_materialized i s) = st_repos s"
  "st_repository_mutation_blocks (mark_materialized i s) = st_repository_mutation_blocks s"
  "bt_get (st_repository_creations (mark_materialized i s)) i =
     map_option (\<lambda>c. c\<lparr>cn_materialized := True\<rparr>) (bt_get (st_repository_creations s) i)"
  by (auto simp: mark_materialized_def split: option.split)

lemma reserve_run:
  assumes "reserve_repository env i ow r s = (Inr (repo, done'), u)"
  shows "\<exists>c. bt_get (st_repository_creations u) i = Some c \<and> cn_owner c = ow \<and> cn_request c = r
           \<and> (done' \<longrightarrow> cn_materialized c)"
    "bt_get (st_repos u) (ow, crq_name r) = Some repo" "re_id repo = i"
  using assms
  by (auto simp: reserve_repository_def insert_repository_def new_repository_def Let_def runs
      split: option.splits if_splits prod.splits)

lemma create_repository_run:
  assumes "create_repository_with_id_admitted env mat i ow r s = (Inr repo, t)"
  shows "\<exists>c. bt_get (st_repository_creations t) i = Some c \<and> cn_owner c = ow \<and> cn_request c = r
           \<and> cn_materialized c"
    "bt_get (st_repos t) (ow, crq_name r) = Some repo" "re_id repo = i"
proof -
  obtain r0 d u where res: "reserve_repository env i ow r s = (Inr (r0, d), u)"
    and rest: "if d then t = u \<and> repo = r0
       else (\<exists>current. bt_get (st_repos u) (ow, crq_name r) = Some current \<and> re_id current = i
             \<and> repo = current \<and> t = mark_materialized i u)"
    using assms
    by (fastforce simp: create_repository_with_id_admitted_def runs simp del: f_bind_try f_bind_read
        split: if_splits option.splits)
  from reserve_run [OF res] rest
  show "\<exists>c. bt_get (st_repository_creations t) i = Some c \<and> cn_owner c = ow \<and> cn_request c = r
           \<and> cn_materialized c"
    "bt_get (st_repos t) (ow, crq_name r) = Some repo" "re_id repo = i"
    by (auto simp: mark_materialized_run split: if_splits)
qed

lemma creation_wrap_Ok:
  assumes "with_repository_creation_mutation env i operation s = (Inr x, t)"
  shows "operation s = (Inr x, t)" "en_process env = Inr ()"
proof -
  show "operation s = (Inr x, t)"
    using creation_mutation.wrap_Ok [of env i operation s x] assms by simp
  show "en_process env = Inr ()"
    using assms by (cases "en_process env") (simp_all add: with_repository_creation_mutation_def)
qed

lemma history_creation:
  "history s t \<Longrightarrow> bt_get (st_repository_creations s) i = Some c \<Longrightarrow>
     \<exists>d. bt_get (st_repository_creations t) i = Some d \<and> creation_grows c d"
  unfolding history_def map_grows_def by blast

lemma create_repository_again:
  assumes "create_repository_with_id env mat i ow r s = (Inr repo, t)"
    and "bt_get (st_repository_creations u) i = Some c" "cn_owner c = ow" "cn_request c = r" "cn_materialized c"
    and "bt_get (st_repos u) (ow, crq_name r) = Some now" "re_id now = i" "accepts_writes u i"
  shows "create_repository_with_id env mat i ow r u = (Inr now, u)"
proof -
  note run = creation_wrap_Ok [OF assms(1) [unfolded create_repository_with_id_def]]
  have ok: "require_name ''repository name'' (crq_name r) = Inr ()" "i \<noteq> 0"
    "(case mat of Some m \<Rightarrow> mt_validate m ow (crq_name r)
         (case crq_default_branch r of Some b \<Rightarrow> b | None \<Rightarrow> ''main'') | None \<Rightarrow> Ok ()) = Inr ()"
    using run(1) by (auto simp: create_repository_with_id_admitted_def runs simp del: f_bind_try f_bind_read
        split: if_splits)
  have "reserve_repository env i ow r u = (Inr (now, True), u)"
    using assms by (simp add: reserve_repository_def Let_def)
  then have "create_repository_with_id_admitted env mat i ow r u = (Inr now, u)"
    using ok by (simp add: create_repository_with_id_admitted_def f_bind_run [of "reserve_repository env i ow r"])
  moreover have "require_repository_writable u i = Inr ()" using assms(8) by (simp add: writable_iff)
  ultimately show ?thesis
    using run(2) by (simp add: create_repository_with_id_def with_repository_creation_mutation_def)
qed

text \<open>
  C35. A creation may be retried: once a repository was created under an identity, the same request
  in any later state returns the repository as it then is, without a write and without creating it
  on disk again, as long as it is still there and accepts writes.
\<close>

theorem creation_retry_idempotent:
  assumes "reach forge_init forge_step t" "create_repository_with_id env mat i ow r s = (Inr repo, t)"
    and "forge_step\<^sup>*\<^sup>* t u"
    and "bt_get (st_repos u) (ow, crq_name r) = Some now" "re_id now = i" "accepts_writes u i"
  shows "create_repository_with_id env mat i ow r u = (Inr now, u)"
proof -
  obtain c where c: "bt_get (st_repository_creations t) i = Some c" "cn_owner c = ow" "cn_request c = r"
    "cn_materialized c"
    using create_repository_run(1) [OF creation_wrap_Ok(1) [OF assms(2) [unfolded create_repository_with_id_def]]]
    by blast
  obtain d where "bt_get (st_repository_creations u) i = Some d" "creation_grows c d"
    using history_creation [OF run_history [OF assms(1,3)] c(1)] by blast
  with c assms show ?thesis
    by (intro create_repository_again [of _ _ _ _ _ s repo t u d]) (auto simp: creation_grows_def)
qed

theorem creation_retry_idempotent_witness:
  "\<exists>now. create_repository_with_id sample_env None 3 ''acme'' sample_create sample_created = (Inr now, sample_created)"
proof -
  have "is_Ok (fst (create_repository_with_id sample_env None 3 ''acme'' sample_create State_default))"
    by code_simp
  then obtain repo t where run: "create_repository_with_id sample_env None 3 ''acme'' sample_create State_default = (Inr repo, t)"
    by (rule is_Ok_run)
  then have t: "t = sample_created" by (simp add: sample_created_def f_void_def)
  obtain now where now: "bt_get (st_repos sample_created) (''acme'', crq_name sample_create) = Some now" "re_id now = 3"
    using sample_created_repo by (auto simp: sample_create_def)
  have "accepts_writes sample_created 3" by code_simp
  then have "create_repository_with_id sample_env None 3 ''acme'' sample_create sample_created = (Inr now, sample_created)"
    using creation_retry_idempotent [OF sample_created_reach run [unfolded t] rtranclp.rtrancl_refl now] by blast
  then show ?thesis ..
qed

section \<open>Transfer\<close>

lemma commit_transfer_run:
  assumes "commit_repository_transfer env hint i v s = (Inr j, t)" "transfer_entry i s = Inr (k, j0)"
    "rt_status j0 = TrPrepared"
  obtains u where "rekey_repository env j0 s = Inr u" "commit_rows env k j0 v u = (j, t)"
  using wrap_Ok_run(6) [OF assms(1) [unfolded commit_repository_transfer_def]] assms(2,3) that
  by (auto simp: runs simp del: f_bind_try f_bind_read split: sum.splits)

lemma rekey_run:
  assumes "rekey_repository env j s = Inr t"
  obtains r where "bt_get (st_repos s) (rt_destination_owner j, rt_destination_name j) = None"
    "bt_get (st_repos s) (rt_source_owner j, rt_source_name j) = Some r" "re_id r = rt_repository_id j"
    "t = rekey_rows (rt_source_owner j, rt_source_name j) (rt_destination_owner j, rt_destination_name j)
      (s\<lparr>st_repos := bt_insert (rt_destination_owner j, rt_destination_name j)
         (r\<lparr>re_owner := rt_destination_owner j, re_name := rt_destination_name j,
            re_full_name := rt_destination_owner j @ ''/'' @ rt_destination_name j,
            re_updated_at := en_now env ''transfer'' 0\<rparr>)
         (bt_remove (rt_source_owner j, rt_source_name j) (st_repos s))\<rparr>)"
  using assms by (auto simp: rekey_repository_def Let_def split: if_splits option.splits)


definition sample_transfer :: PrepareRepositoryTransfer where
  "sample_transfer =
     \<lparr>pt_repository_id = 3, pt_expected_source_owner = ''acme'', pt_expected_source_name = ''jeryu'',
      pt_destination_owner = ''umbrella'', pt_request_fingerprint = ''fp'', pt_idempotency_key = ''key''\<rparr>"

definition sample_prepared :: ForgeState where
  "sample_prepared = snd (f_void (prepare_repository_transfer sample_env sample_transfer) sample_created)"

lemma sample_prepared_reach: "reach forge_init forge_step sample_prepared"
  unfolding sample_prepared_def
proof (rule reach_call [OF sample_created_reach _ sample_created_room])
  show "forge_call (sample_world State_default) (f_void (prepare_repository_transfer sample_env sample_transfer))"
    using atomic_call.intros(26) [of "sample_world State_default" sample_transfer]
    by (simp add: forge_call_def sample_world_def)
qed

lemma sample_prepared_rows:
  "map (\<lambda>(k, j). (k, rt_transaction_id j, rt_repository_id j, rt_status j, (rt_source_owner j, rt_source_name j),
        (rt_destination_owner j, rt_destination_name j))) (st_repository_transfers sample_prepared)
   = [(''key'', 7, 3, TrPrepared, (''acme'', ''jeryu''), (''umbrella'', ''jeryu''))]"
  "map (\<lambda>(k, r). (k, re_id r, re_archived r, re_disabled r)) (st_repos sample_prepared)
   = [((''acme'', ''jeryu''), 3, False, False)]"
  "st_repository_aliases sample_prepared = []" "st_repository_mutation_blocks sample_prepared = []"
  by code_simp+

lemma sample_commit:
  obtains j0 j t where "transfer_entry 7 sample_prepared = Inr (''key'', j0)" "rt_status j0 = TrPrepared"
    "(''acme'', ''jeryu'') = (rt_source_owner j0, rt_source_name j0)"
    "(''umbrella'', ''jeryu'') = (rt_destination_owner j0, rt_destination_name j0)"
    "commit_repository_transfer sample_env sample_prepared 7 ''done'' sample_prepared = (Inr j, t)"
proof -
  obtain j0 where tr: "st_repository_transfers sample_prepared = [(''key'', j0)]" "rt_transaction_id j0 = 7"
    "rt_repository_id j0 = 3" "rt_status j0 = TrPrepared"
    "rt_source_owner j0 = ''acme''" "rt_source_name j0 = ''jeryu''"
    "rt_destination_owner j0 = ''umbrella''" "rt_destination_name j0 = ''jeryu''"
    using sample_prepared_rows(1) by (auto simp: map_eq_Cons_conv)
  obtain r where re: "st_repos sample_prepared = [((''acme'', ''jeryu''), r)]" "re_id r = 3"
    "\<not> re_archived r" "\<not> re_disabled r"
    using sample_prepared_rows(2) by (auto simp: map_eq_Cons_conv)
  have entry: "transfer_entry 7 sample_prepared = Inr (''key'', j0)"
    by (simp add: transfer_entry_def transfer_key_for_id_def tr)
  have "accepts_writes sample_prepared 3"
    by (simp add: accepts_writes_def find_repo_def bt_values_def re sample_prepared_rows)
  then have "require_repository_writable sample_prepared 3 = Inr ()" by (simp add: writable_iff)
  moreover have "is_Ok (rekey_repository sample_env j0 sample_prepared)"
    by (simp add: rekey_repository_def tr re sample_prepared_rows is_Ok_def Let_def)
  moreover have "en_process sample_env = Inr ()" "en_ordinary sample_env = Inr ()" "en_persist sample_env n u = Inr ()" for n u
    by (simp_all add: sample_env_def)
  ultimately have "is_Ok (fst (commit_repository_transfer sample_env sample_prepared 7 ''done'' sample_prepared))"
    by (auto simp: commit_repository_transfer_def with_transfer_mutation_def with_repository_id_mutation_def
        tr entry bt_values_def f_commit_def is_Ok_def split: sum.splits prod.splits)
  then obtain j t where "commit_repository_transfer sample_env sample_prepared 7 ''done'' sample_prepared = (Inr j, t)"
    by (rule is_Ok_run)
  with entry tr show thesis by (intro that [of j0 j t]) simp_all
qed


section \<open>Mergeability\<close>

text \<open>The core evaluates without statuses and check runs, so no required context is ever satisfied.\<close>

lemma no_context_satisfied: "required_context_state c [] [] \<noteq> CtxSatisfied"
  by (simp add: required_context_state_def)

text \<open>
  C11. What makes a pull request mergeable in the core: it is open and not a draft, nobody objects,
  the audit gate is off, and, when its base branch has a rule, the rule requires no status check
  and no audit proof (the core evaluates with none, so either makes every pull request wait for
  the durable merge path), its approvals suffice, its commits are linear and signed where the rule
  asks for it, and the owners of every changed file have approved.
\<close>

theorem core_mergeable_exact:
  assumes "bt_get (st_pulls s) (ow, nm, n) = Some pr" "get_pull_request env s ow nm n = Inr p"
    and "reviews = bound_reviews_for_evaluation env s pr" "length reviews < 2 ^ 64"
  shows "fp_mergeable p \<longleftrightarrow>
    \<not> fp_merged pr \<and> fp_state pr \<noteq> PrMerged \<and> fp_state pr \<noteq> PrClosed \<and> \<not> fp_draft pr
    \<and> objectors reviews pr = {} \<and> \<not> audit_merge_enforced env
    \<and> (\<forall>rule. bt_get (st_branch_protections s) (fp_owner pr, fp_repo pr, gb_ref_name (fp_base pr)) = Some rule \<longrightarrow>
         bp_required_status_checks rule = [] \<and> \<not> bp_require_jankurai_proof rule
       \<and> unat (bp_required_approving_review_count rule) \<le> card (approvers reviews pr)
       \<and> (bp_required_linear_history rule \<longrightarrow> (\<forall>c \<in> set (fp_commits pr). pc_parents c \<le> 1))
       \<and> (bp_require_signed_commits rule \<longrightarrow> (\<forall>c \<in> set (fp_commits pr). pc_verified c))
       \<and> (\<forall>contents. bt_get (st_codeowners s) (fp_owner pr, fp_repo pr) = Some contents \<longrightarrow>
            (\<forall>path \<in> set (fp_changed_files pr). path_approved contents reviews pr path)))"
proof -
  have p: "p = reevaluate env s pr" using assms(1,2) by (simp add: get_pull_request_def)
  have contexts: "(\<forall>c\<in>set cs. required_context_state c [] [] = CtxSatisfied) \<longleftrightarrow> cs = []" for cs
    using no_context_satisfied by (cases cs) auto
  have "be_mergeable (evaluate_locked env s pr None) \<longleftrightarrow>
    \<not> fp_draft pr \<and> objectors reviews pr = {} \<and> \<not> audit_merge_enforced env
    \<and> (\<forall>rule. bt_get (st_branch_protections s) (fp_owner pr, fp_repo pr, gb_ref_name (fp_base pr)) = Some rule \<longrightarrow>
         bp_required_status_checks rule = [] \<and> \<not> bp_require_jankurai_proof rule
       \<and> unat (bp_required_approving_review_count rule) \<le> card (approvers reviews pr)
       \<and> (bp_required_linear_history rule \<longrightarrow> (\<forall>c \<in> set (fp_commits pr). pc_parents c \<le> 1))
       \<and> (bp_require_signed_commits rule \<longrightarrow> (\<forall>c \<in> set (fp_commits pr). pc_verified c))
       \<and> (\<forall>contents. bt_get (st_codeowners s) (fp_owner pr, fp_repo pr) = Some contents \<longrightarrow>
            (\<forall>path \<in> set (fp_changed_files pr). path_approved contents reviews pr path)))"
    unfolding evaluate_locked_def assms(3) [symmetric] evaluate_mergeable_iff [OF assms(4)]
      intrinsic_gates_def rule_gates_def
    by (simp add: contexts no_context_satisfied conj_ac)
  moreover have "fp_mergeable (apply_evaluation e pr) \<longleftrightarrow>
      \<not> fp_merged pr \<and> fp_state pr \<noteq> PrMerged \<and> fp_state pr \<noteq> PrClosed \<and> be_mergeable e" for e
    by (simp add: apply_evaluation_def)
  ultimately show ?thesis
    unfolding p reevaluate_def by (simp only: conj_assoc)
qed

definition sample_pulled :: ForgeState where
  "sample_pulled = snd (create_pull_request sample_env sample_created ''acme'' ''jeryu'' ''alice''
     sample_pull_request sample_created)"

lemma sample_pulled_rows:
  "map fst (st_pulls sample_pulled) = [(''acme'', ''jeryu'', 1)]" "st_bound_reviews sample_pulled = []"
  by code_simp+

lemma sample_pulled_gates:
  "map_option (\<lambda>pr. (fp_merged pr, fp_state pr, fp_draft pr, fp_commits pr, fp_owner pr, fp_repo pr, gb_ref_name (fp_base pr)))
     (bt_get (st_pulls sample_pulled) (''acme'', ''jeryu'', 1))
   = Some (False, PrMergeable, False, [], ''acme'', ''jeryu'', ''main'')"
  "map_option (\<lambda>rule. (bp_required_status_checks rule, bp_require_jankurai_proof rule,
       bp_required_approving_review_count rule, bp_require_signed_commits rule))
     (bt_get (st_branch_protections sample_pulled) (''acme'', ''jeryu'', ''main'')) = Some ([], False, 0, False)"
  "st_codeowners sample_pulled = []" "\<not> audit_merge_enforced sample_env"
  by code_simp+

theorem core_mergeable_exact_witness:
  "\<exists>pr p. bt_get (st_pulls sample_pulled) (''acme'', ''jeryu'', 1) = Some pr
     \<and> get_pull_request sample_env sample_pulled ''acme'' ''jeryu'' 1 = Inr p \<and> fp_mergeable p"
proof -
  obtain pr where pr: "bt_get (st_pulls sample_pulled) (''acme'', ''jeryu'', 1) = Some pr" "\<not> fp_merged pr"
    "fp_state pr = PrMergeable" "\<not> fp_draft pr" "fp_commits pr = []" "fp_owner pr = ''acme''"
    "fp_repo pr = ''jeryu''" "gb_ref_name (fp_base pr) = ''main''"
    using sample_pulled_gates(1) by auto
  then obtain p where p: "get_pull_request sample_env sample_pulled ''acme'' ''jeryu'' 1 = Inr p"
    by (simp add: get_pull_request_def)
  have none: "bound_reviews_for_evaluation sample_env sample_pulled pr = []"
    by (simp add: bound_reviews_for_evaluation_def reduced_bound_events_def events_of_def sample_pulled_rows(2) bt_values_def)
  have "objectors [] pr = {}" by (simp add: objectors_def verdict_of_def on_head_def)
  then have "fp_mergeable p"
    using core_mergeable_exact [OF pr(1) p none [symmetric]] pr sample_pulled_gates(2-4) by auto
  with pr(1) p show ?thesis by blast
qed

text \<open>The approvals that count are those of authorised people.\<close>

lemma values_insert: "snd ` set (bt_insert k v m) \<subseteq> insert v (snd ` set m)"
  by (induction k v m rule: bt_insert.induct) auto

lemma fold_bound_values:
  "e \<in> snd ` set (fold (bound_step pr) evs m) \<Longrightarrow> bt_wf m \<Longrightarrow> e \<in> set evs \<or> e \<in> snd ` set m"
proof (induction evs arbitrary: m)
  case (Cons x evs)
  have wf: "bt_wf (bound_step pr x m)"
    using Cons.prems(2) by (auto simp: bound_step_def Let_def split: ReviewState.split option.split)
  have "snd ` set (bt_remove k m) \<subseteq> insert x (snd ` set m)" for k by (auto simp: bt_remove_def)
  then have "snd ` set (bound_step pr x m) \<subseteq> insert x (snd ` set m)"
    using values_insert [of _ x m]
    by (simp add: bound_step_def Let_def subset_insertI split: ReviewState.split option.split)
  with Cons.IH [OF _ wf] Cons.prems(1) show ?case by auto
qed simp

lemma bound_review_event:
  assumes "r \<in> set (bound_reviews_for_evaluation env s pr)"
  obtains e where "e \<in> set (st_bound_reviews s)" "ev_review e = r" "event_counts env s pr e"
    "ev_pull_request_id e = fp_id pr" "rv_head_sha r = Some (gb_sha (fp_head pr))"
proof -
  from assms obtain e where e: "e \<in> set (reduced_bound_events s pr)" "ev_review e = r" "event_counts env s pr e"
    by (auto simp: bound_reviews_for_evaluation_def)
  from e(1) have "e \<in> set (events_of s pr)"
    using fold_bound_values [of e pr "events_of s pr" "[]"] by (auto simp: reduced_bound_events_def bt_values_def)
  then show thesis using that [of e] e by (auto simp: events_of_def)
qed



end
