(* ===== verification/Review_Custody.thy ===== *)
theory Review_Custody
  imports Review_Sample
begin

text \<open>
  The custody of authenticated reviews: what a recorded verdict says about the moment it was
  recorded, that a challenge is consumed at most once, that a repeated submission reads the
  original decision back, and that what is stored passes the checks of its own reader.
\<close>

section \<open>Sequences\<close>

lemma fold_max_ge: "a \<le> fold max xs a" "x \<in> set xs \<Longrightarrow> x \<le> fold max xs a" for a :: "'a::linorder"
proof -
  show ge: "a \<le> fold max xs a" for xs and a :: 'a
  proof (induction xs arbitrary: a)
    case (Cons y xs)
    then show ?case using order_trans [OF max.cobounded2 Cons.IH] by simp
  qed simp
  show "x \<in> set xs \<Longrightarrow> x \<le> fold max xs a"
  proof (induction xs arbitrary: a)
    case (Cons y xs)
    then show ?case using order_trans [OF max.cobounded1 ge [of "max y a" xs]] by auto
  qed simp
qed

lemma next_sequence_run:
  assumes "next_sequence s i pr = Inr n"
  shows "0 < n" "e \<in> set (bound_events s i (fp_id pr)) \<Longrightarrow> ev_sequence e < n"
proof -
  let ?last = "fold max (map ev_sequence (bound_events s i (fp_id pr))) 0"
  have "checked_add ?last 1 = Some n"
    using assms by (auto simp: next_sequence_def Let_def)
  then have n: "unat n = unat ?last + 1" by (auto dest: unat_checked_add)
  then show "0 < n" by (simp add: word_less_nat_alt)
  assume "e \<in> set (bound_events s i (fp_id pr))"
  then have "ev_sequence e \<le> ?last" by (intro fold_max_ge) simp
  with n show "ev_sequence e < n" by (simp add: word_less_nat_alt word_le_nat_alt)
qed

section \<open>Inversion\<close>

lemma review_context_run:
  assumes "with_review_context env hint runtime actor i n mutation operation s = (Inr x, t)"
  obtains hint_target target pr binding where
    "review_context env runtime actor i n mutation hint_target s = Inr (target, pr, binding)"
    "operation target pr binding s = (Inr x, t)"
  using assms unfolding with_review_context_def
  by (auto simp: runs simp del: f_bind_try f_bind_read split: prod.splits)

lemma review_context_facts:
  assumes "review_context env runtime actor i n mutation hint_target s = Inr (target, pr, binding)"
  shows "review_target s i n = Inr (target, pr)" "validate_actor_locked env runtime s actor mutation = Inr binding"
    "is_Ok (require_access s (rb_login binding) (gt_destination target) mutation)"
  using assms by (auto simp: review_context_def is_Ok_def split: if_splits)

lemma actor_locked_binding:
  "validate_actor_locked env runtime s actor mutation = Inr b \<Longrightarrow> validate_actor_binding env s b = Inr b"
  by (auto simp: validate_actor_locked_def validate_actor_binding_def split: if_splits)

lemma record_run:
  assumes "record_bound_review env ren hint runtime db actor i n request dismissed digest s = (Inr (event, db'), t)"
  obtains (replay) challenge where
      "load_challenge ren db (sbr_challenge_id request) = Inr (challenge, Some event)"
      "ev_request_sha256 event = digest" "db' = db" "t = s"
  | (fresh) hint_target target pr binding challenge where
      "review_context env runtime actor i n True hint_target s = Inr (target, pr, binding)"
      "load_challenge ren db (sbr_challenge_id request) = Inr (challenge, None)"
      "challenge_matches challenge i n pr binding request"
      "judge_review env ren runtime db actor i n target pr binding challenge request dismissed digest s
       = (Inr (event, db'), t)"
proof -
  define judge where "judge target pr binding =
      f_bind (f_try (rw_storage ren)) (\<lambda>_.
       f_bind (f_try (load_challenge ren db (sbr_challenge_id request))) (\<lambda>(challenge, accepted).
       f_bind (f_try (ensure (challenge_matches challenge i n pr binding request)
          (ForgeConflict ''review challenge binding does not match this request''))) (\<lambda>_.
       case accepted of
         Some event \<Rightarrow>
           if ev_request_sha256 event = digest then f_try (Ok (event, db))
           else f_try (Err (ForgeConflict ''review challenge was consumed by a different request''))
       | None \<Rightarrow>
           judge_review env ren runtime db actor i n target pr binding challenge request dismissed digest)))"
    for target pr binding
  have "with_review_context env hint runtime actor i n True judge s = (Inr (event, db'), t)"
    using assms unfolding record_bound_review_def judge_def f_bind_Ok f_try_Ok by blast
  then obtain hint_target target pr binding where
    ctx: "review_context env runtime actor i n True hint_target s = Inr (target, pr, binding)"
    and op: "judge target pr binding s = (Inr (event, db'), t)"
    by (rule review_context_run)
  from op obtain challenge accepted where
    "load_challenge ren db (sbr_challenge_id request) = Inr (challenge, accepted)"
    "challenge_matches challenge i n pr binding request"
    "(case accepted of
         Some event \<Rightarrow>
           if ev_request_sha256 event = digest then f_try (Ok (event, db))
           else f_try (Err (ForgeConflict ''review challenge was consumed by a different request''))
       | None \<Rightarrow>
           judge_review env ren runtime db actor i n target pr binding challenge request dismissed digest) s
     = (Inr (event, db'), t)"
    unfolding judge_def f_bind_Ok f_try_Ok by (auto simp: ensure_def split: prod.splits if_splits)
  then show thesis using ctx replay fresh by (cases accepted) (auto split: if_splits)
qed

lemma judge_run:
  assumes "judge_review env ren runtime db actor i n target pr binding challenge request dismissed digest s
       = (Inr (event, db'), t)"
  obtains sequence where
      "observe_review_snapshot ren target pr binding s = Inr (ch_snapshot challenge)"
      "rw_snapshot_digest ren (ch_snapshot challenge) = Inr (ch_snapshot_sha256 challenge)"
      "en_now env ''submit'' 1 < ch_expires_at challenge"
      "\<not> (sbr_event request = RvApproved \<and> eq_ignore_ascii_case (fp_author pr) (rb_login binding))"
      "next_sequence s i pr = Inr sequence"
      "event = bound_event env i n sequence pr binding challenge (ch_snapshot challenge) request dismissed digest"
      "t = propose_review env pr n event s"
      "commit_bound_review ren challenge event t db = Inr db'"
proof -
  from assms have chk: "observe_review_snapshot ren target pr binding s = Inr (ch_snapshot challenge)"
      "rw_snapshot_digest ren (ch_snapshot challenge) = Inr (ch_snapshot_sha256 challenge)"
      "en_now env ''submit'' 1 < ch_expires_at challenge"
      "\<not> (sbr_event request = RvApproved \<and> eq_ignore_ascii_case (fp_author pr) (rb_login binding))"
    and acc: "accept_review env ren db i n pr binding challenge (ch_snapshot challenge) request dismissed digest s
       = (Inr (event, db'), t)"
    unfolding judge_review_def f_bind_Ok f_try_Ok f_read_Ok by auto
  from acc obtain sequence where "next_sequence s i pr = Inr sequence"
      "event = bound_event env i n sequence pr binding challenge (ch_snapshot challenge) request dismissed digest"
      "t = propose_review env pr n event s"
      "commit_bound_review ren challenge event t db = Inr db'"
    by (auto simp: accept_review_def Let_def split: sum.splits)
  with chk show thesis by (rule that)
qed

section \<open>The tables only grow\<close>

definition row_grows :: "ChallengeRow \<Rightarrow> ChallengeRow \<Rightarrow> bool" where
  "row_grows r r' \<longleftrightarrow>
     r' = r \<or> cw_accepted_event_id r = None \<and> r' = r\<lparr>cw_accepted_event_id := cw_accepted_event_id r'\<rparr>"

definition db_grows :: "ReviewDb \<Rightarrow> ReviewDb \<Rightarrow> bool" where
  "db_grows db db' \<longleftrightarrow>
     map_grows row_grows (db_challenges db) (db_challenges db')
   \<and> map_grows (=) (db_events db) (db_events db')"

lemma row_grows_trans: "row_grows a b \<Longrightarrow> row_grows b c \<Longrightarrow> row_grows a c"
  unfolding row_grows_def by (cases a; cases b; cases c) auto

lemma db_grows_refl: "db_grows db db"
  by (simp add: db_grows_def map_grows_refl row_grows_def)

lemma db_grows_trans: "db_grows a b \<Longrightarrow> db_grows b c \<Longrightarrow> db_grows a c"
  unfolding db_grows_def by (blast intro: map_grows_trans row_grows_trans)

lemma audit_tables:
  assumes "insert_audit ren entry db = Inr db'"
  shows "db_challenges db' = db_challenges db" "db_events db' = db_events db"
  using assms by (auto simp: insert_audit_def split: if_splits)

lemma commit_run:
  assumes "commit_bound_review ren challenge event proposed db = Inr db'"
  obtains row json where "load_challenge ren db (ch_id challenge) = Inr (challenge, None)"
    "bt_get (db_challenges db) (show_uuid (ch_id challenge)) = Some row" "cw_accepted_event_id row = None"
    "db_challenges db' = bt_insert (show_uuid (ch_id challenge))
       (row\<lparr>cw_accepted_event_id := Some (show_uuid (ev_id event))\<rparr>) (db_challenges db)"
    "rw_event_json ren event = Inr json" "bt_get (db_events db) (show_uuid (ev_id event)) = None"
    "db_events db' = bt_insert (show_uuid (ev_id event))
       \<lparr>ew_repo_id = show_uuid (ev_repository_id event), ew_pull_id = show_uuid (ev_pull_request_id event),
        ew_pull_number = ev_pull_number event, ew_sequence = ev_sequence event,
        ew_challenge_id = show_uuid (ev_challenge_id event), ew_event_json = json\<rparr> (db_events db)"
proof -
  obtain db1 db2 entry where load: "load_challenge ren db (ch_id challenge) = Inr (challenge, None)"
    and ins: "insert_event ren event db = Inr db1" and con: "consume_challenge ren challenge event db1 = Inr db2"
    and aud: "insert_audit ren entry db2 = Inr db'"
    using assms by (auto simp: commit_bound_review_def split: if_splits)
  from ins obtain json where 1: "rw_event_json ren event = Inr json"
    "bt_get (db_events db) (show_uuid (ev_id event)) = None" "db_challenges db1 = db_challenges db"
    "db_events db1 = bt_insert (show_uuid (ev_id event))
       \<lparr>ew_repo_id = show_uuid (ev_repository_id event), ew_pull_id = show_uuid (ev_pull_request_id event),
        ew_pull_number = ev_pull_number event, ew_sequence = ev_sequence event,
        ew_challenge_id = show_uuid (ev_challenge_id event), ew_event_json = json\<rparr> (db_events db)"
    by (auto simp: insert_event_def event_row_free_def split: if_splits)
  from con obtain row where "bt_get (db_challenges db1) (show_uuid (ch_id challenge)) = Some row"
    "cw_accepted_event_id row = None" "db_events db2 = db_events db1"
    "db_challenges db2 = bt_insert (show_uuid (ch_id challenge))
       (row\<lparr>cw_accepted_event_id := Some (show_uuid (ev_id event))\<rparr>) (db_challenges db1)"
    by (auto simp: consume_challenge_def Let_def split: if_splits option.splits)
  with 1 audit_tables [OF aud] load show thesis by (intro that [of row json]) simp_all
qed

lemma commit_grows:
  assumes "commit_bound_review ren challenge event proposed db = Inr db'"
  shows "db_grows db db'"
  by (rule commit_run [OF assms]) (auto simp: db_grows_def map_grows_def row_grows_def)

lemma record_grows:
  assumes "record_bound_review env ren hint runtime db actor i n request dismissed digest s = (Inr (event, db'), t)"
  shows "db_grows db db'"
  using assms by (cases rule: record_run) (auto simp: db_grows_refl elim!: judge_run commit_grows)

lemma challenge_insert_grows:
  assumes "insert_review_challenge ren audit_id challenge db = Inr db'"
  shows "db_grows db db'"
proof -
  obtain entry row where "bt_get (db_challenges db) (show_uuid (ch_id challenge)) = None"
    and "insert_audit ren entry (db\<lparr>db_challenges := bt_insert (show_uuid (ch_id challenge)) row (db_challenges db)\<rparr>)
      = Inr db'"
    using assms by (auto simp: insert_review_challenge_def Let_def split: if_splits)
  with audit_tables [of ren entry _ db'] show ?thesis
    by (fastforce simp: db_grows_def map_grows_def row_grows_def)
qed

lemma load_accepted_grows:
  "load_accepted ren db i challenge event_id = Inr event \<Longrightarrow> db_grows db db' \<Longrightarrow>
     load_accepted ren db' i challenge event_id = Inr event"
  by (auto simp: load_accepted_def db_grows_def map_grows_def split: option.splits if_splits)

lemma load_challenge_run:
  assumes "load_challenge ren db i = Inr (challenge, accepted)"
  obtains row where "rw_sql ren ''SELECT forge_review_challenges'' = Inr ()"
    "bt_get (db_challenges db) (show_uuid i) = Some row"
    "rw_challenge_of ren (cw_challenge_json row) = Inr challenge" "ch_id challenge = i"
    "rw_snapshot_digest ren (ch_snapshot challenge) = Inr (ch_snapshot_sha256 challenge)"
    "show_uuid (sn_repository_id (ch_snapshot challenge)) = cw_repo_id row"
    "show_uuid (sn_pull_request_id (ch_snapshot challenge)) = cw_pull_id row"
    "sn_pull_number (ch_snapshot challenge) = cw_pull_number row"
    "rw_rfc3339 ren (ch_expires_at challenge) = cw_expires_at row" "\<not> ch_merge_qualified challenge"
    "case cw_accepted_event_id row of None \<Rightarrow> accepted = None
     | Some event_id \<Rightarrow> \<exists>event. accepted = Some event \<and> load_accepted ren db i challenge event_id = Inr event"
  using assms by (auto simp: load_challenge_def split: if_splits option.splits)

lemma load_challenge_grows:
  assumes "load_challenge ren db i = Inr (challenge, Some event)" "db_grows db db'"
  shows "load_challenge ren db' i = Inr (challenge, Some event)"
  using assms(1)
proof (rule load_challenge_run)
  fix row
  assume row: "bt_get (db_challenges db) (show_uuid i) = Some row"
    and acc: "case cw_accepted_event_id row of None \<Rightarrow> Some event = None
     | Some event_id \<Rightarrow> \<exists>e. Some event = Some e \<and> load_accepted ren db i challenge event_id = Inr e"
    and rest: "rw_sql ren ''SELECT forge_review_challenges'' = Inr ()"
    "rw_challenge_of ren (cw_challenge_json row) = Inr challenge" "ch_id challenge = i"
    "rw_snapshot_digest ren (ch_snapshot challenge) = Inr (ch_snapshot_sha256 challenge)"
    "show_uuid (sn_repository_id (ch_snapshot challenge)) = cw_repo_id row"
    "show_uuid (sn_pull_request_id (ch_snapshot challenge)) = cw_pull_id row"
    "sn_pull_number (ch_snapshot challenge) = cw_pull_number row"
    "rw_rfc3339 ren (ch_expires_at challenge) = cw_expires_at row" "\<not> ch_merge_qualified challenge"
  from acc obtain event_id where id: "cw_accepted_event_id row = Some event_id"
    "load_accepted ren db i challenge event_id = Inr event"
    by (auto split: option.splits)
  have "map_grows row_grows (db_challenges db) (db_challenges db')"
    using assms(2) by (simp add: db_grows_def)
  with row obtain r' where "bt_get (db_challenges db') (show_uuid i) = Some r'" "row_grows row r'"
    unfolding map_grows_def by blast
  with id have "bt_get (db_challenges db') (show_uuid i) = Some row" by (auto simp: row_grows_def)
  with rest id load_accepted_grows [OF id(2) assms(2)] show ?thesis
    by (simp add: load_challenge_def)
qed

section \<open>Guarantees\<close>

lemma review_snapshot_git: "review_snapshot ren target pr binding git s = Inr snapshot \<Longrightarrow> sn_git snapshot = git"
  by (auto simp: review_snapshot_def Let_def)

lemma recorded_event_reads_back:
  assumes "challenge_matches challenge i n pr binding request"
    "rw_snapshot_digest ren (ch_snapshot challenge) = Inr (ch_snapshot_sha256 challenge)"
    "event = bound_event env i n sequence pr binding challenge (ch_snapshot challenge) request dismissed digest"
    "0 < sequence" "rw_event_of ren json = Inr event"
  shows "decode_event ren json = Inr event"
  using assms
  by (auto simp: decode_event_def bound_event_def challenge_matches_def Let_def list_ex_iff in_set_enumerate_eq)

lemma record_stores:
  assumes run: "record_bound_review env ren hint runtime db actor i n request dismissed digest s = (Inr (event, db'), t)"
    and codec: "\<And>json. rw_event_json ren event = Inr json \<Longrightarrow> rw_event_of ren json = Inr event"
  shows "\<exists>challenge accepted. load_challenge ren db (sbr_challenge_id request) = Inr (challenge, accepted)
      \<and> load_challenge ren db' (sbr_challenge_id request) = Inr (challenge, Some event)"
    "ev_request_sha256 event = digest"
proof -
  have "(\<exists>challenge accepted. load_challenge ren db (sbr_challenge_id request) = Inr (challenge, accepted)
      \<and> load_challenge ren db' (sbr_challenge_id request) = Inr (challenge, Some event))
      \<and> ev_request_sha256 event = digest"
    using run
  proof (cases rule: record_run)
    case (replay challenge)
    then show ?thesis by auto
  next
    case (fresh hint_target target pr binding challenge)
    from fresh(4) obtain sequence where j:
      "rw_snapshot_digest ren (ch_snapshot challenge) = Inr (ch_snapshot_sha256 challenge)"
      "next_sequence s i pr = Inr sequence"
      "event = bound_event env i n sequence pr binding challenge (ch_snapshot challenge) request dismissed digest"
      "commit_bound_review ren challenge event t db = Inr db'"
      by (rule judge_run)
    from j(4) obtain row json where c: "load_challenge ren db (ch_id challenge) = Inr (challenge, None)"
      "bt_get (db_challenges db) (show_uuid (ch_id challenge)) = Some row"
      "db_challenges db' = bt_insert (show_uuid (ch_id challenge))
         (row\<lparr>cw_accepted_event_id := Some (show_uuid (ev_id event))\<rparr>) (db_challenges db)"
      "rw_event_json ren event = Inr json"
      "bt_get (db_events db') (show_uuid (ev_id event)) =
         Some \<lparr>ew_repo_id = show_uuid (ev_repository_id event), ew_pull_id = show_uuid (ev_pull_request_id event),
        ew_pull_number = ev_pull_number event, ew_sequence = ev_sequence event,
        ew_challenge_id = show_uuid (ev_challenge_id event), ew_event_json = json\<rparr>"
      by (rule commit_run) simp
    have dec: "decode_event ren json = Inr event"
      using recorded_event_reads_back [OF fresh(3) j(1,3) next_sequence_run(1) [OF j(2)] codec [OF c(4)]] .
    have ids: "sbr_challenge_id request = ch_id challenge"
      using fresh(2) by (rule load_challenge_run) simp
    have ev: "ev_challenge_id event = ch_id challenge" "ev_snapshot event = ch_snapshot challenge"
      "ev_request_sha256 event = digest"
      by (simp_all add: j(3) bound_event_def Let_def)
    have acc: "load_accepted ren db' (ch_id challenge) challenge (show_uuid (ev_id event)) = Inr event"
      by (simp add: load_accepted_def c(5) dec ev)
    have "load_challenge ren db' (ch_id challenge) = Inr (challenge, Some event)"
      using c(1) by (rule load_challenge_run) (use c(2) acc in \<open>simp add: load_challenge_def c(3)\<close>)
    with ids ev c(1) show ?thesis by auto
  qed
  then show "\<exists>challenge accepted. load_challenge ren db (sbr_challenge_id request) = Inr (challenge, accepted)
      \<and> load_challenge ren db' (sbr_challenge_id request) = Inr (challenge, Some event)"
    "ev_request_sha256 event = digest" by auto
qed

text \<open>
  C9. A review challenge is consumed at most once: after a verdict was recorded against it, every
  later submission against the same challenge, by whomever and with whatever request, either fails
  or reads the original verdict back, and then it is the same request (the digests agree) and
  neither the tables nor the state change. The JSON codec of events is assumed to be faithful.
\<close>

theorem challenge_consumed_once:
  assumes "record_bound_review env ren hint runtime db actor i n request dismissed digest s = (Inr (event, db'), t)"
    and "\<And>json. rw_event_json ren event = Inr json \<Longrightarrow> rw_event_of ren json = Inr event"
    and "db_grows db' db2" "sbr_challenge_id request2 = sbr_challenge_id request"
    and "record_bound_review env2 ren hint2 runtime2 db2 actor2 i2 n2 request2 dismissed2 digest2 u
         = (Inr (event2, db3), v)"
  shows "event2 = event \<and> digest2 = digest \<and> db3 = db2 \<and> v = u"
proof -
  obtain challenge where "load_challenge ren db' (sbr_challenge_id request) = Inr (challenge, Some event)"
    using record_stores(1) [OF assms(1,2)] by blast
  from load_challenge_grows [OF this assms(3)]
  have load: "load_challenge ren db2 (sbr_challenge_id request2) = Inr (challenge, Some event)"
    by (simp add: assms(4))
  from assms(5) show ?thesis
    by (cases rule: record_run) (use load record_stores(2) [OF assms(1,2)] in auto)
qed

section \<open>Retrying a submission\<close>

text \<open>What a successful submission was admitted with.\<close>

lemma record_admitted:
  assumes "record_bound_review env ren hint runtime db actor i n request dismissed digest s = (Inr (event, db'), t)"
  obtains hint_target target pr binding challenge accepted where
    "validate_oid (sbr_expected_head_sha request) = Inr ()" "en_process env = Inr ()" "en_ordinary env = Inr ()"
    "review_context env runtime actor i n True hint_target s = Inr (target, pr, binding)"
    "rw_storage ren = Inr ()" "load_challenge ren db (sbr_challenge_id request) = Inr (challenge, accepted)"
    "challenge_matches challenge i n pr binding request"
  using assms unfolding record_bound_review_def with_review_context_def f_bind_Ok f_try_Ok f_read_Ok
  by (auto simp: ensure_def runs simp del: f_bind_try f_bind_read split: prod.splits if_splits)

lemma reevaluate_target:
  "fp_id (reevaluate env s p) = fp_id p" "fp_head (reevaluate env s p) = fp_head p"
  "fp_base (reevaluate env s p) = fp_base p" "fp_source_repository (reevaluate env s p) = fp_source_repository p"
  by (simp_all add: reevaluate_def apply_evaluation_def)

lemma propose_tables:
  "st_repos (propose_review env pr n event s) = st_repos s"
  "st_accounts (propose_review env pr n event s) = st_accounts s"
  "st_users (propose_review env pr n event s) = st_users s"
  "st_sessions (propose_review env pr n event s) = st_sessions s"
  "st_personal_tokens (propose_review env pr n event s) = st_personal_tokens s"
  "st_repo_grants (propose_review env pr n event s) = st_repo_grants s"
  "st_repository_mutation_blocks (propose_review env pr n event s) = st_repository_mutation_blocks s"
  by (simp_all add: propose_review_def Let_def)

lemma propose_target:
  assumes "review_target s i n = Inr (target, pr)"
    and "fp_owner pr = gr_owner (gt_destination target)" "fp_repo pr = gr_name (gt_destination target)"
  shows "\<exists>pr'. review_target (propose_review env pr n event s) i n = Inr (target, pr') \<and> fp_id pr' = fp_id pr"
proof -
  from assms obtain u where "st_pulls (propose_review env pr n event s)
      = bt_insert (gr_owner (gt_destination target), gr_name (gt_destination target), n) (reevaluate env u pr) (st_pulls s)"
    by (auto simp: propose_review_def Let_def)
  with assms(1) show ?thesis
    by (intro exI [of _ "reevaluate env u pr"])
       (auto simp: review_target_def find_repo_def propose_tables reevaluate_target git_repository_def Let_def)
qed

lemma propose_context:
  assumes "review_context env runtime actor i n True hint_target s = Inr (target, pr, binding)"
    and "fp_owner pr = gr_owner (gt_destination target)" "fp_repo pr = gr_name (gt_destination target)"
  shows "\<exists>pr'. review_target (propose_review env pr n event s) i n = Inr (target, pr')
      \<and> review_context env runtime actor i n True target (propose_review env pr n event s) = Inr (target, pr', binding)
      \<and> fp_id pr' = fp_id pr"
proof -
  note facts = review_context_facts [OF assms(1)]
  obtain pr' where "review_target (propose_review env pr n event s) i n = Inr (target, pr')" "fp_id pr' = fp_id pr"
    using propose_target [OF facts(1) assms(2,3)] by blast
  moreover have "require_repository_admissible (propose_review env pr n event s) = require_repository_admissible s"
    by (intro ext) (simp only: require_repository_admissible_def find_repo_def propose_tables)
  moreover have "require_access (propose_review env pr n event s) = require_access s"
    by (intro ext) (simp only: require_access_def propose_tables)
  moreover have "validate_actor_locked env runtime (propose_review env pr n event s) actor True
      = validate_actor_locked env runtime s actor True"
    by (simp only: validate_actor_locked_def validate_actor_binding_def credential_live_def propose_tables)
  ultimately show ?thesis
    using assms(1) by (auto simp: review_context_def split: if_splits)
qed

lemma record_again:
  assumes run: "record_bound_review env ren hint runtime db actor i n request dismissed digest s = (Inr (event, db'), t)"
    and codec: "\<And>json. rw_event_json ren event = Inr json \<Longrightarrow> rw_event_of ren json = Inr event"
    and key: "\<And>target pr. review_target s i n = Inr (target, pr) \<Longrightarrow>
        fp_owner pr = gr_owner (gt_destination target) \<and> fp_repo pr = gr_name (gt_destination target)"
  shows "record_bound_review env ren t runtime db' actor i n request dismissed digest t = (Inr (event, db'), t)"
proof -
  from run obtain hint_target target pr binding challenge accepted where
    adm: "validate_oid (sbr_expected_head_sha request) = Inr ()" "en_process env = Inr ()" "en_ordinary env = Inr ()"
    "review_context env runtime actor i n True hint_target s = Inr (target, pr, binding)"
    "rw_storage ren = Inr ()" "load_challenge ren db (sbr_challenge_id request) = Inr (challenge, accepted)"
    "challenge_matches challenge i n pr binding request"
    by (rule record_admitted)
  note facts = review_context_facts [OF adm(4)]
  have same: "review_context env runtime actor i n True target s = Inr (target, pr, binding)"
    using adm(4) by (auto simp: review_context_def split: if_splits)
  have "\<exists>pr'. review_target t i n = Inr (target, pr') \<and> fp_id pr' = fp_id pr
      \<and> review_context env runtime actor i n True target t = Inr (target, pr', binding)"
    using run
  proof (cases rule: record_run)
    case (replay c)
    then show ?thesis using same facts(1) by simp
  next
    case (fresh h target' pr' binding' c)
    then have "target' = target" "pr' = pr" "binding' = binding"
      using review_context_facts [OF fresh(1)] facts by simp_all
    then have "t = propose_review env pr n event s" using fresh(4) by (auto elim: judge_run)
    then show ?thesis using propose_context [OF adm(4)] key [OF facts(1)] by blast
  qed
  then obtain pr' where ctx: "review_target t i n = Inr (target, pr')" "fp_id pr' = fp_id pr"
    "review_context env runtime actor i n True target t = Inr (target, pr', binding)" by blast
  have "load_challenge ren db' (sbr_challenge_id request) = Inr (challenge, Some event)"
    "ev_request_sha256 event = digest" using record_stores [OF run codec] adm(6) by auto
  moreover have "challenge_matches challenge i n pr' binding request"
    using adm(7) ctx(2) by (simp add: challenge_matches_def)
  ultimately show ?thesis
    using adm(1-3,5) ctx(1,3) review_context_facts(2) [OF ctx(3)]
    by (simp add: record_bound_review_def with_review_context_def)
qed

text \<open>
  A submission whose answer was lost may be repeated: in the state and the tables that the
  recorded verdict left behind, the same request of the same actor returns the same verdict and
  changes nothing. The JSON codec of events is assumed to be faithful.
\<close>

theorem bound_review_retry:
  assumes "reach forge_init forge_step s"
    and "record_bound_review env ren hint runtime db actor i n request dismissed digest s = (Inr (event, db'), t)"
    and "\<And>json. rw_event_json ren event = Inr json \<Longrightarrow> rw_event_of ren json = Inr event"
  shows "record_bound_review env ren t runtime db' actor i n request dismissed digest t = (Inr (event, db'), t)"
proof (rule record_again [OF assms(2,3)])
  fix target pr
  assume "review_target s i n = Inr (target, pr)"
  then obtain r where "bt_get (st_pulls s) (re_owner r, re_name r, n) = Some pr" "gt_destination target = git_repository r"
    by (auto simp: review_target_def Let_def)
  then show "fp_owner pr = gr_owner (gt_destination target) \<and> fp_repo pr = gr_name (gt_destination target)"
    using forge.reach_inv [OF assms(1)] by (auto simp: forge_inv_def pulls_ok_def git_repository_def)
qed

lemma sample_reads_back:
  "record_bound_review sample_env sample_custody_env sample_recorded 0 sample_accepted sample_actor 3 1
     sample_submission None ''digest'' sample_recorded
   = (Inr (sample_verdict, sample_accepted), sample_recorded)"
proof (rule record_again [OF sample_records])
  show "rw_event_of sample_custody_env json = Inr sample_verdict" for json
    by (simp add: sample_custody_env_def)
  show "fp_owner pr = gr_owner (gt_destination target) \<and> fp_repo pr = gr_name (gt_destination target)"
    if "review_target sample_reviewable 3 1 = Inr (target, pr)" for target pr
    using that by (simp add: sample_context_entered(1))
      (auto simp: sample_target_def sample_request_def sample_pull_def sample_repository_def git_repository_def)
qed

theorem challenge_consumed_once_witness:
  "record_bound_review sample_env sample_custody_env sample_reviewable 0 sample_custody sample_actor 3 1
     sample_submission None ''digest'' sample_reviewable
   = (Inr (sample_verdict, sample_accepted), sample_recorded)
   \<and> (\<forall>digest event db. record_bound_review sample_env sample_custody_env sample_recorded 0 sample_accepted
        sample_actor 3 1 sample_submission None digest sample_recorded = (Inr (event, db), sample_recorded)
      \<longleftrightarrow> digest = ''digest'' \<and> event = sample_verdict \<and> db = sample_accepted)"
proof -
  have "rw_event_of sample_custody_env json = Inr sample_verdict" for json
    by (simp add: sample_custody_env_def)
  then have "event = sample_verdict \<and> digest = ''digest'' \<and> db = sample_accepted"
    if "record_bound_review sample_env sample_custody_env sample_recorded 0 sample_accepted
        sample_actor 3 1 sample_submission None digest sample_recorded = (Inr (event, db), sample_recorded)"
    for digest event db
    using challenge_consumed_once [OF sample_records _ db_grows_refl refl that] by blast
  then show ?thesis using sample_records sample_reads_back by blast
qed



end
