(* ===== verification/Json_Value.thy ===== *)
theory Json_Value
  imports Jeryu_Prelude
begin

text \<open>JSON values as the components build and inspect them; reading and printing them is a parameter.\<close>

text \<open>\<open>serde_json::Value\<close>; a number is kept as its text.\<close>

datatype json_value = JNull | JBool bool | JNumber string | JString string
  | JArray "json_value list" | JObject "(string \<times> json_value) list"

fun json_get :: "string \<Rightarrow> json_value \<Rightarrow> json_value option" where
  "json_get key (JObject fs) = map_of fs key"
| "json_get key _ = None"

fun json_str :: "json_value \<Rightarrow> string option" where
  "json_str (JString s) = Some s"
| "json_str _ = None"

fun json_array :: "json_value \<Rightarrow> json_value list option" where
  "json_array (JArray xs) = Some xs"
| "json_array _ = None"

fun json_object :: "json_value \<Rightarrow> (string \<times> json_value) list option" where
  "json_object (JObject fs) = Some fs"
| "json_object _ = None"

end
