(* ===== verification/Ref_Operations.thy ===== *)
theory Ref_Operations
  imports Forge_Reviews Reachability Json_Value
begin

text \<open>
  Durable ref operations: \<open>engine/ref_operations.rs\<close>, the journal of \<open>engine/storage/ref_operations.rs\<close>
  and its schema (\<open>db/migrations/0014_ref_operation_journal.sql\<close>). An intent to change refs is
  first recorded as prepared; what Git is later observed to have done resolves it, once and for all,
  to committed, aborted or in need of reconciliation. A committed operation publishes a new state and
  leaves one event in an outbox, which is acknowledged once.

  The two tables and the audit log are a \<open>RefDb\<close>. A transaction is a function from the tables to
  a result with new tables; a refused one leaves them alone. JSON, SHA-256, the text forms of times
  and UUIDs and the failures of the SQL engine are the record \<open>RefEnv\<close>.
\<close>

section \<open>Intents and operations\<close>

datatype RefValue = Absent | Exact string

record RefChangeIntent =
  ri_reference :: string
  ri_expected :: RefValue
  ri_result :: RefValue

datatype DurableRefOperationKind = MergeKind uuid uuid string string | RefUpdateKind

record RefOperationIntent =
  it_repository_id :: uuid
  it_idempotency_key :: string
  it_actor :: string
  it_operation :: DurableRefOperationKind
  it_changes :: "RefChangeIntent list"
  it_qualification_snapshot :: json_value
  it_expires_at :: time

datatype DurableRefOperationState = OpPrepared | OpCommitted | OpAbortedNotApplied | OpReconciliationRequired

record ObservedRef =
  orf_reference :: string
  orf_value :: RefValue

datatype RefOperationObservation = Observed "ObservedRef list" RefValue bool | Unavailable string

record RefOperationOutcome =
  oc_observation :: RefOperationObservation
  oc_recorded_at :: time
  oc_audit_id :: uuid
  oc_event_id :: "uuid option"

record DurableRefOperation =
  op_id :: uuid
  op_intent :: RefOperationIntent
  op_intent_sha256 :: string
  op_qualification_sha256 :: string
  op_marker_ref :: string
  op_marker_oid :: string
  op_prepared_at :: time
  op_prepared_audit_id :: uuid
  op_state :: DurableRefOperationState
  op_outcome :: "RefOperationOutcome option"

record RefOperationEvent =
  oe_id :: uuid
  oe_operation_id :: uuid
  oe_repository_id :: uuid
  oe_created_at :: time
  oe_operation :: DurableRefOperation
  oe_delivered_at :: "time option"
  oe_delivery_receipt :: "string option"

record MergeOperationReadback =
  mr_operation :: DurableRefOperation
  mr_delivery :: "RefOperationEvent option"
  mr_observed_at :: time

section \<open>The tables and what surrounds them\<close>

record OperationRow =
  ow_repository_id :: string
  ow_key :: string
  ow_intent :: string
  ow_intent_sha256 :: string
  ow_qualification_sha256 :: string
  ow_marker_ref :: string
  ow_marker_oid :: string
  ow_prepared_at :: string
  ow_prepared_audit_id :: string
  ow_state :: string
  ow_outcome :: "string option"

record OutboxRow =
  ox_operation_id :: string
  ox_repo_id :: string
  ox_created_at :: string
  ox_payload_json :: string
  ox_delivered_at :: "string option"
  ox_delivery_receipt :: "string option"

record RefDb =
  rd_operations :: "(string, OperationRow) btree_map"
  rd_outbox :: "(string, OutboxRow) btree_map"
  rd_audit :: "AuditEntry list"

record RefEnv =
  rf_process :: "nat \<Rightarrow> (unit, ForgeError) result"
  rf_storage :: "(unit, ForgeError) result"
  rf_sql :: "string \<Rightarrow> (unit, ForgeError) result"
  rf_persist :: "ForgeState \<Rightarrow> (unit, ForgeError) result"
  rf_intent_json :: "RefOperationIntent \<Rightarrow> (string, ForgeError) result"
  rf_intent_of :: "string \<Rightarrow> (RefOperationIntent, ForgeError) result"
  rf_value_json :: "json_value \<Rightarrow> (string, ForgeError) result"
  rf_outcome_json :: "RefOperationOutcome \<Rightarrow> (string, ForgeError) result"
  rf_outcome_of :: "string \<Rightarrow> (RefOperationOutcome, ForgeError) result"
  rf_event_json :: "RefOperationEvent \<Rightarrow> (string, ForgeError) result"
  rf_event_of :: "string \<Rightarrow> (RefOperationEvent, ForgeError) result"
  rf_operation_detail :: "DurableRefOperation \<Rightarrow> string"
  rf_sha256 :: "string \<Rightarrow> string"
  rf_rfc3339 :: "time \<Rightarrow> string"
  rf_time_of :: "string \<Rightarrow> (time, ForgeError) result"
  rf_uuid_of :: "string \<Rightarrow> uuid option"

definition RefDb_empty :: RefDb where
  "RefDb_empty = \<lparr>rd_operations = [], rd_outbox = [], rd_audit = []\<rparr>"

type_synonym 'a ref_tx = "RefDb \<Rightarrow> ('a \<times> RefDb, ForgeError) result"

definition parse_uuid :: "RefEnv \<Rightarrow> string \<Rightarrow> (uuid, ForgeError) result" where
  "parse_uuid ren v = ok_or (Storage v) (rf_uuid_of ren v)"

section \<open>Validation\<close>

definition is_lower_hex :: "char \<Rightarrow> bool" where
  "is_lower_hex c \<longleftrightarrow> is_ascii_digit c \<or> CHR ''a'' \<le> c \<and> c \<le> CHR ''f''"

definition ref_validate_oid :: "string \<Rightarrow> (unit, ForgeError) result" where
  "ref_validate_oid oid =
     (if length oid \<noteq> 40 \<or> list_all (\<lambda>b. b = CHR ''0'') oid \<or> \<not> list_all is_lower_hex oid
      then Err (Validation ''full nonzero lowercase SHA1 object ID required'') else Ok ())"

fun ref_validate_value :: "RefValue \<Rightarrow> (unit, ForgeError) result" where
  "ref_validate_value Absent = Ok ()"
| "ref_validate_value (Exact oid) = ref_validate_oid oid"

definition validate_ref :: "string \<Rightarrow> (unit, ForgeError) result" where
  "validate_ref reference =
     (if \<not> (starts_with reference ''refs/heads/'' \<or> starts_with reference ''refs/tags/'')
         \<or> length reference > 1024 \<or> ends_with reference ''/'' \<or> ends_with reference ''.''
         \<or> str_contains reference ''..'' \<or> str_contains reference ''//''
         \<or> list_ex (\<lambda>part. starts_with part ''.'' \<or> ends_with part ''.lock'') (split_char (CHR ''/'') reference)
         \<or> \<not> list_all (\<lambda>b. is_ascii_alphanumeric b \<or> b \<in> set ''/._-'') reference
      then Err (Validation ''unsupported full head/tag ref name'') else Ok ())"

fun validate_changes :: "string list \<Rightarrow> RefChangeIntent list \<Rightarrow> (unit, ForgeError) result" where
  "validate_changes refs [] = Ok ()"
| "validate_changes refs (change # changes) =
     and_then (validate_ref (ri_reference change)) (\<lambda>_.
     and_then (ref_validate_value (ri_expected change)) (\<lambda>_.
     and_then (ref_validate_value (ri_result change)) (\<lambda>_.
     if ri_reference change \<in> set refs \<or> ri_expected change = ri_result change
     then Err (Validation ''duplicate ref or non-changing ref operation'')
     else validate_changes (ri_reference change # refs) changes)))"

definition is_exact :: "RefValue \<Rightarrow> bool" where
  "is_exact v \<longleftrightarrow> (case v of Exact _ \<Rightarrow> True | Absent \<Rightarrow> False)"

definition merges_one_branch :: "RefChangeIntent list \<Rightarrow> string \<Rightarrow> bool" where
  "merges_one_branch changes source_head \<longleftrightarrow>
     (case changes of
        [c] \<Rightarrow> starts_with (ri_reference c) ''refs/heads/'' \<and> is_exact (ri_expected c) \<and> ri_result c = Exact source_head
      | _ \<Rightarrow> False)"

fun validate_operation :: "RefChangeIntent list \<Rightarrow> DurableRefOperationKind \<Rightarrow> (unit, ForgeError) result" where
  "validate_operation changes RefUpdateKind = Ok ()"
| "validate_operation changes (MergeKind pull_request_id source_repository_id source_ref source_head) =
     (if pull_request_id = 0 \<or> source_repository_id = 0
      then Err (Validation ''merge requires exact PR and source repository UUIDs'')
      else and_then (validate_ref source_ref) (\<lambda>_.
        if \<not> starts_with source_ref ''refs/heads/'' then Err (Validation ''merge source must be a branch'')
        else and_then (ref_validate_oid source_head) (\<lambda>_.
          if \<not> merges_one_branch changes source_head
          then Err (Validation ''merge must update one existing branch to its exact source head'')
          else Ok ())))"

text \<open>\<open>and_then\<close> of the option type.\<close>

definition opt_then :: "'a option \<Rightarrow> ('a \<Rightarrow> 'b option) \<Rightarrow> 'b option" where
  "opt_then x f = (case x of Some v \<Rightarrow> f v | None \<Rightarrow> None)"

definition snapshot_qualified :: "json_value \<Rightarrow> bool" where
  "snapshot_qualified snapshot \<longleftrightarrow>
     (case opt_then (json_get ''policy_revision'' snapshot) json_str of Some s \<Rightarrow> trim s \<noteq> [] | None \<Rightarrow> False)
   \<and> (case json_get ''policy'' snapshot of Some v \<Rightarrow> json_object v \<noteq> None | None \<Rightarrow> False)
   \<and> (case opt_then (json_get ''actor_authorization'' snapshot) json_object of Some a \<Rightarrow> a \<noteq> [] | None \<Rightarrow> False)
   \<and> opt_then (json_get ''blockers'' snapshot) json_array = Some []"

fun validate_ids :: "RefEnv \<Rightarrow> uuid list \<Rightarrow> json_value list \<Rightarrow> (unit, ForgeError) result" where
  "validate_ids ren unique [] = Ok ()"
| "validate_ids ren unique (v # vs) =
     (case opt_then (json_str v) (rf_uuid_of ren) of
        None \<Rightarrow> Err (Validation ''invalid qualification evidence UUID'')
      | Some i \<Rightarrow>
          if i = 0 then Err (Validation ''invalid qualification evidence UUID'')
          else if i \<in> set unique then Err (Validation ''duplicate qualification evidence UUID'')
          else validate_ids ren (i # unique) vs)"

definition validate_id_list :: "RefEnv \<Rightarrow> json_value \<Rightarrow> string \<Rightarrow> (unit, ForgeError) result" where
  "validate_id_list ren snapshot key =
     and_then (ok_or (Validation ''qualification review/attempt identities required'')
         (opt_then (json_get key snapshot) json_array)) (validate_ids ren [])"

definition intent_validate :: "RefEnv \<Rightarrow> RefOperationIntent \<Rightarrow> (unit, ForgeError) result" where
  "intent_validate ren intent =
     (if it_repository_id intent = 0 \<or> trim (it_idempotency_key intent) = [] \<or> length (it_idempotency_key intent) > 256
         \<or> trim (it_actor intent) = [] \<or> it_changes intent = [] \<or> length (it_changes intent) > 1024
      then Err (Validation ''incomplete ref operation identity or changes'')
      else
        and_then (validate_changes [] (it_changes intent)) (\<lambda>_.
        and_then (validate_operation (it_changes intent) (it_operation intent)) (\<lambda>_.
        if \<not> snapshot_qualified (it_qualification_snapshot intent)
        then Err (Validation ''complete unblocked qualification snapshot required'')
        else for_each (validate_id_list ren (it_qualification_snapshot intent)) [''review_ids'', ''attempt_ids''])))"

definition intent_repositories :: "RefOperationIntent \<Rightarrow> uuid list" where
  "intent_repositories intent =
     it_repository_id intent #
       (case it_operation intent of MergeKind _ source_repository_id _ _ \<Rightarrow> [source_repository_id] | RefUpdateKind \<Rightarrow> [])"

section \<open>Classification of an observation\<close>

text \<open>The observed refs are those of the changes, each once, with the chosen value.\<close>

definition refs_match :: "(RefChangeIntent \<Rightarrow> RefValue) \<Rightarrow> RefChangeIntent list \<Rightarrow> ObservedRef list \<Rightarrow> bool" where
  "refs_match pick changes refs \<longleftrightarrow>
     length refs = length changes
   \<and> length (remdups (map orf_reference refs)) = length refs
   \<and> list_all (\<lambda>change. list_ex (\<lambda>r. orf_reference r = ri_reference change \<and> orf_value r = pick change) refs) changes"

fun classify :: "DurableRefOperation \<Rightarrow> RefOperationObservation \<Rightarrow> DurableRefOperationState" where
  "classify op (Unavailable reason) = OpReconciliationRequired"
| "classify op (Observed refs marker additional) =
     (if marker = Exact (op_marker_oid op) \<and> refs_match ri_result (it_changes (op_intent op)) refs
      then OpCommitted
      else if marker = Absent \<and> \<not> additional \<and> refs_match ri_expected (it_changes (op_intent op)) refs
      then OpAbortedNotApplied
      else OpReconciliationRequired)"

fun state_name :: "DurableRefOperationState \<Rightarrow> string" where
  "state_name OpPrepared = ''prepared''"
| "state_name OpCommitted = ''committed''"
| "state_name OpAbortedNotApplied = ''aborted_not_applied''"
| "state_name OpReconciliationRequired = ''reconciliation_required''"

definition state_of_name :: "string \<Rightarrow> (DurableRefOperationState, ForgeError) result" where
  "state_of_name s =
     (if s = ''prepared'' then Ok OpPrepared
      else if s = ''committed'' then Ok OpCommitted
      else if s = ''aborted_not_applied'' then Ok OpAbortedNotApplied
      else if s = ''reconciliation_required'' then Ok OpReconciliationRequired
      else Err (Storage ''unknown stored ref operation state''))"

fun exact_oid :: "RefValue \<Rightarrow> string option" where
  "exact_oid (Exact oid) = Some oid"
| "exact_oid Absent = None"

text \<open>The first object the changes name, results before expectations.\<close>

definition marker_oid :: "RefOperationIntent \<Rightarrow> (string, ForgeError) result" where
  "marker_oid intent =
     (case List.map_filter exact_oid (map ri_result (it_changes intent) @ map ri_expected (it_changes intent)) of
        oid # _ \<Rightarrow> Ok oid
      | [] \<Rightarrow> Err (Validation ''operation marker needs a bound Git object''))"

definition marker_ref_of :: "uuid \<Rightarrow> string" where
  "marker_ref_of i = ''refs/jeryu/operations/'' @ show_uuid i"

section \<open>Rows\<close>

fun forge_message :: "ForgeError \<Rightarrow> string" where
  "forge_message (Unauthenticated m) = ''authentication required: '' @ m"
| "forge_message (PreconditionRequired m) = ''precondition required: '' @ m"
| "forge_message (ForgeNotFound m) = ''not found: '' @ m"
| "forge_message (ForgeConflict m) = ''already exists: '' @ m"
| "forge_message (Validation m) = ''validation failed: '' @ m"
| "forge_message (Forbidden m) = ''forbidden: '' @ m"
| "forge_message (WriterUnavailable m) = ''writer unavailable: '' @ m"
| "forge_message (BranchProtection m) = ''branch protection blocked the operation: '' @ m"
| "forge_message (Storage m) = ''storage failed: '' @ m"

definition optional :: "('a \<Rightarrow> ('b, 'e) result) \<Rightarrow> 'a option \<Rightarrow> ('b option, 'e) result" where
  "optional f x = (case x of None \<Rightarrow> Ok None | Some v \<Rightarrow> and_then (f v) (\<lambda>y. Ok (Some y)))"

text \<open>The operation a row stands for, before it is checked.\<close>

definition operation_of_row ::
  "RefEnv \<Rightarrow> string \<Rightarrow> OperationRow \<Rightarrow> RefOperationIntent \<Rightarrow> DurableRefOperationState \<Rightarrow> (DurableRefOperation, ForgeError) result" where
  "operation_of_row ren key row intent state =
     and_then (parse_uuid ren key) (\<lambda>i.
     and_then (rf_time_of ren (ow_prepared_at row)) (\<lambda>prepared_at.
     and_then (parse_uuid ren (ow_prepared_audit_id row)) (\<lambda>audit_id.
     and_then (optional (rf_outcome_of ren) (ow_outcome row)) (\<lambda>outcome.
       Ok \<lparr>op_id = i, op_intent = intent, op_intent_sha256 = ow_intent_sha256 row,
           op_qualification_sha256 = ow_qualification_sha256 row, op_marker_ref = ow_marker_ref row,
           op_marker_oid = ow_marker_oid row, op_prepared_at = prepared_at, op_prepared_audit_id = audit_id,
           op_state = state, op_outcome = outcome\<rparr>))))"

definition outcome_bound :: "DurableRefOperation \<Rightarrow> bool" where
  "outcome_bound op \<longleftrightarrow>
     (op_outcome op = None \<longleftrightarrow> op_state op = OpPrepared)
   \<and> (case op_outcome op of
        None \<Rightarrow> True
      | Some outcome \<Rightarrow> classify op (oc_observation outcome) = op_state op
          \<and> (oc_event_id outcome \<noteq> None \<longleftrightarrow> op_state op = OpCommitted))"

text \<open>The comparisons of a decoded operation with its row, in the order in which they are evaluated.\<close>

definition check_binding :: "RefEnv \<Rightarrow> OperationRow \<Rightarrow> DurableRefOperation \<Rightarrow> (DurableRefOperation, ForgeError) result" where
  "check_binding ren row op =
     (let bad = Storage ''stored ref operation binding does not match its immutable evidence'' in
      if show_uuid (it_repository_id (op_intent op)) \<noteq> ow_repository_id row \<or> it_idempotency_key (op_intent op) \<noteq> ow_key row
      then Err bad
      else and_then (rf_intent_json ren (op_intent op)) (\<lambda>intent_json.
        if op_intent_sha256 op \<noteq> rf_sha256 ren intent_json then Err bad
        else and_then (rf_value_json ren (it_qualification_snapshot (op_intent op))) (\<lambda>value_json.
          if op_qualification_sha256 op \<noteq> rf_sha256 ren value_json \<or> op_marker_ref op \<noteq> marker_ref_of (op_id op)
          then Err bad
          else and_then (marker_oid (op_intent op)) (\<lambda>oid.
            if op_marker_oid op \<noteq> oid \<or> \<not> outcome_bound op then Err bad else Ok op))))"

definition decode_operation :: "RefEnv \<Rightarrow> string \<times> OperationRow \<Rightarrow> (DurableRefOperation, ForgeError) result" where
  "decode_operation ren = (\<lambda>(key, row).
     and_then (rf_intent_of ren (ow_intent row)) (\<lambda>intent.
     and_then (map_err (\<lambda>e. Storage (''invalid stored ref intent: '' @ forge_message e)) (intent_validate ren intent)) (\<lambda>_.
     and_then (state_of_name (ow_state row)) (\<lambda>state.
     and_then (operation_of_row ren key row intent state) (check_binding ren row)))))"

definition row_by_key :: "uuid \<Rightarrow> string \<Rightarrow> RefDb \<Rightarrow> (string \<times> OperationRow) option" where
  "row_by_key repository_id key db =
     find (\<lambda>(_, row). ow_repository_id row = show_uuid repository_id \<and> ow_key row = key) (rd_operations db)"

definition load_by_key ::
  "RefEnv \<Rightarrow> RefDb \<Rightarrow> uuid \<Rightarrow> string \<Rightarrow> (DurableRefOperation option, ForgeError) result" where
  "load_by_key ren db repository_id key =
     and_then (rf_sql ren ''SELECT forge_ref_operations'') (\<lambda>_.
       optional (decode_operation ren) (row_by_key repository_id key db))"

definition row_by_id :: "uuid \<Rightarrow> uuid \<Rightarrow> RefDb \<Rightarrow> (string \<times> OperationRow) option" where
  "row_by_id repository_id operation_id db =
     (case bt_get (rd_operations db) (show_uuid operation_id) of
        Some row \<Rightarrow> if ow_repository_id row = show_uuid repository_id then Some (show_uuid operation_id, row) else None
      | None \<Rightarrow> None)"

definition load_operation :: "RefEnv \<Rightarrow> RefDb \<Rightarrow> uuid \<Rightarrow> uuid \<Rightarrow> (DurableRefOperation, ForgeError) result" where
  "load_operation ren db repository_id operation_id =
     and_then (rf_sql ren ''SELECT forge_ref_operations'') (\<lambda>_.
     and_then (optional (decode_operation ren) (row_by_id repository_id operation_id db))
       (ok_or (ForgeNotFound (''ref operation '' @ show_uuid operation_id @ '' in repository '' @ show_uuid repository_id))))"

definition row_by_event :: "uuid \<Rightarrow> uuid \<Rightarrow> RefDb \<Rightarrow> OutboxRow option" where
  "row_by_event repository_id event_id db =
     (case bt_get (rd_outbox db) (show_uuid event_id) of
        Some row \<Rightarrow> if ox_repo_id row = show_uuid repository_id then Some row else None
      | None \<Rightarrow> None)"

definition event_identity :: "uuid \<Rightarrow> uuid \<Rightarrow> DurableRefOperation \<Rightarrow> RefOperationEvent \<Rightarrow> bool" where
  "event_identity repository_id event_id operation event \<longleftrightarrow>
     oe_id event = event_id \<and> oe_repository_id event = repository_id
   \<and> oe_operation_id event = op_id operation \<and> oe_operation event = operation"

definition event_bound :: "uuid \<Rightarrow> OutboxRow \<Rightarrow> DurableRefOperation \<Rightarrow> RefOperationEvent \<Rightarrow> bool" where
  "event_bound event_id row operation event \<longleftrightarrow>
     oe_delivered_at event = None \<and> oe_delivery_receipt event = None
   \<and> op_state operation = OpCommitted
   \<and> opt_then (op_outcome operation) oc_event_id = Some event_id
   \<and> (ox_delivered_at row = None \<longleftrightarrow> ox_delivery_receipt row = None)"

definition load_event :: "RefEnv \<Rightarrow> RefDb \<Rightarrow> uuid \<Rightarrow> uuid \<Rightarrow> (RefOperationEvent, ForgeError) result" where
  "load_event ren db repository_id event_id =
     (let bad = Storage ''outbox event does not match its committed operation'' in
      and_then (rf_sql ren ''SELECT forge_ref_operation_outbox'') (\<lambda>_.
      and_then (ok_or (ForgeNotFound (''ref operation event '' @ show_uuid event_id)) (row_by_event repository_id event_id db))
        (\<lambda>row.
      and_then (rf_event_of ren (ox_payload_json row)) (\<lambda>event.
      and_then (parse_uuid ren (ox_operation_id row)) (\<lambda>operation_id.
      and_then (load_operation ren db repository_id operation_id) (\<lambda>operation.
      if \<not> event_identity repository_id event_id operation event then Err bad
      else and_then (rf_time_of ren (ox_created_at row)) (\<lambda>created_at.
        if oe_created_at event \<noteq> created_at \<or> \<not> event_bound event_id row operation event then Err bad
        else and_then (optional (rf_time_of ren) (ox_delivered_at row)) (\<lambda>delivered_at.
          Ok (event\<lparr>oe_delivered_at := delivered_at, oe_delivery_receipt := ox_delivery_receipt row\<rparr>)))))))))"

section \<open>Transactions\<close>

definition audit_row :: "RefEnv \<Rightarrow> DurableRefOperation \<Rightarrow> uuid \<Rightarrow> string \<Rightarrow> time \<Rightarrow> AuditEntry" where
  "audit_row ren operation i phase occurred_at =
     \<lparr>ae_id = show_uuid i, ae_occurred_at = rf_rfc3339 ren occurred_at, ae_actor = it_actor (op_intent operation),
      ae_action = ''repository.ref_operation'',
      ae_subject = ''repository:'' @ show_uuid (it_repository_id (op_intent operation)),
      ae_phase = phase, ae_detail = rf_operation_detail ren operation\<rparr>"

definition insert_operation_audit ::
  "RefEnv \<Rightarrow> DurableRefOperation \<Rightarrow> uuid \<Rightarrow> string \<Rightarrow> time \<Rightarrow> RefDb \<Rightarrow> (RefDb, ForgeError) result" where
  "insert_operation_audit ren operation i phase occurred_at db =
     and_then (rf_sql ren ''INSERT forge_audit_log'') (\<lambda>_.
     if list_ex (\<lambda>e. ae_id e = show_uuid i) (rd_audit db)
     then Err (Storage ''UNIQUE constraint failed: forge_audit_log.id'')
     else Ok (db\<lparr>rd_audit := rd_audit db @ [audit_row ren operation i phase occurred_at]\<rparr>))"

definition is_unresolved :: "OperationRow \<Rightarrow> bool" where
  "is_unresolved row \<longleftrightarrow> ow_state row = ''prepared'' \<or> ow_state row = ''reconciliation_required''"

definition has_unresolved :: "string \<Rightarrow> (string, OperationRow) btree_map \<Rightarrow> bool" where
  "has_unresolved repo_id rows \<longleftrightarrow> list_ex (\<lambda>(_, row). ow_repository_id row = repo_id \<and> is_unresolved row) rows"

text \<open>The uniqueness and check constraints of the journal.\<close>

definition operation_row_free :: "string \<Rightarrow> OperationRow \<Rightarrow> RefDb \<Rightarrow> bool" where
  "operation_row_free key row db \<longleftrightarrow>
     bt_get (rd_operations db) key = None
   \<and> list_all (\<lambda>(_, r). \<not> (ow_repository_id r = ow_repository_id row \<and> ow_key r = ow_key row)
        \<and> ow_marker_ref r \<noteq> ow_marker_ref row \<and> ow_prepared_audit_id r \<noteq> ow_prepared_audit_id row) (rd_operations db)
   \<and> \<not> has_unresolved (ow_repository_id row) (rd_operations db)
   \<and> length (ow_intent_sha256 row) = 64 \<and> length (ow_qualification_sha256 row) = 64
   \<and> \<not> list_all (\<lambda>c. c = CHR '' '') (ow_key row)"

definition insert_operation :: "RefEnv \<Rightarrow> string \<Rightarrow> OperationRow \<Rightarrow> RefDb \<Rightarrow> (RefDb, ForgeError) result" where
  "insert_operation ren key row db =
     and_then (rf_sql ren ''INSERT forge_ref_operations'') (\<lambda>_.
     if operation_row_free key row db
     then Ok (db\<lparr>rd_operations := bt_insert key row (rd_operations db)\<rparr>)
     else Err (Storage ''constraint failed: forge_ref_operations''))"

definition prepared_row :: "RefEnv \<Rightarrow> string \<Rightarrow> DurableRefOperation \<Rightarrow> OperationRow" where
  "prepared_row ren intent_json op =
     \<lparr>ow_repository_id = show_uuid (it_repository_id (op_intent op)), ow_key = it_idempotency_key (op_intent op),
      ow_intent = intent_json, ow_intent_sha256 = op_intent_sha256 op,
      ow_qualification_sha256 = op_qualification_sha256 op, ow_marker_ref = op_marker_ref op,
      ow_marker_oid = op_marker_oid op, ow_prepared_at = rf_rfc3339 ren (op_prepared_at op),
      ow_prepared_audit_id = show_uuid (op_prepared_audit_id op), ow_state = ''prepared'', ow_outcome = None\<rparr>"

definition new_operation ::
  "ForgeEnv \<Rightarrow> RefEnv \<Rightarrow> RefOperationIntent \<Rightarrow> time \<Rightarrow> string \<Rightarrow> string \<Rightarrow> string \<Rightarrow> DurableRefOperation" where
  "new_operation env ren intent now intent_json value_json oid =
     (let i = en_uuid env ''ref_operation'' 0 in
      \<lparr>op_id = i, op_intent = intent, op_intent_sha256 = rf_sha256 ren intent_json,
       op_qualification_sha256 = rf_sha256 ren value_json, op_marker_ref = marker_ref_of i,
       op_marker_oid = oid, op_prepared_at = now, op_prepared_audit_id = en_uuid env ''ref_operation'' 1,
       op_state = OpPrepared, op_outcome = None\<rparr>)"

definition replay_operation ::
  "RefOperationIntent \<Rightarrow> DurableRefOperation \<Rightarrow> RefDb \<Rightarrow> (DurableRefOperation \<times> RefDb, ForgeError) result" where
  "replay_operation intent existing db =
     (if op_intent existing = intent then Ok (existing, db)
      else Err (ForgeConflict ''ref operation idempotency key has different immutable input''))"

definition store_prepare_ref_operation ::
  "ForgeEnv \<Rightarrow> RefEnv \<Rightarrow> RefOperationIntent \<Rightarrow> time \<Rightarrow> DurableRefOperation ref_tx" where
  "store_prepare_ref_operation env ren intent now db =
     and_then (intent_validate ren intent) (\<lambda>_.
     and_then (load_by_key ren db (it_repository_id intent) (it_idempotency_key intent)) (\<lambda>found.
     case found of
       Some existing \<Rightarrow> replay_operation intent existing db
     | None \<Rightarrow>
         and_then (rf_sql ren ''SELECT EXISTS forge_ref_operations'') (\<lambda>_.
         if has_unresolved (show_uuid (it_repository_id intent)) (rd_operations db)
         then Err (WriterUnavailable ''repository has an unresolved ref operation'')
         else if it_expires_at intent \<le> now then Err (Validation ''new ref operation intent has expired'')
         else
           and_then (rf_intent_json ren intent) (\<lambda>intent_json.
           and_then (rf_value_json ren (it_qualification_snapshot intent)) (\<lambda>value_json.
           and_then (marker_oid intent) (\<lambda>oid.
           let op = new_operation env ren intent now intent_json value_json oid in
           and_then (insert_operation ren (show_uuid (op_id op)) (prepared_row ren intent_json op) db) (\<lambda>db.
           and_then (insert_operation_audit ren op (op_prepared_audit_id op) ''requested'' now db) (\<lambda>db.
           and_then (rf_sql ren ''COMMIT'') (\<lambda>_. Ok (op, db))))))))))"

text \<open>The update of a prepared row, with the partial unique index on unresolved rows.\<close>

definition resolve_row ::
  "RefEnv \<Rightarrow> uuid \<Rightarrow> uuid \<Rightarrow> DurableRefOperationState \<Rightarrow> string \<Rightarrow> RefDb \<Rightarrow> (RefDb, ForgeError) result" where
  "resolve_row ren repository_id operation_id state outcome_json db =
     and_then (rf_sql ren ''UPDATE forge_ref_operations'') (\<lambda>_.
     case row_by_id repository_id operation_id db of
       None \<Rightarrow> Err (ForgeConflict ''ref operation changed during outcome persistence'')
     | Some (key, row) \<Rightarrow>
         if ow_state row \<noteq> ''prepared'' then Err (ForgeConflict ''ref operation changed during outcome persistence'')
         else
           let row' = row\<lparr>ow_state := state_name state, ow_outcome := Some outcome_json\<rparr> in
           if is_unresolved row' \<and> has_unresolved (ow_repository_id row) (bt_remove key (rd_operations db))
           then Err (Storage ''UNIQUE constraint failed: forge_ref_operations.repo_id'')
           else Ok (db\<lparr>rd_operations := bt_insert key row' (rd_operations db)\<rparr>))"

definition outbox_row_free :: "string \<Rightarrow> OutboxRow \<Rightarrow> RefDb \<Rightarrow> bool" where
  "outbox_row_free key row db \<longleftrightarrow>
     bt_get (rd_outbox db) key = None
   \<and> list_all (\<lambda>(_, r). ox_operation_id r \<noteq> ox_operation_id row) (rd_outbox db)
   \<and> (case bt_get (rd_operations db) (ox_operation_id row) of
        Some op \<Rightarrow> ow_repository_id op = ox_repo_id row \<and> ow_state op = ''committed''
      | None \<Rightarrow> False)"

definition insert_outbox :: "RefEnv \<Rightarrow> RefOperationEvent \<Rightarrow> RefDb \<Rightarrow> (RefDb, ForgeError) result" where
  "insert_outbox ren event db =
     and_then (rf_event_json ren event) (\<lambda>payload.
     and_then (rf_sql ren ''INSERT forge_ref_operation_outbox'') (\<lambda>_.
     let row = \<lparr>ox_operation_id = show_uuid (oe_operation_id event), ox_repo_id = show_uuid (oe_repository_id event),
                ox_created_at = rf_rfc3339 ren (oe_created_at event), ox_payload_json = payload,
                ox_delivered_at = None, ox_delivery_receipt = None\<rparr> in
     if outbox_row_free (show_uuid (oe_id event)) row db
     then Ok (db\<lparr>rd_outbox := bt_insert (show_uuid (oe_id event)) row (rd_outbox db)\<rparr>)
     else Err (Storage ''constraint failed: forge_ref_operation_outbox'')))"

definition resolved_operation ::
  "ForgeEnv \<Rightarrow> RefOperationObservation \<Rightarrow> DurableRefOperation \<Rightarrow> DurableRefOperation \<times> RefOperationOutcome" where
  "resolved_operation env observation operation =
     (let state = classify operation observation;
          outcome = \<lparr>oc_observation = observation, oc_recorded_at = en_now env ''reconcile'' 0,
                     oc_audit_id = en_uuid env ''reconcile'' 0,
                     oc_event_id = (if state = OpCommitted then Some (en_uuid env ''reconcile'' 1) else None)\<rparr>
      in (operation\<lparr>op_state := state, op_outcome := Some outcome\<rparr>, outcome))"

definition outcome_event :: "uuid \<Rightarrow> uuid \<Rightarrow> uuid \<Rightarrow> time \<Rightarrow> DurableRefOperation \<Rightarrow> RefOperationEvent" where
  "outcome_event i operation_id repository_id recorded_at operation =
     \<lparr>oe_id = i, oe_operation_id = operation_id, oe_repository_id = repository_id, oe_created_at = recorded_at,
      oe_operation = operation, oe_delivered_at = None, oe_delivery_receipt = None\<rparr>"

definition propose_state ::
  "RefEnv \<Rightarrow> (ForgeState \<Rightarrow> (ForgeState, ForgeError) result) \<Rightarrow> ForgeState \<Rightarrow> DurableRefOperationState
   \<Rightarrow> (ForgeState option, ForgeError) result" where
  "propose_state ren on_committed current state =
     (if state = OpCommitted
      then and_then (on_committed current) (\<lambda>proposed.
           and_then (rf_persist ren proposed) (\<lambda>_. Ok (Some proposed)))
      else Ok None)"

definition store_reconcile_ref_operation ::
  "ForgeEnv \<Rightarrow> RefEnv \<Rightarrow> uuid \<Rightarrow> uuid \<Rightarrow> RefOperationObservation \<Rightarrow> ForgeState
   \<Rightarrow> (ForgeState \<Rightarrow> (ForgeState, ForgeError) result) \<Rightarrow> (DurableRefOperation \<times> ForgeState option) ref_tx" where
  "store_reconcile_ref_operation env ren repository_id operation_id observation current on_committed db =
     and_then (load_operation ren db repository_id operation_id) (\<lambda>operation.
     case op_outcome operation of
       Some outcome \<Rightarrow>
         if oc_observation outcome = observation then Ok ((operation, None), db)
         else Err (ForgeConflict ''ref operation already has an immutable outcome; reconciliation requires separate authority'')
     | None \<Rightarrow>
         and_then (propose_state ren on_committed current (classify operation observation)) (\<lambda>proposed.
         case resolved_operation env observation operation of (operation', outcome) \<Rightarrow>
         and_then (rf_outcome_json ren outcome) (\<lambda>outcome_json.
         and_then (resolve_row ren repository_id operation_id (op_state operation') outcome_json db) (\<lambda>db.
         and_then (insert_operation_audit ren operation' (oc_audit_id outcome)
             (if op_state operation' = OpCommitted then ''completed'' else ''failed'') (oc_recorded_at outcome) db) (\<lambda>db.
         and_then (case oc_event_id outcome of
             Some i \<Rightarrow> insert_outbox ren (outcome_event i operation_id repository_id (oc_recorded_at outcome) operation') db
           | None \<Rightarrow> Ok db) (\<lambda>db.
         and_then (rf_sql ren ''COMMIT'') (\<lambda>_. Ok ((operation', proposed), db))))))))"

definition store_pending_events ::
  "RefEnv \<Rightarrow> RefDb \<Rightarrow> uuid \<Rightarrow> u32 \<Rightarrow> (RefOperationEvent list, ForgeError) result" where
  "store_pending_events ren db repository_id limit =
     and_then (rf_sql ren ''SELECT forge_ref_operation_outbox'') (\<lambda>_.
     let due = filter (\<lambda>(_, row). ox_repo_id row = show_uuid repository_id \<and> ox_delivered_at row = None) (rd_outbox db);
         ids = map fst (take (unat limit) (sort_key (\<lambda>(i, row). (ox_created_at row, i)) due)) in
     collect_results (map (\<lambda>i. and_then (parse_uuid ren i) (load_event ren db repository_id)) ids))"

definition deliver_row :: "RefEnv \<Rightarrow> uuid \<Rightarrow> uuid \<Rightarrow> time \<Rightarrow> string \<Rightarrow> RefDb \<Rightarrow> (RefDb, ForgeError) result" where
  "deliver_row ren repository_id event_id delivered_at receipt db =
     and_then (rf_sql ren ''UPDATE forge_ref_operation_outbox'') (\<lambda>_.
     case row_by_event repository_id event_id db of
       None \<Rightarrow> Err (ForgeConflict ''outbox delivery changed'')
     | Some row \<Rightarrow>
         if ox_delivered_at row \<noteq> None then Err (ForgeConflict ''outbox delivery changed'')
         else if length receipt \<noteq> 64 then Err (Storage ''CHECK constraint failed: forge_ref_operation_outbox'')
         else Ok (db\<lparr>rd_outbox := bt_insert (show_uuid event_id)
                (row\<lparr>ox_delivered_at := Some (rf_rfc3339 ren delivered_at), ox_delivery_receipt := Some receipt\<rparr>)
                (rd_outbox db)\<rparr>))"

definition store_acknowledge_event ::
  "ForgeEnv \<Rightarrow> RefEnv \<Rightarrow> uuid \<Rightarrow> uuid \<Rightarrow> string \<Rightarrow> RefOperationEvent ref_tx" where
  "store_acknowledge_event env ren repository_id event_id receipt db =
     and_then (load_event ren db repository_id event_id) (\<lambda>event.
     case oe_delivery_receipt event of
       Some existing \<Rightarrow>
         if existing = receipt then Ok (event, db)
         else Err (ForgeConflict ''outbox event already has a different delivery receipt'')
     | None \<Rightarrow>
         let delivered_at = en_now env ''acknowledge'' 0 in
         and_then (deliver_row ren repository_id event_id delivered_at receipt db) (\<lambda>db.
         and_then (rf_sql ren ''COMMIT'') (\<lambda>_.
           Ok (event\<lparr>oe_delivered_at := Some delivered_at, oe_delivery_receipt := Some receipt\<rparr>, db))))"

definition merge_operation_readback ::
  "ForgeEnv \<Rightarrow> RefEnv \<Rightarrow> RefDb \<Rightarrow> uuid \<Rightarrow> uuid \<Rightarrow> (MergeOperationReadback, ForgeError) result" where
  "merge_operation_readback env ren db repository_id operation_id =
     and_then (load_operation ren db repository_id operation_id) (\<lambda>operation.
     if it_operation (op_intent operation) = RefUpdateKind
     then Err (Validation ''operation is not a merge operation'')
     else
       and_then (optional (load_event ren db repository_id) (opt_then (op_outcome operation) oc_event_id)) (\<lambda>delivery.
       if (case delivery of
             Some event \<Rightarrow> oe_repository_id event \<noteq> repository_id \<or> oe_operation_id event \<noteq> op_id operation
               \<or> oe_operation event \<noteq> operation
           | None \<Rightarrow> False)
       then Err (Storage ''merge readback delivery belongs to a different operation'')
       else and_then (rf_sql ren ''COMMIT'') (\<lambda>_.
         Ok \<lparr>mr_operation = operation, mr_delivery = delivery, mr_observed_at = en_now env ''readback'' 0\<rparr>)))"

section \<open>Operations of the core\<close>

definition require_operation_read_access ::
  "ForgeState \<Rightarrow> string \<Rightarrow> bool \<Rightarrow> uuid \<Rightarrow> (unit, ForgeError) result" where
  "require_operation_read_access s login administrator repository_id =
     (if administrator then Ok ()
      else
        and_then (ok_or (Forbidden ''current repository read access is required'') (find_repo s repository_id)) (\<lambda>repo.
        if re_private repo \<and>
           \<not> (case bt_get (st_repo_grants s) (login, re_owner repo, re_name repo) of
                Some grant \<Rightarrow> allows_read (rg_access grant) | None \<Rightarrow> False)
        then Err (Forbidden ''current repository read access is required'')
        else Ok ()))"

text \<open>
  The credential is checked once when the call starts and once, at a later time, before the
  operation is disclosed; \<open>late\<close> holds the readings of that later time.
\<close>

definition merge_operation ::
  "ForgeEnv \<Rightarrow> ForgeEnv \<Rightarrow> RefEnv \<Rightarrow> nat \<Rightarrow> AuthenticatedActor \<Rightarrow> uuid \<Rightarrow> uuid \<Rightarrow> RefDb \<Rightarrow> ForgeState
   \<Rightarrow> (MergeOperationReadback, ForgeError) result" where
  "merge_operation env late ren runtime actor repository_id operation_id db s =
     (if repository_id = 0 \<or> operation_id = 0
      then Err (Validation ''full nonnil repository and operation UUIDs are required'')
      else
        and_then (rf_process ren 0) (\<lambda>_.
        and_then (validate_actor_locked env runtime s actor False) (\<lambda>binding.
        and_then (ok_or (Unauthenticated ''account disappeared'') (bt_get (st_accounts s) (rb_login binding))) (\<lambda>account.
        let administrator = (ua_role account = RoleAdmin) in
        and_then (require_operation_read_access s (rb_login binding) administrator repository_id) (\<lambda>_.
        and_then (rf_storage ren) (\<lambda>_.
        and_then (merge_operation_readback env ren db repository_id operation_id) (\<lambda>readback.
        and_then (case it_operation (op_intent (mr_operation readback)) of
            MergeKind _ source_repository_id _ _ \<Rightarrow>
              require_operation_read_access s (rb_login binding) administrator source_repository_id
          | RefUpdateKind \<Rightarrow> Ok ()) (\<lambda>_.
        and_then (validate_actor_locked late runtime s actor False) (\<lambda>_.
        and_then (rf_process ren 1) (\<lambda>_. Ok readback))))))))))"

definition get_ref_operation :: "RefEnv \<Rightarrow> uuid \<Rightarrow> uuid \<Rightarrow> RefDb \<Rightarrow> (DurableRefOperation, ForgeError) result" where
  "get_ref_operation ren repository_id operation_id db =
     and_then (rf_process ren 0) (\<lambda>_. and_then (rf_storage ren) (\<lambda>_. load_operation ren db repository_id operation_id))"

definition get_ref_operation_by_key ::
  "RefEnv \<Rightarrow> uuid \<Rightarrow> string \<Rightarrow> RefDb \<Rightarrow> (DurableRefOperation option, ForgeError) result" where
  "get_ref_operation_by_key ren repository_id key db =
     and_then (rf_process ren 0) (\<lambda>_. and_then (rf_storage ren) (\<lambda>_. load_by_key ren db repository_id key))"

definition pending_ref_operation_events ::
  "RefEnv \<Rightarrow> uuid \<Rightarrow> u32 \<Rightarrow> RefDb \<Rightarrow> (RefOperationEvent list, ForgeError) result" where
  "pending_ref_operation_events ren repository_id limit db =
     and_then (rf_process ren 0) (\<lambda>_.
     if limit = 0 \<or> limit > 1000 then Err (Validation ''outbox limit must be between1 and1000'')
     else and_then (rf_storage ren) (\<lambda>_. store_pending_events ren db repository_id limit))"

definition prepare_ref_operation ::
  "ForgeEnv \<Rightarrow> RefEnv \<Rightarrow> RefOperationIntent \<Rightarrow> ForgeState \<Rightarrow> DurableRefOperation ref_tx" where
  "prepare_ref_operation env ren intent s db =
     and_then (rf_process ren 0) (\<lambda>_.
     and_then (intent_validate ren intent) (\<lambda>_.
     and_then (rf_storage ren) (\<lambda>_.
     and_then (load_by_key ren db (it_repository_id intent) (it_idempotency_key intent)) (\<lambda>found.
     case found of
       Some existing \<Rightarrow> replay_operation intent existing db
     | None \<Rightarrow>
         and_then (en_ordinary env) (\<lambda>_.
         and_then (require_repository_admissible s (it_repository_id intent) True) (\<lambda>_.
         and_then (for_each (\<lambda>i. require_repository_admissible s i (i = it_repository_id intent)) (intent_repositories intent)) (\<lambda>_.
           store_prepare_ref_operation env ren intent (en_now env ''ref_operation'' 0) db)))))))"

text \<open>The new state is published only after the journal accepted the outcome.\<close>

definition reconcile_ref_operation ::
  "ForgeEnv \<Rightarrow> RefEnv \<Rightarrow> uuid \<Rightarrow> uuid \<Rightarrow> RefOperationObservation
   \<Rightarrow> (ForgeState \<Rightarrow> (ForgeState, ForgeError) result) \<Rightarrow> ForgeState
   \<Rightarrow> RefDb \<Rightarrow> (DurableRefOperation \<times> ForgeState \<times> RefDb, ForgeError) result" where
  "reconcile_ref_operation env ren repository_id operation_id observation on_committed s db =
     and_then (rf_process ren 0) (\<lambda>_.
     and_then (rf_storage ren) (\<lambda>_.
     and_then (load_operation ren db repository_id operation_id) (\<lambda>hint.
     and_then (en_ordinary env) (\<lambda>_.
     and_then (store_reconcile_ref_operation env ren repository_id operation_id observation s on_committed db)
       (\<lambda>((operation, proposed), db).
         Ok (operation, (case proposed of Some s' \<Rightarrow> s' | None \<Rightarrow> s), db))))))"

definition acknowledge_ref_operation_event ::
  "ForgeEnv \<Rightarrow> RefEnv \<Rightarrow> uuid \<Rightarrow> uuid \<Rightarrow> string \<Rightarrow> RefOperationEvent ref_tx" where
  "acknowledge_ref_operation_event env ren repository_id event_id receipt db =
     and_then (rf_process ren 0) (\<lambda>_.
     if length receipt \<noteq> 64 \<or> \<not> list_all is_lower_hex receipt
     then Err (Validation ''delivery receipt must be a full lowercase SHA256'')
     else and_then (en_ordinary env) (\<lambda>_.
          and_then (rf_storage ren) (\<lambda>_.
            store_acknowledge_event env ren repository_id event_id receipt db)))"

end
