(* ===== verification/Ref_Journal.thy ===== *)
theory Ref_Journal
  imports Ref_Operations Review_Sample "HOL-Library.Multiset"
begin

text \<open>
  What the journal of ref operations guarantees: the classification of an observation against a
  reference definition, the steps every transaction is made of, the invariant of the tables, the
  finality of outcomes, the exact effect of a reconciliation and the replay of an intent.
\<close>

section \<open>Classification\<close>

lemma validate_changes_distinct:
  "validate_changes refs changes = Ok () \<Longrightarrow>
     distinct (map ri_reference changes) \<and> set (map ri_reference changes) \<inter> set refs = {}
   \<and> (\<forall>c \<in> set changes. ri_expected c \<noteq> ri_result c)"
  by (induction refs changes rule: validate_changes.induct) (auto split: if_splits)

lemma intent_validate_changes:
  assumes "intent_validate ren intent = Ok ()"
  shows "distinct (map ri_reference (it_changes intent))" and "it_changes intent \<noteq> []"
    and "\<forall>c \<in> set (it_changes intent). ri_expected c \<noteq> ri_result c"
  using assms validate_changes_distinct [of "[]" "it_changes intent"]
  by (auto simp: intent_validate_def split: if_splits)

text \<open>The observed refs with their values, and what the changes ask for, as multisets.\<close>

definition observed_refs :: "ObservedRef list \<Rightarrow> (string \<times> RefValue) multiset" where
  "observed_refs refs = mset (map (\<lambda>r. (orf_reference r, orf_value r)) refs)"

definition asked_refs :: "(RefChangeIntent \<Rightarrow> RefValue) \<Rightarrow> RefChangeIntent list \<Rightarrow> (string \<times> RefValue) multiset" where
  "asked_refs pick changes = mset (map (\<lambda>c. (ri_reference c, pick c)) changes)"

lemma refs_match_iff:
  assumes "distinct (map ri_reference changes)"
  shows "refs_match pick changes refs \<longleftrightarrow> observed_refs refs = asked_refs pick changes"
proof -
  let ?A = "map (\<lambda>r. (orf_reference r, orf_value r)) refs" and ?B = "map (\<lambda>c. (ri_reference c, pick c)) changes"
  have fst: "map fst ?A = map orf_reference refs" "map fst ?B = map ri_reference changes" by (simp_all add: comp_def)
  have B: "distinct ?B" using assms fst(2) distinct_map by metis
  have sub: "list_all (\<lambda>change. list_ex (\<lambda>r. orf_reference r = ri_reference change \<and> orf_value r = pick change) refs) changes
      \<longleftrightarrow> set ?B \<subseteq> set ?A"
    unfolding list_all_iff list_ex_iff set_map image_subset_iff image_iff prod.inject by metis
  show ?thesis
  proof
    assume m: "refs_match pick changes refs"
    have "length (remdups (map orf_reference refs)) = length (map orf_reference refs)"
      using m by (simp add: refs_match_def)
    then have "distinct (map orf_reference refs)"
      unfolding length_remdups_eq remdups_id_iff_distinct .
    then have A: "distinct ?A" using fst(1) distinct_map by metis
    have "card (set ?B) = card (set ?A)"
      using m A B by (simp only: distinct_card length_map) (simp add: refs_match_def)
    moreover have "set ?B \<subseteq> set ?A" using m unfolding refs_match_def sub by blast
    ultimately have "set ?B = set ?A" by (intro card_subset_eq) simp_all
    then show "observed_refs refs = asked_refs pick changes"
      using set_eq_iff_mset_eq_distinct [OF A B] unfolding observed_refs_def asked_refs_def by simp
  next
    assume "observed_refs refs = asked_refs pick changes"
    then have eq: "mset ?A = mset ?B" by (simp add: observed_refs_def asked_refs_def)
    then have "mset (map fst ?A) = mset (map fst ?B)" by (metis mset_map)
    then have "distinct (map orf_reference refs)"
      using assms unfolding fst by (metis mset_eq_imp_distinct_iff)
    moreover have "length refs = length changes" using eq by (metis length_map mset_eq_length)
    moreover have "set ?B \<subseteq> set ?A" using eq by (metis mset_eq_setD subset_refl)
    ultimately show "refs_match pick changes refs"
      using sub by (simp add: refs_match_def distinct_remdups_id)
  qed
qed

lemma classify_not_prepared: "classify op o' \<noteq> OpPrepared"
  by (cases "(op, o')" rule: classify.cases) auto

lemma classify_cong:
  "op_intent a = op_intent b \<Longrightarrow> op_marker_oid a = op_marker_oid b \<Longrightarrow> classify a o' = classify b o'"
  by (cases o') simp_all

text \<open>
  The classification is exact. For a valid intent an operation counts as committed exactly when
  its marker names the operation's object and the observed refs are, each once, the requested
  ones; it counts as not applied exactly when there is no trace of it and the observed refs are, each
  once, the expected ones; everything else, above all an unavailable observation, has to be
  reconciled.
\<close>

theorem classify_exact:
  assumes "intent_validate ren (op_intent op) = Ok ()"
  shows "(classify op obs = OpCommitted \<longleftrightarrow>
            (\<exists>refs additional. obs = Observed refs (Exact (op_marker_oid op)) additional
               \<and> observed_refs refs = asked_refs ri_result (it_changes (op_intent op))))
       \<and> (classify op obs = OpAbortedNotApplied \<longleftrightarrow>
            (\<exists>refs. obs = Observed refs Absent False
               \<and> observed_refs refs = asked_refs ri_expected (it_changes (op_intent op))))
       \<and> classify op obs \<noteq> OpPrepared"
proof (cases obs)
  case (Observed refs marker additional)
  then show ?thesis
    by (auto simp: refs_match_iff [OF intent_validate_changes(1) [OF assms]])
qed simp

section \<open>Reading rows\<close>

lemma optional_Ok [simp]:
  "optional f None = Ok None" "optional f (Some v) = and_then (f v) (\<lambda>y. Ok (Some y))"
  by (simp_all add: optional_def)

lemma state_of_name_inverse [simp]: "state_of_name (state_name st) = Ok st"
  by (cases st) (simp_all add: state_of_name_def)

lemma state_of_name_Ok: "state_of_name n = Ok st \<longleftrightarrow> n = state_name st"
  by (cases st) (auto simp: state_of_name_def split: if_splits)

lemma check_binding_Ok:
  "check_binding ren row op = Ok op' \<longleftrightarrow> op' = op
     \<and> show_uuid (it_repository_id (op_intent op)) = ow_repository_id row \<and> it_idempotency_key (op_intent op) = ow_key row
     \<and> (\<exists>j v. rf_intent_json ren (op_intent op) = Ok j \<and> op_intent_sha256 op = rf_sha256 ren j
          \<and> rf_value_json ren (it_qualification_snapshot (op_intent op)) = Ok v \<and> op_qualification_sha256 op = rf_sha256 ren v)
     \<and> op_marker_ref op = marker_ref_of (op_id op) \<and> marker_oid (op_intent op) = Ok (op_marker_oid op) \<and> outcome_bound op"
  by (auto simp: check_binding_def Let_def split: if_splits)

lemma operation_of_row_Ok:
  "operation_of_row ren key row intent st = Ok op \<longleftrightarrow>
     parse_uuid ren key = Ok (op_id op) \<and> op_intent op = intent \<and> op_intent_sha256 op = ow_intent_sha256 row
   \<and> op_qualification_sha256 op = ow_qualification_sha256 row \<and> op_marker_ref op = ow_marker_ref row
   \<and> op_marker_oid op = ow_marker_oid row \<and> rf_time_of ren (ow_prepared_at row) = Ok (op_prepared_at op)
   \<and> parse_uuid ren (ow_prepared_audit_id row) = Ok (op_prepared_audit_id op) \<and> op_state op = st
   \<and> optional (rf_outcome_of ren) (ow_outcome row) = Ok (op_outcome op)"
  by (auto simp: operation_of_row_def)

text \<open>What a decoded operation has in common with its row.\<close>

lemma decode_operation_Ok:
  "decode_operation ren (key, row) = Ok op \<longleftrightarrow>
     rf_intent_of ren (ow_intent row) = Ok (op_intent op) \<and> intent_validate ren (op_intent op) = Ok ()
   \<and> ow_state row = state_name (op_state op)
   \<and> operation_of_row ren key row (op_intent op) (op_state op) = Ok op
   \<and> check_binding ren row op = Ok op"
  by (auto simp: decode_operation_def state_of_name_Ok) (auto simp: operation_of_row_Ok check_binding_Ok state_of_name_Ok)

lemma load_operation_Ok:
  "load_operation ren db r i = Ok op \<longleftrightarrow>
     (\<exists>u row. rf_sql ren ''SELECT forge_ref_operations'' = Ok u \<and> bt_get (rd_operations db) (show_uuid i) = Some row
       \<and> ow_repository_id row = show_uuid r \<and> decode_operation ren (show_uuid i, row) = Ok op)"
  by (auto simp: load_operation_def row_by_id_def split: option.splits)

section \<open>The steps of the journal\<close>

text \<open>
  Every transaction is at most one of three changes: a prepared row is added, a prepared row
  gets its outcome (with an outbox row exactly if it was committed), an outbox row gets its receipt.
\<close>

inductive journal_step :: "RefDb \<Rightarrow> RefDb \<Rightarrow> bool" where
  journal_prepare: "operation_row_free key row db \<Longrightarrow> ow_state row = ''prepared'' \<Longrightarrow> ow_outcome row = None \<Longrightarrow>
    rd_operations db' = bt_insert key row (rd_operations db) \<Longrightarrow> rd_outbox db' = rd_outbox db \<Longrightarrow> journal_step db db'"
| journal_settle: "bt_get (rd_operations db) key = Some row \<Longrightarrow> ow_state row = ''prepared'' \<Longrightarrow>
    n = ''aborted_not_applied'' \<or> n = ''reconciliation_required'' \<Longrightarrow>
    rd_operations db' = bt_insert key (row\<lparr>ow_state := n, ow_outcome := Some j\<rparr>) (rd_operations db) \<Longrightarrow>
    rd_outbox db' = rd_outbox db \<Longrightarrow> journal_step db db'"
| journal_commit: "bt_get (rd_operations db) key = Some row \<Longrightarrow> ow_state row = ''prepared'' \<Longrightarrow>
    rd_operations db' = bt_insert key (row\<lparr>ow_state := ''committed'', ow_outcome := Some j\<rparr>) (rd_operations db) \<Longrightarrow>
    bt_get (rd_outbox db) event = None \<Longrightarrow> list_all (\<lambda>(_, r). ox_operation_id r \<noteq> key) (rd_outbox db) \<Longrightarrow>
    ox_operation_id x = key \<Longrightarrow> ox_repo_id x = ow_repository_id row \<Longrightarrow>
    ox_delivered_at x = None \<Longrightarrow> ox_delivery_receipt x = None \<Longrightarrow>
    rd_outbox db' = bt_insert event x (rd_outbox db) \<Longrightarrow> journal_step db db'"
| journal_deliver: "bt_get (rd_outbox db) event = Some x \<Longrightarrow> ox_delivered_at x = None \<Longrightarrow>
    rd_outbox db' = bt_insert event (x\<lparr>ox_delivered_at := Some t, ox_delivery_receipt := Some receipt\<rparr>) (rd_outbox db) \<Longrightarrow>
    rd_operations db' = rd_operations db \<Longrightarrow> journal_step db db'"

lemma insert_audit_tables:
  "insert_operation_audit ren op i phase t db = Ok db' \<Longrightarrow>
     rd_operations db' = rd_operations db \<and> rd_outbox db' = rd_outbox db"
  by (auto simp: insert_operation_audit_def split: if_splits)

lemma store_prepare_step:
  assumes "store_prepare_ref_operation env ren intent now db = Ok (op, db')"
  shows "db' = db \<or> journal_step db db'"
proof -
  obtain found where found: "load_by_key ren db (it_repository_id intent) (it_idempotency_key intent) = Ok found"
    using assms by (auto simp: store_prepare_ref_operation_def)
  show ?thesis
  proof (cases found)
    case (Some existing)
    with assms found show ?thesis
      by (auto simp: store_prepare_ref_operation_def replay_operation_def split: if_splits)
  next
    case None
    with assms found obtain j db1 where
      ins: "insert_operation ren (show_uuid (op_id op)) (prepared_row ren j op) db = Ok db1"
      and audit: "insert_operation_audit ren op (op_prepared_audit_id op) ''requested'' now db1 = Ok db'"
      by (auto simp: store_prepare_ref_operation_def Let_def split: if_splits)
    show ?thesis
      using ins insert_audit_tables [OF audit]
      by (intro disjI2 journal_prepare [where key = "show_uuid (op_id op)" and row = "prepared_row ren j op"])
        (auto simp: insert_operation_def prepared_row_def split: if_splits)
  qed
qed

lemma prepare_step:
  assumes "prepare_ref_operation env ren intent s db = Ok (op, db')"
  shows "db' = db \<or> journal_step db db'"
  using assms
  by (auto simp: prepare_ref_operation_def replay_operation_def split: option.splits if_splits dest: store_prepare_step)

lemma deliver_step:
  assumes "acknowledge_ref_operation_event env ren r i receipt db = Ok (e, db')"
  shows "db' = db \<or> journal_step db db'"
proof -
  obtain event where "load_event ren db r i = Ok event"
    and store: "store_acknowledge_event env ren r i receipt db = Ok (e, db')"
    using assms by (auto simp: acknowledge_ref_operation_event_def store_acknowledge_event_def split: if_splits)
  then consider "db' = db" | t where "deliver_row ren r i t receipt db = Ok db'"
    by (auto simp: store_acknowledge_event_def Let_def split: option.splits if_splits)
  then show ?thesis
  proof cases
    case 2
    then show ?thesis
      by (intro disjI2) (auto simp: deliver_row_def row_by_event_def split: option.splits if_splits
          intro!: journal_deliver [where event = "show_uuid i"])
  qed simp
qed

lemma store_reconcile_fresh:
  assumes "store_reconcile_ref_operation env ren r i obs s f db = Ok ((op', proposed), db')"
    and "load_operation ren db r i = Ok op" and "op_outcome op = None"
  obtains row j where
    "bt_get (rd_operations db) (show_uuid i) = Some row" "ow_repository_id row = show_uuid r" "ow_state row = ''prepared''"
    "op' = fst (resolved_operation env obs op)" "op_state op' = classify op obs"
    "rf_outcome_json ren (snd (resolved_operation env obs op)) = Ok j"
    "rd_operations db' = bt_insert (show_uuid i) (row\<lparr>ow_state := state_name (classify op obs), ow_outcome := Some j\<rparr>) (rd_operations db)"
    "propose_state ren f s (classify op obs) = Ok proposed"
    "classify op obs \<noteq> OpCommitted \<Longrightarrow> rd_outbox db' = rd_outbox db"
    "classify op obs = OpCommitted \<Longrightarrow> \<exists>x. rd_outbox db' = bt_insert (show_uuid (en_uuid env ''reconcile'' 1)) x (rd_outbox db)
       \<and> bt_get (rd_outbox db) (show_uuid (en_uuid env ''reconcile'' 1)) = None
       \<and> list_all (\<lambda>(_, y). ox_operation_id y \<noteq> show_uuid i) (rd_outbox db)
       \<and> ox_operation_id x = show_uuid i \<and> ox_repo_id x = show_uuid r \<and> ox_delivered_at x = None \<and> ox_delivery_receipt x = None
       \<and> rf_event_json ren (outcome_event (en_uuid env ''reconcile'' 1) i r (en_now env ''reconcile'' 0) op') = Ok (ox_payload_json x)
       \<and> ox_created_at x = rf_rfc3339 ren (en_now env ''reconcile'' 0)"
proof -
  define op1 outcome where "op1 = fst (resolved_operation env obs op)" and "outcome = snd (resolved_operation env obs op)"
  have res: "resolved_operation env obs op = (op1, outcome)" by (simp add: op1_def outcome_def)
  have state: "op_state op1 = classify op obs" and event: "oc_event_id outcome =
      (if classify op obs = OpCommitted then Some (en_uuid env ''reconcile'' 1) else None)"
    and at: "oc_recorded_at outcome = en_now env ''reconcile'' 0"
    by (simp_all add: op1_def outcome_def resolved_operation_def Let_def)
  obtain j db1 db2 where j: "rf_outcome_json ren outcome = Ok j" and p: "propose_state ren f s (classify op obs) = Ok proposed"
    and "op' = op1"
    and db1: "resolve_row ren r i (classify op obs) j db = Ok db1"
    and db2: "rd_operations db2 = rd_operations db1" "rd_outbox db2 = rd_outbox db1"
    and last: "(case oc_event_id outcome of
             Some e \<Rightarrow> insert_outbox ren (outcome_event e i r (oc_recorded_at outcome) op1) db2
           | None \<Rightarrow> Ok db2) = Ok db'"
    using assms unfolding store_reconcile_ref_operation_def
    by (auto simp: res state split: prod.splits dest!: insert_audit_tables)
  obtain row where row: "bt_get (rd_operations db) (show_uuid i) = Some row" "ow_repository_id row = show_uuid r"
    "ow_state row = ''prepared''"
    and db1': "rd_operations db1 = bt_insert (show_uuid i) (row\<lparr>ow_state := state_name (classify op obs), ow_outcome := Some j\<rparr>) (rd_operations db)"
    "rd_outbox db1 = rd_outbox db"
    using db1 by (auto simp: resolve_row_def row_by_id_def Let_def split: option.splits if_splits)
  have ops: "rd_operations db' = rd_operations db1"
    using last db2 by (auto simp: insert_outbox_def Let_def split: option.splits if_splits)
  show thesis
  proof (rule that [OF row _ _ _ _ p])
    show "op' = fst (resolved_operation env obs op)" using \<open>op' = op1\<close> op1_def by simp
    show "op_state op' = classify op obs" using \<open>op' = op1\<close> state by simp
    show "rf_outcome_json ren (snd (resolved_operation env obs op)) = Ok j" using j outcome_def by simp
    show "rd_operations db' = bt_insert (show_uuid i) (row\<lparr>ow_state := state_name (classify op obs), ow_outcome := Some j\<rparr>) (rd_operations db)"
      using ops db1' by simp
    show "rd_outbox db' = rd_outbox db" if "classify op obs \<noteq> OpCommitted"
      using that last event db2 db1' by simp
    show "\<exists>x. rd_outbox db' = bt_insert (show_uuid (en_uuid env ''reconcile'' 1)) x (rd_outbox db)
       \<and> bt_get (rd_outbox db) (show_uuid (en_uuid env ''reconcile'' 1)) = None
       \<and> list_all (\<lambda>(_, y). ox_operation_id y \<noteq> show_uuid i) (rd_outbox db)
       \<and> ox_operation_id x = show_uuid i \<and> ox_repo_id x = show_uuid r \<and> ox_delivered_at x = None \<and> ox_delivery_receipt x = None
       \<and> rf_event_json ren (outcome_event (en_uuid env ''reconcile'' 1) i r (en_now env ''reconcile'' 0) op') = Ok (ox_payload_json x)
       \<and> ox_created_at x = rf_rfc3339 ren (en_now env ''reconcile'' 0)"
      if "classify op obs = OpCommitted"
      using that last event db2 db1' \<open>op' = op1\<close> at
      by (auto simp: insert_outbox_def Let_def outbox_row_free_def outcome_event_def split: if_splits)
  qed
qed

lemma reconcile_cases:
  assumes "reconcile_ref_operation env ren r i obs f s db = Ok (op', s', db')"
  obtains (replayed) outcome where "load_operation ren db r i = Ok op'" "op_outcome op' = Some outcome"
      "oc_observation outcome = obs" "s' = s" "db' = db"
  | (settled) op proposed where "load_operation ren db r i = Ok op" "op_outcome op = None"
      "store_reconcile_ref_operation env ren r i obs s f db = Ok ((op', proposed), db')"
      "s' = (case proposed of Some t \<Rightarrow> t | None \<Rightarrow> s)"
proof -
  obtain op proposed where op: "load_operation ren db r i = Ok op"
    and st: "store_reconcile_ref_operation env ren r i obs s f db = Ok ((op', proposed), db')"
    and s': "s' = (case proposed of Some t \<Rightarrow> t | None \<Rightarrow> s)"
    using assms by (auto simp: reconcile_ref_operation_def split: prod.splits)
  show thesis
  proof (cases "op_outcome op")
    case None
    then show thesis using settled op st s' by blast
  next
    case (Some outcome)
    then show thesis
      using replayed op st s' by (auto simp: store_reconcile_ref_operation_def split: if_splits)
  qed
qed

lemma reconcile_step:
  assumes "reconcile_ref_operation env ren r i obs f s db = Ok (op', s', db')"
  shows "db' = db \<or> journal_step db db'"
  using assms
proof (cases rule: reconcile_cases)
  case (settled op proposed)
  from settled(3,1,2) show ?thesis
  proof (rule store_reconcile_fresh)
    fix row j
    assume row: "bt_get (rd_operations db) (show_uuid i) = Some row" "ow_repository_id row = show_uuid r" "ow_state row = ''prepared''"
      and ops: "rd_operations db' = bt_insert (show_uuid i) (row\<lparr>ow_state := state_name (classify op obs), ow_outcome := Some j\<rparr>) (rd_operations db)"
      and rest: "classify op obs \<noteq> OpCommitted \<Longrightarrow> rd_outbox db' = rd_outbox db"
        "classify op obs = OpCommitted \<Longrightarrow> \<exists>x. rd_outbox db' = bt_insert (show_uuid (en_uuid env ''reconcile'' 1)) x (rd_outbox db)
       \<and> bt_get (rd_outbox db) (show_uuid (en_uuid env ''reconcile'' 1)) = None
       \<and> list_all (\<lambda>(_, y). ox_operation_id y \<noteq> show_uuid i) (rd_outbox db)
       \<and> ox_operation_id x = show_uuid i \<and> ox_repo_id x = show_uuid r \<and> ox_delivered_at x = None \<and> ox_delivery_receipt x = None
       \<and> rf_event_json ren (outcome_event (en_uuid env ''reconcile'' 1) i r (en_now env ''reconcile'' 0) op') = Ok (ox_payload_json x)
       \<and> ox_created_at x = rf_rfc3339 ren (en_now env ''reconcile'' 0)"
    show "db' = db \<or> journal_step db db'"
    proof (cases "classify op obs = OpCommitted")
      case True
      from rest(2) [OF this] obtain x where x: "rd_outbox db' = bt_insert (show_uuid (en_uuid env ''reconcile'' 1)) x (rd_outbox db)"
        "bt_get (rd_outbox db) (show_uuid (en_uuid env ''reconcile'' 1)) = None"
        "list_all (\<lambda>(_, y). ox_operation_id y \<noteq> show_uuid i) (rd_outbox db)"
        "ox_operation_id x = show_uuid i" "ox_repo_id x = show_uuid r" "ox_delivered_at x = None" "ox_delivery_receipt x = None"
        by blast
      show ?thesis
        using journal_commit [OF row(1,3) _ x(2,3,4) _ x(6,7) x(1), of j] ops row(2) x(5) True by simp
    next
      case False
      then have "state_name (classify op obs) = ''aborted_not_applied'' \<or> state_name (classify op obs) = ''reconciliation_required''"
        using classify_not_prepared [of op obs] by (cases "classify op obs") simp_all
      from journal_settle [OF row(1,3) this ops rest(1) [OF False]] show ?thesis ..
    qed
  qed
qed simp

section \<open>The invariant and the history of the tables\<close>

type_synonym op_rows = "(string, OperationRow) btree_map"
type_synonym event_rows = "(string, OutboxRow) btree_map"

text \<open>A row has an outcome exactly when it is no longer prepared.\<close>

definition rows_typed :: "op_rows \<Rightarrow> bool" where
  "rows_typed ops \<longleftrightarrow> (\<forall>k row. bt_get ops k = Some row \<longrightarrow>
     ow_state row \<in> range state_name \<and> (ow_outcome row = None \<longleftrightarrow> ow_state row = ''prepared''))"

text \<open>In a repository at most one row is unresolved and idempotency keys are unique.\<close>

definition rows_unique :: "op_rows \<Rightarrow> bool" where
  "rows_unique ops \<longleftrightarrow> (\<forall>k k' row row'. bt_get ops k = Some row \<longrightarrow> bt_get ops k' = Some row' \<longrightarrow>
     ow_repository_id row = ow_repository_id row' \<longrightarrow>
     is_unresolved row \<and> is_unresolved row' \<or> ow_key row = ow_key row' \<longrightarrow> k = k')"

text \<open>Every event belongs to a committed operation of its repository, every committed operation has one event.\<close>

definition events_sound :: "op_rows \<Rightarrow> event_rows \<Rightarrow> bool" where
  "events_sound ops events \<longleftrightarrow> (\<forall>e x. bt_get events e = Some x \<longrightarrow>
     (ox_delivered_at x = None \<longleftrightarrow> ox_delivery_receipt x = None)
   \<and> (\<exists>row. bt_get ops (ox_operation_id x) = Some row \<and> ow_state row = ''committed'' \<and> ow_repository_id row = ox_repo_id x))"

definition events_unique :: "event_rows \<Rightarrow> bool" where
  "events_unique events \<longleftrightarrow> (\<forall>e e' x x'. bt_get events e = Some x \<longrightarrow> bt_get events e' = Some x' \<longrightarrow>
     ox_operation_id x = ox_operation_id x' \<longrightarrow> e = e')"

definition events_complete :: "op_rows \<Rightarrow> event_rows \<Rightarrow> bool" where
  "events_complete ops events \<longleftrightarrow> (\<forall>k row. bt_get ops k = Some row \<longrightarrow> ow_state row = ''committed'' \<longrightarrow>
     (\<exists>e x. bt_get events e = Some x \<and> ox_operation_id x = k))"

definition journal_inv :: "RefDb \<Rightarrow> bool" where
  "journal_inv db \<longleftrightarrow> bt_wf (rd_operations db) \<and> bt_wf (rd_outbox db)
     \<and> rows_typed (rd_operations db) \<and> rows_unique (rd_operations db)
     \<and> events_sound (rd_operations db) (rd_outbox db) \<and> events_unique (rd_outbox db)
     \<and> events_complete (rd_operations db) (rd_outbox db)"

definition row_le :: "OperationRow \<Rightarrow> OperationRow \<Rightarrow> bool" where
  "row_le row row' \<longleftrightarrow> row' = row\<lparr>ow_state := ow_state row', ow_outcome := ow_outcome row'\<rparr>
     \<and> (ow_state row \<noteq> ''prepared'' \<longrightarrow> row' = row)"

definition outbox_le :: "OutboxRow \<Rightarrow> OutboxRow \<Rightarrow> bool" where
  "outbox_le x x' \<longleftrightarrow> x' = x\<lparr>ox_delivered_at := ox_delivered_at x', ox_delivery_receipt := ox_delivery_receipt x'\<rparr>
     \<and> (ox_delivered_at x \<noteq> None \<longrightarrow> x' = x)"

definition journal_le :: "RefDb \<Rightarrow> RefDb \<Rightarrow> bool" where
  "journal_le db db' \<longleftrightarrow>
     (\<forall>k row. bt_get (rd_operations db) k = Some row \<longrightarrow> (\<exists>row'. bt_get (rd_operations db') k = Some row' \<and> row_le row row'))
   \<and> (\<forall>e x. bt_get (rd_outbox db) e = Some x \<longrightarrow> (\<exists>x'. bt_get (rd_outbox db') e = Some x' \<and> outbox_le x x'))"

lemma row_le_refl [simp]: "row_le row row" and outbox_le_refl [simp]: "outbox_le x x"
  by (simp_all add: row_le_def outbox_le_def)

lemma row_le_fields:
  "row_le a b \<Longrightarrow> ow_repository_id b = ow_repository_id a \<and> ow_key b = ow_key a \<and> ow_intent b = ow_intent a"
  unfolding row_le_def by (cases a; cases b) auto

lemma row_le_trans: "row_le a b \<Longrightarrow> row_le b c \<Longrightarrow> row_le a c"
  unfolding row_le_def by (cases a; cases b; cases c) auto

lemma outbox_le_trans: "outbox_le a b \<Longrightarrow> outbox_le b c \<Longrightarrow> outbox_le a c"
  unfolding outbox_le_def by (cases a; cases b; cases c) auto

lemma journal_le_refl: "journal_le db db"
  by (simp add: journal_le_def)

lemma journal_le_trans: "journal_le a b \<Longrightarrow> journal_le b c \<Longrightarrow> journal_le a c"
  unfolding journal_le_def by (meson row_le_trans outbox_le_trans)

lemma journal_step_le: "journal_step db db' \<Longrightarrow> journal_le db db'"
proof (induction rule: journal_step.induct)
  case (journal_prepare key row db db')
  then show ?case by (auto simp: journal_le_def operation_row_free_def)
next
  case (journal_settle db key row n db' j)
  then show ?case by (auto simp: journal_le_def row_le_def)
next
  case (journal_commit db key row db' j event x)
  then show ?case by (auto simp: journal_le_def row_le_def)
next
  case (journal_deliver db event x db' t receipt)
  then show ?case by (auto simp: journal_le_def outbox_le_def)
qed

lemma state_name_range [simp]:
  "''prepared'' \<in> range state_name" "''committed'' \<in> range state_name"
  "''aborted_not_applied'' \<in> range state_name" "''reconciliation_required'' \<in> range state_name"
  by (metis rangeI state_name.simps)+

lemma rows_typed_insert:
  "rows_typed ops \<Longrightarrow> ow_state row \<in> range state_name \<Longrightarrow> (ow_outcome row = None \<longleftrightarrow> ow_state row = ''prepared'') \<Longrightarrow>
     rows_typed (bt_insert key row ops)"
  by (auto simp: rows_typed_def)

lemma rows_unique_new:
  assumes "rows_unique ops" and "bt_wf ops" and "operation_row_free key row db" and "rd_operations db = ops"
  shows "rows_unique (bt_insert key row ops)"
proof -
  have free: "\<not> (ow_repository_id r = ow_repository_id row \<and> (ow_key r = ow_key row \<or> is_unresolved r))"
    if "bt_get ops k = Some r" for k r
    using assms(3,4) map_of_SomeD [OF that]
    by (auto simp: operation_row_free_def has_unresolved_def list_all_iff list_ex_iff)
  then show ?thesis using assms(1) unfolding rows_unique_def by (auto split: if_splits) metis+
qed

lemma rows_unique_update:
  assumes "rows_unique ops" and "bt_get ops key = Some row" and "is_unresolved row"
    and "ow_repository_id row' = ow_repository_id row" and "ow_key row' = ow_key row"
  shows "rows_unique (bt_insert key row' ops)"
  using assms unfolding rows_unique_def by (auto split: if_splits)

lemma events_sound_update:
  assumes "events_sound ops events" and "bt_get ops key = None \<or> (\<exists>row. bt_get ops key = Some row \<and> ow_state row \<noteq> ''committed'')"
  shows "events_sound (bt_insert key row' ops) events"
  using assms unfolding events_sound_def by fastforce

lemma events_complete_update:
  "events_complete ops events \<Longrightarrow> ow_state row' \<noteq> ''committed'' \<Longrightarrow> events_complete (bt_insert key row' ops) events"
  unfolding events_complete_def by auto

lemma events_complete_event:
  assumes "events_complete ops events" and "bt_get events e = Some x" and "ox_operation_id x' = ox_operation_id x"
  shows "events_complete ops (bt_insert e x' events)"
  unfolding events_complete_def
proof (intro allI impI)
  fix k row
  assume "bt_get ops k = Some row" "ow_state row = ''committed''"
  then obtain e0 x0 where "bt_get events e0 = Some x0" "ox_operation_id x0 = k"
    using assms(1) unfolding events_complete_def by blast
  then show "\<exists>e0 x0. bt_get (bt_insert e x' events) e0 = Some x0 \<and> ox_operation_id x0 = k"
    using assms(2,3) by (cases "e0 = e") (auto intro: exI [of _ e0] exI [of _ e])
qed

lemma journal_step_inv: "journal_step db db' \<Longrightarrow> journal_inv db \<Longrightarrow> journal_inv db'"
proof (induction rule: journal_step.induct)
  case (journal_prepare key row db db')
  have "bt_get (rd_operations db) key = None" using journal_prepare(1) by (simp add: operation_row_free_def)
  moreover have "events_complete (bt_insert key row (rd_operations db)) (rd_outbox db)"
    using journal_prepare by (intro events_complete_update) (simp_all add: journal_inv_def)
  ultimately show ?case
    using journal_prepare
    by (auto simp: journal_inv_def intro: rows_typed_insert rows_unique_new events_sound_update)
next
  case (journal_settle db key row n db' j)
  have "n \<in> range state_name" "n \<noteq> ''prepared''" "n \<noteq> ''committed''"
    using journal_settle(3) by auto
  moreover have "is_unresolved row" using journal_settle(2) by (simp add: is_unresolved_def)
  ultimately show ?case
    using journal_settle
    by (auto simp: journal_inv_def intro!: rows_typed_insert rows_unique_update [of _ key row] events_sound_update events_complete_update)
next
  case (journal_commit db key row db' j event x)
  let ?row = "row\<lparr>ow_state := ''committed'', ow_outcome := Some j\<rparr>"
  have "rows_typed (bt_insert key ?row (rd_operations db))"
    using journal_commit by (auto simp: journal_inv_def intro: rows_typed_insert)
  moreover have "rows_unique (bt_insert key ?row (rd_operations db))"
    using journal_commit by (intro rows_unique_update [of _ key row]) (simp_all add: journal_inv_def is_unresolved_def)
  moreover have "events_sound (bt_insert key ?row (rd_operations db)) (bt_insert event x (rd_outbox db))"
  proof -
    have "events_sound (bt_insert key ?row (rd_operations db)) (rd_outbox db)"
      using journal_commit by (auto simp: journal_inv_def intro: events_sound_update)
    then show ?thesis using journal_commit by (auto simp: events_sound_def)
  qed
  moreover have "events_unique (bt_insert event x (rd_outbox db))"
  proof -
    have "ox_operation_id y \<noteq> key" if "bt_get (rd_outbox db) e = Some y" for e y
      using journal_commit(5) map_of_SomeD [OF that] by (auto simp: list_all_iff)
    then show ?thesis using journal_commit unfolding events_unique_def journal_inv_def by (auto split: if_splits) metis+
  qed
  moreover have "events_complete (bt_insert key ?row (rd_operations db)) (bt_insert event x (rd_outbox db))"
    using journal_commit unfolding events_complete_def journal_inv_def by (auto split: if_splits) (metis option.distinct(1))+
  ultimately show ?case using journal_commit by (auto simp: journal_inv_def)
next
  case (journal_deliver db event x db' receipt t)
  let ?x = "x\<lparr>ox_delivered_at := Some t, ox_delivery_receipt := Some receipt\<rparr>"
  have "events_sound (rd_operations db) (bt_insert event ?x (rd_outbox db))"
    using journal_deliver unfolding journal_inv_def events_sound_def by auto
  moreover have "events_unique (bt_insert event ?x (rd_outbox db))"
    using journal_deliver unfolding journal_inv_def events_unique_def by (auto split: if_splits)
  moreover have "events_complete (rd_operations db) (bt_insert event ?x (rd_outbox db))"
    using journal_deliver by (intro events_complete_event [of _ _ event x]) (simp_all add: journal_inv_def)
  ultimately show ?case using journal_deliver by (auto simp: journal_inv_def)
qed

section \<open>Runs\<close>

text \<open>
  The codecs of two environments agree when they differ only in the failures of the process, the
  store and the SQL engine. A codec is faithful when it reads back what it wrote.
\<close>

definition same_codec :: "RefEnv \<Rightarrow> RefEnv \<Rightarrow> bool" where
  "same_codec a b \<longleftrightarrow> rf_intent_json a = rf_intent_json b \<and> rf_intent_of a = rf_intent_of b \<and> rf_value_json a = rf_value_json b
     \<and> rf_outcome_json a = rf_outcome_json b \<and> rf_outcome_of a = rf_outcome_of b \<and> rf_event_json a = rf_event_json b
     \<and> rf_event_of a = rf_event_of b \<and> rf_sha256 a = rf_sha256 b \<and> rf_rfc3339 a = rf_rfc3339 b
     \<and> rf_time_of a = rf_time_of b \<and> rf_uuid_of a = rf_uuid_of b"

definition faithful_codec :: "RefEnv \<Rightarrow> bool" where
  "faithful_codec cod \<longleftrightarrow>
     (\<forall>x j. rf_intent_json cod x = Ok j \<longrightarrow> rf_intent_of cod j = Ok x)
   \<and> (\<forall>x j. rf_outcome_json cod x = Ok j \<longrightarrow> rf_outcome_of cod j = Ok x)
   \<and> (\<forall>x j. rf_event_json cod x = Ok j \<longrightarrow> rf_event_of cod j = Ok x)
   \<and> (\<forall>t. rf_time_of cod (rf_rfc3339 cod t) = Ok t) \<and> (\<forall>u. rf_uuid_of cod (show_uuid u) = Some u)"

lemma validate_ids_codec: "rf_uuid_of a = rf_uuid_of b \<Longrightarrow> validate_ids a u vs = validate_ids b u vs"
  by (induction vs arbitrary: u) (auto split: option.splits)

lemma intent_validate_codec:
  assumes "same_codec a b"
  shows "intent_validate a intent = intent_validate b intent"
proof -
  have "validate_ids a [] = validate_ids b []"
    using assms by (intro ext validate_ids_codec) (simp add: same_codec_def)
  then have "validate_id_list a = validate_id_list b"
    by (intro ext) (simp only: validate_id_list_def)
  then show ?thesis by (simp only: intent_validate_def)
qed

lemma decode_codec:
  assumes "same_codec a b"
  shows "decode_operation a = decode_operation b"
proof -
  have eqs: "rf_intent_json a = rf_intent_json b" "rf_intent_of a = rf_intent_of b" "rf_value_json a = rf_value_json b"
    "rf_outcome_of a = rf_outcome_of b" "rf_sha256 a = rf_sha256 b" "rf_time_of a = rf_time_of b" "rf_uuid_of a = rf_uuid_of b"
    using assms by (simp_all add: same_codec_def)
  have "operation_of_row a = operation_of_row b"
    by (intro ext) (simp only: operation_of_row_def parse_uuid_def eqs)
  moreover have "check_binding a = check_binding b"
    by (intro ext) (simp only: check_binding_def eqs)
  moreover have "intent_validate a = intent_validate b"
    by (intro ext intent_validate_codec [OF assms])
  ultimately show ?thesis by (simp only: decode_operation_def eqs)
qed

text \<open>
  A run of the core as far as ref operations are concerned: the three mutations with any
  environment of the same codec, and any other call, which may change the state but not the journal.
\<close>

inductive ref_op :: "RefEnv \<Rightarrow> RefDb \<times> ForgeState \<Rightarrow> RefDb \<times> ForgeState \<Rightarrow> bool" for cod :: RefEnv where
  ref_prepare: "same_codec cod ren \<Longrightarrow> prepare_ref_operation env ren intent s db = Ok (op, db') \<Longrightarrow> ref_op cod (db, s) (db', s)"
| ref_reconcile: "same_codec cod ren \<Longrightarrow> reconcile_ref_operation env ren r i obs f s db = Ok (op, s', db') \<Longrightarrow>
    ref_op cod (db, s) (db', s')"
| ref_acknowledge: "same_codec cod ren \<Longrightarrow> acknowledge_ref_operation_event env ren r i receipt db = Ok (e, db') \<Longrightarrow>
    ref_op cod (db, s) (db', s)"
| ref_other: "ref_op cod (db, s) (db, s')"

definition ref_init :: "RefDb \<times> ForgeState \<Rightarrow> bool" where
  "ref_init st \<longleftrightarrow> fst st = RefDb_empty"

lemma ref_op_step: "ref_op cod (db, s) (db', s') \<Longrightarrow> db' = db \<or> journal_step db db'"
  by (cases rule: ref_op.cases) (auto dest: prepare_step reconcile_step deliver_step)

section \<open>Stored operations can be read\<close>

lemma prepare_cases:
  assumes "prepare_ref_operation env ren intent s db = Ok (op, db')"
  obtains (replayed) "load_by_key ren db (it_repository_id intent) (it_idempotency_key intent) = Ok (Some op)"
      "op_intent op = intent" "db' = db"
  | (fresh) j v oid where "load_by_key ren db (it_repository_id intent) (it_idempotency_key intent) = Ok None"
      "intent_validate ren intent = Ok ()" "rf_intent_json ren intent = Ok j"
      "rf_value_json ren (it_qualification_snapshot intent) = Ok v" "marker_oid intent = Ok oid"
      "op = new_operation env ren intent (en_now env ''ref_operation'' 0) j v oid"
      "en_now env ''ref_operation'' 0 < it_expires_at intent"
      "require_repository_admissible s (it_repository_id intent) True = Ok ()"
      "operation_row_free (show_uuid (op_id op)) (prepared_row ren j op) db"
      "rd_operations db' = bt_insert (show_uuid (op_id op)) (prepared_row ren j op) (rd_operations db)"
      "rd_outbox db' = rd_outbox db"
proof -
  obtain found where found: "load_by_key ren db (it_repository_id intent) (it_idempotency_key intent) = Ok found"
    and valid: "intent_validate ren intent = Ok ()"
    using assms by (auto simp: prepare_ref_operation_def)
  show thesis
  proof (cases found)
    case (Some existing)
    with assms found show thesis
      by (intro replayed) (auto simp: prepare_ref_operation_def replay_operation_def split: if_splits)
  next
    case None
    with assms found have store: "store_prepare_ref_operation env ren intent (en_now env ''ref_operation'' 0) db = Ok (op, db')"
      and admissible: "require_repository_admissible s (it_repository_id intent) True = Ok ()"
      by (auto simp: prepare_ref_operation_def)
    obtain j v oid db1 where "rf_intent_json ren intent = Ok j"
      "rf_value_json ren (it_qualification_snapshot intent) = Ok v" "marker_oid intent = Ok oid"
      "op = new_operation env ren intent (en_now env ''ref_operation'' 0) j v oid"
      "en_now env ''ref_operation'' 0 < it_expires_at intent"
      and ins: "insert_operation ren (show_uuid (op_id op)) (prepared_row ren j op) db = Ok db1"
      and audit: "insert_operation_audit ren op (op_prepared_audit_id op) ''requested'' (en_now env ''ref_operation'' 0) db1 = Ok db'"
      using store found None by (auto simp: store_prepare_ref_operation_def Let_def split: if_splits)
    moreover from ins have "operation_row_free (show_uuid (op_id op)) (prepared_row ren j op) db"
      "rd_operations db1 = bt_insert (show_uuid (op_id op)) (prepared_row ren j op) (rd_operations db)" "rd_outbox db1 = rd_outbox db"
      by (auto simp: insert_operation_def split: if_splits)
    ultimately show thesis
      using fresh [of j v oid] found None valid admissible insert_audit_tables [OF audit] by simp
  qed
qed

definition rows_readable :: "RefEnv \<Rightarrow> op_rows \<Rightarrow> bool" where
  "rows_readable cod ops \<longleftrightarrow> (\<forall>k row. bt_get ops k = Some row \<longrightarrow>
     (\<exists>op. decode_operation cod (k, row) = Ok op \<and> show_uuid (op_id op) = k))"

lemma prepared_row_decodes:
  assumes "faithful_codec cod" and "same_codec cod ren" and "intent_validate ren intent = Ok ()"
    and "rf_intent_json ren intent = Ok j" and "rf_value_json ren (it_qualification_snapshot intent) = Ok v"
    and "marker_oid intent = Ok oid" and "op = new_operation env ren intent now j v oid"
  shows "decode_operation cod (show_uuid (op_id op), prepared_row ren j op) = Ok op"
proof -
  have "faithful_codec ren" using assms(1,2) by (simp add: faithful_codec_def same_codec_def)
  then have "decode_operation ren (show_uuid (op_id op), prepared_row ren j op) = Ok op"
    using assms(3-7)
    by (simp add: decode_operation_Ok operation_of_row_Ok check_binding_Ok prepared_row_def new_operation_def Let_def
        faithful_codec_def parse_uuid_def outcome_bound_def)
  then show ?thesis using decode_codec [OF assms(2)] by simp
qed

lemma resolved_row_decodes:
  assumes "faithful_codec cod" and "same_codec cod ren" and "decode_operation ren (key, row) = Ok op" and "op_outcome op = None"
    and "rf_outcome_json ren (snd (resolved_operation env obs op)) = Ok j"
  shows "decode_operation cod (key, row\<lparr>ow_state := state_name (classify op obs), ow_outcome := Some j\<rparr>)
       = Ok (fst (resolved_operation env obs op))"
proof -
  let ?op = "fst (resolved_operation env obs op)"
  have out: "rf_outcome_of ren j = Ok (snd (resolved_operation env obs op))"
    using assms(1,2,5) by (simp add: faithful_codec_def same_codec_def)
  have "classify ?op obs = classify op obs"
    by (rule classify_cong) (simp_all add: resolved_operation_def Let_def)
  then have "outcome_bound ?op"
    using classify_not_prepared [of op obs] by (auto simp: outcome_bound_def resolved_operation_def Let_def)
  then have "decode_operation ren (key, row\<lparr>ow_state := state_name (classify op obs), ow_outcome := Some j\<rparr>) = Ok ?op"
    using assms(3) out
    by (clarsimp simp: decode_operation_Ok operation_of_row_Ok check_binding_Ok resolved_operation_def Let_def)
  then show ?thesis using decode_codec [OF assms(2)] by simp
qed

lemma readable_step:
  assumes "ref_op cod (db, s) (db', s')" and "faithful_codec cod" and "rows_readable cod (rd_operations db)"
  shows "rows_readable cod (rd_operations db')"
  using assms(1)
proof (cases rule: ref_op.cases)
  case (ref_prepare ren env intent op)
  from ref_prepare(3) show ?thesis
  proof (cases rule: prepare_cases)
    case (fresh j v oid)
    with prepared_row_decodes [OF assms(2) ref_prepare(2), of intent j v oid op env] assms(3) show ?thesis
      by (auto simp: rows_readable_def)
  qed (use assms(3) in simp)
next
  case (ref_reconcile ren env r i obs f op)
  from ref_reconcile(2) show ?thesis
  proof (cases rule: reconcile_cases)
    case (settled op0 proposed)
    from settled(3,1,2) show ?thesis
    proof (rule store_reconcile_fresh)
      fix row j
      assume row: "bt_get (rd_operations db) (show_uuid i) = Some row"
        and j: "rf_outcome_json ren (snd (resolved_operation env obs op0)) = Ok j"
        and ops: "rd_operations db' = bt_insert (show_uuid i) (row\<lparr>ow_state := state_name (classify op0 obs), ow_outcome := Some j\<rparr>) (rd_operations db)"
      have dec: "decode_operation ren (show_uuid i, row) = Ok op0" using settled(1) row by (auto simp: load_operation_Ok)
      moreover from this row have "show_uuid (op_id op0) = show_uuid i"
        using assms(3) decode_codec [OF ref_reconcile(1)] unfolding rows_readable_def by fastforce
      moreover have "op_id (fst (resolved_operation env obs op0)) = op_id op0" by (simp add: resolved_operation_def Let_def)
      ultimately show ?thesis
        using resolved_row_decodes [OF assms(2) ref_reconcile(1) dec settled(2) j] assms(3)
        by (auto simp: rows_readable_def ops)
    qed
  qed (use assms(3) in simp)
next
  case (ref_acknowledge ren env r i receipt e)
  then have "rd_operations db' = rd_operations db"
    by (auto simp: acknowledge_ref_operation_event_def store_acknowledge_event_def deliver_row_def Let_def
        split: if_splits option.splits)
  then show ?thesis using assms(3) by simp
next
  case ref_other
  then show ?thesis using assms(3) by simp
qed

definition ref_inv :: "RefEnv \<Rightarrow> RefDb \<times> ForgeState \<Rightarrow> bool" where
  "ref_inv cod st \<longleftrightarrow> journal_inv (fst st) \<and> (faithful_codec cod \<longrightarrow> rows_readable cod (rd_operations (fst st)))"

interpretation journal: monotone_system ref_init "ref_op cod" "ref_inv cod" "\<lambda>a b. journal_le (fst a) (fst b)" for cod
proof
  show "ref_init st \<Longrightarrow> ref_inv cod st" for st
    by (simp add: ref_init_def ref_inv_def journal_inv_def RefDb_empty_def rows_typed_def rows_unique_def
        events_sound_def events_unique_def events_complete_def rows_readable_def)
  show "ref_inv cod t" if "ref_inv cod st" "ref_op cod st t" for st t
  proof -
    obtain db s db' s' where st: "st = (db, s)" "t = (db', s')" by (cases st, cases t)
    then show ?thesis
      using that ref_op_step [of cod db s db' s'] journal_step_inv readable_step by (auto simp: ref_inv_def)
  qed
  show "journal_le (fst st) (fst t)" if "ref_op cod st t" for st t
    using that ref_op_step [of cod "fst st" "snd st" "fst t" "snd t"] journal_step_le by (auto simp: journal_le_refl)
qed (auto simp: journal_le_refl intro: journal_le_trans)

section \<open>Guarantees\<close>

text \<open>
  C19. In every reachable journal a repository has at most one operation that is not settled, an
  idempotency key names one operation of its repository, a row has an outcome exactly when it is no
  longer prepared, and the events of the outbox correspond one to one to the committed
  operations.
\<close>

theorem journal_invariant:
  assumes "reach ref_init (ref_op cod) (db, s)"
  shows "rows_unique (rd_operations db) \<and> rows_typed (rd_operations db)
       \<and> bij_betw (\<lambda>e. ox_operation_id (the (bt_get (rd_outbox db) e))) (dom (bt_get (rd_outbox db)))
           {k. \<exists>row. bt_get (rd_operations db) k = Some row \<and> ow_state row = ''committed''}"
proof -
  have inv: "journal_inv db" using journal.reach_inv [OF assms] by (simp add: ref_inv_def)
  have "inj_on (\<lambda>e. ox_operation_id (the (bt_get (rd_outbox db) e))) (dom (bt_get (rd_outbox db)))"
    using inv unfolding journal_inv_def events_unique_def by (intro inj_onI) fastforce
  moreover have "(\<lambda>e. ox_operation_id (the (bt_get (rd_outbox db) e))) ` dom (bt_get (rd_outbox db))
      = {k. \<exists>row. bt_get (rd_operations db) k = Some row \<and> ow_state row = ''committed''}"
    using inv unfolding journal_inv_def events_sound_def events_complete_def by (force simp: dom_def image_iff)
  ultimately show ?thesis using inv by (simp add: bij_betw_def journal_inv_def)
qed

lemma resolved_row_replays:
  assumes "bt_get (rd_operations db) (show_uuid i) = Some row" and "ow_state row \<noteq> ''prepared''"
    and "reconcile_ref_operation env ren r i obs f s db = Ok (op, s', db')"
  shows "s' = s \<and> db' = db \<and> (\<exists>outcome. op_outcome op = Some outcome \<and> oc_observation outcome = obs)"
  using assms(3)
proof (cases rule: reconcile_cases)
  case (settled op0 proposed)
  from settled(3,1,2) have False by (rule store_reconcile_fresh) (use assms(1,2) in simp)
  then show ?thesis ..
qed auto

text \<open>
  C18. An outcome is final. Once an operation is committed, aborted or marked for reconciliation, its
  row stays exactly as it is in every later state of the run, and reconciling it again either fails or
  reports the same observation and changes neither the journal nor the state: the effect of a
  commit is published once.
\<close>

theorem outcome_is_final:
  assumes "reach ref_init (ref_op cod) (db, s)"
    and "bt_get (rd_operations db) (show_uuid i) = Some row" and "ow_state row \<noteq> ''prepared''"
    and "(ref_op cod)\<^sup>*\<^sup>* (db, s) (db', s')"
  shows "bt_get (rd_operations db') (show_uuid i) = Some row
       \<and> (\<forall>env ren r obs f op s'' db''. reconcile_ref_operation env ren r i obs f s' db' = Ok (op, s'', db'') \<longrightarrow>
            s'' = s' \<and> db'' = db' \<and> (\<exists>outcome. op_outcome op = Some outcome \<and> oc_observation outcome = obs))"
proof -
  have "journal_le db db'"
    using journal.steps_rel [OF assms(4) journal.reach_inv [OF assms(1)]] by simp
  then have row: "bt_get (rd_operations db') (show_uuid i) = Some row"
    using assms(2,3) by (auto simp: journal_le_def row_le_def)
  then show ?thesis using resolved_row_replays [OF row assms(3)] by blast
qed

text \<open>
  C20. The exact effect of a reconciliation that is not a replay: the operation was prepared; it gets the
  class of the observation; the state becomes what the commit computed from it, and was
  persisted, exactly when that class is committed, and stays as it is otherwise; the journal
  records the new class, and the outbox gains an undelivered event of the operation exactly when
  it was committed.
\<close>

theorem reconcile_exact:
  assumes "reconcile_ref_operation env ren r i obs f s db = Ok (op, s', db')" and "db' \<noteq> db"
  shows "\<exists>old row row'. load_operation ren db r i = Ok old \<and> op_outcome old = None
       \<and> op_intent op = op_intent old \<and> op_state op = classify old obs
       \<and> bt_get (rd_operations db) (show_uuid i) = Some row \<and> ow_state row = ''prepared''
       \<and> rd_operations db' = bt_insert (show_uuid i) row' (rd_operations db) \<and> ow_state row' = state_name (classify old obs)
       \<and> (if classify old obs = OpCommitted
          then f s = Ok s' \<and> rf_persist ren s' = Ok ()
             \<and> (\<exists>e x. bt_get (rd_outbox db) e = None \<and> rd_outbox db' = bt_insert e x (rd_outbox db)
                  \<and> ox_operation_id x = show_uuid i \<and> ox_delivered_at x = None)
          else s' = s \<and> rd_outbox db' = rd_outbox db)"
  using assms(1)
proof (cases rule: reconcile_cases)
  case (settled old proposed)
  from settled(3,1,2) show ?thesis
  proof (rule store_reconcile_fresh)
    fix row j
    assume a: "bt_get (rd_operations db) (show_uuid i) = Some row" "ow_state row = ''prepared''"
      "op = fst (resolved_operation env obs old)" "op_state op = classify old obs"
      "rd_operations db' = bt_insert (show_uuid i) (row\<lparr>ow_state := state_name (classify old obs), ow_outcome := Some j\<rparr>) (rd_operations db)"
      and p: "propose_state ren f s (classify old obs) = Ok proposed"
      and o1: "classify old obs \<noteq> OpCommitted \<Longrightarrow> rd_outbox db' = rd_outbox db"
      and o2: "classify old obs = OpCommitted \<Longrightarrow> \<exists>x. rd_outbox db' = bt_insert (show_uuid (en_uuid env ''reconcile'' 1)) x (rd_outbox db)
       \<and> bt_get (rd_outbox db) (show_uuid (en_uuid env ''reconcile'' 1)) = None
       \<and> list_all (\<lambda>(_, y). ox_operation_id y \<noteq> show_uuid i) (rd_outbox db)
       \<and> ox_operation_id x = show_uuid i \<and> ox_repo_id x = show_uuid r \<and> ox_delivered_at x = None \<and> ox_delivery_receipt x = None
       \<and> rf_event_json ren (outcome_event (en_uuid env ''reconcile'' 1) i r (en_now env ''reconcile'' 0) op) = Ok (ox_payload_json x)
       \<and> ox_created_at x = rf_rfc3339 ren (en_now env ''reconcile'' 0)"
    have "op_intent op = op_intent old" by (simp add: a(3) resolved_operation_def Let_def)
    moreover have "if classify old obs = OpCommitted then f s = Ok s' \<and> rf_persist ren s' = Ok () else s' = s"
      using p settled(4) by (auto simp: propose_state_def split: if_splits)
    ultimately show ?thesis
      using settled(1,2) a o1 o2
      by (intro exI [of _ old] exI [of _ row] exI [of _ "row\<lparr>ow_state := state_name (classify old obs), ow_outcome := Some j\<rparr>"]) auto
  qed
qed (use assms(2) in simp)

lemma row_by_key_Some:
  assumes "bt_wf (rd_operations db)" and "row_by_key r key db = Some (k, row)"
  shows "bt_get (rd_operations db) k = Some row" and "ow_repository_id row = show_uuid r" and "ow_key row = key"
proof -
  obtain i where "i < length (rd_operations db)" "rd_operations db ! i = (k, row)"
    and "ow_repository_id row = show_uuid r \<and> ow_key row = key"
    using assms(2) by (auto simp: row_by_key_def find_Some_iff)
  then show "bt_get (rd_operations db) k = Some row" "ow_repository_id row = show_uuid r" "ow_key row = key"
    using assms(1) by (auto simp: bt_entry_iff [symmetric] in_set_conv_nth)
qed

lemma row_by_key_iff:
  assumes "rows_unique (rd_operations db)" and "bt_wf (rd_operations db)"
    and "bt_get (rd_operations db) k = Some row" and "ow_repository_id row = show_uuid r" and "ow_key row = key"
  shows "row_by_key r key db = Some (k, row)"
proof -
  have mem: "(k, row) \<in> set (rd_operations db)" using assms(2,3) by (simp add: bt_entry_iff)
  have "find (\<lambda>(_, row). ow_repository_id row = show_uuid r \<and> ow_key row = key) (rd_operations db) \<noteq> None"
    using mem assms(4,5) by (auto simp: find_None_iff)
  then obtain k' row' where found: "row_by_key r key db = Some (k', row')"
    by (auto simp: row_by_key_def)
  from row_by_key_Some [OF assms(2) this] assms found show ?thesis unfolding rows_unique_def by (metis option.inject)
qed

text \<open>
  Preparing is idempotent. Once an intent was prepared under a faithful codec, preparing it again
  in any later state of the run, however its operation was settled meanwhile and whatever became of
  the repository and of the actor's rights, returns that same operation and changes nothing; another
  intent under the same key is refused as a conflict.
\<close>

theorem prepare_replays:
  assumes "faithful_codec cod" and "same_codec cod ren" and "reach ref_init (ref_op cod) (db, s)"
    and "prepare_ref_operation env ren intent s db = Ok (op, db1)"
    and "(ref_op cod)\<^sup>*\<^sup>* (db1, s) (db2, s2)"
    and "same_codec cod ren2" and "rf_process ren2 0 = Ok ()" and "rf_storage ren2 = Ok ()" and "\<And>q. rf_sql ren2 q = Ok ()"
    and "intent_validate ren2 intent2 = Ok ()" and "it_repository_id intent2 = it_repository_id intent"
    and "it_idempotency_key intent2 = it_idempotency_key intent"
  shows "if intent2 = intent
         then \<exists>op2. prepare_ref_operation env2 ren2 intent2 s2 db2 = Ok (op2, db2) \<and> op_id op2 = op_id op \<and> op_intent op2 = intent
         else \<exists>m. prepare_ref_operation env2 ren2 intent2 s2 db2 = Err (ForgeConflict m)"
proof -
  have fren: "faithful_codec ren" using assms(1,2) by (simp add: faithful_codec_def same_codec_def)
  have step: "ref_op cod (db, s) (db1, s)" by (rule ref_prepare [OF assms(2,4)])
  have inv1: "ref_inv cod (db1, s)" using journal.step_inv [OF journal.reach_inv [OF assms(3)] step] .
  have inv2: "ref_inv cod (db2, s2)" using journal.steps_inv [OF assms(5) inv1] .
  \<comment> \<open>the row of the operation, right after it was prepared\<close>
  obtain k row where row: "bt_get (rd_operations db1) k = Some row" "ow_repository_id row = show_uuid (it_repository_id intent)"
    "ow_key row = it_idempotency_key intent" "decode_operation cod (k, row) = Ok op" "op_intent op = intent"
    using assms(4)
  proof (cases rule: prepare_cases)
    case replayed
    then obtain k row where found: "row_by_key (it_repository_id intent) (it_idempotency_key intent) db = Some (k, row)"
      and dec: "decode_operation ren (k, row) = Ok op"
      by (auto simp: load_by_key_def optional_def split: option.splits)
    have "bt_wf (rd_operations db)" using journal.reach_inv [OF assms(3)] by (simp add: ref_inv_def journal_inv_def)
    from row_by_key_Some [OF this found] show thesis
      using that [of k row] replayed dec decode_codec [OF assms(2)] by simp
  next
    case (fresh j v oid)
    have "decode_operation cod (show_uuid (op_id op), prepared_row ren j op) = Ok op"
      by (rule prepared_row_decodes [OF assms(1,2) fresh(2-6)])
    moreover have "op_intent op = intent" by (simp add: fresh(6) new_operation_def Let_def)
    moreover from this have "ow_repository_id (prepared_row ren j op) = show_uuid (it_repository_id intent)"
      "ow_key (prepared_row ren j op) = it_idempotency_key intent" by (simp_all add: prepared_row_def)
    moreover have "bt_get (rd_operations db1) (show_uuid (op_id op)) = Some (prepared_row ren j op)" by (simp add: fresh(10))
    ultimately show thesis using that by blast
  qed
  have "journal_le db1 db2" using journal.steps_rel [OF assms(5) inv1] by simp
  then obtain row2 where row2: "bt_get (rd_operations db2) k = Some row2" "row_le row row2"
    using row(1) unfolding journal_le_def by blast
  then have keys: "ow_repository_id row2 = show_uuid (it_repository_id intent)" "ow_key row2 = it_idempotency_key intent"
    "ow_intent row2 = ow_intent row"
    using row(2,3) row_le_fields by auto
  obtain op2 where op2: "decode_operation cod (k, row2) = Ok op2"
    using inv2 row2(1) assms(1) by (auto simp: ref_inv_def rows_readable_def)
  have "op_intent op2 = intent" "op_id op2 = op_id op"
    using op2 row(4,5) keys(3) by (auto simp: decode_operation_Ok operation_of_row_Ok)
  moreover have "load_by_key ren2 db2 (it_repository_id intent) (it_idempotency_key intent) = Ok (Some op2)"
    using row_by_key_iff [OF _ _ row2(1) keys(1,2)] inv2 op2 decode_codec [OF assms(6)] assms(9)
    by (auto simp: load_by_key_def ref_inv_def journal_inv_def)
  ultimately show ?thesis
    using assms(7-12) by (auto simp: prepare_ref_operation_def replay_operation_def)
qed

definition may_read_now :: "ForgeState \<Rightarrow> string \<Rightarrow> uuid \<Rightarrow> bool" where
  "may_read_now s login repository_id \<longleftrightarrow>
     (\<exists>repo. find_repo s repository_id = Some repo
        \<and> (re_private repo \<longrightarrow> bt_get (st_repo_grants s) (login, re_owner repo, re_name repo) \<noteq> None))"

lemma require_operation_read_access_Ok:
  "require_operation_read_access s login administrator r = Ok () \<longleftrightarrow> administrator \<or> may_read_now s login r"
  by (cases "find_repo s r") (auto simp: require_operation_read_access_def may_read_now_def split: option.splits if_splits)

text \<open>
  Disclosure of a merge operation: it is read back only for a credential that is valid at the start and
  at the end of the call, whose account is an administrator or may read, now, both the
  destination and the source repository of the merge.
\<close>

theorem merge_operation_disclosure:
  assumes "merge_operation env late ren runtime actor repository_id operation_id db s = Ok readback"
  shows "\<exists>binding account pull source_repository source_ref head.
       validate_actor_locked env runtime s actor False = Ok binding
     \<and> (\<exists>b. validate_actor_locked late runtime s actor False = Ok b)
     \<and> bt_get (st_accounts s) (rb_login binding) = Some account
     \<and> it_operation (op_intent (mr_operation readback)) = MergeKind pull source_repository source_ref head
     \<and> load_operation ren db repository_id operation_id = Ok (mr_operation readback)
     \<and> (ua_role account = RoleAdmin
        \<or> may_read_now s (rb_login binding) repository_id \<and> may_read_now s (rb_login binding) source_repository)"
proof -
  obtain binding account where "validate_actor_locked env runtime s actor False = Ok binding"
    "\<exists>b. validate_actor_locked late runtime s actor False = Ok b"
    "bt_get (st_accounts s) (rb_login binding) = Some account"
    and dest: "require_operation_read_access s (rb_login binding) (ua_role account = RoleAdmin) repository_id = Ok ()"
    and rb: "merge_operation_readback env ren db repository_id operation_id = Ok readback"
    and src: "(case it_operation (op_intent (mr_operation readback)) of
            MergeKind _ source_repository_id _ _ \<Rightarrow>
              require_operation_read_access s (rb_login binding) (ua_role account = RoleAdmin) source_repository_id
          | RefUpdateKind \<Rightarrow> Ok ()) = Ok ()"
    using assms by (auto simp: merge_operation_def Let_def split: if_splits)
  moreover have "load_operation ren db repository_id operation_id = Ok (mr_operation readback)"
    and "it_operation (op_intent (mr_operation readback)) \<noteq> RefUpdateKind"
    using rb by (auto simp: merge_operation_readback_def split: if_splits)
  ultimately show ?thesis
    by (cases "it_operation (op_intent (mr_operation readback))") (auto simp: require_operation_read_access_Ok)
qed

section \<open>A sample run\<close>

text \<open>Readers for the text forms of times and identifiers, which give the sample a faithful codec.\<close>

definition read_int :: "string \<Rightarrow> int" where
  "read_int s = (if s \<noteq> [] \<and> hd s = CHR ''-'' then - int (read_nat (tl s)) else int (read_nat s))"

lemma read_show_int: "read_int (show_int i) = i"
proof (cases "i < 0")
  case False
  then have "hd (show_nat (nat i)) \<noteq> CHR ''-''"
    using show_nat_minus_notin [of "nat i"] by (metis hd_in_set show_nat_not_Nil)
  with False show ?thesis by (simp add: read_int_def show_int_def)
qed (simp add: read_int_def show_int_def)

definition hex_value :: "char \<Rightarrow> nat" where
  "hex_value c = (if is_ascii_digit c then of_char c - 48 else of_char c - 87)"

definition read_hex :: "string \<Rightarrow> nat" where
  "read_hex s = foldl (\<lambda>a c. 16 * a + hex_value c) 0 s"

lemma nibbles: "list_all (\<lambda>d. hex_value (hex_digit d) = d \<and> hex_digit d \<noteq> CHR ''-'') [0..<16]"
  by code_simp

lemma hex_value_digit: "d < 16 \<Longrightarrow> hex_value (hex_digit d) = d" and hex_digit_dash: "d < 16 \<Longrightarrow> hex_digit d \<noteq> CHR ''-''"
  using nibbles by (auto simp: list_all_iff)

lemma read_hex_pad: "n < 16 ^ w \<Longrightarrow> read_hex (hex_pad w n) = n"
proof (induction w arbitrary: n)
  case (Suc w)
  then have "read_hex (hex_pad w (n div 16)) = n div 16"
    by (simp add: less_mult_imp_div_less mult.commute)
  then show ?case by (simp add: read_hex_def hex_value_digit)
qed (simp add: read_hex_def)

lemma dash_notin_hex_pad: "CHR ''-'' \<notin> set (hex_pad w n)"
proof (induction w arbitrary: n)
  case (Suc w)
  have "CHR ''-'' \<noteq> hex_digit (n mod 16)" using hex_digit_dash [of "n mod 16"] by simp
  with Suc show ?case by simp
qed simp

definition read_uuid :: "string \<Rightarrow> uuid" where
  "read_uuid s = of_nat (read_hex (filter (\<lambda>c. c \<noteq> CHR ''-'') s))"

lemma filter_no_dash: "CHR ''-'' \<notin> set s \<Longrightarrow> filter (\<lambda>c. c \<noteq> CHR ''-'') s = s"
  by (induction s) auto

lemma uuid_groups: "h = take 8 h @ take 4 (drop 8 h) @ take 4 (drop 12 h) @ take 4 (drop 16 h) @ drop 20 h"
proof -
  have a: "take 4 (drop 8 h) @ drop 12 h = drop 8 h" using append_take_drop_id [of 4 "drop 8 h"] by simp
  have b: "take 4 (drop 12 h) @ drop 16 h = drop 12 h" using append_take_drop_id [of 4 "drop 12 h"] by simp
  have c: "take 4 (drop 16 h) @ drop 20 h = drop 16 h" using append_take_drop_id [of 4 "drop 16 h"] by simp
  show ?thesis by (simp only: a b c append_take_drop_id)
qed

lemma read_show_uuid: "read_uuid (show_uuid u) = u"
proof -
  let ?h = "hex_pad 32 (unat u)"
  have "filter (\<lambda>c. c \<noteq> CHR ''-'') (show_uuid u) = filter (\<lambda>c. c \<noteq> CHR ''-'')
      (take 8 ?h @ take 4 (drop 8 ?h) @ take 4 (drop 12 ?h) @ take 4 (drop 16 ?h) @ drop 20 ?h)"
    by (simp add: show_uuid_def Let_def)
  also have "\<dots> = ?h" by (simp only: uuid_groups [symmetric] filter_no_dash [OF dash_notin_hex_pad])
  finally have "filter (\<lambda>c. c \<noteq> CHR ''-'') (show_uuid u) = ?h" .
  moreover have "unat u < 16 ^ 32" using unat_lt_2p [of u] by simp
  ultimately show ?thesis by (simp add: read_uuid_def read_hex_pad)
qed

lemma show_uuid_inject [simp]: "show_uuid a = show_uuid b \<longleftrightarrow> a = b"
  by (metis read_show_uuid)

definition sample_new_oid :: string where
  "sample_new_oid = replicate 40 (CHR ''b'')"

definition sample_intent :: RefOperationIntent where
  "sample_intent =
     \<lparr>it_repository_id = 3, it_idempotency_key = ''merge-1'', it_actor = ''bob'',
      it_operation = MergeKind 4 3 ''refs/heads/feature'' sample_new_oid,
      it_changes = [\<lparr>ri_reference = ''refs/heads/main'', ri_expected = Exact sample_oid, ri_result = Exact sample_new_oid\<rparr>],
      it_qualification_snapshot = JObject [(''policy_revision'', JString ''r1''), (''policy'', JObject []),
        (''actor_authorization'', JObject [(''login'', JString ''bob'')]), (''blockers'', JArray []),
        (''review_ids'', JArray []), (''attempt_ids'', JArray [])],
      it_expires_at = 100\<rparr>"

definition sample_seen :: RefOperationObservation where
  "sample_seen = Observed [\<lparr>orf_reference = ''refs/heads/main'', orf_value = Exact sample_new_oid\<rparr>] (Exact sample_new_oid) False"

definition sample_outcome :: RefOperationOutcome where
  "sample_outcome = \<lparr>oc_observation = sample_seen, oc_recorded_at = 5, oc_audit_id = 7, oc_event_id = Some 8\<rparr>"

definition sample_committed :: DurableRefOperation where
  "sample_committed =
     \<lparr>op_id = 7, op_intent = sample_intent, op_intent_sha256 = replicate 64 (CHR ''0''),
      op_qualification_sha256 = replicate 64 (CHR ''0''), op_marker_ref = marker_ref_of 7, op_marker_oid = sample_new_oid,
      op_prepared_at = 5, op_prepared_audit_id = 8, op_state = OpCommitted, op_outcome = Some sample_outcome\<rparr>"

definition sample_event :: RefOperationEvent where
  "sample_event = outcome_event 8 7 3 5 sample_committed"

text \<open>A codec that knows the one intent, outcome and event of the sample.\<close>

definition sample_ref_env :: RefEnv where
  "sample_ref_env =
     \<lparr>rf_process = (\<lambda>_. Ok ()), rf_storage = Ok (), rf_sql = (\<lambda>_. Ok ()), rf_persist = (\<lambda>_. Ok ()),
      rf_intent_json = (\<lambda>x. if x = sample_intent then Ok ''intent'' else Err (Storage [])),
      rf_intent_of = (\<lambda>_. Ok sample_intent), rf_value_json = (\<lambda>_. Ok ''value''),
      rf_outcome_json = (\<lambda>x. if x = sample_outcome then Ok ''outcome'' else Err (Storage [])),
      rf_outcome_of = (\<lambda>_. Ok sample_outcome),
      rf_event_json = (\<lambda>x. if x = sample_event then Ok ''event'' else Err (Storage [])),
      rf_event_of = (\<lambda>_. Ok sample_event), rf_operation_detail = (\<lambda>_. []),
      rf_sha256 = (\<lambda>_. replicate 64 (CHR ''0'')), rf_rfc3339 = show_int, rf_time_of = (\<lambda>s. Ok (read_int s)),
      rf_uuid_of = (\<lambda>s. Some (read_uuid s))\<rparr>"

lemma sample_faithful: "faithful_codec sample_ref_env"
  by (simp add: faithful_codec_def sample_ref_env_def read_show_int read_show_uuid)

lemma same_codec_refl [simp]: "same_codec ren ren"
  by (simp add: same_codec_def)

lemma sample_intent_valid: "intent_validate ren sample_intent = Ok ()"
proof -
  have "validate_changes [] (it_changes sample_intent) = Ok ()" by code_simp
  moreover have "validate_operation (it_changes sample_intent) (it_operation sample_intent) = Ok ()" by code_simp
  moreover have "snapshot_qualified (it_qualification_snapshot sample_intent)" by code_simp
  moreover have "trim ''merge-1'' \<noteq> []" "trim ''bob'' \<noteq> []" by code_simp+
  ultimately show ?thesis
    by (simp add: intent_validate_def validate_id_list_def opt_then_def) (simp add: sample_intent_def)
qed

definition sample_prepared_op :: DurableRefOperation where
  "sample_prepared_op = sample_committed\<lparr>op_state := OpPrepared, op_outcome := None\<rparr>"

definition sample_prepared_db :: RefDb where
  "sample_prepared_db =
     \<lparr>rd_operations = [(show_uuid 7, prepared_row sample_ref_env ''intent'' sample_prepared_op)], rd_outbox = [],
      rd_audit = [audit_row sample_ref_env sample_prepared_op 8 ''requested'' 5]\<rparr>"

lemma sample_new_operation:
  "new_operation sample_env sample_ref_env sample_intent 5 ''intent'' ''value'' sample_new_oid = sample_prepared_op"
  by (simp add: new_operation_def sample_env_def sample_ref_env_def sample_prepared_op_def sample_committed_def Let_def)

lemma sample_marker: "marker_oid sample_intent = Ok sample_new_oid"
  by (simp add: marker_oid_def sample_intent_def map_filter_simps)

lemma sample_admissible: "require_repository_admissible sample_reviewable 3 writes = Ok ()"
  by (simp add: require_repository_admissible_def find_repo_def sample_reviewable_def sample_repository_def
      State_default_def bt_values_def)

lemma sample_prepares:
  "prepare_ref_operation sample_env sample_ref_env sample_intent sample_reviewable RefDb_empty
     = Ok (sample_prepared_op, sample_prepared_db)"
proof -
  have env: "en_now sample_env q n = 5" "en_ordinary sample_env = Ok ()" for q n by (simp_all add: sample_env_def)
  have ren: "rf_process sample_ref_env n = Ok ()" "rf_storage sample_ref_env = Ok ()" "rf_sql sample_ref_env q = Ok ()"
    "rf_intent_json sample_ref_env sample_intent = Ok ''intent''" "rf_value_json sample_ref_env v = Ok ''value''" for n q v
    by (simp_all add: sample_ref_env_def)
  have none: "load_by_key sample_ref_env RefDb_empty r k = Ok None" for r k
    by (simp add: load_by_key_def ren row_by_key_def RefDb_empty_def)
  have repos: "intent_repositories sample_intent = [3, 3]" "it_repository_id sample_intent = 3" "it_expires_at sample_intent = 100"
    by (simp_all add: intent_repositories_def sample_intent_def)
  have op: "op_id sample_prepared_op = 7" "op_prepared_audit_id sample_prepared_op = 8"
    by (simp_all add: sample_prepared_op_def sample_committed_def)
  have free: "operation_row_free (show_uuid 7) (prepared_row sample_ref_env ''intent'' sample_prepared_op) RefDb_empty"
    by (simp add: operation_row_free_def RefDb_empty_def has_unresolved_def prepared_row_def sample_prepared_op_def
        sample_committed_def sample_intent_def)
  have "store_prepare_ref_operation sample_env sample_ref_env sample_intent 5 RefDb_empty = Ok (sample_prepared_op, sample_prepared_db)"
    using free
    by (simp add: store_prepare_ref_operation_def sample_intent_valid none ren sample_marker sample_new_operation Let_def op
        insert_operation_def insert_operation_audit_def repos has_unresolved_def)
      (simp add: RefDb_empty_def sample_prepared_db_def)
  then show ?thesis
    by (simp add: prepare_ref_operation_def sample_intent_valid none ren env repos sample_admissible)
qed

definition sample_settled_db :: RefDb where
  "sample_settled_db =
     \<lparr>rd_operations = [(show_uuid 7, (prepared_row sample_ref_env ''intent'' sample_prepared_op)
        \<lparr>ow_state := ''committed'', ow_outcome := Some ''outcome''\<rparr>)],
      rd_outbox = [(show_uuid 8, \<lparr>ox_operation_id = show_uuid 7, ox_repo_id = show_uuid 3, ox_created_at = show_int 5,
        ox_payload_json = ''event'', ox_delivered_at = None, ox_delivery_receipt = None\<rparr>)],
      rd_audit = [audit_row sample_ref_env sample_prepared_op 8 ''requested'' 5,
                  audit_row sample_ref_env sample_committed 7 ''completed'' 5]\<rparr>"

lemma sample_prepared_loads: "load_operation sample_ref_env sample_prepared_db 3 7 = Ok sample_prepared_op"
proof -
  have "decode_operation sample_ref_env (show_uuid (op_id sample_prepared_op), prepared_row sample_ref_env ''intent'' sample_prepared_op)
      = Ok sample_prepared_op"
    by (rule prepared_row_decodes [OF sample_faithful same_codec_refl sample_intent_valid _ _ sample_marker sample_new_operation [symmetric]])
      (simp_all add: sample_ref_env_def)
  then show ?thesis
    by (simp add: load_operation_Ok) (simp add: sample_prepared_db_def sample_ref_env_def prepared_row_def
        sample_prepared_op_def sample_committed_def sample_intent_def)
qed

lemma sample_classified: "classify sample_prepared_op sample_seen = OpCommitted"
  by (simp add: sample_seen_def sample_prepared_op_def sample_committed_def sample_intent_def refs_match_def)

lemma sample_resolved: "resolved_operation sample_env sample_seen sample_prepared_op = (sample_committed, sample_outcome)"
  by (simp add: resolved_operation_def sample_classified Let_def sample_env_def sample_outcome_def)
    (simp add: sample_prepared_op_def sample_committed_def sample_outcome_def)

lemma sample_reconciles:
  "reconcile_ref_operation sample_env sample_ref_env 3 7 sample_seen Ok sample_reviewable sample_prepared_db
     = Ok (sample_committed, sample_reviewable, sample_settled_db)"
proof -
  have ren: "rf_process sample_ref_env n = Ok ()" "rf_storage sample_ref_env = Ok ()" "rf_sql sample_ref_env q = Ok ()"
    "rf_outcome_json sample_ref_env sample_outcome = Ok ''outcome''" "rf_event_json sample_ref_env sample_event = Ok ''event''"
    "rf_persist sample_ref_env s = Ok ()" "rf_rfc3339 sample_ref_env = show_int" for n q s
    by (simp_all add: sample_ref_env_def)
  have op: "op_state sample_committed = OpCommitted" "op_outcome sample_prepared_op = None"
    by (simp_all add: sample_committed_def sample_prepared_op_def)
  have oc: "oc_event_id sample_outcome = Some 8" "oc_recorded_at sample_outcome = 5" "oc_audit_id sample_outcome = 7"
    by (simp_all add: sample_outcome_def)
  have row: "row_by_id 3 7 sample_prepared_db = Some (show_uuid 7, prepared_row sample_ref_env ''intent'' sample_prepared_op)"
    "ow_state (prepared_row sample_ref_env ''intent'' sample_prepared_op) = ''prepared''"
    "ow_repository_id (prepared_row sample_ref_env ''intent'' sample_prepared_op) = show_uuid 3"
    by (simp_all add: row_by_id_def sample_prepared_db_def prepared_row_def sample_prepared_op_def sample_committed_def sample_intent_def)
  let ?db = "sample_prepared_db\<lparr>rd_operations := [(show_uuid 7, (prepared_row sample_ref_env ''intent'' sample_prepared_op)
        \<lparr>ow_state := ''committed'', ow_outcome := Some ''outcome''\<rparr>)]\<rparr>"
  have resolve: "resolve_row sample_ref_env 3 7 OpCommitted ''outcome'' sample_prepared_db = Ok ?db"
    by (simp add: resolve_row_def ren row is_unresolved_def) (simp add: sample_prepared_db_def)
  let ?db2 = "?db\<lparr>rd_audit := rd_audit ?db @ [audit_row sample_ref_env sample_committed 7 ''completed'' 5]\<rparr>"
  have audit: "insert_operation_audit sample_ref_env sample_committed 7 ''completed'' 5 ?db = Ok ?db2"
    by (simp add: insert_operation_audit_def ren sample_prepared_db_def audit_row_def)
  have "outcome_event 8 7 3 5 sample_committed = sample_event" by (simp add: sample_event_def)
  then have outbox: "insert_outbox sample_ref_env (outcome_event 8 7 3 5 sample_committed) ?db2 = Ok sample_settled_db"
    using row(3) by (simp add: insert_outbox_def ren outbox_row_free_def Let_def)
      (simp add: sample_event_def outcome_event_def sample_settled_db_def sample_prepared_db_def)
  have "store_reconcile_ref_operation sample_env sample_ref_env 3 7 sample_seen sample_reviewable Ok sample_prepared_db
      = Ok ((sample_committed, Some sample_reviewable), sample_settled_db)"
    using resolve audit outbox
    by (simp add: store_reconcile_ref_operation_def sample_prepared_loads op sample_classified propose_state_def ren
        sample_resolved oc)
  then show ?thesis
    by (simp add: reconcile_ref_operation_def ren sample_prepared_loads) (simp add: sample_env_def)
qed

lemma sample_journal_prepared_reach: "reach ref_init (ref_op sample_ref_env) (sample_prepared_db, sample_reviewable)"
proof -
  have "reach ref_init (ref_op sample_ref_env) (RefDb_empty, sample_reviewable)"
    by (rule reach_init) (simp add: ref_init_def)
  from reach_step [OF this ref_prepare [OF same_codec_refl sample_prepares]] show ?thesis .
qed

lemma sample_settles: "ref_op sample_ref_env (sample_prepared_db, sample_reviewable) (sample_settled_db, sample_reviewable)"
  by (rule ref_reconcile [OF same_codec_refl sample_reconciles])

lemma sample_settled_row:
  "\<exists>row. bt_get (rd_operations sample_settled_db) (show_uuid 7) = Some row \<and> ow_state row = ''committed''"
  by (simp add: sample_settled_db_def)

theorem journal_invariant_witness:
  "rows_unique (rd_operations sample_settled_db) \<and> rd_outbox sample_settled_db \<noteq> []"
  using journal_invariant [OF reach_step [OF sample_journal_prepared_reach sample_settles]]
  by (simp add: sample_settled_db_def)

theorem outcome_is_final_witness:
  "\<exists>row. bt_get (rd_operations sample_settled_db) (show_uuid 7) = Some row \<and> ow_state row = ''committed''
     \<and> reconcile_ref_operation sample_env sample_ref_env 3 7 (Unavailable ''down'') Ok sample_reviewable sample_settled_db
         \<noteq> Ok (sample_committed, State_default, sample_prepared_db)"
proof -
  obtain row where row: "bt_get (rd_operations sample_settled_db) (show_uuid 7) = Some row" "ow_state row = ''committed''"
    using sample_settled_row by blast
  have "sample_prepared_db \<noteq> sample_settled_db" by (simp add: sample_settled_db_def sample_prepared_db_def)
  with outcome_is_final [OF reach_step [OF sample_journal_prepared_reach sample_settles] row(1) _ rtranclp.rtrancl_refl] row
  show ?thesis by auto
qed

theorem reconcile_exact_witness:
  "\<exists>e x. rd_outbox sample_settled_db = bt_insert e x (rd_outbox sample_prepared_db) \<and> ox_operation_id x = show_uuid 7"
proof -
  have "sample_settled_db \<noteq> sample_prepared_db" by (simp add: sample_settled_db_def sample_prepared_db_def)
  from reconcile_exact [OF sample_reconciles this] show ?thesis
  proof (elim exE conjE)
    fix old
    assume old: "load_operation sample_ref_env sample_prepared_db 3 7 = Ok old"
      and c: "if classify old sample_seen = OpCommitted
       then Ok sample_reviewable = Ok sample_reviewable \<and> rf_persist sample_ref_env sample_reviewable = Ok ()
         \<and> (\<exists>e x. bt_get (rd_outbox sample_prepared_db) e = None
              \<and> rd_outbox sample_settled_db = bt_insert e x (rd_outbox sample_prepared_db)
              \<and> ox_operation_id x = show_uuid 7 \<and> ox_delivered_at x = None)
       else sample_reviewable = sample_reviewable \<and> rd_outbox sample_settled_db = rd_outbox sample_prepared_db"
    have "old = sample_prepared_op" using old sample_prepared_loads by simp
    with c show ?thesis by (simp add: sample_classified) blast
  qed
qed

theorem prepare_replays_witness:
  "\<exists>op. prepare_ref_operation sample_env sample_ref_env sample_intent State_default sample_settled_db = Ok (op, sample_settled_db)
     \<and> op_id op = 7"
proof -
  have run: "(ref_op sample_ref_env)\<^sup>*\<^sup>* (sample_prepared_db, sample_reviewable) (sample_settled_db, State_default)"
    by (meson sample_settles ref_other r_into_rtranclp rtranclp.rtrancl_into_rtrancl)
  have "reach ref_init (ref_op sample_ref_env) (RefDb_empty, sample_reviewable)"
    by (rule reach_init) (simp add: ref_init_def)
  from prepare_replays [OF sample_faithful same_codec_refl this sample_prepares run same_codec_refl _ _ _ sample_intent_valid refl refl,
      of sample_env] show ?thesis
    by (auto simp: sample_ref_env_def sample_prepared_op_def sample_committed_def)
qed

theorem classify_exact_witness: "classify sample_prepared_op (Unavailable ''down'') \<noteq> OpCommitted"
proof -
  have "intent_validate sample_ref_env (op_intent sample_prepared_op) = Ok ()"
    using sample_intent_valid by (simp add: sample_prepared_op_def sample_committed_def)
  from classify_exact [OF this, of "Unavailable ''down''"] show ?thesis by simp
qed

lemma sample_reader: "validate_actor_locked sample_env 0 sample_reviewable sample_actor False = Ok sample_binding"
  by code_simp

theorem merge_operation_disclosure_witness:
  "\<exists>readback. merge_operation sample_env sample_env sample_ref_env 0 sample_actor 3 7 sample_prepared_db sample_reviewable = Ok readback
     \<and> may_read_now sample_reviewable ''bob'' 3"
proof -
  have kind: "it_operation (op_intent sample_prepared_op) = MergeKind 4 3 ''refs/heads/feature'' sample_new_oid"
    "op_outcome sample_prepared_op = None"
    by (simp_all add: sample_prepared_op_def sample_committed_def sample_intent_def)
  have ren: "rf_process sample_ref_env n = Ok ()" "rf_storage sample_ref_env = Ok ()" "rf_sql sample_ref_env q = Ok ()" for n q
    by (simp_all add: sample_ref_env_def)
  have read: "may_read_now sample_reviewable ''bob'' 3"
    by (simp add: may_read_now_def find_repo_def sample_reviewable_def sample_repository_def State_default_def bt_values_def)
  obtain account where account: "bt_get (st_accounts sample_reviewable) ''bob'' = Some account" "ua_role account = RoleUser"
    by (simp add: sample_reviewable_def)
  have login: "rb_login sample_binding = ''bob''" by (simp add: sample_binding_def)
  have readb: "merge_operation_readback sample_env sample_ref_env sample_prepared_db 3 7 =
      Ok \<lparr>mr_operation = sample_prepared_op, mr_delivery = None, mr_observed_at = en_now sample_env ''readback'' 0\<rparr>"
    by (simp add: merge_operation_readback_def sample_prepared_loads kind opt_then_def ren)
  have access: "require_operation_read_access sample_reviewable ''bob'' b 3 = Ok ()" for b
    using read by (simp add: require_operation_read_access_Ok)
  obtain readback where ok: "merge_operation sample_env sample_env sample_ref_env 0 sample_actor 3 7 sample_prepared_db sample_reviewable = Ok readback"
    by (simp add: merge_operation_def ren sample_reader login account readb access kind Let_def)
  from merge_operation_disclosure [OF ok] ok show ?thesis
    using sample_reader login account by auto
qed

end
