(* ===== verification/Cache_Core.thy ===== *)
theory Cache_Core
  imports Rust_Text
begin

text \<open>
  The data and the laws of the build cache (\<open>jeryu-cache/crates/jeryu-cache-core\<close>): trust tiers,
  digests, key material, the policy engine, the content addressed store, receipts, quarantine,
  the manifest and the verification of a hit.

  Files are a map from paths, given by their components, to contents. What a system call reports is
  a parameter \<open>cv_io\<close>, indexed by the call and its path; an operation that fails keeps the files it
  has written so far, and a failed write leaves an empty file. BLAKE3, the JSON encodings and the clock are parameters too. Temporary files
  are created, filled and renamed as the code does.
\<close>

section \<open>Tiers, layers and scopes\<close>

datatype CvTier = CvT0ReleaseHermetic | CvT1ProtectedInternal | CvT2InternalBranch | CvT3AgentAuthored | CvT4ForkPr
  | CvT5PublicUntrusted

fun cv_tier_as_str :: "CvTier \<Rightarrow> string" where
  "cv_tier_as_str CvT0ReleaseHermetic = ''t0-release-hermetic''"
| "cv_tier_as_str CvT1ProtectedInternal = ''t1-protected-internal''"
| "cv_tier_as_str CvT2InternalBranch = ''t2-internal-branch''"
| "cv_tier_as_str CvT3AgentAuthored = ''t3-agent-authored''"
| "cv_tier_as_str CvT4ForkPr = ''t4-fork-pr''"
| "cv_tier_as_str CvT5PublicUntrusted = ''t5-public-untrusted''"

fun can_write_trusted_compiled_cache :: "CvTier \<Rightarrow> bool" where
  "can_write_trusted_compiled_cache t \<longleftrightarrow> t = CvT1ProtectedInternal"

fun can_read_mutable_compiled_cache :: "CvTier \<Rightarrow> bool" where
  "can_read_mutable_compiled_cache t \<longleftrightarrow> \<not> (t = CvT0ReleaseHermetic \<or> t = CvT4ForkPr \<or> t = CvT5PublicUntrusted)"

fun is_untrusted :: "CvTier \<Rightarrow> bool" where
  "is_untrusted t \<longleftrightarrow> t = CvT4ForkPr \<or> t = CvT5PublicUntrusted"

definition cv_tier_from_str :: "string \<Rightarrow> (CvTier, string) result" where
  "cv_tier_from_str s =
     (if s = ''t0-release-hermetic'' \<or> s = ''T0'' then Ok CvT0ReleaseHermetic
      else if s = ''t1-protected-internal'' \<or> s = ''T1'' then Ok CvT1ProtectedInternal
      else if s = ''t2-internal-branch'' \<or> s = ''T2'' then Ok CvT2InternalBranch
      else if s = ''t3-agent-authored'' \<or> s = ''T3'' then Ok CvT3AgentAuthored
      else if s = ''t4-fork-pr'' \<or> s = ''T4'' then Ok CvT4ForkPr
      else if s = ''t5-public-untrusted'' \<or> s = ''T5'' then Ok CvT5PublicUntrusted
      else Err (''unknown trust tier '' @ s))"

datatype CacheAction = ActRead | ActWrite | ActRestore | ActPromote | ActQuarantineWrite

text \<open>The derived \<open>Debug\<close> form of an action.\<close>

fun action_debug :: "CacheAction \<Rightarrow> string" where
  "action_debug ActRead = ''Read''"
| "action_debug ActWrite = ''Write''"
| "action_debug ActRestore = ''Restore''"
| "action_debug ActPromote = ''Promote''"
| "action_debug ActQuarantineWrite = ''QuarantineWrite''"

datatype CacheLayer = L0JobTmpfs | L1RunnerLocalProject | L2RunnerLocalSourceBlob | L3RepoCompiledCas
  | L4TenantSourceCas | L5ExplicitSharedCompiledCas | L6ReleaseHermeticVendorSnapshot

fun layer_is_compiled :: "CacheLayer \<Rightarrow> bool" where
  "layer_is_compiled l \<longleftrightarrow> l = L1RunnerLocalProject \<or> l = L3RepoCompiledCas \<or> l = L5ExplicitSharedCompiledCas"

fun layer_is_mutable :: "CacheLayer \<Rightarrow> bool" where
  "layer_is_mutable l \<longleftrightarrow> l \<noteq> L6ReleaseHermeticVendorSnapshot"

fun layer_is_trusted_compiled :: "CacheLayer \<Rightarrow> bool" where
  "layer_is_trusted_compiled l \<longleftrightarrow>
     l = L1RunnerLocalProject \<or> l = L3RepoCompiledCas \<or> l = L5ExplicitSharedCompiledCas"

fun layer_as_str :: "CacheLayer \<Rightarrow> string" where
  "layer_as_str L0JobTmpfs = ''L0-job-tmpfs''"
| "layer_as_str L1RunnerLocalProject = ''L1-runner-local-project-cache''"
| "layer_as_str L2RunnerLocalSourceBlob = ''L2-runner-local-source-blob-cache''"
| "layer_as_str L3RepoCompiledCas = ''L3-repo-compiled-cas''"
| "layer_as_str L4TenantSourceCas = ''L4-tenant-source-cas''"
| "layer_as_str L5ExplicitSharedCompiledCas = ''L5-explicit-shared-compiled-cas''"
| "layer_as_str L6ReleaseHermeticVendorSnapshot = ''L6-release-hermetic-vendor-snapshot''"

datatype CvScope = ScJob string | ScRepo string string | ScTenant string
  | ScExplicitShared string string bool | ScReleaseHermetic string string string

fun scope_tenant_id :: "CvScope \<Rightarrow> string" where
  "scope_tenant_id (ScJob job_id) = job_id"
| "scope_tenant_id (ScRepo tenant repo) = tenant"
| "scope_tenant_id (ScTenant tenant) = tenant"
| "scope_tenant_id (ScExplicitShared tenant scope allowlisted) = tenant"
| "scope_tenant_id (ScReleaseHermetic tenant repo snapshot) = tenant"

fun scope_repo_id :: "CvScope \<Rightarrow> string option" where
  "scope_repo_id (ScRepo tenant repo) = Some repo"
| "scope_repo_id (ScReleaseHermetic tenant repo snapshot) = Some repo"
| "scope_repo_id _ = None"

record CacheRequest =
  cq_action :: CacheAction
  cq_layer :: CacheLayer
  cq_actor_tier :: CvTier
  cq_source_repo_id :: string
  cq_target_repo_id :: string
  cq_scope :: CvScope
  cq_green_protected_policy :: bool
  cq_has_explainable_fingerprint :: bool
  cq_has_receipt :: bool
  cq_is_release_lane :: bool
  cq_is_agent_patch :: bool

definition same_repo :: "CacheRequest \<Rightarrow> bool" where
  "same_repo r \<longleftrightarrow> cq_source_repo_id r = cq_target_repo_id r"

definition explicit_shared_allowed :: "CacheRequest \<Rightarrow> bool" where
  "explicit_shared_allowed r = (case cq_scope r of ScExplicitShared _ _ allowlisted \<Rightarrow> allowlisted | _ \<Rightarrow> False)"

section \<open>The policy engine\<close>

datatype AccessDecision = Allow "string list" | Deny "string list"

fun allowed :: "AccessDecision \<Rightarrow> bool" where
  "allowed (Allow _) \<longleftrightarrow> True"
| "allowed (Deny _) \<longleftrightarrow> False"

fun reasons :: "AccessDecision \<Rightarrow> string list" where
  "reasons (Allow rs) = rs"
| "reasons (Deny rs) = rs"

definition is_reading :: "CacheAction \<Rightarrow> bool" where
  "is_reading a \<longleftrightarrow> a = ActRead \<or> a = ActRestore"

definition is_writing :: "CacheAction \<Rightarrow> bool" where
  "is_writing a \<longleftrightarrow> a = ActWrite \<or> a = ActPromote"

definition deny_if :: "bool \<Rightarrow> string \<Rightarrow> string list" where
  "deny_if b reason = (if b then [reason] else [])"

definition denials :: "CacheRequest \<Rightarrow> string list" where
  "denials r =
     deny_if (is_reading (cq_action r) \<and> \<not> cq_has_explainable_fingerprint r)
       ''CV-LAW-008: restore/read requires explainable fingerprint''
   @ deny_if (cq_is_release_lane r \<and> layer_is_compiled (cq_layer r) \<and> layer_is_mutable (cq_layer r)
        \<and> is_reading (cq_action r))
       ''CV-LAW-004: release lane cannot consume mutable compiled cache''
   @ deny_if (cq_actor_tier r = CvT0ReleaseHermetic \<and> cq_layer r \<noteq> L6ReleaseHermeticVendorSnapshot
        \<and> is_reading (cq_action r))
       ''T0 release-hermetic lanes may restore only L6 hermetic snapshots''
   @ deny_if (is_untrusted (cq_actor_tier r) \<and> layer_is_trusted_compiled (cq_layer r) \<and> is_reading (cq_action r))
       ''CV-LAW-001/CV-LAW-003: untrusted jobs may read source caches only, not trusted compiled cache''
   @ deny_if (is_untrusted (cq_actor_tier r) \<and> layer_is_trusted_compiled (cq_layer r) \<and> is_writing (cq_action r))
       ''CV-LAW-002/CV-LAW-003: untrusted jobs cannot write trusted compiled cache''
   @ deny_if (cq_action r = ActPromote \<and> \<not> cq_has_receipt r)
       ''CV-LAW-009: cache promotion requires receipt''
   @ deny_if (is_writing (cq_action r) \<and> layer_is_trusted_compiled (cq_layer r)
        \<and> \<not> can_write_trusted_compiled_cache (cq_actor_tier r))
       ''only T1 protected-internal can write trusted compiled cache''
   @ deny_if (is_writing (cq_action r) \<and> layer_is_trusted_compiled (cq_layer r)
        \<and> can_write_trusted_compiled_cache (cq_actor_tier r) \<and> \<not> cq_green_protected_policy r)
       ''trusted compiled cache write requires green protected policy''
   @ deny_if (cq_layer r = L5ExplicitSharedCompiledCas \<and> \<not> explicit_shared_allowed r)
       ''CV-LAW-005: cross-project compiled artifact sharing denied without explicit allowlist''
   @ deny_if (layer_is_compiled (cq_layer r) \<and> \<not> same_repo r \<and> cq_layer r \<noteq> L5ExplicitSharedCompiledCas)
       ''CV-LAW-005: compiled artifacts are repo-scoped by default''
   @ deny_if (cq_is_agent_patch r \<and> layer_is_trusted_compiled (cq_layer r) \<and> is_writing (cq_action r))
       ''agent patches write quarantine cache only until proof receipt''"

definition permission :: "CacheRequest \<Rightarrow> string list" where
  "permission r =
     (layer_as_str (cq_layer r) @ '' '' @ action_debug (cq_action r) @ '' permitted for '' @ cv_tier_as_str (cq_actor_tier r))
     # (if layer_is_compiled (cq_layer r) then [''compiled cache access remains scoped by key material fingerprint''] else [])"

definition evaluate :: "CacheRequest \<Rightarrow> AccessDecision" where
  "evaluate r = (if denials r = [] then Allow (permission r) else Deny (denials r))"

section \<open>Errors, digests and key material\<close>

datatype JeryuCacheError = InvalidDigest string | CachePolicyDenied string | CacheMiss string | FalseHitError string
  | CacheMissingReceipt | InvalidKeyMaterial string | CacheIo string | CacheJson string

type_synonym Digest = string

definition is_ascii_hexdigit :: "char \<Rightarrow> bool" where
  "is_ascii_hexdigit c \<longleftrightarrow> is_ascii_digit c \<or> (CHR ''a'' \<le> c \<and> c \<le> CHR ''f'') \<or> (CHR ''A'' \<le> c \<and> c \<le> CHR ''F'')"

definition digest_parse :: "string \<Rightarrow> (Digest, JeryuCacheError) result" where
  "digest_parse value =
     (if length value \<noteq> 64 \<or> \<not> list_all is_ascii_hexdigit value then Err (InvalidDigest value)
      else Ok (map to_ascii_lowercase value))"

definition shard_path :: "Digest \<Rightarrow> string \<times> string \<times> string" where
  "shard_path d = (take 2 d, take 2 (drop 2 d), drop 4 d)"

record CacheKeyMaterial =
  km_cache_schema_version :: u32
  km_tenant_id :: string
  km_repo_id_or_explicit_shared_scope :: string
  km_trust_tier :: CvTier
  km_rustc_version :: string
  km_cargo_version :: string
  km_toolchain_channel :: string
  km_host_triple :: string
  km_target_triple :: string
  km_profile :: string
  km_feature_set :: "string list"
  km_rustflags :: "string list"
  km_linker_identity :: string
  km_sysroot_digest :: Digest
  km_cargo_lock_subgraph_digest :: Digest
  km_cargo_toml_digest :: Digest
  km_workspace_metadata_digest :: Digest
  km_crate_source_digest :: Digest
  km_build_rs_digest :: Digest
  km_build_rs_declared_inputs_digest :: Digest
  km_proc_macro_digest :: Digest
  km_native_deps_digest :: Digest
  km_env_allowlist_digest :: Digest
  km_runner_rootfs_digest :: Digest
  km_sandbox_policy_digest :: Digest

record CacheKey =
  ck_digest :: Digest
  ck_material :: CacheKeyMaterial

section \<open>Records of the stores\<close>

record CasObject =
  co_digest :: Digest
  co_bytes :: u64

datatype CacheEvent = EvRestore | EvRead | EvWrite | EvQuarantineWrite | EvPromote | EvVerify | EvDeny | EvSafeMiss

record CacheReceipt =
  cr_receipt_id :: Digest
  cr_event :: CacheEvent
  cr_key_digest :: "Digest option"
  cr_object_digest :: "Digest option"
  cr_action :: CacheAction
  cr_layer :: CacheLayer
  cr_actor_tier :: CvTier
  cr_decision :: AccessDecision
  cr_timestamp_ms :: nat
  cr_parent_receipt :: "Digest option"

record QuarantineRecord =
  qr_object :: CasObject
  qr_reason :: string
  qr_writer_receipt_id :: Digest

record CacheEntry =
  ce_key :: CacheKey
  ce_object_digest :: Digest
  ce_layer :: CacheLayer
  ce_size_bytes :: u64
  ce_writer_receipt :: CacheReceipt

record FalseHit =
  fh_expected :: string
  fh_actual :: string
  fh_reason :: string

record VerificationReport =
  vr_key_digest :: Digest
  vr_object_digest :: Digest
  vr_verified :: bool
  vr_false_hit :: "FalseHit option"

section \<open>Parameters and effects\<close>

type_synonym path = "string list"
type_synonym files = "(path, string) btree_map"

record CacheEnv =
  cv_blake3 :: "string \<Rightarrow> string"
  cv_io :: "string \<Rightarrow> path \<Rightarrow> (unit, string) result"
  cv_now_ms :: "nat option"
  cv_material_json :: "CacheKeyMaterial \<Rightarrow> (string, string) result"
  cv_receipt_material :: "CacheReceipt \<Rightarrow> (string, string) result"
  cv_receipt_json :: "CacheReceipt \<Rightarrow> (string, string) result"
  cv_receipt_of :: "string \<Rightarrow> (CacheReceipt, string) result"
  cv_record_json :: "QuarantineRecord \<Rightarrow> (string, string) result"

text \<open>Operations on files: on an error the files written so far stay.\<close>

type_synonym 'a file_op = "files \<Rightarrow> ('a, JeryuCacheError) result \<times> files"

definition fs_bind :: "'a file_op \<Rightarrow> ('a \<Rightarrow> 'b file_op) \<Rightarrow> 'b file_op" where
  "fs_bind m f = (\<lambda>fs. case m fs of (Inl e, fs') \<Rightarrow> (Inl e, fs') | (Inr x, fs') \<Rightarrow> f x fs')"

definition fs_lift :: "('a, JeryuCacheError) result \<Rightarrow> 'a file_op" where
  "fs_lift r = (\<lambda>fs. (r, fs))"

definition sys_call :: "CacheEnv \<Rightarrow> string \<Rightarrow> path \<Rightarrow> unit file_op" where
  "sys_call env call p = fs_lift (map_err CacheIo (cv_io env call p))"

text \<open>\<open>fs::write\<close> and \<open>File::create\<close> truncate the file before anything can fail in them.\<close>

definition put_file_content :: "path \<Rightarrow> string \<Rightarrow> unit file_op" where
  "put_file_content p content = (\<lambda>fs. (Ok (), bt_insert p content fs))"

definition fs_write :: "CacheEnv \<Rightarrow> path \<Rightarrow> string \<Rightarrow> unit file_op" where
  "fs_write env p content =
     fs_bind (sys_call env ''open'' p) (\<lambda>_.
     fs_bind (put_file_content p []) (\<lambda>_.
     fs_bind (sys_call env ''write'' p) (\<lambda>_.
     put_file_content p content)))"

definition fs_rename :: "CacheEnv \<Rightarrow> path \<Rightarrow> path \<Rightarrow> unit file_op" where
  "fs_rename env p q =
     fs_bind (sys_call env ''rename'' p) (\<lambda>_. \<lambda>fs.
     case bt_get fs p of
       None \<Rightarrow> (Err (CacheIo ''not found''), fs)
     | Some content \<Rightarrow> (Ok (), bt_insert q content (bt_remove p fs)))"

definition fs_exists :: "CacheEnv \<Rightarrow> path \<Rightarrow> files \<Rightarrow> bool" where
  "fs_exists env p fs \<longleftrightarrow> (case cv_io env ''metadata'' p of Inl _ \<Rightarrow> False | Inr _ \<Rightarrow> bt_get fs p \<noteq> None)"

definition fs_read :: "CacheEnv \<Rightarrow> path \<Rightarrow> string file_op" where
  "fs_read env p =
     fs_bind (sys_call env ''read'' p) (\<lambda>_. \<lambda>fs.
     case bt_get fs p of None \<Rightarrow> (Err (CacheIo ''not found''), fs) | Some content \<Rightarrow> (Ok content, fs))"

section \<open>Keys\<close>

definition from_bytes :: "CacheEnv \<Rightarrow> string \<Rightarrow> Digest" where
  "from_bytes env bytes = cv_blake3 env bytes"

definition required_material :: "CacheKeyMaterial \<Rightarrow> (string \<times> string) list" where
  "required_material m =
     [(''tenant_id'', km_tenant_id m),
      (''repo_id_or_explicit_shared_scope'', km_repo_id_or_explicit_shared_scope m),
      (''rustc_version'', km_rustc_version m), (''cargo_version'', km_cargo_version m),
      (''host_triple'', km_host_triple m), (''target_triple'', km_target_triple m), (''profile'', km_profile m)]"

definition material_validate :: "CacheKeyMaterial \<Rightarrow> (unit, JeryuCacheError) result" where
  "material_validate m =
     and_then (ensure (km_cache_schema_version m \<noteq> 0) (InvalidKeyMaterial ''schema version must be non-zero'')) (\<lambda>_.
     for_each (\<lambda>(name, value). ensure (trim value \<noteq> []) (InvalidKeyMaterial (name @ '' is required'')))
       (required_material m))"

definition normal_material :: "CacheKeyMaterial \<Rightarrow> CacheKeyMaterial" where
  "normal_material m = m\<lparr>km_feature_set := remdups_adj (sort (km_feature_set m)),
     km_rustflags := remdups_adj (sort (km_rustflags m))\<rparr>"

definition canonical_json :: "CacheEnv \<Rightarrow> CacheKeyMaterial \<Rightarrow> (string, JeryuCacheError) result" where
  "canonical_json env m =
     and_then (material_validate m) (\<lambda>_. map_err CacheJson (cv_material_json env (normal_material m)))"

definition derive_key :: "CacheEnv \<Rightarrow> CacheKeyMaterial \<Rightarrow> (CacheKey, JeryuCacheError) result" where
  "derive_key env m =
     and_then (canonical_json env m) (\<lambda>json. Ok \<lparr>ck_digest = from_bytes env json, ck_material = m\<rparr>)"

definition key_verify :: "CacheEnv \<Rightarrow> CacheKey \<Rightarrow> (unit, JeryuCacheError) result" where
  "key_verify env key =
     and_then (derive_key env (ck_material key)) (\<lambda>expected.
     ensure (ck_digest expected = ck_digest key)
       (FalseHitError (''cache key digest mismatch expected '' @ ck_digest expected @ '' got '' @ ck_digest key)))"

section \<open>The content addressed store\<close>

record ContentAddressedStore =
  cas_root :: path

definition cas_open :: "CacheEnv \<Rightarrow> path \<Rightarrow> ContentAddressedStore file_op" where
  "cas_open env root =
     fs_bind (sys_call env ''mkdir'' (root @ [''objects''])) (\<lambda>_. fs_lift (Ok \<lparr>cas_root = root\<rparr>))"

definition object_path :: "ContentAddressedStore \<Rightarrow> Digest \<Rightarrow> path" where
  "object_path cas d = (case shard_path d of (a, b, rest) \<Rightarrow> cas_root cas @ [''objects'', a, b, rest])"

definition tmp_path :: "ContentAddressedStore \<Rightarrow> Digest \<Rightarrow> path" where
  "tmp_path cas d = butlast (object_path cas d) @ [''.'' @ d @ ''.tmp'']"

definition object_of :: "CacheEnv \<Rightarrow> string \<Rightarrow> CasObject" where
  "object_of env bytes = \<lparr>co_digest = from_bytes env bytes, co_bytes = of_nat (length bytes)\<rparr>"

definition put_bytes :: "CacheEnv \<Rightarrow> ContentAddressedStore \<Rightarrow> string \<Rightarrow> CasObject file_op" where
  "put_bytes env cas bytes = (\<lambda>fs.
     let d = from_bytes env bytes; p = object_path cas d; tmp = tmp_path cas d in
     if fs_exists env p fs then (Ok (object_of env bytes), fs)
     else
       fs_bind (sys_call env ''mkdir'' (butlast p)) (\<lambda>_.
       fs_bind (fs_write env tmp bytes) (\<lambda>_.
       fs_bind (sys_call env ''sync'' tmp) (\<lambda>_.
       fs_bind (fs_rename env tmp p) (\<lambda>_.
       fs_lift (Ok (object_of env bytes)))))) fs)"

definition put_file :: "CacheEnv \<Rightarrow> ContentAddressedStore \<Rightarrow> path \<Rightarrow> CasObject file_op" where
  "put_file env cas p = fs_bind (fs_read env p) (\<lambda>bytes. put_bytes env cas bytes)"

definition get_bytes :: "CacheEnv \<Rightarrow> ContentAddressedStore \<Rightarrow> Digest \<Rightarrow> string file_op" where
  "get_bytes env cas d = (\<lambda>fs.
     if \<not> fs_exists env (object_path cas d) fs then (Err (CacheMiss d), fs)
     else
       fs_bind (fs_read env (object_path cas d)) (\<lambda>bytes.
       if from_bytes env bytes \<noteq> d
       then fs_lift (Err (FalseHitError (''CAS object path '' @ d @ '' contained '' @ from_bytes env bytes)))
       else fs_lift (Ok bytes)) fs)"

definition write_to :: "CacheEnv \<Rightarrow> ContentAddressedStore \<Rightarrow> Digest \<Rightarrow> path \<Rightarrow> unit file_op" where
  "write_to env cas d out =
     fs_bind (get_bytes env cas d) (\<lambda>bytes.
     fs_bind (if out = [] then fs_lift (Ok ()) else sys_call env ''mkdir'' (butlast out)) (\<lambda>_.
     fs_write env out bytes))"

definition contains_verified :: "CacheEnv \<Rightarrow> ContentAddressedStore \<Rightarrow> Digest \<Rightarrow> bool file_op" where
  "contains_verified env cas d = (\<lambda>fs.
     case get_bytes env cas d fs of
       (Inr _, fs') \<Rightarrow> (Ok True, fs')
     | (Inl (CacheMiss _), fs') \<Rightarrow> (Ok False, fs')
     | (Inl e, fs') \<Rightarrow> (Err e, fs'))"

definition verify_cache_hit :: "CacheEnv \<Rightarrow> ContentAddressedStore \<Rightarrow> CacheKey \<Rightarrow> Digest \<Rightarrow> VerificationReport file_op" where
  "verify_cache_hit env cas key d =
     fs_bind (fs_lift (key_verify env key)) (\<lambda>_.
     fs_bind (get_bytes env cas d) (\<lambda>bytes.
     if from_bytes env bytes \<noteq> d
     then fs_lift (Err (FalseHitError (''object digest mismatch expected '' @ d @ '' got '' @ from_bytes env bytes)))
     else fs_lift (Ok \<lparr>vr_key_digest = ck_digest key, vr_object_digest = d, vr_verified = True, vr_false_hit = None\<rparr>)))"

section \<open>Receipts\<close>

text \<open>The receipt identifier is the digest of everything else in the receipt.\<close>

definition CacheReceipt_new :: "CacheEnv \<Rightarrow> CacheEvent \<Rightarrow> Digest option \<Rightarrow> Digest option \<Rightarrow> CacheAction
    \<Rightarrow> CacheLayer \<Rightarrow> CvTier \<Rightarrow> AccessDecision \<Rightarrow> Digest option \<Rightarrow> (CacheReceipt, JeryuCacheError) result" where
  "CacheReceipt_new env event key_digest object_digest action layer tier decision parent =
     (let timestamp = (case cv_now_ms env of Some ms \<Rightarrow> ms | None \<Rightarrow> 0);
          draft = \<lparr>cr_receipt_id = [], cr_event = event, cr_key_digest = key_digest, cr_object_digest = object_digest,
            cr_action = action, cr_layer = layer, cr_actor_tier = tier, cr_decision = decision,
            cr_timestamp_ms = timestamp, cr_parent_receipt = parent\<rparr> in
      and_then (map_err CacheJson (cv_receipt_material env draft)) (\<lambda>json.
      Ok (draft\<lparr>cr_receipt_id := from_bytes env json\<rparr>)))"

record ReceiptSink =
  rsk_root :: path

definition sink_open :: "CacheEnv \<Rightarrow> path \<Rightarrow> ReceiptSink file_op" where
  "sink_open env root = fs_bind (sys_call env ''mkdir'' root) (\<lambda>_. fs_lift (Ok \<lparr>rsk_root = root\<rparr>))"

definition receipt_path :: "ReceiptSink \<Rightarrow> Digest \<Rightarrow> path" where
  "receipt_path sink d = rsk_root sink @ [d @ ''.receipt.json'']"

definition sink_write :: "CacheEnv \<Rightarrow> ReceiptSink \<Rightarrow> CacheReceipt \<Rightarrow> path file_op" where
  "sink_write env sink receipt =
     fs_bind (fs_lift (map_err CacheJson (cv_receipt_json env receipt))) (\<lambda>json.
     fs_bind (fs_write env (receipt_path sink (cr_receipt_id receipt)) json) (\<lambda>_.
     fs_lift (Ok (receipt_path sink (cr_receipt_id receipt)))))"

definition sink_read :: "CacheEnv \<Rightarrow> ReceiptSink \<Rightarrow> Digest \<Rightarrow> CacheReceipt file_op" where
  "sink_read env sink d =
     fs_bind (fs_read env (receipt_path sink d)) (\<lambda>json. fs_lift (map_err CacheJson (cv_receipt_of env json)))"

section \<open>Quarantine and manifest\<close>

record QuarantineStore =
  qs_root :: path
  qs_cas :: ContentAddressedStore

definition quarantine_open :: "CacheEnv \<Rightarrow> path \<Rightarrow> QuarantineStore file_op" where
  "quarantine_open env root =
     fs_bind (sys_call env ''mkdir'' (root @ [''records''])) (\<lambda>_.
     fs_bind (cas_open env (root @ [''cas''])) (\<lambda>cas. fs_lift (Ok \<lparr>qs_root = root, qs_cas = cas\<rparr>)))"

definition record_path :: "QuarantineStore \<Rightarrow> Digest \<Rightarrow> path" where
  "record_path q d = qs_root q @ [''records'', d @ ''.json'']"

definition quarantine_store_write ::
  "CacheEnv \<Rightarrow> QuarantineStore \<Rightarrow> string \<Rightarrow> string \<Rightarrow> CacheReceipt \<Rightarrow> QuarantineRecord file_op" where
  "quarantine_store_write env q bytes reason receipt =
     fs_bind (put_bytes env (qs_cas q) bytes) (\<lambda>obj.
     let rec = \<lparr>qr_object = obj, qr_reason = reason, qr_writer_receipt_id = cr_receipt_id receipt\<rparr> in
     fs_bind (fs_lift (map_err CacheJson (cv_record_json env rec))) (\<lambda>json.
     fs_bind (fs_write env (record_path q (co_digest obj)) json) (\<lambda>_. fs_lift (Ok rec))))"

definition promote_to ::
  "CacheEnv \<Rightarrow> QuarantineStore \<Rightarrow> Digest \<Rightarrow> ContentAddressedStore \<Rightarrow> CacheReceipt \<Rightarrow> CasObject file_op" where
  "promote_to env q d cas receipt =
     (if \<not> allowed (cr_decision receipt)
      then fs_lift (Err (CachePolicyDenied ''promotion receipt was not allowed''))
      else fs_bind (get_bytes env (qs_cas q) d) (\<lambda>bytes. put_bytes env cas bytes))"

type_synonym CacheManifest = "CacheEntry list"

definition manifest_add :: "CacheEntry \<Rightarrow> CacheManifest \<Rightarrow> CacheManifest" where
  "manifest_add e m =
     filter (\<lambda>x. ck_digest (ce_key x) \<noteq> ck_digest (ce_key e) \<or> ce_layer x \<noteq> ce_layer e) m @ [e]"

definition manifest_find :: "Digest \<Rightarrow> CacheLayer \<Rightarrow> CacheManifest \<Rightarrow> CacheEntry option" where
  "manifest_find d layer m = find (\<lambda>e. ck_digest (ce_key e) = d \<and> ce_layer e = layer) m"

end
