(* ===== verification/Cache_Service.thy ===== *)
theory Cache_Service
  imports Cache_Core Reachability
begin

text \<open>
  The cache service (\<open>jeryu-cache/crates/jeryu-cache-service\<close>): restore, write, quarantine and
  promotion over the stores of \<open>Cache_Core\<close>, and its runs. Two systems are considered: calls alone,
  and calls on a file system that anybody may change between them. The invariants say who may
  have put what into the manifest and that the stores stay content addressed; the interface
  \<open>file_system\<close> carries the second through every operation on files.
\<close>

section \<open>The service\<close>

record JeryuCachePaths =
  jp_cas_root :: path
  jp_receipt_root :: path
  jp_quarantine_root :: path

record RestoreOutcome =
  ro_hit :: bool
  ro_object_digest :: "Digest option"
  ro_receipt :: CacheReceipt

record WriteOutcome =
  wo_object_digest :: Digest
  wo_receipt :: CacheReceipt

record JeryuCache =
  jc_cas :: ContentAddressedStore
  jc_receipts :: ReceiptSink
  jc_quarantine :: QuarantineStore
  jc_manifest :: CacheManifest

definition JeryuCache_open :: "CacheEnv \<Rightarrow> JeryuCachePaths \<Rightarrow> JeryuCache file_op" where
  "JeryuCache_open env paths =
     fs_bind (cas_open env (jp_cas_root paths)) (\<lambda>cas.
     fs_bind (sink_open env (jp_receipt_root paths)) (\<lambda>sink.
     fs_bind (quarantine_open env (jp_quarantine_root paths)) (\<lambda>q.
     fs_lift (Ok \<lparr>jc_cas = cas, jc_receipts = sink, jc_quarantine = q, jc_manifest = []\<rparr>))))"

definition key_tier_denial :: "CacheRequest \<Rightarrow> CacheKey \<Rightarrow> AccessDecision option" where
  "key_tier_denial request key =
     (if km_trust_tier (ck_material key) = cq_actor_tier request then None
      else Some (Deny [''CV-LAW-001: cache key trust tier '' @ cv_tier_as_str (km_trust_tier (ck_material key))
        @ '' does not match request actor tier '' @ cv_tier_as_str (cq_actor_tier request)]))"

definition cache_receipt :: "CacheEnv \<Rightarrow> JeryuCache \<Rightarrow> CacheEvent \<Rightarrow> Digest option \<Rightarrow> Digest option \<Rightarrow> CacheRequest
    \<Rightarrow> AccessDecision \<Rightarrow> CacheReceipt file_op" where
  "cache_receipt env jc event key_digest object_digest request decision =
     fs_bind (fs_lift (CacheReceipt_new env event key_digest object_digest (cq_action request) (cq_layer request)
       (cq_actor_tier request) decision None)) (\<lambda>receipt.
     fs_bind (sink_write env (jc_receipts jc) receipt) (\<lambda>_. fs_lift (Ok receipt)))"

definition denied_with :: "CacheReceipt \<Rightarrow> AccessDecision \<Rightarrow> JeryuCacheError" where
  "denied_with receipt decision =
     CachePolicyDenied (cr_receipt_id receipt @ '' ('' @ join ''; '' (reasons decision) @ '')'')"

definition index_entry :: "CacheKey \<Rightarrow> CasObject \<Rightarrow> CacheRequest \<Rightarrow> CacheReceipt \<Rightarrow> CacheEntry" where
  "index_entry key obj request receipt =
     \<lparr>ce_key = key, ce_object_digest = co_digest obj, ce_layer = cq_layer request, ce_size_bytes = co_bytes obj,
      ce_writer_receipt = receipt\<rparr>"

definition indexed :: "CacheEntry \<Rightarrow> JeryuCache \<Rightarrow> WriteOutcome \<times> JeryuCache" where
  "indexed e jc = (\<lparr>wo_object_digest = ce_object_digest e, wo_receipt = ce_writer_receipt e\<rparr>,
     jc\<lparr>jc_manifest := manifest_add e (jc_manifest jc)\<rparr>)"

definition cache_write ::
  "CacheEnv \<Rightarrow> JeryuCache \<Rightarrow> CacheRequest \<Rightarrow> CacheKey \<Rightarrow> string \<Rightarrow> (WriteOutcome \<times> JeryuCache) file_op" where
  "cache_write env jc request key bytes =
     fs_bind (fs_lift (key_verify env key)) (\<lambda>_.
     case key_tier_denial request key of
       Some denial \<Rightarrow>
         fs_bind (cache_receipt env jc EvDeny (Some (ck_digest key)) None request denial) (\<lambda>receipt.
         fs_lift (Err (denied_with receipt denial)))
     | None \<Rightarrow>
         let decision = evaluate request in
         if \<not> allowed decision then
           fs_bind (cache_receipt env jc EvDeny (Some (ck_digest key)) None request decision) (\<lambda>receipt.
           fs_lift (Err (denied_with receipt decision)))
         else
           fs_bind (put_bytes env (jc_cas jc) bytes) (\<lambda>obj.
           fs_bind (cache_receipt env jc EvWrite (Some (ck_digest key)) (Some (co_digest obj)) request decision) (\<lambda>receipt.
           fs_lift (Ok (indexed (index_entry key obj request receipt) jc)))))"

definition missed :: "CacheReceipt \<Rightarrow> RestoreOutcome" where
  "missed receipt = \<lparr>ro_hit = False, ro_object_digest = None, ro_receipt = receipt\<rparr>"

definition cache_restore :: "CacheEnv \<Rightarrow> JeryuCache \<Rightarrow> CacheRequest \<Rightarrow> CacheKey \<Rightarrow> RestoreOutcome file_op" where
  "cache_restore env jc request key =
     fs_bind (fs_lift (key_verify env key)) (\<lambda>_.
     case key_tier_denial request key of
       Some denial \<Rightarrow>
         fs_bind (cache_receipt env jc EvDeny (Some (ck_digest key)) None request denial) (\<lambda>receipt.
         fs_lift (Ok (missed receipt)))
     | None \<Rightarrow>
         let decision = evaluate request in
         if \<not> allowed decision then
           fs_bind (cache_receipt env jc EvDeny (Some (ck_digest key)) None request decision) (\<lambda>receipt.
           fs_lift (Ok (missed receipt)))
         else
           case manifest_find (ck_digest key) (cq_layer request) (jc_manifest jc) of
             Some entry \<Rightarrow>
               fs_bind (verify_cache_hit env (jc_cas jc) key (ce_object_digest entry)) (\<lambda>_.
               fs_bind (cache_receipt env jc EvRestore (Some (ck_digest key)) (Some (ce_object_digest entry)) request decision) (\<lambda>receipt.
               fs_lift (Ok \<lparr>ro_hit = True, ro_object_digest = Some (ce_object_digest entry), ro_receipt = receipt\<rparr>)))
           | None \<Rightarrow>
               fs_bind (cache_receipt env jc EvSafeMiss (Some (ck_digest key)) None request decision) (\<lambda>receipt.
               fs_lift (Ok (missed receipt))))"

definition quarantine_write ::
  "CacheEnv \<Rightarrow> JeryuCache \<Rightarrow> CacheRequest \<Rightarrow> string \<Rightarrow> string \<Rightarrow> QuarantineRecord file_op" where
  "quarantine_write env jc request bytes reason =
     (let decision = evaluate request; event = (if allowed decision then EvQuarantineWrite else EvDeny) in
      fs_bind (cache_receipt env jc event None None request decision) (\<lambda>receipt.
      if \<not> allowed decision then fs_lift (Err (CachePolicyDenied (join ''; '' (reasons decision))))
      else quarantine_store_write env (jc_quarantine jc) bytes reason receipt))"

definition promote_quarantined ::
  "CacheEnv \<Rightarrow> JeryuCache \<Rightarrow> CacheRequest \<Rightarrow> CacheKey \<Rightarrow> Digest \<Rightarrow> (WriteOutcome \<times> JeryuCache) file_op" where
  "promote_quarantined env jc request key d =
     fs_bind (fs_lift (key_verify env key)) (\<lambda>_.
     case key_tier_denial request key of
       Some denial \<Rightarrow>
         fs_bind (cache_receipt env jc EvDeny (Some (ck_digest key)) (Some d) request denial) (\<lambda>receipt.
         fs_lift (Err (denied_with receipt denial)))
     | None \<Rightarrow>
         let decision = evaluate request in
         fs_bind (cache_receipt env jc EvPromote (Some (ck_digest key)) (Some d) request decision) (\<lambda>receipt.
         if \<not> allowed decision then fs_lift (Err (CachePolicyDenied (join ''; '' (reasons decision))))
         else
           fs_bind (promote_to env (jc_quarantine jc) d (jc_cas jc) receipt) (\<lambda>obj.
           fs_lift (Ok (indexed (index_entry key obj request receipt) jc)))))"

section \<open>The laws of the policy engine\<close>

text \<open>
  The decision as a table. Reading needs a fingerprint, and compiled layers are closed to release
  lanes, hermetic releases and untrusted tiers. Writing a compiled layer is for green
  protected-internal work that is not an agent patch. A promotion needs a receipt, and a compiled layer
  stays within its repository unless it is shared by an allow list.
\<close>

theorem evaluate_exact:
  "allowed (evaluate r) \<longleftrightarrow>
     (is_reading (cq_action r) \<longrightarrow> cq_has_explainable_fingerprint r
        \<and> (cq_actor_tier r = CvT0ReleaseHermetic \<longrightarrow> cq_layer r = L6ReleaseHermeticVendorSnapshot)
        \<and> (layer_is_compiled (cq_layer r) \<longrightarrow> \<not> cq_is_release_lane r \<and> can_read_mutable_compiled_cache (cq_actor_tier r)))
   \<and> (is_writing (cq_action r) \<and> layer_is_compiled (cq_layer r) \<longrightarrow>
        cq_actor_tier r = CvT1ProtectedInternal \<and> cq_green_protected_policy r \<and> \<not> cq_is_agent_patch r)
   \<and> (cq_action r = ActPromote \<longrightarrow> cq_has_receipt r)
   \<and> (layer_is_compiled (cq_layer r) \<longrightarrow>
        (if cq_layer r = L5ExplicitSharedCompiledCas then explicit_shared_allowed r else same_repo r))"
  by (auto simp: evaluate_def denials_def deny_if_def)

section \<open>Operations on files\<close>

lemma fs_lift_apply [simp]: "fs_lift r fs = (r, fs)"
  by (simp add: fs_lift_def)

lemma fs_bind_Ok:
  "fs_bind m f fs = (Ok y, fs') \<longleftrightarrow> (\<exists>x fs1. m fs = (Ok x, fs1) \<and> f x fs1 = (Ok y, fs'))"
  by (auto simp: fs_bind_def split: prod.splits sum.splits)

lemma fs_bind_ok [simp]: "m fs = (Ok x, fs1) \<Longrightarrow> fs_bind m f fs = f x fs1"
  by (simp add: fs_bind_def)

lemma fs_bind_err [simp]: "m fs = (Err e, fs1) \<Longrightarrow> fs_bind m f fs = (Err e, fs1)"
  by (simp add: fs_bind_def)

lemma sys_call_Ok [simp]: "sys_call env c p fs = (Ok u, fs') \<longleftrightarrow> cv_io env c p = Ok () \<and> fs' = fs"
  by (auto simp: sys_call_def)

lemma put_file_content_Ok [simp]: "put_file_content p c fs = (Ok u, fs') \<longleftrightarrow> fs' = bt_insert p c fs"
  by (auto simp: put_file_content_def)

lemma fs_write_Ok:
  "fs_write env p c fs = (Ok u, fs') \<longleftrightarrow> cv_io env ''open'' p = Ok () \<and> cv_io env ''write'' p = Ok () \<and> fs' = bt_insert p c fs"
  by (auto simp: fs_write_def fs_bind_Ok)

lemma fs_rename_Ok:
  "fs_rename env p q fs = (Ok u, fs') \<longleftrightarrow> cv_io env ''rename'' p = Ok ()
     \<and> (\<exists>c. bt_get fs p = Some c \<and> fs' = bt_insert q c (bt_remove p fs))"
  by (auto simp: fs_rename_def fs_bind_Ok split: option.splits)

lemma fs_read_Ok:
  "fs_read env p fs = (Ok c, fs') \<longleftrightarrow> cv_io env ''read'' p = Ok () \<and> fs' = fs \<and> bt_get fs p = Some c"
  by (auto simp: fs_read_def fs_bind_Ok split: option.splits)

text \<open>
  What an operation keeps of the files on every path through it, failing ones included: a relation
  between the files before and after that composes.
\<close>

definition keeps :: "(files \<Rightarrow> files \<Rightarrow> bool) \<Rightarrow> 'a file_op \<Rightarrow> bool" where
  "keeps rel m \<longleftrightarrow> (\<forall>fs. rel fs (snd (m fs)))"

named_theorems kept

locale file_system =
  fixes rel :: "files \<Rightarrow> files \<Rightarrow> bool"
  assumes same: "rel fs fs"
    and trans: "rel fs fs1 \<Longrightarrow> rel fs1 fs2 \<Longrightarrow> rel fs fs2"
begin

lemma keeps_lift: "keeps rel (fs_lift r)"
  by (simp add: keeps_def same)

lemma keeps_call: "keeps rel (sys_call env c p)"
  by (simp add: sys_call_def keeps_lift)

lemma keeps_bind:
  assumes "keeps rel m" and "\<And>x. keeps rel (f x)"
  shows "keeps rel (fs_bind m f)"
  using assms unfolding keeps_def fs_bind_def
  by (auto split: prod.splits sum.splits intro: trans) (metis snd_conv trans)+

lemma keeps_unchanged: "(\<And>fs. snd (m fs) = fs) \<Longrightarrow> keeps rel m"
  by (simp add: keeps_def same)

lemma keeps_read: "keeps rel (fs_read env p)"
  by (rule keeps_unchanged) (simp add: fs_read_def fs_bind_def sys_call_def split: sum.splits option.splits)

lemma keeps_get_bytes: "keeps rel (get_bytes env cas d)"
proof (rule keeps_unchanged)
  fix fs
  have "snd (fs_read env p fs) = fs" for p
    by (simp add: fs_read_def fs_bind_def sys_call_def split: sum.splits option.splits)
  then show "snd (get_bytes env cas d fs) = fs"
    by (auto simp: get_bytes_def fs_bind_def split: prod.splits sum.splits) (metis snd_conv)+
qed

lemma keeps_write:
  assumes "\<And>c fs. rel fs (bt_insert p c fs)"
  shows "keeps rel (fs_write env p c)"
  unfolding fs_write_def
  by (intro keeps_bind keeps_call) (simp_all add: keeps_def put_file_content_def assms)

end

section \<open>Content addressing\<close>

definition is_digest :: "string \<Rightarrow> bool" where
  "is_digest d \<longleftrightarrow> length d = 64 \<and> list_all is_ascii_hexdigit d"

definition cas_ok :: "(string \<Rightarrow> string) \<Rightarrow> files \<Rightarrow> bool" where
  "cas_ok h fs \<longleftrightarrow> (\<forall>cas d c. is_digest d \<longrightarrow> bt_get fs (object_path cas d) = Some c \<longrightarrow> h c = d)"

definition cas_le :: "(string \<Rightarrow> string) \<Rightarrow> files \<Rightarrow> files \<Rightarrow> bool" where
  "cas_le h fs fs' \<longleftrightarrow> (cas_ok h fs \<longrightarrow> cas_ok h fs')
     \<and> (\<forall>cas d. is_digest d \<longrightarrow> bt_get fs (object_path cas d) \<noteq> None \<longrightarrow> bt_get fs' (object_path cas d) \<noteq> None)"

interpretation cas: file_system "cas_le h" for h
  by unfold_locales (auto simp: cas_le_def)

definition dotted :: "path \<Rightarrow> bool" where
  "dotted p \<longleftrightarrow> p \<noteq> [] \<and> CHR ''.'' \<in> set (last p)"

lemma object_path_def': "object_path cas d = cas_root cas @ [''objects'', take 2 d, take 2 (drop 2 d), drop 4 d]"
  by (simp add: object_path_def shard_path_def)

lemma shards_join: "take 2 d @ take 2 (drop 2 d) @ drop 4 d = d"
proof -
  have split: "drop 4 d = drop 2 (drop 2 d)" by simp
  show ?thesis unfolding split by (simp only: append_take_drop_id)
qed

lemma object_path_digest: "object_path c d = object_path c' d' \<Longrightarrow> d = d'"
proof -
  assume "object_path c d = object_path c' d'"
  then have "take 2 d = take 2 d'" "take 2 (drop 2 d) = take 2 (drop 2 d')" "drop 4 d = drop 4 d'"
    by (simp_all add: object_path_def')
  then show "d = d'" by (metis shards_join)
qed

lemma digest_no_dot: "is_digest d \<Longrightarrow> CHR ''.'' \<notin> set d"
  by (auto simp: is_digest_def list_all_iff is_ascii_hexdigit_def is_ascii_digit_def less_eq_char_def)

lemma object_path_not_dotted: "is_digest d \<Longrightarrow> \<not> dotted (object_path c d)"
  using digest_no_dot by (auto simp: object_path_def' dotted_def dest: in_set_dropD)

lemma dotted_paths [simp]:
  "dotted (tmp_path c d)" "dotted (receipt_path sink d)" "dotted (record_path q d)"
  by (simp_all add: dotted_def tmp_path_def receipt_path_def record_path_def)

lemma cas_le_dotted: "dotted p \<Longrightarrow> cas_le h fs (bt_insert p c fs)"
  using object_path_not_dotted by (auto simp: cas_le_def cas_ok_def)

lemma cas_le_remove: "dotted p \<Longrightarrow> cas_le h fs (bt_remove p fs)"
  using object_path_not_dotted by (auto simp: cas_le_def cas_ok_def split: if_splits)

lemma cas_le_object: "h c = d \<Longrightarrow> cas_le h fs (bt_insert (object_path cas d) c fs)"
  using object_path_digest by (fastforce simp: cas_le_def cas_ok_def)

lemma keeps_write_dotted: "dotted p \<Longrightarrow> keeps (cas_le h) (fs_write env p c)"
  by (rule cas.keeps_write) (rule cas_le_dotted)

lemma keeps_renamed:
  assumes "cv_blake3 env = h"
  shows "keeps (cas_le h) (fs_bind (fs_write env (tmp_path cas (from_bytes env bytes)) bytes) (\<lambda>_.
       fs_bind (sys_call env ''sync'' (tmp_path cas (from_bytes env bytes))) (\<lambda>_.
       fs_rename env (tmp_path cas (from_bytes env bytes)) (object_path cas (from_bytes env bytes)))))"
    (is "keeps _ (fs_bind (fs_write env ?t bytes) (\<lambda>_. fs_bind ?sync (\<lambda>_. ?ren)))")
proof -
  have "cas_le h fs (snd (fs_bind (fs_write env ?t bytes) (\<lambda>_. fs_bind ?sync (\<lambda>_. ?ren)) fs))" for fs
  proof (cases "fst (fs_write env ?t bytes fs)")
    case (Inl e)
    then obtain fs1 where w: "fs_write env ?t bytes fs = (Err e, fs1)" by (metis prod.collapse)
    moreover have "cas_le h fs (snd (fs_write env ?t bytes fs))"
      using keeps_write_dotted [of ?t h env bytes] by (simp add: keeps_def)
    ultimately show ?thesis by simp
  next
    case (Inr u)
    then obtain fs1 where w: "fs_write env ?t bytes fs = (Ok u, fs1)" by (metis prod.collapse)
    then have fs1: "fs1 = bt_insert ?t bytes fs" by (simp add: fs_write_Ok)
    have le1: "cas_le h fs fs1" unfolding fs1 by (rule cas_le_dotted) simp
    have le2: "cas_le h fs1 (bt_insert (object_path cas (from_bytes env bytes)) bytes (bt_remove ?t fs1))"
      by (rule cas.trans [OF cas_le_remove cas_le_object]) (simp_all add: from_bytes_def assms)
    have "snd (fs_bind ?sync (\<lambda>_. ?ren) fs1) = fs1
        \<or> snd (fs_bind ?sync (\<lambda>_. ?ren) fs1) = bt_insert (object_path cas (from_bytes env bytes)) bytes (bt_remove ?t fs1)"
      by (auto simp: fs_bind_def sys_call_def fs_rename_def fs1 split: sum.splits)
    then have "cas_le h fs1 (snd (fs_bind ?sync (\<lambda>_. ?ren) fs1))" using le2 by (auto simp: cas.same)
    then show ?thesis using cas.trans [OF le1] by (simp add: w)
  qed
  then show ?thesis by (simp add: keeps_def)
qed

lemma fs_bind_assoc: "fs_bind (fs_bind m f) g = fs_bind m (\<lambda>x. fs_bind (f x) g)"
  by (rule ext) (simp add: fs_bind_def split: prod.splits sum.splits)

lemma keeps_put_bytes [kept]:
  assumes "cv_blake3 env = h"
  shows "keeps (cas_le h) (put_bytes env cas bytes)"
proof -
  have "keeps (cas_le h) (fs_bind (sys_call env ''mkdir'' (butlast (object_path cas (from_bytes env bytes)))) (\<lambda>_.
       fs_bind (fs_bind (fs_write env (tmp_path cas (from_bytes env bytes)) bytes) (\<lambda>_.
       fs_bind (sys_call env ''sync'' (tmp_path cas (from_bytes env bytes))) (\<lambda>_.
       fs_rename env (tmp_path cas (from_bytes env bytes)) (object_path cas (from_bytes env bytes))))) (\<lambda>_.
       fs_lift (Ok (object_of env bytes)))))"
    by (intro cas.keeps_bind cas.keeps_call cas.keeps_lift keeps_renamed assms)
  then show ?thesis by (simp add: keeps_def put_bytes_def Let_def fs_bind_assoc cas.same)
qed

lemma keeps_receipt [kept]: "keeps (cas_le h) (cache_receipt env jc event kd od request decision)"
  unfolding cache_receipt_def sink_write_def
  by (intro cas.keeps_bind cas.keeps_lift keeps_write_dotted) simp

lemma keeps_get_bytes' [kept]: "keeps (cas_le h) (get_bytes env cas d)"
  by (rule cas.keeps_get_bytes)

lemma keeps_quarantine_write [kept]:
  "cv_blake3 env = h \<Longrightarrow> keeps (cas_le h) (quarantine_write env jc request bytes reason)"
  unfolding quarantine_write_def Let_def quarantine_store_write_def
  by (auto intro!: cas.keeps_bind cas.keeps_lift kept keeps_write_dotted)

lemma keeps_promote_to [kept]: "cv_blake3 env = h \<Longrightarrow> keeps (cas_le h) (promote_to env q d cas receipt)"
  unfolding promote_to_def by (auto intro!: cas.keeps_bind cas.keeps_lift kept)

lemma keeps_verify [kept]: "keeps (cas_le h) (verify_cache_hit env cas key d)"
  unfolding verify_cache_hit_def by (auto intro!: cas.keeps_bind cas.keeps_lift kept)

lemma keeps_flows [kept]:
  assumes "cv_blake3 env = h"
  shows "keeps (cas_le h) (cache_write env jc request key bytes)"
    and "keeps (cas_le h) (cache_restore env jc request key)"
    and "keeps (cas_le h) (promote_quarantined env jc request key d)"
  unfolding cache_write_def cache_restore_def promote_quarantined_def Let_def
  by (auto intro!: cas.keeps_bind cas.keeps_lift kept assms split: option.split)

lemma keepsD: "keeps rel m \<Longrightarrow> m fs = (r, fs') \<Longrightarrow> rel fs fs'"
  by (metis keeps_def snd_conv)

section \<open>What successful operations did\<close>

lemma put_bytes_Ok:
  assumes "put_bytes env cas bytes fs = (Ok obj, fs')"
  shows "obj = object_of env bytes \<and> bt_get fs' (object_path cas (from_bytes env bytes)) \<noteq> None"
  using assms by (auto simp: put_bytes_def Let_def fs_exists_def fs_bind_Ok fs_rename_Ok split: if_splits sum.splits)

lemma get_bytes_Ok:
  assumes "get_bytes env cas d fs = (Ok bytes, fs')"
  shows "fs' = fs \<and> bt_get fs (object_path cas d) = Some bytes \<and> cv_blake3 env bytes = d"
  using assms by (auto simp: get_bytes_def fs_bind_Ok fs_read_Ok from_bytes_def split: if_splits)

lemma cache_receipt_Ok:
  assumes "cache_receipt env jc event kd od request decision fs = (Ok receipt, fs')"
  shows "cr_key_digest receipt = kd \<and> cr_object_digest receipt = od \<and> cr_action receipt = cq_action request
     \<and> cr_layer receipt = cq_layer request \<and> cr_actor_tier receipt = cq_actor_tier request \<and> cr_decision receipt = decision
     \<and> cr_event receipt = event"
  using assms by (auto simp: cache_receipt_def fs_bind_Ok CacheReceipt_new_def Let_def)

lemma key_tier_denial_None [simp]:
  "key_tier_denial request key = None \<longleftrightarrow> km_trust_tier (ck_material key) = cq_actor_tier request"
  by (simp add: key_tier_denial_def)

definition key_sound :: "(string \<Rightarrow> string) \<Rightarrow> (CacheKeyMaterial \<Rightarrow> (string, string) result) \<Rightarrow> CacheKey \<Rightarrow> bool" where
  "key_sound h j key \<longleftrightarrow> material_validate (ck_material key) = Ok ()
     \<and> (\<exists>json. j (normal_material (ck_material key)) = Ok json \<and> ck_digest key = h json)"

lemma key_verify_Ok: "key_verify env key = Ok () \<longleftrightarrow> key_sound (cv_blake3 env) (cv_material_json env) key"
  by (auto simp: key_verify_def derive_key_def canonical_json_def key_sound_def from_bytes_def ensure_def)

definition granted :: "CacheRequest \<Rightarrow> CacheEntry \<Rightarrow> bool" where
  "granted w e \<longleftrightarrow> allowed (evaluate w) \<and> cq_layer w = ce_layer e \<and> cq_actor_tier w = km_trust_tier (ck_material (ce_key e))
     \<and> (let r = ce_writer_receipt e in cr_decision r = evaluate w \<and> cr_action r = cq_action w \<and> cr_layer r = cq_layer w
          \<and> cr_actor_tier r = cq_actor_tier w \<and> cr_key_digest r = Some (ck_digest (ce_key e))
          \<and> cr_object_digest r = Some (ce_object_digest e))"

lemma cache_write_Ok:
  assumes "cache_write env jc request key bytes fs = (Ok (out, jc'), fs')" and "\<And>x. is_digest (cv_blake3 env x)"
  obtains e where "jc' = jc\<lparr>jc_manifest := manifest_add e (jc_manifest jc)\<rparr>" "ce_key e = key" "ce_layer e = cq_layer request"
    "ce_object_digest e = cv_blake3 env bytes" "wo_object_digest out = cv_blake3 env bytes"
    "key_sound (cv_blake3 env) (cv_material_json env) key" "granted request e"
    "bt_get fs' (object_path (jc_cas jc) (ce_object_digest e)) \<noteq> None"
proof -
  from assms(1) obtain fs1 obj receipt where key: "key_verify env key = Ok ()"
    and tier: "km_trust_tier (ck_material key) = cq_actor_tier request" and ok: "allowed (evaluate request)"
    and put: "put_bytes env (jc_cas jc) bytes fs = (Ok obj, fs1)"
    and rec: "cache_receipt env jc EvWrite (Some (ck_digest key)) (Some (co_digest obj)) request (evaluate request) fs1
      = (Ok receipt, fs')"
    and out: "(out, jc') = indexed (index_entry key obj request receipt) jc"
    by (auto simp: cache_write_def fs_bind_Ok Let_def split: option.splits if_splits)
  have obj: "co_digest obj = cv_blake3 env bytes" and "bt_get fs1 (object_path (jc_cas jc) (cv_blake3 env bytes)) \<noteq> None"
    using put_bytes_Ok [OF put] by (simp_all add: from_bytes_def object_of_def)
  then have "bt_get fs' (object_path (jc_cas jc) (cv_blake3 env bytes)) \<noteq> None"
    using keepsD [OF keeps_receipt rec, of "cv_blake3 env"] assms(2) unfolding cas_le_def by blast
  moreover note cache_receipt_Ok [OF rec]
  ultimately show thesis
    using that [of "index_entry key obj request receipt"] key tier ok out obj
    by (simp add: index_entry_def indexed_def key_verify_Ok granted_def)
qed

lemma promote_Ok:
  assumes "promote_quarantined env jc request key d fs = (Ok (out, jc'), fs')" and "\<And>x. is_digest (cv_blake3 env x)"
  obtains e where "jc' = jc\<lparr>jc_manifest := manifest_add e (jc_manifest jc)\<rparr>" "ce_key e = key" "ce_layer e = cq_layer request"
    "ce_object_digest e = d" "key_sound (cv_blake3 env) (cv_material_json env) key" "granted request e"
    "bt_get fs' (object_path (jc_cas jc) (ce_object_digest e)) \<noteq> None" "is_digest (ce_object_digest e)"
proof -
  from assms(1) obtain fs1 receipt obj where key: "key_verify env key = Ok ()"
    and tier: "km_trust_tier (ck_material key) = cq_actor_tier request" and ok: "allowed (evaluate request)"
    and rec: "cache_receipt env jc EvPromote (Some (ck_digest key)) (Some d) request (evaluate request) fs = (Ok receipt, fs1)"
    and prom: "promote_to env (jc_quarantine jc) d (jc_cas jc) receipt fs1 = (Ok obj, fs')"
    and out: "(out, jc') = indexed (index_entry key obj request receipt) jc"
    by (auto simp: promote_quarantined_def fs_bind_Ok Let_def split: option.splits if_splits)
  from prom obtain bytes fs2 where get: "get_bytes env (qs_cas (jc_quarantine jc)) d fs1 = (Ok bytes, fs2)"
    and put: "put_bytes env (jc_cas jc) bytes fs2 = (Ok obj, fs')"
    by (auto simp: promote_to_def fs_bind_Ok split: if_splits)
  have "cv_blake3 env bytes = d" using get_bytes_Ok [OF get] by simp
  moreover from this have "is_digest d" using assms(2) by blast
  moreover note cache_receipt_Ok [OF rec] put_bytes_Ok [OF put]
  ultimately show thesis
    using that [of "index_entry key obj request receipt"] key tier ok out
    by (auto simp: index_entry_def indexed_def object_of_def from_bytes_def key_verify_Ok granted_def)
qed

section \<open>The manifest\<close>

definition entry_slot :: "CacheEntry \<Rightarrow> Digest \<times> CacheLayer" where
  "entry_slot e = (ck_digest (ce_key e), ce_layer e)"

definition manifest_inv :: "(string \<Rightarrow> string) \<Rightarrow> (CacheKeyMaterial \<Rightarrow> (string, string) result) \<Rightarrow> CacheManifest \<Rightarrow> bool" where
  "manifest_inv h j m \<longleftrightarrow> distinct (map entry_slot m) \<and> (\<forall>e \<in> set m. key_sound h j (ce_key e) \<and> (\<exists>w. granted w e))"

lemma manifest_inv_Nil [simp]: "manifest_inv h j []"
  by (simp add: manifest_inv_def)

lemma manifest_inv_add:
  assumes "manifest_inv h j m" and "key_sound h j (ce_key e)" and "granted w e"
  shows "manifest_inv h j (manifest_add e m)"
  using assms by (auto simp: manifest_inv_def manifest_add_def entry_slot_def distinct_map_filter)

lemma find_append: "find P (xs @ ys) = (case find P xs of None \<Rightarrow> find P ys | Some x \<Rightarrow> Some x)"
  by (induction xs) auto

lemma find_filter_kept: "(\<And>x. P x \<Longrightarrow> Q x) \<Longrightarrow> find P (filter Q xs) = find P xs"
  by (induction xs) auto

lemma manifest_find_add:
  "manifest_find d l (manifest_add e m) = (if (d, l) = entry_slot e then Some e else manifest_find d l m)"
proof (cases "(d, l) = entry_slot e")
  case True
  then have "find (\<lambda>x. ck_digest (ce_key x) = d \<and> ce_layer x = l)
      (filter (\<lambda>x. ck_digest (ce_key x) \<noteq> ck_digest (ce_key e) \<or> ce_layer x \<noteq> ce_layer e) m) = None"
    by (auto simp: find_None_iff entry_slot_def)
  then show ?thesis using True by (auto simp: manifest_find_def manifest_add_def find_append entry_slot_def)
next
  case False
  then have "find (\<lambda>x. ck_digest (ce_key x) = d \<and> ce_layer x = l)
      (filter (\<lambda>x. ck_digest (ce_key x) \<noteq> ck_digest (ce_key e) \<or> ce_layer x \<noteq> ce_layer e) m)
    = find (\<lambda>x. ck_digest (ce_key x) = d \<and> ce_layer x = l) m"
    by (intro find_filter_kept) (auto simp: entry_slot_def)
  then show ?thesis using False by (auto simp: manifest_find_def manifest_add_def find_append entry_slot_def split: option.split)
qed

lemma manifest_find_Some: "manifest_find d l m = Some e \<Longrightarrow> e \<in> set m \<and> ck_digest (ce_key e) = d \<and> ce_layer e = l"
  by (auto simp: manifest_find_def find_Some_iff)

section \<open>Runs\<close>

definition env_ok :: "(string \<Rightarrow> string) \<Rightarrow> (CacheKeyMaterial \<Rightarrow> (string, string) result) \<Rightarrow> CacheEnv \<Rightarrow> bool" where
  "env_ok h j env \<longleftrightarrow> cv_blake3 env = h \<and> cv_material_json env = j \<and> (\<forall>x. is_digest (h x))"

inductive cache_call :: "(string \<Rightarrow> string) \<Rightarrow> (CacheKeyMaterial \<Rightarrow> (string, string) result)
    \<Rightarrow> JeryuCache \<times> files \<Rightarrow> JeryuCache \<times> files \<Rightarrow> bool" for h j where
  call_write: "env_ok h j env \<Longrightarrow> cache_write env jc request key bytes fs = (Ok (out, jc'), fs')
      \<Longrightarrow> cache_call h j (jc, fs) (jc', fs')"
| call_write_failed: "env_ok h j env \<Longrightarrow> cache_write env jc request key bytes fs = (Err e, fs')
      \<Longrightarrow> cache_call h j (jc, fs) (jc, fs')"
| call_restore: "env_ok h j env \<Longrightarrow> cache_restore env jc request key fs = (r, fs') \<Longrightarrow> cache_call h j (jc, fs) (jc, fs')"
| call_quarantine: "env_ok h j env \<Longrightarrow> quarantine_write env jc request bytes reason fs = (q, fs')
      \<Longrightarrow> cache_call h j (jc, fs) (jc, fs')"
| call_promote: "env_ok h j env \<Longrightarrow> promote_quarantined env jc request key d fs = (Ok (out, jc'), fs')
      \<Longrightarrow> cache_call h j (jc, fs) (jc', fs')"
| call_promote_failed: "env_ok h j env \<Longrightarrow> promote_quarantined env jc request key d fs = (Err e, fs')
      \<Longrightarrow> cache_call h j (jc, fs) (jc, fs')"

inductive cache_step :: "(string \<Rightarrow> string) \<Rightarrow> (CacheKeyMaterial \<Rightarrow> (string, string) result)
    \<Rightarrow> JeryuCache \<times> files \<Rightarrow> JeryuCache \<times> files \<Rightarrow> bool" for h j where
  step_call: "cache_call h j s t \<Longrightarrow> cache_step h j s t"
| step_tamper: "cache_step h j (jc, fs) (jc, fs')"

definition cache_fresh :: "JeryuCache \<times> files \<Rightarrow> bool" where
  "cache_fresh s \<longleftrightarrow> jc_manifest (fst s) = []"

definition cache_init :: "(string \<Rightarrow> string) \<Rightarrow> JeryuCache \<times> files \<Rightarrow> bool" where
  "cache_init h s \<longleftrightarrow> jc_manifest (fst s) = [] \<and> cas_ok h (snd s)"

definition service_inv :: "(string \<Rightarrow> string) \<Rightarrow> (CacheKeyMaterial \<Rightarrow> (string, string) result) \<Rightarrow> JeryuCache \<times> files \<Rightarrow> bool" where
  "service_inv h j = (\<lambda>(jc, fs). manifest_inv h j (jc_manifest jc) \<and> cas_ok h fs
     \<and> (\<forall>e \<in> set (jc_manifest jc). is_digest (ce_object_digest e) \<and> bt_get fs (object_path (jc_cas jc) (ce_object_digest e)) \<noteq> None))"

definition service_le :: "JeryuCache \<times> files \<Rightarrow> JeryuCache \<times> files \<Rightarrow> bool" where
  "service_le = (\<lambda>(jc, fs) (jc', fs'). jc_cas jc' = jc_cas jc
     \<and> (\<forall>d l. manifest_find d l (jc_manifest jc) \<noteq> None \<longrightarrow> manifest_find d l (jc_manifest jc') \<noteq> None))"

text \<open>Every call either leaves the service alone or adds one granted entry whose object is stored.\<close>

lemma cache_call_cases:
  assumes "cache_call h j (jc, fs) (jc', fs')"
  obtains (files) "jc' = jc" "cas_le h fs fs'"
  | (entry) e w where "jc' = jc\<lparr>jc_manifest := manifest_add e (jc_manifest jc)\<rparr>" "key_sound h j (ce_key e)" "granted w e"
      "is_digest (ce_object_digest e)" "bt_get fs' (object_path (jc_cas jc) (ce_object_digest e)) \<noteq> None" "cas_le h fs fs'"
  using assms
proof (cases rule: cache_call.cases)
  case (call_write env request key bytes out)
  then have le: "cas_le h fs fs'" by (auto simp: env_ok_def intro: keepsD [OF keeps_flows(1)])
  from call_write show ?thesis
    by (auto simp: env_ok_def elim!: cache_write_Ok intro!: entry le)
next
  case (call_promote env request key d out)
  then have le: "cas_le h fs fs'" by (auto simp: env_ok_def intro: keepsD [OF keeps_flows(3)])
  from call_promote show ?thesis
    by (auto simp: env_ok_def elim!: promote_Ok intro!: entry le)
qed (auto simp: env_ok_def intro!: files intro: keepsD [OF keeps_flows(1)] keepsD [OF keeps_flows(2)]
    keepsD [OF keeps_flows(3)] keepsD [OF keeps_quarantine_write])

lemma cache_call_manifest: "cache_call h j (jc, fs) (jc', fs') \<Longrightarrow> manifest_inv h j (jc_manifest jc) \<Longrightarrow> manifest_inv h j (jc_manifest jc')"
  by (erule cache_call_cases) (auto intro: manifest_inv_add)

interpretation tampered: inv_system cache_fresh "cache_step h j" "\<lambda>s. manifest_inv h j (jc_manifest (fst s))" for h j
proof unfold_locales
  fix s t
  assume "manifest_inv h j (jc_manifest (fst s))" "cache_step h j s t"
  then show "manifest_inv h j (jc_manifest (fst t))"
    by (cases s; cases t) (auto elim!: cache_step.cases intro: cache_call_manifest)
qed (simp add: cache_fresh_def)

interpretation service: monotone_system "cache_init h" "cache_call h j" "service_inv h j" service_le for h j
proof unfold_locales
  fix s :: "JeryuCache \<times> files"
  show "cache_init h s \<Longrightarrow> service_inv h j s"
    by (cases s) (auto simp: cache_init_def service_inv_def)
  show "service_le s s" by (cases s) (simp add: service_le_def)
next
  fix s t u :: "JeryuCache \<times> files"
  assume "service_le s t" "service_le t u"
  then show "service_le s u" by (cases s; cases t; cases u) (simp add: service_le_def)
next
  fix s t
  assume inv: "service_inv h j s" and call: "cache_call h j s t"
  obtain jc fs jc' fs' where st [simp]: "s = (jc, fs)" "t = (jc', fs')" by (cases s; cases t)
  have m: "manifest_inv h j (jc_manifest jc')"
    using inv call by (auto simp: service_inv_def intro: cache_call_manifest)
  show "service_inv h j t"
    using call [unfolded st] m inv
    by (cases rule: cache_call_cases) (auto simp: service_inv_def cas_le_def manifest_add_def)
  show "service_le s t"
    using call [unfolded st] by (cases rule: cache_call_cases) (auto simp: service_le_def manifest_find_add)
qed

section \<open>Guarantees\<close>

lemma verify_cache_hit_Ok:
  assumes "verify_cache_hit env cas key d fs = (Ok report, fs')"
  shows "fs' = fs \<and> (\<exists>bytes. bt_get fs (object_path cas d) = Some bytes \<and> cv_blake3 env bytes = d)"
  using assms by (auto simp: verify_cache_hit_def fs_bind_Ok dest!: get_bytes_Ok split: if_splits)

lemma cache_restore_hit:
  assumes "cache_restore env jc request key fs = (Ok out, fs')" and "ro_hit out"
  obtains e bytes where "key_sound (cv_blake3 env) (cv_material_json env) key"
    "km_trust_tier (ck_material key) = cq_actor_tier request" "allowed (evaluate request)"
    "manifest_find (ck_digest key) (cq_layer request) (jc_manifest jc) = Some e"
    "ro_object_digest out = Some (ce_object_digest e)"
    "bt_get fs (object_path (jc_cas jc) (ce_object_digest e)) = Some bytes" "cv_blake3 env bytes = ce_object_digest e"
  using assms
  by (auto simp: cache_restore_def fs_bind_Ok Let_def key_verify_Ok missed_def dest!: verify_cache_hit_Ok
      split: option.splits if_splits)

text \<open>The JSON encoding of key material contains its trust tier.\<close>

definition names_tier :: "(CacheKeyMaterial \<Rightarrow> (string, string) result) \<Rightarrow> bool" where
  "names_tier j \<longleftrightarrow> (\<forall>m m' s. j m = Ok s \<longrightarrow> j m' = Ok s \<longrightarrow> km_trust_tier m = km_trust_tier m')"

text \<open>
  C7. A hit is authorised, whatever happens to the files of the cache between calls. The object a restore
  returns is the one of a manifest entry of this key and layer, its stored bytes have its digest, and
  the entry was granted by the policy to a request of the key's tier on this layer: on a compiled
  layer, if that request was a write or a promotion, by green protected-internal work that was
  not an agent patch. Unless two different encodings of key material have the same BLAKE3 digest, the
  entry's key has the canonical material of the restored key, so its writer is of the tier of the reader.
\<close>

theorem restored_object_authorised:
  assumes "reach cache_fresh (cache_step h j) (jc, fs)" and "env_ok h j env"
    and "names_tier j"
    and "cache_restore env jc request key fs = (Ok out, fs')" and "ro_hit out"
  shows "\<exists>e w bytes. e \<in> set (jc_manifest jc) \<and> entry_slot e = (ck_digest key, cq_layer request)
     \<and> ro_object_digest out = Some (ce_object_digest e)
     \<and> bt_get fs (object_path (jc_cas jc) (ce_object_digest e)) = Some bytes \<and> h bytes = ce_object_digest e
     \<and> granted w e
     \<and> (layer_is_compiled (cq_layer request) \<and> is_writing (cq_action w) \<longrightarrow>
          cq_actor_tier w = CvT1ProtectedInternal \<and> cq_green_protected_policy w \<and> \<not> cq_is_agent_patch w)
     \<and> ((\<exists>s s'. s \<noteq> s' \<and> h s = h s' \<and> j (normal_material (ck_material (ce_key e))) = Ok s
            \<and> j (normal_material (ck_material key)) = Ok s')
        \<or> (j (normal_material (ck_material (ce_key e))) = j (normal_material (ck_material key))
            \<and> cq_actor_tier w = cq_actor_tier request))"
proof -
  have inv: "manifest_inv h j (jc_manifest jc)" using tampered.reach_inv [OF assms(1)] by simp
  have env: "cv_blake3 env = h" "cv_material_json env = j" using assms(2) by (simp_all add: env_ok_def)
  obtain e bytes where key: "key_sound h j key" and tier: "km_trust_tier (ck_material key) = cq_actor_tier request"
    and find: "manifest_find (ck_digest key) (cq_layer request) (jc_manifest jc) = Some e"
    and out: "ro_object_digest out = Some (ce_object_digest e)"
    and stored: "bt_get fs (object_path (jc_cas jc) (ce_object_digest e)) = Some bytes" "h bytes = ce_object_digest e"
    using cache_restore_hit [OF assms(4,5)] env by metis
  note e = manifest_find_Some [OF find]
  obtain w where sound: "key_sound h j (ce_key e)" and w: "granted w e"
    using inv e by (auto simp: manifest_inv_def)
  have layer: "cq_layer w = cq_layer request" and wtier: "cq_actor_tier w = km_trust_tier (ck_material (ce_key e))"
    and "allowed (evaluate w)" using w e by (auto simp: granted_def)
  then have law: "layer_is_compiled (cq_layer request) \<and> is_writing (cq_action w) \<longrightarrow>
      cq_actor_tier w = CvT1ProtectedInternal \<and> cq_green_protected_policy w \<and> \<not> cq_is_agent_patch w"
    by (simp add: evaluate_def denials_def deny_if_def split: if_splits) blast
  obtain s s' where s: "j (normal_material (ck_material (ce_key e))) = Ok s" "ck_digest (ce_key e) = h s"
    "j (normal_material (ck_material key)) = Ok s'" "ck_digest key = h s'"
    using sound key by (auto simp: key_sound_def)
  have "s = s' \<Longrightarrow> cq_actor_tier w = cq_actor_tier request"
    using assms(3) s(1,3) wtier tier unfolding names_tier_def normal_material_def by fastforce
  moreover have "h s = h s'" using s e by simp
  ultimately show ?thesis using e out stored w law s by (fastforce simp: entry_slot_def)
qed

definition healthy :: "CacheEnv \<Rightarrow> bool" where
  "healthy env \<longleftrightarrow> (\<forall>c p. cv_io env c p = Ok ()) \<and> (\<forall>r. \<exists>s. cv_receipt_material env r = Ok s)
     \<and> (\<forall>r. \<exists>s. cv_receipt_json env r = Ok s)"

lemma healthy_receipt:
  assumes "healthy env"
  shows "\<exists>receipt fs'. cache_receipt env jc event kd od request decision fs = (Ok receipt, fs')"
proof -
  obtain receipt where "CacheReceipt_new env event kd od (cq_action request) (cq_layer request) (cq_actor_tier request) decision None
      = Ok receipt"
    using assms unfolding healthy_def CacheReceipt_new_def Let_def by (metis and_then_simps(2) map_err_simps(2))
  moreover obtain json where "cv_receipt_json env receipt = Ok json" using assms unfolding healthy_def by blast
  ultimately show ?thesis using assms
    by (auto simp: cache_receipt_def fs_bind_Ok sink_write_def fs_write_Ok healthy_def)
qed

lemma healthy_restore:
  assumes "service_inv h j (jc, fs)" and "env_ok h j env" and "healthy env" and "key_sound h j key"
    and "cq_actor_tier request = km_trust_tier (ck_material key)" and "allowed (evaluate request)"
    and "manifest_find (ck_digest key) (cq_layer request) (jc_manifest jc) = Some e"
  shows "\<exists>receipt fs' c. cache_restore env jc request key fs
      = (Ok \<lparr>ro_hit = True, ro_object_digest = Some (ce_object_digest e), ro_receipt = receipt\<rparr>, fs')
    \<and> get_bytes env (jc_cas jc) (ce_object_digest e) fs = (Ok c, fs) \<and> h c = ce_object_digest e"
proof -
  have env: "cv_blake3 env = h" "cv_material_json env = j" using assms(2) by (simp_all add: env_ok_def)
  have "e \<in> set (jc_manifest jc)" using assms(7) manifest_find_Some by blast
  then obtain c where c: "bt_get fs (object_path (jc_cas jc) (ce_object_digest e)) = Some c" "is_digest (ce_object_digest e)"
    using assms(1) by (auto simp: service_inv_def)
  then have hash: "h c = ce_object_digest e" using assms(1) by (auto simp: service_inv_def cas_ok_def)
  have get: "get_bytes env (jc_cas jc) (ce_object_digest e) fs = (Ok c, fs)"
    using assms(3) c(1) hash env by (simp add: get_bytes_def fs_exists_def healthy_def fs_read_def sys_call_def from_bytes_def)
  have key: "key_verify env key = Ok ()" using assms(4) env by (simp add: key_verify_Ok)
  have verify: "verify_cache_hit env (jc_cas jc) key (ce_object_digest e) fs
      = (Ok \<lparr>vr_key_digest = ck_digest key, vr_object_digest = ce_object_digest e, vr_verified = True, vr_false_hit = None\<rparr>, fs)"
    using key get hash env by (simp add: verify_cache_hit_def from_bytes_def)
  obtain receipt fs' where "cache_receipt env jc EvRestore (Some (ck_digest key)) (Some (ce_object_digest e)) request
      (evaluate request) fs = (Ok receipt, fs')"
    using healthy_receipt [OF assms(3)] by blast
  with verify key assms(5-7) have "cache_restore env jc request key fs
      = (Ok \<lparr>ro_hit = True, ro_object_digest = Some (ce_object_digest e), ro_receipt = receipt\<rparr>, fs')"
    by (simp add: cache_restore_def key_tier_denial_def)
  with get hash show ?thesis by blast
qed

text \<open>
  C26. What was written can be restored. After a successful write under a key and layer, in every later
  state of the run (calls of any kind, failing ones included, on files nobody else changes) a
  restore that the policy allows for this key and layer hits when the system calls succeed; the
  object it names is in the store, and reading it gives bytes of that digest. Immediately after
  the write that is the digest of the bytes written.
\<close>

theorem written_entry_restorable:
  assumes "reach (cache_init h) (cache_call h j) (jc, fs)" and "env_ok h j env"
    and "cache_write env jc request key bytes fs = (Ok (out, jc1), fs1)"
    and "(cache_call h j)\<^sup>*\<^sup>* (jc1, fs1) (jc2, fs2)" and "env_ok h j env2" and "healthy env2"
    and "cq_layer request2 = cq_layer request" and "cq_actor_tier request2 = km_trust_tier (ck_material key)"
    and "allowed (evaluate request2)"
  shows "\<exists>out2 fs3 d bytes2. cache_restore env2 jc2 request2 key fs2 = (Ok out2, fs3) \<and> ro_hit out2
     \<and> ro_object_digest out2 = Some d \<and> get_bytes env2 (jc_cas jc2) d fs2 = (Ok bytes2, fs2) \<and> h bytes2 = d
     \<and> (jc2 = jc1 \<longrightarrow> d = h bytes)"
proof -
  have step: "cache_call h j (jc, fs) (jc1, fs1)" by (rule call_write [OF assms(2,3)])
  have inv1: "service_inv h j (jc1, fs1)" using service.step_inv [OF service.reach_inv [OF assms(1)] step] .
  have inv2: "service_inv h j (jc2, fs2)" using service.steps_inv [OF assms(4) inv1] .
  obtain e where e: "jc1 = jc\<lparr>jc_manifest := manifest_add e (jc_manifest jc)\<rparr>" "ce_key e = key" "ce_layer e = cq_layer request"
    "ce_object_digest e = h bytes" and key: "key_sound h j key"
    using cache_write_Ok [OF assms(3)] assms(2) by (auto simp: env_ok_def)
  then have find1: "manifest_find (ck_digest key) (cq_layer request) (jc_manifest jc1) = Some e"
    by (simp add: manifest_find_add entry_slot_def)
  then have "manifest_find (ck_digest key) (cq_layer request) (jc_manifest jc2) \<noteq> None"
    using service.steps_rel [OF assms(4) inv1] unfolding service_le_def prod.case by blast
  then obtain e2 where find2: "manifest_find (ck_digest key) (cq_layer request) (jc_manifest jc2) = Some e2" by blast
  then obtain receipt fs3 c where "cache_restore env2 jc2 request2 key fs2
      = (Ok \<lparr>ro_hit = True, ro_object_digest = Some (ce_object_digest e2), ro_receipt = receipt\<rparr>, fs3)"
    "get_bytes env2 (jc_cas jc2) (ce_object_digest e2) fs2 = (Ok c, fs2)" "h c = ce_object_digest e2"
    using healthy_restore [OF inv2 assms(5,6) key _ assms(9)] assms(7,8) by metis
  then show ?thesis using find1 find2 e(4) by auto
qed

section \<open>A concrete cache\<close>

definition sample_blake3 :: "string \<Rightarrow> string" where
  "sample_blake3 s = hex_pad 64 (length s)"

definition sample_material_json :: "CacheKeyMaterial \<Rightarrow> (string, string) result" where
  "sample_material_json m = Ok (cv_tier_as_str (km_trust_tier m))"

definition sample_cache_env :: CacheEnv where
  "sample_cache_env = \<lparr>cv_blake3 = sample_blake3, cv_io = (\<lambda>c p. Ok ()), cv_now_ms = Some 5,
     cv_material_json = sample_material_json, cv_receipt_material = (\<lambda>r. Ok ''receipt''),
     cv_receipt_json = (\<lambda>r. Ok ''{}''), cv_receipt_of = (\<lambda>s. Err ''unreadable''), cv_record_json = (\<lambda>r. Ok ''{}'')\<rparr>"

definition sample_material :: "CvTier \<Rightarrow> CacheKeyMaterial" where
  "sample_material tier = \<lparr>km_cache_schema_version = 1, km_tenant_id = ''t'', km_repo_id_or_explicit_shared_scope = ''r'',
     km_trust_tier = tier, km_rustc_version = ''1'', km_cargo_version = ''1'', km_toolchain_channel = ''stable'',
     km_host_triple = ''x'', km_target_triple = ''x'', km_profile = ''dev'', km_feature_set = [], km_rustflags = [],
     km_linker_identity = ''lld'', km_sysroot_digest = [], km_cargo_lock_subgraph_digest = [], km_cargo_toml_digest = [],
     km_workspace_metadata_digest = [], km_crate_source_digest = [], km_build_rs_digest = [],
     km_build_rs_declared_inputs_digest = [], km_proc_macro_digest = [], km_native_deps_digest = [],
     km_env_allowlist_digest = [], km_runner_rootfs_digest = [], km_sandbox_policy_digest = []\<rparr>"

definition sample_cache_key :: "CvTier \<Rightarrow> CacheKey" where
  "sample_cache_key tier = \<lparr>ck_digest = sample_blake3 (cv_tier_as_str tier), ck_material = sample_material tier\<rparr>"

definition sample_request :: "CacheAction \<Rightarrow> CvTier \<Rightarrow> CacheRequest" where
  "sample_request action tier = \<lparr>cq_action = action, cq_layer = L3RepoCompiledCas, cq_actor_tier = tier,
     cq_source_repo_id = ''r'', cq_target_repo_id = ''r'', cq_scope = ScRepo ''t'' ''r'', cq_green_protected_policy = True,
     cq_has_explainable_fingerprint = True, cq_has_receipt = True, cq_is_release_lane = False,
     cq_is_agent_patch = (tier = CvT3AgentAuthored)\<rparr>"

definition sample_cache :: JeryuCache where
  "sample_cache = \<lparr>jc_cas = \<lparr>cas_root = [''c'']\<rparr>, jc_receipts = \<lparr>rsk_root = [''r'']\<rparr>,
     jc_quarantine = \<lparr>qs_root = [''q''], qs_cas = \<lparr>cas_root = [''q'', ''cas'']\<rparr>\<rparr>, jc_manifest = []\<rparr>"

lemma hex_digit_hexdigit: "d < 16 \<Longrightarrow> is_ascii_hexdigit (hex_digit d)"
proof -
  have "\<forall>d \<in> set [0..<16]. is_ascii_hexdigit (hex_digit d)" by code_simp
  then show "d < 16 \<Longrightarrow> is_ascii_hexdigit (hex_digit d)" by simp
qed

lemma hex_pad_hexdigits: "list_all is_ascii_hexdigit (hex_pad w n)"
  by (induction w arbitrary: n) (simp_all add: hex_digit_hexdigit)

lemma sample_env_ok: "env_ok sample_blake3 sample_material_json sample_cache_env"
  by (simp add: env_ok_def sample_cache_env_def sample_blake3_def is_digest_def hex_pad_hexdigits)

lemma sample_env_healthy: "healthy sample_cache_env"
  by (simp add: healthy_def sample_cache_env_def)

lemma sample_tier_named: "names_tier sample_material_json"
proof -
  have "cv_tier_as_str t = cv_tier_as_str t' \<Longrightarrow> t = t'" for t t' by (cases t; cases t') simp_all
  then show ?thesis by (auto simp: names_tier_def sample_material_json_def)
qed

lemma sample_key_sound: "key_sound sample_blake3 sample_material_json (sample_cache_key tier)"
proof -
  have "material_validate (sample_material tier) = Ok ()"
    by (simp add: material_validate_def required_material_def sample_material_def trim_plain plain_def ws1_def)
  then show ?thesis
    by (simp add: key_sound_def sample_cache_key_def sample_material_json_def normal_material_def)
      (simp add: sample_material_def)
qed

lemma healthy_put: "healthy env \<Longrightarrow> \<exists>fs'. put_bytes env cas bytes fs = (Ok (object_of env bytes), fs')"
  by (auto simp: put_bytes_def Let_def fs_bind_Ok fs_write_Ok fs_rename_Ok healthy_def)

lemma healthy_write:
  assumes "healthy env" and "key_sound (cv_blake3 env) (cv_material_json env) key"
    and "km_trust_tier (ck_material key) = cq_actor_tier request" and "allowed (evaluate request)"
  shows "\<exists>out jc1 fs1. cache_write env jc request key bytes fs = (Ok (out, jc1), fs1)"
proof -
  obtain fs1 where put: "put_bytes env (jc_cas jc) bytes fs = (Ok (object_of env bytes), fs1)"
    using healthy_put [OF assms(1)] by blast
  obtain receipt fs2 where "cache_receipt env jc EvWrite (Some (ck_digest key)) (Some (co_digest (object_of env bytes))) request
      (evaluate request) fs1 = (Ok receipt, fs2)"
    using healthy_receipt [OF assms(1)] by blast
  with put assms(2-4) show ?thesis
    by (simp add: cache_write_def key_verify_Ok key_tier_denial_def indexed_def)
qed

lemma sample_allowed:
  "allowed (evaluate (sample_request ActWrite CvT1ProtectedInternal))"
  "allowed (evaluate (sample_request ActRestore CvT1ProtectedInternal))"
  "allowed (evaluate (sample_request ActQuarantineWrite CvT3AgentAuthored))"
  "allowed (evaluate (sample_request ActRestore CvT3AgentAuthored))"
  by (simp_all add: evaluate_def denials_def deny_if_def sample_request_def same_repo_def is_reading_def is_writing_def)

lemma sample_writes:
  assumes "allowed (evaluate (sample_request action tier))"
  shows "\<exists>out jc1 fs1. cache_write sample_cache_env sample_cache (sample_request action tier) (sample_cache_key tier) bytes []
      = (Ok (out, jc1), fs1)"
  using healthy_write [OF sample_env_healthy, of "sample_cache_key tier" "sample_request action tier"] assms sample_key_sound
  by (simp add: sample_cache_env_def sample_cache_key_def sample_material_def sample_request_def)

lemma sample_start: "reach (cache_init sample_blake3) (cache_call sample_blake3 sample_material_json) (sample_cache, [])"
  by (rule reach_init) (simp add: cache_init_def sample_cache_def cas_ok_def)

theorem written_entry_restorable_witness:
  "\<exists>jc1 fs1 out fs3. cache_restore sample_cache_env jc1 (sample_request ActRestore CvT1ProtectedInternal)
     (sample_cache_key CvT1ProtectedInternal) fs1 = (Ok out, fs3) \<and> ro_object_digest out = Some (sample_blake3 ''bytes'')"
proof -
  obtain out jc1 fs1 where w: "cache_write sample_cache_env sample_cache (sample_request ActWrite CvT1ProtectedInternal)
      (sample_cache_key CvT1ProtectedInternal) ''bytes'' [] = (Ok (out, jc1), fs1)"
    using sample_writes [OF sample_allowed(1)] by blast
  from written_entry_restorable [OF sample_start sample_env_ok w rtranclp.rtrancl_refl sample_env_ok sample_env_healthy _ _ sample_allowed(2)]
  show ?thesis by (fastforce simp: sample_request_def sample_cache_key_def sample_material_def)
qed

text \<open>
  The gap that the first guarantee leaves. The flows evaluate the action that the request names and
  do not require it to be their own: an agent patch that calls \<open>write\<close> with the quarantine action gets
  its bytes into the compiled cache, and a later agent job restores them.
\<close>

lemma agent_patch_reaches_compiled_cache:
  "\<exists>jc1 fs1 out fs3. (cache_call sample_blake3 sample_material_json)\<^sup>*\<^sup>* (sample_cache, []) (jc1, fs1)
     \<and> cq_is_agent_patch (sample_request ActQuarantineWrite CvT3AgentAuthored)
     \<and> cache_restore sample_cache_env jc1 (sample_request ActRestore CvT3AgentAuthored) (sample_cache_key CvT3AgentAuthored) fs1
        = (Ok out, fs3) \<and> ro_hit out \<and> ro_object_digest out = Some (sample_blake3 ''bytes'')"
proof -
  obtain out jc1 fs1 where w: "cache_write sample_cache_env sample_cache (sample_request ActQuarantineWrite CvT3AgentAuthored)
      (sample_cache_key CvT3AgentAuthored) ''bytes'' [] = (Ok (out, jc1), fs1)"
    using sample_writes [OF sample_allowed(3)] by blast
  then have run: "(cache_call sample_blake3 sample_material_json)\<^sup>*\<^sup>* (sample_cache, []) (jc1, fs1)"
    by (intro r_into_rtranclp call_write [OF sample_env_ok])
  obtain e where e: "jc1 = sample_cache\<lparr>jc_manifest := manifest_add e (jc_manifest sample_cache)\<rparr>"
      "ce_key e = sample_cache_key CvT3AgentAuthored" "ce_layer e = L3RepoCompiledCas" "ce_object_digest e = sample_blake3 ''bytes''"
    using cache_write_Ok [OF w] sample_env_ok by (auto simp: env_ok_def sample_request_def)
  have "service_inv sample_blake3 sample_material_json (jc1, fs1)"
    using service.steps_inv [OF run service.reach_inv [OF sample_start]] .
  moreover have "manifest_find (ck_digest (sample_cache_key CvT3AgentAuthored)) (cq_layer (sample_request ActRestore CvT3AgentAuthored))
      (jc_manifest jc1) = Some e"
    using e by (simp add: manifest_find_add entry_slot_def sample_request_def)
  ultimately obtain receipt fs3 where "cache_restore sample_cache_env jc1 (sample_request ActRestore CvT3AgentAuthored)
      (sample_cache_key CvT3AgentAuthored) fs1
      = (Ok \<lparr>ro_hit = True, ro_object_digest = Some (ce_object_digest e), ro_receipt = receipt\<rparr>, fs3)"
    using healthy_restore [OF _ sample_env_ok sample_env_healthy sample_key_sound _ sample_allowed(4)]
    by (fastforce simp: sample_request_def sample_cache_key_def sample_material_def)
  then show ?thesis using run e(4) by (fastforce simp: sample_request_def)
qed

theorem restored_object_authorised_witness:
  "\<exists>e w. entry_slot e = (ck_digest (sample_cache_key CvT1ProtectedInternal), L3RepoCompiledCas) \<and> granted w e"
proof -
  obtain out jc1 fs1 where w: "cache_write sample_cache_env sample_cache (sample_request ActWrite CvT1ProtectedInternal)
      (sample_cache_key CvT1ProtectedInternal) ''bytes'' [] = (Ok (out, jc1), fs1)"
    using sample_writes [OF sample_allowed(1)] by blast
  have call: "cache_call sample_blake3 sample_material_json (sample_cache, []) (jc1, fs1)"
    by (rule call_write [OF sample_env_ok w])
  have "reach cache_fresh (cache_step sample_blake3 sample_material_json) (sample_cache, [])"
    by (rule reach_init) (simp add: cache_fresh_def sample_cache_def)
  from reach_step [OF this step_call [OF call]]
  have reach: "reach cache_fresh (cache_step sample_blake3 sample_material_json) (jc1, fs1)" .
  obtain e where "jc1 = sample_cache\<lparr>jc_manifest := manifest_add e (jc_manifest sample_cache)\<rparr>"
      "ce_key e = sample_cache_key CvT1ProtectedInternal" "ce_layer e = L3RepoCompiledCas"
    using cache_write_Ok [OF w] sample_env_ok by (auto simp: env_ok_def sample_request_def)
  then have "manifest_find (ck_digest (sample_cache_key CvT1ProtectedInternal))
      (cq_layer (sample_request ActRestore CvT1ProtectedInternal)) (jc_manifest jc1) = Some e"
    by (simp add: manifest_find_add entry_slot_def sample_request_def)
  then obtain receipt fs3 where "cache_restore sample_cache_env jc1 (sample_request ActRestore CvT1ProtectedInternal)
      (sample_cache_key CvT1ProtectedInternal) fs1
      = (Ok \<lparr>ro_hit = True, ro_object_digest = Some (ce_object_digest e), ro_receipt = receipt\<rparr>, fs3)"
    using healthy_restore [OF service.step_inv [OF service.reach_inv [OF sample_start] call] sample_env_ok sample_env_healthy
        sample_key_sound _ sample_allowed(2)]
    by (fastforce simp: sample_request_def sample_cache_key_def sample_material_def)
  from restored_object_authorised [OF reach sample_env_ok sample_tier_named this] show ?thesis
    by (auto simp: sample_request_def)
qed


end
