(* ===== verification/Git_Guard.thy ===== *)
theory Git_Guard
  imports Rust_Text
begin

text \<open>
  The guard around \<open>git\<close> for confined agents (\<open>jeryu-release-ops/crates/jeryu-git-guard\<close>): the
  verdict on a command line, the decisions of the subcommands that have both reading and changing
  forms, and the refusal with its repair guidance. The scanning loops advance an index over the
  arguments; here they are recursions over the remaining arguments. The characters of the messages
  outside ASCII are written as their UTF-8 bytes.
\<close>

section \<open>Refusals\<close>

record GitGuardError =
  gg_purpose :: string
  gg_reason :: string
  gg_common_fixes :: "string list"
  gg_docs_url :: string
  gg_repair_hint :: string
  gg_command :: string

datatype GitDecision = GitAllow | GitDeny GitGuardError

fun is_allowed :: "GitDecision \<Rightarrow> bool" where
  "is_allowed GitAllow \<longleftrightarrow> True"
| "is_allowed (GitDeny _) \<longleftrightarrow> False"

definition em_dash :: string where "em_dash = [CHR 0xE2, CHR 0x80, CHR 0x94]"
definition right_arrow :: string where "right_arrow = [CHR 0xE2, CHR 0x86, CHR 0x92]"

definition NETWORK_FIXES :: "string list" where
  "NETWORK_FIXES =
     [''commit locally on your branch; jeryu publishes it on export/review'',
      ''you cannot push/fetch/clone '' @ em_dash @ '' the cell has no network and jeryu mediates git'']"

definition WORKTREE_FIXES :: "string list" where
  "WORKTREE_FIXES =
     [''you get exactly one branch in one runner'',
      ''need a second line of work? ask jeryu to start another runner '' @ em_dash @ '' do not add worktrees'']"

definition INTEGRATION_FIXES :: "string list" where
  "INTEGRATION_FIXES =
     [''do not merge/rebase/cherry-pick '' @ em_dash @ '' jeryu rebases your branch on main and integrates'',
      ''just commit your work; jeryu handles integration and conflict resolution'']"

definition BRANCH_FIXES :: "string list" where
  "BRANCH_FIXES =
     [''you are pinned to your assigned branch (JERYU_BRANCH)'',
      ''do not create/delete/rename/switch branches '' @ em_dash @ '' request another runner for parallel work'']"

definition CONFIG_WRITE_FIXES :: "string list" where
  "CONFIG_WRITE_FIXES =
     [''config is read-only inside the cell (identity/options are preset by jeryu)'',
      ''aliases and credential/remote config cannot be written from inside the cell'']"

definition GLOBAL_FLAG_FIXES :: "string list" where
  "GLOBAL_FLAG_FIXES =
     [''drop the -c/--config-env/--git-dir/--work-tree/--exec-path option'',
      ''run plain git subcommands inside your workspace; jeryu controls the repo layout'']"

definition SUBCOMMAND_FIXES :: "string list" where
  "SUBCOMMAND_FIXES =
     [''only branch-local commands are allowed (status/diff/log/show/add/commit/revert/reset/restore/stash)'',
      ''if you reached here via a git alias, it is refused: aliases can run arbitrary commands'']"

definition COMMIT_VERIFY_FIXES :: "string list" where
  "COMMIT_VERIFY_FIXES =
     [''drop --no-verify/-n: the jankurai audit gate must run on every commit'',
      ''if the gate blocked you, fix the introduced caps/findings and commit again'']"

definition GitGuardError_new :: "string \<Rightarrow> string \<Rightarrow> string list \<Rightarrow> string \<Rightarrow> string \<Rightarrow> GitGuardError" where
  "GitGuardError_new purpose reason common_fixes repair_hint command =
     \<lparr>gg_purpose = purpose, gg_reason = reason, gg_common_fixes = common_fixes,
      gg_docs_url = ''docs/errors.md#git-guard'', gg_repair_hint = repair_hint, gg_command = command\<rparr>"

definition git_render :: "GitGuardError \<Rightarrow> string" where
  "git_render e =
     ''jeryu-git: refused `'' @ gg_command e @ ''` '' @ em_dash @ '' '' @ gg_reason e @ [CHR 0x0A] @ ''  why: '' @ gg_purpose e
     @ [CHR 0x0A] @ ''  fixes:'' @ [CHR 0x0A]
     @ concat (map (\<lambda>fix. ''    - '' @ fix @ [CHR 0x0A]) (gg_common_fixes e))
     @ ''  hint: '' @ gg_repair_hint e @ [CHR 0x0A] @ ''  docs: '' @ gg_docs_url e"

definition git_network :: "string \<Rightarrow> GitGuardError" where
  "git_network command = GitGuardError_new ''reach the network or another repo via git'' ''git_network_denied'' NETWORK_FIXES
     ''commit locally; jeryu publishes and integrates your branch'' command"

definition git_worktree :: "string \<Rightarrow> GitGuardError" where
  "git_worktree command = GitGuardError_new ''create an extra worktree / submodule checkout'' ''git_worktree_denied''
     WORKTREE_FIXES (''more worktrees '' @ right_arrow @ '' fire up more runners (one branch per runner)'') command"

definition git_integration :: "string \<Rightarrow> GitGuardError" where
  "git_integration command = GitGuardError_new ''rewrite history or integrate other refs'' ''git_integration_denied''
     INTEGRATION_FIXES ''just commit; jeryu rebases on main and integrates'' command"

definition git_branch :: "string \<Rightarrow> GitGuardError" where
  "git_branch command = GitGuardError_new ''create, delete, rename, or switch branches'' ''git_branch_denied''
     BRANCH_FIXES ''you are confined to one branch; request another runner for more'' command"

definition git_config_write :: "string \<Rightarrow> GitGuardError" where
  "git_config_write command = GitGuardError_new ''write git config (remote/credential/alias/identity)''
     ''git_config_write_denied'' CONFIG_WRITE_FIXES ''git config is read-only in the cell'' command"

definition git_global_flag :: "string \<Rightarrow> GitGuardError" where
  "git_global_flag command = GitGuardError_new ''use a config-injecting or repo-redirecting global flag''
     ''git_global_flag_denied'' GLOBAL_FLAG_FIXES
     ''remove the -c/--git-dir/--work-tree/--exec-path/--config-env option'' command"

definition git_subcommand :: "string \<Rightarrow> GitGuardError" where
  "git_subcommand command = GitGuardError_new ''run a git subcommand outside the branch-local allowlist''
     ''git_subcommand_denied'' SUBCOMMAND_FIXES ''use a branch-local command, or ask jeryu for the operation you need'' command"

definition git_commit_unverified :: "string \<Rightarrow> GitGuardError" where
  "git_commit_unverified command = GitGuardError_new ''skip the pre-commit jankurai audit gate''
     ''git_commit_unverified_denied'' COMMIT_VERIFY_FIXES ''remove --no-verify; resolve the audit findings instead'' command"

section \<open>Sets of subcommands\<close>

definition NETWORK_DENY :: "string list" where
  "NETWORK_DENY = [''push'', ''fetch'', ''pull'', ''clone'', ''remote'', ''ls-remote'', ''fetch-pack'', ''send-pack'',
     ''receive-pack'', ''upload-pack'', ''upload-archive'', ''daemon'', ''credential'', ''credential-cache'',
     ''credential-store'', ''credential-helper'', ''request-pull'', ''format-patch'', ''send-email'', ''imap-send'', ''p4'',
     ''svn'', ''archive'', ''http-fetch'', ''http-push'', ''remote-ext'', ''remote-fd'', ''remote-http'', ''remote-https'',
     ''remote-ftp'', ''remote-ftps'']"

definition WORKTREE_DENY :: "string list" where
  "WORKTREE_DENY = [''worktree'', ''submodule'']"

definition INTEGRATION_DENY :: "string list" where
  "INTEGRATION_DENY = [''merge'', ''rebase'', ''cherry-pick'', ''am'', ''apply'', ''revert-sequencer'', ''gc'', ''fsck'',
     ''filter-branch'', ''filter-repo'', ''replace'', ''fast-import'', ''fast-export'', ''bundle'', ''prune'', ''prune-packed'',
     ''repack'', ''pack-objects'', ''pack-refs'', ''update-ref'', ''symbolic-ref'', ''update-index'', ''write-tree'',
     ''commit-tree'', ''merge-tree'', ''read-tree'', ''reset-sequencer'']"

definition ALLOWED_LOCAL :: "string list" where
  "ALLOWED_LOCAL = [''status'', ''diff'', ''show'', ''log'', ''add'', ''revert'', ''restore'', ''rm'', ''mv'', ''reset'',
     ''stash'', ''blame'', ''grep'', ''shortlog'', ''describe'', ''rev-parse'', ''rev-list'', ''cat-file'', ''ls-files'',
     ''ls-tree'', ''show-ref'', ''for-each-ref'', ''merge-base'', ''name-rev'', ''diff-tree'', ''diff-index'',
     ''whatchanged'', ''count-objects'', ''verify-commit'', ''cherry'', ''range-diff'', ''check-ignore'', ''check-attr'',
     ''var'', ''hash-object'', ''annotate'', ''show-branch'', ''diff-files'', ''verify-tag'']"

section \<open>Subcommands with reading and changing forms\<close>

definition is_flag :: "string \<Rightarrow> bool" where
  "is_flag a \<longleftrightarrow> starts_with a ''-''"

definition CONFIG_WRITE_FLAGS :: "string list" where
  "CONFIG_WRITE_FLAGS = [''--add'', ''--unset'', ''--unset-all'', ''--replace-all'', ''--edit'', ''-e'', ''--rename-section'',
     ''--remove-section'']"

fun config_scan :: "string list \<Rightarrow> nat \<Rightarrow> nat option" where
  "config_scan [] positionals = Some positionals"
| "config_scan (a # args) positionals =
     (if a \<in> set CONFIG_WRITE_FLAGS then None
      else config_scan args (if is_flag a then positionals else positionals + 1))"

definition config_decision :: "string list \<Rightarrow> string \<Rightarrow> GitDecision" where
  "config_decision args command =
     (case config_scan args 0 of
        None \<Rightarrow> GitDeny (git_config_write command)
      | Some positionals \<Rightarrow> if positionals \<ge> 2 then GitDeny (git_config_write command) else GitAllow)"

definition BRANCH_MUTATION :: "string list" where
  "BRANCH_MUTATION = [''-d'', ''-D'', ''--delete'', ''-m'', ''-M'', ''--move'', ''-c'', ''-C'', ''--copy'', ''-f'', ''--force'',
     ''--set-upstream-to'', ''-u'', ''--unset-upstream'', ''--edit-description'']"

definition BRANCH_VALUE_FLAGS :: "string list" where
  "BRANCH_VALUE_FLAGS = [''--contains'', ''--no-contains'', ''--merged'', ''--no-merged'', ''--points-at'', ''--format'',
     ''--sort'', ''--color'', ''--abbrev'']"

fun branch_decision :: "string list \<Rightarrow> string \<Rightarrow> GitDecision" where
  "branch_decision [] command = GitAllow"
| "branch_decision [a] command =
     (if a \<in> set BRANCH_MUTATION then GitDeny (git_branch command)
      else if a \<in> set BRANCH_VALUE_FLAGS then GitAllow
      else if is_flag a then GitAllow
      else GitDeny (git_branch command))"
| "branch_decision (a # v # args) command =
     (if a \<in> set BRANCH_MUTATION then GitDeny (git_branch command)
      else if a \<in> set BRANCH_VALUE_FLAGS then branch_decision args command
      else if is_flag a then branch_decision (v # args) command
      else GitDeny (git_branch command))"

definition is_positional :: "string \<Rightarrow> bool" where
  "is_positional a \<longleftrightarrow> \<not> is_flag a \<or> a = ''-''"

definition CHECKOUT_CREATE :: "string list" where
  "CHECKOUT_CREATE = [''-b'', ''-B'', ''--orphan'', ''--detach'']"

text \<open>The loop of \<open>checkout_decision\<close>: \<open>None\<close> when a branch would be created, otherwise whether \<open>--\<close>
  ended it and the positional arguments before it.\<close>

fun checkout_scan :: "string list \<Rightarrow> (bool \<times> string list) option" where
  "checkout_scan [] = Some (False, [])"
| "checkout_scan (a # args) =
     (if a = ''--'' then Some (True, [])
      else if a \<in> set CHECKOUT_CREATE then None
      else map_option (\<lambda>(dashes, ps). (dashes, if is_positional a then a # ps else ps)) (checkout_scan args))"

definition checkout_decision :: "string list \<Rightarrow> string \<Rightarrow> string \<Rightarrow> GitDecision" where
  "checkout_decision args assigned command =
     (case checkout_scan args of
        None \<Rightarrow> GitDeny (git_branch command)
      | Some (saw_dashdash, positionals) \<Rightarrow>
          if saw_dashdash then GitAllow
          else if positionals = [] \<or> list_all (\<lambda>p. p = ''.'' \<or> p = assigned) positionals then GitAllow
          else GitDeny (git_branch command))"

definition SWITCH_CREATE :: "string list" where
  "SWITCH_CREATE = [''-c'', ''-C'', ''--create'', ''--orphan'', ''--detach'']"

definition switch_decision :: "string list \<Rightarrow> string \<Rightarrow> string \<Rightarrow> GitDecision" where
  "switch_decision args assigned command =
     (if list_ex (\<lambda>a. a \<in> set SWITCH_CREATE) args then GitDeny (git_branch command)
      else let positionals = filter is_positional args in
        if positionals = [] \<or> list_all (\<lambda>p. p = assigned) positionals then GitAllow
        else GitDeny (git_branch command))"

definition TAG_CREATE :: "string list" where
  "TAG_CREATE = [''-a'', ''--annotate'', ''-s'', ''--sign'', ''-d'', ''--delete'', ''-m'', ''--message'', ''-f'', ''--force'',
     ''-u'', ''--local-user'', ''-F'', ''--file'', ''--create-reflog'']"

definition TAG_LIST_FLAGS :: "string list" where
  "TAG_LIST_FLAGS = [''-l'', ''--list'', ''-n'', ''--contains'', ''--no-contains'', ''--points-at'', ''--merged'',
     ''--no-merged'', ''--sort'', ''--format'', ''--color'']"

definition tag_decision :: "string list \<Rightarrow> string \<Rightarrow> GitDecision" where
  "tag_decision args command =
     (if list_ex (\<lambda>a. a \<in> set TAG_CREATE) args then GitDeny (git_branch command)
      else let has_list_flag = list_ex (\<lambda>a. a \<in> set TAG_LIST_FLAGS) args;
               has_positional = list_ex (\<lambda>a. a \<notin> set TAG_LIST_FLAGS \<and> \<not> is_flag a) args in
        if has_positional \<and> \<not> has_list_flag then GitDeny (git_branch command) else GitAllow)"

definition reflog_decision :: "string list \<Rightarrow> string \<Rightarrow> GitDecision" where
  "reflog_decision args command =
     (case args of
        a # _ \<Rightarrow> if a = ''expire'' \<or> a = ''delete'' then GitDeny (git_integration command) else GitAllow
      | [] \<Rightarrow> GitAllow)"

text \<open>A commit must run its hooks: \<open>--no-verify\<close> and every cluster of short flags with an \<open>n\<close> is refused.\<close>

definition skips_hooks :: "string \<Rightarrow> bool" where
  "skips_hooks t \<longleftrightarrow> t = ''--no-verify'' \<or> (is_flag t \<and> \<not> starts_with t ''--'' \<and> CHR ''n'' \<in> set t)"

fun commit_decision :: "string list \<Rightarrow> string \<Rightarrow> GitDecision" where
  "commit_decision [] command = GitAllow"
| "commit_decision (t # rest) command =
     (if t = ''--'' then GitAllow
      else if skips_hooks t then GitDeny (git_commit_unverified command)
      else commit_decision rest command)"

section \<open>The verdict\<close>

definition render_command :: "string list \<Rightarrow> string" where
  "render_command argv = ''git'' @ concat (map (\<lambda>a. '' '' @ a) argv)"

definition DENIED_EXACT :: "string list" where
  "DENIED_EXACT = [''-c'', ''--config-env'', ''--namespace'', ''--bare'', ''--super-prefix'']"

definition DENIED_PREFIX :: "string list" where
  "DENIED_PREFIX = [''--config-env='', ''--git-dir'', ''--work-tree'', ''--exec-path='', ''--namespace='', ''--super-prefix='']"

definition is_denied_global :: "string \<Rightarrow> bool" where
  "is_denied_global token \<longleftrightarrow> token \<in> set DENIED_EXACT \<or> token = ''--git-dir'' \<or> token = ''--work-tree''
     \<or> list_ex (\<lambda>p. starts_with token p) DENIED_PREFIX"

definition global_takes_value :: "string \<Rightarrow> bool" where
  "global_takes_value token \<longleftrightarrow> token = ''-C''"

definition BENIGN_GLOBAL :: "string list" where
  "BENIGN_GLOBAL = [''--no-pager'', ''--paginate'', ''-p'', ''--no-replace-objects'', ''--literal-pathspecs'',
     ''--no-literal-pathspecs'', ''--glob-pathspecs'', ''--noglob-pathspecs'', ''--icase-pathspecs'', ''--no-optional-locks'',
     ''--html-path'', ''--man-path'', ''--info-path'', ''--exec-path'', ''--version'', ''--help'', ''-P'']"

definition is_benign_global :: "string \<Rightarrow> bool" where
  "is_benign_global token \<longleftrightarrow> token \<in> set BENIGN_GLOBAL"

text \<open>The loop over leading global options: \<open>None\<close> is a refusal, \<open>Some\<close> what follows the options.\<close>

fun skip_globals :: "string list \<Rightarrow> string list option" where
  "skip_globals [] = Some []"
| "skip_globals [t] =
     (if \<not> is_flag t then Some [t]
      else if is_denied_global t then None
      else if global_takes_value t \<or> is_benign_global t then Some []
      else None)"
| "skip_globals (t # v # argv) =
     (if \<not> is_flag t then Some (t # v # argv)
      else if is_denied_global t then None
      else if global_takes_value t then skip_globals argv
      else if is_benign_global t then skip_globals (v # argv)
      else None)"

definition subcommand_decision :: "string \<Rightarrow> string list \<Rightarrow> string \<Rightarrow> string \<Rightarrow> GitDecision" where
  "subcommand_decision subcommand rest assigned rendered =
     (if subcommand \<in> set NETWORK_DENY then GitDeny (git_network rendered)
      else if subcommand \<in> set WORKTREE_DENY then GitDeny (git_worktree rendered)
      else if subcommand \<in> set INTEGRATION_DENY then GitDeny (git_integration rendered)
      else if subcommand = ''commit'' then commit_decision rest rendered
      else if subcommand = ''config'' then config_decision rest rendered
      else if subcommand = ''branch'' then branch_decision rest rendered
      else if subcommand = ''checkout'' then checkout_decision rest assigned rendered
      else if subcommand = ''switch'' then switch_decision rest assigned rendered
      else if subcommand = ''tag'' then tag_decision rest rendered
      else if subcommand = ''reflog'' then reflog_decision rest rendered
      else if subcommand \<in> set ALLOWED_LOCAL then GitAllow
      else GitDeny (git_subcommand rendered))"

definition git_command_decision :: "string list \<Rightarrow> string \<Rightarrow> GitDecision" where
  "git_command_decision argv assigned_branch =
     (case skip_globals argv of
        None \<Rightarrow> GitDeny (git_global_flag (render_command argv))
      | Some [] \<Rightarrow> GitAllow
      | Some (subcommand # rest) \<Rightarrow> subcommand_decision subcommand rest assigned_branch (render_command argv))"

fun leading_subcommand :: "string list \<Rightarrow> string option" where
  "leading_subcommand [] = None"
| "leading_subcommand [t] = (if \<not> is_flag t then Some t else None)"
| "leading_subcommand (t # v # argv) =
     (if \<not> is_flag t then Some t
      else if global_takes_value t then leading_subcommand argv
      else leading_subcommand (v # argv))"

section \<open>The wrapper\<close>

text \<open>
  \<open>bin/jeryu-git.rs\<close>: the environment variables, the run of the audit and the start of the real git are
  parameters. \<open>Exit\<close> carries the exit code and what is printed; \<open>ExecGit\<close> replaces the process by
  the real git. The audit is run only at the point where the wrapper runs it.
\<close>

datatype WrapperOutcome = Exit int string | ExecGit string "string list"

definition DENY_EXIT_CODE :: int where "DENY_EXIT_CODE = 13"

definition required_var :: "(string \<Rightarrow> string option) \<Rightarrow> string \<Rightarrow> string option" where
  "required_var vars name = (case vars name of Some v \<Rightarrow> if trim v \<noteq> [] then Some v else None | None \<Rightarrow> None)"

definition gate_base :: "(string \<Rightarrow> string option) \<Rightarrow> string" where
  "gate_base vars = (case required_var vars ''JANKURAI_DIFF_BASE'' of Some b \<Rightarrow> b | None \<Rightarrow> ''HEAD'')"

definition refused_commit :: "string \<Rightarrow> string" where
  "refused_commit rest = ''jeryu-git: refused `git commit` '' @ em_dash @ '' '' @ rest"

definition run_commit_gate ::
  "(string \<Rightarrow> string option) \<Rightarrow> (string \<Rightarrow> string list \<Rightarrow> (bool, string) result) \<Rightarrow> WrapperOutcome option" where
  "run_commit_gate vars audit =
     (case required_var vars ''JERYU_JANKURAI_BIN'' of
        None \<Rightarrow> Some (Exit DENY_EXIT_CODE (refused_commit (''git_commit_gate_unavailable'' @ [CHR 0x0A]
          @ ''  why: the jankurai audit gate must run on every commit, but JERYU_JANKURAI_BIN is unset'' @ [CHR 0x0A]
          @ ''  hint: this is a sandbox misconfiguration; the auditor is baked into the agent image'')))
      | Some jankurai \<Rightarrow>
          (case audit jankurai [''diff-audit'', ''.'', ''--base-ref'', gate_base vars, ''--skip-proof''] of
             Inr True \<Rightarrow> None
           | Inr False \<Rightarrow> Some (Exit DENY_EXIT_CODE (refused_commit (''git_commit_audit_failed'' @ [CHR 0x0A]
               @ ''  why: this change introduces jankurai caps/hard findings (see the diff-audit output above and ''
               @ ''target/jankurai/diff/diff-score.md)'' @ [CHR 0x0A] @ ''  fixes:'' @ [CHR 0x0A]
               @ ''    - resolve the flagged findings, then commit again'' @ [CHR 0x0A]
               @ ''    - run `jankurai diff-audit . --base-ref '' @ gate_base vars @ ''` to re-check'' @ [CHR 0x0A]
               @ ''  hint: the audit gate blocks new caps before they enter the system'')))
           | Inl err \<Rightarrow> Some (Exit DENY_EXIT_CODE (refused_commit (''git_commit_gate_unavailable'' @ [CHR 0x0A]
               @ ''  why: could not run the jankurai audit gate ('' @ jankurai @ ''): '' @ err @ [CHR 0x0A]
               @ ''  hint: fail-closed; the auditor must be runnable for a commit to land'')))))"

definition jeryu_git_main :: "(string \<Rightarrow> string option) \<Rightarrow> (string \<Rightarrow> string list \<Rightarrow> (bool, string) result)
    \<Rightarrow> (string \<Rightarrow> string option) \<Rightarrow> string list \<Rightarrow> WrapperOutcome" where
  "jeryu_git_main vars audit exec_error argv =
     (case required_var vars ''JERYU_BRANCH'' of
        None \<Rightarrow> Exit 2 ''jeryu-git: missing required JERYU_BRANCH''
      | Some assigned_branch \<Rightarrow>
          (case git_command_decision argv assigned_branch of
             GitDeny error \<Rightarrow> Exit DENY_EXIT_CODE (git_render error)
           | GitAllow \<Rightarrow>
               (case (if leading_subcommand argv = Some ''commit'' then run_commit_gate vars audit else None) of
                  Some outcome \<Rightarrow> outcome
                | None \<Rightarrow>
                    (case required_var vars ''JERYU_REAL_GIT'' of
                       None \<Rightarrow> Exit 2 ''jeryu-git: missing required JERYU_REAL_GIT''
                     | Some real_git \<Rightarrow>
                         (case exec_error real_git of
                            None \<Rightarrow> ExecGit real_git argv
                          | Some err \<Rightarrow> Exit 127 (''jeryu-git: failed to exec real git ('' @ real_git @ ''): '' @ err))))))"

section \<open>What reaches git\<close>

text \<open>A denied option before the subcommand can only be the value of \<open>-C\<close>.\<close>

definition clean_globals :: "string list \<Rightarrow> bool" where
  "clean_globals g \<longleftrightarrow> (\<forall>i < length g. is_denied_global (g ! i) \<longrightarrow> 0 < i \<and> g ! (i - 1) = ''-C'')"

lemma clean_globals_Cons: "\<not> is_denied_global t \<Longrightarrow> clean_globals g \<Longrightarrow> clean_globals (t # g)"
  unfolding clean_globals_def by (auto simp: nth_Cons split: nat.splits)

lemma clean_globals_pair: "\<not> is_denied_global ''-C'' \<Longrightarrow> clean_globals g \<Longrightarrow> clean_globals (''-C'' # v # g)"
  unfolding clean_globals_def by (auto simp: nth_Cons split: nat.splits)

lemma skip_globals_split:
  "skip_globals argv = Some (sub # rest) \<Longrightarrow>
     leading_subcommand argv = Some sub \<and> \<not> is_flag sub \<and> (\<exists>g. argv = g @ sub # rest \<and> clean_globals g)"
proof (induction argv rule: skip_globals.induct)
  case (2 t)
  then show ?case by (auto simp: clean_globals_def split: if_splits)
next
  case (3 t v argv)
  show ?case
  proof (cases "is_flag t")
    case False
    with 3(3) show ?thesis by (auto simp: clean_globals_def)
  next
    case flag: True
    with 3(3) have ok: "\<not> is_denied_global t" by (auto split: if_splits)
    show ?thesis
    proof (cases "global_takes_value t")
      case True
      with 3(3) flag ok have "skip_globals argv = Some (sub # rest)" by simp
      from 3(1) [OF _ ok True this] flag obtain g where "leading_subcommand argv = Some sub" "\<not> is_flag sub"
        "argv = g @ sub # rest" "clean_globals g" by auto
      moreover have "clean_globals (t # v # g)"
        using True ok \<open>clean_globals g\<close> clean_globals_pair by (simp add: global_takes_value_def)
      ultimately show ?thesis using flag True by (metis append_Cons leading_subcommand.simps(3))
    next
      case False
      with 3(3) flag ok have benign: "is_benign_global t" and "skip_globals (v # argv) = Some (sub # rest)"
        by (auto split: if_splits)
      from 3(2) [OF _ ok False this] flag obtain g where "leading_subcommand (v # argv) = Some sub" "\<not> is_flag sub"
        "v # argv = g @ sub # rest" "clean_globals g" by auto
      then show ?thesis using flag False clean_globals_Cons [OF ok] by (metis append_Cons leading_subcommand.simps(3))
    qed
  qed
qed simp

lemma skip_globals_end: "skip_globals argv = Some [] \<Longrightarrow> leading_subcommand argv = None"
  by (induction argv rule: skip_globals.induct) (auto split: if_splits)

lemma commit_decision_Allow:
  "commit_decision rest c = GitAllow \<longleftrightarrow> (\<forall>t \<in> set (takeWhile (\<lambda>t. t \<noteq> ''--'') rest). \<not> skips_hooks t)"
  by (induction rest) auto

lemma config_scan_Some:
  "config_scan args n = Some k \<longleftrightarrow> (\<forall>a \<in> set args. a \<notin> set CONFIG_WRITE_FLAGS) \<and> k = n + length (filter (\<lambda>a. \<not> is_flag a) args)"
  by (induction args arbitrary: n) auto

lemma config_decision_Allow:
  "config_decision args c = GitAllow \<longleftrightarrow> (\<forall>a \<in> set args. a \<notin> set CONFIG_WRITE_FLAGS) \<and> length (filter (\<lambda>a. \<not> is_flag a) args) \<le> 1"
proof (cases "config_scan args 0")
  case None
  then have "\<not> (\<forall>a \<in> set args. a \<notin> set CONFIG_WRITE_FLAGS)"
    using config_scan_Some [of args 0 "length (filter (\<lambda>a. \<not> is_flag a) args)"] by auto
  then show ?thesis using None by (simp add: config_decision_def)
next
  case (Some k)
  then show ?thesis using config_scan_Some [of args 0 k] by (auto simp: config_decision_def)
qed

lemma switch_decision_Allow:
  "switch_decision args b c = GitAllow \<longleftrightarrow> (\<forall>a \<in> set args. a \<notin> set SWITCH_CREATE \<and> (is_positional a \<longrightarrow> a = b))"
  by (auto simp: switch_decision_def list_ex_iff list_all_iff Let_def filter_empty_conv)

lemma checkout_scan_Some:
  "checkout_scan args = Some (d, ps) \<longleftrightarrow>
     (\<forall>a \<in> set (takeWhile (\<lambda>t. t \<noteq> ''--'') args). a \<notin> set CHECKOUT_CREATE) \<and> (d \<longleftrightarrow> ''--'' \<in> set args)
   \<and> ps = filter is_positional (takeWhile (\<lambda>t. t \<noteq> ''--'') args)"
  by (induction args arbitrary: d ps) auto

definition creates_no_branch :: "string list \<Rightarrow> string \<Rightarrow> bool" where
  "creates_no_branch args b \<longleftrightarrow> (\<forall>a \<in> set (takeWhile (\<lambda>t. t \<noteq> ''--'') args). a \<notin> set CHECKOUT_CREATE
     \<and> (''--'' \<notin> set args \<longrightarrow> is_positional a \<longrightarrow> a = ''.'' \<or> a = b))"

lemma checkout_decision_Allow: "checkout_decision args b c = GitAllow \<Longrightarrow> creates_no_branch args b"
  by (auto simp: checkout_decision_def creates_no_branch_def checkout_scan_Some list_all_iff filter_empty_conv
      split: option.splits if_splits)

definition only_lists :: "string list \<Rightarrow> bool" where
  "only_lists args \<longleftrightarrow> (\<forall>i < length args. (is_flag (args ! i) \<and> args ! i \<notin> set BRANCH_MUTATION)
     \<or> (0 < i \<and> args ! (i - 1) \<in> set BRANCH_VALUE_FLAGS))"

lemma only_lists_Cons: "is_flag a \<Longrightarrow> a \<notin> set BRANCH_MUTATION \<Longrightarrow> only_lists args \<Longrightarrow> only_lists (a # args)"
  unfolding only_lists_def by (auto simp: nth_Cons split: nat.splits)

lemma only_lists_value:
  "a \<in> set BRANCH_VALUE_FLAGS \<Longrightarrow> a \<notin> set BRANCH_MUTATION \<Longrightarrow> is_flag a \<Longrightarrow> only_lists args \<Longrightarrow> only_lists (a # v # args)"
  unfolding only_lists_def by (auto simp: nth_Cons split: nat.splits)

lemma value_flag_is_flag: "a \<in> set BRANCH_VALUE_FLAGS \<Longrightarrow> is_flag a"
  by (auto simp: BRANCH_VALUE_FLAGS_def is_flag_def starts_with_def)

lemma branch_decision_Allow: "branch_decision args c = GitAllow \<Longrightarrow> only_lists args"
proof (induction args c rule: branch_decision.induct)
  case (2 a c)
  then show ?case by (auto simp: only_lists_def value_flag_is_flag split: if_splits)
next
  case (3 a v args c)
  then show ?case by (auto simp: value_flag_is_flag split: if_splits intro: only_lists_Cons only_lists_value)
qed (simp add: only_lists_def)

text \<open>
  What an allowed subcommand may do, written without the code's scanning: nothing outside the local
  commands; commits that run their hooks; configuration that is only read; branches that are only
  listed; switching to the assigned branch only; tags and the reflog that are only read.
\<close>

definition confined :: "string \<Rightarrow> string list \<Rightarrow> string \<Rightarrow> bool" where
  "confined sub rest b \<longleftrightarrow> sub \<notin> set NETWORK_DENY \<and> sub \<notin> set WORKTREE_DENY \<and> sub \<notin> set INTEGRATION_DENY
     \<and> (sub \<in> set ALLOWED_LOCAL
        \<or> sub = ''commit'' \<and> (\<forall>t \<in> set (takeWhile (\<lambda>t. t \<noteq> ''--'') rest). \<not> skips_hooks t)
        \<or> sub = ''config'' \<and> (\<forall>a \<in> set rest. a \<notin> set CONFIG_WRITE_FLAGS) \<and> length (filter (\<lambda>a. \<not> is_flag a) rest) \<le> 1
        \<or> sub = ''branch'' \<and> only_lists rest
        \<or> sub = ''checkout'' \<and> creates_no_branch rest b
        \<or> sub = ''switch'' \<and> (\<forall>a \<in> set rest. a \<notin> set SWITCH_CREATE \<and> (is_positional a \<longrightarrow> a = b))
        \<or> sub = ''tag'' \<and> (\<forall>a \<in> set rest. a \<notin> set TAG_CREATE)
            \<and> ((\<exists>a \<in> set rest. a \<in> set TAG_LIST_FLAGS) \<or> (\<forall>a \<in> set rest. is_flag a))
        \<or> sub = ''reflog'' \<and> take 1 rest \<noteq> [''expire''] \<and> take 1 rest \<noteq> [''delete''])"

lemma subcommand_confined: "subcommand_decision sub rest b c = GitAllow \<Longrightarrow> confined sub rest b"
  unfolding subcommand_decision_def confined_def
  by (auto simp: commit_decision_Allow config_decision_Allow switch_decision_Allow tag_decision_def reflog_decision_def
      list_ex_iff Let_def dest: branch_decision_Allow checkout_decision_Allow split: if_splits list.splits)

lemma run_commit_gate_None:
  "run_commit_gate vars audit = None \<longleftrightarrow> (\<exists>bin. required_var vars ''JERYU_JANKURAI_BIN'' = Some bin
     \<and> audit bin [''diff-audit'', ''.'', ''--base-ref'', gate_base vars, ''--skip-proof''] = Ok True)"
  by (auto simp: run_commit_gate_def split: option.splits sum.splits bool.splits)

lemma run_commit_gate_no_exec: "run_commit_gate vars audit \<noteq> Some (ExecGit program args)"
  by (simp add: run_commit_gate_def split: option.split sum.split bool.split)



text \<open>
  Two ways around the guard. A trailing \<open>--\<close> makes \<open>checkout\<close> accept any branch before it, although git
  then switches to that branch; and a flag with its value attached is not recognised as one that
  creates a branch.
\<close>

lemma checkout_guard_gaps:
  "git_command_decision [''checkout'', ''main'', ''--''] ''agent'' = GitAllow"
  "git_command_decision [''checkout'', ''-bother''] ''agent'' = GitAllow"
  "git_command_decision [''switch'', ''-cother''] ''agent'' = GitAllow"
  by code_simp+

end
