(* ===== verification/Autonomy_Model.thy ===== *)
theory Autonomy_Model
  imports Complex_Main Rust_Text Json_Value
begin

text \<open>
  The evidence gate (\<open>jeryu-intelligence/crates/jeryu-autonomy\<close>): its typed objects, the named hard-stop
  conditions and their registry, the binding of receipts, the quorum, freeze windows, the judge that
  fuses them into a verdict, and the full-auto profile that relaxes a policy.

  Times are integers (nanoseconds). The clock, the printing of floating point numbers and of times are
  the parameters \<open>AuEnv\<close>; a finite floating point number is its exact rational value. Sums of line
  counts are 32-bit words, as in a release build.
\<close>

section \<open>Objects\<close>

datatype RiskTier = R0 | R1 | R2 | R3 | R4 | R5

fun auto_merge_eligible :: "RiskTier \<Rightarrow> bool" where
  "auto_merge_eligible t \<longleftrightarrow> t = R0 \<or> t = R1 \<or> t = R2"

fun tier_human_required :: "RiskTier \<Rightarrow> bool" where
  "tier_human_required t \<longleftrightarrow> t = R3 \<or> t = R4 \<or> t = R5"

fun risk_debug :: "RiskTier \<Rightarrow> string" where
  "risk_debug R0 = ''R0''" | "risk_debug R1 = ''R1''" | "risk_debug R2 = ''R2''"
| "risk_debug R3 = ''R3''" | "risk_debug R4 = ''R4''" | "risk_debug R5 = ''R5''"

fun risk_rank :: "RiskTier \<Rightarrow> nat" where
  "risk_rank R0 = 0" | "risk_rank R1 = 1" | "risk_rank R2 = 2"
| "risk_rank R3 = 3" | "risk_rank R4 = 4" | "risk_rank R5 = 5"

datatype ReviewerRole = RoleSecurity | RoleTestIntegrity | RoleRuntime | RoleLockfile | RoleJudge
  | RoleReleaseShepherd | RoleNightwatch

fun role_debug :: "ReviewerRole \<Rightarrow> string" where
  "role_debug RoleSecurity = ''Security''" | "role_debug RoleTestIntegrity = ''TestIntegrity''"
| "role_debug RoleRuntime = ''Runtime''" | "role_debug RoleLockfile = ''Lockfile''" | "role_debug RoleJudge = ''Judge''"
| "role_debug RoleReleaseShepherd = ''ReleaseShepherd''" | "role_debug RoleNightwatch = ''Nightwatch''"

fun role_name :: "ReviewerRole \<Rightarrow> string" where
  "role_name RoleSecurity = ''security''" | "role_name RoleTestIntegrity = ''test_integrity''"
| "role_name RoleRuntime = ''runtime''" | "role_name RoleLockfile = ''lockfile''" | "role_name RoleJudge = ''judge''"
| "role_name RoleReleaseShepherd = ''release_shepherd''" | "role_name RoleNightwatch = ''nightwatch''"

datatype ReviewDecision = RdPass | RdConcern | RdBlock | RdAbstain

datatype AuSeverity = SevInfo | SevLow | SevMedium | SevHigh | SevCritical

datatype GateDecision = AllowMerge | RequireHuman | Reject

fun decision_debug :: "GateDecision \<Rightarrow> string" where
  "decision_debug AllowMerge = ''AllowMerge''" | "decision_debug RequireHuman = ''RequireHuman''"
| "decision_debug Reject = ''Reject''"

record AuSignature =
  sg_key_id :: string
  sg_algo :: string
  sg_value :: string

definition default_unsigned :: AuSignature where
  "default_unsigned = \<lparr>sg_key_id = ''unsigned'', sg_algo = ''unsigned'', sg_value = replicate 64 (CHR ''0'')\<rparr>"

datatype f64 = Finite rat | PosInfinity | NegInfinity | NotANumber

text \<open>\<open>x < -0.5\<close> on floating point numbers.\<close>

fun below_minus_half :: "f64 \<Rightarrow> bool" where
  "below_minus_half (Finite q) \<longleftrightarrow> 2 * q < - 1"
| "below_minus_half NegInfinity \<longleftrightarrow> True"
| "below_minus_half _ \<longleftrightarrow> False"

record ChangedFile =
  cf_path :: string
  cf_risk_tags :: "string list"
  cf_lines_added :: u32
  cf_lines_removed :: u32

datatype ScanOutcome = ScanPassed | ScanFailed | ScanSkipped | ScanMissing

datatype CiConclusion = CiSuccess | CiFailure | CiCancelled | CiTimedOut | CiPending | CiMissing

fun is_green :: "CiConclusion \<Rightarrow> bool" where
  "is_green c \<longleftrightarrow> c = CiSuccess"

fun conclusion_name :: "CiConclusion \<Rightarrow> string" where
  "conclusion_name CiSuccess = ''success''" | "conclusion_name CiFailure = ''failure''"
| "conclusion_name CiCancelled = ''cancelled''" | "conclusion_name CiTimedOut = ''timed_out''"
| "conclusion_name CiPending = ''pending''" | "conclusion_name CiMissing = ''missing''"

record CiCheck =
  cc_name :: string
  cc_conclusion :: CiConclusion

record TestsSection =
  ts_targeted :: "string list"
  ts_full_required :: bool
  ts_skipped :: "string list"
  ts_coverage_delta :: "f64 option"

record SecuritySection =
  ss_sast :: ScanOutcome
  ss_dependency_scan :: ScanOutcome
  ss_secret_scan :: ScanOutcome

record SupplyChainSection =
  sc_dependency_changes :: "json_value list"
  sc_external_code_sources :: "string list"
  sc_lockfile_only_change :: bool

datatype RollbackStrategy = RevertCommit | FeatureFlag | DataMigrationReverse | RedeployPrevious | ManualRollback

record RollbackSection =
  rb_strategy :: RollbackStrategy
  rb_feature_flag :: "string option"
  rb_data_migration_reversible :: "bool option"

record GateReceipt =
  gcr_id :: string
  gcr_status :: string
  gcr_detail :: string
  gcr_evidence :: "string option"

record EvidencePack =
  evp_id :: string
  evp_intent_id :: "string option"
  evp_repo :: string
  evp_source_branch :: string
  evp_target_branch :: string
  evp_head_sha :: string
  evp_base_sha :: string
  evp_policy_sha :: string
  evp_author_agent :: "string option"
  evp_risk :: RiskTier
  evp_changed_files :: "ChangedFile list"
  evp_claims :: "string list"
  evp_tests :: TestsSection
  evp_security :: SecuritySection
  evp_supply_chain :: SupplyChainSection
  evp_rollback :: RollbackSection
  evp_gate_receipts :: "GateReceipt list"
  evp_ci_status :: "CiCheck list"
  evp_evidence_digest :: string
  evp_created_at :: int
  evp_signature :: "AuSignature option"

record AuFinding =
  fg_severity :: AuSeverity
  fg_class :: string
  fg_file :: string
  fg_range :: "u32 \<times> u32"
  fg_evidence :: "string option"
  fg_recommendation :: "string option"

record TokenCounts =
  tc_prompt :: u32
  tc_completion :: u32

record AgentApprovalReceipt =
  aar_id :: string
  aar_evidence_pack_id :: string
  aar_role :: ReviewerRole
  aar_agent_id :: string
  aar_prompt_sha :: "string option"
  aar_provider :: "string option"
  aar_model :: "string option"
  aar_temperature :: "f64 option"
  aar_seed :: "u64 option"
  aar_raw_response_sha :: "string option"
  aar_head_sha :: string
  aar_policy_sha :: string
  aar_decision :: ReviewDecision
  aar_reason :: "string option"
  aar_findings :: "AuFinding list"
  aar_not_author :: bool
  aar_tokens :: TokenCounts
  aar_created_at :: int
  aar_signature :: AuSignature

record VerdictReceiptRef =
  vf_role :: ReviewerRole
  vf_agent_id :: string
  vf_receipt_digest :: string
  vf_decision :: ReviewDecision
  vf_not_author :: bool

record VibeGateVerdict =
  vv_id :: string
  vv_evidence_pack_id :: string
  vv_pull_request :: "string option"
  vv_repo :: string
  vv_target_branch :: string
  vv_head_sha :: string
  vv_policy_sha :: string
  vv_evidence_pack_digest :: string
  vv_risk :: RiskTier
  vv_hard_stops :: "string list"
  vv_required_reviews :: "ReviewerRole list"
  vv_approval_receipts :: "VerdictReceiptRef list"
  vv_decision :: GateDecision
  vv_valid_for_head_sha_only :: bool
  vv_rebind_on_train :: bool
  vv_expires_at :: int
  vv_created_at :: int
  vv_signature :: AuSignature

section \<open>Policies\<close>

record QuorumEntry =
  qe_approvals_needed :: u32
  qe_roles :: "ReviewerRole list"
  qe_human_required :: bool
  qe_fail_closed :: bool
  qe_fail_closed_without_human :: bool

record ApprovalRules =
  ar_no_self_approval :: bool
  ar_exact_sha_required :: bool
  ar_target_branch_policy_only :: bool
  ar_fail_closed_on_missing_evidence :: bool
  ar_fail_closed_on_agent_disagreement :: bool
  ar_require_distinct_agent_identities :: bool

definition ApprovalRules_default :: ApprovalRules where
  "ApprovalRules_default = \<lparr>ar_no_self_approval = True, ar_exact_sha_required = True, ar_target_branch_policy_only = True,
     ar_fail_closed_on_missing_evidence = True, ar_fail_closed_on_agent_disagreement = True,
     ar_require_distinct_agent_identities = True\<rparr>"

record HardStopEntry =
  he_name :: string
  he_reason :: "string option"

record ApprovalsPolicy =
  ap_schema :: string
  ap_invariants :: ApprovalRules
  ap_hard_stops :: "HardStopEntry list"
  ap_required_ci_lanes :: "string list"
  ap_quorum :: "RiskTier \<Rightarrow> QuorumEntry option"
  ap_verdict_ttl_minutes :: "u32 option"
  ap_re_judge_on :: "string list"

record FreezeWindow =
  fw_id :: string
  fw_name :: string
  fw_start :: int
  fw_end :: int
  fw_max_allowed_risk :: RiskTier
  fw_reason :: "string option"
  fw_allow_break_glass :: bool

record FreezeWindows =
  fz_schema :: string
  fz_enabled :: bool
  fz_windows :: "FreezeWindow list"

text \<open>The risk, release and protected-path policies are only carried along.\<close>

record PolicyBundle =
  pb_approvals :: ApprovalsPolicy
  pb_freeze :: "FreezeWindows option"

definition quorum_for :: "PolicyBundle \<Rightarrow> RiskTier \<Rightarrow> QuorumEntry option" where
  "quorum_for bundle tier = ap_quorum (pb_approvals bundle) tier"

section \<open>Hard stops\<close>

record HardStop =
  hs_name :: string
  hs_reason :: string
  hs_details :: json_value

record AuEnv =
  au_now :: int
  au_fixed2 :: "f64 \<Rightarrow> string"
  au_json_f64 :: "f64 \<Rightarrow> json_value"
  au_rfc3339 :: "int \<Rightarrow> string"

type_synonym CondFn = "AuEnv \<Rightarrow> EvidencePack \<Rightarrow> AgentApprovalReceipt list \<Rightarrow> HardStop option"

definition stop :: "string \<Rightarrow> string \<Rightarrow> json_value \<Rightarrow> HardStop" where
  "stop name reason details = \<lparr>hs_name = name, hs_reason = reason, hs_details = details\<rparr>"

definition stop_if :: "bool \<Rightarrow> HardStop \<Rightarrow> HardStop option" where
  "stop_if b h = (if b then Some h else None)"

definition json_strings :: "string list \<Rightarrow> json_value" where
  "json_strings xs = JArray (map JString xs)"

definition any_path_matches :: "EvidencePack \<Rightarrow> string list \<Rightarrow> string list \<Rightarrow> string list option" where
  "any_path_matches p exact pres =
     (let hits = map cf_path (filter (\<lambda>f. list_ex (\<lambda>e. cf_path f = e) exact
        \<or> list_ex (\<lambda>pre. starts_with (cf_path f) pre) pres) (evp_changed_files p)) in
      if hits = [] then None else Some hits)"

definition path_stop :: "string \<Rightarrow> string \<Rightarrow> string list option \<Rightarrow> HardStop option" where
  "path_stop name reason hits = map_option (\<lambda>paths. stop name reason (JObject [(''paths'', json_strings paths)])) hits"

definition cond_evidence_missing :: CondFn where
  "cond_evidence_missing env p rs =
     stop_if (evp_evidence_digest p = []) (stop ''evidence_missing'' ''evidence_pack has no digest'' JNull)"

definition cond_evidence_signature_invalid :: CondFn where
  "cond_evidence_signature_invalid env p rs =
     (case evp_signature p of
        Some s \<Rightarrow>
          if sg_algo s = ''ed25519'' then None
          else if sg_algo s = ''unsigned'' then
            Some (stop ''evidence_signature_invalid''
              ''evidence pack carries an unsigned signature; not acceptable in enforcement'' (JObject [(''algo'', JString (sg_algo s))]))
          else if sg_algo s = ''hmac-sha256-insecure'' then
            Some (stop ''evidence_signature_invalid''
              ''evidence pack signed with insecure HMAC; ed25519 required in enforcement'' (JObject [(''algo'', JString (sg_algo s))]))
          else
            Some (stop ''evidence_signature_invalid''
              (''evidence pack signed with unknown algo '' @ [CHR 0x27] @ sg_algo s @ [CHR 0x27]) (JObject [(''algo'', JString (sg_algo s))]))
      | None \<Rightarrow> Some (stop ''evidence_signature_invalid'' ''evidence pack is unsigned'' JNull))"

definition cond_secret_scan_failed :: CondFn where
  "cond_secret_scan_failed env p rs =
     stop_if (ss_secret_scan (evp_security p) = ScanFailed) (stop ''secret_scan_failed'' ''secret scan reported findings'' JNull)"

definition cond_secret_scan_missing :: CondFn where
  "cond_secret_scan_missing env p rs =
     stop_if (ss_secret_scan (evp_security p) = ScanMissing) (stop ''secret_scan_missing'' ''secret scan never ran; fail-closed'' JNull)"

definition cond_sast_failed :: CondFn where
  "cond_sast_failed env p rs = stop_if (ss_sast (evp_security p) = ScanFailed) (stop ''sast_failed'' ''SAST scan failed'' JNull)"

definition cond_dependency_scan_failed :: CondFn where
  "cond_dependency_scan_failed env p rs =
     stop_if (ss_dependency_scan (evp_security p) = ScanFailed)
       (stop ''dependency_scan_failed'' ''dependency / advisory scan failed'' JNull)"

definition SECURITY_SCANNER_CONFIG_PATHS :: "string list" where
  "SECURITY_SCANNER_CONFIG_PATHS = [''deny.toml'', ''cargo-deny.toml'', ''audit.toml'', ''.trivyignore'', ''.gitleaks.toml'',
     ''gitleaks.toml'', ''.bandit'', ''.semgrep.yml'', ''agent/security-policy.toml'']"

definition SECURITY_SCANNER_PATH_PREFIXES :: "string list" where
  "SECURITY_SCANNER_PATH_PREFIXES = [''.github/workflows/security'', ''.jeryu/ci/security'', ''agent/security-policies'']"

definition SECRET_HANDLING_PREFIXES :: "string list" where
  "SECRET_HANDLING_PREFIXES = [''secrets/'', ''src/secrets'', ''src/llm/secrets'']"

definition cond_changes_security_scanner_config :: CondFn where
  "cond_changes_security_scanner_config env p rs = path_stop ''changes_security_scanner_config''
     ''PR edits security scanner config; require elevated review''
     (any_path_matches p SECURITY_SCANNER_CONFIG_PATHS SECURITY_SCANNER_PATH_PREFIXES)"

definition cond_touches_secret_handling :: CondFn where
  "cond_touches_secret_handling env p rs = path_stop ''touches_secret_handling''
     ''PR edits secret-handling code or config; require security review''
     (any_path_matches p [''.env'', ''.env.local''] SECRET_HANDLING_PREFIXES)"

definition cond_reviewer_blocked :: CondFn where
  "cond_reviewer_blocked env p rs =
     (let blockers = filter (\<lambda>r. aar_decision r = RdBlock) rs in
      if blockers = [] then None
      else Some (stop ''reviewer_blocked'' (show_nat (length blockers) @ '' reviewer(s) issued a hard block'')
        (JObject [(''agents'', json_strings (map aar_agent_id blockers)),
          (''roles'', json_strings (map (\<lambda>r. role_name (aar_role r)) blockers))])))"

definition cond_reviewer_abstained_required :: CondFn where
  "cond_reviewer_abstained_required env p rs =
     stop_if (list_ex (\<lambda>r. aar_decision r = RdAbstain) rs) (stop ''reviewer_abstained_required''
       ''a required reviewer abstained; fail-closed unless explicit policy override'' JNull)"

definition cond_prompt_injection_suspected :: CondFn where
  "cond_prompt_injection_suspected env p rs =
     (let hits = filter (\<lambda>r. list_ex (\<lambda>f. starts_with (fg_class f) ''prompt-injection'') (aar_findings r)) rs in
      stop_if (hits \<noteq> []) (stop ''prompt_injection_suspected''
        (show_nat (length hits) @ '' reviewer(s) flagged prompt-injection-class finding'') JNull))"

definition cond_lockfile_only_change :: CondFn where
  "cond_lockfile_only_change env p rs =
     stop_if (sc_lockfile_only_change (evp_supply_chain p)) (stop ''lockfile_only_change''
       ''lockfile changed without source change (yanked-package backdoor pattern)'' JNull)"

definition cond_introduces_new_external_code_source :: CondFn where
  "cond_introduces_new_external_code_source env p rs =
     (let sources = sc_external_code_sources (evp_supply_chain p) in
      stop_if (sources \<noteq> []) (stop ''introduces_new_external_code_source''
        (show_nat (length sources) @ '' new external code source(s) declared'') (JObject [(''sources'', json_strings sources)])))"

definition LOCKFILE_BY_MANIFEST :: "(string \<times> string) list" where
  "LOCKFILE_BY_MANIFEST = [(''Cargo.lock'', ''Cargo.toml''), (''package-lock.json'', ''package.json''),
     (''yarn.lock'', ''package.json''), (''pnpm-lock.yaml'', ''package.json''), (''Pipfile.lock'', ''Pipfile''),
     (''poetry.lock'', ''pyproject.toml''), (''go.sum'', ''go.mod''), (''composer.lock'', ''composer.json''),
     (''Gemfile.lock'', ''Gemfile'')]"

definition touches_file :: "string list \<Rightarrow> string \<Rightarrow> bool" where
  "touches_file paths name \<longleftrightarrow> list_ex (\<lambda>p. p = name \<or> ends_with p (''/'' @ name)) paths"

definition orphan_lockfiles :: "EvidencePack \<Rightarrow> string list" where
  "orphan_lockfiles p =
     (let paths = map cf_path (evp_changed_files p) in
      map fst (filter (\<lambda>(lock, manifest). touches_file paths lock \<and> \<not> touches_file paths manifest) LOCKFILE_BY_MANIFEST))"

text \<open>The \<open>Debug\<close> form of a list of strings without escapes.\<close>

definition debug_strings :: "string list \<Rightarrow> string" where
  "debug_strings xs = ''['' @ join '', '' (map (\<lambda>x. [CHR 0x22] @ x @ [CHR 0x22]) xs) @ '']''"

definition cond_lockfile_diff_without_manifest_diff :: CondFn where
  "cond_lockfile_diff_without_manifest_diff env p rs =
     (let orphans = orphan_lockfiles p in
      stop_if (orphans \<noteq> []) (stop ''lockfile_diff_without_manifest_diff''
        (''lockfile(s) '' @ debug_strings orphans
          @ '' changed without matching manifest; classic yanked-package backdoor pattern'')
        (JObject [(''lockfiles'', json_strings orphans)])))"

definition TEST_PATH_SUBSTRINGS :: "string list" where
  "TEST_PATH_SUBSTRINGS = [''/tests/'', ''/test/'', ''/__tests__/'', ''/spec/'', ''.test.'', ''_test.'', ''.spec.'', ''_spec.'']"

definition is_test_path :: "string \<Rightarrow> bool" where
  "is_test_path p \<longleftrightarrow> list_ex (\<lambda>s. str_contains p s) TEST_PATH_SUBSTRINGS"

definition cond_removes_or_weakens_tests :: CondFn where
  "cond_removes_or_weakens_tests env p rs =
     (let deletions = filter (\<lambda>f. is_test_path (cf_path f) \<and> cf_lines_removed f > cf_lines_added f) (evp_changed_files p);
          total_removed = sum_list (map (\<lambda>f. cf_lines_removed f - cf_lines_added f) deletions) in
      if deletions = [] then None
      else if length deletions < 2 \<and> total_removed < 20 then None
      else Some (stop ''removes_or_weakens_tests''
        (show_nat (length deletions) @ '' test file(s) lost a net '' @ show_word total_removed
          @ '' line(s); fail-closed without an explicit test-integrity reviewer pass'')
        (JObject [(''net_lines_removed'', JNumber (show_word total_removed)), (''paths'', json_strings (map cf_path deletions))])))"

definition cond_coverage_threshold_lowered :: CondFn where
  "cond_coverage_threshold_lowered env p rs =
     (case ts_coverage_delta (evp_tests p) of
        None \<Rightarrow> None
      | Some delta \<Rightarrow> stop_if (below_minus_half delta) (stop ''coverage_threshold_lowered''
          (''coverage dropped '' @ au_fixed2 env delta @ ''pp on this change'') (JObject [(''coverage_delta'', au_json_f64 env delta)])))"

definition is_snapshot :: "string \<Rightarrow> bool" where
  "is_snapshot path \<longleftrightarrow> str_contains path ''__snapshots__/'' \<or> str_contains path ''/snapshots/'' \<or> ends_with path ''.snap''
     \<or> ends_with path ''.snap.json'' \<or> ends_with path ''.snap.new''"

definition cond_snapshot_mass_replacement :: CondFn where
  "cond_snapshot_mass_replacement env p rs =
     (let snaps = filter (\<lambda>f. is_snapshot (cf_path f)) (evp_changed_files p);
          snap_lines = foldl (\<lambda>acc f. sat_add acc (cf_lines_added f + cf_lines_removed f)) 0 snaps in
      if snap_lines < 200 then None
      else Some (stop ''snapshot_mass_replacement''
        (show_nat (length snaps) @ '' snapshot file(s) changed by '' @ show_word snap_lines
          @ '' line(s); needs explicit rendered-diff justification'')
        (JObject [(''lines'', JNumber (show_word snap_lines)), (''paths'', json_strings (map cf_path snaps))])))"

definition RELEASE_DEPLOY_POLICY_PATHS :: "string list" where
  "RELEASE_DEPLOY_POLICY_PATHS = [''.jeryu/autonomy/policies/release.yml'', ''.jeryu/autonomy/policies/freeze.yml'',
     ''agent/proof-lanes.toml'', ''proof-lanes.toml'', ''Justfile'']"

definition RELEASE_DEPLOY_PATH_PREFIXES :: "string list" where
  "RELEASE_DEPLOY_PATH_PREFIXES = [''.github/workflows/release'', ''.github/workflows/deploy'', ''.jeryu/ci/'', ''ops/ci/'',
     ''deploy/'', ''infra/'', ''k8s/'', ''helm/'', ''terraform/'']"

definition PROMPT_OR_JUDGE_PREFIXES :: "string list" where
  "PROMPT_OR_JUDGE_PREFIXES = [''.jeryu/autonomy/prompts/'', ''.jeryu/autonomy/agents/'',
     ''.jeryu/autonomy/policies/approvals.yml'', ''.jeryu/autonomy/policies/risk.yml'',
     ''.jeryu/autonomy/policies/protected-paths.yml'']"

definition cond_changes_release_or_deploy_policy :: CondFn where
  "cond_changes_release_or_deploy_policy env p rs = path_stop ''changes_release_or_deploy_policy''
     ''PR edits release/deploy policy or infra; require elevated review''
     (any_path_matches p RELEASE_DEPLOY_POLICY_PATHS RELEASE_DEPLOY_PATH_PREFIXES)"

definition cond_changes_agent_prompts_or_judge_policy :: CondFn where
  "cond_changes_agent_prompts_or_judge_policy env p rs = path_stop ''changes_agent_prompts_or_judge_policy''
     ''PR edits agent prompts or judge policy; require elevated review''
     (any_path_matches p [] PROMPT_OR_JUDGE_PREFIXES)"

definition cond_externally_supplied :: CondFn where
  "cond_externally_supplied env p rs = None"

definition cond_missing_required_ci_check :: CondFn where
  "cond_missing_required_ci_check env p rs = None"

definition cond_failed_required_ci_check :: CondFn where
  "cond_failed_required_ci_check env p rs = None"

definition MISSING_REQUIRED_CI_CHECK :: string where
  "MISSING_REQUIRED_CI_CHECK = ''missing_required_ci_check''"

definition FAILED_REQUIRED_CI_CHECK :: string where
  "FAILED_REQUIRED_CI_CHECK = ''failed_required_ci_check''"

section \<open>The registry\<close>

definition registry :: "(string \<times> CondFn) list" where
  "registry =
     [(''evidence_missing'', cond_evidence_missing), (''evidence_signature_invalid'', cond_evidence_signature_invalid),
      (''secret_scan_failed'', cond_secret_scan_failed), (''secret_scan_missing'', cond_secret_scan_missing),
      (''sast_failed'', cond_sast_failed), (''dependency_scan_failed'', cond_dependency_scan_failed),
      (''reviewer_blocked'', cond_reviewer_blocked), (''reviewer_abstained_required'', cond_reviewer_abstained_required),
      (''lockfile_only_change'', cond_lockfile_only_change), (''prompt_injection_suspected'', cond_prompt_injection_suspected),
      (MISSING_REQUIRED_CI_CHECK, cond_missing_required_ci_check), (FAILED_REQUIRED_CI_CHECK, cond_failed_required_ci_check),
      (''coverage_threshold_lowered'', cond_coverage_threshold_lowered),
      (''snapshot_mass_replacement'', cond_snapshot_mass_replacement),
      (''sha_drift'', cond_externally_supplied), (''policy_sha_drift'', cond_externally_supplied),
      (''missing_required_review_role'', cond_externally_supplied), (''missing_evidence_pack'', cond_externally_supplied),
      (''codeowners_not_satisfied'', cond_externally_supplied), (''freeze_window_active'', cond_externally_supplied),
      (''budget_exceeded'', cond_externally_supplied), (''training_use_required_but_disallowed'', cond_externally_supplied),
      (''judge_signature_invalid'', cond_externally_supplied),
      (''changes_security_scanner_config'', cond_changes_security_scanner_config),
      (''changes_release_or_deploy_policy'', cond_changes_release_or_deploy_policy),
      (''changes_agent_prompts_or_judge_policy'', cond_changes_agent_prompts_or_judge_policy),
      (''touches_secret_handling'', cond_touches_secret_handling), (''destructive_database_change'', cond_externally_supplied),
      (''removes_or_weakens_tests'', cond_removes_or_weakens_tests),
      (''introduces_new_external_code_source'', cond_introduces_new_external_code_source),
      (''lockfile_diff_without_manifest_diff'', cond_lockfile_diff_without_manifest_diff),
      (''dependency_count_delta_gte_5'', cond_externally_supplied), (''all_files_have_targeted_tests'', cond_externally_supplied),
      (''release_artifact_unsigned'', cond_externally_supplied), (''release_sbom_missing'', cond_externally_supplied),
      (''release_provenance_missing'', cond_externally_supplied), (''rollback_drill_failed'', cond_externally_supplied)]"

definition registry_lookup :: "string \<Rightarrow> CondFn option" where
  "registry_lookup name = map_of registry name"

definition unknown_condition :: "string \<Rightarrow> HardStop" where
  "unknown_condition name = stop (''unknown_condition:'' @ name)
     ''policy references a condition not in the registry; fail-closed'' JNull"

fun registry_evaluate :: "AuEnv \<Rightarrow> string list \<Rightarrow> EvidencePack \<Rightarrow> AgentApprovalReceipt list \<Rightarrow> HardStop list" where
  "registry_evaluate env [] p rs = []"
| "registry_evaluate env (name # names) p rs =
     (case registry_lookup name of
        Some c \<Rightarrow> (case c env p rs of Some h \<Rightarrow> h # registry_evaluate env names p rs | None \<Rightarrow> registry_evaluate env names p rs)
      | None \<Rightarrow> unknown_condition name # registry_evaluate env names p rs)"

definition conclusion_for :: "CiCheck list \<Rightarrow> string \<Rightarrow> CiCheck option" where
  "conclusion_for ci lane = find (\<lambda>c. cc_name c = lane) ci"

definition ci_details :: "string \<Rightarrow> CiConclusion \<Rightarrow> json_value" where
  "ci_details lane c = JObject [(''conclusion'', JString (conclusion_name c)), (''lane'', JString lane)]"

definition ci_stop :: "EvidencePack \<Rightarrow> string \<Rightarrow> HardStop option" where
  "ci_stop p lane =
     (case conclusion_for (evp_ci_status p) lane of
        None \<Rightarrow> Some (stop MISSING_REQUIRED_CI_CHECK
          (''required CI lane '' @ [CHR 0x27] @ lane @ [CHR 0x27] @ '' is absent from ci_status; fail-closed'') (ci_details lane CiMissing))
      | Some check \<Rightarrow>
          stop_if (\<not> is_green (cc_conclusion check)) (stop FAILED_REQUIRED_CI_CHECK
            (''required CI lane '' @ [CHR 0x27] @ lane @ [CHR 0x27] @ '' is not green (conclusion is not success)'')
            (ci_details lane (cc_conclusion check))))"

definition ci_hard_stops :: "EvidencePack \<Rightarrow> string list \<Rightarrow> HardStop list" where
  "ci_hard_stops p lanes = List.map_filter (ci_stop p) lanes"

section \<open>Binding\<close>

datatype ShaBindError = HeadMismatch string string | PolicyMismatch string string | PackIdMismatch string string

definition verify_sha_binding :: "EvidencePack \<Rightarrow> AgentApprovalReceipt \<Rightarrow> (unit, ShaBindError) result" where
  "verify_sha_binding p r =
     (if aar_evidence_pack_id r \<noteq> evp_id p then Err (PackIdMismatch (aar_evidence_pack_id r) (evp_id p))
      else if aar_head_sha r \<noteq> evp_head_sha p then Err (HeadMismatch (aar_head_sha r) (evp_head_sha p))
      else if aar_policy_sha r \<noteq> evp_policy_sha p then Err (PolicyMismatch (aar_policy_sha r) (evp_policy_sha p))
      else Ok ())"

section \<open>Quorum\<close>

datatype QuorumDecision = QdMet | QdInsufficient | QdVetoed | QdHumanRequired

record QuorumOutcome =
  qo_decision :: QuorumDecision
  qo_passing_roles :: "ReviewerRole list"
  qo_blocking_roles :: "ReviewerRole list"
  qo_missing_roles :: "ReviewerRole list"
  qo_abstaining_roles :: "ReviewerRole list"
  qo_reason :: string

text \<open>\<open>retain\<close> with a set of identities already seen: the first receipt of an agent stays.\<close>

fun keep_first :: "string list \<Rightarrow> AgentApprovalReceipt list \<Rightarrow> AgentApprovalReceipt list" where
  "keep_first seen [] = []"
| "keep_first seen (r # rs) =
     (if aar_agent_id r \<in> set seen then keep_first seen rs else r # keep_first (aar_agent_id r # seen) rs)"

definition without_author :: "string option \<Rightarrow> AgentApprovalReceipt list \<Rightarrow> AgentApprovalReceipt list" where
  "without_author author rs =
     filter (\<lambda>r. (case author of Some a \<Rightarrow> aar_agent_id r \<noteq> a | None \<Rightarrow> True) \<and> aar_not_author r) rs"

definition counted_receipts :: "ApprovalRules \<Rightarrow> string option \<Rightarrow> AgentApprovalReceipt list \<Rightarrow> AgentApprovalReceipt list" where
  "counted_receipts rules author rs =
     (let others = (if ar_no_self_approval rules then without_author author rs else rs) in
      if ar_require_distinct_agent_identities rules then keep_first [] others else others)"

definition roles_with :: "ReviewDecision \<Rightarrow> AgentApprovalReceipt list \<Rightarrow> ReviewerRole list" where
  "roles_with d rs = map aar_role (filter (\<lambda>r. aar_decision r = d) rs)"

definition debug_roles :: "ReviewerRole list \<Rightarrow> string" where
  "debug_roles rs = ''['' @ join '', '' (map role_debug rs) @ '']''"

definition evaluate_quorum ::
  "RiskTier \<Rightarrow> AgentApprovalReceipt list \<Rightarrow> ApprovalsPolicy \<Rightarrow> string option \<Rightarrow> QuorumOutcome" where
  "evaluate_quorum risk receipts policy author =
     (case ap_quorum policy risk of
        None \<Rightarrow> \<lparr>qo_decision = QdHumanRequired, qo_passing_roles = [], qo_blocking_roles = [], qo_missing_roles = [],
          qo_abstaining_roles = [], qo_reason = ''missing quorum policy for '' @ risk_debug risk @ ''; failing closed''\<rparr>
      | Some entry \<Rightarrow>
          let counted = counted_receipts (ap_invariants policy) author receipts;
              blocking = roles_with RdBlock counted;
              abstaining = roles_with RdAbstain counted;
              passing = roles_with RdPass counted;
              missing = filter (\<lambda>req. req \<notin> set passing) (qe_roles entry) in
          if blocking \<noteq> [] then
            \<lparr>qo_decision = QdVetoed, qo_passing_roles = [], qo_blocking_roles = blocking, qo_missing_roles = [],
             qo_abstaining_roles = [], qo_reason = ''one or more reviewers issued a hard block''\<rparr>
          else if missing \<noteq> [] \<or> length passing < unat (qe_approvals_needed entry) then
            \<lparr>qo_decision = QdInsufficient, qo_passing_roles = passing, qo_blocking_roles = blocking, qo_missing_roles = missing,
             qo_abstaining_roles = abstaining, qo_reason = ''needed '' @ show_word (qe_approvals_needed entry) @ '' approvals (roles ''
               @ debug_roles (qe_roles entry) @ ''); got '' @ show_nat (length passing)\<rparr>
          else if qe_human_required entry then
            \<lparr>qo_decision = QdHumanRequired, qo_passing_roles = passing, qo_blocking_roles = blocking, qo_missing_roles = missing,
             qo_abstaining_roles = abstaining, qo_reason = ''policy requires human approval at this tier''\<rparr>
          else
            \<lparr>qo_decision = QdMet, qo_passing_roles = passing, qo_blocking_roles = blocking, qo_missing_roles = missing,
             qo_abstaining_roles = abstaining, qo_reason = ''all required reviewers approved; quorum reached''\<rparr>)"

section \<open>Freeze windows\<close>

definition active_at :: "FreezeWindows \<Rightarrow> int \<Rightarrow> FreezeWindow option" where
  "active_at fz now = (if \<not> fz_enabled fz then None else find (\<lambda>w. fw_start w \<le> now \<and> now < fw_end w) (fz_windows fz))"

definition freeze_check :: "AuEnv \<Rightarrow> FreezeWindows \<Rightarrow> RiskTier \<Rightarrow> int \<Rightarrow> HardStop option" where
  "freeze_check env fz risk now =
     (case active_at fz now of
        None \<Rightarrow> None
      | Some w \<Rightarrow>
          if risk_rank risk \<le> risk_rank (fw_max_allowed_risk w) then None
          else Some (stop ''freeze_window_active''
            (''freeze window '' @ [CHR 0x27] @ fw_name w @ [CHR 0x27] @ '' active until '' @ au_rfc3339 env (fw_end w)
              @ ''; max allowed risk is '' @ risk_debug (fw_max_allowed_risk w) @ '', change is '' @ risk_debug risk
              @ (case fw_reason w of Some extra \<Rightarrow> '' ('' @ extra @ '')'' | None \<Rightarrow> []))
            (JObject [(''allow_break_glass'', JBool (fw_allow_break_glass w)), (''change_risk'', JString (risk_debug risk)),
              (''end'', JString (au_rfc3339 env (fw_end w))), (''max_allowed_risk'', JString (risk_debug (fw_max_allowed_risk w))),
              (''window_id'', JString (fw_id w)), (''window_name'', JString (fw_name w))])))"

section \<open>The judge\<close>

record JudgeInputs =
  ji_pack :: EvidencePack
  ji_receipts :: "AgentApprovalReceipt list"
  ji_policy :: PolicyBundle
  ji_repo :: string
  ji_target_branch :: string
  ji_pull_request :: "string option"
  ji_author_agent :: "string option"
  ji_external_hard_stops :: "HardStop list"

definition JudgeInputs_new ::
  "EvidencePack \<Rightarrow> AgentApprovalReceipt list \<Rightarrow> PolicyBundle \<Rightarrow> string \<Rightarrow> string \<Rightarrow> JudgeInputs" where
  "JudgeInputs_new pack receipts policy repo target =
     \<lparr>ji_pack = pack, ji_receipts = receipts, ji_policy = policy, ji_repo = repo, ji_target_branch = target,
      ji_pull_request = None, ji_author_agent = None, ji_external_hard_stops = []\<rparr>"

record JudgeOutcome =
  jo_verdict :: VibeGateVerdict
  jo_dropped_receipts :: "string list"

definition hex_upper_digit :: "nat \<Rightarrow> char" where
  "hex_upper_digit d = (if d < 10 then char_of (48 + d) else char_of (55 + d))"

fun show_hex_upper :: "nat \<Rightarrow> string" where
  "show_hex_upper n = (if n < 16 then [hex_upper_digit n] else show_hex_upper (n div 16) @ [hex_upper_digit (n mod 16)])"

declare show_hex_upper.simps [simp del]

definition pad_left :: "nat \<Rightarrow> string \<Rightarrow> string" where
  "pad_left w s = replicate (w - length s) (CHR ''0'') @ s"

text \<open>\<open>timestamp_millis() as u64\<close>: negative times wrap.\<close>

definition millis_u64 :: "int \<Rightarrow> u64" where
  "millis_u64 now = word_of_int (now div 1000000)"

definition mint_id :: "string \<Rightarrow> int \<Rightarrow> string \<Rightarrow> string" where
  "mint_id pfx now head_sha =
     (let ts_hex = pad_left 13 (show_hex_upper (unat (millis_u64 now)));
          tail = map to_ascii_uppercase (take 13 (filter is_ascii_alphanumeric (rev head_sha)));
          s = pfx @ ts_hex @ tail in
      take 30 (s @ replicate (30 - length s) (CHR ''0'')))"

definition mint_verdict_id :: "int \<Rightarrow> string \<Rightarrow> string" where
  "mint_verdict_id now head_sha = mint_id ''vgv_'' now head_sha"

definition bound_receipts :: "JudgeInputs \<Rightarrow> AgentApprovalReceipt list" where
  "bound_receipts i = filter (\<lambda>r. verify_sha_binding (ji_pack i) r = Ok ()) (ji_receipts i)"

definition judge_hits :: "AuEnv \<Rightarrow> JudgeInputs \<Rightarrow> HardStop list" where
  "judge_hits env i =
     registry_evaluate env (map he_name (ap_hard_stops (pb_approvals (ji_policy i)))) (ji_pack i) (bound_receipts i)
   @ ci_hard_stops (ji_pack i) (ap_required_ci_lanes (pb_approvals (ji_policy i)))
   @ ji_external_hard_stops i"

definition receipt_ref :: "AgentApprovalReceipt \<Rightarrow> VerdictReceiptRef" where
  "receipt_ref r = \<lparr>vf_role = aar_role r, vf_agent_id = aar_agent_id r,
     vf_receipt_digest = (case aar_raw_response_sha r of Some d \<Rightarrow> d | None \<Rightarrow> ''sha256:0''),
     vf_decision = aar_decision r, vf_not_author = aar_not_author r\<rparr>"

definition gate_verdict :: "AuEnv \<Rightarrow> JudgeInputs \<Rightarrow> string list \<Rightarrow> GateDecision \<Rightarrow> VibeGateVerdict" where
  "gate_verdict env i hard_stops decision =
     (let p = ji_pack i; now = au_now env; approvals = pb_approvals (ji_policy i);
          ttl = (case ap_verdict_ttl_minutes approvals of Some m \<Rightarrow> uint m | None \<Rightarrow> 60) in
      \<lparr>vv_id = mint_verdict_id now (evp_head_sha p), vv_evidence_pack_id = evp_id p, vv_pull_request = ji_pull_request i,
       vv_repo = ji_repo i, vv_target_branch = ji_target_branch i, vv_head_sha = evp_head_sha p, vv_policy_sha = evp_policy_sha p,
       vv_evidence_pack_digest = evp_evidence_digest p, vv_risk = evp_risk p, vv_hard_stops = hard_stops,
       vv_required_reviews = (case quorum_for (ji_policy i) (evp_risk p) of Some q \<Rightarrow> qe_roles q | None \<Rightarrow> []),
       vv_approval_receipts = map receipt_ref (bound_receipts i), vv_decision = decision, vv_valid_for_head_sha_only = True,
       vv_rebind_on_train = True, vv_expires_at = now + ttl * 60000000000, vv_created_at = now, vv_signature = default_unsigned\<rparr>)"

fun gate_of_quorum :: "QuorumDecision \<Rightarrow> GateDecision" where
  "gate_of_quorum QdMet = AllowMerge"
| "gate_of_quorum QdHumanRequired = RequireHuman"
| "gate_of_quorum QdInsufficient = RequireHuman"
| "gate_of_quorum QdVetoed = Reject"

definition judge :: "AuEnv \<Rightarrow> JudgeInputs \<Rightarrow> JudgeOutcome" where
  "judge env i =
     (let dropped = map aar_id (filter (\<lambda>r. verify_sha_binding (ji_pack i) r \<noteq> Ok ()) (ji_receipts i));
          hits = judge_hits env i in
      if hits \<noteq> [] then \<lparr>jo_verdict = gate_verdict env i (map hs_name hits) Reject, jo_dropped_receipts = dropped\<rparr>
      else
        let outcome = evaluate_quorum (evp_risk (ji_pack i)) (bound_receipts i) (pb_approvals (ji_policy i)) (ji_author_agent i) in
        \<lparr>jo_verdict = gate_verdict env i [] (gate_of_quorum (qo_decision outcome)), jo_dropped_receipts = dropped\<rparr>)"

section \<open>Full auto\<close>

definition FULL_AUTO_SCHEMA :: string where "FULL_AUTO_SCHEMA = ''vibegate.full_auto_profile.v1''"

definition FULL_AUTO_MAX_AUTO_TIER :: RiskTier where "FULL_AUTO_MAX_AUTO_TIER = R4"

datatype FullAutoError = FullAutoParse string | FullAutoSchemaMismatch string | R5NotFailClosed | FullAutoUnknownTier string
  | MissingR5Floor

record FullAutoDescriptor =
  fd_schema :: string
  fd_enabled :: bool
  fd_max_auto_tier :: RiskTier
  fd_reason :: "string option"

record FullAutoProfile =
  fp_descriptor :: FullAutoDescriptor
  fp_bundle :: PolicyBundle

definition full_auto_validate :: "FullAutoProfile \<Rightarrow> (unit, FullAutoError) result" where
  "full_auto_validate p =
     (if fd_schema (fp_descriptor p) \<noteq> FULL_AUTO_SCHEMA then Err (FullAutoSchemaMismatch (fd_schema (fp_descriptor p)))
      else if fd_max_auto_tier (fp_descriptor p) = R5 then Err R5NotFailClosed
      else (case quorum_for (fp_bundle p) R5 of
              Some q \<Rightarrow> if qe_human_required q then Ok () else Err MissingR5Floor
            | None \<Rightarrow> Err MissingR5Floor))"

definition with_descriptor :: "FullAutoDescriptor \<Rightarrow> PolicyBundle \<Rightarrow> (FullAutoProfile, FullAutoError) result" where
  "with_descriptor d bundle =
     (let p = \<lparr>fp_descriptor = d, fp_bundle = bundle\<rparr> in and_then (full_auto_validate p) (\<lambda>_. Ok p))"

definition FullAutoProfile_new :: "PolicyBundle \<Rightarrow> (FullAutoProfile, FullAutoError) result" where
  "FullAutoProfile_new bundle = with_descriptor \<lparr>fd_schema = FULL_AUTO_SCHEMA, fd_enabled = True,
     fd_max_auto_tier = FULL_AUTO_MAX_AUTO_TIER, fd_reason = None\<rparr> bundle"

definition tier_auto_merge_eligible :: "FullAutoProfile \<Rightarrow> RiskTier \<Rightarrow> bool" where
  "tier_auto_merge_eligible p tier =
     (if \<not> fd_enabled (fp_descriptor p) then auto_merge_eligible tier
      else if tier = R5 then False
      else risk_rank tier \<le> risk_rank (fd_max_auto_tier (fp_descriptor p)))"

definition relax_entry :: "FullAutoDescriptor \<Rightarrow> RiskTier \<Rightarrow> QuorumEntry \<Rightarrow> QuorumEntry" where
  "relax_entry d tier entry =
     (if tier = R5 then entry
      else if risk_rank tier \<le> risk_rank (fd_max_auto_tier d)
      then entry\<lparr>qe_human_required := False, qe_fail_closed_without_human := False\<rparr>
      else entry)"

definition full_auto_apply :: "FullAutoProfile \<Rightarrow> PolicyBundle" where
  "full_auto_apply p =
     (let bundle = fp_bundle p in
      if \<not> fd_enabled (fp_descriptor p) then bundle
      else bundle\<lparr>pb_approvals := (pb_approvals bundle)\<lparr>ap_quorum :=
        (\<lambda>tier. map_option (relax_entry (fp_descriptor p) tier) (ap_quorum (pb_approvals bundle) tier))\<rparr>\<rparr>)"

fun full_auto_resolve :: "FullAutoProfile \<Rightarrow> RiskTier \<Rightarrow> GateDecision \<Rightarrow> GateDecision" where
  "full_auto_resolve p tier Reject = Reject"
| "full_auto_resolve p tier RequireHuman = RequireHuman"
| "full_auto_resolve p tier AllowMerge = (if tier_auto_merge_eligible p tier then AllowMerge else RequireHuman)"

end
