(* ===== verification/Autonomy_Gate.thy ===== *)
theory Autonomy_Gate
  imports Autonomy_Model
begin

text \<open>
  What the gate promises of a verdict. \<open>AllowMerge\<close> is only reached when every configured hard stop is a
  known condition that does not fire, every required CI lane is green, and a quorum of distinct agents
  other than the author passed exactly this pack, head and policy; the full-auto profile lifts the human
  requirement and nothing else, and never at the top tier.
\<close>

section \<open>Counted receipts\<close>

definition gate_approvers :: "JudgeInputs \<Rightarrow> AgentApprovalReceipt list" where
  "gate_approvers i = filter (\<lambda>r. aar_decision r = RdPass)
     (counted_receipts (ap_invariants (pb_approvals (ji_policy i))) (ji_author_agent i) (bound_receipts i))"

lemma keep_first_subset: "set (keep_first seen rs) \<subseteq> set rs"
  by (induction seen rs rule: keep_first.induct) auto

lemma keep_first_unseen: "r \<in> set (keep_first seen rs) \<Longrightarrow> aar_agent_id r \<notin> set seen"
  by (induction seen rs rule: keep_first.induct) (auto split: if_splits)

lemma keep_first_distinct: "distinct (map aar_agent_id (keep_first seen rs))"
  by (induction seen rs rule: keep_first.induct) (auto dest: keep_first_unseen)

lemma counted_subset: "set (counted_receipts rules author rs) \<subseteq> set rs"
  using keep_first_subset [of "[]" rs] keep_first_subset [of "[]" "without_author author rs"]
  by (auto simp: counted_receipts_def without_author_def Let_def)

lemma counted_distinct:
  "ar_require_distinct_agent_identities rules \<Longrightarrow> distinct (map aar_agent_id (counted_receipts rules author rs))"
  by (simp add: counted_receipts_def Let_def keep_first_distinct)

lemma counted_not_author:
  "ar_no_self_approval rules \<Longrightarrow> r \<in> set (counted_receipts rules author rs) \<Longrightarrow>
   Some (aar_agent_id r) \<noteq> author \<and> aar_not_author r"
  using keep_first_subset [of "[]" "without_author author rs"]
  by (auto simp: counted_receipts_def without_author_def Let_def split: option.splits if_splits)

lemma bound_receipt:
  "r \<in> set (bound_receipts i) \<longleftrightarrow> r \<in> set (ji_receipts i) \<and> aar_evidence_pack_id r = evp_id (ji_pack i)
     \<and> aar_head_sha r = evp_head_sha (ji_pack i) \<and> aar_policy_sha r = evp_policy_sha (ji_pack i)"
  by (auto simp: bound_receipts_def verify_sha_binding_def split: if_splits)

lemma distinct_filter_map: "distinct (map f xs) \<Longrightarrow> distinct (map f (filter P xs))"
  by (induction xs) auto

section \<open>Quorum and stops\<close>

lemma evaluate_quorum_met:
  "qo_decision (evaluate_quorum risk rs policy author) = QdMet \<longleftrightarrow>
     (\<exists>q. ap_quorum policy risk = Some q \<and> \<not> qe_human_required q
        \<and> (\<forall>r\<in>set (counted_receipts (ap_invariants policy) author rs). aar_decision r \<noteq> RdBlock)
        \<and> set (qe_roles q) \<subseteq> set (roles_with RdPass (counted_receipts (ap_invariants policy) author rs))
        \<and> unat (qe_approvals_needed q) \<le> length (roles_with RdPass (counted_receipts (ap_invariants policy) author rs)))"
  by (cases "ap_quorum policy risk")
     (auto simp: evaluate_quorum_def Let_def roles_with_def filter_empty_conv image_iff subset_iff not_less)

lemma evaluate_quorum_vetoed:
  "qo_decision (evaluate_quorum risk rs policy author) = QdVetoed \<longleftrightarrow>
     ap_quorum policy risk \<noteq> None
   \<and> (\<exists>r\<in>set (counted_receipts (ap_invariants policy) author rs). aar_decision r = RdBlock)"
  by (cases "ap_quorum policy risk")
     (auto simp: evaluate_quorum_def Let_def roles_with_def filter_empty_conv)

lemma registry_evaluate_clear:
  "registry_evaluate env names p rs = [] \<longleftrightarrow>
     (\<forall>name\<in>set names. \<exists>c. registry_lookup name = Some c \<and> c env p rs = None)"
  by (induction names) (auto split: option.splits)

lemma ci_hard_stops_clear:
  "ci_hard_stops p lanes = [] \<longleftrightarrow>
     (\<forall>lane\<in>set lanes. \<exists>c. conclusion_for (evp_ci_status p) lane = Some c \<and> cc_conclusion c = CiSuccess)"
  by (induction lanes)
     (auto simp: ci_hard_stops_def map_filter_simps ci_stop_def stop_if_def split: option.splits if_splits)

lemma judge_decision:
  "vv_decision (jo_verdict (judge env i)) =
     (if judge_hits env i \<noteq> [] then Reject
      else gate_of_quorum (qo_decision (evaluate_quorum (evp_risk (ji_pack i)) (bound_receipts i)
        (pb_approvals (ji_policy i)) (ji_author_agent i))))"
  by (simp add: judge_def gate_verdict_def Let_def)

lemma gate_of_quorum_allow: "gate_of_quorum d = AllowMerge \<longleftrightarrow> d = QdMet"
  by (cases d) auto

lemma gate_of_quorum_reject: "gate_of_quorum d = Reject \<longleftrightarrow> d = QdVetoed"
  by (cases d) auto

lemma length_roles_with: "length (roles_with d rs) = length (filter (\<lambda>r. aar_decision r = d) rs)"
  by (simp add: roles_with_def)

lemma judge_allows:
  "vv_decision (jo_verdict (judge env i)) = AllowMerge \<longleftrightarrow> judge_hits env i = []
     \<and> qo_decision (evaluate_quorum (evp_risk (ji_pack i)) (bound_receipts i) (pb_approvals (ji_policy i)) (ji_author_agent i)) = QdMet"
  by (simp add: judge_decision gate_of_quorum_allow)

section \<open>A sample gate\<close>

definition sample_gate_env :: AuEnv where
  "sample_gate_env = \<lparr>au_now = 0, au_fixed2 = (\<lambda>_. []), au_json_f64 = (\<lambda>_. JNull), au_rfc3339 = (\<lambda>_. [])\<rparr>"

definition sample_gate_sig :: AuSignature where
  "sample_gate_sig = \<lparr>sg_key_id = ''k'', sg_algo = ''ed25519'', sg_value = ''00''\<rparr>"

definition sample_gate_pack :: "RiskTier \<Rightarrow> EvidencePack" where
  "sample_gate_pack tier = \<lparr>evp_id = ''evp_1'', evp_intent_id = None, evp_repo = ''o/r'', evp_source_branch = ''f'', evp_target_branch = ''main'',
     evp_head_sha = ''h1'', evp_base_sha = ''b1'', evp_policy_sha = ''p1'', evp_author_agent = Some ''alice'', evp_risk = tier,
     evp_changed_files = [\<lparr>cf_path = ''src/a.rs'', cf_risk_tags = [], cf_lines_added = 3, cf_lines_removed = 1\<rparr>], evp_claims = [],
     evp_tests = \<lparr>ts_targeted = [], ts_full_required = False, ts_skipped = [], ts_coverage_delta = None\<rparr>,
     evp_security = \<lparr>ss_sast = ScanPassed, ss_dependency_scan = ScanPassed, ss_secret_scan = ScanPassed\<rparr>,
     evp_supply_chain = \<lparr>sc_dependency_changes = [], sc_external_code_sources = [], sc_lockfile_only_change = False\<rparr>,
     evp_rollback = \<lparr>rb_strategy = RevertCommit, rb_feature_flag = None, rb_data_migration_reversible = None\<rparr>,
     evp_gate_receipts = [], evp_ci_status = [\<lparr>cc_name = ''fast'', cc_conclusion = CiSuccess\<rparr>], evp_evidence_digest = ''sha256:d'',
     evp_created_at = 0, evp_signature = Some sample_gate_sig\<rparr>"

definition sample_gate_receipt :: "string \<Rightarrow> ReviewerRole \<Rightarrow> string \<Rightarrow> AgentApprovalReceipt" where
  "sample_gate_receipt agent role head = \<lparr>aar_id = agent, aar_evidence_pack_id = ''evp_1'', aar_role = role, aar_agent_id = agent,
     aar_prompt_sha = None, aar_provider = None, aar_model = None, aar_temperature = None, aar_seed = None,
     aar_raw_response_sha = None, aar_head_sha = head, aar_policy_sha = ''p1'', aar_decision = RdPass, aar_reason = None,
     aar_findings = [], aar_not_author = True, aar_tokens = \<lparr>tc_prompt = 0, tc_completion = 0\<rparr>, aar_created_at = 0,
     aar_signature = sample_gate_sig\<rparr>"

definition sample_gate_entry :: "bool \<Rightarrow> QuorumEntry" where
  "sample_gate_entry human = \<lparr>qe_approvals_needed = 2, qe_roles = [RoleSecurity, RoleRuntime], qe_human_required = human,
     qe_fail_closed = True, qe_fail_closed_without_human = human\<rparr>"

definition sample_gate_policy :: PolicyBundle where
  "sample_gate_policy = \<lparr>pb_approvals = \<lparr>ap_schema = ''v1'', ap_invariants = ApprovalRules_default,
     ap_hard_stops = [\<lparr>he_name = ''evidence_missing'', he_reason = None\<rparr>, \<lparr>he_name = ''evidence_signature_invalid'', he_reason = None\<rparr>],
     ap_required_ci_lanes = [''fast''], ap_quorum = (\<lambda>tier. Some (sample_gate_entry (tier_human_required tier))),
     ap_verdict_ttl_minutes = None, ap_re_judge_on = []\<rparr>, pb_freeze = None\<rparr>"

definition sample_gate_inputs :: "RiskTier \<Rightarrow> JudgeInputs" where
  "sample_gate_inputs tier = (JudgeInputs_new (sample_gate_pack tier)
     [sample_gate_receipt ''bob'' RoleSecurity ''h1'', sample_gate_receipt ''carol'' RoleRuntime ''h1'',
      sample_gate_receipt ''dave'' RoleRuntime ''h0''] sample_gate_policy ''o/r'' ''main'')\<lparr>ji_author_agent := Some ''alice''\<rparr>"

definition sample_gate_profile :: FullAutoProfile where
  "sample_gate_profile = \<lparr>fp_descriptor = \<lparr>fd_schema = FULL_AUTO_SCHEMA, fd_enabled = True,
     fd_max_auto_tier = FULL_AUTO_MAX_AUTO_TIER, fd_reason = None\<rparr>, fp_bundle = sample_gate_policy\<rparr>"

lemmas sample_gate_defs = sample_gate_env_def sample_gate_sig_def sample_gate_pack_def sample_gate_receipt_def
  sample_gate_entry_def sample_gate_policy_def sample_gate_inputs_def JudgeInputs_new_def ApprovalRules_default_def

lemma sample_gate_hits: "judge_hits sample_gate_env (sample_gate_inputs tier) = []"
  by (simp add: judge_hits_def registry_evaluate_clear ci_hard_stops_clear sample_gate_defs registry_lookup_def registry_def
      cond_evidence_missing_def cond_evidence_signature_invalid_def stop_if_def conclusion_for_def)

lemma sample_gate_counted:
  "counted_receipts (ap_invariants (pb_approvals (ji_policy (sample_gate_inputs tier)))) (ji_author_agent (sample_gate_inputs tier))
     (bound_receipts (sample_gate_inputs tier))
   = [sample_gate_receipt ''bob'' RoleSecurity ''h1'', sample_gate_receipt ''carol'' RoleRuntime ''h1'']"
  by (simp add: counted_receipts_def bound_receipts_def without_author_def verify_sha_binding_def sample_gate_defs)

lemma sample_gate_allows: "vv_decision (jo_verdict (judge sample_gate_env (sample_gate_inputs R2))) = AllowMerge"
proof -
  have "ap_quorum (pb_approvals (ji_policy (sample_gate_inputs R2))) R2 = Some (sample_gate_entry False)"
    by (simp add: sample_gate_inputs_def JudgeInputs_new_def sample_gate_policy_def)
  moreover have "evp_risk (ji_pack (sample_gate_inputs R2)) = R2"
    by (simp add: sample_gate_inputs_def JudgeInputs_new_def sample_gate_pack_def)
  ultimately show ?thesis
    by (simp add: judge_allows sample_gate_hits evaluate_quorum_met sample_gate_counted roles_with_def)
       (simp add: sample_gate_entry_def sample_gate_receipt_def)
qed

section \<open>An allowed merge\<close>

text \<open>
  C6. A verdict allows a merge only on full evidence. If the approvals policy forbids self-approval and
  requires distinct identities, then an \<open>AllowMerge\<close> verdict means: every configured hard stop is a
  condition of the registry and does not fire on this pack, every required CI lane has a check that
  succeeded, no external stop was raised, the tier has a quorum entry that asks for no human, every
  required role passed, and at least the required number of pairwise distinct agents passed, none of them
  the author, with receipts for exactly this pack, head commit and policy.
\<close>

theorem allow_merge_grounded:
  assumes allow: "vv_decision (jo_verdict (judge env i)) = AllowMerge"
    and self: "ar_no_self_approval (ap_invariants (pb_approvals (ji_policy i)))"
    and idents: "ar_require_distinct_agent_identities (ap_invariants (pb_approvals (ji_policy i)))"
  shows "(\<forall>h\<in>set (ap_hard_stops (pb_approvals (ji_policy i))).
            \<exists>c. registry_lookup (he_name h) = Some c \<and> c env (ji_pack i) (bound_receipts i) = None)
    \<and> (\<forall>lane\<in>set (ap_required_ci_lanes (pb_approvals (ji_policy i))).
            \<exists>c. conclusion_for (evp_ci_status (ji_pack i)) lane = Some c \<and> cc_conclusion c = CiSuccess)
    \<and> ji_external_hard_stops i = []
    \<and> (\<exists>q. quorum_for (ji_policy i) (evp_risk (ji_pack i)) = Some q \<and> \<not> qe_human_required q
          \<and> set (qe_roles q) \<subseteq> aar_role ` set (gate_approvers i)
          \<and> unat (qe_approvals_needed q) \<le> card (aar_agent_id ` set (gate_approvers i)))
    \<and> (\<forall>r\<in>set (gate_approvers i). r \<in> set (ji_receipts i) \<and> aar_decision r = RdPass
          \<and> Some (aar_agent_id r) \<noteq> ji_author_agent i \<and> aar_not_author r
          \<and> aar_evidence_pack_id r = evp_id (ji_pack i) \<and> aar_head_sha r = evp_head_sha (ji_pack i)
          \<and> aar_policy_sha r = evp_policy_sha (ji_pack i))"
proof -
  let ?counted = "counted_receipts (ap_invariants (pb_approvals (ji_policy i))) (ji_author_agent i) (bound_receipts i)"
  have clear: "judge_hits env i = []"
    and met: "qo_decision (evaluate_quorum (evp_risk (ji_pack i)) (bound_receipts i) (pb_approvals (ji_policy i)) (ji_author_agent i)) = QdMet"
    using allow by (simp_all add: judge_allows)
  obtain q where q: "quorum_for (ji_policy i) (evp_risk (ji_pack i)) = Some q" "\<not> qe_human_required q"
      "set (qe_roles q) \<subseteq> set (roles_with RdPass ?counted)"
      "unat (qe_approvals_needed q) \<le> length (roles_with RdPass ?counted)"
    using met by (auto simp: evaluate_quorum_met quorum_for_def)
  have "distinct (map aar_agent_id (gate_approvers i))"
    unfolding gate_approvers_def by (intro distinct_filter_map counted_distinct idents)
  then have "card (aar_agent_id ` set (gate_approvers i)) = length (gate_approvers i)"
    using distinct_card [of "map aar_agent_id (gate_approvers i)"] by simp
  then have quorum: "unat (qe_approvals_needed q) \<le> card (aar_agent_id ` set (gate_approvers i))"
    using q(4) by (simp add: gate_approvers_def length_roles_with)
  have roles: "set (qe_roles q) \<subseteq> aar_role ` set (gate_approvers i)"
    using q(3) by (simp add: gate_approvers_def roles_with_def)
  have each: "r \<in> set (bound_receipts i)" "aar_decision r = RdPass" "Some (aar_agent_id r) \<noteq> ji_author_agent i"
      "aar_not_author r" if "r \<in> set (gate_approvers i)" for r
    using that counted_subset counted_not_author [OF self] by (auto simp: gate_approvers_def)
  show ?thesis
    using clear q(1,2) quorum roles each
    by (auto simp: judge_hits_def registry_evaluate_clear ci_hard_stops_clear bound_receipt)
qed

theorem allow_merge_grounded_witness:
  "\<exists>q. quorum_for (ji_policy (sample_gate_inputs R2)) (evp_risk (ji_pack (sample_gate_inputs R2))) = Some q
     \<and> unat (qe_approvals_needed q) \<le> card (aar_agent_id ` set (gate_approvers (sample_gate_inputs R2)))"
proof -
  have "ar_no_self_approval (ap_invariants (pb_approvals (ji_policy (sample_gate_inputs R2))))"
    "ar_require_distinct_agent_identities (ap_invariants (pb_approvals (ji_policy (sample_gate_inputs R2))))"
    by (simp_all add: sample_gate_defs)
  then show ?thesis using allow_merge_grounded [OF sample_gate_allows] by blast
qed

section \<open>Full auto\<close>

lemma relaxed_quorum:
  "quorum_for (full_auto_apply p) tier =
     map_option (\<lambda>q. if fd_enabled (fp_descriptor p) then relax_entry (fp_descriptor p) tier q else q) (quorum_for (fp_bundle p) tier)"
  by (simp add: quorum_for_def full_auto_apply_def Let_def option.map_ident)

lemma relaxed_rest:
  "ap_invariants (pb_approvals (full_auto_apply p)) = ap_invariants (pb_approvals (fp_bundle p))"
  "ap_hard_stops (pb_approvals (full_auto_apply p)) = ap_hard_stops (pb_approvals (fp_bundle p))"
  "ap_required_ci_lanes (pb_approvals (full_auto_apply p)) = ap_required_ci_lanes (pb_approvals (fp_bundle p))"
  by (simp_all add: full_auto_apply_def Let_def)

lemma relax_entry_rest:
  "qe_roles (relax_entry d tier q) = qe_roles q"
  "qe_approvals_needed (relax_entry d tier q) = qe_approvals_needed q"
  "qe_human_required (relax_entry d tier q) \<Longrightarrow> qe_human_required q"
  by (auto simp: relax_entry_def split: if_splits)

lemma relax_entry_top: "relax_entry d R5 q = q"
  by (simp add: relax_entry_def)

lemma judge_hits_policy:
  assumes "ap_hard_stops (pb_approvals b) = ap_hard_stops (pb_approvals (ji_policy i))"
    and "ap_required_ci_lanes (pb_approvals b) = ap_required_ci_lanes (pb_approvals (ji_policy i))"
  shows "judge_hits env (i\<lparr>ji_policy := b\<rparr>) = judge_hits env i"
  using assms by (simp add: judge_hits_def bound_receipts_def)

lemma bound_receipts_policy [simp]: "bound_receipts (i\<lparr>ji_policy := b\<rparr>) = bound_receipts i"
  by (simp add: bound_receipts_def)

lemma validated_top_tier:
  "full_auto_validate p = Ok () \<Longrightarrow> \<exists>q. quorum_for (fp_bundle p) R5 = Some q \<and> qe_human_required q"
  by (auto simp: full_auto_validate_def split: if_splits option.splits)

lemma full_auto_veto:
  "qo_decision (evaluate_quorum risk rs (pb_approvals (full_auto_apply p)) author) = QdVetoed \<longleftrightarrow>
   qo_decision (evaluate_quorum risk rs (pb_approvals (fp_bundle p)) author) = QdVetoed"
  using relaxed_quorum [of p risk] by (auto simp: evaluate_quorum_vetoed relaxed_rest quorum_for_def)

lemma full_auto_met:
  assumes "qo_decision (evaluate_quorum risk rs (pb_approvals (fp_bundle p)) author) = QdMet"
  shows "qo_decision (evaluate_quorum risk rs (pb_approvals (full_auto_apply p)) author) = QdMet"
proof -
  obtain q where q: "ap_quorum (pb_approvals (fp_bundle p)) risk = Some q"
    using assms by (auto simp: evaluate_quorum_met)
  then have "ap_quorum (pb_approvals (full_auto_apply p)) risk =
      Some (if fd_enabled (fp_descriptor p) then relax_entry (fp_descriptor p) risk q else q)"
    using relaxed_quorum [of p risk] by (simp add: quorum_for_def)
  then show ?thesis
    using assms q relax_entry_rest by (auto simp: evaluate_quorum_met relaxed_rest)
qed



end
