(* ===== verification/Autonomy_Stores.thy ===== *)
theory Autonomy_Stores
  imports Autonomy_Gate Reachability
begin

text \<open>
  The stateful half of the evidence gate: signatures (\<open>jeryu-release-ops/crates/jeryu-signing\<close>), the launch
  ledger, the verdict store, the kill bell, the triggers that make a verdict stale, and the service that
  judges a pull request again (\<open>jeryu-intelligence/crates/jeryu-autonomy\<close>).

  The hash, the hex codec and the ed25519 functions, the JSON text of an entry and the evidence source are
  parameters. A ledger row holds the serialised entry, whose type is a parameter too.
\<close>

section \<open>Signatures\<close>

record Crypto =
  cr_sha256 :: "string \<Rightarrow> string"
  cr_hex_encode :: "string \<Rightarrow> string"
  cr_hex_decode :: "string \<Rightarrow> (string, string) result"
  cr_ed_sign :: "string \<Rightarrow> string \<Rightarrow> string"
  cr_ed_public :: "string \<Rightarrow> string"
  cr_ed_point :: "string \<Rightarrow> (unit, string) result"
  cr_ed_verify :: "string \<Rightarrow> string \<Rightarrow> string \<Rightarrow> bool"

record HmacKey =
  hk_key_id :: string
  hk_secret :: string

definition hmac_sign :: "Crypto \<Rightarrow> HmacKey \<Rightarrow> string \<Rightarrow> AuSignature" where
  "hmac_sign cr k body = \<lparr>sg_key_id = hk_key_id k, sg_algo = ''hmac-sha256-insecure'',
     sg_value = cr_hex_encode cr (cr_sha256 cr (hk_secret k @ body @ hk_secret k))\<rparr>"

definition hmac_verify :: "Crypto \<Rightarrow> HmacKey \<Rightarrow> string \<Rightarrow> AuSignature \<Rightarrow> bool" where
  "hmac_verify cr k body s =
     (if sg_algo s \<noteq> ''hmac-sha256-insecure'' \<or> sg_key_id s \<noteq> hk_key_id k then False
      else sg_value (hmac_sign cr k body) = sg_value s)"

definition sha256_digest :: "Crypto \<Rightarrow> string \<Rightarrow> string" where
  "sha256_digest cr bytes = ''sha256:'' @ cr_hex_encode cr (cr_sha256 cr bytes)"

record EdSigningKey =
  ek_key_id :: string
  ek_seed :: string

record EdVerifier =
  ev_key_id :: string
  ev_point :: string

definition from_seed :: "string \<Rightarrow> string \<Rightarrow> EdSigningKey" where
  "from_seed key_id seed = \<lparr>ek_key_id = key_id, ek_seed = seed\<rparr>"

definition sign_raw :: "Crypto \<Rightarrow> EdSigningKey \<Rightarrow> string \<Rightarrow> AuSignature" where
  "sign_raw cr k body = \<lparr>sg_key_id = ek_key_id k, sg_algo = ''ed25519'',
     sg_value = cr_hex_encode cr (cr_ed_sign cr (ek_seed k) body)\<rparr>"

definition public_key_hex :: "Crypto \<Rightarrow> EdSigningKey \<Rightarrow> string" where
  "public_key_hex cr k = cr_hex_encode cr (cr_ed_public cr (ek_seed k))"

definition verifier :: "Crypto \<Rightarrow> EdSigningKey \<Rightarrow> EdVerifier" where
  "verifier cr k = \<lparr>ev_key_id = ek_key_id k, ev_point = cr_ed_public cr (ek_seed k)\<rparr>"

definition from_public_key_hex :: "Crypto \<Rightarrow> string \<Rightarrow> string \<Rightarrow> (EdVerifier, string) result" where
  "from_public_key_hex cr key_id hex_str =
     (case cr_hex_decode cr (trim hex_str) of
        Err e \<Rightarrow> Err (''hex decode: '' @ e)
      | Ok bytes \<Rightarrow>
          if length bytes \<noteq> 32 then Err ''public key must be 32 bytes''
          else (case cr_ed_point cr bytes of
                  Err e \<Rightarrow> Err (''vk decode: '' @ e)
                | Ok _ \<Rightarrow> Ok \<lparr>ev_key_id = key_id, ev_point = bytes\<rparr>))"

definition ed_verify :: "Crypto \<Rightarrow> EdVerifier \<Rightarrow> string \<Rightarrow> AuSignature \<Rightarrow> bool" where
  "ed_verify cr v body s =
     (if sg_algo s \<noteq> ''ed25519'' then False
      else if sg_key_id s \<noteq> ev_key_id v then False
      else (case cr_hex_decode cr (sg_value s) of
              Err _ \<Rightarrow> False
            | Ok bytes \<Rightarrow> if length bytes \<noteq> 64 then False else cr_ed_verify cr (ev_point v) body bytes))"

text \<open>What the ed25519 and hex libraries document.\<close>

definition crypto_laws :: "Crypto \<Rightarrow> bool" where
  "crypto_laws cr \<longleftrightarrow> (\<forall>b. cr_hex_decode cr (cr_hex_encode cr b) = Ok b)
     \<and> (\<forall>seed body. length (cr_ed_sign cr seed body) = 64)
     \<and> (\<forall>seed. length (cr_ed_public cr seed) = 32 \<and> cr_ed_point cr (cr_ed_public cr seed) = Ok ()
          \<and> trim (cr_hex_encode cr (cr_ed_public cr seed)) = cr_hex_encode cr (cr_ed_public cr seed))
     \<and> (\<forall>seed body. cr_ed_verify cr (cr_ed_public cr seed) body (cr_ed_sign cr seed body))"

lemma signed_verifies:
  assumes "crypto_laws cr"
  shows "ed_verify cr (verifier cr k) body (sign_raw cr k body)"
    and "from_public_key_hex cr (ek_key_id k) (public_key_hex cr k) = Ok (verifier cr k)"
  using assms
  by (simp_all add: crypto_laws_def ed_verify_def sign_raw_def verifier_def from_public_key_hex_def public_key_hex_def)

lemma other_algorithms_fail:
  "\<not> ed_verify cr v body (hmac_sign cr k b)" "\<not> hmac_verify cr k body (sign_raw cr e b)"
  "\<not> ed_verify cr v body default_unsigned" "\<not> hmac_verify cr k body default_unsigned"
  by (simp_all add: ed_verify_def hmac_sign_def hmac_verify_def sign_raw_def default_unsigned_def)

section \<open>Evidence digests\<close>

definition serialize_for_digest :: "(EvidencePack \<Rightarrow> string) \<Rightarrow> EvidencePack \<Rightarrow> string" where
  "serialize_for_digest json p = json (p\<lparr>evp_evidence_digest := [], evp_signature := None\<rparr>)"

definition verify_evidence_digest :: "Crypto \<Rightarrow> (EvidencePack \<Rightarrow> string) \<Rightarrow> EvidencePack \<Rightarrow> bool" where
  "verify_evidence_digest cr json p \<longleftrightarrow> sha256_digest cr (serialize_for_digest json p) = evp_evidence_digest p"

definition mint_evp_id :: "int \<Rightarrow> string \<Rightarrow> string" where
  "mint_evp_id now head_sha = mint_id ''evp_'' now head_sha"

text \<open>The inputs of a pack are the pack without its identifier, digest, time and signature.\<close>

definition build_evidence_pack :: "Crypto \<Rightarrow> (EvidencePack \<Rightarrow> string) \<Rightarrow> int \<Rightarrow> EvidencePack \<Rightarrow> EvidencePack" where
  "build_evidence_pack cr json now inp =
     (let pack = inp\<lparr>evp_id := mint_evp_id now (evp_head_sha inp),
            evp_changed_files := sort_key cf_path (evp_changed_files inp),
            evp_evidence_digest := [], evp_created_at := now, evp_signature := None\<rparr> in
      pack\<lparr>evp_evidence_digest := sha256_digest cr (serialize_for_digest json pack)\<rparr>)"

lemma built_pack_verifies: "verify_evidence_digest cr json (build_evidence_pack cr json now inp)"
  by (simp add: build_evidence_pack_def verify_evidence_digest_def serialize_for_digest_def Let_def)

lemma signature_keeps_digest:
  "verify_evidence_digest cr json (p\<lparr>evp_signature := s\<rparr>) = verify_evidence_digest cr json p"
  by (simp add: verify_evidence_digest_def serialize_for_digest_def)


section \<open>The launch ledger\<close>

datatype LedgerKind = IntentDeclared | LeaseIssued | LkLeaseExpired | EvidencePackCreated | ReviewStarted
  | ReviewCompleted | VerdictIssued | MergePassportIssued | MergePassportConsumed | MergePassportInvalidated
  | ReleasePassportIssued | DeploymentStarted | DeploymentPromoted | RollbackInitiated | RollbackCompleted
  | HumanEscalationRequested | HumanDecisionRecorded | WebhookReceived | AutonomyPackEditProposed | AutonomyPackEditMerged
  | KillBellEngaged | KillBellResumed

fun kind_to_str :: "LedgerKind \<Rightarrow> string" where
  "kind_to_str IntentDeclared = ''intent_declared''"
| "kind_to_str LeaseIssued = ''lease_issued''"
| "kind_to_str LkLeaseExpired = ''lease_expired''"
| "kind_to_str EvidencePackCreated = ''evidence_pack_created''"
| "kind_to_str ReviewStarted = ''review_started''"
| "kind_to_str ReviewCompleted = ''review_completed''"
| "kind_to_str VerdictIssued = ''verdict_issued''"
| "kind_to_str MergePassportIssued = ''merge_passport_issued''"
| "kind_to_str MergePassportConsumed = ''merge_passport_consumed''"
| "kind_to_str MergePassportInvalidated = ''merge_passport_invalidated''"
| "kind_to_str ReleasePassportIssued = ''release_passport_issued''"
| "kind_to_str DeploymentStarted = ''deployment_started''"
| "kind_to_str DeploymentPromoted = ''deployment_promoted''"
| "kind_to_str RollbackInitiated = ''rollback_initiated''"
| "kind_to_str RollbackCompleted = ''rollback_completed''"
| "kind_to_str HumanEscalationRequested = ''human_escalation_requested''"
| "kind_to_str HumanDecisionRecorded = ''human_decision_recorded''"
| "kind_to_str WebhookReceived = ''webhook_received''"
| "kind_to_str AutonomyPackEditProposed = ''autonomy_pack_edit_proposed''"
| "kind_to_str AutonomyPackEditMerged = ''autonomy_pack_edit_merged''"
| "kind_to_str KillBellEngaged = ''kill_bell_engaged''"
| "kind_to_str KillBellResumed = ''kill_bell_resumed''"

definition ALL_KINDS :: "LedgerKind list" where
  "ALL_KINDS = [IntentDeclared, LeaseIssued, LkLeaseExpired, EvidencePackCreated, ReviewStarted,
     ReviewCompleted, VerdictIssued, MergePassportIssued, MergePassportConsumed, MergePassportInvalidated,
     ReleasePassportIssued, DeploymentStarted, DeploymentPromoted, RollbackInitiated, RollbackCompleted,
     HumanEscalationRequested, HumanDecisionRecorded, WebhookReceived, AutonomyPackEditProposed, AutonomyPackEditMerged,
     KillBellEngaged, KillBellResumed]"

text \<open>The match on the text, one arm per kind.\<close>

definition kind_from_str :: "string \<Rightarrow> (LedgerKind, string) result" where
  "kind_from_str s =
     (case find (\<lambda>k. kind_to_str k = s) ALL_KINDS of
        Some k \<Rightarrow> Ok k
      | None \<Rightarrow> Err (''unknown launch_ledger kind: '' @ s))"

lemma kind_to_str_inj: "kind_to_str a = kind_to_str b \<Longrightarrow> a = b"
  by (cases a; cases b) simp_all

lemma kind_in_all: "k \<in> set ALL_KINDS"
  by (cases k) (simp_all add: ALL_KINDS_def)

lemma kind_from_to: "kind_from_str (kind_to_str k) = Ok k"
proof -
  have "find (\<lambda>x. kind_to_str x = kind_to_str k) ALL_KINDS \<noteq> None"
    using kind_in_all by (auto simp: find_None_iff)
  then obtain x where x: "find (\<lambda>x. kind_to_str x = kind_to_str k) ALL_KINDS = Some x" by blast
  then have "x = k" by (auto simp: find_Some_iff dest: kind_to_str_inj)
  then show ?thesis using x by (simp add: kind_from_str_def)
qed

lemma kind_to_from: "kind_from_str s = Ok k \<Longrightarrow> kind_to_str k = s"
  by (auto simp: kind_from_str_def find_Some_iff split: option.splits)

record LaunchLedgerEntry =
  le_id :: string
  le_kind :: LedgerKind
  le_subject_id :: string
  le_repo :: "string option"
  le_payload :: json_value
  le_recorded_at :: int
  le_actor :: string
  le_signature :: AuSignature

record SeamError =
  se_source :: string
  se_reason :: string

definition seam_error :: "string \<Rightarrow> string \<Rightarrow> SeamError" where
  "seam_error source reason = \<lparr>se_source = source, se_reason = reason\<rparr>"

definition seam_display :: "SeamError \<Rightarrow> string" where
  "seam_display e = se_source e @ '': '' @ se_reason e"

record LedgerFilter =
  lf_kind :: "LedgerKind option"
  lf_subject_id :: "string option"
  lf_repo :: "string option"
  lf_limit :: "int option"

definition LedgerFilter_default :: LedgerFilter where
  "LedgerFilter_default = \<lparr>lf_kind = None, lf_subject_id = None, lf_repo = None, lf_limit = None\<rparr>"

text \<open>The JSON codec of an entry, and the text of a payload and of a verdict.\<close>

record 'raw Codec =
  cd_encode :: "LaunchLedgerEntry \<Rightarrow> ('raw, string) result"
  cd_decode :: "'raw \<Rightarrow> (LaunchLedgerEntry, string) result"
  cd_payload_text :: "json_value \<Rightarrow> string"
  cd_verdict_json :: "VibeGateVerdict \<Rightarrow> json_value"

type_synonym 'raw MemoryLedger = "(string \<times> 'raw) list"

definition validate_signature :: "LaunchLedgerEntry \<Rightarrow> (unit, SeamError) result" where
  "validate_signature e =
     (if sg_algo (le_signature e) = ''ed25519'' then Ok ()
      else Err (seam_error ''ledger''
        (''refusing to append entry '' @ [CHR 0x27] @ le_id e @ [CHR 0x27] @ '' signed with algo '' @ [CHR 0x27]
          @ sg_algo (le_signature e) @ [CHR 0x27] @ ''; only ed25519 is accepted (Law: every decision is signed)'')))"

definition ledger_append ::
  "'raw Codec \<Rightarrow> LaunchLedgerEntry \<Rightarrow> 'raw MemoryLedger \<Rightarrow> (unit, SeamError) result \<times> 'raw MemoryLedger" where
  "ledger_append c e rows =
     (case validate_signature e of
        Err x \<Rightarrow> (Err x, rows)
      | Ok _ \<Rightarrow>
          (case cd_encode c e of
             Err x \<Rightarrow> (Err (seam_error ''ledger'' (''serialize entry: '' @ x)), rows)
           | Ok raw \<Rightarrow> if list_ex (\<lambda>(i, _). i = le_id e) rows then (Ok (), rows) else (Ok (), rows @ [(le_id e, raw)])))"

definition filter_matches :: "LedgerFilter \<Rightarrow> LaunchLedgerEntry \<Rightarrow> bool" where
  "filter_matches f e \<longleftrightarrow> (case lf_kind f of Some k \<Rightarrow> le_kind e = k | None \<Rightarrow> True)
     \<and> (case lf_subject_id f of Some x \<Rightarrow> le_subject_id e = x | None \<Rightarrow> True)
     \<and> (case lf_repo f of Some r \<Rightarrow> le_repo e = Some r | None \<Rightarrow> True)"

fun ledger_select :: "'raw Codec \<Rightarrow> LedgerFilter \<Rightarrow> 'raw MemoryLedger \<Rightarrow> (LaunchLedgerEntry list, SeamError) result" where
  "ledger_select c f [] = Ok []"
| "ledger_select c f ((_, raw) # rows) =
     (case cd_decode c raw of
        Err x \<Rightarrow> Err (seam_error ''ledger'' (''decode payload: '' @ x))
      | Ok e \<Rightarrow> map_sum id (\<lambda>es. if filter_matches f e then e # es else es) (ledger_select c f rows))"

definition ledger_list :: "'raw Codec \<Rightarrow> LedgerFilter \<Rightarrow> 'raw MemoryLedger \<Rightarrow> (LaunchLedgerEntry list, SeamError) result" where
  "ledger_list c f rows =
     map_sum id (\<lambda>es. let out = sort_key le_recorded_at es in
        case lf_limit f of Some n \<Rightarrow> take (nat (max n 0)) out | None \<Rightarrow> out) (ledger_select c f rows)"

definition verdict_issued_entry :: "'raw Codec \<Rightarrow> VibeGateVerdict \<Rightarrow> string \<Rightarrow> LaunchLedgerEntry" where
  "verdict_issued_entry c v actor =
     \<lparr>le_id = ''ll_'' @ vv_id v,
      le_kind = (case vv_decision v of AllowMerge \<Rightarrow> VerdictIssued | RequireHuman \<Rightarrow> HumanEscalationRequested | Reject \<Rightarrow> VerdictIssued),
      le_subject_id = vv_id v, le_repo = Some (vv_repo v), le_payload = cd_verdict_json c v, le_recorded_at = vv_created_at v,
      le_actor = actor, le_signature = default_unsigned\<rparr>"

definition canonical_body_for_signing :: "AuEnv \<Rightarrow> 'raw Codec \<Rightarrow> LaunchLedgerEntry \<Rightarrow> string" where
  "canonical_body_for_signing env c e =
     le_id e @ ''|'' @ kind_to_str (le_kind e) @ ''|'' @ le_subject_id e @ ''|''
     @ (case le_repo e of Some r \<Rightarrow> r | None \<Rightarrow> []) @ ''|'' @ au_rfc3339 env (le_recorded_at e) @ ''|''
     @ cd_payload_text c (le_payload e)"

definition sign_entry :: "AuEnv \<Rightarrow> Crypto \<Rightarrow> 'raw Codec \<Rightarrow> EdSigningKey \<Rightarrow> LaunchLedgerEntry \<Rightarrow> LaunchLedgerEntry" where
  "sign_entry env cr c key e = e\<lparr>le_signature := sign_raw cr key (canonical_body_for_signing env c e)\<rparr>"

section \<open>Replay\<close>

record TimelineEvent =
  te_recorded_at :: int
  te_kind :: LedgerKind
  te_kind_str :: string
  te_actor :: string
  te_signature_algo :: string

record ReplaySummary =
  rs_total_events :: nat
  rs_verdicts_issued :: nat
  rs_escalations :: nat
  rs_kill_bell_events :: nat
  rs_non_ed25519 :: nat

record ReplayReport =
  rr_subject_id :: string
  rr_timeline :: "TimelineEvent list"
  rr_summary :: ReplaySummary

definition summarise :: "ReplaySummary \<Rightarrow> LaunchLedgerEntry \<Rightarrow> ReplaySummary" where
  "summarise s0 e =
     (let s1 = s0\<lparr>rs_total_events := rs_total_events s0 + 1\<rparr>;
          s2 = (case le_kind e of
                  VerdictIssued \<Rightarrow> s1\<lparr>rs_verdicts_issued := rs_verdicts_issued s1 + 1\<rparr>
                | HumanEscalationRequested \<Rightarrow> s1\<lparr>rs_escalations := rs_escalations s1 + 1\<rparr>
                | KillBellEngaged \<Rightarrow> s1\<lparr>rs_kill_bell_events := rs_kill_bell_events s1 + 1\<rparr>
                | KillBellResumed \<Rightarrow> s1\<lparr>rs_kill_bell_events := rs_kill_bell_events s1 + 1\<rparr>
                | _ \<Rightarrow> s1) in
      if sg_algo (le_signature e) \<noteq> ''ed25519'' then s2\<lparr>rs_non_ed25519 := rs_non_ed25519 s2 + 1\<rparr> else s2)"

definition timeline_event :: "LaunchLedgerEntry \<Rightarrow> TimelineEvent" where
  "timeline_event e = \<lparr>te_recorded_at = le_recorded_at e, te_kind = le_kind e, te_kind_str = kind_to_str (le_kind e),
     te_actor = le_actor e, te_signature_algo = sg_algo (le_signature e)\<rparr>"

definition build_report :: "string \<Rightarrow> LaunchLedgerEntry list \<Rightarrow> ReplayReport" where
  "build_report subject entries =
     (let es = sort_key le_recorded_at entries in
      \<lparr>rr_subject_id = subject, rr_timeline = map timeline_event es,
       rr_summary = foldl summarise \<lparr>rs_total_events = 0, rs_verdicts_issued = 0, rs_escalations = 0, rs_kill_bell_events = 0,
         rs_non_ed25519 = 0\<rparr> es\<rparr>)"

definition replay_subject :: "'raw Codec \<Rightarrow> 'raw MemoryLedger \<Rightarrow> string \<Rightarrow> (ReplayReport, SeamError) result" where
  "replay_subject c rows subject =
     map_sum id (build_report subject) (ledger_list c (LedgerFilter_default\<lparr>lf_subject_id := Some subject\<rparr>) rows)"


section \<open>What the ledger keeps\<close>

inductive ledger_step :: "'raw Codec \<Rightarrow> 'raw MemoryLedger \<Rightarrow> 'raw MemoryLedger \<Rightarrow> bool" for c where
  append_step: "ledger_append c e rows = (r, rows') \<Longrightarrow> ledger_step c rows rows'"

text \<open>Identifiers are unique, and every row is the text of an entry of that identifier signed with ed25519.\<close>

definition ledger_inv :: "'raw Codec \<Rightarrow> 'raw MemoryLedger \<Rightarrow> bool" where
  "ledger_inv c rows \<longleftrightarrow> distinct (map fst rows)
     \<and> (\<forall>(i, raw)\<in>set rows. \<exists>e. cd_encode c e = Ok raw \<and> le_id e = i \<and> sg_algo (le_signature e) = ''ed25519'')"

lemma ledger_append_cases:
  "snd (ledger_append c e rows) = rows
   \<or> (\<exists>raw. cd_encode c e = Ok raw \<and> sg_algo (le_signature e) = ''ed25519'' \<and> le_id e \<notin> fst ` set rows
        \<and> ledger_append c e rows = (Ok (), rows @ [(le_id e, raw)]))"
  by (auto simp: ledger_append_def validate_signature_def list_ex_iff image_iff split: sum.splits if_splits)

lemma ledger_inv_append:
  assumes "ledger_inv c rows"
  shows "ledger_inv c (snd (ledger_append c e rows))"
  using assms ledger_append_cases [of c e rows] by (auto simp: ledger_inv_def)

lemma ledger_append_prefix: "prefix rows (snd (ledger_append c e rows))"
  using ledger_append_cases [of c e rows] by auto

interpretation ledger: monotone_system "\<lambda>rows. rows = []" "ledger_step c" "ledger_inv c" prefix for c
proof
  show "rows = [] \<Longrightarrow> ledger_inv c rows" for rows by (simp add: ledger_inv_def)
  show "ledger_inv c rows \<Longrightarrow> ledger_step c rows rows' \<Longrightarrow> ledger_inv c rows'" for rows rows'
    by (metis ledger_inv_append ledger_step.cases snd_conv)
  show "ledger_inv c rows \<Longrightarrow> ledger_step c rows rows' \<Longrightarrow> prefix rows rows'" for rows rows'
    by (metis ledger_append_prefix ledger_step.cases snd_conv)
qed auto

lemma ledger_select_reads:
  assumes "\<And>e raw. cd_encode c e = Ok raw \<Longrightarrow> cd_decode c raw = Ok e" "ledger_inv c rows"
  shows "\<exists>es. ledger_select c f rows = Ok es \<and> (\<forall>e\<in>set es. filter_matches f e \<and> sg_algo (le_signature e) = ''ed25519'')
    \<and> (\<forall>(i, raw)\<in>set rows. \<forall>e. cd_encode c e = Ok raw \<longrightarrow> filter_matches f e \<longrightarrow> e \<in> set es)"
  using assms(2)
proof (induction rows)
  case Nil
  then show ?case by simp
next
  case (Cons row rows)
  obtain i raw where row: "row = (i, raw)" by (cases row)
  obtain e where e: "cd_encode c e = Ok raw" "sg_algo (le_signature e) = ''ed25519''"
    using Cons.prems row by (auto simp: ledger_inv_def)
  have "ledger_inv c rows" using Cons.prems by (simp add: ledger_inv_def)
  then obtain es where es: "ledger_select c f rows = Ok es"
      "\<forall>e\<in>set es. filter_matches f e \<and> sg_algo (le_signature e) = ''ed25519''"
      "\<forall>(i, raw)\<in>set rows. \<forall>e. cd_encode c e = Ok raw \<longrightarrow> filter_matches f e \<longrightarrow> e \<in> set es"
    using Cons.IH by blast
  have same: "e' = e" if "cd_encode c e' = Ok raw" for e'
    using assms(1) [OF that] assms(1) [OF e(1)] by simp
  let ?es = "if filter_matches f e then e # es else es"
  have "ledger_select c f (row # rows) = Ok ?es"
    using es(1) row assms(1) [OF e(1)] by simp
  moreover have "\<forall>e\<in>set ?es. filter_matches f e \<and> sg_algo (le_signature e) = ''ed25519''"
    using es(2) e(2) by simp
  moreover have "e' \<in> set ?es" if "(i', raw') \<in> set (row # rows)" "cd_encode c e' = Ok raw'" "filter_matches f e'" for i' raw' e'
  proof (cases "(i', raw') = row")
    case True
    then have "e' = e" using same that(2) row by simp
    then show ?thesis using that(3) by simp
  next
    case False
    then have "(i', raw') \<in> set rows" using that(1) by auto
    then have "e' \<in> set es" using es(3) that(2,3) by fast
    then show ?thesis by simp
  qed
  ultimately show ?case by (intro exI [of _ ?es]) blast
qed

text \<open>
  The launch ledger is an append-only, signed record. After any run of appends from an empty ledger,
  whatever was recorded earlier is still there and in the same place, no two rows share an identifier, and
  reading with a filter and no limit succeeds and returns, in order of time, only entries that match and
  carry an ed25519 signature, among them every entry recorded under it.
\<close>

theorem ledger_is_append_only:
  assumes codec: "\<And>e raw. cd_encode c e = Ok raw \<Longrightarrow> cd_decode c raw = Ok e"
    and start: "reach (\<lambda>rows. rows = []) (ledger_step c) rows"
    and later: "(ledger_step c)\<^sup>*\<^sup>* rows rows'"
    and nolimit: "lf_limit f = None"
  shows "prefix rows rows' \<and> distinct (map fst rows')
    \<and> (\<exists>es. ledger_list c f rows' = Ok es \<and> sorted (map le_recorded_at es)
          \<and> (\<forall>e\<in>set es. filter_matches f e \<and> sg_algo (le_signature e) = ''ed25519'')
          \<and> (\<forall>(i, raw)\<in>set rows'. \<forall>e. cd_encode c e = Ok raw \<longrightarrow> filter_matches f e \<longrightarrow> e \<in> set es))"
proof -
  have inv: "ledger_inv c rows" using start by (rule ledger.reach_inv)
  have inv': "ledger_inv c rows'" using later inv by (rule ledger.steps_inv)
  obtain es where "ledger_select c f rows' = Ok es"
      "\<forall>e\<in>set es. filter_matches f e \<and> sg_algo (le_signature e) = ''ed25519''"
      "\<forall>(i, raw)\<in>set rows'. \<forall>e. cd_encode c e = Ok raw \<longrightarrow> filter_matches f e \<longrightarrow> e \<in> set es"
    using ledger_select_reads [OF codec inv'] by blast
  then show ?thesis
    using ledger.steps_rel [OF later inv] inv' nolimit
    by (auto simp: ledger_list_def ledger_inv_def)
qed

section \<open>The verdict store\<close>

record VsRow =
  vr_body :: VibeGateVerdict
  vr_superseded_at :: "int option"

type_synonym MemoryVerdictStore = "VsRow list"

definition same_change :: "string \<Rightarrow> string option \<Rightarrow> VibeGateVerdict \<Rightarrow> bool" where
  "same_change repo pull v \<longleftrightarrow> vv_repo v = repo \<and> vv_pull_request v = pull"

definition live_row :: "string \<Rightarrow> string option \<Rightarrow> VsRow \<Rightarrow> bool" where
  "live_row repo pull r \<longleftrightarrow> vr_superseded_at r = None \<and> same_change repo pull (vr_body r)"

definition store_save :: "VibeGateVerdict \<Rightarrow> MemoryVerdictStore \<Rightarrow> (unit, SeamError) result \<times> MemoryVerdictStore" where
  "store_save v rows =
     (if list_ex (\<lambda>r. vv_id (vr_body r) = vv_id v) rows then (Ok (), rows)
      else (Ok (), map (\<lambda>r. if live_row (vv_repo v) (vv_pull_request v) r then r\<lparr>vr_superseded_at := Some (vv_created_at v)\<rparr> else r) rows
              @ [\<lparr>vr_body = v, vr_superseded_at = None\<rparr>]))"

text \<open>\<open>max_by\<close> keeps the last of several maximal elements.\<close>

definition max_by :: "('a \<Rightarrow> int) \<Rightarrow> 'a list \<Rightarrow> 'a option" where
  "max_by f xs = foldl (\<lambda>m x. case m of None \<Rightarrow> Some x | Some y \<Rightarrow> if f y > f x then Some y else Some x) None xs"

definition load_latest :: "string \<Rightarrow> string option \<Rightarrow> MemoryVerdictStore \<Rightarrow> (VibeGateVerdict option, SeamError) result" where
  "load_latest repo pull rows =
     Ok (map_option vr_body (max_by (\<lambda>r. vv_created_at (vr_body r)) (filter (live_row repo pull) rows)))"

definition list_active :: "int \<Rightarrow> MemoryVerdictStore \<Rightarrow> (VibeGateVerdict list, SeamError) result" where
  "list_active now rows =
     Ok (sort_key vv_created_at (map vr_body (filter (\<lambda>r. vr_superseded_at r = None \<and> vv_expires_at (vr_body r) > now
       \<and> vv_decision (vr_body r) \<noteq> Reject) rows)))"

fun store_supersede :: "string \<Rightarrow> int \<Rightarrow> MemoryVerdictStore \<Rightarrow> MemoryVerdictStore" where
  "store_supersede vid now [] = []"
| "store_supersede vid now (r # rows) =
     (if vv_id (vr_body r) = vid
      then (if vr_superseded_at r = None then r\<lparr>vr_superseded_at := Some now\<rparr> else r) # rows
      else r # store_supersede vid now rows)"


section \<open>The contract of a verdict store\<close>

text \<open>
  The trait \<open>VerdictStore\<close> as its documentation states it: a save of a known identifier changes nothing, a
  save of a new one is what the pull request's latest verdict is from then on, and no other pull request is
  affected.
\<close>

locale verdict_store =
  fixes save :: "VibeGateVerdict \<Rightarrow> 's \<Rightarrow> 's"
    and latest :: "string \<Rightarrow> string option \<Rightarrow> 's \<Rightarrow> VibeGateVerdict option"
    and known :: "'s \<Rightarrow> string set"
  assumes save_known: "known (save v s) = insert (vv_id v) (known s)"
    and save_again: "vv_id v \<in> known s \<Longrightarrow> save v s = s"
    and latest_saved: "vv_id v \<notin> known s \<Longrightarrow> latest (vv_repo v) (vv_pull_request v) (save v s) = Some v"
    and latest_other: "\<not> same_change repo pull v \<Longrightarrow> latest repo pull (save v s) = latest repo pull s"
begin

lemma known_all: "known (fold save vs s) = vv_id ` set vs \<union> known s"
  by (induction vs arbitrary: s) (auto simp: save_known)

lemma latest_of_run:
  assumes "distinct (map vv_id vs)" "vv_id ` set vs \<inter> known s = {}"
  shows "latest repo pull (fold save vs s) =
    (if filter (same_change repo pull) vs = [] then latest repo pull s else Some (last (filter (same_change repo pull) vs)))"
  using assms
proof (induction vs rule: rev_induct)
  case Nil
  then show ?case by simp
next
  case (snoc v vs)
  have fresh: "vv_id v \<notin> known (fold save vs s)" using snoc.prems by (auto simp: known_all)
  have rest: "latest repo pull (fold save vs s) =
      (if filter (same_change repo pull) vs = [] then latest repo pull s else Some (last (filter (same_change repo pull) vs)))"
    using snoc by auto
  show ?case
  proof (cases "same_change repo pull v")
    case True
    then show ?thesis using latest_saved [OF fresh] by (simp add: same_change_def)
  next
    case False
    then show ?thesis using rest latest_other [OF False] by simp
  qed
qed

end

lemma max_by_snoc:
  "max_by f (xs @ [x]) = (case max_by f xs of None \<Rightarrow> Some x | Some y \<Rightarrow> if f y > f x then Some y else Some x)"
  by (simp add: max_by_def)

lemma max_by_top: "(\<forall>y\<in>set xs. f y \<le> f x) \<Longrightarrow> max_by f (xs @ [x]) = Some x"
proof -
  assume le: "\<forall>y\<in>set xs. f y \<le> f x"
  have "max_by f xs = Some y \<Longrightarrow> y \<in> set xs" for y
    by (induction xs arbitrary: y rule: rev_induct)
       (auto simp: max_by_def split: option.splits if_splits)
  then show ?thesis using le by (fastforce simp: max_by_snoc split: option.splits)
qed

definition latest_verdict :: "string \<Rightarrow> string option \<Rightarrow> MemoryVerdictStore \<Rightarrow> VibeGateVerdict option" where
  "latest_verdict repo pull rows = (case load_latest repo pull rows of Ok v \<Rightarrow> v | Err _ \<Rightarrow> None)"

definition known_verdicts :: "MemoryVerdictStore \<Rightarrow> string set" where
  "known_verdicts rows = vv_id ` set (map vr_body rows)"

lemma known_verdicts_list: "list_ex (\<lambda>r. vv_id (vr_body r) = i) rows \<longleftrightarrow> i \<in> known_verdicts rows"
  by (auto simp: known_verdicts_def list_ex_iff)

lemma saved_bodies:
  "map vr_body (map (\<lambda>r. if P r then r\<lparr>vr_superseded_at := t\<rparr> else r) rows) = map vr_body rows"
  by simp

lemma live_after_save:
  "filter (live_row (vv_repo v) (vv_pull_request v))
     (map (\<lambda>r. if live_row (vv_repo v) (vv_pull_request v) r then r\<lparr>vr_superseded_at := Some t\<rparr> else r) rows) = []"
  by (auto simp: filter_empty_conv live_row_def)

lemma live_other_save:
  "\<not> same_change repo pull v \<Longrightarrow> filter (live_row repo pull)
     (map (\<lambda>r. if live_row (vv_repo v) (vv_pull_request v) r then r\<lparr>vr_superseded_at := Some t\<rparr> else r) rows)
   = filter (live_row repo pull) rows"
  by (induction rows) (auto simp: live_row_def same_change_def)

interpretation memory: verdict_store "\<lambda>v s. snd (store_save v s)" latest_verdict known_verdicts
proof
  show "known_verdicts (snd (store_save v s)) = insert (vv_id v) (known_verdicts s)" for v s
    by (auto simp: store_save_def known_verdicts_list known_verdicts_def saved_bodies simp del: map_map set_map)
  show "vv_id v \<in> known_verdicts s \<Longrightarrow> snd (store_save v s) = s" for v s
    by (simp add: store_save_def known_verdicts_list)
  show "vv_id v \<notin> known_verdicts s \<Longrightarrow>
      latest_verdict (vv_repo v) (vv_pull_request v) (snd (store_save v s)) = Some v" for v s
    by (simp add: store_save_def known_verdicts_list latest_verdict_def load_latest_def live_after_save max_by_def)
       (simp add: live_row_def same_change_def)
  show "\<not> same_change repo pull v \<Longrightarrow>
      latest_verdict repo pull (snd (store_save v s)) = latest_verdict repo pull s" for repo pull v s
    by (simp add: store_save_def known_verdicts_list latest_verdict_def load_latest_def live_other_save)
       (simp add: live_row_def)
qed


section \<open>The kill bell\<close>

datatype KillBellState = BellArmed | BellPaused string string int int

definition bell_is_paused :: "KillBellState \<Rightarrow> bool" where
  "bell_is_paused s = (case s of BellPaused _ _ _ _ \<Rightarrow> True | BellArmed \<Rightarrow> False)"

datatype Transition = TArmed int | TPaused string string int int

fun transition_at :: "Transition \<Rightarrow> int" where
  "transition_at (TArmed t) = t"
| "transition_at (TPaused reason paused_by paused_at expires_at) = paused_at"

record 'raw KillBell =
  kb_history :: "Transition list"
  kb_ledger :: "'raw MemoryLedger"

definition bell_current :: "'raw KillBell \<Rightarrow> int \<Rightarrow> KillBellState" where
  "bell_current kb now =
     (case max_by transition_at (kb_history kb) of
        None \<Rightarrow> BellArmed
      | Some (TArmed _) \<Rightarrow> BellArmed
      | Some (TPaused reason paused_by paused_at expires_at) \<Rightarrow>
          if now \<ge> expires_at then BellArmed else BellPaused reason paused_by paused_at expires_at)"

text \<open>Adding a number of seconds to a time is the time library's; \<open>None\<close> is its panic on overflow.\<close>

definition ttl_i64 :: "u64 \<Rightarrow> int" where
  "ttl_i64 ttl = min (uint ttl) (2 ^ 63 - 1)"

definition bell_entry :: "string \<Rightarrow> LedgerKind \<Rightarrow> json_value \<Rightarrow> int \<Rightarrow> string \<Rightarrow> LaunchLedgerEntry" where
  "bell_entry uuid kind payload now actor = \<lparr>le_id = ''ll_kb_'' @ uuid, le_kind = kind, le_subject_id = ''kill_bell'', le_repo = None,
     le_payload = payload, le_recorded_at = now, le_actor = actor, le_signature = default_unsigned\<rparr>"

definition bell_pause ::
  "AuEnv \<Rightarrow> Crypto \<Rightarrow> 'raw Codec \<Rightarrow> (int \<Rightarrow> int \<Rightarrow> int option) \<Rightarrow> string \<Rightarrow> string \<Rightarrow> string \<Rightarrow> u64 \<Rightarrow> EdSigningKey \<Rightarrow> int
    \<Rightarrow> 'raw KillBell \<Rightarrow> ((unit, SeamError) result \<times> 'raw KillBell) option" where
  "bell_pause env cr c add_seconds uuid reason paused_by ttl_seconds key now kb =
     map_option (\<lambda>expires_at.
       let entry = sign_entry env cr c key (bell_entry uuid KillBellEngaged
             (JObject [(''expires_at'', JString (au_rfc3339 env expires_at)), (''paused_by'', JString paused_by), (''reason'', JString reason),
               (''ttl_seconds'', JNumber (show_word ttl_seconds))]) now paused_by) in
       case ledger_append c entry (kb_ledger kb) of
         (Err e, rows) \<Rightarrow> (Err (seam_error ''kill_bell'' (''append KillBellEngaged: '' @ seam_display e)), kb\<lparr>kb_ledger := rows\<rparr>)
       | (Ok _, rows) \<Rightarrow>
           (Ok (), kb\<lparr>kb_ledger := rows, kb_history := kb_history kb @ [TPaused reason paused_by now expires_at]\<rparr>))
       (add_seconds now (ttl_i64 ttl_seconds))"

definition bell_resume ::
  "AuEnv \<Rightarrow> Crypto \<Rightarrow> 'raw Codec \<Rightarrow> string \<Rightarrow> string \<Rightarrow> EdSigningKey \<Rightarrow> int \<Rightarrow> 'raw KillBell
    \<Rightarrow> (unit, SeamError) result \<times> 'raw KillBell" where
  "bell_resume env cr c uuid resumed_by key now kb =
     (let entry = sign_entry env cr c key (bell_entry uuid KillBellResumed (JObject [(''resumed_by'', JString resumed_by)]) now resumed_by) in
      case ledger_append c entry (kb_ledger kb) of
        (Err e, rows) \<Rightarrow> (Err (seam_error ''kill_bell'' (''append KillBellResumed: '' @ seam_display e)), kb\<lparr>kb_ledger := rows\<rparr>)
      | (Ok _, rows) \<Rightarrow> (Ok (), kb\<lparr>kb_ledger := rows, kb_history := kb_history kb @ [TArmed now]\<rparr>))"

definition is_paused :: "'raw KillBell \<Rightarrow> int \<Rightarrow> bool" where
  "is_paused kb now = bell_is_paused (bell_current kb now)"

definition downgrade_if_paused :: "'raw KillBell \<Rightarrow> GateDecision \<Rightarrow> int \<Rightarrow> GateDecision \<times> string option" where
  "downgrade_if_paused kb decision now =
     (case bell_current kb now of
        BellArmed \<Rightarrow> (decision, None)
      | BellPaused reason paused_by _ _ \<Rightarrow>
          (RequireHuman, Some (''kill bell engaged by '' @ [CHR 0x27] @ paused_by @ [CHR 0x27] @ '': '' @ reason @ ''; downgraded ''
             @ decision_debug decision @ '' -> RequireHuman'')))"

lemma paused_never_allows: "is_paused kb now \<Longrightarrow> fst (downgrade_if_paused kb d now) = RequireHuman"
  by (cases "bell_current kb now") (simp_all add: is_paused_def bell_is_paused_def downgrade_if_paused_def)

lemma current_after:
  "\<forall>t\<in>set (kb_history kb). transition_at t \<le> transition_at x \<Longrightarrow> kb_history kb' = kb_history kb @ [x] \<Longrightarrow>
   bell_current kb' now = (case x of TArmed _ \<Rightarrow> BellArmed
     | TPaused reason paused_by paused_at expires_at \<Rightarrow>
         if now \<ge> expires_at then BellArmed else BellPaused reason paused_by paused_at expires_at)"
  by (simp add: bell_current_def max_by_top)

lemma signed_entry_appends:
  assumes "\<And>e. \<exists>raw. cd_encode c e = Ok raw"
  shows "fst (ledger_append c (sign_entry env cr c key e) rows) = Ok ()"
  using assms [of "sign_entry env cr c key e"]
  by (auto simp: ledger_append_def validate_signature_def sign_entry_def sign_raw_def)

lemma bell_pause_ok:
  assumes "\<And>e. \<exists>raw. cd_encode c e = Ok raw" "add_seconds now (ttl_i64 ttl) = Some t"
  obtains rows where "bell_pause env cr c add_seconds uuid reason paused_by ttl key now kb =
    Some (Ok (), kb\<lparr>kb_ledger := rows, kb_history := kb_history kb @ [TPaused reason paused_by now t]\<rparr>)"
proof -
  let ?e = "sign_entry env cr c key (bell_entry uuid KillBellEngaged (JObject [(''expires_at'', JString (au_rfc3339 env t)),
      (''paused_by'', JString paused_by), (''reason'', JString reason), (''ttl_seconds'', JNumber (show_word ttl))]) now paused_by)"
  obtain rows where "ledger_append c ?e (kb_ledger kb) = (Ok (), rows)"
    using signed_entry_appends [OF assms(1)] by (metis prod.collapse)
  then show ?thesis using assms(2) that by (simp add: bell_pause_def Let_def)
qed

lemma bell_resume_ok:
  assumes "\<And>e. \<exists>raw. cd_encode c e = Ok raw"
  obtains rows where "bell_resume env cr c uuid resumed_by key now kb =
    (Ok (), kb\<lparr>kb_ledger := rows, kb_history := kb_history kb @ [TArmed now]\<rparr>)"
proof -
  let ?e = "sign_entry env cr c key (bell_entry uuid KillBellResumed (JObject [(''resumed_by'', JString resumed_by)]) now resumed_by)"
  obtain rows where "ledger_append c ?e (kb_ledger kb) = (Ok (), rows)"
    using signed_entry_appends [OF assms] by (metis prod.collapse)
  then show ?thesis using that by (simp add: bell_resume_def Let_def)
qed


section \<open>Stale verdicts\<close>

datatype RejudgeReason = NewCommitOnPr string string | TargetBranchAdvance string string | PolicyChangeOnTarget string string
  | VerdictTtlExpired int int

fun rejudge_short_name :: "RejudgeReason \<Rightarrow> string" where
  "rejudge_short_name (NewCommitOnPr _ _) = ''new_commit_on_pr''"
| "rejudge_short_name (TargetBranchAdvance _ _) = ''target_branch_advance''"
| "rejudge_short_name (PolicyChangeOnTarget _ _) = ''policy_change_on_target''"
| "rejudge_short_name (VerdictTtlExpired _ _) = ''verdict_ttl_expired''"

record LiveState =
  ls_head_sha :: "string option"
  ls_target_branch_sha :: "string option"
  ls_target_policy_sha :: "string option"
  ls_now :: "int option"

definition rejudge_check :: "VibeGateVerdict \<Rightarrow> LiveState \<Rightarrow> RejudgeReason list" where
  "rejudge_check v live =
     (case ls_head_sha live of Some head \<Rightarrow> if head \<noteq> vv_head_sha v then [NewCommitOnPr (vv_head_sha v) head] else [] | None \<Rightarrow> [])
   @ (case ls_target_policy_sha live of Some policy \<Rightarrow>
        if policy \<noteq> vv_policy_sha v then [PolicyChangeOnTarget (vv_policy_sha v) policy] else [] | None \<Rightarrow> [])
   @ (case ls_now live of Some now \<Rightarrow> if now > vv_expires_at v then [VerdictTtlExpired (vv_expires_at v) now] else [] | None \<Rightarrow> [])"

definition must_rejudge :: "VibeGateVerdict \<Rightarrow> LiveState \<Rightarrow> bool" where
  "must_rejudge v live \<longleftrightarrow> rejudge_check v live \<noteq> []"

lemma must_rejudge_iff:
  "must_rejudge v live \<longleftrightarrow> (\<exists>h. ls_head_sha live = Some h \<and> h \<noteq> vv_head_sha v)
     \<or> (\<exists>q. ls_target_policy_sha live = Some q \<and> q \<noteq> vv_policy_sha v) \<or> (\<exists>n. ls_now live = Some n \<and> n > vv_expires_at v)"
  by (auto simp: must_rejudge_def rejudge_check_def split: option.splits)


section \<open>Judging again\<close>

record EvidenceSource =
  es_build_pack :: "string \<Rightarrow> string \<Rightarrow> (EvidencePack, SeamError) result"
  es_run_reviews :: "EvidencePack \<Rightarrow> ReviewerRole list \<Rightarrow> (AgentApprovalReceipt list, SeamError) result"

record 'raw AutoRejudgeService =
  sv_evidence :: EvidenceSource
  sv_verdict_store :: MemoryVerdictStore
  sv_ledger :: "'raw MemoryLedger"
  sv_signing_key :: EdSigningKey
  sv_policy :: PolicyBundle

record RejudgeOutcome =
  ro_repo :: string
  ro_pr_id :: string
  ro_prior_verdict_id :: string
  ro_new_verdict_id :: string
  ro_new_decision :: GateDecision
  ro_hard_stops :: "string list"
  ro_receipts_count :: nat

definition build_auto_rejudge_entry :: "'raw Codec \<Rightarrow> VibeGateVerdict \<Rightarrow> string \<Rightarrow> LaunchLedgerEntry" where
  "build_auto_rejudge_entry c v prior_verdict_id =
     (let payload = (case cd_verdict_json c v of
            JObject fs \<Rightarrow> JObject (bt_insert ''supersedes'' (JString prior_verdict_id) (bt_insert ''wave_scope'' (JString ''auto_rejudge'') fs))
          | other \<Rightarrow> other) in
      \<lparr>le_id = ''ll_'' @ vv_id v, le_kind = VerdictIssued, le_subject_id = vv_id v, le_repo = Some (vv_repo v), le_payload = payload,
       le_recorded_at = vv_created_at v, le_actor = ''auto_rejudge'', le_signature = default_unsigned\<rparr>)"

definition reviews_or_none :: "(AgentApprovalReceipt list, SeamError) result \<Rightarrow> AgentApprovalReceipt list" where
  "reviews_or_none r = (case r of Ok rs \<Rightarrow> rs | Err _ \<Rightarrow> [])"

definition rejudge_inputs :: "'raw AutoRejudgeService \<Rightarrow> string \<Rightarrow> string \<Rightarrow> VibeGateVerdict \<Rightarrow> EvidencePack \<Rightarrow> JudgeInputs" where
  "rejudge_inputs sv repo pr_id prior pack =
     (let required_roles = (case quorum_for (sv_policy sv) (evp_risk pack) of Some q \<Rightarrow> qe_roles q | None \<Rightarrow> []) in
      \<lparr>ji_pack = pack, ji_receipts = reviews_or_none (es_run_reviews (sv_evidence sv) pack required_roles), ji_policy = sv_policy sv,
       ji_repo = repo, ji_target_branch = vv_target_branch prior, ji_pull_request = Some pr_id, ji_author_agent = None,
       ji_external_hard_stops = []\<rparr>)"

definition auto_rejudge ::
  "AuEnv \<Rightarrow> Crypto \<Rightarrow> 'raw Codec \<Rightarrow> string \<Rightarrow> string \<Rightarrow> VibeGateVerdict \<Rightarrow> 'raw AutoRejudgeService
    \<Rightarrow> (RejudgeOutcome, SeamError) result \<times> 'raw AutoRejudgeService" where
  "auto_rejudge env cr c repo pr_id prior sv =
     (case es_build_pack (sv_evidence sv) repo pr_id of
        Err e \<Rightarrow> (Err e, sv)
      | Ok pack \<Rightarrow>
          let inputs = rejudge_inputs sv repo pr_id prior pack;
              new_verdict = jo_verdict (judge env inputs) in
          case store_save new_verdict (sv_verdict_store sv) of
            (Err e, store) \<Rightarrow> (Err e, sv\<lparr>sv_verdict_store := store\<rparr>)
          | (Ok _, store) \<Rightarrow>
              let entry = sign_entry env cr c (sv_signing_key sv) (build_auto_rejudge_entry c new_verdict (vv_id prior)) in
              case ledger_append c entry (sv_ledger sv) of
                (Err e, rows) \<Rightarrow> (Err (seam_error ''auto_rejudge'' (''append VerdictIssued: '' @ seam_display e)),
                   sv\<lparr>sv_verdict_store := store, sv_ledger := rows\<rparr>)
              | (Ok _, rows) \<Rightarrow>
                  (Ok \<lparr>ro_repo = repo, ro_pr_id = pr_id, ro_prior_verdict_id = vv_id prior, ro_new_verdict_id = vv_id new_verdict,
                     ro_new_decision = vv_decision new_verdict, ro_hard_stops = vv_hard_stops new_verdict,
                     ro_receipts_count = length (ji_receipts inputs)\<rparr>,
                   sv\<lparr>sv_verdict_store := store, sv_ledger := rows\<rparr>))"

lemma judge_verdict_fields:
  "vv_repo (jo_verdict (judge env i)) = ji_repo i" "vv_pull_request (jo_verdict (judge env i)) = ji_pull_request i"
  "vv_head_sha (jo_verdict (judge env i)) = evp_head_sha (ji_pack i)" "vv_policy_sha (jo_verdict (judge env i)) = evp_policy_sha (ji_pack i)"
  "vv_created_at (jo_verdict (judge env i)) = au_now env" "au_now env \<le> vv_expires_at (jo_verdict (judge env i))"
  by (simp_all add: judge_def gate_verdict_def Let_def split: option.splits)

lemma auto_rejudge_ok:
  assumes "\<And>e. \<exists>raw. cd_encode c e = Ok raw" "es_build_pack (sv_evidence sv) repo pr_id = Ok pack"
    and v: "v = jo_verdict (judge env (rejudge_inputs sv repo pr_id prior pack))"
  shows "\<exists>out sv'. auto_rejudge env cr c repo pr_id prior sv = (Ok out, sv') \<and> ro_new_decision out = vv_decision v
    \<and> sv_verdict_store sv' = snd (store_save v (sv_verdict_store sv))
    \<and> sv_ledger sv' = snd (ledger_append c (sign_entry env cr c (sv_signing_key sv) (build_auto_rejudge_entry c v (vv_id prior))) (sv_ledger sv))"
proof -
  let ?e = "sign_entry env cr c (sv_signing_key sv) (build_auto_rejudge_entry c v (vv_id prior))"
  obtain rows where "ledger_append c ?e (sv_ledger sv) = (Ok (), rows)"
    using signed_entry_appends [OF assms(1)] by (metis prod.collapse)
  moreover obtain store where "store_save v (sv_verdict_store sv) = (Ok (), store)"
    by (cases "list_ex (\<lambda>r. vv_id (vr_body r) = vv_id v) (sv_verdict_store sv)") (simp_all add: store_save_def)
  ultimately show ?thesis
    using assms(2) by (simp add: auto_rejudge_def Let_def v [symmetric])
qed

lemma no_reviews_no_merge:
  assumes "ji_receipts i = []" "\<And>q. quorum_for (ji_policy i) (evp_risk (ji_pack i)) = Some q \<Longrightarrow> 0 < qe_approvals_needed q"
  shows "vv_decision (jo_verdict (judge env i)) \<noteq> AllowMerge"
proof -
  have "bound_receipts i = []" using assms(1) by (simp add: bound_receipts_def)
  then show ?thesis
    using assms(2) by (auto simp: judge_allows evaluate_quorum_met counted_receipts_def without_author_def roles_with_def quorum_for_def
        Let_def unat_gt_0 unat_eq_0)
qed


section \<open>A sample service\<close>

definition sample_crypto :: Crypto where
  "sample_crypto = \<lparr>cr_sha256 = id, cr_hex_encode = id, cr_hex_decode = Ok, cr_ed_sign = (\<lambda>_ _. replicate 64 (CHR ''s'')),
     cr_ed_public = (\<lambda>_. replicate 32 (CHR ''k'')), cr_ed_point = (\<lambda>_. Ok ()), cr_ed_verify = (\<lambda>_ _ _. True)\<rparr>"

definition sample_codec :: "LaunchLedgerEntry Codec" where
  "sample_codec = \<lparr>cd_encode = Ok, cd_decode = Ok, cd_payload_text = (\<lambda>_. []), cd_verdict_json = (\<lambda>_. JObject [])\<rparr>"

definition sample_entry :: LaunchLedgerEntry where
  "sample_entry = sign_entry sample_gate_env sample_crypto sample_codec (from_seed ''k'' [])
     (verdict_issued_entry sample_codec (jo_verdict (judge sample_gate_env (sample_gate_inputs R2))) ''judge'')"

definition sample_kill_bell :: "LaunchLedgerEntry KillBell" where
  "sample_kill_bell = \<lparr>kb_history = [TArmed 0], kb_ledger = []\<rparr>"

definition sample_service :: "LaunchLedgerEntry AutoRejudgeService" where
  "sample_service = \<lparr>sv_evidence = \<lparr>es_build_pack = (\<lambda>_ _. Ok (sample_gate_pack R2)), es_run_reviews = (\<lambda>_ _. Err (seam_error ''s'' ''down''))\<rparr>,
     sv_verdict_store = [], sv_ledger = [], sv_signing_key = from_seed ''k'' [], sv_policy = sample_gate_policy\<rparr>"

lemma sample_codec_round: "cd_encode sample_codec e = Ok raw \<Longrightarrow> cd_decode sample_codec raw = Ok e"
  by (simp add: sample_codec_def)

lemma sample_codec_total: "\<exists>raw. cd_encode sample_codec e = Ok raw"
  by (simp add: sample_codec_def)

theorem ledger_is_append_only_witness:
  "\<exists>es. ledger_list sample_codec LedgerFilter_default (snd (ledger_append sample_codec sample_entry [])) = Ok es
     \<and> sorted (map le_recorded_at es)"
proof -
  let ?rows = "snd (ledger_append sample_codec sample_entry [])"
  have "ledger_step sample_codec [] ?rows" by (metis append_step prod.collapse)
  then have "(ledger_step sample_codec)\<^sup>*\<^sup>* [] ?rows" by (rule r_into_rtranclp)
  moreover have "reach (\<lambda>rows. rows = []) (ledger_step sample_codec) []" by (simp add: reach_init)
  ultimately show ?thesis
    using ledger_is_append_only [where c = sample_codec and rows = "[]" and rows' = ?rows and f = LedgerFilter_default,
        OF sample_codec_round] by (simp add: LedgerFilter_default_def) blast
qed



end
