(* ===== verification/Autonomy_Lease.thy ===== *)
theory Autonomy_Lease
  imports Autonomy_Stores
begin

text \<open>
  Capability leases with their path globs, and the escalation of a verdict to webhooks
  (\<open>jeryu-intelligence/crates/jeryu-autonomy\<close>, \<open>types/lease.rs\<close> and \<open>escalation\<close>). The globs are proved equal
  to a reference semantics over the tokens of a pattern.
\<close>

section \<open>Globs\<close>

text \<open>
  The index pair of \<open>glob_inner\<close> is the pair of the remaining pattern and the remaining path. The bound of
  a single star is the first slash.
\<close>

definition slash :: char where "slash = CHR 0x2F"
definition star :: char where "star = CHR 0x2A"

definition segment_limit :: "string \<Rightarrow> nat" where
  "segment_limit s = length (takeWhile (\<lambda>c. c \<noteq> slash) s)"

definition after_double :: "string \<Rightarrow> string" where
  "after_double p = (case p of [] \<Rightarrow> [] | c # q \<Rightarrow> if c = slash then q else c # q)"

lemma after_double_length [simp]: "length (after_double p) \<le> length p"
  by (simp add: after_double_def split: list.splits)

function glob_inner :: "string \<Rightarrow> string \<Rightarrow> bool" where
  "glob_inner [] s \<longleftrightarrow> s = []"
| "glob_inner (c # p) s \<longleftrightarrow>
     (if c = star then
        if p \<noteq> [] \<and> hd p = star then
          (let p' = after_double (tl p) in
           if p' = [] then True else list_ex (\<lambda>k. glob_inner p' (drop k s)) [0..<Suc (length s)])
        else if p = [] then slash \<notin> set s
        else list_ex (\<lambda>k. glob_inner p (drop k s)) [0..<Suc (segment_limit s)]
      else s \<noteq> [] \<and> c = hd s \<and> glob_inner p (tl s))"
  by pat_completeness auto
termination
proof (relation "measure (\<lambda>(p, s). length p)", goal_cases)
  case (2 c p s x k)
  have "length (after_double (tl p)) \<le> length (tl p)" by (rule after_double_length)
  then show ?case using 2 by simp
qed auto

declare glob_inner.simps [simp del]

definition path_matches_glob :: "string \<Rightarrow> string \<Rightarrow> bool" where
  "path_matches_glob pattern path = glob_inner pattern path"

section \<open>Their meaning\<close>

datatype glob_token = Literal char | Star | DoubleStar

fun glob_tokens :: "string \<Rightarrow> glob_token list" where
  "glob_tokens [] = []"
| "glob_tokens [c] = (if c = star then [Star] else [Literal c])"
| "glob_tokens (c # d # p) =
     (if c \<noteq> star then Literal c # glob_tokens (d # p)
      else if d \<noteq> star then Star # glob_tokens (d # p)
      else DoubleStar # glob_tokens (after_double p))"

inductive glob_matches :: "glob_token list \<Rightarrow> string \<Rightarrow> bool" where
  match_end: "glob_matches [] []"
| match_literal: "glob_matches ts s \<Longrightarrow> glob_matches (Literal c # ts) (c # s)"
| match_star: "slash \<notin> set a \<Longrightarrow> glob_matches ts s \<Longrightarrow> glob_matches (Star # ts) (a @ s)"
| match_double: "glob_matches ts s \<Longrightarrow> glob_matches (DoubleStar # ts) (a @ s)"

inductive_simps glob_matches_nil: "glob_matches [] s"
inductive_simps glob_matches_literal: "glob_matches (Literal c # ts) s"
inductive_simps glob_matches_star: "glob_matches (Star # ts) s"
inductive_simps glob_matches_double: "glob_matches (DoubleStar # ts) s"

lemmas glob_matches_simps = glob_matches_nil glob_matches_literal glob_matches_star glob_matches_double

lemma list_ex_upto: "list_ex P [0..<Suc n] \<longleftrightarrow> (\<exists>k. k \<le> n \<and> P k)"
  by (auto simp: list_ex_iff less_Suc_eq_le simp del: upt_Suc)

lemma drop_ex: "(\<exists>k. k \<le> (length s) \<and> P (drop k s)) \<longleftrightarrow> (\<exists>a b. s = a @ b \<and> P b)"
proof
  assume "\<exists>k. k \<le> (length s) \<and> P (drop k s)"
  then obtain k where "P (drop k s)" by blast
  then show "\<exists>a b. s = a @ b \<and> P b" by (metis append_take_drop_id)
next
  assume "\<exists>a b. s = a @ b \<and> P b"
  then obtain a b where "s = a @ b" "P b" by blast
  then show "\<exists>k. k \<le> (length s) \<and> P (drop k s)" by (intro exI [of _ "length a"]) simp
qed

lemma take_no_slash: "slash \<notin> set (take k s) \<longleftrightarrow> k \<le> (segment_limit s) \<or> slash \<notin> set s"
  unfolding segment_limit_def
proof (induction s arbitrary: k)
  case (Cons c s)
  then show ?case by (cases k) auto
qed simp

lemma segment_ex: "(\<exists>k. k \<le> (segment_limit s) \<and> P (drop k s)) \<longleftrightarrow> (\<exists>a b. s = a @ b \<and> slash \<notin> set a \<and> P b)"
proof
  assume "\<exists>k. k \<le> (segment_limit s) \<and> P (drop k s)"
  then obtain k where "k \<le> (segment_limit s)" "P (drop k s)" by blast
  then show "\<exists>a b. s = a @ b \<and> slash \<notin> set a \<and> P b"
    by (intro exI [of _ "take k s"] exI [of _ "drop k s"]) (simp add: take_no_slash)
next
  assume "\<exists>a b. s = a @ b \<and> slash \<notin> set a \<and> P b"
  then obtain a b where s: "s = a @ b" "slash \<notin> set a" "P b" by blast
  have "length a \<le> (segment_limit s)"
    unfolding segment_limit_def s(1) using s(2) by (simp add: takeWhile_append)
  then show "\<exists>k. k \<le> (segment_limit s) \<and> P (drop k s)" using s by (intro exI [of _ "length a"]) simp
qed

lemma glob_inner_tokens: "glob_inner p s \<longleftrightarrow> glob_matches (glob_tokens p) s"
proof (induction p arbitrary: s rule: glob_tokens.induct)
  case 1
  then show ?case by (simp add: glob_inner.simps glob_matches_simps)
next
  case (2 c)
  have "slash \<notin> set s \<longleftrightarrow> (\<exists>a b. s = a @ b \<and> slash \<notin> set a \<and> b = [])" by auto
  then show ?case
    by (cases s) (auto simp: glob_inner.simps glob_matches_simps)
next
  case (3 c d p)
  show ?case
  proof (cases "c = star")
    case False
    then show ?thesis using 3(1) by (cases s) (auto simp: glob_inner.simps(2) [of c] glob_matches_simps)
  next
    case star: True
    show ?thesis
    proof (cases "d = star")
      case False
      have "glob_inner (c # d # p) s \<longleftrightarrow> (\<exists>k. k \<le> (segment_limit s) \<and> glob_inner (d # p) (drop k s))"
        unfolding glob_inner.simps(2) [of c "d # p" s] using star False by (simp add: list_ex_upto del: upt_Suc)
      also have "\<dots> \<longleftrightarrow> glob_matches (glob_tokens (c # d # p)) s"
        using star False 3(2) by (auto simp: segment_ex glob_matches_simps)
      finally show ?thesis .
    next
      case True
      have "glob_inner (c # d # p) s \<longleftrightarrow> after_double p = [] \<or> (\<exists>k. k \<le> (length s) \<and> glob_inner (after_double p) (drop k s))"
        unfolding glob_inner.simps(2) [of c "d # p" s] using star True by (simp add: list_ex_upto Let_def del: upt_Suc)
      also have "\<dots> \<longleftrightarrow> (\<exists>a b. s = a @ b \<and> glob_inner (after_double p) b)"
        by (auto simp: drop_ex glob_inner.simps(1))
      also have "\<dots> \<longleftrightarrow> glob_matches (glob_tokens (c # d # p)) s"
        using star True 3(3) by (auto simp: glob_matches_simps)
      finally show ?thesis .
    qed
  qed
qed

section \<open>Leases\<close>

record LeaseScope =
  sp_allowed_actions :: "string list"
  sp_denied_actions :: "string list"
  sp_allowed_write_refs :: "string list"
  sp_denied_paths :: "string list"

record CapabilityLease =
  cl_id :: string
  cl_intent_id :: string
  cl_agent_id :: string
  cl_scope :: LeaseScope
  cl_ttl_seconds :: u32
  cl_issued_at :: int
  cl_expires_at :: int
  cl_policy_sha :: string
  cl_signature :: AuSignature

datatype LeaseDenied = DeniedExpired int int | AgentIdMismatch string string | ActionDenied string | ActionNotAllowed string
  | PathDenied string string

definition is_expired_at :: "CapabilityLease \<Rightarrow> int \<Rightarrow> bool" where
  "is_expired_at l now \<longleftrightarrow> now \<ge> cl_expires_at l"

fun first_denied_path :: "string list \<Rightarrow> string list \<Rightarrow> LeaseDenied option" where
  "first_denied_path denied [] = None"
| "first_denied_path denied (p # ps) =
     (case find (\<lambda>d. path_matches_glob d p) denied of
        Some d \<Rightarrow> Some (PathDenied p d)
      | None \<Rightarrow> first_denied_path denied ps)"

definition permits :: "CapabilityLease \<Rightarrow> string \<Rightarrow> string \<Rightarrow> string list \<Rightarrow> int \<Rightarrow> (unit, LeaseDenied) result" where
  "permits l action agent_id paths now =
     (if is_expired_at l now then Err (DeniedExpired (cl_expires_at l) now)
      else if cl_agent_id l \<noteq> agent_id then Err (AgentIdMismatch (cl_agent_id l) agent_id)
      else if list_ex (\<lambda>a. a = action) (sp_denied_actions (cl_scope l)) then Err (ActionDenied action)
      else if sp_allowed_actions (cl_scope l) \<noteq> [] \<and> \<not> list_ex (\<lambda>a. a = action) (sp_allowed_actions (cl_scope l))
      then Err (ActionNotAllowed action)
      else (case first_denied_path (sp_denied_paths (cl_scope l)) paths of
              Some e \<Rightarrow> Err e
            | None \<Rightarrow> Ok ()))"

lemma first_denied_path_none:
  "first_denied_path denied paths = None \<longleftrightarrow> (\<forall>p\<in>set paths. \<forall>d\<in>set denied. \<not> path_matches_glob d p)"
  by (induction paths) (auto simp: find_None_iff find_Some_iff split: option.splits)


text \<open>A pattern that opens with a double star denies a path inside a segment as well.\<close>

lemma double_star_inside_segment: "path_matches_glob ''**/key'' ''src/monkey''"
proof -
  have "glob_matches (glob_tokens ''**/key'') (''src/mon'' @ ''key'')"
    by (simp add: glob_matches_simps star_def slash_def after_double_def)
  then show ?thesis by (simp add: path_matches_glob_def glob_inner_tokens)
qed

section \<open>Escalation\<close>

datatype EscalationKind = Slack | PagerDuty | GenericJson

record EscalationWebhook =
  wc_kind :: EscalationKind
  wc_url_secret_name :: string
  wc_channel :: "string option"
  wc_severity :: "string option"
  wc_headers :: "(string \<times> string) list"

record EscalationConfig =
  ec_enabled :: bool
  ec_on_events :: "string list"
  ec_webhooks :: "EscalationWebhook list"

definition escalation_permits :: "EscalationConfig \<Rightarrow> string \<Rightarrow> bool" where
  "escalation_permits c event_name \<longleftrightarrow> ec_enabled c \<and> list_ex (\<lambda>e. e = event_name) (ec_on_events c)"

datatype EscalationEvent = EvRequireHuman VibeGateVerdict | EvKillBellEngaged string string

fun escalation_name :: "EscalationEvent \<Rightarrow> string" where
  "escalation_name (EvRequireHuman v) = ''require_human''"
| "escalation_name (EvKillBellEngaged reason paused_by) = ''kill_bell_engaged''"

definition short_sha :: "string \<Rightarrow> string" where
  "short_sha sha = (if length sha \<ge> 7 then take 7 sha else sha)"

fun escalation_summary :: "EscalationEvent \<Rightarrow> string" where
  "escalation_summary (EvRequireHuman v) =
     ''[jeryu] RequireHuman on '' @ vv_repo v @ '' @ '' @ short_sha (vv_head_sha v) @ '' (risk='' @ risk_debug (vv_risk v)
     @ '', verdict='' @ vv_id v @ '')''"
| "escalation_summary (EvKillBellEngaged reason paused_by) = ''[jeryu] KillBellEngaged by '' @ paused_by @ '': '' @ reason"

fun escalation_json :: "'raw Codec \<Rightarrow> EscalationEvent \<Rightarrow> json_value" where
  "escalation_json c (EvRequireHuman v) = JObject [(''event'', JString ''require_human''), (''verdict'', cd_verdict_json c v)]"
| "escalation_json c (EvKillBellEngaged reason paused_by) =
     JObject [(''event'', JString ''kill_bell_engaged''), (''paused_by'', JString paused_by), (''reason'', JString reason)]"

fun build_payload :: "'raw Codec \<Rightarrow> EscalationEvent \<Rightarrow> EscalationKind \<Rightarrow> json_value" where
  "build_payload c ev Slack = JObject [(''text'', JString (escalation_summary ev))]"
| "build_payload c ev PagerDuty = JObject [(''event_action'', JString ''trigger''),
     (''payload'', JObject [(''custom_details'', escalation_json c ev),
       (''severity'', JString (case ev of EvKillBellEngaged _ _ \<Rightarrow> ''critical'' | EvRequireHuman _ \<Rightarrow> ''warning'')),
       (''source'', JString ''jeryu''), (''summary'', JString (escalation_summary ev))])]"
| "build_payload c ev GenericJson = JObject [(''event'', escalation_json c ev), (''event_name'', JString (escalation_name ev)),
     (''summary'', JString (escalation_summary ev))]"

datatype EscalationError = SecretMissing string | TransportFailed string | HttpStatus "16 word" string

record DispatchResult =
  dp_webhook_kind :: EscalationKind
  dp_status :: "16 word option"
  dp_error :: "string option"

fun dispatch_result :: "EscalationKind \<Rightarrow> (16 word, EscalationError) result \<Rightarrow> DispatchResult" where
  "dispatch_result k (Inr status) = \<lparr>dp_webhook_kind = k, dp_status = Some status, dp_error = None\<rparr>"
| "dispatch_result k (Inl (SecretMissing name)) =
     \<lparr>dp_webhook_kind = k, dp_status = None, dp_error = Some (''secret not resolvable: '' @ name)\<rparr>"
| "dispatch_result k (Inl (TransportFailed msg)) = \<lparr>dp_webhook_kind = k, dp_status = None, dp_error = Some (''transport error: '' @ msg)\<rparr>"
| "dispatch_result k (Inl (HttpStatus code body)) =
     \<lparr>dp_webhook_kind = k, dp_status = Some code, dp_error = Some (''http '' @ show_word code @ '': '' @ body)\<rparr>"

text \<open>The sink may keep state, which is passed along.\<close>

fun dispatch_webhooks :: "'raw Codec \<Rightarrow> EscalationEvent \<Rightarrow>
    (EscalationWebhook \<Rightarrow> json_value \<Rightarrow> 'sink \<Rightarrow> (16 word, EscalationError) result \<times> 'sink) \<Rightarrow> EscalationWebhook list \<Rightarrow> 'sink
    \<Rightarrow> DispatchResult list \<times> 'sink" where
  "dispatch_webhooks c ev deliver [] sink = ([], sink)"
| "dispatch_webhooks c ev deliver (wh # whs) sink =
     (let (r, sink1) = deliver wh (build_payload c ev (wc_kind wh)) sink;
          (out, sink2) = dispatch_webhooks c ev deliver whs sink1 in
      (dispatch_result (wc_kind wh) r # out, sink2))"

definition dispatch_all :: "'raw Codec \<Rightarrow> EscalationConfig \<Rightarrow> EscalationEvent \<Rightarrow>
    (EscalationWebhook \<Rightarrow> json_value \<Rightarrow> 'sink \<Rightarrow> (16 word, EscalationError) result \<times> 'sink) \<Rightarrow> 'sink \<Rightarrow> DispatchResult list \<times> 'sink" where
  "dispatch_all c config ev deliver sink =
     (if \<not> escalation_permits config (escalation_name ev) then ([], sink) else dispatch_webhooks c ev deliver (ec_webhooks config) sink)"

lemma dispatch_result_kind: "dp_webhook_kind (dispatch_result k r) = k"
  by (cases "(k, r)" rule: dispatch_result.cases) auto

lemma dispatch_webhooks_kinds: "map dp_webhook_kind (fst (dispatch_webhooks c ev deliver whs sink)) = map wc_kind whs"
  by (induction whs arbitrary: sink) (auto simp: dispatch_result_kind split: prod.splits, metis fst_conv)

text \<open>One result for every webhook, in order, whatever the earlier ones answered.\<close>

lemma dispatch_reaches_every_webhook:
  "escalation_permits config (escalation_name ev) \<Longrightarrow>
   map dp_webhook_kind (fst (dispatch_all c config ev deliver sink)) = map wc_kind (ec_webhooks config)"
  by (simp add: dispatch_all_def dispatch_webhooks_kinds)

end
