(* ===== verification/Review_Gate.thy ===== *)
theory Review_Gate
  imports Review_Agents "HOL-Library.Multiset"
begin

text \<open>
  The orchestrator of the reviewing agents and the judge of \<open>jeryu-review\<close>, and what they promise together
  with the evidence gate: every required role answers with one signed receipt bound to the pack, a merge
  rests on a passing answer for every required role, and the two judges of the repository agree.
\<close>

section \<open>Receipts of the orchestrator\<close>

fun receipt_role_to_id :: "ReviewerRole \<Rightarrow> ReviewerRoleId" where
  "receipt_role_to_id RoleSecurity = IdSecurity" | "receipt_role_to_id RoleTestIntegrity = IdTestIntegrity"
| "receipt_role_to_id RoleRuntime = IdRuntime" | "receipt_role_to_id RoleLockfile = IdLockfile"
| "receipt_role_to_id RoleNightwatch = IdNightwatch" | "receipt_role_to_id RoleJudge = IdSecurity"
| "receipt_role_to_id RoleReleaseShepherd = IdSecurity"

fun agent_id_for :: "ReviewerRole \<Rightarrow> string" where
  "agent_id_for RoleSecurity = ''reviewer-security.v1''" | "agent_id_for RoleTestIntegrity = ''reviewer-test-integrity.v1''"
| "agent_id_for RoleRuntime = ''reviewer-runtime.v1''" | "agent_id_for RoleLockfile = ''reviewer-lockfile.v1''"
| "agent_id_for RoleNightwatch = ''reviewer-nightwatch.v1''" | "agent_id_for RoleJudge = ''judge.v1''"
| "agent_id_for RoleReleaseShepherd = ''release-shepherd.v1''"

definition synth_id :: "AgentEnv \<Rightarrow> ReviewerRole \<Rightarrow> string \<Rightarrow> string" where
  "synth_id env role pack_id = ''aar_'' @ role_debug role @ ''_'' @ take 12 pack_id @ ''_'' @ show_int (rv_now env div 1000000)"

definition unsigned_abstain :: "AgentEnv \<Rightarrow> ReviewerRole \<Rightarrow> EvidencePack \<Rightarrow> string \<Rightarrow> AgentApprovalReceipt" where
  "unsigned_abstain env role pack reason =
     \<lparr>aar_id = synth_id env role (evp_id pack), aar_evidence_pack_id = evp_id pack, aar_role = role, aar_agent_id = agent_id_for role,
      aar_prompt_sha = None, aar_provider = None, aar_model = None, aar_temperature = None, aar_seed = None,
      aar_raw_response_sha = None, aar_head_sha = evp_head_sha pack, aar_policy_sha = evp_policy_sha pack,
      aar_decision = RdAbstain, aar_reason = Some reason, aar_findings = [], aar_not_author = True,
      aar_tokens = \<lparr>tc_prompt = 0, tc_completion = 0\<rparr>, aar_created_at = rv_now env, aar_signature = default_unsigned\<rparr>"

definition sign_canonical :: "AgentEnv \<Rightarrow> EdSigningKey \<Rightarrow> AgentApprovalReceipt \<Rightarrow> AuSignature" where
  "sign_canonical env key r = sign_raw (rv_crypto env) key (rv_receipt_json env (r\<lparr>aar_signature := default_unsigned\<rparr>))"

definition synth_abstain :: "AgentEnv \<Rightarrow> EdSigningKey \<Rightarrow> ReviewerRole \<Rightarrow> EvidencePack \<Rightarrow> string \<Rightarrow> AgentApprovalReceipt" where
  "synth_abstain env key role pack reason =
     (let r = unsigned_abstain env role pack reason in r\<lparr>aar_signature := sign_canonical env key r\<rparr>)"

section \<open>The orchestrator\<close>

definition ESTIMATED_REVIEWER_COST_MICRO_USD :: u64 where "ESTIMATED_REVIEWER_COST_MICRO_USD = 5000"

text \<open>Reading a prompt file returns its text or the whole error message.\<close>

record Orchestrator =
  or_router :: LlmRouter
  or_read :: "string \<Rightarrow> (string, string) result"
  or_signing_key :: EdSigningKey
  or_budget :: Budget

text \<open>What the concurrent tasks see: the spending when a role is taken up, when its task starts, and whether it panics.\<close>

record TaskView =
  tv_spawn :: "nat \<Rightarrow> TokenUsage"
  tv_start :: "nat \<Rightarrow> TokenUsage"
  tv_panic :: "nat \<Rightarrow> string option"

definition load_prompt :: "Orchestrator \<Rightarrow> ReviewerRole \<Rightarrow> (string, string) result" where
  "load_prompt orc role = or_read orc (prompt_path (receipt_role_to_id role))"

definition review_inputs :: "Orchestrator \<Rightarrow> EvidencePack \<Rightarrow> string \<Rightarrow> ReviewerRoleId \<Rightarrow> string \<Rightarrow> ReviewInputs" where
  "review_inputs orc pack diff rid prompt =
     \<lparr>ri_role = rid, ri_repo = evp_repo pack, ri_head_sha = evp_head_sha pack, ri_policy_sha = evp_policy_sha pack,
      ri_target_branch = evp_target_branch pack, ri_evidence_pack_id = evp_id pack, ri_diff = diff,
      ri_system_prompt_markdown = prompt, ri_evidence_pack_json = None, ri_signing_key = Some (or_signing_key orc)\<rparr>"

fun handled_role :: "ReviewerRole \<Rightarrow> ReviewerRoleId option" where
  "handled_role RoleSecurity = Some IdSecurity" | "handled_role RoleTestIntegrity = Some IdTestIntegrity"
| "handled_role RoleRuntime = Some IdRuntime" | "handled_role RoleLockfile = Some IdLockfile"
| "handled_role _ = None"

definition budget_gone :: "Orchestrator \<Rightarrow> TokenUsage \<Rightarrow> bool" where
  "budget_gone orc t = would_exceed (or_budget orc) ESTIMATED_REVIEWER_COST_MICRO_USD t"

definition budget_abstain :: "AgentEnv \<Rightarrow> Orchestrator \<Rightarrow> EvidencePack \<Rightarrow> ReviewerRole \<Rightarrow> AgentApprovalReceipt" where
  "budget_abstain env orc pack role =
     synth_abstain env (or_signing_key orc) role pack ''budget exhausted: would_exceed daily cap''"

definition run_task ::
  "AgentEnv \<Rightarrow> (string \<Rightarrow> string option) \<Rightarrow> Orchestrator \<Rightarrow> TokenUsage \<Rightarrow> EvidencePack \<Rightarrow> string \<Rightarrow> ReviewerRole \<Rightarrow> string
    \<Rightarrow> AgentApprovalReceipt \<times> TokenUsage option" where
  "run_task env var orc seen pack diff role prompt =
     (if budget_gone orc seen then (budget_abstain env orc pack role, None)
      else (case handled_role role of
              None \<Rightarrow> (synth_abstain env (or_signing_key orc) role pack
                (''role '' @ role_debug role @ '' is not handled by ReviewerOrchestrator''), None)
            | Some rid \<Rightarrow>
                let receipt = (case run_review env var (or_router orc) (review_inputs orc pack diff rid prompt) of
                        Ok r \<Rightarrow> r
                      | Err e \<Rightarrow> synth_abstain env (or_signing_key orc) role pack (''reviewer error: '' @ call_error_message e));
                    usage = \<lparr>tu_prompt_tokens = ucast (tc_prompt (aar_tokens receipt)),
                      tu_completion_tokens = ucast (tc_completion (aar_tokens receipt)),
                      tu_estimated_micro_usd = ESTIMATED_REVIEWER_COST_MICRO_USD\<rparr> in
                (if sg_algo (aar_signature receipt) = ''unsigned''
                 then receipt\<lparr>aar_signature := sign_canonical env (or_signing_key orc) receipt\<rparr> else receipt, Some usage)))"

datatype Spawned = Immediate AgentApprovalReceipt | Task "(AgentApprovalReceipt \<times> TokenUsage option, string) result"

definition spawn_role ::
  "AgentEnv \<Rightarrow> (string \<Rightarrow> string option) \<Rightarrow> Orchestrator \<Rightarrow> TaskView \<Rightarrow> EvidencePack \<Rightarrow> string \<Rightarrow> nat \<times> ReviewerRole \<Rightarrow> Spawned" where
  "spawn_role env var orc view pack diff = (\<lambda>(n, role).
     if budget_gone orc (tv_spawn view n) then Immediate (budget_abstain env orc pack role)
     else (case load_prompt orc role of
             Err e \<Rightarrow> Immediate (synth_abstain env (or_signing_key orc) role pack (''reviewer prompt unavailable: '' @ e))
           | Ok prompt \<Rightarrow>
               Task (case tv_panic view n of
                 Some e \<Rightarrow> Err e
               | None \<Rightarrow> Ok (run_task env var orc (tv_start view n) pack diff role prompt))))"

fun join_tasks ::
  "AgentEnv \<Rightarrow> Orchestrator \<Rightarrow> EvidencePack \<Rightarrow> ReviewerRole list \<Rightarrow> AgentApprovalReceipt list
    \<Rightarrow> (AgentApprovalReceipt \<times> TokenUsage option, string) result list \<Rightarrow> AgentApprovalReceipt list" where
  "join_tasks env orc pack required out [] = out"
| "join_tasks env orc pack required out (Inr (r, _) # ts) = join_tasks env orc pack required (out @ [r]) ts"
| "join_tasks env orc pack required out (Inl e # ts) =
     (let role = (case find (\<lambda>r. \<not> list_ex (\<lambda>x. aar_role x = r) out) required of Some r \<Rightarrow> r | None \<Rightarrow> RoleSecurity) in
      join_tasks env orc pack required
        (out @ [synth_abstain env (or_signing_key orc) role pack (''reviewer task panicked: '' @ e)]) ts)"

fun immediate_of :: "Spawned \<Rightarrow> AgentApprovalReceipt option" where
  "immediate_of (Immediate r) = Some r"
| "immediate_of (Task t) = None"

fun task_of :: "Spawned \<Rightarrow> (AgentApprovalReceipt \<times> TokenUsage option, string) result option" where
  "task_of (Immediate r) = None"
| "task_of (Task t) = Some t"

definition run_all ::
  "AgentEnv \<Rightarrow> (string \<Rightarrow> string option) \<Rightarrow> Orchestrator \<Rightarrow> TaskView \<Rightarrow> EvidencePack \<Rightarrow> ReviewerRole list \<Rightarrow> string
    \<Rightarrow> AgentApprovalReceipt list" where
  "run_all env var orc view pack required diff =
     (if required = [] then []
      else let spawned = map (spawn_role env var orc view pack diff) (List.enumerate 0 required) in
        join_tasks env orc pack required (List.map_filter immediate_of spawned) (List.map_filter task_of spawned))"

text \<open>What the tasks add to the spending of the day.\<close>

definition run_all_usage ::
  "AgentEnv \<Rightarrow> (string \<Rightarrow> string option) \<Rightarrow> Orchestrator \<Rightarrow> TaskView \<Rightarrow> EvidencePack \<Rightarrow> ReviewerRole list \<Rightarrow> string
    \<Rightarrow> TokenUsage \<Rightarrow> TokenUsage" where
  "run_all_usage env var orc view pack required diff t =
     fold budget_record (List.map_filter (\<lambda>r. case r of Ok (_, u) \<Rightarrow> u | Err _ \<Rightarrow> None)
       (List.map_filter task_of (map (spawn_role env var orc view pack diff) (List.enumerate 0 required)))) t"

section \<open>One receipt for every role\<close>

definition good_receipt :: "AgentEnv \<Rightarrow> (string \<Rightarrow> string option) \<Rightarrow> Orchestrator \<Rightarrow> EvidencePack \<Rightarrow> string \<Rightarrow> AgentApprovalReceipt \<Rightarrow> bool" where
  "good_receipt env var orc pack diff r \<longleftrightarrow> aar_evidence_pack_id r = evp_id pack \<and> aar_head_sha r = evp_head_sha pack
     \<and> aar_policy_sha r = evp_policy_sha pack \<and> aar_not_author r \<and> sg_algo (aar_signature r) = ''ed25519''
     \<and> aar_agent_id r = agent_id_for (aar_role r)
     \<and> (aar_decision r = RdPass \<longrightarrow> (\<exists>rid prompt. handled_role (aar_role r) = Some rid \<and> load_prompt orc (aar_role r) = Ok prompt
          \<and> vouched env var (or_router orc) (review_inputs orc pack diff rid prompt)))"

lemma synth_good [simp]: "good_receipt env var orc pack diff (synth_abstain env key role pack reason)"
  by (simp add: good_receipt_def synth_abstain_def unsigned_abstain_def sign_canonical_def sign_raw_def Let_def)

lemma synth_role [simp]: "aar_role (synth_abstain env key role pack reason) = role"
  by (simp add: synth_abstain_def unsigned_abstain_def Let_def)

lemma handled_role_id: "handled_role role = Some rid \<Longrightarrow> to_receipt_role rid = role \<and> role_agent_id rid = agent_id_for role"
  by (cases role) auto

lemma budget_abstain_good: "good_receipt env var orc pack diff (budget_abstain env orc pack role)" "aar_role (budget_abstain env orc pack role) = role"
  by (simp_all add: budget_abstain_def)

lemma reviewed_good:
  assumes run: "run_review env var (or_router orc) (review_inputs orc pack diff rid prompt) = Ok r"
    and role: "handled_role role = Some rid" and prompt: "load_prompt orc role = Ok prompt"
  shows "good_receipt env var orc pack diff r" "aar_role r = role"
proof -
  note f = run_review_receipt [OF run]
  have in_fields: "ri_role (review_inputs orc pack diff rid prompt) = rid"
    "ri_evidence_pack_id (review_inputs orc pack diff rid prompt) = evp_id pack"
    "ri_head_sha (review_inputs orc pack diff rid prompt) = evp_head_sha pack"
    "ri_policy_sha (review_inputs orc pack diff rid prompt) = evp_policy_sha pack"
    "ri_signing_key (review_inputs orc pack diff rid prompt) \<noteq> None"
    by (simp_all add: review_inputs_def)
  show r: "aar_role r = role" using f(1) in_fields(1) handled_role_id [OF role] by simp
  show "good_receipt env var orc pack diff r"
    unfolding good_receipt_def using f(2-8) in_fields handled_role_id [OF role] r role prompt by auto
qed

lemma run_task_good:
  assumes "load_prompt orc role = Ok prompt"
  shows "good_receipt env var orc pack diff (fst (run_task env var orc seen pack diff role prompt))"
    and "aar_role (fst (run_task env var orc seen pack diff role prompt)) = role"
proof -
  have "good_receipt env var orc pack diff (fst (run_task env var orc seen pack diff role prompt))
      \<and> aar_role (fst (run_task env var orc seen pack diff role prompt)) = role"
  proof (cases "budget_gone orc seen")
    case True
    then show ?thesis by (simp add: run_task_def budget_abstain_good)
  next
    case False
    show ?thesis
    proof (cases "handled_role role")
      case None
      then show ?thesis using False by (simp add: run_task_def)
    next
      case (Some rid)
      show ?thesis
      proof (cases "run_review env var (or_router orc) (review_inputs orc pack diff rid prompt)")
        case (Inl e)
        have "sg_algo (aar_signature (synth_abstain env (or_signing_key orc) role pack (''reviewer error: '' @ call_error_message e))) = ''ed25519''"
          using synth_good by (simp add: good_receipt_def)
        then show ?thesis using False Some Inl by (simp add: run_task_def Let_def)
      next
        case (Inr r)
        note g = reviewed_good [OF Inr Some assms]
        then have "sg_algo (aar_signature r) = ''ed25519''" by (simp add: good_receipt_def)
        then show ?thesis using False Some Inr g by (simp add: run_task_def Let_def)
      qed
    qed
  qed
  then show "good_receipt env var orc pack diff (fst (run_task env var orc seen pack diff role prompt))"
    and "aar_role (fst (run_task env var orc seen pack diff role prompt)) = role" by simp_all
qed

lemma spawn_role_good:
  "spawn_role env var orc view pack diff (n, role) = Immediate r \<Longrightarrow> good_receipt env var orc pack diff r \<and> aar_role r = role"
  "spawn_role env var orc view pack diff (n, role) = Task (Inr t) \<Longrightarrow> good_receipt env var orc pack diff (fst t) \<and> aar_role (fst t) = role"
  by (auto simp: spawn_role_def budget_abstain_good run_task_good split: if_splits sum.splits option.splits)

text \<open>The roles whose tasks are still to be joined.\<close>

lemma find_filter: "find P xs = (case filter P xs of [] \<Rightarrow> None | x # _ \<Rightarrow> Some x)"
  by (induction xs) auto

lemma join_tasks_roles:
  assumes "distinct required"
    and "filter (\<lambda>r. r \<notin> aar_role ` set out) required = map fst ts"
    and "\<And>role r. (role, Inr r) \<in> set ts \<Longrightarrow> good_receipt env var orc pack diff (fst r) \<and> aar_role (fst r) = role"
    and "\<And>r. r \<in> set out \<Longrightarrow> good_receipt env var orc pack diff r"
  shows "mset (map aar_role (join_tasks env orc pack required out (map snd ts))) = mset (map aar_role out) + mset (map fst ts)
    \<and> (\<forall>r\<in>set (join_tasks env orc pack required out (map snd ts)). good_receipt env var orc pack diff r)"
  using assms(2-4)
proof (induction ts arbitrary: out)
  case Nil
  then show ?case by simp
next
  case (Cons t ts)
  obtain role res where t: "t = (role, res)" by (cases t)
  have dist: "role \<notin> set (map fst ts)"
    using Cons.prems(1) assms(1) t by (metis distinct.simps(2) distinct_filter fst_conv list.simps(9))
  have missing: "find (\<lambda>r. \<not> list_ex (\<lambda>x. aar_role x = r) out) required = Some role"
  proof -
    have "(\<lambda>r. \<not> list_ex (\<lambda>x. aar_role x = r) out) = (\<lambda>r. r \<notin> aar_role ` set out)"
      by (auto simp: list_ex_iff fun_eq_iff)
    then have "filter (\<lambda>r. \<not> list_ex (\<lambda>x. aar_role x = r) out) required = role # map fst ts"
      using Cons.prems(1) t by simp
    then show ?thesis by (simp add: find_filter)
  qed
  define r where "r = (case res of Ok x \<Rightarrow> fst x
    | Err e \<Rightarrow> synth_abstain env (or_signing_key orc) role pack (''reviewer task panicked: '' @ e))"
  have r: "good_receipt env var orc pack diff r" "aar_role r = role"
    using Cons.prems(2) [of role] t by (auto simp: r_def split: sum.splits)
  have step: "join_tasks env orc pack required out (map snd (t # ts)) = join_tasks env orc pack required (out @ [r]) (map snd ts)"
    using missing by (cases res) (auto simp: t r_def)
  have rest: "filter (\<lambda>x. x \<notin> aar_role ` set (out @ [r])) required = map fst ts"
  proof -
    have "filter (\<lambda>x. x \<notin> aar_role ` set (out @ [r])) required = filter (\<lambda>x. x \<noteq> role) (filter (\<lambda>x. x \<notin> aar_role ` set out) required)"
      unfolding filter_filter using r(2) by (intro filter_cong) auto
    also have "\<dots> = filter (\<lambda>x. x \<noteq> role) (role # map fst ts)" using Cons.prems(1) t by simp
    also have "\<dots> = map fst ts" using dist by (auto simp: filter_id_conv)
    finally show ?thesis .
  qed
  have "mset (map aar_role (join_tasks env orc pack required (out @ [r]) (map snd ts))) = mset (map aar_role (out @ [r])) + mset (map fst ts)
      \<and> (\<forall>r\<in>set (join_tasks env orc pack required (out @ [r]) (map snd ts)). good_receipt env var orc pack diff r)"
  proof (rule Cons.IH [OF rest])
    show "good_receipt env var orc pack diff (fst x) \<and> aar_role (fst x) = q" if "(q, Inr x) \<in> set ts" for q x
      using that by (intro Cons.prems(2)) simp
    show "good_receipt env var orc pack diff x" if "x \<in> set (out @ [r])" for x
      using that Cons.prems(3) r(1) by auto
  qed
  then show ?case unfolding step using r(2) t by simp
qed

lemma spawned_roles:
  assumes "distinct (map snd xs)"
  shows "filter (\<lambda>r. r \<notin> aar_role ` set (List.map_filter immediate_of (map (spawn_role env var orc view pack diff) xs))) (map snd xs)
    = map fst (List.map_filter (\<lambda>x. map_option (Pair (snd x)) (task_of (spawn_role env var orc view pack diff x))) xs)"
proof -
  let ?f = "spawn_role env var orc view pack diff"
  have roles: "aar_role ` set (List.map_filter immediate_of (map ?f ys)) = snd ` {x \<in> set ys. immediate_of (?f x) \<noteq> None}" for ys
  proof (induction ys)
    case (Cons y ys)
    then show ?case
      using spawn_role_good(1) [of env var orc view pack diff "fst y" "snd y"]
      by (cases "?f y") (auto simp: map_filter_simps image_iff)
  qed (simp add: map_filter_simps)
  have "filter (\<lambda>r. r \<notin> snd ` {x \<in> set xs. immediate_of (?f x) \<noteq> None}) (map snd ys)
      = map fst (List.map_filter (\<lambda>x. map_option (Pair (snd x)) (task_of (?f x))) ys)" if "set ys \<subseteq> set xs" for ys
    using that
  proof (induction ys)
    case (Cons y ys)
    have "snd y \<in> snd ` {x \<in> set xs. immediate_of (?f x) \<noteq> None} \<longleftrightarrow> immediate_of (?f y) \<noteq> None"
      using Cons.prems assms by (auto simp: distinct_map inj_on_def)
    then show ?case using Cons by (cases "?f y") (auto simp: map_filter_simps)
  qed (simp add: map_filter_simps)
  then show ?thesis unfolding roles by simp
qed

lemma task_list:
  "List.map_filter task_of (map f xs) = map snd (List.map_filter (\<lambda>x. map_option (Pair (snd x)) (task_of (f x))) xs)"
  by (induction xs) (auto simp: map_filter_simps split: option.splits)

lemma spawned_partition:
  "mset (map aar_role (List.map_filter immediate_of (map (spawn_role env var orc view pack diff) xs)))
   + mset (map fst (List.map_filter (\<lambda>x. map_option (Pair (snd x)) (task_of (spawn_role env var orc view pack diff x))) xs)) = mset (map snd xs)"
proof (induction xs)
  case (Cons x xs)
  then show ?case
    using spawn_role_good(1) [of env var orc view pack diff "fst x" "snd x"]
    by (cases "spawn_role env var orc view pack diff x") (auto simp: map_filter_simps)
qed (simp add: map_filter_simps)

lemma map_filter_set: "y \<in> set (List.map_filter f xs) \<longleftrightarrow> (\<exists>x\<in>set xs. f x = Some y)"
  by (induction xs) (auto simp: map_filter_simps split: option.splits)

text \<open>
  The batch always completes. For distinct required roles the orchestrator returns exactly one receipt
  per role, whatever fails: every receipt is bound to the pack, signed with ed25519 and not the
  author's, and a passing one was answered for by its reviewer.
\<close>

theorem run_all_complete:
  assumes "distinct required"
  shows "mset (map aar_role (run_all env var orc view pack required diff)) = mset required
    \<and> (\<forall>r\<in>set (run_all env var orc view pack required diff). good_receipt env var orc pack diff r)"
proof (cases "required = []")
  case True
  then show ?thesis by (simp add: run_all_def)
next
  case False
  let ?xs = "List.enumerate 0 required"
  let ?f = "spawn_role env var orc view pack diff"
  let ?imm = "List.map_filter immediate_of (map ?f ?xs)"
  let ?ts = "List.map_filter (\<lambda>x. map_option (Pair (snd x)) (task_of (?f x))) ?xs"
  have names: "map snd ?xs = required" by simp
  have "mset (map aar_role (join_tasks env orc pack required ?imm (map snd ?ts))) = mset (map aar_role ?imm) + mset (map fst ?ts)
      \<and> (\<forall>r\<in>set (join_tasks env orc pack required ?imm (map snd ?ts)). good_receipt env var orc pack diff r)"
  proof (rule join_tasks_roles [OF assms])
    show "filter (\<lambda>r. r \<notin> aar_role ` set ?imm) required = map fst ?ts"
      using spawned_roles [of ?xs] assms by (simp add: names)
    show "good_receipt env var orc pack diff (fst r) \<and> aar_role (fst r) = role" if mem: "(role, Inr r) \<in> set ?ts" for role r
    proof -
      obtain y where "map_option (Pair (snd y)) (task_of (?f y)) = Some (role, Inr r)"
        using mem unfolding map_filter_set by blast
      then obtain n where "task_of (?f (n, role)) = Some (Inr r)" by (cases y) auto
      then show ?thesis using spawn_role_good(2) [of env var orc view pack diff n role r] by (cases "?f (n, role)") auto
    qed
    show "good_receipt env var orc pack diff r" if mem: "r \<in> set ?imm" for r
    proof -
      obtain y where "immediate_of (?f y) = Some r" using mem unfolding map_filter_set by auto
      then obtain n role where "immediate_of (?f (n, role)) = Some r" by (cases y) auto
      then show ?thesis using spawn_role_good(1) [of env var orc view pack diff n role r] by (cases "?f (n, role)") auto
    qed
  qed
  then show ?thesis
    using False spawned_partition [of env var orc view pack diff ?xs] by (simp add: run_all_def Let_def task_list names)
qed

section \<open>The judge of the review crate\<close>

definition rv_cond_evidence_signature_invalid :: CondFn where
  "rv_cond_evidence_signature_invalid env p rs =
     (case evp_signature p of
        Some s \<Rightarrow>
          if sg_algo s = ''ed25519'' then None
          else if sg_algo s = ''unsigned'' then
            Some (stop ''evidence_signature_invalid''
              (''evidence pack is unsigned (algo: '' @ [CHR 0x27] @ ''unsigned'' @ [CHR 0x27] @ ''); not acceptable in enforcement'')
              (JObject [(''algo'', JString (sg_algo s))]))
          else if sg_algo s = ''hmac-insecure'' then
            Some (stop ''evidence_signature_invalid''
              ''evidence pack signed with insecure HMAC; ed25519 required in enforcement'' (JObject [(''algo'', JString (sg_algo s))]))
          else
            Some (stop ''evidence_signature_invalid''
              (''evidence pack signed with unknown algo '' @ [CHR 0x27] @ sg_algo s @ [CHR 0x27]) (JObject [(''algo'', JString (sg_algo s))]))
      | None \<Rightarrow> Some (stop ''evidence_signature_invalid'' ''evidence pack is unsigned'' JNull))"

definition rv_cond_dependency_scan_failed :: CondFn where
  "rv_cond_dependency_scan_failed env p rs =
     stop_if (ss_dependency_scan (evp_security p) = ScanFailed) (stop ''dependency_scan_failed'' ''dependency scan failed'' JNull)"

definition rv_cond_reviewer_abstained_required :: CondFn where
  "rv_cond_reviewer_abstained_required env p rs =
     stop_if (list_ex (\<lambda>r. aar_decision r = RdAbstain) rs) (stop ''reviewer_abstained_required'' ''a required reviewer abstained'' JNull)"

definition rv_cond_lockfile_only_change :: CondFn where
  "rv_cond_lockfile_only_change env p rs =
     stop_if (sc_lockfile_only_change (evp_supply_chain p)) (stop ''lockfile_only_change'' ''change touches only the lockfile'' JNull)"

definition rv_registry :: "(string \<times> CondFn) list" where
  "rv_registry =
     [(''evidence_missing'', cond_evidence_missing), (''evidence_signature_invalid'', rv_cond_evidence_signature_invalid),
      (''secret_scan_failed'', cond_secret_scan_failed), (''secret_scan_missing'', cond_secret_scan_missing),
      (''sast_failed'', cond_sast_failed), (''dependency_scan_failed'', rv_cond_dependency_scan_failed),
      (''reviewer_blocked'', cond_reviewer_blocked), (''reviewer_abstained_required'', rv_cond_reviewer_abstained_required),
      (''lockfile_only_change'', rv_cond_lockfile_only_change), (''codeowners_not_satisfied'', cond_externally_supplied),
      (''freeze_window_active'', cond_externally_supplied), (''budget_exceeded'', cond_externally_supplied),
      (''sha_drift'', cond_externally_supplied)]"

fun rv_registry_evaluate :: "AuEnv \<Rightarrow> string list \<Rightarrow> EvidencePack \<Rightarrow> AgentApprovalReceipt list \<Rightarrow> HardStop list" where
  "rv_registry_evaluate env [] p rs = []"
| "rv_registry_evaluate env (name # names) p rs =
     (case map_of rv_registry name of
        Some c \<Rightarrow> (case c env p rs of Some h \<Rightarrow> h # rv_registry_evaluate env names p rs | None \<Rightarrow> rv_registry_evaluate env names p rs)
      | None \<Rightarrow> unknown_condition name # rv_registry_evaluate env names p rs)"

text \<open>The quorum, the binding of receipts and the record of a verdict are those of the evidence gate, line by line.\<close>

definition review_judge :: "AuEnv \<Rightarrow> JudgeInputs \<Rightarrow> JudgeOutcome" where
  "review_judge env i =
     (let dropped = map aar_id (filter (\<lambda>r. verify_sha_binding (ji_pack i) r \<noteq> Ok ()) (ji_receipts i));
          hits = rv_registry_evaluate env (map he_name (ap_hard_stops (pb_approvals (ji_policy i)))) (ji_pack i) (bound_receipts i)
            @ ji_external_hard_stops i in
      if hits \<noteq> [] then \<lparr>jo_verdict = gate_verdict env i (map hs_name hits) Reject, jo_dropped_receipts = dropped\<rparr>
      else
        let outcome = evaluate_quorum (evp_risk (ji_pack i)) (bound_receipts i) (pb_approvals (ji_policy i)) (ji_author_agent i) in
        \<lparr>jo_verdict = gate_verdict env i [] (gate_of_quorum (qo_decision outcome)), jo_dropped_receipts = dropped\<rparr>)"

definition default_enforcing_quorum :: "RiskTier \<Rightarrow> QuorumEntry option" where
  "default_enforcing_quorum tier = Some (case tier of
       R0 \<Rightarrow> \<lparr>qe_approvals_needed = 1, qe_roles = [RoleTestIntegrity], qe_human_required = False, qe_fail_closed = False, qe_fail_closed_without_human = False\<rparr>
     | R1 \<Rightarrow> \<lparr>qe_approvals_needed = 1, qe_roles = [RoleTestIntegrity], qe_human_required = False, qe_fail_closed = False, qe_fail_closed_without_human = False\<rparr>
     | R2 \<Rightarrow> \<lparr>qe_approvals_needed = 2, qe_roles = [RoleSecurity, RoleTestIntegrity], qe_human_required = False, qe_fail_closed = False, qe_fail_closed_without_human = False\<rparr>
     | R3 \<Rightarrow> \<lparr>qe_approvals_needed = 2, qe_roles = [RoleSecurity, RoleTestIntegrity], qe_human_required = True, qe_fail_closed = False, qe_fail_closed_without_human = True\<rparr>
     | _ \<Rightarrow> \<lparr>qe_approvals_needed = 0, qe_roles = [], qe_human_required = True, qe_fail_closed = True, qe_fail_closed_without_human = True\<rparr>)"

definition default_enforcing :: PolicyBundle where
  "default_enforcing = \<lparr>pb_approvals = \<lparr>ap_schema = ''vibegate.approvals.v1'', ap_invariants = ApprovalRules_default,
     ap_hard_stops = map (\<lambda>n. \<lparr>he_name = n, he_reason = None\<rparr>) [''evidence_signature_invalid'', ''secret_scan_failed'',
       ''secret_scan_missing'', ''sast_failed'', ''dependency_scan_failed'', ''reviewer_blocked''],
     ap_required_ci_lanes = [], ap_quorum = default_enforcing_quorum, ap_verdict_ttl_minutes = Some 60,
     ap_re_judge_on = [''new_commit_on_pr'', ''policy_change_on_target'', ''verdict_ttl_expired'']\<rparr>, pb_freeze = None\<rparr>"

section \<open>The two judges agree\<close>

definition agree_on :: "CondFn \<Rightarrow> CondFn \<Rightarrow> bool" where
  "agree_on c d \<longleftrightarrow> (\<forall>env p rs. map_option hs_name (c env p rs) = map_option hs_name (d env p rs))"

lemma agree_refl [simp]: "agree_on c c"
  by (simp add: agree_on_def)

lemma conditions_agree:
  "agree_on rv_cond_evidence_signature_invalid cond_evidence_signature_invalid"
  "agree_on rv_cond_dependency_scan_failed cond_dependency_scan_failed"
  "agree_on rv_cond_reviewer_abstained_required cond_reviewer_abstained_required"
  "agree_on rv_cond_lockfile_only_change cond_lockfile_only_change"
  by (simp_all add: agree_on_def rv_cond_evidence_signature_invalid_def cond_evidence_signature_invalid_def
      rv_cond_dependency_scan_failed_def cond_dependency_scan_failed_def rv_cond_reviewer_abstained_required_def
      cond_reviewer_abstained_required_def rv_cond_lockfile_only_change_def cond_lockfile_only_change_def
      stop_if_def stop_def split: option.splits)

lemma shared_conditions:
  "registry_lookup ''evidence_missing'' = Some cond_evidence_missing"
  "registry_lookup ''evidence_signature_invalid'' = Some cond_evidence_signature_invalid"
  "registry_lookup ''secret_scan_failed'' = Some cond_secret_scan_failed"
  "registry_lookup ''secret_scan_missing'' = Some cond_secret_scan_missing"
  "registry_lookup ''sast_failed'' = Some cond_sast_failed"
  "registry_lookup ''dependency_scan_failed'' = Some cond_dependency_scan_failed"
  "registry_lookup ''reviewer_blocked'' = Some cond_reviewer_blocked"
  "registry_lookup ''reviewer_abstained_required'' = Some cond_reviewer_abstained_required"
  "registry_lookup ''lockfile_only_change'' = Some cond_lockfile_only_change"
  "registry_lookup ''codeowners_not_satisfied'' = Some cond_externally_supplied"
  "registry_lookup ''freeze_window_active'' = Some cond_externally_supplied"
  "registry_lookup ''budget_exceeded'' = Some cond_externally_supplied"
  "registry_lookup ''sha_drift'' = Some cond_externally_supplied"
  unfolding registry_lookup_def registry_def MISSING_REQUIRED_CI_CHECK_def FAILED_REQUIRED_CI_CHECK_def by simp_all

lemma registry_entries_agree: "\<forall>(name, c)\<in>set rv_registry. \<exists>d. registry_lookup name = Some d \<and> agree_on c d"
  unfolding rv_registry_def by (simp add: shared_conditions conditions_agree)

lemma registries_agree:
  "map_of rv_registry name = Some c \<Longrightarrow> \<exists>d. registry_lookup name = Some d \<and> agree_on c d"
  using registry_entries_agree map_of_SomeD by fastforce

lemma evaluations_agree:
  assumes "\<forall>name\<in>set names. map_of rv_registry name \<noteq> None"
  shows "map hs_name (rv_registry_evaluate env names p rs) = map hs_name (registry_evaluate env names p rs)"
  using assms
proof (induction names)
  case (Cons name names)
  then obtain c where c: "map_of rv_registry name = Some c" by auto
  obtain d where d: "registry_lookup name = Some d" "agree_on c d" using registries_agree [OF c] by blast
  then have "map_option hs_name (c env p rs) = map_option hs_name (d env p rs)" by (simp add: agree_on_def)
  then show ?case using Cons c d(1) by (cases "c env p rs"; cases "d env p rs") simp_all
qed simp

text \<open>
  C31. The repository has two judges, and they agree. On a policy that asks for no CI lanes and names only hard
  stops the review crate knows (its shipped default among them), both return the same verdict and the
  same dropped receipts for the same inputs.
\<close>

theorem judges_agree:
  assumes lanes: "ap_required_ci_lanes (pb_approvals (ji_policy i)) = []"
    and known: "\<forall>h\<in>set (ap_hard_stops (pb_approvals (ji_policy i))). map_of rv_registry (he_name h) \<noteq> None"
  shows "review_judge env i = judge env i"
proof -
  let ?names = "map he_name (ap_hard_stops (pb_approvals (ji_policy i)))"
  have names: "map hs_name (rv_registry_evaluate env ?names (ji_pack i) (bound_receipts i))
      = map hs_name (registry_evaluate env ?names (ji_pack i) (bound_receipts i))"
    by (rule evaluations_agree) (use known in simp)
  have hits: "judge_hits env i = registry_evaluate env ?names (ji_pack i) (bound_receipts i) @ ji_external_hard_stops i"
    by (simp add: judge_hits_def ci_hard_stops_def lanes map_filter_simps)
  have "map hs_name (rv_registry_evaluate env ?names (ji_pack i) (bound_receipts i) @ ji_external_hard_stops i) = map hs_name (judge_hits env i)"
    using names by (simp add: hits)
  moreover from this have "rv_registry_evaluate env ?names (ji_pack i) (bound_receipts i) @ ji_external_hard_stops i = [] \<longleftrightarrow> judge_hits env i = []"
    by (metis map_is_Nil_conv)
  ultimately show ?thesis
    unfolding review_judge_def judge_def Let_def by (auto split: if_splits)
qed

theorem judges_agree_witness:
  "review_judge sample_gate_env ((sample_gate_inputs R2)\<lparr>ji_policy := default_enforcing\<rparr>)
   = judge sample_gate_env ((sample_gate_inputs R2)\<lparr>ji_policy := default_enforcing\<rparr>)"
  by (rule judges_agree) (simp_all add: default_enforcing_def rv_registry_def)

section \<open>A merge rests on reviews\<close>

text \<open>
  C25. A merge rests on reviews. When the judge allows a change on the receipts the orchestrator returned, then
  for every role the policy requires of the tier the prompt of that reviewer was read, the diff carried
  no recognised secret (or the scrub was switched off), a provider of the role's chain answered, and its
  answer was a receipt that passed. Failures of any kind, panics and an exhausted budget included, cannot
  lead to a merge.
\<close>

theorem merge_rests_on_reviews:
  assumes roles: "quorum_for (ji_policy i) (evp_risk (ji_pack i)) = Some q"
    and dist: "distinct (qe_roles q)"
    and receipts: "ji_receipts i = run_all env var orc view (ji_pack i) (qe_roles q) diff"
    and allow: "vv_decision (jo_verdict (judge gate i)) = AllowMerge"
    and role: "role \<in> set (qe_roles q)"
  shows "\<exists>rid prompt resp p. to_receipt_role rid = role \<and> load_prompt orc role = Ok prompt
    \<and> (\<not> mentions_secret env diff \<or> var ''JERYU_LLM_SCRUB_SKIP'' = Some ''1'')
    \<and> dispatch (or_router orc) (chain_key rid)
        (build_reviewer_messages (prompt_inputs (review_inputs orc (ji_pack i) diff rid prompt))) = Ok resp
    \<and> extract_receipt_json env (cr_content resp) = Ok p \<and> map to_ascii_lowercase (pr_decision p) = ''pass''"
proof -
  let ?counted = "counted_receipts (ap_invariants (pb_approvals (ji_policy i))) (ji_author_agent i) (bound_receipts i)"
  have "set (qe_roles q) \<subseteq> set (roles_with RdPass ?counted)"
    using allow roles by (auto simp: judge_allows evaluate_quorum_met quorum_for_def)
  then obtain r where r: "r \<in> set ?counted" "aar_role r = role" "aar_decision r = RdPass"
    using role by (auto simp: roles_with_def)
  then have "r \<in> set (ji_receipts i)" using counted_subset by (fastforce simp: bound_receipt)
  then have "good_receipt env var orc (ji_pack i) diff r"
    using run_all_complete [OF dist] receipts by metis
  then obtain rid prompt where v: "handled_role role = Some rid" "load_prompt orc role = Ok prompt"
      "vouched env var (or_router orc) (review_inputs orc (ji_pack i) diff rid prompt)"
    using r by (auto simp: good_receipt_def)
  have scrub: "sr_passed (scrub_diff env var diff) \<Longrightarrow> \<not> mentions_secret env diff \<or> var ''JERYU_LLM_SCRUB_SKIP'' = Some ''1''"
    by (auto simp: scrub_diff_def scrub_diff_with_skip_def Let_def scan_clean split: if_splits)
  have "ri_role (review_inputs orc (ji_pack i) diff rid prompt) = rid" "ri_diff (review_inputs orc (ji_pack i) diff rid prompt) = diff"
    by (simp_all add: review_inputs_def)
  then show ?thesis using v(2,3) scrub handled_role_id [OF v(1)] unfolding vouched_def by metis
qed

section \<open>A sample review\<close>

definition sample_agent_env :: AgentEnv where
  "sample_agent_env = \<lparr>rv_re_find = (\<lambda>_ _. None), rv_receipt = (\<lambda>_. Some \<lparr>pr_role = ''test_integrity'', pr_decision = ''pass'',
       pr_reason = None, pr_findings = []\<rparr>), rv_finding = (\<lambda>_. None), rv_preview = id, rv_receipt_json = (\<lambda>_. []),
     rv_crypto = sample_crypto, rv_now = 0\<rparr>"

definition sample_answer :: CallResponse where
  "sample_answer = \<lparr>cr_provider = ''p'', cr_model = ''m'', cr_content = ''{}'', cr_prompt_tokens = None, cr_completion_tokens = None,
     cr_raw_response_sha = ''sha256:0'', cr_latency_ms = 1\<rparr>"

definition sample_router :: LlmRouter where
  "sample_router = add_chain \<lparr>rc_role = ''reviewer-test-integrity'', rc_entries = [\<lparr>rc_provider = \<lparr>lp_id = ''p'', lp_data_use = NoTrain,
       lp_call = (\<lambda>_ _. Ok sample_answer)\<rparr>, rc_params = \<lparr>cl_model = ''m'', cl_temperature = Finite 0, cl_max_tokens = 1024,
       cl_timeout_ms = 30000, cl_seed = None, cl_extra_headers = []\<rparr>\<rparr>], rc_forbid_train_on_input = True\<rparr> Map.empty"

definition sample_orc :: Orchestrator where
  "sample_orc = \<lparr>or_router = sample_router, or_read = (\<lambda>_. Ok ''review''), or_signing_key = from_seed ''k'' [],
     or_budget = \<lparr>bg_daily_micro_usd_cap = 1000000000, bg_per_pr_micro_usd_cap = 50000000\<rparr>\<rparr>"

definition sample_view :: TaskView where
  "sample_view = \<lparr>tv_spawn = (\<lambda>_. \<lparr>tu_prompt_tokens = 0, tu_completion_tokens = 0, tu_estimated_micro_usd = 0\<rparr>),
     tv_start = (\<lambda>_. \<lparr>tu_prompt_tokens = 0, tu_completion_tokens = 0, tu_estimated_micro_usd = 0\<rparr>), tv_panic = (\<lambda>_. None)\<rparr>"

definition sample_reviews :: "AgentApprovalReceipt list" where
  "sample_reviews = run_all sample_agent_env (\<lambda>_. None) sample_orc sample_view (sample_gate_pack R0) [RoleTestIntegrity] ''+ x''"

definition sample_review_inputs :: JudgeInputs where
  "sample_review_inputs = JudgeInputs_new (sample_gate_pack R0) sample_reviews default_enforcing ''o/r'' ''main''"

lemma sample_budget: "\<not> budget_gone sample_orc (tv_spawn sample_view n)" "\<not> budget_gone sample_orc (tv_start sample_view n)"
  by (simp_all add: budget_gone_def would_exceed_def sample_orc_def sample_view_def ESTIMATED_REVIEWER_COST_MICRO_USD_def)

lemma sample_review_decision:
  "\<exists>r. run_review sample_agent_env (\<lambda>_. None) sample_router (review_inputs sample_orc (sample_gate_pack R0) ''+ x'' IdTestIntegrity ''review'') = Ok r
     \<and> aar_decision r = RdPass"
proof -
  let ?i = "review_inputs sample_orc (sample_gate_pack R0) ''+ x'' IdTestIntegrity ''review''"
  have scrub: "sr_passed (scrub_diff sample_agent_env (\<lambda>_. None) (ri_diff ?i))"
    by (simp add: scrub_diff_def scrub_diff_with_skip_def Let_def scan_clean mentions_secret_def sample_agent_env_def)
  have ask: "dispatch sample_router (chain_key (ri_role ?i)) m = Ok sample_answer" for m
    by (simp add: dispatch_def sample_router_def add_chain_def review_inputs_def)
  have "aar_decision (answer_receipt sample_agent_env ?i sample_answer) = RdPass"
    by (simp add: answer_receipt_def Let_def extract_receipt_json_def sample_agent_env_def map_parsed_to_receipt_def decision_of_def
        to_ascii_lowercase_def is_ascii_uppercase_def)
  then show ?thesis using scrub ask by (simp add: run_review_def Let_def split: option.splits)
qed

lemma sample_reviews_pass: "\<exists>r. sample_reviews = [r] \<and> aar_decision r = RdPass \<and> aar_role r = RoleTestIntegrity
    \<and> good_receipt sample_agent_env (\<lambda>_. None) sample_orc (sample_gate_pack R0) ''+ x'' r"
proof -
  obtain r where r: "run_review sample_agent_env (\<lambda>_. None) (or_router sample_orc)
      (review_inputs sample_orc (sample_gate_pack R0) ''+ x'' IdTestIntegrity ''review'') = Ok r" "aar_decision r = RdPass"
    using sample_review_decision by (auto simp: sample_orc_def)
  have prompt: "load_prompt sample_orc RoleTestIntegrity = Ok ''review''"
    by (simp add: load_prompt_def sample_orc_def)
  note g = reviewed_good [OF r(1) _ prompt]
  have "sg_algo (aar_signature r) = ''ed25519''" using g(1) by (simp add: good_receipt_def)
  then obtain u where "run_task sample_agent_env (\<lambda>_. None) sample_orc (tv_start sample_view 0) (sample_gate_pack R0) ''+ x'' RoleTestIntegrity ''review'' = (r, u)"
    using sample_budget r(1) by (simp add: run_task_def Let_def)
  moreover have "tv_panic sample_view 0 = None" by (simp add: sample_view_def)
  ultimately have "sample_reviews = [r]"
    using sample_budget prompt by (simp add: sample_reviews_def run_all_def spawn_role_def map_filter_simps Let_def)
  then show ?thesis using r(2) g by (intro exI [of _ r]) simp
qed

lemma sample_review_allows: "vv_decision (jo_verdict (judge sample_gate_env sample_review_inputs)) = AllowMerge"
proof -
  obtain r where r: "sample_reviews = [r]" "aar_decision r = RdPass" "aar_role r = RoleTestIntegrity"
      "good_receipt sample_agent_env (\<lambda>_. None) sample_orc (sample_gate_pack R0) ''+ x'' r"
    using sample_reviews_pass by blast
  have i: "ji_pack sample_review_inputs = sample_gate_pack R0" "ji_policy sample_review_inputs = default_enforcing"
    "ji_receipts sample_review_inputs = [r]" "ji_author_agent sample_review_inputs = None" "ji_external_hard_stops sample_review_inputs = []"
    by (simp_all add: sample_review_inputs_def JudgeInputs_new_def r(1))
  have bound: "bound_receipts sample_review_inputs = [r]"
    using r(4) by (simp add: bound_receipts_def i verify_sha_binding_def good_receipt_def)
  have clear: "judge_hits sample_gate_env sample_review_inputs = []"
    by (simp add: judge_hits_def i bound registry_evaluate_clear ci_hard_stops_clear default_enforcing_def registry_lookup_def registry_def
        cond_evidence_signature_invalid_def cond_secret_scan_failed_def cond_secret_scan_missing_def cond_sast_failed_def
        cond_dependency_scan_failed_def cond_reviewer_blocked_def stop_if_def sample_gate_pack_def sample_gate_sig_def r(2))
  have "counted_receipts ApprovalRules_default None [r] = [r]"
    using r(4) by (simp add: counted_receipts_def without_author_def ApprovalRules_default_def good_receipt_def)
  moreover have "evp_risk (sample_gate_pack R0) = R0" by (simp add: sample_gate_pack_def)
  ultimately show ?thesis
    using r(2,3) by (simp add: judge_allows clear bound i evaluate_quorum_met default_enforcing_def default_enforcing_quorum_def roles_with_def)
qed

theorem merge_rests_on_reviews_witness:
  "\<exists>rid resp. to_receipt_role rid = RoleTestIntegrity
     \<and> dispatch sample_router (chain_key rid)
         (build_reviewer_messages (prompt_inputs (review_inputs sample_orc (sample_gate_pack R0) ''+ x'' rid ''review''))) = Ok resp"
proof -
  let ?q = "\<lparr>qe_approvals_needed = 1, qe_roles = [RoleTestIntegrity], qe_human_required = False, qe_fail_closed = False,
    qe_fail_closed_without_human = False\<rparr>"
  have pack: "ji_pack sample_review_inputs = sample_gate_pack R0"
    by (simp add: sample_review_inputs_def JudgeInputs_new_def)
  have q: "quorum_for (ji_policy sample_review_inputs) (evp_risk (ji_pack sample_review_inputs)) = Some ?q"
    by (simp add: pack sample_review_inputs_def JudgeInputs_new_def quorum_for_def default_enforcing_def default_enforcing_quorum_def
        sample_gate_pack_def)
  have receipts: "ji_receipts sample_review_inputs = run_all sample_agent_env (\<lambda>_. None) sample_orc sample_view (ji_pack sample_review_inputs)
      (qe_roles ?q) ''+ x''"
    by (simp add: pack sample_reviews_def [symmetric]) (simp add: sample_review_inputs_def JudgeInputs_new_def)
  have prompt: "load_prompt sample_orc RoleTestIntegrity = Ok t \<longleftrightarrow> t = ''review''" for t
    by (auto simp: load_prompt_def sample_orc_def)
  have router: "or_router sample_orc = sample_router" by (simp add: sample_orc_def)
  show ?thesis
    using merge_rests_on_reviews [OF q _ receipts sample_review_allows, of RoleTestIntegrity]
    by (simp add: pack prompt router) blast
qed

end
