(* ===== verification/Spec2Isabelle.thy ===== *)
theory Spec2Isabelle
  imports Ci_Compiler Lease_Book Node_Registry Merge_Queue Cache_Policy Runner_Receipt Forge_Lifecycle Review_Custody Ref_Journal
    Cache_Service Git_Guard Autonomy_Lease Review_Gate
begin

text \<open>
  A verification library for jeryu, a forge with its own continuous integration. Paths below are
  relative to \<open>src/components\<close>.

  \<^bold>\<open>The program.\<close> Two halves are modelled, and three services that guard them.

  The first is the CI control plane (\<open>jeryu-ci-runner/crates\<close>, with \<open>jeryu-proof\<close> and the proof
  records of \<open>jeryu-core\<close>). A workflow file is compiled (\<open>jeryu-ci-compiler\<close>) to a pipeline
  (\<open>jeryu-ci-ir\<close>), which is validated, hashed and laid out in rounds
  (\<open>jeryu-ci-scheduler/schedule.rs\<close>); a lease book (\<open>leases/book.rs\<close>) hands its jobs to runners,
  takes their results and retries what expires; a registry (\<open>jeryu-runner-registry\<close>) keeps the
  runner nodes with their epochs and capacity; the runner core reads job files, selects a runner and
  plans its sandbox; cache policy and fingerprints decide what a job may share; the proof engine
  plans and verifies evidence for a pull request, and the merge queue admits and settles them.

  The second is the forge core (\<open>jeryu-core/crates/jeryu-core/src\<close>), one \<open>State\<close> behind a lock
  with some eighty operations on it: accounts, sessions, tokens and invitations; repositories with
  journalled creation, deletion and transfer; pull requests, reviews, checks, issues, webhooks and
  audit scores; branch protection, which decides what may be merged; and reviews bound to a
  challenge, which are the only ones that count; and a journal of the Git ref operations (merges and
  ref updates) that are prepared, applied outside and reconciled with what Git shows. Every mutation passes an admission wrapper, changes
  a copy-on-failure state and is persisted before it becomes visible.

  The services are the build cache (\<open>jeryu-cache\<close>), which stores objects by their digest and decides
  by tier and layer who may write, read and promote them; the guard (\<open>jeryu-release-ops/crates/jeryu-git-guard\<close>)
  in front of the Git program of a confined agent; and the evidence gate
  (\<open>jeryu-intelligence/crates/jeryu-autonomy\<close> with \<open>jeryu-signing\<close>), whose judge fuses an evidence pack, the
  receipts of reviewing agents and a policy into a verdict, with a signed ledger, a verdict store, a kill
  bell, a full-auto profile and capability leases around it. The receipts come from \<open>jeryu-review\<close>, which
  scrubs a diff, asks language models through a chain of providers and never lets a failure pass.

  \<^bold>\<open>Theories and sources.\<close>
  \<^item> \<open>Jeryu_Prelude\<close>, \<open>Btree\<close>, \<open>Rust_Text\<close>, \<open>Reachability\<close>: results, checked and saturating
    arithmetic, ordered maps and sets, the string functions of the standard library, and the locale
    of a transition system with an invariant and a history relation.
  \<^item> \<open>Ci_Hashing\<close>, \<open>Ci_Ir\<close>: \<open>jeryu-ci-ir\<close>. \<open>Ci_Compiler\<close>: \<open>jeryu-ci-compiler\<close>. \<open>Ci_Schedule\<close>: \<open>jeryu-ci-scheduler/schedule.rs\<close>.
    \<open>Lease_Book\<close>: \<open>leases/\<close>. \<open>Merge_Queue\<close>: \<open>merge_queue.rs\<close>, \<open>simulation.rs\<close>.
  \<^item> \<open>Runner_Protocol\<close>: \<open>jeryu-runner-protocol/lib.rs\<close>. \<open>Node_Registry\<close>: \<open>jeryu-runner-registry\<close>.
    \<open>Cache_Policy\<close>: \<open>jeryu-cache-policy\<close>. \<open>Proof_Engine\<close>: \<open>jeryu-proof\<close> and \<open>jeryu-core/phase7.rs\<close>.
  \<^item> \<open>Runner_Job\<close>, \<open>Runner_Policy\<close>, \<open>Runner_Receipt\<close>: \<open>jeryu-runner-core\<close>.
  \<^item> \<open>Forge_Model\<close>: \<open>model/\<close>, \<open>errors.rs\<close>. \<open>Branch_Protection\<close>: \<open>branch_protection/\<close>.
    \<open>Forge_State\<close>: \<open>engine/mod.rs\<close>, \<open>actors.rs\<close> (eligibility), the reduction of bound reviews.
    \<open>Forge_Admission\<close>: \<open>engine/mutation.rs\<close>. \<open>Forge_Core\<close>: accounts, repositories, rules, readmes
    and pull requests. \<open>Forge_Activity\<close>: reviews, checks, statuses, issues, webhooks, scores.
    \<open>Forge_Transfer\<close>: \<open>repository_transfer.rs\<close> and \<open>repository_transfer_state.rs\<close>. \<open>Forge_Auth\<close>:
    \<open>auth.rs\<close>, \<open>auth/crypto.rs\<close>, \<open>actors.rs\<close>. \<open>Forge_Reviews\<close>: \<open>bound_reviews.rs\<close> and
    \<open>storage/bound_reviews.rs\<close>. \<open>Ref_Operations\<close>: \<open>ref_operations.rs\<close> and
    \<open>storage/ref_operations.rs\<close>.
  \<^item> \<open>Forge_System\<close>, \<open>Forge_Invariant\<close>: every public mutation as a call of one transition system,
    its invariant and what a run may only grow. \<open>Forge_Guarantees\<close>, \<open>Forge_Lifecycle\<close>,
    \<open>Review_Custody\<close>: the properties of runs. \<open>Ref_Journal\<close>: the runs of the journal of ref
    operations. \<open>Review_Sample\<close>: the concrete forge the witnesses of both run on.
  \<^item> \<open>Cache_Core\<close>: \<open>jeryu-cache-core\<close>. \<open>Cache_Service\<close>: \<open>jeryu-cache-service\<close> and the runs of the
    service. \<open>Git_Guard\<close>: \<open>jeryu-git-guard\<close>. \<open>Json_Value\<close>: JSON values.
  \<^item> \<open>Autonomy_Model\<close>: \<open>types/\<close>, \<open>conditions/\<close>, \<open>sha_bind.rs\<close>, \<open>quorum.rs\<close>, \<open>freeze.rs\<close>, \<open>judge/\<close> and
    \<open>full_auto.rs\<close> of \<open>jeryu-autonomy\<close>. \<open>Autonomy_Gate\<close>: what a verdict means. \<open>Autonomy_Stores\<close>: \<open>jeryu-signing\<close>,
    \<open>evidence.rs\<close>, \<open>ledger/\<close>, \<open>replay.rs\<close>, \<open>verdict_store/\<close>, \<open>kill_bell/\<close>, \<open>rejudge.rs\<close>, \<open>auto_rejudge/\<close>.
    \<open>Autonomy_Lease\<close>: \<open>types/lease.rs\<close> and \<open>escalation/\<close>.
  \<^item> \<open>Review_Agents\<close>: \<open>parse.rs\<close>, \<open>llm/\<close>, \<open>prompt_builder.rs\<close> and \<open>reviewers/\<close> of \<open>jeryu-review\<close>.
    \<open>Review_Gate\<close>: its \<open>orchestrator/\<close>, \<open>conditions.rs\<close>, \<open>judge/\<close> and \<open>policy.rs\<close>.

  \<^bold>\<open>State and operations.\<close> A struct is a record with the fields of the struct, an enum a datatype,
  \<open>u64\<close>, \<open>u32\<close> and \<open>u8\<close> are words of their width, times are integers (nanoseconds where arithmetic
  needs a unit), strings are lists of bytes. Errors are values: an operation returns \<open>Inl e\<close> where the
  source returns \<open>Err(e)\<close>. An operation of the forge core is a function from the state to a result and
  the next state; \<open>f_commit\<close> is \<open>persist_after_mutation\<close>, which puts the previous state back when
  the store refuses. A \<open>HashMap\<close> is kept in key order; the sources only filter, search by unique
  identifiers or sort what they iterate over.

  \<^bold>\<open>Parameters.\<close> What is not in the sources is an argument: the clock, fresh identifiers, the store
  (accepting or refusing a state), Argon2, SHA-256, HMAC and the random source, the materializer
  that creates a repository on disk, the Git observer, the JSON codecs, the failures of the SQL
  engine and of the file system, BLAKE3, ed25519, the source of evidence and reviews, language
  model providers, regular expression search, and the webhook transport. The readings of one call are indexed by where they are taken. Two simplifications: the
  expiry of one credential is read once per call, and an operation sees the state it locks together
  with a second, arbitrary state from which its admission hints were taken before. Properties
  that need a faithful codec or a monotone identifier supply say so as a hypothesis.

  \<^bold>\<open>Loops and bounds.\<close> Every loop is structural recursion, a fold or a \<open>function\<close> with a proved
  measure; there is no fuel. \<open>room\<close> states that the issue and pull counters of a state are below
  their largest value, beyond which the increment wraps; it is a condition of every step of a run.

  \<^bold>\<open>What the lemmas show.\<close>
  \<^item> Leases: an invariant of every reachable book, fencing by epoch and lease, exclusivity, the expiry
    sweep against a single pass, a budget that every change lowers, and absorbing final states.
  \<^item> Compiler: which inputs are accepted, the jobs and edges they give, what no input can ask for, and
    that the schedule of a compiled workflow respects its needs.
  \<^item> Schedules: soundness, completeness (a cycle is the only failure), optimal depth and
    independence of the order of the input.
  \<^item> Registry: epochs fence earlier incarnations for good, capacity, snapshots round trip.
  \<^item> Runner: untrusted jobs are confined, selection is characterised on every input, job files
    round trip. Cache plans keep the trust boundary.
  \<^item> Proof engine and merge queue: witnesses cover what changed, merged entries are disjoint, the
    queue is exact and accepts what was proved.
  \<^item> Merge gate: mergeability characterised by its gates, the review reduction against its
    specification, rejections that stay, and the mergeability the core reports.
  \<^item> Runs of the core: refused calls change nothing; rows are typed by their keys, numbers fresh,
    nothing marked as merged; revocations, blocks and the bootstrap are for ever; deletion, transfer
    and retried creation do exactly what they say; audit scores are bounded.
  \<^item> Bound reviews: a challenge is consumed once, and a recorded verdict was authorised, fresh and
    at the live head.
  \<^item> Ref operations: one open operation per repository, outcomes that are never revised, one event
    per committed operation, replays that write nothing, and who may read a merge back.
  \<^item> Cache: a hit was authorised and has its digest even when files are tampered with; what was
    written can be restored in every later state. Git guard: what the wrapper ever executes.
  \<^item> Evidence gate: what an allowed merge rests on, that full auto lifts the human requirement only,
    that the kill bell holds, that rejudging replaces a verdict (through the contract of the verdict
    store), an append-only ledger, and leases whose globs equal a reference semantics.
  \<^item> Reviews: one bound and signed receipt per required role whatever fails, merges that rest on
    answers that passed, and a second judge equal to the first.

  \<^bold>\<open>Not modelled.\<close> The persistence layer (rows, migrations, file locks), the coordinator's locks,
  publisher commissioning and required attempts of the core; the YAML loaders, passports and intent
  cards of the evidence gate; the Git daemon, HTTP, terminal and command line adapters; sandboxes,
  containers and processes; code indexing, the tool server and most release and tool crates. The
  adapters drive operating system interfaces and other programs and have little logic of their own;
  the resource governor decides on floating point measurements.
\<close>

section \<open>From the source text to the schedule\<close>

text \<open>
  C15. The front end and the scheduler agree on \<open>needs\<close>. A compiled workflow can be scheduled exactly
  when the needs its jobs declare have no cycle; the schedule then runs every parsed job exactly
  once, and a job that is needed runs in a round before each job that needs it.
\<close>

theorem compiled_needs_run_first:
  assumes "compile_ci input kind cx = Ok p" and "parsed_jobs input kind cx = Ok ps"
  shows "((\<exists>s. deterministic_schedule p = Ok s) \<longleftrightarrow> acyclic (declared_needs ps))
       \<and> (\<forall>s. deterministic_schedule p = Ok s \<longrightarrow>
            mset (concat (map sr_jobs (rounds s))) = mset (map (\<lambda>i. job_id (pj_job i)) ps)
          \<and> (\<forall>a b. a \<in> set ps \<longrightarrow> b \<in> set ps \<longrightarrow> pj_origin a \<in> set (pj_needs b) \<longrightarrow>
               (\<exists>i k. i < k \<and> k < length (rounds s) \<and> job_id (pj_job a) \<in> set (sr_jobs (rounds s ! i))
                  \<and> job_id (pj_job b) \<in> set (sr_jobs (rounds s ! k)))))"
proof -
  note c = compiled_edges [OF assms]
  have rel: "edge_rel (pl_edges p) = declared_needs ps" using c(1) by (simp add: edge_rel_def)
  have ids: "mset (map job_id (pl_jobs p)) = mset (map (\<lambda>i. job_id (pj_job i)) ps)"
    using c(3) by (simp add: multiset.map_comp comp_def)
  have order: "\<exists>i k. i < k \<and> k < length (rounds s) \<and> job_id (pj_job a) \<in> set (sr_jobs (rounds s ! i))
      \<and> job_id (pj_job b) \<in> set (sr_jobs (rounds s ! k))"
    if "deterministic_schedule p = Ok s" "a \<in> set ps" "b \<in> set ps" "pj_origin a \<in> set (pj_needs b)" for s a b
    using that by (intro schedule_order [OF that(1)]) (auto simp: rel declared_needs_def)
  show ?thesis
    using schedule_exists [OF c(2)] schedule_mset [of p] ids order by (simp add: rel)
qed

theorem compiled_needs_run_first_witness:
  "\<exists>p s. compile_ci sample_toml KindNativeToml sample_cx = Ok p \<and> deterministic_schedule p = Ok s"
proof -
  obtain p where p: "compile_ci sample_toml KindNativeToml sample_cx = Ok p" using sample_toml_compiles ..
  obtain ps where parsed: "parsed_jobs sample_toml KindNativeToml sample_cx = Ok ps"
    by (rule sample_toml_parsed)
  have "acyclic {(''fmt'', ''test'')}" by (simp only: acyclic_insert) (simp add: acyclic_def)
  then show ?thesis
    using compiled_needs_run_first [OF p parsed] p sample_toml_needs [OF parsed] by auto
qed

section \<open>Registry and leases\<close>


definition sample_result :: "u64 \<Rightarrow> JobResult" where
  "sample_result e =
     \<lparr>rs_runner_id = ''n1'', rs_runner_epoch = e, rs_run_id = ''run-1'', rs_lease_id = ''l'',
      rs_job_id = ''build'', rs_outcome = Success, rs_exit_code = Some 0, rs_started_at_millis = 0,
      rs_finished_at_millis = 5, rs_artifact_digests = [], rs_cache_receipts = [], rs_log_digest = []\<rparr>"


section \<open>The two notions of trust\<close>

text \<open>
  The pipeline representation and the runner have trust tiers of their own; a pipeline's tier
  reaches the runner as its label.
\<close>

fun core_tier_of :: "TrustTier \<Rightarrow> CoreTier" where
  "core_tier_of ReleaseHermetic = T0ReleaseHermetic"
| "core_tier_of ProtectedInternal = T1ProtectedInternal"
| "core_tier_of InternalBranch = T2InternalBranch"
| "core_tier_of AgentAuthored = T3AgentAuthored"
| "core_tier_of ForkPr = T4ForkPr"
| "core_tier_of PublicUntrusted = T5PublicUntrusted"

text \<open>
  The two crates agree on tiers. Each reads the other's label as the tier of the same number,
  and a tier at which the runner denies compiled-cache writes is exactly one at which the cache
  plan of a pipeline job has no writable cache outside the job's own tmpfs.
\<close>

theorem tiers_agree:
  "core_tier_from_str (tier_as_str t) = Ok (core_tier_of t)
   \<and> tier_from_str (core_tier_as_str (core_tier_of t)) = Ok t
   \<and> (tier_cache_policy (core_tier_of t) = CacheDeny
        \<longleftrightarrow> \<not> list_ex (\<lambda>d. cd_write_allowed d \<and> cd_scope d \<noteq> JobTmpfs)
              (cp_decisions (plan_cache_for_job job t)))"
proof (intro conjI)
  show "core_tier_from_str (tier_as_str t) = Ok (core_tier_of t)" by (cases t; hypsubst; code_simp)
  show "tier_from_str (core_tier_as_str (core_tier_of t)) = Ok t" by (cases t; hypsubst; code_simp)
  show "tier_cache_policy (core_tier_of t) = CacheDeny
        \<longleftrightarrow> \<not> list_ex (\<lambda>d. cd_write_allowed d \<and> cd_scope d \<noteq> JobTmpfs)
              (cp_decisions (plan_cache_for_job job t))"
    by (cases t) (simp_all add: plan_cache_for_job_def decision_defs)
qed

text \<open>They do not agree on internal branches: the plan promotes what the runner quarantines.\<close>

lemma internal_branch_policies_differ:
  "tier_cache_policy (core_tier_of InternalBranch) = CacheQuarantine
   \<and> list_ex (\<lambda>d. cd_scope d = RepoCompiledCas \<and> cd_write_allowed d \<and> \<not> cd_quarantine d
        \<and> cd_promote_after_green d) (cp_decisions (plan_cache_for_job job InternalBranch))"
  by (simp add: plan_cache_for_job_def decision_defs)

end
